(* ===== verification/Prelude.thy ===== *)
theory Prelude
  imports Main "HOL-Library.Multiset" "HOL-Library.Word" "HOL-Library.Sublist"
    "HOL-Library.Char_ord" "HOL-Library.List_Lexorder"
begin

text \<open>
  Shared ground of the development: the Go run time as the components use it.
  \<^item> run-time panics and the panic-or-value results (\<open>go_panic + 'a\<close>) with their bind;
  \<^item> the functions of Go's \<open>strings\<close> package on byte strings;
  \<^item> slice expressions with their bounds checks;
  \<^item> the contract of \<open>sort.Sort\<close> (locale \<open>go_sort\<close>), which is not stable and so is a
    parameter of every model that sorts, and the insertion sort that Go runs on short
    slices as an instance of it;
  \<^item> the lemma collections the component proofs use.
\<close>

named_theorems panic_simps \<open>evaluation of panic-or-value computations\<close>
named_theorems inv_intros \<open>preservation of component invariants\<close>

section \<open>Panics\<close>

datatype go_panic =
    TypeAssertionPanic
  | IndexOutOfRange
  | SliceBoundsOutOfRange
  | CloseOfClosedChannel
  | SendOnClosedChannel
  | NilDereference
  | NilMapAssignment

type_synonym 'a go = "go_panic + 'a"

definition gbind :: "'a go \<Rightarrow> ('a \<Rightarrow> 'b go) \<Rightarrow> 'b go" where
  "gbind m f = (case m of Inl p \<Rightarrow> Inl p | Inr x \<Rightarrow> f x)"

lemma gbind_simps [simp, panic_simps]:
  "gbind (Inl p) f = Inl p"
  "gbind (Inr x) f = f x"
  by (simp_all add: gbind_def)

lemma gbind_Inr_iff:
  "gbind m f = Inr y \<longleftrightarrow> (\<exists>x. m = Inr x \<and> f x = Inr y)"
  by (cases m) auto

lemma gbind_cong [fundef_cong]:
  "m = n \<Longrightarrow> (\<And>x. n = Inr x \<Longrightarrow> f x = g x) \<Longrightarrow> gbind m f = gbind n g"
  by (cases n) auto

section \<open>The strings package\<close>

text \<open>A Go string is a sequence of bytes, as is a HOL \<^typ>\<open>string\<close>; \<open>strings.Compare\<close>
  is the lexicographic order of the bytes.\<close>

definition strings_Compare :: "string \<Rightarrow> string \<Rightarrow> int" where
  "strings_Compare a b = (if a = b then 0 else if a < b then -1 else 1)"

definition strings_Contains :: "string \<Rightarrow> string \<Rightarrow> bool" where
  "strings_Contains s sub = sublist sub s"

definition strings_HasPrefix :: "string \<Rightarrow> string \<Rightarrow> bool" where
  "strings_HasPrefix s p = prefix p s"

definition strings_HasSuffix :: "string \<Rightarrow> string \<Rightarrow> bool" where
  "strings_HasSuffix s p = suffix p s"

text \<open>\<open>strings.SplitN(s, sep, 2)\<close> for a separator of one byte.\<close>

definition strings_SplitN2 :: "char \<Rightarrow> string \<Rightarrow> string list" where
  "strings_SplitN2 c s =
     (case dropWhile (\<lambda>x. x \<noteq> c) s of
        [] \<Rightarrow> [s]
      | _ # r \<Rightarrow> [takeWhile (\<lambda>x. x \<noteq> c) s, r])"

fun strings_Join :: "string list \<Rightarrow> string \<Rightarrow> string" where
  "strings_Join [] sep = []"
| "strings_Join [x] sep = x"
| "strings_Join (x # y # zs) sep = x @ sep @ strings_Join (y # zs) sep"

lemma strings_Compare_eq_0 [simp]: "strings_Compare a b = 0 \<longleftrightarrow> a = b"
  by (simp add: strings_Compare_def)

lemma strings_Compare_neg [simp]: "strings_Compare a b < 0 \<longleftrightarrow> a < b"
  by (auto simp: strings_Compare_def)

lemma strings_Compare_minus1 [simp]: "strings_Compare a b = -1 \<longleftrightarrow> a < b"
  by (auto simp: strings_Compare_def)

lemma strings_Compare_1 [simp]: "strings_Compare a b = 1 \<longleftrightarrow> b < a"
  by (auto simp: strings_Compare_def)

lemma dropWhile_neq_join:
  "c \<notin> set a \<Longrightarrow> dropWhile (\<lambda>x. x \<noteq> c) (a @ c # b) = c # b"
  by (induction a) auto

lemma takeWhile_neq_join:
  "c \<notin> set a \<Longrightarrow> takeWhile (\<lambda>x. x \<noteq> c) (a @ c # b) = a"
  by (induction a) auto

lemma strings_SplitN2_join:
  "c \<notin> set a \<Longrightarrow> strings_SplitN2 c (a @ c # b) = [a, b]"
  by (simp add: strings_SplitN2_def dropWhile_neq_join takeWhile_neq_join)

lemma strings_SplitN2_absent:
  "c \<notin> set s \<Longrightarrow> strings_SplitN2 c s = [s]"
proof -
  assume "c \<notin> set s"
  then have "dropWhile (\<lambda>x. x \<noteq> c) s = []" by (induction s) auto
  then show ?thesis unfolding strings_SplitN2_def by (simp only: list.case)
qed

text \<open>\<open>strconv.Itoa\<close>, which \<open>%d\<close> prints.\<close>

fun show_nat :: "nat \<Rightarrow> string" where
  "show_nat n = (if n < 10 then [''0123456789'' ! n] else show_nat (n div 10) @ [''0123456789'' ! (n mod 10)])"

declare show_nat.simps [simp del]

definition show_int :: "int \<Rightarrow> string" where
  "show_int i = (if i < 0 then CHR ''-'' # show_nat (nat (- i)) else show_nat (nat i))"

section \<open>Errors\<close>

text \<open>\<open>errors.Wrap\<close>: a nil error stays nil.\<close>

definition errors_Wrap :: "string \<Rightarrow> string option \<Rightarrow> string option" where
  "errors_Wrap msg err = map_option (\<lambda>e. msg @ '': '' @ e) err"

lemma errors_Wrap_None [simp]: "errors_Wrap msg None = None" "errors_Wrap msg e = None \<longleftrightarrow> e = None"
  by (simp_all add: errors_Wrap_def)

text \<open>A call that returns an error or a value, or panics.\<close>

type_synonym 'a validation = "(string + 'a) go"

definition vbind :: "'a validation \<Rightarrow> ('a \<Rightarrow> 'b validation) \<Rightarrow> 'b validation" where
  "vbind x f = (case x of Inl p \<Rightarrow> Inl p | Inr (Inl err) \<Rightarrow> Inr (Inl err) | Inr (Inr a) \<Rightarrow> f a)"

lemma vbind_simps [simp]:
  "vbind (Inl p) f = Inl p" "vbind (Inr (Inl err)) f = Inr (Inl err)" "vbind (Inr (Inr a)) f = f a"
  by (simp_all add: vbind_def)

lemma vbind_Inr_Inr: "vbind x f = Inr (Inr b) \<longleftrightarrow> (\<exists>a. x = Inr (Inr a) \<and> f a = Inr (Inr b))"
  by (auto simp: vbind_def split: sum.splits)

lemma vbind_Inl: "vbind x f = Inl p \<longleftrightarrow> x = Inl p \<or> (\<exists>a. x = Inr (Inr a) \<and> f a = Inl p)"
  by (auto simp: vbind_def split: sum.splits)

section \<open>Slice expressions\<close>

definition slice_from :: "'a list \<Rightarrow> int \<Rightarrow> 'a list go" where
  "slice_from xs i =
     (if 0 \<le> i \<and> i \<le> int (length xs) then Inr (drop (nat i) xs) else Inl SliceBoundsOutOfRange)"

definition slice_upto :: "'a list \<Rightarrow> int \<Rightarrow> 'a list go" where
  "slice_upto xs i =
     (if 0 \<le> i \<and> i \<le> int (length xs) then Inr (take (nat i) xs) else Inl SliceBoundsOutOfRange)"

section \<open>sort.Sort\<close>

text \<open>
  \<open>sort.Sort\<close> calls \<open>Less\<close> and \<open>Swap\<close> only. A strict weak order is what its documentation
  asks of \<open>Less\<close>.
\<close>

definition strict_weak_on :: "'a set \<Rightarrow> ('a \<Rightarrow> 'a \<Rightarrow> bool) \<Rightarrow> bool" where
  "strict_weak_on A p \<longleftrightarrow>
     (\<forall>a\<in>A. \<forall>b\<in>A. p a b \<longrightarrow> \<not> p b a) \<and>
     (\<forall>a\<in>A. \<forall>b\<in>A. \<forall>c\<in>A. p a c \<longrightarrow> p a b \<or> p b c)"

lemma strict_weak_onI:
  "(\<And>a b. a \<in> A \<Longrightarrow> b \<in> A \<Longrightarrow> p a b \<Longrightarrow> \<not> p b a) \<Longrightarrow>
   (\<And>a b c. a \<in> A \<Longrightarrow> b \<in> A \<Longrightarrow> c \<in> A \<Longrightarrow> p a c \<Longrightarrow> p a b \<or> p b c) \<Longrightarrow> strict_weak_on A p"
  by (auto simp: strict_weak_on_def)

lemma strict_weak_on_asym:
  "strict_weak_on A p \<Longrightarrow> a \<in> A \<Longrightarrow> b \<in> A \<Longrightarrow> p a b \<Longrightarrow> \<not> p b a"
  by (auto simp: strict_weak_on_def)

lemma strict_weak_on_negtrans:
  "strict_weak_on A p \<Longrightarrow> a \<in> A \<Longrightarrow> b \<in> A \<Longrightarrow> c \<in> A \<Longrightarrow> \<not> p a b \<Longrightarrow> \<not> p b c \<Longrightarrow> \<not> p a c"
  unfolding strict_weak_on_def by blast

lemma strict_weak_on_subset:
  "strict_weak_on A p \<Longrightarrow> B \<subseteq> A \<Longrightarrow> strict_weak_on B p"
  unfolding strict_weak_on_def by (meson subsetD)

lemma strict_weak_on_trans:
  assumes "strict_weak_on A p" "a \<in> A" "b \<in> A" "c \<in> A" "p a b" "p b c"
  shows "p a c"
  using strict_weak_on_asym [OF assms(1,3,4)] assms strict_weak_on_negtrans [OF assms(1,2,4,3)] by blast

type_synonym 'a go_less = "'a \<Rightarrow> 'a \<Rightarrow> bool go"
type_synonym 'a go_sorter = "'a go_less \<Rightarrow> 'a list \<Rightarrow> 'a list go"

text \<open>\<open>decides_on A lt p\<close>: on \<open>A\<close> the comparison does not panic and is \<open>p\<close>.\<close>

definition decides_on :: "'a set \<Rightarrow> 'a go_less \<Rightarrow> ('a \<Rightarrow> 'a \<Rightarrow> bool) \<Rightarrow> bool" where
  "decides_on A lt p \<longleftrightarrow> (\<forall>a\<in>A. \<forall>b\<in>A. lt a b = Inr (p a b))"

lemma decides_onI:
  "(\<And>a b. a \<in> A \<Longrightarrow> b \<in> A \<Longrightarrow> lt a b = Inr (p a b)) \<Longrightarrow> decides_on A lt p"
  by (simp add: decides_on_def)

lemma decides_onD: "decides_on A lt p \<Longrightarrow> a \<in> A \<Longrightarrow> b \<in> A \<Longrightarrow> lt a b = Inr (p a b)"
  by (simp add: decides_on_def)

text \<open>
  The contract: a slice of at most one element is left alone without calling \<open>Less\<close>; a
  \<open>Less\<close> that does not panic on the elements gives a permutation, sorted when it is a
  strict weak order; a slice of two or more elements has at least one call of \<open>Less\<close>, so
  a \<open>Less\<close> that panics on all of them panics.
\<close>

locale go_sort =
  fixes srt :: "'a go_sorter"
  assumes sort_short: "length xs \<le> 1 \<Longrightarrow> srt lt xs = Inr xs"
    and sort_perm: "decides_on (set xs) lt p \<Longrightarrow> \<exists>ys. srt lt xs = Inr ys \<and> mset ys = mset xs"
    and sort_sorted: "decides_on (set xs) lt p \<Longrightarrow> strict_weak_on (set xs) p \<Longrightarrow>
           srt lt xs = Inr ys \<Longrightarrow> sorted_wrt (\<lambda>a b. \<not> p b a) ys"
    and sort_panic: "(\<forall>a\<in>set xs. \<forall>b\<in>set xs. lt a b = Inl e) \<Longrightarrow> 2 \<le> length xs \<Longrightarrow> srt lt xs = Inl e"
begin

lemma sort_ok:
  assumes "decides_on (set xs) lt p" "strict_weak_on (set xs) p"
  obtains ys where "srt lt xs = Inr ys" "mset ys = mset xs" "sorted_wrt (\<lambda>a b. \<not> p b a) ys"
  using sort_perm [OF assms(1)] sort_sorted [OF assms] by blast

end

subsection \<open>The insertion sort Go runs on short slices\<close>

text \<open>\<open>insertionSort\<close> of package \<open>sort\<close> moves \<open>data[i]\<close> left while \<open>Less(j, j-1)\<close>; the
  sorted prefix is held reversed, so that its last element is the head.\<close>

fun go_insert :: "'a go_less \<Rightarrow> 'a \<Rightarrow> 'a list \<Rightarrow> 'a list go" where
  "go_insert lt x [] = Inr [x]"
| "go_insert lt x (y # ys) =
     gbind (lt x y) (\<lambda>b.
       if b then gbind (go_insert lt x ys) (\<lambda>zs. Inr (y # zs)) else Inr (x # y # ys))"

fun go_insertion :: "'a go_less \<Rightarrow> 'a list \<Rightarrow> 'a list \<Rightarrow> 'a list go" where
  "go_insertion lt acc [] = Inr (rev acc)"
| "go_insertion lt acc (x # xs) = gbind (go_insert lt x acc) (\<lambda>acc'. go_insertion lt acc' xs)"

definition insertionSort :: "'a go_sorter" where
  "insertionSort lt xs = go_insertion lt [] xs"

lemma go_insert_ok:
  assumes "decides_on A lt p" "x \<in> A" "set ys \<subseteq> A"
  shows "\<exists>zs. go_insert lt x ys = Inr zs \<and> mset zs = add_mset x (mset ys)"
  using assms(3)
proof (induction ys)
  case (Cons y ys)
  then obtain zs where "go_insert lt x ys = Inr zs" "mset zs = add_mset x (mset ys)" by auto
  moreover from Cons.prems assms(1,2) have "lt x y = Inr (p x y)" by (simp add: decides_onD)
  ultimately show ?case by (cases "p x y") auto
qed simp

lemma go_insert_mset:
  assumes "decides_on A lt p" "x \<in> A" "set ys \<subseteq> A" "go_insert lt x ys = Inr zs"
  shows "mset zs = add_mset x (mset ys)" "set zs = insert x (set ys)"
proof -
  show m: "mset zs = add_mset x (mset ys)"
    using go_insert_ok [OF assms(1-3)] assms(4) by auto
  then show "set zs = insert x (set ys)"
    by (metis set_mset_add_mset_insert set_mset_mset)
qed

lemma go_insert_sorted:
  assumes "decides_on A lt p" "strict_weak_on A p" "x \<in> A"
  shows "set ys \<subseteq> A \<Longrightarrow> sorted_wrt (\<lambda>a b. \<not> p a b) ys \<Longrightarrow> go_insert lt x ys = Inr zs \<Longrightarrow>
    sorted_wrt (\<lambda>a b. \<not> p a b) zs"
proof (induction ys arbitrary: zs)
  case (Cons y ys)
  have y: "y \<in> A" "set ys \<subseteq> A" using Cons.prems(1) by auto
  have lt: "lt x y = Inr (p x y)" using assms(1,3) y by (simp add: decides_onD)
  show ?case
  proof (cases "p x y")
    case True
    with lt Cons.prems(3) obtain ws where ws: "go_insert lt x ys = Inr ws" "zs = y # ws"
      by (auto simp: gbind_Inr_iff)
    have "set ws = insert x (set ys)"
      using go_insert_mset(2) [OF assms(1,3) y(2) ws(1)] .
    moreover have "\<not> p y x" using True assms(2,3) y by (blast dest: strict_weak_on_asym)
    ultimately show ?thesis using Cons.IH [OF y(2) _ ws(1)] Cons.prems(2) ws(2) by auto
  next
    case False
    have "\<not> p x z" if "z \<in> set ys" for z
    proof (rule strict_weak_on_negtrans [OF assms(2,3) y(1) _ False])
      show "z \<in> A" using that y by blast
      show "\<not> p y z" using that Cons.prems(2) by simp
    qed
    with False lt Cons.prems show ?thesis by auto
  qed
qed simp

lemma go_insertion_ok:
  assumes "decides_on A lt p"
  shows "set acc \<subseteq> A \<Longrightarrow> set xs \<subseteq> A \<Longrightarrow>
    \<exists>ys. go_insertion lt acc xs = Inr ys \<and> mset ys = mset acc + mset xs"
proof (induction xs arbitrary: acc)
  case (Cons x xs)
  then obtain zs where zs: "go_insert lt x acc = Inr zs"
    using go_insert_ok [OF assms, of x acc] by auto
  note m = go_insert_mset [OF assms _ Cons.prems(1) zs]
  have "set zs \<subseteq> A" "set xs \<subseteq> A" using m(2) Cons.prems by auto
  then obtain ys where "go_insertion lt zs xs = Inr ys" "mset ys = mset zs + mset xs"
    using Cons.IH by blast
  then show ?case using zs m(1) Cons.prems by auto
qed simp

lemma go_insertion_sorted:
  assumes "decides_on A lt p" "strict_weak_on A p"
  shows "set acc \<subseteq> A \<Longrightarrow> set xs \<subseteq> A \<Longrightarrow> sorted_wrt (\<lambda>a b. \<not> p a b) acc \<Longrightarrow>
    go_insertion lt acc xs = Inr ys \<Longrightarrow> sorted_wrt (\<lambda>a b. \<not> p b a) ys"
proof (induction xs arbitrary: acc)
  case Nil
  then show ?case by (auto simp: sorted_wrt_rev)
next
  case (Cons x xs)
  from Cons.prems(4) obtain zs where zs: "go_insert lt x acc = Inr zs"
      "go_insertion lt zs xs = Inr ys" by (auto simp: gbind_Inr_iff)
  have x: "x \<in> A" "set xs \<subseteq> A" using Cons.prems(2) by auto
  then have "set zs \<subseteq> A"
    using go_insert_mset(2) [OF assms(1) x(1) Cons.prems(1) zs(1)] Cons.prems(1) by auto
  moreover have "sorted_wrt (\<lambda>a b. \<not> p a b) zs"
    by (rule go_insert_sorted [OF assms x(1) Cons.prems(1,3) zs(1)])
  ultimately show ?case using Cons.IH zs(2) x(2) by simp
qed

interpretation insertion: go_sort insertionSort
proof unfold_locales
  fix xs :: "'a list" and lt e and p :: "'a \<Rightarrow> 'a \<Rightarrow> bool" and ys :: "'a list"
  show "insertionSort lt xs = Inr xs" if "length xs \<le> 1"
    using that by (cases xs) (auto simp: insertionSort_def)
  show "insertionSort lt xs = Inl e"
    if "\<forall>a\<in>set xs. \<forall>b\<in>set xs. lt a b = Inl e" "2 \<le> length xs"
    using that by (cases xs; cases "tl xs") (auto simp: insertionSort_def)
  assume lt: "decides_on (set xs) lt p"
  show "\<exists>ys. insertionSort lt xs = Inr ys \<and> mset ys = mset xs"
    using go_insertion_ok [OF lt, of "[]" xs] by (auto simp: insertionSort_def)
  show "sorted_wrt (\<lambda>a b. \<not> p b a) ys"
    if "strict_weak_on (set xs) p" "insertionSort lt xs = Inr ys"
    using that go_insertion_sorted [OF lt, of "[]" xs ys] by (auto simp: insertionSort_def)
qed

end
