(* ===== verification/Comparable.thy ===== *)
theory Comparable
  imports Prelude
begin

text \<open>
  Package \<open>dataselect\<close>, the comparable values (\<open>stdcomparabletypes.go\<close>) and the selection
  queries (\<open>dataselectquery.go\<close>). A \<open>ComparableValue\<close> is a Go interface value; its dynamic
  type is the constructor here, so a failed type assertion \<open>otherV.(T)\<close> is the branch that
  panics. \<open>StdComparableEqualString\<close> embeds \<open>StdComparableString\<close> and overrides
  \<open>Contains\<close> only: its \<open>Compare\<close> is the promoted one, which asserts the other value to be
  a \<open>StdComparableString\<close>. (\<open>StdComparableRFC3339Timestamp\<close>, which no cell returns, is not
  modelled.)
\<close>

section \<open>Comparable values\<close>

datatype ComparableValue =
    StdComparableInt int
  | StdComparableString string
  | StdComparableEqualString string
  | StdComparableTime int

definition intsCompare :: "int \<Rightarrow> int \<Rightarrow> int" where
  "intsCompare a b = (if a > b then 1 else if a = b then 0 else -1)"

definition ints64Compare :: "int \<Rightarrow> int \<Rightarrow> int" where
  "ints64Compare a b = (if a > b then 1 else if a = b then 0 else -1)"

fun CV_Compare :: "ComparableValue \<Rightarrow> ComparableValue \<Rightarrow> int go" where
  "CV_Compare (StdComparableInt a) (StdComparableInt b) = Inr (intsCompare a b)"
| "CV_Compare (StdComparableString a) (StdComparableString b) = Inr (strings_Compare a b)"
| "CV_Compare (StdComparableEqualString a) (StdComparableString b) = Inr (strings_Compare a b)"
| "CV_Compare (StdComparableTime a) (StdComparableTime b) = Inr (ints64Compare a b)"
| "CV_Compare _ _ = Inl TypeAssertionPanic"

fun CV_Contains :: "ComparableValue \<Rightarrow> ComparableValue \<Rightarrow> bool go" where
  "CV_Contains (StdComparableString a) (StdComparableString b) = Inr (strings_Contains a b)"
| "CV_Contains (StdComparableString a) _ = Inl TypeAssertionPanic"
| "CV_Contains (StdComparableEqualString a) (StdComparableString b) = Inr (a = b)"
| "CV_Contains (StdComparableEqualString a) _ = Inl TypeAssertionPanic"
| "CV_Contains x y = gbind (CV_Compare x y) (\<lambda>c. Inr (c = 0))"

lemma intsCompare_iff [simp]:
  "intsCompare a b = 0 \<longleftrightarrow> a = b" "intsCompare a b = -1 \<longleftrightarrow> a < b" "intsCompare a b = 1 \<longleftrightarrow> b < a"
  by (auto simp: intsCompare_def)

lemma ints64Compare_iff [simp]:
  "ints64Compare a b = 0 \<longleftrightarrow> a = b" "ints64Compare a b = -1 \<longleftrightarrow> a < b" "ints64Compare a b = 1 \<longleftrightarrow> b < a"
  by (auto simp: ints64Compare_def)

text \<open>Two values can be ordered when \<open>Compare\<close> succeeds in both directions.\<close>

fun same_type :: "ComparableValue \<Rightarrow> ComparableValue \<Rightarrow> bool" where
  "same_type (StdComparableInt _) (StdComparableInt _) = True"
| "same_type (StdComparableString _) (StdComparableString _) = True"
| "same_type (StdComparableTime _) (StdComparableTime _) = True"
| "same_type _ _ = False"

text \<open>The pure order behind \<open>Compare\<close>.\<close>

fun cv_less :: "ComparableValue \<Rightarrow> ComparableValue \<Rightarrow> bool" where
  "cv_less (StdComparableInt a) (StdComparableInt b) = (a < b)"
| "cv_less (StdComparableString a) (StdComparableString b) = (a < b)"
| "cv_less (StdComparableTime a) (StdComparableTime b) = (a < b)"
| "cv_less _ _ = False"

lemma CV_Compare_same_type:
  assumes "same_type x y"
  obtains c where "CV_Compare x y = Inr c" "c = 0 \<longleftrightarrow> x = y" "c = -1 \<longleftrightarrow> cv_less x y"
    "c = 1 \<longleftrightarrow> cv_less y x"
  using assms by (cases x; cases y) auto

lemma same_type_linear:
  "same_type x y \<Longrightarrow> cv_less x y \<or> x = y \<or> cv_less y x"
  by (cases x; cases y) auto

lemma cv_less_asym: "cv_less x y \<Longrightarrow> \<not> cv_less y x"
  by (cases x; cases y) auto

lemma cv_less_irrefl [simp]: "\<not> cv_less x x"
  by (cases x) auto

lemma cv_less_trans: "cv_less x y \<Longrightarrow> cv_less y z \<Longrightarrow> cv_less x z"
  by (cases x; cases y; cases z) auto

section \<open>Selection queries\<close>

record SortBy =
  sort_Property :: string
  Ascending :: bool

record FilterBy =
  filter_Property :: string
  filter_Value :: ComparableValue

text \<open>The four queries are never nil pointers: every \<open>DataSelectQuery\<close> is made by
  \<open>NewDataSelectQuery\<close> from the constructors below.\<close>

record DataSelectQuery =
  SortByList :: "SortBy list"
  FilterByList :: "FilterBy list"
  LimitQuery :: int
  OffsetQuery :: int

definition NoSort :: "SortBy list" where "NoSort = []"
definition NoFilter :: "FilterBy list" where "NoFilter = []"
definition NoLimiter :: int where "NoLimiter = -1"
definition NoOffset :: int where "NoOffset = 0"

definition NewDataSelectQuery :: "SortBy list \<Rightarrow> FilterBy list \<Rightarrow> int \<Rightarrow> int \<Rightarrow> DataSelectQuery" where
  "NewDataSelectQuery s f l o1 =
     \<lparr>SortByList = s, FilterByList = f, LimitQuery = l, OffsetQuery = o1\<rparr>"

definition NoDataSelect :: DataSelectQuery where
  "NoDataSelect = NewDataSelectQuery NoSort NoFilter NoLimiter NoOffset"

text \<open>A nil slice is the empty list: it has even length and no iteration, so both reach the
  empty result.\<close>

fun NewSortQuery_loop :: "string list \<Rightarrow> SortBy list \<Rightarrow> SortBy list" where
  "NewSortQuery_loop (orderOption # propertyName # rest) sortByList =
     (if orderOption = ''a''
      then NewSortQuery_loop rest (sortByList @ [\<lparr>sort_Property = propertyName, Ascending = True\<rparr>])
      else if orderOption = ''d''
      then NewSortQuery_loop rest (sortByList @ [\<lparr>sort_Property = propertyName, Ascending = False\<rparr>])
      else NoSort)"
| "NewSortQuery_loop _ sortByList = sortByList"

definition NewSortQuery :: "string list \<Rightarrow> SortBy list" where
  "NewSortQuery sortByListRaw =
     (if odd (length sortByListRaw) then NoSort else NewSortQuery_loop sortByListRaw [])"

definition NewFilterBy :: "string \<Rightarrow> string \<Rightarrow> FilterBy" where
  "NewFilterBy property v = \<lparr>filter_Property = property, filter_Value = StdComparableString v\<rparr>"

fun NewFilterQuery_loop :: "string list \<Rightarrow> FilterBy list \<Rightarrow> FilterBy list" where
  "NewFilterQuery_loop (propertyName # propertyValue # rest) filterByList =
     NewFilterQuery_loop rest (filterByList @ [NewFilterBy propertyName propertyValue])"
| "NewFilterQuery_loop _ filterByList = filterByList"

definition NewFilterQuery :: "string list \<Rightarrow> FilterBy list" where
  "NewFilterQuery filterByListRaw =
     (if odd (length filterByListRaw) then NoFilter else NewFilterQuery_loop filterByListRaw [])"

definition FilterQuery_Append :: "FilterBy list \<Rightarrow> FilterBy list \<Rightarrow> FilterBy list" where
  "FilterQuery_Append f filters = f @ filters"

text \<open>What the raw options denote: the flattening of the parsed list.\<close>

fun flat_sort :: "SortBy list \<Rightarrow> string list" where
  "flat_sort [] = []"
| "flat_sort (s # ss) = (if Ascending s then ''a'' else ''d'') # sort_Property s # flat_sort ss"

lemma NewSortQuery_loop_flat:
  "NewSortQuery_loop (flat_sort ss) acc = acc @ ss"
  by (induction ss arbitrary: acc) auto

lemma even_flat_sort: "even (length (flat_sort ss))"
  by (induction ss) auto

text \<open>The sort options a client sends are parsed back: for every list of sort keys, the
  raw option list \<open>[order, property, ...]\<close> that spells it out parses to exactly that list.\<close>

theorem NewSortQuery_roundtrip: "NewSortQuery (flat_sort ss) = ss"
  by (simp add: NewSortQuery_def even_flat_sort NewSortQuery_loop_flat)

lemma NewSortQuery_loop_bad:
  "\<exists>i. 2 * i + 1 < length raw \<and> raw ! (2 * i) \<noteq> ''a'' \<and> raw ! (2 * i) \<noteq> ''d'' \<Longrightarrow>
   NewSortQuery_loop raw acc = NoSort"
proof (induction raw acc rule: NewSortQuery_loop.induct)
  case (1 orderOption propertyName rest acc)
  then obtain i where i: "2 * i + 1 < length (orderOption # propertyName # rest)"
      "(orderOption # propertyName # rest) ! (2 * i) \<noteq> ''a''"
      "(orderOption # propertyName # rest) ! (2 * i) \<noteq> ''d''" by blast
  show ?case
  proof (cases i)
    case 0
    with i show ?thesis by simp
  next
    case (Suc j)
    with i have "2 * j + 1 < length rest \<and> rest ! (2 * j) \<noteq> ''a'' \<and> rest ! (2 * j) \<noteq> ''d''" by simp
    then show ?thesis using 1 by (auto simp: NoSort_def)
  qed
qed auto

end
