(* ===== verification/DataSelect.thy ===== *)
theory DataSelect
  imports Comparable
begin

text \<open>
  Package \<open>dataselect\<close>, the selector (\<open>dataselect.go\<close>). A \<open>DataCell\<close> is an interface; the
  selector reads it through \<open>GetProperty\<close> only, so the model takes that method as the
  argument \<open>gp\<close> (\<open>None\<close> is the nil interface value). \<open>sort.Sort\<close> is the argument \<open>srt\<close>.
  The locale \<open>uniform_cells\<close> is what the selector needs of its cells: one property has values
  of one comparable type over the whole list. The theorems describe the whole pipeline
  \<open>Sort().Filter().Offset().Limit()\<close>.
\<close>

record 'c DataSelector =
  Total :: int
  GenericDataList :: "'c list"
  Query :: DataSelectQuery

type_synonym 'c getter = "'c \<Rightarrow> string \<Rightarrow> ComparableValue option"

fun Less_loop :: "'c getter \<Rightarrow> SortBy list \<Rightarrow> 'c \<Rightarrow> 'c \<Rightarrow> bool go" where
  "Less_loop gp [] a b = Inr False"
| "Less_loop gp (sortBy # rest) a b =
     (case (gp a (sort_Property sortBy), gp b (sort_Property sortBy)) of
        (Some x, Some y) \<Rightarrow>
          gbind (CV_Compare x y) (\<lambda>cmp.
            if cmp = 0 then Less_loop gp rest a b
            else Inr ((cmp = -1 \<and> Ascending sortBy) \<or> (cmp = 1 \<and> \<not> Ascending sortBy)))
      | _ \<Rightarrow> Inr False)"

definition DS_Less :: "'c getter \<Rightarrow> DataSelectQuery \<Rightarrow> 'c \<Rightarrow> 'c \<Rightarrow> bool go" where
  "DS_Less gp q = Less_loop gp (SortByList q)"

definition DS_Sort :: "'c go_sorter \<Rightarrow> 'c getter \<Rightarrow> 'c DataSelector \<Rightarrow> 'c DataSelector go" where
  "DS_Sort srt gp s =
     gbind (srt (DS_Less gp (Query s)) (GenericDataList s))
       (\<lambda>ys. Inr (s\<lparr>GenericDataList := ys\<rparr>))"

text \<open>The inner loop of \<open>Filter\<close> goes on after a mismatch (\<open>continue\<close>), so that a later
  filter can still panic.\<close>

fun Filter_matches :: "'c getter \<Rightarrow> FilterBy list \<Rightarrow> 'c \<Rightarrow> bool \<Rightarrow> bool go" where
  "Filter_matches gp [] c matches = Inr matches"
| "Filter_matches gp (filterBy # rest) c matches =
     (case gp c (filter_Property filterBy) of
        None \<Rightarrow> Filter_matches gp rest c False
      | Some v \<Rightarrow>
          gbind (CV_Contains v (filter_Value filterBy)) (\<lambda>ok.
            Filter_matches gp rest c (if ok then matches else False)))"

fun Filter_cells :: "'c getter \<Rightarrow> FilterBy list \<Rightarrow> 'c list \<Rightarrow> 'c list \<Rightarrow> 'c list go" where
  "Filter_cells gp fs [] filteredList = Inr filteredList"
| "Filter_cells gp fs (c # cs) filteredList =
     gbind (Filter_matches gp fs c True) (\<lambda>matches.
       Filter_cells gp fs cs (if matches then filteredList @ [c] else filteredList))"

definition DS_Filter :: "'c getter \<Rightarrow> 'c DataSelector \<Rightarrow> 'c DataSelector go" where
  "DS_Filter gp s =
     gbind (Filter_cells gp (FilterByList (Query s)) (GenericDataList s) []) (\<lambda>filteredList.
       Inr (s\<lparr>GenericDataList := filteredList, Total := int (length filteredList)\<rparr>))"

definition DS_Limit :: "'c DataSelector \<Rightarrow> 'c DataSelector go" where
  "DS_Limit s =
     (let limit = LimitQuery (Query s) in
      if limit < 0 then Inr s
      else if Total s > limit \<and> limit \<le> int (length (GenericDataList s))
      then gbind (slice_upto (GenericDataList s) limit) (\<lambda>l. Inr (s\<lparr>GenericDataList := l\<rparr>))
      else Inr s)"

definition DS_Offset :: "'c DataSelector \<Rightarrow> 'c DataSelector go" where
  "DS_Offset s =
     (let offset = OffsetQuery (Query s) in
      if offset = 0 then Inr s
      else if Total s > offset
      then gbind (slice_from (GenericDataList s) offset) (\<lambda>l. Inr (s\<lparr>GenericDataList := l\<rparr>))
      else Inr (s\<lparr>GenericDataList := []\<rparr>))"

record ListMeta =
  lm_Total :: int
  lm_Limit :: int
  lm_Offset :: int

definition DS_ListMeta :: "'c DataSelector \<Rightarrow> ListMeta" where
  "DS_ListMeta s =
     \<lparr>lm_Total = Total s, lm_Limit = LimitQuery (Query s), lm_Offset = OffsetQuery (Query s)\<rparr>"

definition GenericDataSelector ::
  "'c go_sorter \<Rightarrow> 'c getter \<Rightarrow> 'c list \<Rightarrow> DataSelectQuery \<Rightarrow> 'c DataSelector go" where
  "GenericDataSelector srt gp dataList dsQuery =
     gbind (DS_Sort srt gp
              \<lparr>Total = int (length dataList), GenericDataList = dataList, Query = dsQuery\<rparr>) (\<lambda>s1.
     gbind (DS_Filter gp s1) (\<lambda>s2.
     gbind (DS_Offset s2) DS_Limit))"

section \<open>The order of the selector\<close>

fun less_spec :: "'c getter \<Rightarrow> SortBy list \<Rightarrow> 'c \<Rightarrow> 'c \<Rightarrow> bool" where
  "less_spec gp [] a b = False"
| "less_spec gp (s # rest) a b =
     (case (gp a (sort_Property s), gp b (sort_Property s)) of
        (Some x, Some y) \<Rightarrow>
          (if x = y then less_spec gp rest a b
           else if Ascending s then cv_less x y else cv_less y x)
      | _ \<Rightarrow> False)"

text \<open>What the selector needs of a list of cells and of the properties it is sorted by.\<close>

definition comparable :: "ComparableValue option \<Rightarrow> ComparableValue option \<Rightarrow> bool" where
  "comparable u v \<longleftrightarrow>
     (case (u, v) of (None, None) \<Rightarrow> True | (Some x, Some y) \<Rightarrow> same_type x y | _ \<Rightarrow> False)"

locale uniform_cells =
  fixes gp :: "'c getter" and C :: "'c set" and P :: "string set"
  assumes uniform: "c \<in> C \<Longrightarrow> d \<in> C \<Longrightarrow> p \<in> P \<Longrightarrow> comparable (gp c p) (gp d p)"
begin

lemma uniform_cases:
  assumes "c \<in> C" "d \<in> C" "p \<in> P"
  obtains (nil) "gp c p = None" "gp d p = None"
    | (vals) x y where "gp c p = Some x" "gp d p = Some y" "same_type x y"
  using uniform [OF assms] by (auto simp: comparable_def split: option.splits)

lemma Less_decides:
  assumes "sort_Property ` set ss \<subseteq> P"
  shows "decides_on C (Less_loop gp ss) (less_spec gp ss)"
proof (rule decides_onI)
  fix a b assume ab: "a \<in> C" "b \<in> C"
  show "Less_loop gp ss a b = Inr (less_spec gp ss a b)"
    using assms
  proof (induction ss)
    case (Cons s ss)
    then have p: "sort_Property s \<in> P" by simp
    have IH: "Less_loop gp ss a b = Inr (less_spec gp ss a b)" using Cons by simp
    from ab p show ?case
    proof (cases rule: uniform_cases)
      case (vals x y)
      from vals(3) obtain c where "CV_Compare x y = Inr c" "c = 0 \<longleftrightarrow> x = y"
          "c = -1 \<longleftrightarrow> cv_less x y" "c = 1 \<longleftrightarrow> cv_less y x"
        by (rule CV_Compare_same_type)
      with vals IH same_type_linear [OF vals(3)] cv_less_asym show ?thesis by auto
    qed auto
  qed simp
qed

lemma less_spec_asym:
  assumes "sort_Property ` set ss \<subseteq> P" "a \<in> C" "b \<in> C"
  shows "less_spec gp ss a b \<Longrightarrow> \<not> less_spec gp ss b a"
  using assms(1)
proof (induction ss)
  case (Cons s ss)
  then have p: "sort_Property s \<in> P" by simp
  from assms(2,3) p show ?case
  proof (cases rule: uniform_cases)
    case (vals x y)
    with Cons cv_less_asym show ?thesis by (auto split: if_splits)
  qed (use Cons in auto)
qed simp

lemma less_spec_negtrans:
  assumes "sort_Property ` set ss \<subseteq> P" "a \<in> C" "b \<in> C" "c \<in> C"
  shows "less_spec gp ss a c \<Longrightarrow> less_spec gp ss a b \<or> less_spec gp ss b c"
  using assms(1)
proof (induction ss)
  case (Cons s ss)
  then have p: "sort_Property s \<in> P" by simp
  from assms(2,3) p show ?case
  proof (cases rule: uniform_cases)
    case (vals x y)
    note ab = vals
    from assms(3,4) p show ?thesis
    proof (cases rule: uniform_cases)
      case (vals y' z)
      with ab have eq: "y' = y" by simp
      have "same_type x z" using ab(3) vals(3) eq by (cases x; cases y; cases z) auto
      with ab vals eq Cons same_type_linear cv_less_trans show ?thesis
        by (auto split: if_splits dest: cv_less_trans)
    qed (use ab in auto)
  next
    case nil
    with Cons.prems show ?thesis by (auto split: option.splits)
  qed
qed simp

lemma less_spec_strict_weak:
  assumes "sort_Property ` set ss \<subseteq> P"
  shows "strict_weak_on C (less_spec gp ss)"
  using less_spec_asym less_spec_negtrans assms by (intro strict_weak_onI) blast+

end

section \<open>Filtering\<close>

text \<open>A filter list is harmless on a set of cells when no \<open>Contains\<close> it can call panics.\<close>

definition safe_filters :: "'c getter \<Rightarrow> FilterBy list \<Rightarrow> 'c set \<Rightarrow> bool" where
  "safe_filters gp fs C \<longleftrightarrow>
     (\<forall>c\<in>C. \<forall>f\<in>set fs. \<forall>v. gp c (filter_Property f) = Some v \<longrightarrow>
        (\<exists>b. CV_Contains v (filter_Value f) = Inr b))"

definition selected :: "'c getter \<Rightarrow> FilterBy list \<Rightarrow> 'c \<Rightarrow> bool" where
  "selected gp fs c \<longleftrightarrow>
     (\<forall>f\<in>set fs. \<exists>v. gp c (filter_Property f) = Some v \<and> CV_Contains v (filter_Value f) = Inr True)"

lemma Filter_matches_eq:
  assumes "safe_filters gp fs C" "c \<in> C"
  shows "Filter_matches gp fs c m = Inr (m \<and> selected gp fs c)"
  using assms(1)
proof (induction fs arbitrary: m)
  case (Cons f fs)
  then have IH: "\<And>m. Filter_matches gp fs c m = Inr (m \<and> selected gp fs c)"
    by (simp add: safe_filters_def)
  show ?case
  proof (cases "gp c (filter_Property f)")
    case (Some v)
    with Cons.prems assms(2) have "\<exists>b. CV_Contains v (filter_Value f) = Inr b"
      unfolding safe_filters_def by (meson list.set_intros(1))
    then obtain b where b: "CV_Contains v (filter_Value f) = Inr b" ..
    show ?thesis by (cases b) (use b Some IH in \<open>auto simp: selected_def\<close>)
  qed (use IH in \<open>auto simp: selected_def\<close>)
qed (simp add: selected_def)

lemma Filter_cells_eq:
  assumes "safe_filters gp fs C" "set cs \<subseteq> C"
  shows "Filter_cells gp fs cs acc = Inr (acc @ filter (selected gp fs) cs)"
  using assms(2)
  by (induction cs arbitrary: acc) (auto simp: Filter_matches_eq [OF assms(1)])

lemma DS_Filter_eq:
  assumes "safe_filters gp (FilterByList (Query s)) C" "set (GenericDataList s) \<subseteq> C"
  shows "DS_Filter gp s =
    (let l = filter (selected gp (FilterByList (Query s))) (GenericDataList s)
     in Inr (s\<lparr>GenericDataList := l, Total := int (length l)\<rparr>))"
  by (simp add: DS_Filter_def Filter_cells_eq [OF assms] Let_def)

section \<open>Paging\<close>

text \<open>The page a query denotes: a negative limit means no limit.\<close>

definition page :: "int \<Rightarrow> int \<Rightarrow> 'a list \<Rightarrow> 'a list" where
  "page limit offset xs =
     (if limit < 0 then drop (nat offset) xs else take (nat limit) (drop (nat offset) xs))"

lemma DS_Offset_eq:
  assumes "Total s = int (length (GenericDataList s))" "0 \<le> OffsetQuery (Query s)"
  shows "DS_Offset s =
    Inr (s\<lparr>GenericDataList := drop (nat (OffsetQuery (Query s))) (GenericDataList s)\<rparr>)"
  using assms by (auto simp: DS_Offset_def slice_from_def Let_def)

lemma DS_Limit_eq:
  assumes "int (length (GenericDataList s)) \<le> Total s"
  shows "DS_Limit s = Inr (s\<lparr>GenericDataList :=
    (if LimitQuery (Query s) < 0 then GenericDataList s
     else take (nat (LimitQuery (Query s))) (GenericDataList s))\<rparr>)"
  using assms by (auto simp: DS_Limit_def slice_upto_def Let_def)

lemma GenericDataSelector_eq:
  assumes "srt (DS_Less gp q) cells = Inr ys" "mset ys = mset cells"
    and "safe_filters gp (FilterByList q) (set cells)" "0 \<le> OffsetQuery q"
  shows "GenericDataSelector srt gp cells q =
    (let l = filter (selected gp (FilterByList q)) ys
     in Inr \<lparr>Total = int (length l), GenericDataList = page (LimitQuery q) (OffsetQuery q) l, Query = q\<rparr>)"
proof -
  have "set ys \<subseteq> set cells" using assms(2) by (metis mset_eq_setD order_refl)
  then show ?thesis
    using assms
    by (simp add: GenericDataSelector_def DS_Sort_def DS_Filter_eq [where C = "set cells"]
        DS_Offset_eq DS_Limit_eq page_def Let_def)
qed

text \<open>The selector meets its specification, whatever sorting algorithm \<open>sort.Sort\<close> is.\<close>

lemma GenericDataSelector_spec:
  assumes "go_sort srt" "uniform_cells gp (set cells) P"
    and "sort_Property ` set (SortByList q) \<subseteq> P"
    and "safe_filters gp (FilterByList q) (set cells)" "0 \<le> OffsetQuery q"
  shows "\<exists>ys. mset ys = mset cells \<and> sorted_wrt (\<lambda>a b. \<not> less_spec gp (SortByList q) b a) ys \<and>
    GenericDataSelector srt gp cells q =
      Inr \<lparr>Total = int (length (filter (selected gp (FilterByList q)) cells)),
           GenericDataList = page (LimitQuery q) (OffsetQuery q) (filter (selected gp (FilterByList q)) ys),
           Query = q\<rparr>"
proof -
  have dec: "decides_on (set cells) (DS_Less gp q) (less_spec gp (SortByList q))"
    unfolding DS_Less_def by (rule uniform_cells.Less_decides [OF assms(2,3)])
  obtain ys where ys: "srt (DS_Less gp q) cells = Inr ys" "mset ys = mset cells"
      "sorted_wrt (\<lambda>a b. \<not> less_spec gp (SortByList q) b a) ys"
    by (rule go_sort.sort_ok
        [OF assms(1) dec uniform_cells.less_spec_strict_weak [OF assms(2,3)]])
  have "length (filter (selected gp (FilterByList q)) ys) =
      length (filter (selected gp (FilterByList q)) cells)"
    using ys(2) by (metis mset_filter size_mset)
  with ys GenericDataSelector_eq [where srt = srt, OF ys(1,2) assms(4,5)] show ?thesis
    by (auto simp: Let_def)
qed

lemma page_concat:
  assumes "0 < n"
  shows "concat (map (\<lambda>k. page (int n) (int (k * n)) xs) [0..<m]) = take (m * n) xs"
proof (induction m)
  case (Suc m)
  have "take (m * n + n) xs = take (m * n) xs @ take n (drop (m * n) xs)"
    using take_add [of "m * n" n xs] by (simp add: add.commute)
  with Suc show ?case by (simp add: page_def nat_mult_distrib add.commute)
qed simp

text \<open>C8: pages tile the result. Fetching the pages \<open>0, n, 2n, \<dots>\<close> with limit \<open>n\<close> until they
  cover the total gives every matching cell exactly once, in the order of the whole
  selection.\<close>

theorem pages_tile_selection:
  assumes "go_sort srt" "uniform_cells gp (set cells) P"
    and "sort_Property ` set ss \<subseteq> P" "safe_filters gp fs (set cells)"
    and "0 < n" "length cells \<le> m * n"
  shows "\<exists>whole. GenericDataSelector srt gp cells (NewDataSelectQuery ss fs NoLimiter NoOffset) = Inr whole \<and>
    (\<exists>pages. (\<forall>k < m. GenericDataSelector srt gp cells
                 (NewDataSelectQuery ss fs (int n) (int (k * n))) = Inr (pages k)) \<and>
       concat (map (\<lambda>k. GenericDataList (pages k)) [0..<m]) = GenericDataList whole \<and>
       mset (GenericDataList whole) = filter_mset (selected gp fs) (mset cells))"
proof -
  let ?q = "\<lambda>l o'. NewDataSelectQuery ss fs l o'"
  have dec: "decides_on (set cells) (Less_loop gp ss) (less_spec gp ss)"
    by (rule uniform_cells.Less_decides [OF assms(2,3)])
  obtain ys where ys: "srt (Less_loop gp ss) cells = Inr ys" "mset ys = mset cells"
    by (rule go_sort.sort_ok [OF assms(1) dec uniform_cells.less_spec_strict_weak [OF assms(2,3)]])
  let ?l = "filter (selected gp fs) ys"
  have run: "GenericDataSelector srt gp cells (?q l o') =
      Inr \<lparr>Total = int (length ?l), GenericDataList = page l o' ?l, Query = ?q l o'\<rparr>"
    if "0 \<le> o'" for l o'
    using GenericDataSelector_eq [of srt gp "?q l o'" cells ys] ys assms(4) that
    by (simp add: DS_Less_def NewDataSelectQuery_def Let_def)
  have "length ?l \<le> m * n"
    using assms(6) ys(2) le_trans length_filter_le by (metis size_mset)
  then have "concat (map (\<lambda>k. page (int n) (int (k * n)) ?l) [0..<m]) = ?l"
    by (simp only: page_concat [OF assms(5)] take_all)
  moreover have "mset ?l = filter_mset (selected gp fs) (mset cells)"
    using ys(2) by (metis mset_filter)
  ultimately show ?thesis
    using run by (auto simp: NoLimiter_def NoOffset_def page_def
        intro!: exI [of _ "\<lambda>k. \<lparr>Total = int (length ?l),
          GenericDataList = page (int n) (int (k * n)) ?l, Query = ?q (int n) (int (k * n))\<rparr>"])
qed

end
