(* ===== verification/Cells.thy ===== *)
theory Cells
  imports DataSelect
begin

text \<open>
  Package \<open>dataselect\<close>, the cells (\<open>resource.go\<close>, \<open>propertyname.go\<close>). The constructors read
  the wrapped object by reflection; an object is therefore a Go value whose fields are
  looked up by name, with the dynamic type of each field value as a constructor. A missing
  field is an error value, a field of an unexpected type is the panic of the unchecked type
  assertion. Every kind of cell is shown to be an instance of the selector's interface
  \<open>uniform_cells\<close>, for all properties but \<open>namespace\<close> where the cell answers with a
  \<open>StdComparableEqualString\<close>.
\<close>

section \<open>Objects\<close>

record ObjectMeta =
  om_Name :: string
  om_Namespace :: string
  om_Labels :: "(string \<times> string) list"
  om_Annotations :: "(string \<times> string) list"
  om_CreationTimestamp :: int

datatype GoField =
    MetaV1Field ObjectMeta
  | ApiMetaField ObjectMeta
  | PodStatusField string
  | SecretTypeField string
  | StringSliceField "string list"
  | ServiceSpecField string
  | OtherField

datatype GoObject =
    GoStruct "(string \<times> GoField) list"
  | HelmRelease string string
  | ChartResult string

datatype SelectError =
    NoSuchField string
  | NotRelease
  | NotChartResult
  | NotSlice

fun FieldByName :: "GoObject \<Rightarrow> string \<Rightarrow> GoField option" where
  "FieldByName (GoStruct fs) n = map_of fs n"
| "FieldByName _ n = None"

definition NameProperty :: string where "NameProperty = ''name''"
definition CreationTimestampProperty :: string where "CreationTimestampProperty = ''creationTimestamp''"
definition NamespaceProperty :: string where "NamespaceProperty = ''namespace''"
definition StatusProperty :: string where "StatusProperty = ''status''"
definition SecretTypeProperty :: string where "SecretTypeProperty = ''type''"
definition PVCUnusedProperty :: string where "PVCUnusedProperty = ''unused''"

lemmas property_defs = NameProperty_def CreationTimestampProperty_def NamespaceProperty_def
  StatusProperty_def SecretTypeProperty_def PVCUnusedProperty_def

section \<open>Reading fields\<close>

definition getObjectMeta :: "GoObject \<Rightarrow> (SelectError + ObjectMeta) go" where
  "getObjectMeta obj =
     (case FieldByName obj ''ObjectMeta'' of
        None \<Rightarrow> Inr (Inl (NoSuchField ''ObjectMeta''))
      | Some (MetaV1Field m) \<Rightarrow> Inr (Inr m)
      | Some (ApiMetaField m) \<Rightarrow>
          Inr (Inr \<lparr>om_Name = om_Name m, om_Namespace = om_Namespace m, om_Labels = om_Labels m,
                    om_Annotations = om_Annotations m, om_CreationTimestamp = om_CreationTimestamp m\<rparr>)
      | Some _ \<Rightarrow> Inl TypeAssertionPanic)"

definition getObjectPodStatus :: "GoObject \<Rightarrow> (SelectError + string) go" where
  "getObjectPodStatus obj =
     (case FieldByName obj ''Status'' of
        None \<Rightarrow> Inr (Inl (NoSuchField ''Status''))
      | Some (PodStatusField phase) \<Rightarrow> Inr (Inr phase)
      | Some _ \<Rightarrow> Inl TypeAssertionPanic)"

definition getSecretType :: "GoObject \<Rightarrow> (SelectError + string) go" where
  "getSecretType obj =
     (case FieldByName obj ''Type'' of
        None \<Rightarrow> Inr (Inl (NoSuchField ''Type''))
      | Some (SecretTypeField t) \<Rightarrow> Inr (Inr t)
      | Some _ \<Rightarrow> Inl TypeAssertionPanic)"

definition getPVCMountedBy :: "GoObject \<Rightarrow> (SelectError + string list) go" where
  "getPVCMountedBy obj =
     (case FieldByName obj ''MountedBy'' of
        None \<Rightarrow> Inr (Inl (NoSuchField ''MountedBy''))
      | Some (StringSliceField l) \<Rightarrow> Inr (Inr l)
      | Some _ \<Rightarrow> Inl TypeAssertionPanic)"

definition getServiceSpec :: "GoObject \<Rightarrow> (SelectError + string) go" where
  "getServiceSpec obj =
     (case FieldByName obj ''Spec'' of
        None \<Rightarrow> Inr (Inl (NoSuchField ''Spec''))
      | Some (ServiceSpecField t) \<Rightarrow> Inr (Inr t)
      | Some _ \<Rightarrow> Inl TypeAssertionPanic)"

section \<open>Cells\<close>

datatype DataCell =
    ResourceDataCell ObjectMeta GoObject
  | NamespaceDataCell ObjectMeta GoObject
  | NamespacePodStatusDataCell ObjectMeta GoObject string
  | HelmReleaseDataCell string string
  | ChartDataCell string
  | SecretDataCell ObjectMeta GoObject string
  | PVCDataCell ObjectMeta GoObject string
  | ServiceDataCell ObjectMeta GoObject string

fun GetObject :: "DataCell \<Rightarrow> GoObject" where
  "GetObject (ResourceDataCell m obj) = obj"
| "GetObject (NamespaceDataCell m obj) = obj"
| "GetObject (NamespacePodStatusDataCell m obj st) = obj"
| "GetObject (HelmReleaseDataCell n ns) = HelmRelease n ns"
| "GetObject (ChartDataCell n) = ChartResult n"
| "GetObject (SecretDataCell m obj t) = obj"
| "GetObject (PVCDataCell m obj u) = obj"
| "GetObject (ServiceDataCell m obj t) = obj"

definition ResourceDataCell_GetProperty :: "ObjectMeta \<Rightarrow> string \<Rightarrow> ComparableValue option" where
  "ResourceDataCell_GetProperty m name =
     (if name = NameProperty then Some (StdComparableString (om_Name m))
      else if name = CreationTimestampProperty then Some (StdComparableTime (om_CreationTimestamp m))
      else None)"

definition NamespaceDataCell_GetProperty :: "ObjectMeta \<Rightarrow> string \<Rightarrow> ComparableValue option" where
  "NamespaceDataCell_GetProperty m name =
     (if name = NamespaceProperty then Some (StdComparableEqualString (om_Namespace m))
      else ResourceDataCell_GetProperty m name)"

fun GetProperty :: "DataCell \<Rightarrow> string \<Rightarrow> ComparableValue option" where
  "GetProperty (ResourceDataCell m obj) name = ResourceDataCell_GetProperty m name"
| "GetProperty (NamespaceDataCell m obj) name = NamespaceDataCell_GetProperty m name"
| "GetProperty (NamespacePodStatusDataCell m obj st) name =
     (if name = StatusProperty then Some (StdComparableString st)
      else NamespaceDataCell_GetProperty m name)"
| "GetProperty (HelmReleaseDataCell n ns) name =
     (if name = NameProperty then Some (StdComparableString n)
      else if name = NamespaceProperty then Some (StdComparableString ns)
      else None)"
| "GetProperty (ChartDataCell n) name =
     (if name = NameProperty then Some (StdComparableString n) else None)"
| "GetProperty (SecretDataCell m obj t) name =
     (if name = SecretTypeProperty then Some (StdComparableString t)
      else NamespaceDataCell_GetProperty m name)"
| "GetProperty (PVCDataCell m obj u) name =
     (if name = PVCUnusedProperty then Some (StdComparableString u)
      else NamespaceDataCell_GetProperty m name)"
| "GetProperty (ServiceDataCell m obj t) name =
     (if name = SecretTypeProperty then Some (StdComparableString t)
      else NamespaceDataCell_GetProperty m name)"

type_synonym convertF = "GoObject \<Rightarrow> (SelectError + DataCell) go"

definition rbind :: "(SelectError + 'a) go \<Rightarrow> ('a \<Rightarrow> (SelectError + 'b) go) \<Rightarrow> (SelectError + 'b) go" where
  "rbind m f = gbind m (\<lambda>r. case r of Inl e \<Rightarrow> Inr (Inl e) | Inr x \<Rightarrow> f x)"

definition NewResourceDataCell :: convertF where
  "NewResourceDataCell obj = rbind (getObjectMeta obj) (\<lambda>m. Inr (Inr (ResourceDataCell m obj)))"

definition NewNamespaceDataCell :: convertF where
  "NewNamespaceDataCell obj = rbind (getObjectMeta obj) (\<lambda>m. Inr (Inr (NamespaceDataCell m obj)))"

text \<open>The namespaced constructors call \<open>NewNamespaceDataCell\<close> first and keep its metadata.\<close>

definition namespace_meta :: "GoObject \<Rightarrow> (SelectError + ObjectMeta) go" where
  "namespace_meta obj = rbind (NewNamespaceDataCell obj) (\<lambda>cell.
     case cell of NamespaceDataCell m _ \<Rightarrow> Inr (Inr m) | _ \<Rightarrow> Inl TypeAssertionPanic)"

definition NewNamespacePodStatusDataCell :: convertF where
  "NewNamespacePodStatusDataCell obj =
     rbind (namespace_meta obj) (\<lambda>m.
     rbind (getObjectPodStatus obj) (\<lambda>st. Inr (Inr (NamespacePodStatusDataCell m obj st))))"

definition NewHelmReleaseDataCell :: convertF where
  "NewHelmReleaseDataCell obj =
     (case obj of HelmRelease n ns \<Rightarrow> Inr (Inr (HelmReleaseDataCell n ns)) | _ \<Rightarrow> Inr (Inl NotRelease))"

definition NewChartDataCell :: convertF where
  "NewChartDataCell obj =
     (case obj of ChartResult n \<Rightarrow> Inr (Inr (ChartDataCell n)) | _ \<Rightarrow> Inr (Inl NotChartResult))"

definition NewSecretDataCell :: convertF where
  "NewSecretDataCell obj =
     rbind (namespace_meta obj) (\<lambda>m.
     rbind (getSecretType obj) (\<lambda>t. Inr (Inr (SecretDataCell m obj t))))"

definition NewPVCDataCell :: convertF where
  "NewPVCDataCell obj =
     rbind (namespace_meta obj) (\<lambda>m.
     rbind (getPVCMountedBy obj) (\<lambda>mountedBy.
       Inr (Inr (PVCDataCell m obj (if length mountedBy = 0 then ''true'' else ''false'')))))"

definition NewServiceDataCell :: convertF where
  "NewServiceDataCell obj =
     rbind (namespace_meta obj) (\<lambda>m.
     rbind (getServiceSpec obj) (\<lambda>t. Inr (Inr (ServiceDataCell m obj t))))"

section \<open>Lists\<close>

datatype GoData = Slice "GoObject list" | NonSlice

fun ToCells_loop :: "convertF \<Rightarrow> GoObject list \<Rightarrow> DataCell list \<Rightarrow> (SelectError + DataCell list) go" where
  "ToCells_loop cf [] cells = Inr (Inr cells)"
| "ToCells_loop cf (v # vs) cells = rbind (cf v) (\<lambda>cell. ToCells_loop cf vs (cells @ [cell]))"

definition ToCells :: "GoData \<Rightarrow> convertF \<Rightarrow> (SelectError + DataCell list) go" where
  "ToCells data cf = (case data of NonSlice \<Rightarrow> Inr (Inl NotSlice) | Slice vs \<Rightarrow> ToCells_loop cf vs [])"

text \<open>An \<open>IList\<close> collects the objects appended to it and holds the list metadata.\<close>

record ObjectList =
  ol_Items :: "GoObject list"
  ol_Meta :: ListMeta

definition IList_Append :: "ObjectList \<Rightarrow> GoObject \<Rightarrow> ObjectList" where
  "IList_Append l obj = l\<lparr>ol_Items := ol_Items l @ [obj]\<rparr>"

definition IList_SetMeta :: "ObjectList \<Rightarrow> ListMeta \<Rightarrow> ObjectList" where
  "IList_SetMeta l m = l\<lparr>ol_Meta := m\<rparr>"

definition FromCells :: "DataCell list \<Rightarrow> ObjectList \<Rightarrow> ObjectList" where
  "FromCells cells l = fold (\<lambda>cell acc. IList_Append acc (GetObject cell)) cells l"

definition ToResourceList ::
  "DataCell go_sorter \<Rightarrow> ObjectList \<Rightarrow> GoData \<Rightarrow> convertF \<Rightarrow> DataSelectQuery \<Rightarrow>
   (SelectError + ObjectList) go" where
  "ToResourceList srt l data cf dsQuery =
     rbind (ToCells data cf) (\<lambda>cells.
     gbind (GenericDataSelector srt GetProperty cells dsQuery) (\<lambda>selector.
       Inr (Inr (IList_SetMeta (FromCells (GenericDataList selector) l) (DS_ListMeta selector)))))"

section \<open>Every kind of cell is selectable\<close>

datatype kind = KResource | KNamespace | KPodStatus | KRelease | KChart | KSecret | KPVC | KService

fun kind_of :: "DataCell \<Rightarrow> kind" where
  "kind_of (ResourceDataCell _ _) = KResource"
| "kind_of (NamespaceDataCell _ _) = KNamespace"
| "kind_of (NamespacePodStatusDataCell _ _ _) = KPodStatus"
| "kind_of (HelmReleaseDataCell _ _) = KRelease"
| "kind_of (ChartDataCell _) = KChart"
| "kind_of (SecretDataCell _ _ _) = KSecret"
| "kind_of (PVCDataCell _ _ _) = KPVC"
| "kind_of (ServiceDataCell _ _ _) = KService"

text \<open>The kinds whose \<open>namespace\<close> is a \<open>StdComparableEqualString\<close>.\<close>

definition namespaced :: "kind set" where
  "namespaced = {KNamespace, KPodStatus, KSecret, KPVC, KService}"

definition sortable :: "kind \<Rightarrow> string set" where
  "sortable k = (if k \<in> namespaced then - {NamespaceProperty} else UNIV)"

lemmas GetProperty_defs = ResourceDataCell_GetProperty_def NamespaceDataCell_GetProperty_def property_defs

lemma GetProperty_uniform:
  "kind_of c = kind_of d \<Longrightarrow> p \<in> sortable (kind_of c) \<Longrightarrow> comparable (GetProperty c p) (GetProperty d p)"
  by (cases c; cases d)
    (auto simp: comparable_def sortable_def namespaced_def ResourceDataCell_GetProperty_def
      NamespaceDataCell_GetProperty_def)

lemma uniform_kind: "uniform_cells GetProperty {c. kind_of c = k} (sortable k)"
  by unfold_locales (auto intro: GetProperty_uniform)

interpretation resource_cells: uniform_cells GetProperty "{c. kind_of c = KResource}" UNIV
  using uniform_kind [of KResource] by (simp add: sortable_def namespaced_def)

interpretation release_cells: uniform_cells GetProperty "{c. kind_of c = KRelease}" UNIV
  using uniform_kind [of KRelease] by (simp add: sortable_def namespaced_def)

interpretation chart_cells: uniform_cells GetProperty "{c. kind_of c = KChart}" UNIV
  using uniform_kind [of KChart] by (simp add: sortable_def namespaced_def)

interpretation pod_cells: uniform_cells GetProperty "{c. kind_of c = KPodStatus}" "- {NamespaceProperty}"
  using uniform_kind [of KPodStatus] by (simp add: sortable_def namespaced_def)

lemma uniform_subset:
  "uniform_cells gp C P \<Longrightarrow> D \<subseteq> C \<Longrightarrow> uniform_cells gp D P"
  by (fastforce simp: uniform_cells_def)

text \<open>Filters made from query strings compare with \<open>StdComparableString\<close>, which every
  property but the creation time accepts.\<close>

definition string_filters :: "FilterBy list \<Rightarrow> bool" where
  "string_filters fs \<longleftrightarrow>
     (\<forall>f\<in>set fs. \<exists>v. filter_Value f = StdComparableString v \<and> filter_Property f \<noteq> CreationTimestampProperty)"

lemma GetProperty_string:
  "GetProperty c p = Some v \<Longrightarrow> p \<noteq> CreationTimestampProperty \<Longrightarrow>
   (\<exists>x. v = StdComparableString x \<or> v = StdComparableEqualString x)"
  by (cases c) (auto simp: ResourceDataCell_GetProperty_def NamespaceDataCell_GetProperty_def split: if_splits)

lemma string_filters_safe: "string_filters fs \<Longrightarrow> safe_filters GetProperty fs C"
  unfolding safe_filters_def string_filters_def
  by (metis CV_Contains.simps(1,5) GetProperty_string)

section \<open>Conversion keeps the objects\<close>

lemma rbind_Inr_iff:
  "rbind m f = Inr (Inr y) \<longleftrightarrow> (\<exists>x. m = Inr (Inr x) \<and> f x = Inr (Inr y))"
proof (cases m)
  case (Inr r)
  then show ?thesis by (cases r) (auto simp: rbind_def)
qed (simp add: rbind_def)

text \<open>What a conversion function promises: the cell wraps the object it was made from and has
  the function's own kind.\<close>

locale cell_converter =
  fixes cf :: convertF and k :: kind
  assumes converts: "cf v = Inr (Inr c) \<Longrightarrow> GetObject c = v \<and> kind_of c = k"
begin

lemma ToCells_loop_objects:
  "ToCells_loop cf vs acc = Inr (Inr cells) \<Longrightarrow>
   \<exists>new. cells = acc @ new \<and> map GetObject new = vs \<and> (\<forall>c\<in>set new. kind_of c = k)"
proof (induction vs arbitrary: acc)
  case (Cons v vs)
  from Cons.prems obtain c where c: "cf v = Inr (Inr c)"
      "ToCells_loop cf vs (acc @ [c]) = Inr (Inr cells)"
    by (auto simp: rbind_Inr_iff)
  from Cons.IH [OF c(2)] obtain new where "cells = (acc @ [c]) @ new" "map GetObject new = vs"
      "\<forall>c\<in>set new. kind_of c = k" by blast
  with converts [OF c(1)] show ?case by (intro exI [of _ "c # new"]) auto
qed simp

lemma ToCells_objects:
  "ToCells (Slice vs) cf = Inr (Inr cells) \<Longrightarrow>
   map GetObject cells = vs \<and> set cells \<subseteq> {c. kind_of c = k}"
  using ToCells_loop_objects [of vs "[]" cells] by (auto simp: ToCells_def)

end

lemmas convert_simps = rbind_Inr_iff namespace_meta_def

interpretation resource_conv: cell_converter NewResourceDataCell KResource
  by unfold_locales (auto simp: NewResourceDataCell_def convert_simps)

interpretation namespace_conv: cell_converter NewNamespaceDataCell KNamespace
  by unfold_locales (auto simp: NewNamespaceDataCell_def convert_simps)

interpretation pod_conv: cell_converter NewNamespacePodStatusDataCell KPodStatus
  by unfold_locales (auto simp: NewNamespacePodStatusDataCell_def convert_simps)

interpretation release_conv: cell_converter NewHelmReleaseDataCell KRelease
  by unfold_locales (auto simp: NewHelmReleaseDataCell_def split: GoObject.splits)

interpretation chart_conv: cell_converter NewChartDataCell KChart
  by unfold_locales (auto simp: NewChartDataCell_def split: GoObject.splits)

interpretation secret_conv: cell_converter NewSecretDataCell KSecret
  by unfold_locales (auto simp: NewSecretDataCell_def convert_simps)

interpretation pvc_conv: cell_converter NewPVCDataCell KPVC
  by unfold_locales (auto simp: NewPVCDataCell_def convert_simps)

interpretation service_conv: cell_converter NewServiceDataCell KService
  by unfold_locales (auto simp: NewServiceDataCell_def convert_simps)

lemma FromCells_eq: "FromCells cells l = l\<lparr>ol_Items := ol_Items l @ map GetObject cells\<rparr>"
proof -
  have "fold (\<lambda>cell acc. IList_Append acc (GetObject cell)) cells l =
      l\<lparr>ol_Items := ol_Items l @ map GetObject cells\<rparr>" for l :: ObjectList
    by (induction cells arbitrary: l) (auto simp: IList_Append_def)
  then show ?thesis by (simp add: FromCells_def)
qed

text \<open>Listing resources is correct. With any of the conversion functions, any sorting
  algorithm that meets the contract of \<open>sort.Sort\<close>, sort keys the kind of cell can order, string
  filters and a non-negative offset, \<open>ToResourceList\<close> appends to the list exactly the wrapped
  objects of the requested page of the matching cells, in the requested order, and reports the
  number of all matching objects as the total.\<close>

theorem ToResourceList_correct:
  assumes "cell_converter cf k" "go_sort srt" "ToCells (Slice vs) cf = Inr (Inr cells)"
    and "sort_Property ` set (SortByList q) \<subseteq> sortable k" "string_filters (FilterByList q)"
    and "0 \<le> OffsetQuery q"
  shows "map GetObject cells = vs \<and> (\<exists>ys. mset ys = mset cells \<and>
    sorted_wrt (\<lambda>a b. \<not> less_spec GetProperty (SortByList q) b a) ys \<and>
    ToResourceList srt l (Slice vs) cf q = Inr (Inr (
      l\<lparr>ol_Items := ol_Items l @ map GetObject
          (page (LimitQuery q) (OffsetQuery q) (filter (selected GetProperty (FilterByList q)) ys)),
        ol_Meta := \<lparr>lm_Total = int (length (filter (selected GetProperty (FilterByList q)) cells)),
          lm_Limit = LimitQuery q, lm_Offset = OffsetQuery q\<rparr>\<rparr>)))"
proof -
  note objs = cell_converter.ToCells_objects [OF assms(1,3)]
  have uni: "uniform_cells GetProperty (set cells) (sortable k)"
    using uniform_subset [OF uniform_kind] objs by blast
  from GenericDataSelector_spec [OF assms(2) uni assms(4) string_filters_safe [OF assms(5)] assms(6)]
  obtain ys where "mset ys = mset cells" "sorted_wrt (\<lambda>a b. \<not> less_spec GetProperty (SortByList q) b a) ys"
    "GenericDataSelector srt GetProperty cells q =
      Inr \<lparr>Total = int (length (filter (selected GetProperty (FilterByList q)) cells)),
           GenericDataList = page (LimitQuery q) (OffsetQuery q) (filter (selected GetProperty (FilterByList q)) ys),
           Query = q\<rparr>" by blast
  with objs assms(3) show ?thesis
    by (auto simp: ToResourceList_def rbind_def FromCells_eq IList_SetMeta_def DS_ListMeta_def)
qed

definition pod_meta :: "string \<Rightarrow> string \<Rightarrow> ObjectMeta" where
  "pod_meta ns n = \<lparr>om_Name = n, om_Namespace = ns, om_Labels = [], om_Annotations = [],
     om_CreationTimestamp = 0\<rparr>"

definition pod_object :: "string \<Rightarrow> string \<Rightarrow> string \<Rightarrow> GoObject" where
  "pod_object ns n phase = GoStruct
     [(''ObjectMeta'', MetaV1Field (pod_meta ns n)), (''Status'', PodStatusField phase)]"

definition pod_cell :: "string \<Rightarrow> string \<Rightarrow> string \<Rightarrow> DataCell" where
  "pod_cell ns n phase = NamespacePodStatusDataCell (pod_meta ns n) (pod_object ns n phase) phase"

lemma pod_cell_converts [simp]:
  "NewNamespacePodStatusDataCell (pod_object ns n phase) = Inr (Inr (pod_cell ns n phase))"
  by (simp add: NewNamespacePodStatusDataCell_def namespace_meta_def NewNamespaceDataCell_def
      rbind_def getObjectMeta_def getObjectPodStatus_def pod_object_def pod_cell_def)

definition empty_list :: ObjectList where
  "empty_list = \<lparr>ol_Items = [], ol_Meta = \<lparr>lm_Total = 0, lm_Limit = 0, lm_Offset = 0\<rparr>\<rparr>"

theorem ToResourceList_correct_witness:
  "let vs = [pod_object ''b'' ''web'' ''Running'', pod_object ''a'' ''db'' ''Running''];
       cells = [pod_cell ''b'' ''web'' ''Running'', pod_cell ''a'' ''db'' ''Running''];
       q = NewDataSelectQuery (NewSortQuery [''a'', ''name'']) (NewFilterQuery [''namespace'', ''a'']) 10 0
   in map GetObject cells = vs \<and> (\<exists>ys. mset ys = mset cells \<and>
        sorted_wrt (\<lambda>a b. \<not> less_spec GetProperty (SortByList q) b a) ys \<and>
        ToResourceList insertionSort empty_list (Slice vs) NewNamespacePodStatusDataCell q = Inr (Inr (
          empty_list\<lparr>ol_Items := map GetObject (page 10 0 (filter (selected GetProperty (FilterByList q)) ys)),
           ol_Meta := \<lparr>lm_Total = int (length (filter (selected GetProperty (FilterByList q)) cells)),
             lm_Limit = 10, lm_Offset = 0\<rparr>\<rparr>)))"
proof -
  let ?vs = "[pod_object ''b'' ''web'' ''Running'', pod_object ''a'' ''db'' ''Running'']"
  let ?cells = "[pod_cell ''b'' ''web'' ''Running'', pod_cell ''a'' ''db'' ''Running'']"
  let ?q = "NewDataSelectQuery (NewSortQuery [''a'', ''name'']) (NewFilterQuery [''namespace'', ''a'']) 10 0"
  have cells: "ToCells (Slice ?vs) NewNamespacePodStatusDataCell = Inr (Inr ?cells)"
    by (simp add: ToCells_def rbind_def)
  have "sort_Property ` set (SortByList ?q) \<subseteq> sortable KPodStatus" "string_filters (FilterByList ?q)"
    "0 \<le> OffsetQuery ?q"
    by (simp_all add: NewDataSelectQuery_def NewSortQuery_def NewFilterQuery_def NewFilterBy_def
        sortable_def string_filters_def property_defs)
  from ToResourceList_correct [OF pod_conv.cell_converter_axioms insertion.go_sort_axioms cells this,
      of empty_list]
  show ?thesis by (simp add: Let_def NewDataSelectQuery_def empty_list_def)
qed

section \<open>Queries that panic\<close>

lemma namespace_Compare_panics:
  assumes "kind_of a \<in> namespaced" "kind_of b \<in> namespaced" "sort_Property s = NamespaceProperty"
  shows "Less_loop GetProperty (s # ss) a b = Inl TypeAssertionPanic"
  using assms by (cases a; cases b) (auto simp: namespaced_def GetProperty_defs)

text \<open>Two or more namespaced cells cannot be sorted by namespace: the promoted
  \<open>Compare\<close> of \<open>StdComparableEqualString\<close> asserts the other value to be a \<open>StdComparableString\<close>,
  which it is not, and the selection panics.\<close>

theorem sort_by_namespace_panics:
  assumes "go_sort srt" "kind_of ` set cells \<subseteq> namespaced" "2 \<le> length cells"
    and "SortByList q = s # ss" "sort_Property s = NamespaceProperty"
  shows "GenericDataSelector srt GetProperty cells q = Inl TypeAssertionPanic"
proof -
  have "\<forall>a\<in>set cells. \<forall>b\<in>set cells. DS_Less GetProperty q a b = Inl TypeAssertionPanic"
    unfolding DS_Less_def assms(4) using assms(2,5) namespace_Compare_panics by blast
  from go_sort.sort_panic [OF assms(1) this assms(3)] show ?thesis
    by (simp add: GenericDataSelector_def DS_Sort_def)
qed

theorem sort_by_namespace_panics_witness:
  "GenericDataSelector insertionSort GetProperty
     [pod_cell ''b'' ''web'' ''Running'', pod_cell ''a'' ''db'' ''Running'']
     (NewDataSelectQuery (NewSortQuery [''a'', ''namespace'']) NoFilter NoLimiter NoOffset)
   = Inl TypeAssertionPanic"
  by (rule sort_by_namespace_panics [OF insertion.go_sort_axioms,
        where s = "\<lparr>sort_Property = ''namespace'', Ascending = True\<rparr>" and ss = "[]"])
    (simp_all add: NewDataSelectQuery_def NewSortQuery_def pod_cell_def namespaced_def property_defs)

text \<open>A filter on the creation time panics on every non-empty list of resource cells: the
  query string becomes a \<open>StdComparableString\<close>, and \<open>StdComparableTime.Contains\<close> asserts it to
  be a time.\<close>

theorem filter_by_creation_time_panics:
  assumes "go_sort srt" "kind_of ` set cells = {KResource}"
    and "FilterByList q = [NewFilterBy CreationTimestampProperty v]"
  shows "GenericDataSelector srt GetProperty cells q = Inl TypeAssertionPanic"
proof -
  have uni: "uniform_cells GetProperty (set cells) UNIV"
    using assms(2) by (auto intro: uniform_subset [OF resource_cells.uniform_cells_axioms])
  have "decides_on (set cells) (DS_Less GetProperty q) (less_spec GetProperty (SortByList q))"
    unfolding DS_Less_def by (rule uniform_cells.Less_decides [OF uni]) simp
  then obtain ys where ys: "srt (DS_Less GetProperty q) cells = Inr ys" "mset ys = mset cells"
    using go_sort.sort_perm [OF assms(1)] by blast
  from ys(2) have "set ys = set cells" by (rule mset_eq_setD)
  with assms(2) obtain c cs where c: "ys = c # cs" "kind_of c = KResource" by (cases ys) auto
  then obtain m obj where "c = ResourceDataCell m obj" by (cases c) auto
  with c(1) ys(1) assms(3) show ?thesis
    by (simp add: GenericDataSelector_def DS_Sort_def DS_Filter_def NewFilterBy_def GetProperty_defs)
qed

theorem filter_by_creation_time_panics_witness:
  "GenericDataSelector insertionSort GetProperty [ResourceDataCell (pod_meta ''a'' ''x'') (GoStruct [])]
     (NewDataSelectQuery NoSort (NewFilterQuery [''creationTimestamp'', ''5'']) NoLimiter NoOffset)
   = Inl TypeAssertionPanic"
  by (rule filter_by_creation_time_panics [OF insertion.go_sort_axioms, where v = "''5''"])
    (simp_all add: NewDataSelectQuery_def NewFilterQuery_def property_defs)

section \<open>Paging over pods\<close>

theorem pages_tile_selection_witness:
  "\<exists>whole pages. GenericDataSelector insertionSort GetProperty
       [pod_cell ''b'' ''web'' ''Running'', pod_cell ''a'' ''db'' ''Running'']
       (NewDataSelectQuery (NewSortQuery [''a'', ''name'']) (NewFilterQuery []) NoLimiter NoOffset) = Inr whole \<and>
     (\<forall>k < 2. GenericDataSelector insertionSort GetProperty
       [pod_cell ''b'' ''web'' ''Running'', pod_cell ''a'' ''db'' ''Running'']
       (NewDataSelectQuery (NewSortQuery [''a'', ''name'']) (NewFilterQuery []) (int 1) (int (k * 1))) = Inr (pages k)) \<and>
     concat (map (\<lambda>k. GenericDataList (pages k)) [0..<2]) = GenericDataList whole"
proof -
  let ?cells = "[pod_cell ''b'' ''web'' ''Running'', pod_cell ''a'' ''db'' ''Running'']"
  have uni: "uniform_cells GetProperty (set ?cells) (- {NamespaceProperty})"
    by (rule uniform_subset [OF pod_cells.uniform_cells_axioms]) (simp add: pod_cell_def)
  have ss: "sort_Property ` set (NewSortQuery [''a'', ''name'']) \<subseteq> - {NamespaceProperty}"
    by (simp add: NewSortQuery_def property_defs)
  have fs: "safe_filters GetProperty (NewFilterQuery []) (set ?cells)"
    by (rule string_filters_safe) (simp add: NewFilterQuery_def string_filters_def)
  show ?thesis
    using pages_tile_selection [OF insertion.go_sort_axioms uni ss fs, of 1 2] by auto
qed

end
