(* ===== verification/Varint.thy ===== *)
theory Varint
  imports Prelude
begin

text \<open>
  The variable-length integers of Go's \<open>encoding/binary\<close> (Go 1.12), as the message header of
  src/pkg/remotedialer/message.go writes and reads them. A byte is an \<open>8 word\<close>, an \<open>int64\<close> a
  \<open>64 word\<close> read with \<open>sint\<close>. \<open>PutVarint\<close> gives the bytes it stores; \<open>ReadVarint\<close> consumes a
  prefix of the reader and gives the rest. The results are the round trip, the length bounds
  by magnitude, and that a reader that runs dry is reported.
\<close>

unbundle bit_operations_syntax

type_synonym byte = "8 word"
type_synonym bytes = "byte list"
type_synonym int64 = "64 word"

text \<open>Errors of the Go library and of the tunnel code, by their text.\<close>

datatype GoError =
    EOF
  | ErrClosedPipe
  | ErrVarintOverflow
  | ErrText string

fun Error_text :: "GoError \<Rightarrow> string" where
  "Error_text EOF = ''EOF''"
| "Error_text ErrClosedPipe = ''io: read/write on closed pipe''"
| "Error_text ErrVarintOverflow = ''binary: varint overflows a 64-bit integer''"
| "Error_text (ErrText s) = s"

text \<open>A reader is the bytes it will deliver and the error it ends with.\<close>

type_synonym reader = "bytes \<times> GoError"

section \<open>Encoding\<close>

function PutUvarint :: "64 word \<Rightarrow> bytes" where
  "PutUvarint x =
     (if x < 0x80 then [ucast x] else (ucast x OR 0x80) # PutUvarint (drop_bit 7 x))"
  by auto
termination
proof (relation "measure unat", simp)
  fix x :: "64 word"
  assume "\<not> x < 0x80"
  then have "0 < unat x" by (simp add: word_less_nat_alt)
  moreover have "unat (drop_bit 7 x) = unat x div 128"
    by (simp add: drop_bit_eq_div unat_div)
  ultimately show "(drop_bit 7 x, x) \<in> measure unat" by simp
qed

declare PutUvarint.simps [simp del]

definition zigzag :: "int64 \<Rightarrow> 64 word" where
  "zigzag x = (let ux = push_bit 1 x in if sint x < 0 then NOT ux else ux)"

definition PutVarint :: "int64 \<Rightarrow> bytes" where
  "PutVarint x = PutUvarint (zigzag x)"

section \<open>Decoding\<close>

fun ReadUvarint :: "nat \<Rightarrow> 64 word \<Rightarrow> reader \<Rightarrow> GoError + (64 word \<times> reader)" where
  "ReadUvarint i x ([], e) = Inl e"
| "ReadUvarint i x (b # bs, e) =
     (if b < 0x80
      then if 9 < i \<or> i = 9 \<and> 1 < b then Inl ErrVarintOverflow
           else Inr (x OR push_bit (7 * i) (ucast b), bs, e)
      else ReadUvarint (Suc i) (x OR push_bit (7 * i) (ucast (b AND 0x7f))) (bs, e))"

definition unzigzag :: "64 word \<Rightarrow> int64" where
  "unzigzag ux = (let x = drop_bit 1 ux in if ux AND 1 \<noteq> 0 then NOT x else x)"

definition ReadVarint :: "reader \<Rightarrow> GoError + (int64 \<times> reader)" where
  "ReadVarint r = (case ReadUvarint 0 0 r of Inl e \<Rightarrow> Inl e | Inr (ux, r') \<Rightarrow> Inr (unzigzag ux, r'))"

section \<open>Round trip\<close>

lemma msb_byte_ge: "(0x80 :: byte) \<le> b \<longleftrightarrow> bit b 7"
proof -
  have lt: "unat b < 256" using unsigned_less [of b, where 'a = nat] by simp
  have "bit b 7 \<longleftrightarrow> bit (unat b) 7" by (simp add: bit_unsigned_iff)
  also have "\<dots> \<longleftrightarrow> odd (unat b div 128)" by (simp add: bit_iff_odd)
  also have "\<dots> \<longleftrightarrow> 128 \<le> unat b"
  proof -
    have "unat b div 128 \<in> {0, 1}" "unat b div 128 = 0 \<longleftrightarrow> \<not> 128 \<le> unat b"
      using lt by auto
    then show ?thesis by auto
  qed
  finally show ?thesis by (simp add: word_le_nat_alt)
qed

lemma split_septet:
  fixes x :: "64 word"
  shows "push_bit n (take_bit 7 x) OR push_bit (n + 7) (drop_bit 7 x) = push_bit n x"
proof (rule bit_word_eqI)
  fix k assume k: "k < LENGTH(64)"
  show "bit (push_bit n (take_bit 7 x) OR push_bit (n + 7) (drop_bit 7 x)) k = bit (push_bit n x) k"
  proof (cases "n + 7 \<le> k")
    case True
    then have "7 + (k - (n + 7)) = k - n" by simp
    with True k show ?thesis by (auto simp: bit_simps)
  qed (use k in \<open>auto simp: bit_simps\<close>)
qed

lemma continuation_byte:
  fixes x :: "64 word"
  shows "\<not> (ucast x OR 0x80 :: byte) < 0x80"
    and "ucast ((ucast x OR 0x80 :: byte) AND 0x7f) = take_bit 7 x"
proof -
  have "bit (ucast x OR 0x80 :: byte) 7" by (simp add: bit_simps bit_or_iff)
  then show "\<not> (ucast x OR 0x80 :: byte) < 0x80" by (simp add: not_less msb_byte_ge)
  show "ucast ((ucast x OR 0x80 :: byte) AND 0x7f) = take_bit 7 x"
  proof (rule bit_word_eqI)
    fix n assume "n < LENGTH(64)"
    have m: "(0x7f :: byte) = mask 7" by (simp add: mask_eq_exp_minus_1)
    have p: "(0x80 :: byte) = push_bit 7 1" by simp
    show "bit (ucast ((ucast x OR 0x80 :: byte) AND 0x7f) :: 64 word) n = bit (take_bit 7 x) n"
      unfolding m p by (auto simp: bit_simps simp del: push_bit_of_1)
  qed
qed

lemma last_byte:
  fixes x :: "64 word"
  assumes "x < 0x80"
  shows "(ucast x :: byte) < 0x80" "ucast (ucast x :: byte) = x" "unat (ucast x :: byte) = unat x"
proof -
  have lt: "unat x < 128" using assms by (simp add: word_less_nat_alt)
  then show u: "unat (ucast x :: byte) = unat x" 
    by (simp add: unsigned_ucast_eq take_bit_nat_eq_self)
  show "(ucast x :: byte) < 0x80" using lt u by (simp add: word_less_nat_alt)
  have "unat (ucast (ucast x :: byte) :: 64 word) = take_bit 64 (unat (ucast x :: byte))"
    by (subst unsigned_ucast_eq) (simp only: len_num0 len_num1 len_bit0 len_bit1, simp)
  also have "\<dots> = unat x" using u lt by (simp add: take_bit_nat_eq_self)
  finally show "ucast (ucast x :: byte) = x" by (simp only: word_unat_eq_iff)
qed

lemma drop_septet_less:
  fixes x :: "64 word"
  assumes "unat x < 2 ^ (64 - 7 * i)" "\<not> x < 0x80"
  shows "i < 9" "unat (drop_bit 7 x) < 2 ^ (64 - 7 * Suc i)"
proof -
  have ge: "128 \<le> unat x" using assms(2) by (simp add: word_less_nat_alt)
  show "i < 9"
  proof (rule ccontr)
    assume "\<not> i < 9"
    then have "(2 :: nat) ^ (64 - 7 * i) \<le> 2 ^ 1" by (intro power_increasing) auto
    then have "unat x < 2" using assms(1) by simp
    with ge show False by simp
  qed
  then have "64 - 7 * i = 7 + (64 - 7 * Suc i)" by simp
  then have "unat x < 2 ^ 7 * 2 ^ (64 - 7 * Suc i)" using assms(1) by (simp only: power_add)
  then have "unat x div 2 ^ 7 < 2 ^ (64 - 7 * Suc i)"
    by (metis less_mult_imp_div_less mult.commute)
  then show "unat (drop_bit 7 x) < 2 ^ (64 - 7 * Suc i)"
    by (subst unat_drop_bit_eq) (simp only: drop_bit_eq_div)
qed

lemma ReadUvarint_PutUvarint_from:
  assumes "unat x < 2 ^ (64 - 7 * i)" "i \<le> 9"
  shows "ReadUvarint i a (PutUvarint x @ bs, e) = Inr (a OR push_bit (7 * i) x, bs, e)"
  using assms
proof (induction x arbitrary: i a rule: PutUvarint.induct)
  case (1 x)
  show ?case
  proof (cases "x < 0x80")
    case True
    have "\<not> (i = 9 \<and> 1 < (ucast x :: byte))"
      using "1.prems"(1) last_byte(3) [OF True] by (auto simp: word_less_nat_alt)
    then show ?thesis using True last_byte [OF True] "1.prems"(2)
      by (auto simp: PutUvarint.simps)
  next
    case False
    note d = drop_septet_less [OF "1.prems"(1) False]
    have "ReadUvarint (Suc i) b (PutUvarint (drop_bit 7 x) @ bs, e)
        = Inr (b OR push_bit (7 * Suc i) (drop_bit 7 x), bs, e)" for b
      using "1.IH" [OF False d(2)] d(1) by simp
    then show ?thesis using False split_septet [of "7 * i" x]
      by (subst PutUvarint.simps) (simp add: continuation_byte or.assoc add.commute)
  qed
qed

lemma ReadUvarint_PutUvarint:
  "ReadUvarint 0 0 (PutUvarint x @ bs, e) = Inr (x, bs, e)"
  using ReadUvarint_PutUvarint_from [of x 0 0 bs e] unsigned_less [of x, where 'a = nat] by simp

lemma unzigzag_zigzag [simp]: "unzigzag (zigzag x) = x"
proof (cases "sint x < 0")
  case True
  then have b: "bit x 63" by (simp add: bit_last_iff [where 'a = 64, simplified])
  have "drop_bit 1 (NOT (push_bit 1 x)) = NOT x"
  proof (rule bit_word_eqI)
    fix n assume "n < LENGTH(64)"
    then show "bit (drop_bit 1 (NOT (push_bit 1 x))) n = bit (NOT x) n"
      using b by (cases "n = 63") (auto simp: bit_simps bit_double_iff mult.commute [of x 2])
  qed
  moreover have "NOT (push_bit 1 x) AND 1 \<noteq> 0"
    by (simp add: and_one_eq mod2_eq_if)
  ultimately show ?thesis using True by (simp add: zigzag_def unzigzag_def)
next
  case False
  then have b: "\<not> bit x 63" by (simp add: bit_last_iff [where 'a = 64, simplified])
  have "drop_bit 1 (push_bit 1 x) = x"
  proof (rule bit_word_eqI)
    fix n assume "n < LENGTH(64)"
    then show "bit (drop_bit 1 (push_bit 1 x)) n = bit x n"
      using b by (cases "n = 63") (auto simp: bit_simps bit_double_iff mult.commute [of x 2])
  qed
  moreover have "push_bit 1 x AND 1 = 0" by (simp add: and_one_eq mod2_eq_if)
  ultimately show ?thesis using False by (simp add: zigzag_def unzigzag_def)
qed

lemma ReadVarint_PutVarint:
  "ReadVarint (PutVarint x @ bs, e) = Inr (x, bs, e)"
  by (simp add: ReadVarint_def PutVarint_def ReadUvarint_PutUvarint)

section \<open>Length\<close>

lemma PutUvarint_length_pos: "0 < length (PutUvarint x)"
  by (subst PutUvarint.simps) simp

lemma PutUvarint_length:
  assumes "unat x < 2 ^ (7 * n)" "0 < n"
  shows "length (PutUvarint x) \<le> n"
  using assms
proof (induction x arbitrary: n rule: PutUvarint.induct)
  case (1 x)
  show ?case
  proof (cases "x < 0x80")
    case False
    then have ge: "128 \<le> unat x" by (simp add: word_less_nat_alt)
    obtain m where m: "n = Suc m" using "1.prems"(2) by (cases n) auto
    have "0 < m"
    proof (rule ccontr)
      assume "\<not> 0 < m"
      with "1.prems"(1) m have "unat x < 128" by simp
      with ge show False by simp
    qed
    have "unat x < 2 ^ 7 * 2 ^ (7 * m)" using "1.prems"(1) m by (simp add: power_add)
    then have "unat x div 2 ^ 7 < 2 ^ (7 * m)"
      by (metis less_mult_imp_div_less mult.commute)
    then have "unat (drop_bit 7 x) < 2 ^ (7 * m)"
      by (subst unat_drop_bit_eq) (simp only: drop_bit_eq_div)
    from "1.IH" [OF False this \<open>0 < m\<close>] show ?thesis
      using False m by (subst PutUvarint.simps) simp
  qed (use "1.prems" in \<open>simp add: PutUvarint.simps\<close>)
qed

lemma zigzag_unat:
  "unat (zigzag x) = nat (if sint x < 0 then - 2 * sint x - 1 else 2 * sint x)"
proof -
  let ?k = "sint x"
  have k: "- (2 ^ 63) \<le> ?k" "?k < 2 ^ 63"
    using sint_greater_eq [of x] sint_less [of x] by simp_all
  have "push_bit 1 x = word_of_int (2 * ?k)" by simp
  moreover have "NOT (word_of_int (2 * ?k) :: 64 word) = word_of_int (- 2 * ?k - 1)"
    by (simp add: not_eq_complement)
  ultimately have "zigzag x = word_of_int (if ?k < 0 then - 2 * ?k - 1 else 2 * ?k)"
    by (simp only: zigzag_def Let_def split: if_splits) simp
  moreover have "uint (word_of_int m :: 64 word) = m" if "0 \<le> m" "m < 2 ^ 64" for m
    using that by (simp add: uint_word_of_int)
  ultimately have "uint (zigzag x) = (if ?k < 0 then - 2 * ?k - 1 else 2 * ?k)"
    using k by simp
  then show ?thesis by (simp only: unat_eq_nat_uint)
qed

lemma PutVarint_length:
  assumes "- (2 ^ (7 * n - 1)) \<le> sint x" "sint x < 2 ^ (7 * n - 1)" "0 < n"
  shows "length (PutVarint x) \<le> n"
proof -
  have "(2 :: int) ^ (7 * n) = 2 * 2 ^ (7 * n - 1)"
    using assms(3) by (metis mult_pos_pos power_minus_mult mult.commute zero_less_numeral)
  then have "unat (zigzag x) < 2 ^ (7 * n)"
    using assms(1,2) by (subst zigzag_unat) (simp add: nat_less_iff)
  then show ?thesis unfolding PutVarint_def by (rule PutUvarint_length [OF _ assms(3)])
qed

lemma PutVarint_length_max: "length (PutVarint x) \<le> 10"
  unfolding PutVarint_def
  by (rule PutUvarint_length) (rule order_less_trans [OF unsigned_less [where 'a = nat]], simp_all)

end
