(* ===== verification/Message.thy ===== *)
theory Message
  imports Varint "HOL-Library.Signed_Division"
begin

text \<open>
  The frames of the reverse tunnel, src/pkg/remotedialer/message.go: the constructors of the
  three kinds of message, the header writer with its buffer of 24 bytes, the parser
  \<open>newServerMessage\<close> and \<open>Err\<close>, which reads the error text of a received message at most
  once. The counter behind \<open>nextid\<close> is passed through. \<open>String\<close>, which formats log lines,
  is not modelled.
\<close>

section \<open>Bytes and strings\<close>

definition bytes_of :: "string \<Rightarrow> bytes" where "bytes_of s = map (\<lambda>c. of_nat (of_char c)) s"
definition string_of :: "bytes \<Rightarrow> string" where "string_of bs = map (\<lambda>b. char_of (unat b)) bs"

lemma string_of_bytes_of [simp]: "string_of (bytes_of s) = s"
proof -
  have "char_of (unat (of_nat (of_char c) :: byte)) = c" for c
    using nat_of_char_less_256 [of c] by (simp add: unat_of_nat take_bit_nat_eq_self del: of_nat_of_char)
  then show ?thesis by (simp add: string_of_def bytes_of_def o_def del: of_nat_of_char)
qed

lemma bytes_of_append: "bytes_of (a @ b) = bytes_of a @ bytes_of b"
  by (simp add: bytes_of_def)

lemma length_bytes_of [simp]: "length (bytes_of s) = length s"
  by (simp add: bytes_of_def)

lemma take_bytes_of: "take n (bytes_of s) = bytes_of (take n s)"
  by (simp add: bytes_of_def take_map)

section \<open>Messages\<close>

definition Data :: int64 where "Data = 1"
definition Connect :: int64 where "Connect = 2"
definition Error :: int64 where "Error = 3"

lemmas message_types = Data_def Connect_def Error_def

record message =
  msg_id :: int64
  msg_err :: "GoError option"
  msg_connID :: int64
  msg_deadline :: int64
  messageType :: int64
  msg_bytes :: bytes
  msg_body :: "reader option"
  msg_proto :: string
  msg_address :: string

definition nextid :: "int64 \<Rightarrow> int64 \<times> int64" where
  "nextid idCounter = (idCounter + 1, idCounter + 1)"

definition newMessage :: "int64 \<Rightarrow> int64 \<Rightarrow> bytes \<Rightarrow> int64 \<Rightarrow> message \<times> int64" where
  "newMessage connID deadline bytes idCounter =
     (let (i, idCounter') = nextid idCounter in
      (\<lparr>msg_id = i, msg_err = None, msg_connID = connID, msg_deadline = deadline,
        messageType = Data, msg_bytes = bytes, msg_body = None, msg_proto = [], msg_address = []\<rparr>,
       idCounter'))"

text \<open>A \<open>time.Duration\<close> counts nanoseconds; Go's division truncates towards zero.\<close>

definition milliseconds :: "int64 \<Rightarrow> int64" where
  "milliseconds d = word_of_int (sint d sdiv 1000000)"

definition newConnect :: "int64 \<Rightarrow> int64 \<Rightarrow> string \<Rightarrow> string \<Rightarrow> int64 \<Rightarrow> message \<times> int64" where
  "newConnect connID deadline proto address idCounter =
     (let (i, idCounter') = nextid idCounter in
      (\<lparr>msg_id = i, msg_err = None, msg_connID = connID, msg_deadline = milliseconds deadline,
        messageType = Connect, msg_bytes = bytes_of (proto @ ''/'' @ address), msg_body = None,
        msg_proto = proto, msg_address = address\<rparr>,
       idCounter'))"

definition newErrorMessage :: "int64 \<Rightarrow> GoError \<Rightarrow> int64 \<Rightarrow> message \<times> int64" where
  "newErrorMessage connID err idCounter =
     (let (i, idCounter') = nextid idCounter in
      (\<lparr>msg_id = i, msg_err = Some err, msg_connID = connID, msg_deadline = 0,
        messageType = Error, msg_bytes = bytes_of (Error_text err), msg_body = None,
        msg_proto = [], msg_address = []\<rparr>,
       idCounter'))"

section \<open>Parsing\<close>

text \<open>\<open>ioutil.ReadAll(io.LimitReader(r, n))\<close>.\<close>

definition ReadAll_Limit :: "nat \<Rightarrow> reader \<Rightarrow> GoError + (bytes \<times> reader)" where
  "ReadAll_Limit n r =
     (case r of (bs, e) \<Rightarrow>
        if length bs < n \<and> e \<noteq> EOF then Inl e else Inr (take n bs, drop n bs, e))"

definition ebind :: "'e + 'a \<Rightarrow> ('a \<Rightarrow> 'e + 'b) \<Rightarrow> 'e + 'b" where
  "ebind m f = (case m of Inl e \<Rightarrow> Inl e | Inr x \<Rightarrow> f x)"

lemma ebind_simps [simp]:
  "ebind (Inl e) f = Inl e"
  "ebind (Inr x) f = f x"
  by (simp_all add: ebind_def)

definition newServerMessage :: "reader \<Rightarrow> GoError + message" where
  "newServerMessage r0 =
     ebind (ReadVarint r0) (\<lambda>(i, r1).
     ebind (ReadVarint r1) (\<lambda>(connID, r2).
     ebind (ReadVarint r2) (\<lambda>(mType, r3).
     ebind (if mType = Data \<or> mType = Connect then ReadVarint r3 else Inr (0, r3)) (\<lambda>(deadline, r4).
       let m = \<lparr>msg_id = i, msg_err = None, msg_connID = connID, msg_deadline = deadline,
                messageType = mType, msg_bytes = [], msg_body = Some r4, msg_proto = [], msg_address = []\<rparr>
       in if mType = Connect
          then ebind (ReadAll_Limit 100 r4) (\<lambda>(bs, r5).
                 case strings_SplitN2 (CHR ''/'') (string_of bs) of
                   [proto, address] \<Rightarrow>
                     Inr (m\<lparr>msg_proto := proto, msg_address := address, msg_bytes := bs, msg_body := Some r5\<rparr>)
                 | _ \<Rightarrow> Inl (ErrText ''failed to parse connect address''))
          else Inr m))))"

text \<open>\<open>Err\<close> keeps what it has read; a message that was not parsed has no body to read.\<close>

definition message_Err :: "message \<Rightarrow> (GoError \<times> message) go" where
  "message_Err m =
     (case msg_err m of
        Some e \<Rightarrow> Inr (e, m)
      | None \<Rightarrow>
          (case msg_body m of
             None \<Rightarrow> Inl NilDereference
           | Some r \<Rightarrow>
               (case ReadAll_Limit 100 r of
                  Inl e \<Rightarrow> Inr (e, m)
                | Inr (bs, r') \<Rightarrow>
                    (let str = string_of bs; e = (if str = ''EOF'' then EOF else ErrText str)
                     in Inr (e, m\<lparr>msg_err := Some e, msg_body := Some r'\<rparr>)))))"

section \<open>Writing\<close>

text \<open>\<open>binary.PutVarint(buf[offset:], v)\<close> on a buffer of fixed length; the new offset is returned.\<close>

definition put_at :: "bytes \<Rightarrow> nat \<Rightarrow> int64 \<Rightarrow> (bytes \<times> nat) go" where
  "put_at buf offset v =
     (let enc = PutVarint v; n = offset + length enc in
      if n \<le> length buf then Inr (take offset buf @ enc @ drop n buf, n)
      else Inl IndexOutOfRange)"

definition header :: "message \<Rightarrow> bytes go" where
  "header m =
     gbind (put_at (replicate 24 0) 0 (msg_id m)) (\<lambda>(buf, offset).
     gbind (put_at buf offset (msg_connID m)) (\<lambda>(buf, offset).
     gbind (put_at buf offset (messageType m)) (\<lambda>(buf, offset).
     gbind (if messageType m = Data \<or> messageType m = Connect
            then put_at buf offset (msg_deadline m) else Inr (buf, offset)) (\<lambda>(buf, offset).
       Inr (take offset buf)))))"

definition Bytes :: "message \<Rightarrow> bytes go" where
  "Bytes m = gbind (header m) (\<lambda>h. Inr (h @ msg_bytes m))"

text \<open>What the header must be when it fits.\<close>

definition header_enc :: "message \<Rightarrow> bytes" where
  "header_enc m = PutVarint (msg_id m) @ PutVarint (msg_connID m) @ PutVarint (messageType m) @
     (if messageType m = Data \<or> messageType m = Connect then PutVarint (msg_deadline m) else [])"

lemma put_at_eq:
  assumes "offset \<le> length buf"
  shows "put_at buf offset v =
    (if offset + length (PutVarint v) \<le> length buf
     then Inr (take offset buf @ PutVarint v @ drop (offset + length (PutVarint v)) buf,
               offset + length (PutVarint v))
     else Inl IndexOutOfRange)"
  using assms by (simp add: put_at_def Let_def)

lemma header_eq:
  "header m = (if length (header_enc m) \<le> 24 then Inr (header_enc m) else Inl IndexOutOfRange)"
  by (simp add: header_def header_enc_def put_at_def Let_def)

lemma Bytes_eq:
  "Bytes m = (if length (header_enc m) \<le> 24 then Inr (header_enc m @ msg_bytes m) else Inl IndexOutOfRange)"
  by (simp add: Bytes_def header_eq)

lemma Bytes_Inr_iff:
  "Bytes m = Inr bs \<longleftrightarrow> length (header_enc m) \<le> 24 \<and> bs = header_enc m @ msg_bytes m"
  by (auto simp: Bytes_eq)

lemmas message_ctors = newMessage_def newConnect_def newErrorMessage_def nextid_def

section \<open>Received messages\<close>

lemma ebind_ReadVarint_PutVarint:
  "ebind (ReadVarint (PutVarint x @ bs, e)) f = f (x, bs, e)"
  by (simp add: ReadVarint_PutVarint)

lemma newServerMessage_header:
  "newServerMessage (header_enc m @ bs, e) =
     (let dl = (if messageType m = Data \<or> messageType m = Connect then msg_deadline m else 0);
          m' = \<lparr>msg_id = msg_id m, msg_err = None, msg_connID = msg_connID m, msg_deadline = dl,
                messageType = messageType m, msg_bytes = [], msg_body = Some (bs, e),
                msg_proto = [], msg_address = []\<rparr>
      in if messageType m = Connect
         then ebind (ReadAll_Limit 100 (bs, e)) (\<lambda>(bs, r5).
                case strings_SplitN2 (CHR ''/'') (string_of bs) of
                  [proto, address] \<Rightarrow>
                    Inr (m'\<lparr>msg_proto := proto, msg_address := address, msg_bytes := bs, msg_body := Some r5\<rparr>)
                | _ \<Rightarrow> Inl (ErrText ''failed to parse connect address''))
         else Inr m')"
  by (simp add: newServerMessage_def header_enc_def ebind_ReadVarint_PutVarint append_assoc Let_def)



text \<open>\<open>Data\<close> and \<open>Error\<close> frames survive the wire: the payload of a \<open>Data\<close> frame is exactly
  what the receiver's body delivers, and \<open>Err\<close> of a received \<open>Error\<close> frame is \<open>io.EOF\<close> for
  \<open>io.EOF\<close> and otherwise an error with the first 100 bytes of the text that was sent.\<close>

theorem data_and_error_roundtrip:
  assumes "Bytes (fst (newMessage connID deadline payload ctr)) = Inr dwire"
    and "Bytes (fst (newErrorMessage connID err ctr)) = Inr ewire"
  shows "(\<exists>dm. newServerMessage (dwire, EOF) = Inr dm \<and> msg_id dm = ctr + 1 \<and> msg_connID dm = connID \<and>
      messageType dm = Data \<and> msg_deadline dm = deadline \<and> msg_body dm = Some (payload, EOF)) \<and>
    (\<exists>em em'. newServerMessage (ewire, EOF) = Inr em \<and> msg_id em = ctr + 1 \<and>
      msg_connID em = connID \<and> messageType em = Error \<and>
      message_Err em = Inr (if take 100 (Error_text err) = ''EOF'' then EOF
                            else ErrText (take 100 (Error_text err)), em') \<and>
      message_Err em' = message_Err em)"
proof
  show "\<exists>dm. newServerMessage (dwire, EOF) = Inr dm \<and> msg_id dm = ctr + 1 \<and> msg_connID dm = connID \<and>
      messageType dm = Data \<and> msg_deadline dm = deadline \<and> msg_body dm = Some (payload, EOF)"
    using assms(1) by (auto simp: Bytes_Inr_iff newServerMessage_header message_ctors message_types)
  let ?s = "take 100 (Error_text err)"
  let ?e = "if ?s = ''EOF'' then EOF else ErrText ?s"
  let ?em = "\<lparr>msg_id = ctr + 1, msg_err = None, msg_connID = connID, msg_deadline = 0,
    messageType = Error, msg_bytes = [], msg_body = Some (bytes_of (Error_text err), EOF),
    msg_proto = [], msg_address = []\<rparr>"
  have "newServerMessage (ewire, EOF) = Inr ?em"
    using assms(2) by (auto simp: Bytes_Inr_iff newServerMessage_header message_ctors message_types)
  moreover have "message_Err ?em = Inr (?e, ?em\<lparr>msg_err := Some ?e,
      msg_body := Some (drop 100 (bytes_of (Error_text err)), EOF)\<rparr>)"
    by (simp add: message_Err_def ReadAll_Limit_def take_bytes_of Let_def)
  ultimately show "\<exists>em em'. newServerMessage (ewire, EOF) = Inr em \<and> msg_id em = ctr + 1 \<and>
      msg_connID em = connID \<and> messageType em = Error \<and> message_Err em = Inr (?e, em') \<and>
      message_Err em' = message_Err em"
    by (intro exI [of _ ?em] exI conjI) (assumption | simp add: message_Err_def)+
qed

theorem data_and_error_roundtrip_witness:
  "(\<exists>dm. newServerMessage ([2, 4, 2, 0, 104, 105], EOF) = Inr dm \<and> msg_body dm = Some ([104, 105], EOF)) \<and>
   (\<exists>em em'. newServerMessage ([2, 4, 6, 69, 79, 70], EOF) = Inr em \<and> message_Err em = Inr (EOF, em'))"
proof -
  have "Bytes (fst (newMessage 2 0 [104, 105] 0)) = Inr [2, 4, 2, 0, 104, 105]"
    "Bytes (fst (newErrorMessage 2 EOF 0)) = Inr [2, 4, 6, 69, 79, 70]"
    by (simp_all add: Bytes_eq header_enc_def message_ctors message_types PutVarint_def zigzag_def
        PutUvarint.simps bytes_of_def)
  from data_and_error_roundtrip [OF this] show ?thesis by auto
qed

section \<open>The header buffer\<close>

lemma type_length:
  "t \<in> {Data, Connect, Error} \<Longrightarrow> length (PutVarint t) = 1"
  by (auto simp: message_types PutVarint_def zigzag_def PutUvarint.simps)

lemma header_enc_length:
  assumes "messageType m \<in> {Data, Connect, Error}"
    and "- (2 ^ 41) \<le> sint (msg_connID m)" "sint (msg_connID m) < 2 ^ 41"
    and "- (2 ^ 48) \<le> sint (msg_deadline m)" "sint (msg_deadline m) < 2 ^ 48"
  shows "length (header_enc m) \<le> 24"
proof -
  have "length (PutVarint (msg_connID m)) \<le> 6" by (rule PutVarint_length) (use assms in simp_all)
  moreover have "length (PutVarint (msg_deadline m)) \<le> 7" by (rule PutVarint_length) (use assms in simp_all)
  ultimately show ?thesis
    using type_length [OF assms(1)] PutVarint_length_max [of "msg_id m"] by (simp add: header_enc_def)
qed

lemma milliseconds_range:
  "- (2 ^ 48) \<le> sint (milliseconds d)" "sint (milliseconds d) < 2 ^ 48"
proof -
  let ?q = "sint d sdiv 1000000"
  have d: "\<bar>sint d\<bar> \<le> 2 ^ 63"
    using sint_greater_eq [of d] sint_less [of d] by (simp add: abs_le_iff)
  have "\<bar>?q\<bar> \<le> \<bar>sint d\<bar> div 1000000" by (simp add: signed_divide_int_def abs_mult)
  also have "\<dots> < 2 ^ 48" using d by simp
  finally have q: "\<bar>?q\<bar> < 2 ^ 48" .
  then have "sint (word_of_int ?q :: int64) = ?q"
    by (auto simp: sint_sbintrunc' signed_take_bit_int_eq_self_iff)
  with q show "- (2 ^ 48) \<le> sint (milliseconds d)" "sint (milliseconds d) < 2 ^ 48"
    unfolding milliseconds_def by linarith+
qed

text \<open>C39: the 24 bytes of the header buffer are enough: for every identifier the counter can
  reach and every deadline that a \<open>time.Duration\<close> gives, no frame of a connection whose
  number needs at most 42 bits panics while it is written.\<close>

theorem header_fits:
  assumes "- (2 ^ 41) \<le> sint connID" "sint connID < 2 ^ 41"
  shows "(\<exists>wire. Bytes (fst (newConnect connID d proto address ctr)) = Inr wire) \<and>
    (\<exists>wire. Bytes (fst (newMessage connID (milliseconds d) payload ctr)) = Inr wire) \<and>
    (\<exists>wire. Bytes (fst (newErrorMessage connID err ctr)) = Inr wire)"
proof (intro conjI)
  show "\<exists>wire. Bytes (fst (newConnect connID d proto address ctr)) = Inr wire"
    unfolding Bytes_Inr_iff
    by (intro exI conjI, rule header_enc_length) (use assms milliseconds_range [of d] in
      \<open>simp_all add: message_ctors\<close>)
  show "\<exists>wire. Bytes (fst (newMessage connID (milliseconds d) payload ctr)) = Inr wire"
    unfolding Bytes_Inr_iff
    by (intro exI conjI, rule header_enc_length) (use assms milliseconds_range [of d] in
      \<open>simp_all add: message_ctors\<close>)
  show "\<exists>wire. Bytes (fst (newErrorMessage connID err ctr)) = Inr wire"
    unfolding Bytes_Inr_iff
    by (intro exI conjI, rule header_enc_length) (use assms in \<open>simp_all add: message_ctors\<close>)
qed

theorem header_fits_witness:
  "(\<exists>wire. Bytes (fst (newConnect 7 30000000000 ''tcp'' ''10.0.0.1:6443'' (2 ^ 63 - 1))) = Inr wire) \<and>
   (\<exists>wire. Bytes (fst (newMessage 7 (milliseconds 30000000000) [1] (2 ^ 63 - 1))) = Inr wire) \<and>
   (\<exists>wire. Bytes (fst (newErrorMessage 7 EOF (2 ^ 63 - 1))) = Inr wire)"
  by (rule header_fits) simp_all

text \<open>A longer target is cut. When \<open>proto/address\<close> is longer than 100 bytes, the agent parses,
  and dials, only the first part of the address: the frame is accepted without an error.\<close>

theorem long_address_truncated:
  assumes "Bytes (fst (newConnect connID deadline proto address ctr)) = Inr wire"
    and "CHR ''/'' \<notin> set proto" "length proto < 100" "100 \<le> length proto + length address"
  shows "\<exists>m. newServerMessage (wire, EOF) = Inr m \<and> msg_proto m = proto \<and>
    msg_address m = take (99 - length proto) address \<and> msg_address m \<noteq> address"
proof -
  have cut: "take 100 (proto @ ''/'' @ address) = proto @ CHR ''/'' # take (99 - length proto) address"
  proof -
    have "100 - length proto = Suc (99 - length proto)" using assms(3) by simp
    then show ?thesis using assms(3) by simp
  qed
  have "length (take (99 - length proto) address) < length address" using assms(3,4) by simp
  then have "take (99 - length proto) address \<noteq> address" by (metis less_irrefl)
  with assms(1,2,4) cut show ?thesis
    by (auto simp: Bytes_Inr_iff newServerMessage_header message_ctors ReadAll_Limit_def take_bytes_of
        strings_SplitN2_join)
qed

theorem long_address_truncated_witness:
  "\<exists>wire m. Bytes (fst (newConnect 2 0 ''tcp'' (replicate 120 (CHR ''a'')) 0)) = Inr wire \<and>
     newServerMessage (wire, EOF) = Inr m \<and> msg_address m = replicate 96 (CHR ''a'')"
proof -
  obtain wire where "Bytes (fst (newConnect 2 0 ''tcp'' (replicate 120 (CHR ''a'')) 0)) = Inr wire"
    by (simp add: Bytes_eq header_enc_def message_ctors message_types PutVarint_def zigzag_def
        PutUvarint.simps milliseconds_def signed_divide_int_def)
  moreover from long_address_truncated [OF this] obtain m where
    "newServerMessage (wire, EOF) = Inr m" "msg_address m = replicate 96 (CHR ''a'')"
    by (auto simp: take_replicate)
  ultimately show ?thesis by blast
qed

end
