(* ===== verification/Connection.thy ===== *)
theory Connection
  imports Message
begin

text \<open>
  One end of a tunnelled connection, src/pkg/remotedialer/connection.go: a Go channel of 1024
  byte slices between the session, which writes what it receives (\<open>chanWriter\<close>), and the
  user of the connection, who reads it. Sending on a closed channel and closing one twice
  panic, as in Go; a receive from an open empty channel blocks, which \<open>connection_Read\<close> gives
  as \<open>None\<close>. The connection is shown to be a byte queue (locale \<open>byte_queue\<close>) that no sequence
  of its operations can make panic.
\<close>

section \<open>Channels\<close>

record chan =
  chan_items :: "bytes list"
  chan_cap :: nat
  chan_closed :: bool

definition make_chan :: "nat \<Rightarrow> chan" where
  "make_chan n = \<lparr>chan_items = [], chan_cap = n, chan_closed = False\<rparr>"

definition chan_close :: "chan \<Rightarrow> chan go" where
  "chan_close ch = (if chan_closed ch then Inl CloseOfClosedChannel else Inr (ch\<lparr>chan_closed := True\<rparr>))"

text \<open>\<open>select { case C <- x: ...; default: ... }\<close>: whether the send was done.\<close>

definition chan_try_send :: "chan \<Rightarrow> bytes \<Rightarrow> (bool \<times> chan) go" where
  "chan_try_send ch x =
     (if chan_closed ch then Inl SendOnClosedChannel
      else if length (chan_items ch) < chan_cap ch
           then Inr (True, ch\<lparr>chan_items := chan_items ch @ [x]\<rparr>)
           else Inr (False, ch))"

text \<open>\<open>x, ok := <-C\<close>; \<open>None\<close> while the receive blocks.\<close>

definition chan_recv :: "chan \<Rightarrow> (bytes option \<times> chan) option" where
  "chan_recv ch =
     (case chan_items ch of
        x # xs \<Rightarrow> Some (Some x, ch\<lparr>chan_items := xs\<rparr>)
      | [] \<Rightarrow> if chan_closed ch then Some (None, ch) else None)"

section \<open>Connections\<close>

record addr =
  addr_proto :: string
  addr_address :: string

definition addr_Network :: "addr \<Rightarrow> string" where "addr_Network a = addr_proto a"
definition addr_String :: "addr \<Rightarrow> string" where "addr_String a = addr_address a"

text \<open>A \<open>time.Time\<close> is an optional number of nanoseconds, \<open>None\<close> for the zero time. The session
  a connection belongs to is the one whose heap holds it.\<close>

record connection =
  c_err :: "GoError option"
  writeDeadline :: "int64 option"
  c_buf :: chan
  readBuf :: bytes
  c_addr :: addr
  c_connID :: int64

definition newConnection :: "int64 \<Rightarrow> string \<Rightarrow> string \<Rightarrow> connection" where
  "newConnection connID proto address =
     \<lparr>c_err = None, writeDeadline = None, c_buf = make_chan 1024, readBuf = [],
      c_addr = \<lparr>addr_proto = proto, addr_address = address\<rparr>, c_connID = connID\<rparr>"

definition doTunnelClose :: "GoError option \<Rightarrow> connection \<Rightarrow> connection go" where
  "doTunnelClose err c =
     (if c_err c \<noteq> None then Inr c
      else let e = (case err of None \<Rightarrow> ErrClosedPipe | Some e \<Rightarrow> e)
           in gbind (chan_close (c_buf c)) (\<lambda>ch. Inr (c\<lparr>c_err := Some e, c_buf := ch\<rparr>)))"

definition copyData :: "nat \<Rightarrow> connection \<Rightarrow> bytes \<times> connection" where
  "copyData n c = (take n (readBuf c), c\<lparr>readBuf := drop n (readBuf c)\<rparr>)"

text \<open>\<open>Read\<close> into a buffer of length \<open>n\<close>: the bytes copied, the error, the connection.\<close>

definition connection_Read :: "nat \<Rightarrow> connection \<Rightarrow> (bytes \<times> GoError option \<times> connection) option" where
  "connection_Read n c =
     (if n = 0 then Some ([], None, c)
      else let (got, c1) = copyData n c in
           if got \<noteq> [] then Some (got, None, c1)
           else (case chan_recv (c_buf c1) of
                   None \<Rightarrow> None
                 | Some (None, ch) \<Rightarrow>
                     Some ([], Some (case c_err c1 of Some e \<Rightarrow> e | None \<Rightarrow> EOF), c1\<lparr>c_buf := ch\<rparr>)
                 | Some (Some next, ch) \<Rightarrow>
                     let (got, c2) = copyData n (c1\<lparr>c_buf := ch, readBuf := next\<rparr>)
                     in Some (got, None, c2)))"

definition backed_up :: GoError where
  "backed_up = ErrText ''backed up reader''"

definition chanWriter_Write :: "bytes \<Rightarrow> connection \<Rightarrow> ((nat \<times> GoError option) \<times> connection) go" where
  "chanWriter_Write buf c =
     (case c_err c of
        Some e \<Rightarrow> Inr ((0, Some e), c)
      | None \<Rightarrow>
          gbind (chan_try_send (c_buf c) buf) (\<lambda>(sent, ch).
            if sent then Inr ((length buf, None), c\<lparr>c_buf := ch\<rparr>)
            else Inr ((0, Some backed_up), c)))"

definition SetReadDeadline :: "int64 option \<Rightarrow> connection \<Rightarrow> GoError option \<times> connection" where
  "SetReadDeadline t c = (None, c)"

definition SetWriteDeadline :: "int64 option \<Rightarrow> connection \<Rightarrow> GoError option \<times> connection" where
  "SetWriteDeadline t c = (None, c\<lparr>writeDeadline := t\<rparr>)"

definition SetDeadline :: "int64 option \<Rightarrow> connection \<Rightarrow> GoError option \<times> connection" where
  "SetDeadline t c =
     (case SetReadDeadline t c of
        (Some e, c') \<Rightarrow> (Some e, c')
      | (None, c') \<Rightarrow> SetWriteDeadline t c')"

section \<open>The invariant\<close>

definition conn_inv :: "connection \<Rightarrow> bool" where
  "conn_inv c \<longleftrightarrow> (chan_closed (c_buf c) \<longleftrightarrow> c_err c \<noteq> None) \<and>
     chan_cap (c_buf c) = 1024 \<and> length (chan_items (c_buf c)) \<le> 1024 \<and> [] \<notin> set (chan_items (c_buf c))"

lemmas conn_defs = conn_inv_def doTunnelClose_def chan_close_def chanWriter_Write_def chan_try_send_def
  connection_Read_def chan_recv_def copyData_def

lemma newConnection_inv [inv_intros, simp]: "conn_inv (newConnection connID proto address)"
  by (simp add: conn_inv_def newConnection_def make_chan_def)

lemma doTunnelClose_eq:
  assumes "conn_inv c"
  shows "doTunnelClose err c =
    (if c_err c = None
     then Inr (c\<lparr>c_err := Some (case err of None \<Rightarrow> ErrClosedPipe | Some e \<Rightarrow> e),
                 c_buf := (c_buf c)\<lparr>chan_closed := True\<rparr>\<rparr>)
     else Inr c)"
  using assms by (auto simp: conn_defs Let_def)

lemma doTunnelClose_inv [inv_intros]:
  assumes "conn_inv c"
  obtains c' where "doTunnelClose err c = Inr c'" "conn_inv c'" "c_err c' \<noteq> None"
    "c_connID c' = c_connID c"
  using assms by (auto simp: doTunnelClose_eq conn_inv_def split: if_splits)

lemma chanWriter_Write_eq:
  assumes "conn_inv c"
  shows "chanWriter_Write buf c =
    (case c_err c of
       Some e \<Rightarrow> Inr ((0, Some e), c)
     | None \<Rightarrow> if length (chan_items (c_buf c)) < 1024
               then Inr ((length buf, None), c\<lparr>c_buf := (c_buf c)\<lparr>chan_items := chan_items (c_buf c) @ [buf]\<rparr>\<rparr>)
               else Inr ((0, Some backed_up), c))"
  using assms by (auto simp: conn_inv_def chanWriter_Write_def chan_try_send_def split: option.splits)

lemma chanWriter_Write_inv [inv_intros]:
  assumes "conn_inv c" "buf \<noteq> []" "chanWriter_Write buf c = Inr (r, c')"
  shows "conn_inv c'" "c_err c' = c_err c" "c_connID c' = c_connID c"
  using assms by (auto simp: chanWriter_Write_eq conn_inv_def split: option.splits if_splits)

lemma connection_Read_inv [inv_intros]:
  assumes "conn_inv c" "connection_Read n c = Some (got, e, c')"
  shows "conn_inv c'" "c_err c' = c_err c" "c_connID c' = c_connID c"
  using assms
  by (cases "c_err c"; auto simp: conn_inv_def connection_Read_def chan_recv_def copyData_def Let_def
      split: if_splits list.splits)+

section \<open>A connection is a byte queue\<close>

text \<open>The bytes that have arrived and were not read.\<close>

definition pending :: "connection \<Rightarrow> bytes" where
  "pending c = readBuf c @ concat (chan_items (c_buf c))"

text \<open>
  The contract between the session, which writes, and the user of the connection, who
  reads: accepted bytes are appended, a read removes a non-empty prefix or, when
  everything was read, ends in an error if there is one and blocks otherwise.
\<close>

locale byte_queue =
  fixes ok :: "'q \<Rightarrow> bool"
    and contents :: "'q \<Rightarrow> bytes"
    and failed :: "'q \<Rightarrow> GoError option"
    and put :: "bytes \<Rightarrow> 'q \<Rightarrow> ((nat \<times> GoError option) \<times> 'q) go"
    and get :: "nat \<Rightarrow> 'q \<Rightarrow> (bytes \<times> GoError option \<times> 'q) option"
  assumes put_total: "ok q \<Longrightarrow> bs \<noteq> [] \<Longrightarrow> \<exists>n e q'. put bs q = Inr ((n, e), q') \<and> ok q'"
    and put_ok: "ok q \<Longrightarrow> bs \<noteq> [] \<Longrightarrow> put bs q = Inr ((n, None), q') \<Longrightarrow>
           n = length bs \<and> contents q' = contents q @ bs \<and> failed q' = failed q \<and> failed q = None"
    and put_err: "ok q \<Longrightarrow> bs \<noteq> [] \<Longrightarrow> put bs q = Inr ((n, Some e), q') \<Longrightarrow> n = 0 \<and> q' = q"
    and get_data: "ok q \<Longrightarrow> 0 < n \<Longrightarrow> contents q \<noteq> [] \<Longrightarrow>
           \<exists>got q'. get n q = Some (got, None, q') \<and> got \<noteq> [] \<and> length got \<le> n \<and>
             contents q = got @ contents q' \<and> failed q' = failed q \<and> ok q'"
    and get_end: "ok q \<Longrightarrow> 0 < n \<Longrightarrow> contents q = [] \<Longrightarrow>
           (case failed q of None \<Rightarrow> get n q = None
            | Some e \<Rightarrow> \<exists>q'. get n q = Some ([], Some e, q') \<and> contents q' = [] \<and> failed q' = Some e \<and> ok q')"
begin

text \<open>Writing a sequence of chunks, stopping at the first error (\<open>io.Copy\<close>).\<close>

fun puts :: "bytes list \<Rightarrow> 'q \<Rightarrow> (GoError option \<times> 'q) go" where
  "puts [] q = Inr (None, q)"
| "puts (b # bs) q = gbind (put b q) (\<lambda>((_, e), q'). case e of Some e \<Rightarrow> Inr (Some e, q') | None \<Rightarrow> puts bs q')"

lemma puts_total:
  assumes "ok q" "[] \<notin> set bs"
  obtains e q' where "puts bs q = Inr (e, q')" "ok q'"
  using assms
proof (induction bs arbitrary: q thesis)
  case (Cons b bs)
  then obtain n e q' where p: "put b q = Inr ((n, e), q')" "ok q'" using put_total [of q b] by auto
  show ?case
  proof (cases e)
    case None
    then show ?thesis using Cons.IH [OF _ p(2)] Cons.prems p by auto
  qed (use Cons.prems(1) p in auto)
qed auto

lemma puts_contents:
  assumes "ok q" "[] \<notin> set bs" "puts bs q = Inr (e, q')"
  shows "\<exists>k \<le> length bs. contents q' = contents q @ concat (take k bs) \<and> failed q' = failed q \<and>
    (e = None \<longrightarrow> k = length bs)"
  using assms
proof (induction bs arbitrary: q)
  case (Cons b bs)
  have b: "b \<noteq> []" using Cons.prems(2) by auto
  then obtain n e1 q1 where p: "put b q = Inr ((n, e1), q1)" "ok q1"
    using put_total [OF Cons.prems(1)] by blast
  show ?case
  proof (cases e1)
    case None
    with p Cons.prems(3) have "puts bs q1 = Inr (e, q')" by simp
    with Cons.IH [OF p(2)] Cons.prems(2) obtain k where "k \<le> length bs"
      "contents q' = contents q1 @ concat (take k bs)" "failed q' = failed q1" "e = None \<longrightarrow> k = length bs"
      by auto
    moreover have "contents q1 = contents q @ b" "failed q1 = failed q"
      using put_ok [OF Cons.prems(1) b] p None by auto
    ultimately show ?thesis by (intro exI [of _ "Suc k"]) auto
  next
    case (Some e2)
    with put_err [OF Cons.prems(1) b] p have "q1 = q" by auto
    then show ?thesis using Some p Cons.prems(3) by (intro exI [of _ 0]) auto
  qed
qed auto

text \<open>Reading until an error or a block; the number of reads is bounded by the bytes.\<close>

fun drain :: "nat \<Rightarrow> nat \<Rightarrow> 'q \<Rightarrow> bytes \<times> GoError option" where
  "drain 0 n q = ([], None)"
| "drain (Suc k) n q =
     (case get n q of
        None \<Rightarrow> ([], None)
      | Some (got, Some e, _) \<Rightarrow> (got, Some e)
      | Some (got, None, q') \<Rightarrow> (let (rest, e) = drain k n q' in (got @ rest, e)))"

lemma drain_all:
  assumes "ok q" "0 < n" "length (contents q) < k"
  shows "drain k n q = (contents q, failed q)"
  using assms
proof (induction k arbitrary: q)
  case (Suc k)
  show ?case
  proof (cases "contents q = []")
    case True
    then show ?thesis using get_end [OF Suc.prems(1,2) True] by (auto split: option.splits)
  next
    case False
    then obtain got q' where g: "get n q = Some (got, None, q')" "got \<noteq> []"
      "contents q = got @ contents q'" "failed q' = failed q" "ok q'"
      using get_data [OF Suc.prems(1,2) False] by auto
    then have "length (contents q') < length (contents q)" by simp
    then have "length (contents q') < k" using Suc.prems(3) by linarith
    from Suc.IH [OF g(5) Suc.prems(2) this] g show ?thesis by simp
  qed
qed simp

end

interpretation conn_queue: byte_queue conn_inv pending c_err chanWriter_Write connection_Read
proof unfold_locales
  fix c :: connection and bs n e c'
  assume inv: "conn_inv c"
  show "\<exists>n e c'. chanWriter_Write bs c = Inr ((n, e), c') \<and> conn_inv c'" if "bs \<noteq> []"
  proof -
    have "\<exists>r c'. chanWriter_Write bs c = Inr (r, c')"
      using inv by (auto simp: chanWriter_Write_eq split: option.splits)
    then show ?thesis using chanWriter_Write_inv(1) [OF inv that] by fastforce
  qed
  show "n = length bs \<and> pending c' = pending c @ bs \<and> c_err c' = c_err c \<and> c_err c = None"
    if "bs \<noteq> []" "chanWriter_Write bs c = Inr ((n, None), c')"
    using inv that by (auto simp: chanWriter_Write_eq pending_def split: option.splits if_splits)
  show "n = 0 \<and> c' = c" if "chanWriter_Write bs c = Inr ((n, Some e), c')"
    using inv that by (auto simp: chanWriter_Write_eq split: option.splits if_splits)
  show "\<exists>got c'. connection_Read n c = Some (got, None, c') \<and> got \<noteq> [] \<and> length got \<le> n \<and>
      pending c = got @ pending c' \<and> c_err c' = c_err c \<and> conn_inv c'"
    if n: "0 < n" and p: "pending c \<noteq> []"
  proof (cases "readBuf c = []")
    case False
    then show ?thesis using n inv
      by (auto simp: connection_Read_def copyData_def pending_def conn_inv_def)
  next
    case True
    with p obtain x xs where "chan_items (c_buf c) = x # xs" "x \<noteq> []"
      using inv by (cases "chan_items (c_buf c)") (auto simp: pending_def conn_inv_def)
    then show ?thesis using n inv True
      by (auto simp: connection_Read_def copyData_def pending_def conn_inv_def chan_recv_def)
  qed
  show "case c_err c of None \<Rightarrow> connection_Read n c = None
      | Some e \<Rightarrow> \<exists>c'. connection_Read n c = Some ([], Some e, c') \<and> pending c' = [] \<and>
          c_err c' = Some e \<and> conn_inv c'"
    if "0 < n" "pending c = []"
  proof -
    have "chan_items (c_buf c) = []" "readBuf c = []"
      using that inv by (cases "chan_items (c_buf c)"; auto simp: pending_def conn_inv_def)+
    then show ?thesis using that inv
      by (auto simp: connection_Read_def copyData_def chan_recv_def conn_inv_def pending_def
          split: option.splits)
  qed
qed

lemma doTunnelClose_pending:
  assumes "conn_inv c" "doTunnelClose err c = Inr c'"
  shows "pending c' = pending c"
  using assms by (auto simp: doTunnelClose_eq pending_def split: if_splits)

text \<open>Nothing that arrived is lost and the order is kept: chunks written to a connection and
  followed by a close with an error are read back, in reads of any size, as exactly their
  concatenation after what was pending, and then the error.\<close>

theorem close_delivers_everything:
  assumes "conn_inv c" "[] \<notin> set chunks" "conn_queue.puts chunks c = Inr (None, c1)"
    and "c_err c = None" "doTunnelClose (Some e) c1 = Inr c2"
    and "0 < n" "length (pending c @ concat chunks) < k"
  shows "conn_queue.drain k n c2 = (pending c @ concat chunks, Some e)"
proof -
  obtain e' c1' where "conn_queue.puts chunks c = Inr (e', c1')" "conn_inv c1'"
    by (rule conn_queue.puts_total [OF assms(1,2)])
  then have inv1: "conn_inv c1" using assms(3) by simp
  have p1: "pending c1 = pending c @ concat chunks" and err1: "c_err c1 = None"
    using conn_queue.puts_contents [OF assms(1-3)] assms(4) by auto
  obtain c2' where "doTunnelClose (Some e) c1 = Inr c2'" "conn_inv c2'"
    by (rule doTunnelClose_inv [OF inv1])
  with assms(5) have inv2: "conn_inv c2" by simp
  have "c_err c2 = Some e" using assms(5) err1 inv1 by (auto simp: doTunnelClose_eq)
  then show ?thesis
    using conn_queue.drain_all [OF inv2 assms(6)] doTunnelClose_pending [OF inv1 assms(5)] p1 assms(7) by simp
qed

theorem close_delivers_everything_witness:
  "\<exists>c1 c2. conn_queue.puts [[104, 101], [108]] (newConnection 2 ''tcp'' ''a'') = Inr (None, c1) \<and>
     doTunnelClose (Some EOF) c1 = Inr c2 \<and> conn_queue.drain 4 1 c2 = ([104, 101, 108], Some EOF)"
proof -
  let ?c = "newConnection 2 ''tcp'' ''a''"
  have "conn_queue.puts [[104, 101], [108]] ?c = Inr (None, ?c\<lparr>c_buf := (c_buf ?c)\<lparr>chan_items := [[104, 101], [108]]\<rparr>\<rparr>)"
    (is "_ = Inr (None, ?c1)")
    by (simp add: newConnection_def chanWriter_Write_def make_chan_def chan_try_send_def)
  moreover have "doTunnelClose (Some EOF) ?c1 = Inr (?c1\<lparr>c_err := Some EOF, c_buf := (c_buf ?c1)\<lparr>chan_closed := True\<rparr>\<rparr>)"
    by (simp add: newConnection_def doTunnelClose_def chan_close_def make_chan_def)
  moreover from close_delivers_everything [OF newConnection_inv _ calculation(1) _ calculation(2), of 1 4]
  have "conn_queue.drain 4 1 (?c1\<lparr>c_err := Some EOF, c_buf := (c_buf ?c1)\<lparr>chan_closed := True\<rparr>\<rparr>)
      = ([104, 101, 108], Some EOF)"
    by (simp add: newConnection_def pending_def make_chan_def)
  ultimately show ?thesis by blast
qed

end
