(* ===== verification/Session.thy ===== *)
theory Session
  imports Connection
begin

text \<open>
  A tunnel session, src/pkg/remotedialer/session.go, wsconn.go and the dialling side of
  client_dialer.go. Connections live in a heap and \<open>conns\<close> maps a connection number to an
  address, since goroutines keep pointers to connections that the map has dropped. The
  websocket is a parameter: \<open>wsw out frame\<close> is the error of writing \<open>frame\<close> after the frames
  \<open>out\<close>; the frames received are the input of \<open>serve\<close>. \<open>chunk\<close> is how \<open>io.Copy\<close> happens to
  cut a payload into reads.
\<close>

record session =
  nextConnID :: int64
  clientKey :: string
  sessionKey :: int64
  conns :: "int64 \<rightharpoonup> nat"
  auth :: "(string \<Rightarrow> string \<Rightarrow> bool) option"
  pingCancel :: bool
  pinging :: bool
  client :: bool
  heap :: "connection list"
  ws_out :: "bytes list"
  idCounter :: int64
  dialing :: "(nat \<times> message) list"

type_synonym ws_writer = "bytes list \<Rightarrow> bytes \<Rightarrow> GoError option"
type_synonym chunker = "bytes \<Rightarrow> bytes list"

definition newClientSession :: "(string \<Rightarrow> string \<Rightarrow> bool) option \<Rightarrow> int64 \<Rightarrow> session" where
  "newClientSession a ctr =
     \<lparr>nextConnID = 0, clientKey = ''client'', sessionKey = 0, conns = Map.empty, auth = a,
      pingCancel = False, pinging = False, client = True, heap = [], ws_out = [], idCounter = ctr,
      dialing = []\<rparr>"

definition newSession :: "int64 \<Rightarrow> string \<Rightarrow> int64 \<Rightarrow> session" where
  "newSession key ck ctr =
     \<lparr>nextConnID = 1, clientKey = ck, sessionKey = key, conns = Map.empty, auth = None,
      pingCancel = False, pinging = False, client = False, heap = [], ws_out = [], idCounter = ctr,
      dialing = []\<rparr>"

definition startPings :: "session \<Rightarrow> session" where
  "startPings s = s\<lparr>pingCancel := True, pinging := True\<rparr>"

definition stopPings :: "session \<Rightarrow> session" where
  "stopPings s = (if \<not> pingCancel s then s else s\<lparr>pinging := False\<rparr>)"

section \<open>Writing\<close>

definition WriteTo :: "ws_writer \<Rightarrow> message \<Rightarrow> session \<Rightarrow> ((nat \<times> GoError option) \<times> session) go" where
  "WriteTo wsw m s =
     gbind (Bytes m) (\<lambda>frame.
       case wsw (ws_out s) frame of
         Some e \<Rightarrow> Inr ((length (msg_bytes m), Some e), s)
       | None \<Rightarrow> Inr ((length (msg_bytes m), None), s\<lparr>ws_out := ws_out s @ [frame]\<rparr>))"

definition writeMessage :: "ws_writer \<Rightarrow> message \<Rightarrow> session \<Rightarrow> ((nat \<times> GoError option) \<times> session) go" where
  "writeMessage wsw m s = WriteTo wsw m s"

definition upd_conn :: "nat \<Rightarrow> connection \<Rightarrow> session \<Rightarrow> session" where
  "upd_conn a c s = s\<lparr>heap := (heap s)[a := c]\<rparr>"

definition writeErr :: "ws_writer \<Rightarrow> nat \<Rightarrow> GoError option \<Rightarrow> session \<Rightarrow> session go" where
  "writeErr wsw a err s =
     (case err of
        None \<Rightarrow> Inr s
      | Some e \<Rightarrow>
          (let (m, ctr) = newErrorMessage (c_connID (heap s ! a)) e (idCounter s)
           in gbind (writeMessage wsw m (s\<lparr>idCounter := ctr\<rparr>)) (\<lambda>(_, s'). Inr s')))"

definition close_conn :: "nat \<Rightarrow> GoError option \<Rightarrow> session \<Rightarrow> session go" where
  "close_conn a err s = gbind (doTunnelClose err (heap s ! a)) (\<lambda>c. Inr (upd_conn a c s))"

definition tunnelClose :: "ws_writer \<Rightarrow> nat \<Rightarrow> GoError option \<Rightarrow> session \<Rightarrow> session go" where
  "tunnelClose wsw a err s = gbind (writeErr wsw a err s) (close_conn a err)"

definition closeConnection :: "ws_writer \<Rightarrow> int64 \<Rightarrow> GoError option \<Rightarrow> session \<Rightarrow> session go" where
  "closeConnection wsw connID err s =
     (let s1 = s\<lparr>conns := (conns s)(connID := None)\<rparr> in
      case conns s connID of
        None \<Rightarrow> Inr s1
      | Some a \<Rightarrow> tunnelClose wsw a err s1)"

definition connection_Close :: "ws_writer \<Rightarrow> nat \<Rightarrow> session \<Rightarrow> (GoError option \<times> session) go" where
  "connection_Close wsw a s =
     gbind (closeConnection wsw (c_connID (heap s ! a)) (Some EOF) s) (\<lambda>s'. Inr (None, s'))"

text \<open>\<open>time.Time.Sub\<close> saturates.\<close>

definition time_Sub :: "int64 \<Rightarrow> int64 \<Rightarrow> int64" where
  "time_Sub t u = word_of_int (max (- (2 ^ 63)) (min (2 ^ 63 - 1) (sint t - sint u)))"

definition connection_Write ::
  "ws_writer \<Rightarrow> int64 \<Rightarrow> nat \<Rightarrow> bytes \<Rightarrow> session \<Rightarrow> ((nat \<times> GoError option) \<times> session) go" where
  "connection_Write wsw now a b s =
     (let c = heap s ! a in
      case c_err c of
        Some e \<Rightarrow> Inr ((0, Some e), s)
      | None \<Rightarrow>
          (let deadline = (case writeDeadline c of None \<Rightarrow> 0 | Some t \<Rightarrow> milliseconds (time_Sub t now));
               (m, ctr) = newMessage (c_connID c) deadline b (idCounter s)
           in writeMessage wsw m (s\<lparr>idCounter := ctr\<rparr>)))"

section \<open>Serving received frames\<close>

definition clientConnect :: "message \<Rightarrow> session \<Rightarrow> session" where
  "clientConnect m s =
     (let a = length (heap s) in
      s\<lparr>heap := heap s @ [newConnection (msg_connID m) (msg_proto m) (msg_address m)],
        conns := (conns s)(msg_connID m \<mapsto> a),
        dialing := dialing s @ [(a, m)]\<rparr>)"

text \<open>\<open>io.Copy(conn.tunnelWriter(), message)\<close> over the reads of the body, which ends in \<open>e\<close>.\<close>

fun Copy_chunks :: "bytes list \<Rightarrow> GoError \<Rightarrow> connection \<Rightarrow> (GoError option \<times> connection) go" where
  "Copy_chunks [] e c = Inr (if e = EOF then None else Some e, c)"
| "Copy_chunks (b # bs) e c =
     gbind (chanWriter_Write b c) (\<lambda>((nw, ew), c').
       case ew of
         Some x \<Rightarrow> Inr (Some x, c')
       | None \<Rightarrow> if nw \<noteq> length b then Inr (Some (ErrText ''short write''), c') else Copy_chunks bs e c')"

definition connection_not_found :: "session \<Rightarrow> int64 \<Rightarrow> GoError" where
  "connection_not_found s connID =
     ErrText (''connection not found '' @ clientKey s @ ''/'' @ show_int (sint (sessionKey s)) @ ''/'' @
       show_int (sint connID))"

definition serveMessage ::
  "chunker \<Rightarrow> ws_writer \<Rightarrow> reader \<Rightarrow> session \<Rightarrow> (GoError option \<times> session) go" where
  "serveMessage chunk wsw r s =
     (case newServerMessage r of
        Inl e \<Rightarrow> Inr (Some e, s)
      | Inr m \<Rightarrow>
          if messageType m = Connect
          then if (case auth s of None \<Rightarrow> False | Some f \<Rightarrow> \<not> f (msg_proto m) (msg_address m))
               then Inr (Some (ErrText ''connect not allowed''), s)
               else Inr (None, clientConnect m s)
          else (case conns s (msg_connID m) of
                  None \<Rightarrow>
                    if messageType m = Data
                    then let (em, ctr) = newErrorMessage (msg_connID m)
                               (connection_not_found s (msg_connID m)) (idCounter s)
                         in gbind (WriteTo wsw em (s\<lparr>idCounter := ctr\<rparr>)) (\<lambda>(_, s'). Inr (None, s'))
                    else Inr (None, s)
                | Some a \<Rightarrow>
                    if messageType m = Data
                    then (case msg_body m of
                            None \<Rightarrow> Inl NilDereference
                          | Some (bs, e) \<Rightarrow>
                              gbind (Copy_chunks (chunk bs) e (heap s ! a)) (\<lambda>(err, c).
                                case err of
                                  None \<Rightarrow> Inr (None, upd_conn a c s)
                                | Some x \<Rightarrow>
                                    gbind (closeConnection wsw (msg_connID m) (Some x) (upd_conn a c s))
                                      (\<lambda>s'. Inr (None, s'))))
                    else if messageType m = Error
                    then gbind (message_Err m) (\<lambda>(e, _).
                           gbind (closeConnection wsw (msg_connID m) (Some e) s) (\<lambda>s'. Inr (None, s')))
                    else Inr (None, s)))"

definition BinaryMessage :: nat where "BinaryMessage = 2"

definition errWrongMessageType :: GoError where
  "errWrongMessageType = ErrText ''wrong websocket message type''"

fun serve_loop ::
  "chunker \<Rightarrow> ws_writer \<Rightarrow> (nat \<times> reader) list \<Rightarrow> GoError \<Rightarrow> session \<Rightarrow> ((nat \<times> GoError) \<times> session) go" where
  "serve_loop chunk wsw [] e s = Inr ((400, e), s)"
| "serve_loop chunk wsw ((msType, r) # frames) e s =
     (if msType \<noteq> BinaryMessage then Inr ((400, errWrongMessageType), s)
      else gbind (serveMessage chunk wsw r s) (\<lambda>(err, s').
             case err of
               Some x \<Rightarrow> Inr ((500, x), s')
             | None \<Rightarrow> serve_loop chunk wsw frames e s'))"

definition serve ::
  "chunker \<Rightarrow> ws_writer \<Rightarrow> (nat \<times> reader) list \<Rightarrow> GoError \<Rightarrow> session \<Rightarrow> ((nat \<times> GoError) \<times> session) go" where
  "serve chunk wsw frames e s =
     serve_loop chunk wsw frames e (if client s then startPings s else s)"

section \<open>Connecting and closing\<close>

definition serverConnect ::
  "ws_writer \<Rightarrow> int64 \<Rightarrow> string \<Rightarrow> string \<Rightarrow> session \<Rightarrow> ((nat option \<times> GoError option) \<times> session) go" where
  "serverConnect wsw deadline proto address s =
     (let connID = nextConnID s + 1; a = length (heap s);
          s1 = s\<lparr>nextConnID := connID, heap := heap s @ [newConnection connID proto address],
                 conns := (conns s)(connID \<mapsto> a)\<rparr>;
          (m, ctr) = newConnect connID deadline proto address (idCounter s1)
      in gbind (writeMessage wsw m (s1\<lparr>idCounter := ctr\<rparr>)) (\<lambda>((_, err), s2).
           case err of
             Some e \<Rightarrow> gbind (closeConnection wsw connID (Some e) s2) (\<lambda>s3. Inr ((None, Some e), s3))
           | None \<Rightarrow> Inr ((Some a, None), s2)))"

text \<open>The loop of \<open>Close\<close> runs over the map in an order that Go leaves open.\<close>

fun Close_loop :: "ws_writer \<Rightarrow> nat list \<Rightarrow> session \<Rightarrow> session go" where
  "Close_loop wsw [] s = Inr s"
| "Close_loop wsw (a # as) s =
     gbind (tunnelClose wsw a (Some (ErrText ''tunnel disconnect'')) s) (Close_loop wsw as)"

definition session_Close :: "ws_writer \<Rightarrow> nat list \<Rightarrow> session \<Rightarrow> session go" where
  "session_Close wsw order s =
     gbind (Close_loop wsw order (stopPings s)) (\<lambda>s'. Inr (s'\<lparr>conns := Map.empty\<rparr>))"

section \<open>Dialling for the peer\<close>

text \<open>\<open>clientDial\<close> when the dial fails with \<open>err\<close>: the connection is closed with the error, then
  the deferred \<open>Close\<close> runs.\<close>

definition clientDial_failed :: "ws_writer \<Rightarrow> nat \<Rightarrow> GoError \<Rightarrow> session \<Rightarrow> session go" where
  "clientDial_failed wsw a err s =
     gbind (tunnelClose wsw a (Some err) s) (\<lambda>s1. gbind (connection_Close wsw a s1) (\<lambda>(_, s2). Inr s2))"

text \<open>The end of \<open>pipe\<close> after both copies, which ended with \<open>err1\<close> and \<open>err2\<close> in this order:
  \<open>close\<close> twice, the tunnel error of the second copy, and the deferred \<open>Close\<close>.\<close>

definition pipe_close :: "nat \<Rightarrow> GoError option \<Rightarrow> session \<Rightarrow> (GoError \<times> session) go" where
  "pipe_close a err s =
     (let e = (case err of None \<Rightarrow> EOF | Some x \<Rightarrow> x)
      in gbind (close_conn a (Some e) s) (\<lambda>s'. Inr (e, s')))"

definition pipe_end ::
  "ws_writer \<Rightarrow> nat \<Rightarrow> GoError option \<Rightarrow> GoError option \<Rightarrow> session \<Rightarrow> session go" where
  "pipe_end wsw a err1 err2 s =
     gbind (pipe_close a err1 s) (\<lambda>(_, s1).
     gbind (pipe_close a err2 s1) (\<lambda>(e, s2).
     gbind (writeErr wsw a (Some e) s2) (\<lambda>s3.
     gbind (connection_Close wsw a s3) (\<lambda>(_, s4). Inr s4))))"

section \<open>The invariant\<close>

definition sess_inv :: "session \<Rightarrow> bool" where
  "sess_inv s \<longleftrightarrow> (\<forall>c\<in>set (heap s). conn_inv c) \<and>
     (\<forall>k a. conns s k = Some a \<longrightarrow> a < length (heap s) \<and> c_connID (heap s ! a) = k)"

text \<open>What \<open>io.Copy\<close> may assume of the reads of a body: they are its bytes, none is empty.\<close>

definition chunks_ok :: "chunker \<Rightarrow> bool" where
  "chunks_ok chunk \<longleftrightarrow> (\<forall>b. concat (chunk b) = b \<and> [] \<notin> set (chunk b))"

lemma sess_invD:
  assumes "sess_inv s"
  shows "a < length (heap s) \<Longrightarrow> conn_inv (heap s ! a)"
    and "conns s k = Some a \<Longrightarrow> a < length (heap s)"
    and "conns s k = Some a \<Longrightarrow> c_connID (heap s ! a) = k"
  using assms by (auto simp: sess_inv_def)

lemma newSession_inv [inv_intros, simp]: "sess_inv (newSession key ck ctr)"
  by (simp add: sess_inv_def newSession_def)

lemma newClientSession_inv [inv_intros, simp]: "sess_inv (newClientSession a ctr)"
  by (simp add: sess_inv_def newClientSession_def)

lemma upd_conn_inv [inv_intros]:
  assumes "sess_inv s" "conn_inv c" "c_connID c = c_connID (heap s ! a)"
  shows "sess_inv (upd_conn a c s)"
proof -
  have "c_connID ((heap s)[a := c] ! i) = c_connID (heap s ! i)" if "i < length (heap s)" for i
    using that assms(3) by (cases "a < length (heap s)") (auto simp: nth_list_update)
  then show ?thesis
    using assms(1,2) by (auto simp: sess_inv_def upd_conn_def dest: subsetD [OF set_update_subset_insert])
qed

lemma drop_conn_inv [inv_intros]:
  "sess_inv s \<Longrightarrow> sess_inv (s\<lparr>conns := (conns s)(k := None)\<rparr>)"
  by (auto simp: sess_inv_def split: if_splits)

lemma frame_inv [simp]:
  "sess_inv (s\<lparr>idCounter := ctr\<rparr>) = sess_inv s"
  "sess_inv (s\<lparr>ws_out := out\<rparr>) = sess_inv s"
  "sess_inv (s\<lparr>dialing := ds\<rparr>) = sess_inv s"
  "sess_inv (s\<lparr>nextConnID := n\<rparr>) = sess_inv s"
  "sess_inv (s\<lparr>pingCancel := p\<rparr>) = sess_inv s"
  "sess_inv (s\<lparr>pinging := p\<rparr>) = sess_inv s"
  by (simp_all add: sess_inv_def)

lemma new_conn_inv [inv_intros]:
  assumes "sess_inv s" "c_connID c = k" "conn_inv c"
  shows "sess_inv (s\<lparr>heap := heap s @ [c], conns := (conns s)(k \<mapsto> length (heap s))\<rparr>)"
  using assms by (auto simp: sess_inv_def nth_append less_SucI split: if_splits)

section \<open>No operation of a session panics\<close>

lemma error_frame_fits: "length (header_enc (fst (newErrorMessage connID e ctr))) \<le> 24"
proof -
  have "length (PutVarint Error) = 1" by (rule type_length) simp
  then show ?thesis
    using PutVarint_length_max [of connID] PutVarint_length_max [of "ctr + 1"]
    by (simp add: header_enc_def message_ctors message_types)
qed

lemma WriteTo_eq:
  "length (header_enc m) \<le> 24 \<Longrightarrow> WriteTo wsw m s =
     (let frame = header_enc m @ msg_bytes m in
      case wsw (ws_out s) frame of
         Some e \<Rightarrow> Inr ((length (msg_bytes m), Some e), s)
       | None \<Rightarrow> Inr ((length (msg_bytes m), None), s\<lparr>ws_out := ws_out s @ [frame]\<rparr>))"
  by (simp add: WriteTo_def Bytes_eq Let_def)

text \<open>The error frame that \<open>writeErr\<close> sends, and the frames sent after it.\<close>

definition error_frame :: "int64 \<Rightarrow> GoError \<Rightarrow> int64 \<Rightarrow> bytes" where
  "error_frame connID e ctr =
     (let m = fst (newErrorMessage connID e ctr) in header_enc m @ msg_bytes m)"

definition sent :: "ws_writer \<Rightarrow> bytes list \<Rightarrow> bytes \<Rightarrow> bytes list" where
  "sent wsw out frame = (if wsw out frame = None then out @ [frame] else out)"

lemma writeErr_eq:
  "writeErr wsw a (Some e) s =
     Inr (s\<lparr>idCounter := idCounter s + 1,
            ws_out := sent wsw (ws_out s) (error_frame (c_connID (heap s ! a)) e (idCounter s))\<rparr>)"
proof -
  obtain m ctr where m: "newErrorMessage (c_connID (heap s ! a)) e (idCounter s) = (m, ctr)" by fastforce
  moreover have "ctr = idCounter s + 1" using m by (simp add: message_ctors)
  ultimately show ?thesis
    using error_frame_fits [of "c_connID (heap s ! a)" e "idCounter s"]
    by (simp add: writeErr_def writeMessage_def WriteTo_eq error_frame_def sent_def Let_def split: option.splits)
qed

lemma close_conn_eq:
  assumes "sess_inv s" "a < length (heap s)"
  obtains c where "close_conn a err s = Inr (upd_conn a c s)" "doTunnelClose err (heap s ! a) = Inr c"
    "conn_inv c" "c_err c \<noteq> None" "c_connID c = c_connID (heap s ! a)"
proof -
  obtain c where c: "doTunnelClose err (heap s ! a) = Inr c" "conn_inv c" "c_err c \<noteq> None"
    "c_connID c = c_connID (heap s ! a)"
    by (rule doTunnelClose_inv [OF sess_invD(1) [OF assms]])
  then show ?thesis by (intro that [of c]) (simp_all add: close_conn_def)
qed

lemma tunnelClose_eq:
  assumes "sess_inv s" "a < length (heap s)"
  obtains c where "tunnelClose wsw a (Some e) s =
      Inr (upd_conn a c (s\<lparr>idCounter := idCounter s + 1,
        ws_out := sent wsw (ws_out s) (error_frame (c_connID (heap s ! a)) e (idCounter s))\<rparr>))"
    "doTunnelClose (Some e) (heap s ! a) = Inr c"
    "conn_inv c" "c_err c \<noteq> None" "c_connID c = c_connID (heap s ! a)"
proof -
  let ?s = "s\<lparr>idCounter := idCounter s + 1,
        ws_out := sent wsw (ws_out s) (error_frame (c_connID (heap s ! a)) e (idCounter s))\<rparr>"
  have "sess_inv ?s" "a < length (heap ?s)" using assms by simp_all
  then obtain c where "close_conn a (Some e) ?s = Inr (upd_conn a c ?s)"
    "doTunnelClose (Some e) (heap ?s ! a) = Inr c"
    "conn_inv c" "c_err c \<noteq> None" "c_connID c = c_connID (heap ?s ! a)"
    by (rule close_conn_eq [where err = "Some e"])
  then show ?thesis by (intro that [of c]) (simp_all add: tunnelClose_def writeErr_eq)
qed

lemma tunnelClose_inv [inv_intros]:
  assumes "sess_inv s" "a < length (heap s)"
  obtains s' where "tunnelClose wsw a (Some e) s = Inr s'" "sess_inv s'" "conns s' = conns s"
    "length (heap s') = length (heap s)" "c_err (heap s' ! a) \<noteq> None"
    "\<And>i. i < length (heap s) \<Longrightarrow> c_err (heap s ! i) \<noteq> None \<Longrightarrow> c_err (heap s' ! i) \<noteq> None"
    "\<And>i. i < length (heap s) \<Longrightarrow> c_connID (heap s' ! i) = c_connID (heap s ! i)"
proof (rule tunnelClose_eq [OF assms])
  fix c
  assume c: "tunnelClose wsw a (Some e) s =
      Inr (upd_conn a c (s\<lparr>idCounter := idCounter s + 1,
        ws_out := sent wsw (ws_out s) (error_frame (c_connID (heap s ! a)) e (idCounter s))\<rparr>))"
    "conn_inv c" "c_err c \<noteq> None" "c_connID c = c_connID (heap s ! a)"
  show thesis
  proof (rule that [OF c(1)], goal_cases)
    case 1
    then show ?case by (rule upd_conn_inv) (use assms c in simp_all)
  qed (use assms c in \<open>auto simp: upd_conn_def nth_list_update\<close>)
qed

lemma closeConnection_inv [inv_intros]:
  assumes "sess_inv s"
  obtains s' where "closeConnection wsw k (Some e) s = Inr s'" "sess_inv s'"
    "conns s' = (conns s)(k := None)" "length (heap s') = length (heap s)"
    "\<And>a. conns s k = Some a \<Longrightarrow> c_err (heap s' ! a) \<noteq> None"
proof (cases "conns s k")
  case None
  have "closeConnection wsw k (Some e) s = Inr (s\<lparr>conns := (conns s)(k := None)\<rparr>)"
    by (simp add: closeConnection_def None del: fun_upd_apply)
  from that [OF this drop_conn_inv [OF assms]] None show ?thesis by simp
next
  case (Some a)
  let ?s = "s\<lparr>conns := (conns s)(k := None)\<rparr>"
  have "sess_inv ?s" "a < length (heap ?s)"
    using drop_conn_inv [OF assms] sess_invD(2) [OF assms Some] by simp_all
  then obtain s' where "tunnelClose wsw a (Some e) ?s = Inr s'" "sess_inv s'" "conns s' = conns ?s"
    "length (heap s') = length (heap ?s)" "c_err (heap s' ! a) \<noteq> None"
    by (rule tunnelClose_inv [where e = e and wsw = wsw])
  with Some show ?thesis by (intro that [of s']) (auto simp: closeConnection_def)
qed

lemma Copy_chunks_puts:
  assumes "conn_inv c" "[] \<notin> set bs"
  shows "Copy_chunks bs e c = gbind (conn_queue.puts bs c) (\<lambda>(x, c').
    Inr (case x of Some y \<Rightarrow> Some y | None \<Rightarrow> if e = EOF then None else Some e, c'))"
  using assms
proof (induction bs arbitrary: c)
  case (Cons b bs)
  then have b: "b \<noteq> []" by auto
  with conn_queue.put_total [OF Cons.prems(1)] obtain n ew d where
    p: "chanWriter_Write b c = Inr ((n, ew), d)" "conn_inv d" by blast
  show ?case
  proof (cases ew)
    case None
    with conn_queue.put_ok [OF Cons.prems(1) b] p have "n = length b" by auto
    with None p Cons show ?thesis by simp
  qed (use p in simp)
qed simp

lemma Copy_chunks_inv [inv_intros]:
  assumes "conn_inv c" "[] \<notin> set bs"
  obtains err c' where "Copy_chunks bs e c = Inr (err, c')" "conn_inv c'" "c_connID c' = c_connID c"
  using assms
proof (induction bs arbitrary: c thesis)
  case (Cons b bs)
  then have b: "b \<noteq> []" by auto
  with conn_queue.put_total [OF Cons.prems(2)] obtain n ew d where
    p: "chanWriter_Write b c = Inr ((n, ew), d)" "conn_inv d" by blast
  have id: "c_connID d = c_connID c" by (rule chanWriter_Write_inv(3) [OF Cons.prems(2) b p(1)])
  show ?case
  proof (cases ew)
    case None
    with conn_queue.put_ok [OF Cons.prems(2) b] p have n: "n = length b" by auto
    have nb: "[] \<notin> set bs" using Cons.prems(3) by simp
    obtain err c' where "Copy_chunks bs e d = Inr (err, c')" "conn_inv c'" "c_connID c' = c_connID d"
      by (rule Cons.IH [OF _ p(2) nb])
    then show ?thesis using None n p(1) id by (intro Cons.prems(1) [of err c']) simp_all
  qed (use p id Cons.prems(1) in simp)
qed simp

lemma clientConnect_inv [inv_intros]: "sess_inv s \<Longrightarrow> sess_inv (clientConnect m s)"
  using new_conn_inv [of s "newConnection (msg_connID m) (msg_proto m) (msg_address m)" "msg_connID m"]
  by (simp add: clientConnect_def Let_def newConnection_inv)
    (simp add: newConnection_def sess_inv_def)

text \<open>A parsed message has a body, and \<open>Err\<close> can be read from it.\<close>

lemma ebind_Inr_iff: "ebind m f = Inr y \<longleftrightarrow> (\<exists>x. m = Inr x \<and> f x = Inr y)"
  by (cases m) auto

lemma two_parts_Inr:
  "(case xs of [p, a] \<Rightarrow> Inr (f p a) | _ \<Rightarrow> Inl e) = Inr y \<longleftrightarrow> (\<exists>p a. xs = [p, a] \<and> y = f p a)"
  by (auto split: list.splits)

lemma newServerMessage_body:
  "newServerMessage r = Inr m \<Longrightarrow> \<exists>b. msg_body m = Some b"
  by (auto simp: newServerMessage_def ebind_Inr_iff Let_def two_parts_Inr split: if_splits)

lemma message_Err_total:
  "newServerMessage r = Inr m \<Longrightarrow> \<exists>e m'. message_Err m = Inr (e, m')"
  using newServerMessage_body [of r m]
  by (auto simp: message_Err_def Let_def split: option.splits sum.splits)

lemma serveMessage_inv [inv_intros]:
  assumes "sess_inv s" "chunks_ok chunk"
  shows "\<exists>err s'. serveMessage chunk wsw r s = Inr (err, s') \<and> sess_inv s'"
proof (cases "newServerMessage r")
  case (Inr m)
  show ?thesis
  proof (cases "messageType m = Connect")
    case True
    then show ?thesis using Inr assms(1) by (auto simp: serveMessage_def clientConnect_inv)
  next
    case nc: False
    show ?thesis
    proof (cases "conns s (msg_connID m)")
      case None
      let ?e = "connection_not_found s (msg_connID m)"
      have "length (header_enc (fst (newErrorMessage (msg_connID m) ?e (idCounter s)))) \<le> 24"
        by (rule error_frame_fits)
      then show ?thesis using Inr nc None assms(1)
        by (cases "newErrorMessage (msg_connID m) ?e (idCounter s)")
          (auto simp: serveMessage_def WriteTo_eq Let_def split: option.splits)
    next
      case (Some a)
      note inv = sess_invD(1) [OF assms(1) sess_invD(2) [OF assms(1) Some]]
      obtain bs e where body: "msg_body m = Some (bs, e)" using newServerMessage_body [OF Inr] by auto
      obtain x m' where Err: "message_Err m = Inr (x, m')" using message_Err_total [OF Inr] by auto
      have "[] \<notin> set (chunk bs)" using assms(2) by (simp add: chunks_ok_def)
      then obtain err c where copy: "Copy_chunks (chunk bs) e (heap s ! a) = Inr (err, c)" "conn_inv c"
        "c_connID c = c_connID (heap s ! a)"
        by (rule Copy_chunks_inv [OF inv, where e = e])
      have "sess_inv (upd_conn a c s)" by (rule upd_conn_inv [OF assms(1) copy(2,3)])
      moreover obtain s1 where "closeConnection wsw (msg_connID m) (Some x) s = Inr s1" "sess_inv s1"
        by (rule closeConnection_inv [OF assms(1)])
      moreover obtain s2 where "closeConnection wsw (msg_connID m) (Some (the err)) (upd_conn a c s) = Inr s2"
        "sess_inv s2"
        by (rule closeConnection_inv [OF calculation(1)])
      ultimately show ?thesis using Inr nc Some body Err copy(1) assms(1)
        by (cases err) (simp_all add: serveMessage_def)
    qed
  qed
qed (use assms in \<open>simp add: serveMessage_def\<close>)

lemma serve_loop_inv [inv_intros]:
  assumes "chunks_ok chunk"
  shows "sess_inv s \<Longrightarrow> \<exists>code err s'. serve_loop chunk wsw frames e s = Inr ((code, err), s') \<and> sess_inv s'"
proof (induction frames arbitrary: s)
  case (Cons f frames)
  obtain t r where f: "f = (t, r)" by (cases f)
  obtain err s1 where "serveMessage chunk wsw r s = Inr (err, s1)" "sess_inv s1"
    using serveMessage_inv [OF Cons.prems assms] by blast
  then show ?case using Cons f by (cases err) auto
qed simp

text \<open>C17: no peer can crash the process. Whatever frames arrive, well formed or not, however the
  websocket fails and however the payloads are cut, \<open>serve\<close> returns a code and an error
  instead of panicking, and every connection it leaves behind is consistent.\<close>

theorem serve_never_panics:
  assumes "chunks_ok chunk" "sess_inv s"
  shows "\<exists>code err s'. serve chunk wsw frames e s = Inr ((code, err), s') \<and> sess_inv s'"
  unfolding serve_def by (rule serve_loop_inv [OF assms(1)]) (use assms(2) in \<open>simp add: startPings_def\<close>)

definition whole :: chunker where "whole b = (if b = [] then [] else [b])"

lemma whole_ok [simp]: "chunks_ok whole" by (simp add: chunks_ok_def whole_def)

theorem serve_never_panics_witness:
  "\<exists>code err s'. serve whole (\<lambda>_ _. Some EOF) [(2, [255], ErrText ''reset''), (1, [], EOF)] EOF
      (newSession 9 ''agent'' 0) = Inr ((code, err), s') \<and> sess_inv s'"
  by (rule serve_never_panics) simp_all

section \<open>Errors travel once\<close>

text \<open>Frames for a connection that is gone. A \<open>Data\<close> frame is answered by one \<open>Error\<close> frame for
  the same connection; any other frame than \<open>Connect\<close> is dropped. No connection is touched,
  and since the answer is an \<open>Error\<close> frame, the exchange ends there: two sessions cannot keep
  each other busy with errors.\<close>

theorem unknown_connection_answer:
  assumes "newServerMessage r = Inr m" "messageType m \<noteq> Connect" "conns s (msg_connID m) = None"
  shows "\<exists>s'. serveMessage chunk wsw r s = Inr (None, s') \<and>
    heap s' = heap s \<and> conns s' = conns s \<and>
    ws_out s' = (if messageType m = Data
       then sent wsw (ws_out s)
              (error_frame (msg_connID m) (connection_not_found s (msg_connID m)) (idCounter s))
       else ws_out s)"
proof -
  let ?e = "connection_not_found s (msg_connID m)"
  have "length (header_enc (fst (newErrorMessage (msg_connID m) ?e (idCounter s)))) \<le> 24"
    by (rule error_frame_fits)
  then show ?thesis using assms
    by (cases "newErrorMessage (msg_connID m) ?e (idCounter s)")
      (auto simp: serveMessage_def WriteTo_eq Let_def error_frame_def sent_def split: option.splits)
qed

theorem unknown_connection_answer_witness:
  "\<exists>s'. serveMessage whole (\<lambda>_ _. None) ([2, 4, 2, 0, 104, 105], EOF) (newSession 9 ''agent'' 0) = Inr (None, s') \<and>
     ws_out s' = [error_frame 2 (ErrText ''connection not found agent/9/2'') 0]"
proof -
  have "newServerMessage (header_enc (fst (newMessage 2 0 [104, 105] 0)) @ [104, 105], EOF) =
      Inr (fst (newMessage 2 0 [] 0)\<lparr>msg_body := Some ([104, 105], EOF)\<rparr>)"
    by (simp add: newServerMessage_header message_ctors message_types)
  moreover have "header_enc (fst (newMessage 2 0 [104, 105] 0)) = [2, 4, 2, 0]"
    by (simp add: header_enc_def message_ctors message_types PutVarint_def zigzag_def PutUvarint.simps)
  ultimately have "newServerMessage ([2, 4, 2, 0, 104, 105], EOF) =
      Inr (fst (newMessage 2 0 [] 0)\<lparr>msg_body := Some ([104, 105], EOF)\<rparr>)" by simp
  from unknown_connection_answer [OF this, of "newSession 9 ''agent'' 0" whole "\<lambda>_ _. None"]
  show ?thesis
    by (auto simp: message_ctors message_types newSession_def connection_not_found_def show_int_def
        show_nat.simps sent_def)
qed

text \<open>An \<open>Error\<close> frame for a live connection closes it: the connection leaves the map, keeps the
  bytes that had arrived, fails with the error that was sent, and the error is returned to
  the peer exactly once.\<close>

theorem error_frame_closes:
  assumes "sess_inv s" "conns s k = Some a" "c_err (heap s ! a) = None"
    and "Bytes (fst (newErrorMessage k err ctr)) = Inr wire"
  shows "\<exists>s' e. serveMessage chunk wsw (wire, EOF) s = Inr (None, s') \<and>
    e = (if take 100 (Error_text err) = ''EOF'' then EOF else ErrText (take 100 (Error_text err))) \<and>
    conns s' = (conns s)(k := None) \<and>
    ws_out s' = sent wsw (ws_out s) (error_frame k e (idCounter s)) \<and>
    c_err (heap s' ! a) = Some e \<and> pending (heap s' ! a) = pending (heap s ! a) \<and>
    (\<forall>b < length (heap s). b \<noteq> a \<longrightarrow> heap s' ! b = heap s ! b)"
proof -
  let ?str = "take 100 (Error_text err)"
  let ?e = "if ?str = ''EOF'' then EOF else ErrText ?str"
  let ?em = "\<lparr>msg_id = ctr + 1, msg_err = None, msg_connID = k, msg_deadline = 0,
    messageType = Error, msg_bytes = [], msg_body = Some (bytes_of (Error_text err), EOF),
    msg_proto = [], msg_address = []\<rparr>"
  have parse: "newServerMessage (wire, EOF) = Inr ?em"
    using assms(4) by (auto simp: Bytes_Inr_iff newServerMessage_header message_ctors message_types)
  obtain m' where Err: "message_Err ?em = Inr (?e, m')"
    by (simp add: message_Err_def ReadAll_Limit_def take_bytes_of Let_def)
  let ?s = "s\<lparr>conns := (conns s)(k := None)\<rparr>"
  have inv: "sess_inv ?s" and a: "a < length (heap ?s)"
    using drop_conn_inv [OF assms(1)] sess_invD(2) [OF assms(1,2)] by simp_all
  have id: "c_connID (heap s ! a) = k" by (rule sess_invD(3) [OF assms(1,2)])
  obtain c where c: "tunnelClose wsw a (Some ?e) ?s = Inr (upd_conn a c (?s\<lparr>idCounter := idCounter ?s + 1,
        ws_out := sent wsw (ws_out ?s) (error_frame (c_connID (heap ?s ! a)) ?e (idCounter ?s))\<rparr>))"
    "doTunnelClose (Some ?e) (heap ?s ! a) = Inr c"
    by (rule tunnelClose_eq [OF inv a, where e = ?e])
  note cinv = sess_invD(1) [OF inv a, simplified]
  have "c_err c = Some ?e" using c(2) cinv assms(3) by (auto simp: doTunnelClose_eq)
  moreover have "pending c = pending (heap s ! a)"
    using doTunnelClose_pending [OF cinv] c(2) by simp
  moreover have "serveMessage chunk wsw (wire, EOF) s = Inr (None, upd_conn a c (?s\<lparr>idCounter := idCounter ?s + 1,
        ws_out := sent wsw (ws_out ?s) (error_frame k ?e (idCounter ?s))\<rparr>))"
    using parse Err c(1) assms(2) id by (simp add: serveMessage_def message_types closeConnection_def)
  ultimately show ?thesis using a by (auto simp: upd_conn_def)
qed

theorem error_frame_closes_witness:
  "\<exists>s s' wire. sess_inv s \<and> conns s 2 = Some 0 \<and> Bytes (fst (newErrorMessage 2 EOF 0)) = Inr wire \<and>
     serveMessage whole (\<lambda>_ _. None) (wire, EOF) s = Inr (None, s') \<and> conns s' 2 = None \<and>
     c_err (heap s' ! 0) = Some EOF"
proof -
  let ?s = "clientConnect (fst (newConnect 2 0 ''tcp'' ''a'' 0)) (newClientSession None 0)"
  have inv: "sess_inv ?s" by (simp add: clientConnect_inv)
  have s: "conns ?s 2 = Some 0" "c_err (heap ?s ! 0) = None"
    by (simp_all add: clientConnect_def newClientSession_def message_ctors newConnection_def)
  obtain wire where w: "Bytes (fst (newErrorMessage 2 EOF 0)) = Inr wire"
    using error_frame_fits by (auto simp: Bytes_eq)
  from error_frame_closes [OF inv s w, of whole "\<lambda>_ _. None"] inv s w show ?thesis by fastforce
qed

end
