(* ===== verification/Tunnel.thy ===== *)
theory Tunnel
  imports Session
begin

text \<open>
  What the tunnel does end to end, between the session of the server (src/pkg/remotedialer/
  server.go, dialer.go) and that of the agent (client.go): data and connection requests
  written on one side arrive on the other, connections are numbered freshly, closing a session closes
  everything, and the critical sections of both sides can interleave in any order (the step
  relation \<open>tstep\<close>) without a panic.
\<close>

section \<open>Data end to end\<close>

lemma puts_fits:
  assumes "conn_inv c" "c_err c = None" "[] \<notin> set bs"
    and "length (chan_items (c_buf c)) + length bs \<le> 1024"
  shows "\<exists>c'. conn_queue.puts bs c = Inr (None, c') \<and> pending c' = pending c @ concat bs"
  using assms
proof (induction bs arbitrary: c)
  case (Cons b bs)
  let ?c = "c\<lparr>c_buf := (c_buf c)\<lparr>chan_items := chan_items (c_buf c) @ [b]\<rparr>\<rparr>"
  have w: "chanWriter_Write b c = Inr ((length b, None), ?c)"
    using Cons.prems by (simp add: chanWriter_Write_eq)
  have "conn_inv ?c" using chanWriter_Write_inv(1) [OF Cons.prems(1) _ w] Cons.prems(3) by auto
  with Cons.IH [of ?c] Cons.prems obtain c' where "conn_queue.puts bs ?c = Inr (None, c')"
    "pending c' = pending ?c @ concat bs" by auto
  with w show ?case by (auto simp: pending_def)
qed simp

lemma Copy_chunks_fits:
  assumes "chunks_ok chunk" "conn_inv c" "c_err c = None"
    and "length (chan_items (c_buf c)) + length (chunk bs) \<le> 1024"
  shows "\<exists>c'. Copy_chunks (chunk bs) EOF c = Inr (None, c') \<and> pending c' = pending c @ bs"
  using puts_fits [OF assms(2,3) _ assms(4)] assms(1) Copy_chunks_puts [OF assms(2)]
  by (auto simp: chunks_ok_def)

lemma Data_frame_served:
  assumes "sess_inv s" "chunks_ok chunk" "conns s k = Some a" "c_err (heap s ! a) = None"
    and "length (chan_items (c_buf (heap s ! a))) + length (chunk payload) \<le> 1024"
    and "Bytes (fst (newMessage k dl payload ctr)) = Inr wire"
  shows "\<exists>c. serveMessage chunk wsw (wire, EOF) s = Inr (None, upd_conn a c s) \<and>
    pending c = pending (heap s ! a) @ payload"
proof -
  note inv = sess_invD(1) [OF assms(1) sess_invD(2) [OF assms(1,3)]]
  obtain c where c: "Copy_chunks (chunk payload) EOF (heap s ! a) = Inr (None, c)"
    "pending c = pending (heap s ! a) @ payload"
    using Copy_chunks_fits [OF assms(2) inv assms(4,5)] by blast
  have "newServerMessage (wire, EOF) = Inr \<lparr>msg_id = ctr + 1, msg_err = None, msg_connID = k,
      msg_deadline = dl, messageType = Data, msg_bytes = [], msg_body = Some (payload, EOF),
      msg_proto = [], msg_address = []\<rparr>"
    using assms(6) by (auto simp: Bytes_Inr_iff newServerMessage_header message_ctors message_types)
  with c assms(3) show ?thesis by (auto simp: serveMessage_def message_types)
qed

text \<open>Bytes written to a connection on one side arrive on the other. When the write succeeds, the
  frame it put on the websocket, served by the other session, appends exactly those bytes
  to the connection with the same number and changes nothing else, provided its channel has
  room for the reads the payload is cut into.\<close>

theorem data_end_to_end:
  assumes "connection_Write wsw now a payload s = Inr ((n, None), s')"
    and "sess_inv t" "chunks_ok chunk" "conns t (c_connID (heap s ! a)) = Some b" "c_err (heap t ! b) = None"
    and "length (chan_items (c_buf (heap t ! b))) + length (chunk payload) \<le> 1024"
  shows "n = length payload \<and> (\<exists>frame c. ws_out s' = ws_out s @ [frame] \<and>
    serveMessage chunk wsw' (frame, EOF) t = Inr (None, upd_conn b c t) \<and>
    pending c = pending (heap t ! b) @ payload)"
proof -
  let ?dl = "case writeDeadline (heap s ! a) of None \<Rightarrow> 0 | Some t \<Rightarrow> milliseconds (time_Sub t now)"
  let ?m = "fst (newMessage (c_connID (heap s ! a)) ?dl payload (idCounter s))"
  have err: "c_err (heap s ! a) = None"
    using assms(1) by (auto simp: connection_Write_def Let_def split: option.splits)
  with assms(1) have w: "WriteTo wsw ?m (s\<lparr>idCounter := idCounter s + 1\<rparr>) = Inr ((n, None), s')"
    by (simp add: connection_Write_def writeMessage_def message_ctors Let_def)
  then obtain frame where f: "Bytes ?m = Inr frame" "n = length payload" "ws_out s' = ws_out s @ [frame]"
    by (auto simp: WriteTo_def gbind_Inr_iff message_ctors split: option.splits)
  from Data_frame_served [OF assms(2-6) f(1)] f(2,3) show ?thesis by blast
qed

text \<open>An agent with one connection, number 2.\<close>

definition agent2 :: session where
  "agent2 = clientConnect (fst (newConnect 2 0 ''tcp'' ''a'' 0)) (newClientSession None 0)"

lemma agent2_inv: "sess_inv agent2"
  by (simp add: agent2_def clientConnect_inv)

lemma agent2_simps:
  "conns agent2 2 = Some 0" "c_err (heap agent2 ! 0) = None" "c_connID (heap agent2 ! 0) = 2"
  "chan_items (c_buf (heap agent2 ! 0)) = []" "pending (heap agent2 ! 0) = []" "idCounter agent2 = 0"
  "writeDeadline (heap agent2 ! 0) = None" "length (heap agent2) = 1"
  by (simp_all add: agent2_def clientConnect_def newClientSession_def message_ctors newConnection_def
      make_chan_def pending_def)

lemma agent2_heap: "heap agent2 ! 0 = newConnection 2 ''tcp'' ''a''"
  by (simp add: agent2_def clientConnect_def newClientSession_def message_ctors)

theorem data_end_to_end_witness:
  "\<exists>s s' t frame c. connection_Write (\<lambda>_ _. None) 0 0 [104, 105] s = Inr ((2, None), s') \<and>
     ws_out s' = ws_out s @ [frame] \<and>
     serveMessage whole (\<lambda>_ _. None) (frame, EOF) t = Inr (None, upd_conn 0 c t) \<and>
     pending c = [104, 105]"
proof -
  obtain s' where w: "connection_Write (\<lambda>_ _. None) 0 0 [104, 105] agent2 = Inr ((2, None), s')"
    by (simp add: connection_Write_def agent2_simps writeMessage_def WriteTo_def Bytes_eq header_enc_def
        message_ctors message_types PutVarint_def zigzag_def PutUvarint.simps Let_def)
  from data_end_to_end [OF w agent2_inv whole_ok, of 0 "\<lambda>_ _. None"] w
  obtain frame c where "ws_out s' = ws_out agent2 @ [frame]"
    "serveMessage whole (\<lambda>_ _. None) (frame, EOF) agent2 = Inr (None, upd_conn 0 c agent2)"
    "pending c = [104, 105]"
    by (auto simp: agent2_simps whole_def)
  with w show ?thesis by blast
qed

section \<open>Connecting\<close>

text \<open>The server numbers its connections upwards.\<close>

definition server_inv :: "session \<Rightarrow> bool" where
  "server_inv s \<longleftrightarrow> sess_inv s \<and> (\<forall>k. conns s k \<noteq> None \<longrightarrow> sint k \<le> sint (nextConnID s))"

lemma sint_plus_one:
  fixes w :: int64
  assumes "sint w < 2 ^ 63 - 1"
  shows "sint (w + 1) = sint w + 1"
proof -
  have "w + 1 = word_of_int (sint w + 1)" by simp
  moreover have "- (2 ^ 63) \<le> sint w" using sint_greater_eq [of w] by simp
  ultimately show ?thesis
    using assms by (simp only: sint_sbintrunc') (simp add: signed_take_bit_int_eq_self_iff)
qed

lemma closeConnection_conns:
  assumes "closeConnection wsw k err s = Inr s'"
  shows "conns s' = (conns s)(k := None)" "nextConnID s' = nextConnID s"
  using assms
  by (auto simp: closeConnection_def tunnelClose_def writeErr_def close_conn_def upd_conn_def writeMessage_def
      WriteTo_def gbind_Inr_iff Let_def split: option.splits prod.splits)

lemma connect_frame:
  assumes "0 \<le> sint k" "sint k < 2 ^ 41"
  shows "length (header_enc (fst (newConnect k d proto address ctr))) \<le> 24"
  by (rule header_enc_length) (use assms milliseconds_range [of d] in \<open>simp_all add: message_ctors\<close>)

text \<open>\<open>serverConnect\<close> never panics, gives the new connection a number that no live connection
  has, and either returns it, open and registered under that number, with the \<open>Connect\<close>
  frame on the websocket, or, when the write fails, returns the error with the
  connection closed and unregistered.\<close>

theorem serverConnect_fresh:
  assumes "server_inv s" "1 \<le> sint (nextConnID s)" "sint (nextConnID s) < 2 ^ 41 - 1"
  shows "let k = nextConnID s + 1 in conns s k = None \<and>
    (\<exists>r s'. serverConnect wsw d proto address s = Inr (r, s') \<and> server_inv s' \<and> nextConnID s' = k \<and>
      (case r of
         (Some a, None) \<Rightarrow> conns s' = (conns s)(k \<mapsto> a) \<and> heap s' = heap s @ [newConnection k proto address] \<and>
            a = length (heap s) \<and>
            (\<exists>frame. Bytes (fst (newConnect k d proto address (idCounter s))) = Inr frame \<and>
               ws_out s' = ws_out s @ [frame])
       | (None, Some e) \<Rightarrow> conns s' = conns s \<and> c_err (heap s' ! length (heap s)) \<noteq> None
       | _ \<Rightarrow> False))"
proof -
  let ?k = "nextConnID s + 1" and ?a = "length (heap s)"
  have k: "sint ?k = sint (nextConnID s) + 1" using assms(3) by (simp add: sint_plus_one)
  then have fresh: "conns s ?k = None" using assms(1) by (fastforce simp: server_inv_def)
  let ?s1 = "s\<lparr>nextConnID := ?k, heap := heap s @ [newConnection ?k proto address],
      conns := (conns s)(?k \<mapsto> ?a), idCounter := idCounter s + 1\<rparr>"
  have inv1: "sess_inv ?s1"
    using new_conn_inv [of s "newConnection ?k proto address" ?k] assms(1)
    by (simp add: server_inv_def newConnection_inv) (simp add: newConnection_def sess_inv_def)
  have below: "\<forall>k'. conns ?s1 k' \<noteq> None \<longrightarrow> sint k' \<le> sint ?k"
  proof (intro allI impI)
    fix k' assume "conns ?s1 k' \<noteq> None"
    then have "k' = ?k \<or> conns s k' \<noteq> None" by (auto split: if_splits)
    then show "sint k' \<le> sint ?k" using assms(1) k by (force simp: server_inv_def)
  qed
  let ?m = "fst (newConnect ?k d proto address (idCounter s))"
  let ?f = "header_enc ?m @ msg_bytes ?m"
  have len: "length (header_enc ?m) \<le> 24" by (rule connect_frame) (use k assms in simp_all)
  have run: "serverConnect wsw d proto address s =
      (case wsw (ws_out s) ?f of
         Some e \<Rightarrow> gbind (closeConnection wsw ?k (Some e) ?s1) (\<lambda>s3. Inr ((None, Some e), s3))
       | None \<Rightarrow> Inr ((Some ?a, None), ?s1\<lparr>ws_out := ws_out s @ [?f]\<rparr>))"
    using WriteTo_eq [OF len, of wsw ?s1]
    by (simp add: serverConnect_def writeMessage_def message_ctors Let_def split: option.splits)
  show ?thesis
  proof (cases "wsw (ws_out s) ?f")
    case None
    have "server_inv (?s1\<lparr>ws_out := ws_out s @ [?f]\<rparr>)"
      using inv1 below by (simp add: server_inv_def)
    moreover have "Bytes ?m = Inr ?f" using len by (simp add: Bytes_eq)
    ultimately show ?thesis using run None fresh by (simp add: Let_def)
  next
    case (Some e)
    obtain s3 where s3: "closeConnection wsw ?k (Some e) ?s1 = Inr s3" "sess_inv s3"
        "\<And>a. conns ?s1 ?k = Some a \<Longrightarrow> c_err (heap s3 ! a) \<noteq> None"
      by (rule closeConnection_inv [OF inv1, where e = e and wsw = wsw and k = ?k]) simp
    have "conns s3 = conns s" "nextConnID s3 = ?k"
      using closeConnection_conns [OF s3(1)] fresh by auto
    moreover from this have "server_inv s3" using s3(2) below assms(1) k by (fastforce simp: server_inv_def)
    moreover have "c_err (heap s3 ! ?a) \<noteq> None" using s3(3) [of ?a] by simp
    ultimately show ?thesis using run Some fresh s3(1) by (simp add: Let_def)
  qed
qed

theorem serverConnect_fresh_witness:
  "\<exists>r s'. serverConnect (\<lambda>_ _. None) 0 ''tcp'' ''a'' (newSession 9 ''agent'' 0) = Inr (r, s') \<and> server_inv s'"
proof -
  have "server_inv (newSession 9 ''agent'' 0)"
    by (simp add: server_inv_def) (simp add: newSession_def)
  from serverConnect_fresh [OF this, of "\<lambda>_ _. None" 0 "''tcp''" "''a''"]
  show ?thesis by (auto simp: newSession_def Let_def)
qed

text \<open>A connection requested by the server exists at the agent. When the agent's authoriser
  accepts the target, the \<open>Connect\<close> frame that \<open>serverConnect\<close> wrote registers, under the same
  number, a fresh connection to the same protocol and address and starts one dial for it.\<close>

theorem connect_end_to_end:
  assumes "Bytes (fst (newConnect k d proto address ctr)) = Inr frame"
    and "CHR ''/'' \<notin> set proto" "length proto + length address < 100"
    and "sess_inv t" "case auth t of None \<Rightarrow> True | Some f \<Rightarrow> f proto address"
  shows "\<exists>t' m. serveMessage chunk wsw (frame, EOF) t = Inr (None, t') \<and> sess_inv t' \<and>
    conns t' = (conns t)(k \<mapsto> length (heap t)) \<and>
    heap t' = heap t @ [newConnection k proto address] \<and>
    dialing t' = dialing t @ [(length (heap t), m)] \<and> msg_deadline m = milliseconds d"
proof -
  let ?b = "bytes_of (proto @ ''/'' @ address)"
  have "string_of (take 100 ?b) = proto @ ''/'' @ address" "length ?b \<le> 100"
    using assms(3) by (simp_all add: take_bytes_of del: append.simps)
  then have "\<exists>m. newServerMessage (frame, EOF) = Inr m \<and> messageType m = Connect \<and> msg_connID m = k \<and>
      msg_proto m = proto \<and> msg_address m = address \<and> msg_deadline m = milliseconds d"
    using assms(1,2)
    by (auto simp: Bytes_Inr_iff newServerMessage_header message_ctors ReadAll_Limit_def
        strings_SplitN2_join)
  then obtain m where m: "newServerMessage (frame, EOF) = Inr m" "messageType m = Connect" "msg_connID m = k"
      "msg_proto m = proto" "msg_address m = address" "msg_deadline m = milliseconds d" by blast
  then have "serveMessage chunk wsw (frame, EOF) t = Inr (None, clientConnect m t)"
    using assms(5) by (auto simp: serveMessage_def split: option.splits)
  with m clientConnect_inv [OF assms(4), of m] show ?thesis
    by (auto simp: clientConnect_def Let_def)
qed

theorem connect_end_to_end_witness:
  "\<exists>frame t'. Bytes (fst (newConnect 3 0 ''tcp'' ''b'' 0)) = Inr frame \<and>
     serveMessage whole (\<lambda>_ _. None) (frame, EOF) agent2 = Inr (None, t') \<and> conns t' 3 = Some 1"
proof -
  obtain frame where f: "Bytes (fst (newConnect 3 0 ''tcp'' ''b'' 0)) = Inr frame"
    using connect_frame [of 3 0 "''tcp''" "''b''" 0] by (auto simp: Bytes_eq)
  have "auth agent2 = None" "length (heap agent2) = 1"
    by (simp_all add: agent2_def clientConnect_def newClientSession_def)
  with connect_end_to_end [OF f _ _ agent2_inv, of whole "\<lambda>_ _. None"] f show ?thesis by auto
qed

section \<open>Closing a session\<close>

lemma Close_loop_inv:
  assumes "sess_inv s" "\<forall>a\<in>set order. a < length (heap s)"
  shows "\<exists>s'. Close_loop wsw order s = Inr s' \<and> sess_inv s' \<and> length (heap s') = length (heap s) \<and>
    (\<forall>i < length (heap s). i \<in> set order \<or> c_err (heap s ! i) \<noteq> None \<longrightarrow> c_err (heap s' ! i) \<noteq> None)"
  using assms
proof (induction order arbitrary: s)
  case (Cons a as)
  let ?e = "ErrText ''tunnel disconnect''"
  have a: "a < length (heap s)" using Cons.prems(2) by simp
  obtain s1 where s1: "tunnelClose wsw a (Some ?e) s = Inr s1" "sess_inv s1"
    "length (heap s1) = length (heap s)" "c_err (heap s1 ! a) \<noteq> None"
    "\<And>i. i < length (heap s) \<Longrightarrow> c_err (heap s ! i) \<noteq> None \<Longrightarrow> c_err (heap s1 ! i) \<noteq> None"
    by (rule tunnelClose_inv [OF Cons.prems(1) a, where wsw = wsw and e = ?e]) blast
  have "\<forall>a\<in>set as. a < length (heap s1)" using Cons.prems(2) s1(3) by simp
  from Cons.IH [OF s1(2) this] obtain s2 where "Close_loop wsw as s1 = Inr s2" "sess_inv s2"
    "length (heap s2) = length (heap s1)"
    "\<forall>i < length (heap s1). i \<in> set as \<or> c_err (heap s1 ! i) \<noteq> None \<longrightarrow> c_err (heap s2 ! i) \<noteq> None"
    by blast
  with s1 show ?case by (intro exI [of _ s2]) auto
qed simp

text \<open>Closing a session, in whatever order Go walks the map, stops its pings, leaves no
  connection registered and every one that was is failed, so its readers and
  writers get an error; it does not panic on connections that were closed before.\<close>

theorem session_Close_closes_all:
  assumes "sess_inv s" "set order = ran (conns s)"
  shows "\<exists>s'. session_Close wsw order s = Inr s' \<and> sess_inv s' \<and> conns s' = Map.empty \<and>
    (\<forall>k a. conns s k = Some a \<longrightarrow> c_err (heap s' ! a) \<noteq> None)"
proof -
  have inv: "sess_inv (stopPings s)" and h: "heap (stopPings s) = heap s"
    using assms(1) by (simp_all add: stopPings_def)
  have "\<forall>a\<in>set order. a < length (heap (stopPings s))"
    using assms(2) sess_invD(2) [OF assms(1)] by (auto simp: h ran_def)
  from Close_loop_inv [OF inv this] obtain s1 where s1: "Close_loop wsw order (stopPings s) = Inr s1"
    "sess_inv s1" "\<forall>i < length (heap s). i \<in> set order \<longrightarrow> c_err (heap s1 ! i) \<noteq> None"
    unfolding h by blast
  have "sess_inv (s1\<lparr>conns := Map.empty\<rparr>)" using s1(2) by (simp add: sess_inv_def)
  moreover have "c_err (heap s1 ! a) \<noteq> None" if "conns s k = Some a" for k a
    using that s1(3) assms sess_invD(2) [OF assms(1) that] by (auto simp: ran_def)
  ultimately show ?thesis using s1(1) by (auto simp: session_Close_def)
qed

theorem session_Close_closes_all_witness:
  "\<exists>s'. session_Close (\<lambda>_ _. Some EOF) [0] agent2 = Inr s' \<and> conns s' = Map.empty \<and>
     c_err (heap s' ! 0) \<noteq> None"
proof -
  have "set [0] = ran (conns agent2)"
    by (simp add: agent2_def clientConnect_def newClientSession_def message_ctors ran_def)
  from session_Close_closes_all [OF agent2_inv this, of "\<lambda>_ _. Some EOF"] agent2_simps(1)
  show ?thesis by blast
qed

section \<open>Interleavings\<close>

text \<open>
  Every step is one critical section of some goroutine: a change of the connection map under
  the session lock, a write under the websocket lock, an atomic counter, an operation of one
  connection under its lock or on its channel. Goroutines hold addresses of connections that
  may have left the map. The label records the bytes that entered and left a connection.
\<close>

datatype event = Tau | Pushed nat bytes | Got nat bytes

inductive tstep :: "ws_writer \<Rightarrow> session \<Rightarrow> event \<Rightarrow> session \<Rightarrow> bool" for wsw where
  register: "tstep wsw s Tau
    (s\<lparr>heap := heap s @ [newConnection k proto address], conns := (conns s)(k \<mapsto> length (heap s))\<rparr>)"
| unregister: "tstep wsw s Tau (s\<lparr>conns := (conns s)(k := None)\<rparr>)"
| clear: "tstep wsw s Tau (s\<lparr>conns := Map.empty\<rparr>)"
| send: "WriteTo wsw m s = Inr (r, s') \<Longrightarrow> tstep wsw s Tau s'"
| counter: "tstep wsw s Tau (s\<lparr>idCounter := i\<rparr>)"
| number: "tstep wsw s Tau (s\<lparr>nextConnID := i\<rparr>)"
| spawn: "tstep wsw s Tau (s\<lparr>dialing := ds\<rparr>)"
| pings: "tstep wsw s Tau (s\<lparr>pingCancel := p, pinging := q\<rparr>)"
| close: "a < length (heap s) \<Longrightarrow> close_conn a err s = Inr s' \<Longrightarrow> tstep wsw s Tau s'"
| push: "a < length (heap s) \<Longrightarrow> bs \<noteq> [] \<Longrightarrow> chanWriter_Write bs (heap s ! a) = Inr ((n, e), c) \<Longrightarrow>
    tstep wsw s (if e = None then Pushed a bs else Tau) (upd_conn a c s)"
| read: "a < length (heap s) \<Longrightarrow> connection_Read n (heap s ! a) = Some (got, e, c) \<Longrightarrow>
    tstep wsw s (Got a got) (upd_conn a c s)"
| deadline: "a < length (heap s) \<Longrightarrow>
    tstep wsw s Tau (upd_conn a (snd (SetDeadline t (heap s ! a))) s)"

inductive_cases tstepE: "tstep wsw s ev s'"
inductive_simps tstep_Pushed: "tstep wsw s (Pushed a bs) s'"

inductive trun :: "ws_writer \<Rightarrow> session \<Rightarrow> event list \<Rightarrow> session \<Rightarrow> bool" for wsw where
  trun_refl: "trun wsw s [] s"
| trun_step: "trun wsw s evs s1 \<Longrightarrow> tstep wsw s1 ev s2 \<Longrightarrow> trun wsw s (evs @ [ev]) s2"

fun pushed :: "nat \<Rightarrow> event list \<Rightarrow> bytes" where
  "pushed a [] = []"
| "pushed a (Pushed b bs # evs) = (if a = b then bs else []) @ pushed a evs"
| "pushed a (_ # evs) = pushed a evs"

fun got :: "nat \<Rightarrow> event list \<Rightarrow> bytes" where
  "got a [] = []"
| "got a (Got b bs # evs) = (if a = b then bs else []) @ got a evs"
| "got a (_ # evs) = got a evs"

lemma pushed_append [simp]: "pushed a (xs @ ys) = pushed a xs @ pushed a ys"
  by (induction xs rule: pushed.induct) auto

lemma got_append [simp]: "got a (xs @ ys) = got a xs @ got a ys"
  by (induction xs rule: got.induct) auto

lemma WriteTo_Inr:
  "WriteTo wsw m s = Inr (r, s') \<Longrightarrow> \<exists>out. s' = s\<lparr>ws_out := out\<rparr>"
  by (cases "Bytes m") (auto simp: WriteTo_def intro: exI [of _ "ws_out s"] split: option.splits)

lemma SetDeadline_conn [simp]:
  "conn_inv (snd (SetDeadline t c)) = conn_inv c" "c_connID (snd (SetDeadline t c)) = c_connID c"
  "pending (snd (SetDeadline t c)) = pending c"
  by (simp_all add: SetDeadline_def SetReadDeadline_def SetWriteDeadline_def conn_inv_def pending_def)

lemma connection_Read_pending:
  assumes "conn_inv c" "connection_Read n c = Some (bs, e, c')"
  shows "pending c = bs @ pending c'"
proof (cases "n = 0")
  case True
  then show ?thesis using assms by (simp add: connection_Read_def)
next
  case False
  then show ?thesis
    using conn_queue.get_data [OF assms(1), of n] conn_queue.get_end [OF assms(1), of n] assms(2)
    by (cases "pending c = []"; cases "c_err c") auto
qed

lemma chanWriter_pending:
  assumes "conn_inv c" "bs \<noteq> []" "chanWriter_Write bs c = Inr ((n, e), c')"
  shows "pending c' = pending c @ (if e = None then bs else [])"
  using conn_queue.put_ok [OF assms(1,2)] conn_queue.put_err [OF assms(1,2)] assms(3)
  by (cases e) auto

text \<open>One step keeps the invariant and every connection's account of its bytes.\<close>

lemma tstep_keeps:
  assumes "tstep wsw s ev s'" "sess_inv s"
  shows "sess_inv s' \<and> length (heap s) \<le> length (heap s') \<and>
    (\<forall>a < length (heap s). pending (heap s ! a) @ pushed a [ev] = got a [ev] @ pending (heap s' ! a))"
  using assms
proof cases
  case (register k proto address)
  then show ?thesis
    using new_conn_inv [OF assms(2), of "newConnection k proto address" k]
    by (simp add: nth_append newConnection_inv) (simp add: newConnection_def)
next
  case (unregister k)
  then show ?thesis using drop_conn_inv [OF assms(2)] by simp
next
  case clear
  then show ?thesis using assms(2) by (simp add: sess_inv_def)
next
  case (send m r)
  then obtain out where "s' = s\<lparr>ws_out := out\<rparr>" using WriteTo_Inr by blast
  with send assms(2) show ?thesis by simp
next
  case (close a err)
  obtain c where "close_conn a err s = Inr (upd_conn a c s)" "doTunnelClose err (heap s ! a) = Inr c"
      "conn_inv c" "c_connID c = c_connID (heap s ! a)"
    by (rule close_conn_eq [OF assms(2) close(2)]) blast
  with close doTunnelClose_pending [OF sess_invD(1) [OF assms(2) close(2)], of err c] assms(2)
  show ?thesis by (auto simp: upd_conn_inv) (auto simp: upd_conn_def nth_list_update)
next
  case (push a bs n e c)
  note inv = sess_invD(1) [OF assms(2) push(3)]
  note w = chanWriter_Write_inv [OF inv push(4,5)] chanWriter_pending [OF inv push(4,5)]
  have "sess_inv s'" using push(2) upd_conn_inv [OF assms(2) w(1,3)] by simp
  then show ?thesis using push w(4) by (auto simp: upd_conn_def nth_list_update)
next
  case (read a n bs e c)
  note inv = sess_invD(1) [OF assms(2) read(3)]
  note w = connection_Read_inv [OF inv read(4)] connection_Read_pending [OF inv read(4)]
  have "sess_inv s'" using read(2) upd_conn_inv [OF assms(2) w(1,3)] by simp
  then show ?thesis using read w(4) by (auto simp: upd_conn_def nth_list_update)
next
  case (deadline a t)
  have "sess_inv s'" using deadline upd_conn_inv [OF assms(2)] sess_invD(1) [OF assms(2) deadline(3)] by simp
  then show ?thesis using deadline by (auto simp: upd_conn_def nth_list_update)
qed simp_all

lemma trun_keeps:
  assumes "trun wsw s evs s'" "sess_inv s"
  shows "sess_inv s' \<and> length (heap s) \<le> length (heap s') \<and>
    (\<forall>a < length (heap s). pending (heap s ! a) @ pushed a evs = got a evs @ pending (heap s' ! a))"
  using assms
proof (induction rule: trun.induct)
  case (trun_step s evs s1 ev s2)
  note IH = trun_step.IH [OF trun_step.prems]
  note st = tstep_keeps [OF trun_step.hyps(2) conjunct1 [OF IH]]
  have "pending (heap s ! a) @ pushed a (evs @ [ev]) = got a (evs @ [ev]) @ pending (heap s2 ! a)"
    if a: "a < length (heap s)" for a
  proof -
    have "pending (heap s ! a) @ pushed a evs = got a evs @ pending (heap s1 ! a)" using IH a by blast
    moreover have "pending (heap s1 ! a) @ pushed a [ev] = got a [ev] @ pending (heap s2 ! a)"
      using st IH a by auto
    ultimately show ?thesis by (metis append.assoc got_append pushed_append)
  qed
  then show ?case using IH st by auto
qed simp

text \<open>C14: in every interleaving of the goroutines of a session each connection is a lossless
  FIFO: the bytes read from it, followed by those still waiting, are the bytes that
  waited at the start followed by those that were accepted since.\<close>

theorem interleaved_fifo:
  assumes "sess_inv s" "trun wsw s evs s'" "a < length (heap s)"
  shows "pending (heap s ! a) @ pushed a evs = got a evs @ pending (heap s' ! a)"
  using trun_keeps [OF assms(2,1)] assms(3) by blast

text \<open>In every state that the goroutines can reach by any interleaving, no goroutine can panic on a
  channel: closing a connection (again) and pushing received bytes to it always succeed or
  return an error.\<close>

theorem interleaved_no_panic:
  assumes "sess_inv s" "trun wsw s evs s'" "a < length (heap s')" "bs \<noteq> []"
  shows "(\<exists>s''. close_conn a err s' = Inr s'') \<and> (\<exists>r c. chanWriter_Write bs (heap s' ! a) = Inr (r, c))"
proof -
  have inv: "sess_inv s'" using trun_keeps [OF assms(2,1)] by blast
  obtain c where "close_conn a err s' = Inr (upd_conn a c s')" by (rule close_conn_eq [OF inv assms(3)])
  moreover have "\<exists>r c. chanWriter_Write bs (heap s' ! a) = Inr (r, c)"
    using conn_queue.put_total [OF sess_invD(1) [OF inv assms(3)] assms(4)] by blast
  ultimately show ?thesis by blast
qed

text \<open>A run of the agent: bytes arrive and the connection is closed.\<close>

lemma agent2_run:
  "\<exists>s'. trun wsw agent2 [Pushed 0 [104, 105], Tau] s' \<and> length (heap s') = 1"
proof -
  have a: "0 < length (heap agent2)" by (simp add: agent2_simps)
  obtain c where "chanWriter_Write [104, 105] (heap agent2 ! 0) = Inr ((2, None), c)"
    by (simp add: agent2_heap newConnection_def chanWriter_Write_def chan_try_send_def make_chan_def)
  from tstep.push [OF a _ this] have t1: "tstep wsw agent2 (Pushed 0 [104, 105]) (upd_conn 0 c agent2)" by simp
  let ?s = "upd_conn 0 c agent2"
  have inv: "sess_inv ?s" and a1: "0 < length (heap ?s)"
    using tstep_keeps [OF t1 agent2_inv] a by (simp_all add: upd_conn_def)
  obtain d where "close_conn 0 None ?s = Inr (upd_conn 0 d ?s)" by (rule close_conn_eq [OF inv a1])
  from tstep.close [OF a1 this, of wsw] have "trun wsw agent2 ([] @ [Pushed 0 [104, 105]] @ [Tau]) (upd_conn 0 d ?s)"
    using trun_step [OF trun_step [OF trun_refl t1]] by simp
  then show ?thesis by (auto simp: upd_conn_def agent2_simps intro!: exI [of _ "upd_conn 0 d ?s"])
qed

theorem interleaved_fifo_witness:
  "\<exists>s'. trun (\<lambda>_ _. None) agent2 [Pushed 0 [104, 105], Tau] s' \<and> pending (heap s' ! 0) = [104, 105]"
proof -
  obtain s' where s': "trun (\<lambda>_ _. None) agent2 [Pushed 0 [104, 105], Tau] s'" using agent2_run by blast
  have "0 < length (heap agent2)" by (simp add: agent2_simps)
  from interleaved_fifo [OF agent2_inv s' this] s' show ?thesis by (auto simp: agent2_simps(5))
qed

theorem interleaved_no_panic_witness:
  "\<exists>s' s''. trun (\<lambda>_ _. None) agent2 [Pushed 0 [104, 105], Tau] s' \<and> close_conn 0 (Some EOF) s' = Inr s''"
proof -
  obtain s' where s': "trun (\<lambda>_ _. None) agent2 [Pushed 0 [104, 105], Tau] s'" "length (heap s') = 1"
    using agent2_run by blast
  with interleaved_no_panic [OF agent2_inv s'(1), of 0 "[1]" "Some EOF"] show ?thesis by auto
qed

section \<open>The handlers are made of these steps\<close>

lemma trun_one: "tstep wsw s ev s' \<Longrightarrow> trun wsw s [ev] s'"
  using trun_step [OF trun_refl] by fastforce

lemma trun_trans:
  assumes "trun wsw s1 xs s2" "trun wsw s2 ys s3"
  shows "trun wsw s1 (xs @ ys) s3"
  using assms(2,1)
  by (induction rule: trun.induct) (auto simp: append_assoc [symmetric] intro: trun_step simp del: append_assoc)

lemma writeErr_run:
  assumes "writeErr wsw a (Some e) s = Inr s'"
  shows "\<exists>evs. trun wsw s evs s' \<and> (\<forall>a. pushed a evs = [])"
proof -
  let ?m = "fst (newErrorMessage (c_connID (heap s ! a)) e (idCounter s))"
  obtain r where "WriteTo wsw ?m (s\<lparr>idCounter := idCounter s + 1\<rparr>) = Inr (r, s')"
    using assms by (auto simp: writeErr_def writeMessage_def message_ctors gbind_Inr_iff)
  from trun_trans [OF trun_one [OF tstep.counter] trun_one [OF tstep.send [OF this]]]
  have "trun wsw s [Tau, Tau] s'" by simp
  then show ?thesis by (intro exI [of _ "[Tau, Tau]"]) simp
qed

lemma closeConnection_run:
  assumes "sess_inv s" "closeConnection wsw k (Some e) s = Inr s'"
  shows "\<exists>evs. trun wsw s evs s' \<and> (\<forall>a. pushed a evs = [])"
proof -
  let ?s = "s\<lparr>conns := (conns s)(k := None)\<rparr>"
  have t: "trun wsw s [Tau] ?s" by (rule trun_one [OF tstep.unregister])
  show ?thesis
  proof (cases "conns s k")
    case None
    with assms(2) t show ?thesis by (intro exI [of _ "[Tau]"]) (simp add: closeConnection_def)
  next
    case (Some a)
    with assms(2) obtain s1 where s1: "writeErr wsw a (Some e) ?s = Inr s1" "close_conn a (Some e) s1 = Inr s'"
      by (auto simp: closeConnection_def tunnelClose_def gbind_Inr_iff)
    then have a: "a < length (heap s1)"
      using sess_invD(2) [OF assms(1) Some] by (auto simp: writeErr_eq)
    obtain evs where "trun wsw ?s evs s1" "\<forall>a. pushed a evs = []" using writeErr_run [OF s1(1)] by blast
    with trun_trans [OF t trun_trans [OF _ trun_one [OF tstep.close [OF a s1(2)]]]] show ?thesis by fastforce
  qed
qed

lemma upd_conn_twice: "upd_conn a d (upd_conn a c s) = upd_conn a d s"
  by (simp add: upd_conn_def)

lemma Copy_chunks_run:
  assumes "sess_inv s" "a < length (heap s)" "[] \<notin> set bs" "Copy_chunks bs e (heap s ! a) = Inr (err, c)"
  shows "\<exists>evs. trun wsw s evs (upd_conn a c s)"
  using assms
proof (induction bs arbitrary: s)
  case Nil
  then show ?case using trun_refl [of wsw s] by (auto simp: upd_conn_def intro!: exI [of _ "[]"])
next
  case (Cons b bs)
  have b: "b \<noteq> []" using Cons.prems(3) by auto
  note inv = sess_invD(1) [OF Cons.prems(1,2)]
  obtain n ew d where p: "chanWriter_Write b (heap s ! a) = Inr ((n, ew), d)"
    using conn_queue.put_total [OF inv b] by blast
  let ?s = "upd_conn a d s"
  note t = trun_one [OF tstep.push [OF Cons.prems(2) b p], of wsw]
  have inv1: "sess_inv ?s"
    by (rule upd_conn_inv [OF Cons.prems(1)]) (use chanWriter_Write_inv [OF inv b p] in simp_all)
  show ?case
  proof (cases ew)
    case None
    then have n: "n = length b" using conn_queue.put_ok [OF inv b] p by auto
    have h: "heap ?s ! a = d" "a < length (heap ?s)" using Cons.prems(2) by (simp_all add: upd_conn_def)
    with Cons.prems(4) None n p have "Copy_chunks bs e (heap ?s ! a) = Inr (err, c)" by simp
    from Cons.IH [OF inv1 h(2) _ this] Cons.prems(3) obtain evs where "trun wsw ?s evs (upd_conn a c ?s)"
      by auto
    from trun_trans [OF t this] show ?thesis by (auto simp: upd_conn_twice)
  qed (use Cons.prems(4) p t in auto)
qed

lemma serveMessage_run:
  assumes "sess_inv s" "chunks_ok chunk" "serveMessage chunk wsw r s = Inr (err, s')"
  shows "\<exists>evs. trun wsw s evs s'"
proof (cases "newServerMessage r")
  case (Inl e)
  then show ?thesis using assms(3) trun_refl [of wsw s] by (auto simp: serveMessage_def)
next
  case (Inr m)
  have refl: "\<exists>evs. trun wsw s evs s" using trun_refl by blast
  show ?thesis
  proof (cases "messageType m = Connect")
    case True
    have "trun wsw s ([Tau] @ [Tau]) (clientConnect m s)"
      using trun_trans [OF trun_one [OF tstep.register] trun_one [OF tstep.spawn], of wsw s]
      by (simp add: clientConnect_def Let_def)
    with True Inr assms(3) refl show ?thesis by (auto simp: serveMessage_def split: option.splits if_splits)
  next
    case nc: False
    show ?thesis
    proof (cases "conns s (msg_connID m)")
      case None
      let ?em = "fst (newErrorMessage (msg_connID m) (connection_not_found s (msg_connID m)) (idCounter s))"
      show ?thesis
      proof (cases "messageType m = Data")
        case True
        with Inr nc None assms(3) obtain q where "WriteTo wsw ?em (s\<lparr>idCounter := idCounter s + 1\<rparr>) = Inr (q, s')"
          by (auto simp: serveMessage_def message_ctors gbind_Inr_iff)
        from trun_trans [OF trun_one [OF tstep.counter] trun_one [OF tstep.send [OF this]]] show ?thesis by blast
      qed (use Inr nc None assms(3) refl in \<open>simp add: serveMessage_def\<close>)
    next
      case (Some a)
      note a = sess_invD(2) [OF assms(1) Some]
      obtain bs e where body: "msg_body m = Some (bs, e)" using newServerMessage_body [OF Inr] by auto
      consider (data) "messageType m = Data" | (error) "messageType m \<noteq> Data" "messageType m = Error"
        | (other) "messageType m \<noteq> Data" "messageType m \<noteq> Error" by blast
      then show ?thesis
      proof cases
        case data
        have ne: "[] \<notin> set (chunk bs)" using assms(2) by (simp add: chunks_ok_def)
        obtain x c where copy: "Copy_chunks (chunk bs) e (heap s ! a) = Inr (x, c)" "conn_inv c"
          "c_connID c = c_connID (heap s ! a)"
          by (rule Copy_chunks_inv [OF sess_invD(1) [OF assms(1) a] ne, where e = e])
        obtain evs where run: "trun wsw s evs (upd_conn a c s)"
          using Copy_chunks_run [OF assms(1) a ne copy(1)] by blast
        have inv: "sess_inv (upd_conn a c s)" by (rule upd_conn_inv [OF assms(1) copy(2,3)])
        show ?thesis
        proof (cases x)
          case None
          with Inr nc Some data body copy(1) assms(3) run show ?thesis by (auto simp: serveMessage_def)
        next
          case (Some y)
          with Inr nc \<open>conns s (msg_connID m) = Some a\<close> data body copy(1) assms(3)
          have "closeConnection wsw (msg_connID m) (Some y) (upd_conn a c s) = Inr s'"
            by (auto simp: serveMessage_def gbind_Inr_iff)
          from closeConnection_run [OF inv this] trun_trans [OF run] show ?thesis by blast
        qed
      next
        case error
        with Inr nc Some assms(3) obtain y where "closeConnection wsw (msg_connID m) (Some y) s = Inr s'"
          by (auto simp: serveMessage_def gbind_Inr_iff)
        from closeConnection_run [OF assms(1) this] show ?thesis by blast
      qed (use Inr nc Some assms(3) refl in \<open>simp add: serveMessage_def\<close>)
    qed
  qed
qed

text \<open>Serving a frame is a run of the critical sections above, so what holds of every
  interleaving holds with the session's reader among the goroutines.\<close>

theorem serveMessage_is_run:
  assumes "sess_inv s" "chunks_ok chunk" "serveMessage chunk wsw r s = Inr (err, s')"
  shows "\<exists>evs. trun wsw s evs s'"
  using serveMessage_run [OF assms] .

theorem serveMessage_is_run_witness:
  "\<exists>err s' evs. serveMessage whole (\<lambda>_ _. None) ([2, 4, 2, 0, 104, 105], EOF) agent2 = Inr (err, s') \<and>
     trun (\<lambda>_ _. None) agent2 evs s'"
proof -
  obtain err s' where s: "serveMessage whole (\<lambda>_ _. None) ([2, 4, 2, 0, 104, 105], EOF) agent2 = Inr (err, s')"
    using serveMessage_inv [OF agent2_inv whole_ok] by blast
  from serveMessage_is_run [OF agent2_inv whole_ok s] s show ?thesis by blast
qed

end
