(* ===== verification/Server.thy ===== *)
theory Server
  imports Tunnel
begin

text \<open>
  The tunnel server: src/pkg/remotedialer/session_manager.go (the registry of the agents'
  sessions), server.go (the HTTP handler that authorises an agent, registers its session,
  serves it and removes it) and dialer.go (connections through an agent). Sessions are
  pointers, addresses of the list \<open>sessions\<close>. The process-wide message counter is lent to the
  session that runs. The authoriser, the upgrade to a websocket, the random session key and the
  frames an agent sends are inputs of the handler.
\<close>

record sessionManager =
  clients :: "string \<rightharpoonup> nat list"
  sessions :: "session list"
  sm_ctr :: int64

definition newSessionManager :: "int64 \<Rightarrow> sessionManager" where
  "newSessionManager ctr = \<lparr>clients = Map.empty, sessions = [], sm_ctr = ctr\<rparr>"

text \<open>A missing key reads as the nil slice.\<close>

definition of_client :: "sessionManager \<Rightarrow> string \<Rightarrow> nat list" where
  "of_client sm k = (case clients sm k of None \<Rightarrow> [] | Some l \<Rightarrow> l)"

definition getByClient :: "string \<Rightarrow> sessionManager \<Rightarrow> GoError + nat" where
  "getByClient k sm =
     (case of_client sm k of
        a # _ \<Rightarrow> Inr a
      | [] \<Rightarrow> Inl (ErrText (''failed to find session for client '' @ k)))"

definition sm_add :: "string \<Rightarrow> int64 \<Rightarrow> sessionManager \<Rightarrow> nat \<times> sessionManager" where
  "sm_add k key sm =
     (let a = length (sessions sm) in
      (a, sm\<lparr>sessions := sessions sm @ [newSession key k (sm_ctr sm)],
             clients := (clients sm)(k \<mapsto> of_client sm k @ [a])\<rparr>))"

definition run_session :: "nat \<Rightarrow> (session \<Rightarrow> ('r \<times> session) go) \<Rightarrow> sessionManager \<Rightarrow> ('r \<times> sessionManager) go" where
  "run_session a f sm =
     gbind (f ((sessions sm ! a)\<lparr>idCounter := sm_ctr sm\<rparr>)) (\<lambda>(r, s).
       Inr (r, sm\<lparr>sessions := (sessions sm)[a := s], sm_ctr := idCounter s\<rparr>))"

definition unlist :: "nat \<Rightarrow> sessionManager \<Rightarrow> sessionManager" where
  "unlist a sm =
     (let s = sessions sm ! a;
          newSessions = filter (\<lambda>v. sessionKey (sessions sm ! v) \<noteq> sessionKey s) (of_client sm (clientKey s))
      in if newSessions = [] then sm\<lparr>clients := (clients sm)(clientKey s := None)\<rparr>
         else sm\<lparr>clients := (clients sm)(clientKey s \<mapsto> newSessions)\<rparr>)"

definition sm_remove :: "ws_writer \<Rightarrow> nat list \<Rightarrow> nat \<Rightarrow> sessionManager \<Rightarrow> sessionManager go" where
  "sm_remove wsw order a sm =
     gbind (run_session a (\<lambda>s. gbind (session_Close wsw order s) (\<lambda>s'. Inr ((), s'))) (unlist a sm))
       (\<lambda>(_, sm'). Inr sm')"

section \<open>Dialling\<close>

definition HasSession :: "string \<Rightarrow> sessionManager \<Rightarrow> bool" where
  "HasSession k sm = (case getByClient k sm of Inl _ \<Rightarrow> False | Inr _ \<Rightarrow> True)"

definition Dial ::
  "ws_writer \<Rightarrow> string \<Rightarrow> int64 \<Rightarrow> string \<Rightarrow> string \<Rightarrow> sessionManager \<Rightarrow>
   ((nat option \<times> GoError option) \<times> sessionManager) go" where
  "Dial wsw k deadline proto address sm =
     (case getByClient k sm of
        Inl e \<Rightarrow> Inr ((None, Some e), sm)
      | Inr a \<Rightarrow> run_session a (serverConnect wsw deadline proto address) sm)"

section \<open>The HTTP handler\<close>

datatype served =
    Responded nat GoError
  | Finished nat GoError

text \<open>\<open>handshake\<close> is the outcome of the upgrade, \<open>order\<close> the map order of the final \<open>Close\<close> for
  the session as it then is.\<close>

definition ServeHTTP ::
  "bool \<Rightarrow> GoError + (string \<times> bool) \<Rightarrow> GoError option \<Rightarrow> int64 \<Rightarrow>
   chunker \<Rightarrow> ws_writer \<Rightarrow> (nat \<times> reader) list \<Rightarrow> GoError \<Rightarrow> (session \<Rightarrow> nat list) \<Rightarrow>
   sessionManager \<Rightarrow> (served \<times> sessionManager) go" where
  "ServeHTTP ready authorizer handshake key chunk wsw frames e order sm =
     (if \<not> ready then Inr (Responded 503 (ErrText ''tunnel server not active''), sm)
      else case authorizer of
        Inl err \<Rightarrow> Inr (Responded 400 err, sm)
      | Inr (k, authed) \<Rightarrow>
          if \<not> authed then Inr (Responded 401 (ErrText ''failed authentication''), sm)
          else (case handshake of
                  Some err \<Rightarrow> Inr (Responded 400 err, sm)
                | None \<Rightarrow>
                    (let (a, sm1) = sm_add k key sm in
                     gbind (run_session a (serve chunk wsw frames e) sm1) (\<lambda>((code, err), sm2).
                     gbind (sm_remove wsw (order (sessions sm2 ! a)) a sm2) (\<lambda>sm3.
                       Inr (Finished code err, sm3))))))"

section \<open>The invariant of the registry\<close>

definition mgr_inv :: "sessionManager \<Rightarrow> bool" where
  "mgr_inv sm \<longleftrightarrow> (\<forall>s\<in>set (sessions sm). sess_inv s) \<and>
     (\<forall>k l. clients sm k = Some l \<longrightarrow> l \<noteq> [] \<and> distinct l \<and>
        (\<forall>a\<in>set l. a < length (sessions sm) \<and> clientKey (sessions sm ! a) = k))"

lemma mgr_inv_of_client:
  "mgr_inv sm \<Longrightarrow> a \<in> set (of_client sm k) \<Longrightarrow> a < length (sessions sm) \<and> clientKey (sessions sm ! a) = k"
  by (cases "clients sm k") (simp_all add: of_client_def mgr_inv_def)

lemma mgr_inv_distinct: "mgr_inv sm \<Longrightarrow> distinct (of_client sm k)"
  by (cases "clients sm k") (simp_all add: of_client_def mgr_inv_def)

lemma newSessionManager_inv [inv_intros, simp]: "mgr_inv (newSessionManager ctr)"
  by (simp add: mgr_inv_def newSessionManager_def)

lemma sm_add_inv [inv_intros]:
  assumes "mgr_inv sm"
  shows "mgr_inv (snd (sm_add k key sm))"
proof -
  let ?a = "length (sessions sm)"
  have old: "a < ?a \<and> clientKey (sessions sm ! a) = k'" if "a \<in> set (of_client sm k')" for a k'
    using mgr_inv_of_client [OF assms that] .
  then have d: "distinct (of_client sm k @ [?a])"
    using mgr_inv_distinct [OF assms, of k] by fastforce
  have "(k' = k \<and> l = of_client sm k @ [?a]) \<or> l = of_client sm k' \<and> l \<noteq> []"
    if "((clients sm)(k \<mapsto> of_client sm k @ [?a])) k' = Some l" for k' l
    using that assms by (auto simp: of_client_def mgr_inv_def split: if_splits)
  moreover note mgr_inv_distinct [OF assms]
  ultimately have "l \<noteq> [] \<and> distinct l \<and> (\<forall>a\<in>set l. a < Suc ?a \<and>
      clientKey ((sessions sm @ [newSession key k (sm_ctr sm)]) ! a) = k')"
    if "((clients sm)(k \<mapsto> of_client sm k @ [?a])) k' = Some l" for k' l
    using that d old by (fastforce simp: nth_append newSession_def)
  moreover have "\<forall>s\<in>set (sessions sm @ [newSession key k (sm_ctr sm)]). sess_inv s"
    using assms by (auto simp: mgr_inv_def)
  ultimately show ?thesis by (simp add: sm_add_def mgr_inv_def Let_def)
qed

text \<open>Running a session that keeps its key and its invariant keeps the registry.\<close>

lemma run_session_inv [inv_intros]:
  assumes "mgr_inv sm" "run_session a f sm = Inr (r, sm')" "a < length (sessions sm)"
    and "\<And>s r s'. sess_inv s \<Longrightarrow> f s = Inr (r, s') \<Longrightarrow> sess_inv s' \<and> clientKey s' = clientKey s"
  shows "mgr_inv sm'" "clients sm' = clients sm" "length (sessions sm') = length (sessions sm)"
proof -
  let ?s = "(sessions sm ! a)\<lparr>idCounter := sm_ctr sm\<rparr>"
  obtain s' where s': "f ?s = Inr (r, s')" "sm' = sm\<lparr>sessions := (sessions sm)[a := s'], sm_ctr := idCounter s'\<rparr>"
    using assms(2) by (auto simp: run_session_def gbind_Inr_iff)
  have "sess_inv ?s" using assms(1,3) by (auto simp: mgr_inv_def)
  from assms(4) [OF this s'(1)] have ok: "sess_inv s'" "clientKey s' = clientKey (sessions sm ! a)" by simp_all
  have ck: "clientKey ((sessions sm)[a := s'] ! i) = clientKey (sessions sm ! i)" if "i < length (sessions sm)" for i
    using that ok(2) by (cases "i = a") simp_all
  have "\<forall>s\<in>set ((sessions sm)[a := s']). sess_inv s"
    using assms(1) ok(1) by (auto simp: mgr_inv_def dest: subsetD [OF set_update_subset_insert])
  then show "mgr_inv sm'" using assms(1) s'(2) ck by (simp add: mgr_inv_def)
qed (use assms(2) in \<open>auto simp: run_session_def gbind_Inr_iff\<close>)

section \<open>Sessions keep their keys\<close>

lemma tstep_keys:
  "tstep wsw s ev s' \<Longrightarrow> clientKey s' = clientKey s \<and> sessionKey s' = sessionKey s"
  by (induction rule: tstep.induct)
    (auto simp: upd_conn_def close_conn_def gbind_Inr_iff dest: WriteTo_Inr)

lemma trun_keys:
  "trun wsw s evs s' \<Longrightarrow> clientKey s' = clientKey s \<and> sessionKey s' = sessionKey s"
  by (induction rule: trun.induct) (auto dest: tstep_keys)

lemma serve_loop_keys:
  assumes "chunks_ok chunk"
  shows "sess_inv s \<Longrightarrow> serve_loop chunk wsw frames e s = Inr (r, s') \<Longrightarrow>
    clientKey s' = clientKey s \<and> sessionKey s' = sessionKey s"
proof (induction frames arbitrary: s)
  case (Cons f frames)
  obtain t rd where f: "f = (t, rd)" by (cases f)
  obtain err s1 where s1: "serveMessage chunk wsw rd s = Inr (err, s1)" "sess_inv s1"
    using serveMessage_inv [OF Cons.prems(1) assms] by blast
  have "clientKey s1 = clientKey s \<and> sessionKey s1 = sessionKey s"
    using serveMessage_run [OF Cons.prems(1) assms s1(1)] trun_keys by blast
  with Cons f s1 show ?case by (auto split: if_splits option.splits)
qed auto

lemma serve_ok:
  assumes "chunks_ok chunk" "sess_inv s"
  obtains code err s' where "serve chunk wsw frames e s = Inr ((code, err), s')" "sess_inv s'"
    "clientKey s' = clientKey s" "sessionKey s' = sessionKey s"
proof -
  let ?s = "if client s then startPings s else s"
  have s: "sess_inv ?s" "clientKey ?s = clientKey s" "sessionKey ?s = sessionKey s"
    using assms(2) by (simp_all add: startPings_def)
  obtain code err s' where "serve_loop chunk wsw frames e ?s = Inr ((code, err), s')" "sess_inv s'"
    using serve_loop_inv [OF assms(1) s(1)] by blast
  with serve_loop_keys [OF assms(1) s(1)] s(2,3) show ?thesis by (intro that [of code err s']) (auto simp: serve_def)
qed

lemma Close_loop_keys:
  assumes "Close_loop wsw order s = Inr s'"
  shows "clientKey s' = clientKey s \<and> sessionKey s' = sessionKey s"
  using assms
proof (induction order arbitrary: s)
  case (Cons a as)
  then obtain s1 where s1: "tunnelClose wsw a (Some (ErrText ''tunnel disconnect'')) s = Inr s1"
    "Close_loop wsw as s1 = Inr s'" by (auto simp: gbind_Inr_iff)
  then have "clientKey s1 = clientKey s \<and> sessionKey s1 = sessionKey s"
    by (auto simp: tunnelClose_def writeErr_eq close_conn_def gbind_Inr_iff upd_conn_def)
  with Cons.IH [OF s1(2)] show ?case by simp
qed simp

lemma session_Close_ok:
  assumes "sess_inv s" "set order = ran (conns s)"
  obtains s' where "session_Close wsw order s = Inr s'" "sess_inv s'" "clientKey s' = clientKey s"
    "sessionKey s' = sessionKey s"
proof -
  have inv: "sess_inv (stopPings s)" and st: "heap (stopPings s) = heap s"
    "clientKey (stopPings s) = clientKey s" "sessionKey (stopPings s) = sessionKey s"
    using assms(1) by (simp_all add: stopPings_def)
  have "\<forall>a\<in>set order. a < length (heap (stopPings s))"
    using assms sess_invD(2) [OF assms(1)] by (auto simp: st ran_def)
  from Close_loop_inv [OF inv this] obtain s1 where s1: "Close_loop wsw order (stopPings s) = Inr s1"
    "sess_inv s1" by blast
  have "sess_inv (s1\<lparr>conns := Map.empty\<rparr>)" using s1(2) by (simp add: sess_inv_def)
  then show ?thesis using s1(1) Close_loop_keys [OF s1(1)] st
    by (intro that [of "s1\<lparr>conns := Map.empty\<rparr>"]) (simp_all add: session_Close_def)
qed

section \<open>The registry as a specification\<close>

text \<open>
  What the dialler and the handler rely on: a registry lists, per client, the keys of its
  sessions in the order they came; lookup gives the oldest; adding appends; removing drops
  the key.
\<close>

definition keys_of :: "sessionManager \<Rightarrow> string \<Rightarrow> int64 list" where
  "keys_of sm k = map (\<lambda>a. sessionKey (sessions sm ! a)) (of_client sm k)"

locale registry =
  fixes ok :: "'m \<Rightarrow> bool"
    and listing :: "'m \<Rightarrow> string \<Rightarrow> int64 list"
    and lookup :: "string \<Rightarrow> 'm \<Rightarrow> GoError + nat"
    and key_at :: "'m \<Rightarrow> nat \<Rightarrow> int64"
    and client_at :: "'m \<Rightarrow> nat \<Rightarrow> string"
    and insert :: "string \<Rightarrow> int64 \<Rightarrow> 'm \<Rightarrow> nat \<times> 'm"
    and discard :: "nat \<Rightarrow> 'm \<Rightarrow> 'm"
  assumes lookup_none: "ok m \<Longrightarrow> listing m k = [] \<Longrightarrow> \<exists>e. lookup k m = Inl e"
    and lookup_some: "ok m \<Longrightarrow> listing m k = x # xs \<Longrightarrow>
          \<exists>a. lookup k m = Inr a \<and> key_at m a = x \<and> client_at m a = k"
    and insert_law: "ok m \<Longrightarrow> insert k x m = (a, m') \<Longrightarrow> ok m' \<and> key_at m' a = x \<and> client_at m' a = k \<and>
          listing m' = (listing m)(k := listing m k @ [x])"
    and discard_law: "ok m \<Longrightarrow> listing (discard a m) =
          (listing m)(client_at m a := filter (\<lambda>x. x \<noteq> key_at m a) (listing m (client_at m a)))"
    and discard_ok: "ok m \<Longrightarrow> ok (discard a m)"
begin

lemma insert_discard:
  assumes "ok m" "insert k x m = (a, m')" "x \<notin> set (listing m k)"
  shows "listing (discard a m') = listing m"
proof -
  have "ok m'" "key_at m' a = x" "client_at m' a = k" "listing m' = (listing m)(k := listing m k @ [x])"
    using insert_law [OF assms(1,2)] by simp_all
  moreover have "filter (\<lambda>y. y \<noteq> x) (listing m k) = listing m k"
    using assms(3) by (auto intro: filter_True)
  ultimately show ?thesis using discard_law [of m' a] by (simp add: fun_eq_iff)
qed

text \<open>When the session in use goes, the next oldest takes over.\<close>

lemma failover:
  assumes "ok m" "listing m k = x # y # xs" "x \<noteq> y" "lookup k m = Inr a"
  shows "\<exists>b. lookup k (discard a m) = Inr b \<and> key_at (discard a m) b = y"
proof -
  have "key_at m a = x" "client_at m a = k" using lookup_some [OF assms(1,2)] assms(4) by auto
  then have "listing (discard a m) k = y # filter (\<lambda>z. z \<noteq> x) xs"
    using discard_law [OF assms(1), of a] assms(2,3) by simp
  from lookup_some [OF discard_ok [OF assms(1)] this] show ?thesis by blast
qed

end

lemma keys_of_unlist:
  "keys_of (unlist a sm) = (keys_of sm)(clientKey (sessions sm ! a) :=
     filter (\<lambda>x. x \<noteq> sessionKey (sessions sm ! a)) (keys_of sm (clientKey (sessions sm ! a))))"
proof -
  let ?k = "clientKey (sessions sm ! a)" and ?x = "sessionKey (sessions sm ! a)"
  have "of_client (unlist a sm) = (of_client sm)(?k := filter (\<lambda>v. sessionKey (sessions sm ! v) \<noteq> ?x) (of_client sm ?k))"
    by (rule ext) (simp add: unlist_def of_client_def [of "_\<lparr>clients := _\<rparr>"] of_client_def [of sm, symmetric] Let_def)
  moreover have "sessions (unlist a sm) = sessions sm" by (simp add: unlist_def Let_def)
  ultimately show ?thesis by (simp add: keys_of_def fun_eq_iff filter_map o_def)
qed

lemma mgr_inv_update:
  assumes "mgr_inv sm" "distinct l" "\<forall>v\<in>set l. v < length (sessions sm) \<and> clientKey (sessions sm ! v) = k"
  shows "mgr_inv (sm\<lparr>clients := (clients sm)(k := if l = [] then None else Some l)\<rparr>)"
proof -
  have "l' = l \<and> k' = k \<and> l \<noteq> [] \<or> clients sm k' = Some l'"
    if "((clients sm)(k := if l = [] then None else Some l)) k' = Some l'" for k' l'
    using that by (auto split: if_splits)
  then have A: "l' \<noteq> [] \<and> distinct l' \<and> (\<forall>v\<in>set l'. v < length (sessions sm) \<and> clientKey (sessions sm ! v) = k')"
    if "((clients sm)(k := if l = [] then None else Some l)) k' = Some l'" for k' l'
    using that assms unfolding mgr_inv_def by blast
  have B: "\<forall>s\<in>set (sessions sm). sess_inv s" using assms(1) unfolding mgr_inv_def by blast
  have S: "sessions (sm\<lparr>clients := f\<rparr>) = sessions sm" "clients (sm\<lparr>clients := f\<rparr>) = f" for f
    by simp_all
  show ?thesis unfolding mgr_inv_def S using A B by blast
qed

lemma unlist_inv [inv_intros]:
  assumes "mgr_inv sm"
  shows "mgr_inv (unlist a sm)"
proof -
  let ?k = "clientKey (sessions sm ! a)"
  let ?l = "filter (\<lambda>v. sessionKey (sessions sm ! v) \<noteq> sessionKey (sessions sm ! a)) (of_client sm ?k)"
  have l: "distinct ?l" "\<forall>v\<in>set ?l. v < length (sessions sm) \<and> clientKey (sessions sm ! v) = ?k"
    using mgr_inv_of_client [OF assms] mgr_inv_distinct [OF assms] by auto
  have u: "unlist a sm = sm\<lparr>clients := (clients sm)(?k := if ?l = [] then None else Some ?l)\<rparr>"
    by (simp add: unlist_def Let_def)
  show ?thesis unfolding u by (rule mgr_inv_update [OF assms l])
qed

interpretation manager: registry mgr_inv keys_of getByClient "\<lambda>sm a. sessionKey (sessions sm ! a)"
  "\<lambda>sm a. clientKey (sessions sm ! a)" sm_add unlist
proof unfold_locales
  fix sm k x xs a sm'
  assume inv: "mgr_inv sm"
  show "\<exists>e. getByClient k sm = Inl e" if "keys_of sm k = []"
    using that by (auto simp: keys_of_def getByClient_def)
  show "\<exists>a. getByClient k sm = Inr a \<and> sessionKey (sessions sm ! a) = x \<and> clientKey (sessions sm ! a) = k"
    if "keys_of sm k = x # xs"
    using that mgr_inv_of_client [OF inv, of _ k] by (auto simp: keys_of_def getByClient_def Cons_eq_map_conv)
  show "mgr_inv sm' \<and> sessionKey (sessions sm' ! a) = x \<and> clientKey (sessions sm' ! a) = k \<and>
      keys_of sm' = (keys_of sm)(k := keys_of sm k @ [x])" if "sm_add k x sm = (a, sm')"
  proof -
    have old: "v < length (sessions sm)" if "v \<in> set (of_client sm k')" for v k'
      using mgr_inv_of_client [OF inv that] by simp
    have "mgr_inv sm'" using sm_add_inv [OF inv, of k x] that by simp
    with that old show ?thesis
      by (auto simp: sm_add_def Let_def keys_of_def fun_eq_iff of_client_def nth_append newSession_def)
  qed
  show "keys_of (unlist a sm) = (keys_of sm)(clientKey (sessions sm ! a) :=
      filter (\<lambda>x. x \<noteq> sessionKey (sessions sm ! a)) (keys_of sm (clientKey (sessions sm ! a))))"
    by (rule keys_of_unlist)
  show "mgr_inv (unlist a sm)" by (rule unlist_inv [OF inv])
qed

section \<open>The server\<close>

text \<open>What Go guarantees of the walk over the map in \<open>Close\<close>: it visits the connections.\<close>

definition walks :: "(session \<Rightarrow> nat list) \<Rightarrow> bool" where
  "walks order \<longleftrightarrow> (\<forall>s. sess_inv s \<longrightarrow> set (order s) = ran (conns s))"

definition ascending :: "session \<Rightarrow> nat list" where
  "ascending s = filter (\<lambda>a. a \<in> ran (conns s)) [0..<length (heap s)]"

lemma ascending_walks: "walks ascending"
  by (auto simp: walks_def ascending_def ran_def dest: sess_invD(2))

lemma walks_frame: "walks order \<Longrightarrow> sess_inv s \<Longrightarrow> set (order s) = ran (conns s)"
  by (simp add: walks_def)

lemma run_session_keys:
  assumes "run_session a f sm = Inr (r, sm')" "a < length (sessions sm)"
    and "\<And>s'. f ((sessions sm ! a)\<lparr>idCounter := sm_ctr sm\<rparr>) = Inr (r, s') \<Longrightarrow> sessionKey s' = sessionKey (sessions sm ! a)"
  shows "keys_of sm' = keys_of sm"
proof -
  obtain s' where s': "f ((sessions sm ! a)\<lparr>idCounter := sm_ctr sm\<rparr>) = Inr (r, s')"
    "sm' = sm\<lparr>sessions := (sessions sm)[a := s'], sm_ctr := idCounter s'\<rparr>"
    using assms(1) by (auto simp: run_session_def gbind_Inr_iff)
  have "sessionKey ((sessions sm)[a := s'] ! i) = sessionKey (sessions sm ! i)" for i
    using assms(2) assms(3) [OF s'(1)] by (cases "i = a") simp_all
  with s'(2) show ?thesis by (simp add: keys_of_def of_client_def fun_eq_iff)
qed

lemma sm_remove_ok:
  assumes "mgr_inv sm" "a < length (sessions sm)" "set order = ran (conns (sessions sm ! a))"
  obtains sm' where "sm_remove wsw order a sm = Inr sm'" "mgr_inv sm'" "keys_of sm' = keys_of (unlist a sm)"
    "clients sm' = clients (unlist a sm)"
proof -
  let ?u = "unlist a sm"
  have u: "sessions ?u = sessions sm" "sm_ctr ?u = sm_ctr sm" by (simp_all add: unlist_def Let_def)
  let ?s = "(sessions sm ! a)\<lparr>idCounter := sm_ctr sm\<rparr>"
  let ?f = "\<lambda>s. gbind (session_Close wsw order s) (\<lambda>s'. Inr ((), s'))"
  have "sess_inv ?s" using assms(1,2) by (auto simp: mgr_inv_def)
  then obtain s' where s': "session_Close wsw order ?s = Inr s'" "sess_inv s'" "clientKey s' = clientKey ?s"
    "sessionKey s' = sessionKey ?s"
    by (rule session_Close_ok [where wsw = wsw and order = order]) (use assms(3) in simp)
  let ?m = "?u\<lparr>sessions := (sessions sm)[a := s'], sm_ctr := idCounter s'\<rparr>"
  have run: "run_session a ?f ?u = Inr ((), ?m)" by (simp add: run_session_def u s'(1))
  have "mgr_inv ?m"
  proof -
    have ck: "clientKey ((sessions sm)[a := s'] ! i) = clientKey (sessions sm ! i)" for i
      using s'(3) assms(2) by (cases "i = a") simp_all
    have "\<forall>s\<in>set ((sessions sm)[a := s']). sess_inv s"
      using assms(1) s'(2) by (auto simp: mgr_inv_def dest: subsetD [OF set_update_subset_insert])
    then show ?thesis using unlist_inv [OF assms(1), of a] by (simp add: mgr_inv_def u ck)
  qed
  moreover have "keys_of ?m = keys_of ?u"
    by (rule run_session_keys [OF run]) (use assms(2) u s' in simp_all)
  ultimately show ?thesis using run by (intro that [of ?m]) (simp_all add: sm_remove_def)
qed

text \<open>C18: the handler always ends, never panics, and leaves the registry as it was: an agent that is not
  admitted gets the error code of the reason and registers nothing, and a session that was
  served is gone when the handler returns, whatever the agent sent.\<close>

theorem ServeHTTP_restores_registry:
  assumes "mgr_inv sm" "chunks_ok chunk" "walks order"
    and "\<And>k authed. authorizer = Inr (k, authed) \<Longrightarrow> key \<notin> set (keys_of sm k)"
  shows "\<exists>res sm'. ServeHTTP ready authorizer handshake key chunk wsw frames e order sm = Inr (res, sm') \<and>
    mgr_inv sm' \<and> keys_of sm' = keys_of sm \<and>
    (case res of Finished _ _ \<Rightarrow> ready \<and> handshake = None \<and> (\<exists>k. authorizer = Inr (k, True))
     | Responded c _ \<Rightarrow> (c = 503 \<longleftrightarrow> \<not> ready) \<and> (c = 401 \<longrightarrow> (\<exists>k. authorizer = Inr (k, False))))"
proof (cases "ready \<and> handshake = None \<and> (\<exists>k. authorizer = Inr (k, True))")
  case False
  then show ?thesis using assms(1)
    by (cases ready; cases authorizer; cases handshake) (auto simp: ServeHTTP_def)
next
  case True
  then obtain k where k: "authorizer = Inr (k, True)" by blast
  obtain a sm1 where add: "sm_add k key sm = (a, sm1)" by fastforce
  have sm1: "mgr_inv sm1" "a < length (sessions sm1)"
    using sm_add_inv [OF assms(1), of k key] add by (auto simp: sm_add_def Let_def)
  let ?s = "(sessions sm1 ! a)\<lparr>idCounter := sm_ctr sm1\<rparr>"
  have "sess_inv ?s" using sm1 by (auto simp: mgr_inv_def)
  then obtain code err s' where s': "serve chunk wsw frames e ?s = Inr ((code, err), s')" "sess_inv s'"
    "clientKey s' = clientKey ?s" "sessionKey s' = sessionKey ?s"
    by (rule serve_ok [OF assms(2), where wsw = wsw and frames = frames and e = e])
  let ?sm2 = "sm1\<lparr>sessions := (sessions sm1)[a := s'], sm_ctr := idCounter s'\<rparr>"
  have run: "run_session a (serve chunk wsw frames e) sm1 = Inr ((code, err), ?sm2)"
    by (simp add: run_session_def s'(1))
  have sm2: "mgr_inv ?sm2" "a < length (sessions ?sm2)"
  proof -
    show "mgr_inv ?sm2"
      by (rule run_session_inv(1) [OF sm1(1) run sm1(2)])
        (metis assms(2) serve_ok Inr_inject old.prod.inject)
  qed (use sm1(2) in simp)
  have keys2: "keys_of ?sm2 = keys_of sm1"
    by (rule run_session_keys [OF run sm1(2)]) (use s' in simp)
  have cl: "clientKey (sessions ?sm2 ! a) = clientKey (sessions sm1 ! a)"
    "sessionKey (sessions ?sm2 ! a) = sessionKey (sessions sm1 ! a)"
    using s'(3,4) sm1(2) by simp_all
  obtain sm3 where sm3: "sm_remove wsw (order (sessions ?sm2 ! a)) a ?sm2 = Inr sm3" "mgr_inv sm3"
    "keys_of sm3 = keys_of (unlist a ?sm2)"
    by (rule sm_remove_ok [OF sm2]) (use walks_frame [OF assms(3) s'(2)] sm1(2) in simp_all)
  have "keys_of (unlist a ?sm2) = keys_of (unlist a sm1)"
    by (simp only: keys_of_unlist keys2 cl)
  then have "keys_of sm3 = keys_of sm"
    using manager.insert_discard [OF assms(1) add assms(4) [OF k]] sm3(3) by simp
  moreover have "ServeHTTP ready authorizer handshake key chunk wsw frames e order sm =
      Inr (Finished code err, sm3)"
    using True k add run sm3(1) by (simp add: ServeHTTP_def)
  ultimately show ?thesis using sm3(2) True k by auto
qed

theorem ServeHTTP_restores_registry_witness:
  "\<exists>res sm'. ServeHTTP True (Inr (''agent'', True)) None 7 whole (\<lambda>_ _. None)
       [(2, [2, 4, 2, 0, 104, 105], EOF)] EOF ascending (newSessionManager 0) = Inr (res, sm') \<and>
     keys_of sm' = keys_of (newSessionManager 0)"
proof -
  have "7 \<notin> set (keys_of (newSessionManager 0) k)" for k
    by (simp add: keys_of_def of_client_def newSessionManager_def)
  from ServeHTTP_restores_registry [OF newSessionManager_inv whole_ok ascending_walks this, where
      authorizer = "Inr (''agent'', True)" and ready = True and handshake = None and wsw = "\<lambda>_ _. None" and
      frames = "[(2, [2, 4, 2, 0, 104, 105], EOF)]" and e = EOF]
  show ?thesis by blast
qed

text \<open>When the session that serves a client goes away, the client's next oldest session takes
  over: dialling keeps working and uses it.\<close>

theorem remove_fails_over:
  assumes "mgr_inv sm" "keys_of sm k = x # y # ys" "x \<noteq> y" "getByClient k sm = Inr a" "walks order"
  shows "\<exists>sm' b. sm_remove wsw (order (sessions sm ! a)) a sm = Inr sm' \<and> getByClient k sm' = Inr b \<and>
    sessionKey (sessions sm' ! b) = y \<and> HasSession k sm'"
proof -
  have a: "a < length (sessions sm)"
    using assms(4) mgr_inv_of_client [OF assms(1), of a k] by (auto simp: getByClient_def split: list.splits)
  then have "sess_inv (sessions sm ! a)" using assms(1) by (simp add: mgr_inv_def)
  then obtain sm' where sm': "sm_remove wsw (order (sessions sm ! a)) a sm = Inr sm'" "mgr_inv sm'"
    "keys_of sm' = keys_of (unlist a sm)"
    using sm_remove_ok [OF assms(1) a walks_frame [OF assms(5)]] by metis
  have "sessionKey (sessions sm ! a) = x" "clientKey (sessions sm ! a) = k"
    using manager.lookup_some [OF assms(1,2)] assms(4) by auto
  then have "keys_of sm' k = y # filter (\<lambda>z. z \<noteq> x) ys"
    using sm'(3) assms(2,3) by (simp add: keys_of_unlist)
  from manager.lookup_some [OF sm'(2) this] sm'(1) show ?thesis by (auto simp: HasSession_def)
qed

theorem remove_fails_over_witness:
  "let sm = snd (sm_add ''c'' 2 (snd (sm_add ''c'' 1 (newSessionManager 0)))) in
   \<exists>sm' b. sm_remove (\<lambda>_ _. None) (ascending (sessions sm ! 0)) 0 sm = Inr sm' \<and> getByClient ''c'' sm' = Inr b \<and>
     sessionKey (sessions sm' ! b) = 2"
proof -
  let ?sm = "snd (sm_add ''c'' 2 (snd (sm_add ''c'' 1 (newSessionManager 0))))"
  have "mgr_inv ?sm" by (simp add: sm_add_inv)
  moreover have "keys_of ?sm ''c'' = [1, 2]" "getByClient ''c'' ?sm = Inr 0"
    by (simp_all add: keys_of_def of_client_def sm_add_def newSessionManager_def newSession_def getByClient_def Let_def)
  ultimately show ?thesis
    using remove_fails_over [of ?sm "''c''" 1 2 "[]" 0 ascending "\<lambda>_ _. None"] ascending_walks
    by (simp add: Let_def) blast
qed

end
