(* ===== verification/TaskEngine.thy ===== *)
theory TaskEngine
  imports Prelude
begin

text \<open>
  The task engine that drives the long-running operations of src/pkg/tasks, as the vendored
  taskman package (src/vendor/yunion.io/x/onecloud/pkg/cloudcommon/db/taskman) runs it: a task
  has a stage, the name of the method to call next; a stage ends when its local job returns or
  when all child tasks that were started in it have reported; the method of the stage, or the
  one with the suffix \<open>Failed\<close>, is then called with the result. The world of a task is
  the task itself and the object it works on (for a batch, the identifiers of those deleted;
  for a federated resource, the clusters that were called and with what result). A failed database update is not modelled.
  The locale \<open>staged\<close> states when a task is sure to end, with exactly one report to its parent.
\<close>

datatype wait =
    WLocal
  | WChild string string

text \<open>\<open>WChild stage name\<close>: the child task \<open>name\<close> started in \<open>stage\<close>.\<close>

record world =
  Stage :: string
  waiting :: "wait list"
  notified :: "bool list"
  failed_reason :: "(string \<times> string) list"
  obj_status :: string
  status_reason :: string
  obj_deleted :: bool
  obj_enabled :: bool
  deleted_ids :: "string list"
  calls :: "(string \<times> string option) list"
  logs :: "(string \<times> bool) list"

definition TASK_INIT_STAGE :: string where "TASK_INIT_STAGE = ''on_init''"
definition TASK_STAGE_FAILED :: string where "TASK_STAGE_FAILED = ''failed''"
definition TASK_STAGE_COMPLETE :: string where "TASK_STAGE_COMPLETE = ''complete''"

lemmas task_stages = TASK_INIT_STAGE_def TASK_STAGE_FAILED_def TASK_STAGE_COMPLETE_def

definition SetStage :: "string \<Rightarrow> world \<Rightarrow> world" where
  "SetStage s w = w\<lparr>Stage := s\<rparr>"

text \<open>\<open>notified\<close> holds the reports to the parent, \<open>True\<close> for a failure.\<close>

definition SetStageComplete :: "world \<Rightarrow> world" where
  "SetStageComplete w = w\<lparr>Stage := TASK_STAGE_COMPLETE, notified := notified w @ [False]\<rparr>"

definition SetStageFailed :: "string \<Rightarrow> world \<Rightarrow> world" where
  "SetStageFailed reason w =
     (if Stage w = TASK_STAGE_FAILED then w
      else w\<lparr>failed_reason := failed_reason w @ [(Stage w, reason)],
             Stage := TASK_STAGE_FAILED, notified := notified w @ [True]\<rparr>)"

definition SetStatus :: "string \<Rightarrow> string \<Rightarrow> world \<Rightarrow> world" where
  "SetStatus s reason w = w\<lparr>obj_status := s, status_reason := reason\<rparr>"

definition LogWithStartable :: "string \<Rightarrow> bool \<Rightarrow> world \<Rightarrow> world" where
  "LogWithStartable action ok w = w\<lparr>logs := logs w @ [(action, ok)]\<rparr>"

definition LocalTaskRun :: "world \<Rightarrow> world" where
  "LocalTaskRun w = w\<lparr>waiting := waiting w @ [WLocal]\<rparr>"

text \<open>\<open>NewTask\<close> and \<open>ScheduleRun\<close> of a child; nothing is started when \<open>NewTask\<close> fails.\<close>

definition start_child :: "string \<Rightarrow> string option \<Rightarrow> world \<Rightarrow> world" where
  "start_child name err w =
     (if err = None then w\<lparr>waiting := waiting w @ [WChild (Stage w) name]\<rparr> else w)"

lemma start_child_Some [simp]: "start_child name (Some e) w = w"
  by (simp add: start_child_def)

section \<open>Running stages\<close>

type_synonym handler = "string \<Rightarrow> world \<Rightarrow> world"
type_synonym methods = "string \<times> bool \<rightharpoonup> handler"

text \<open>The methods of a task by stage and outcome: the method of the stage, or, with \<open>True\<close>, the one
  with the suffix \<open>Failed\<close>. The stage \<open>on_init\<close> is found as \<open>OnInit\<close>, after the change to camel
  case.\<close>

definition method_of :: "string \<Rightarrow> string" where
  "method_of s = (if s = TASK_INIT_STAGE then ''OnInit'' else s)"

definition execITask :: "methods \<Rightarrow> bool \<Rightarrow> string \<Rightarrow> world \<Rightarrow> world" where
  "execITask ms failed data w =
     (case ms (method_of (Stage w), failed) of
        Some h \<Rightarrow> h data w
      | None \<Rightarrow> SetStageFailed (if failed then data else ''Stage '' @ Stage w @ '' not found'') w)"

text \<open>The job of a stage: its error, and its effect on the object.\<close>

type_synonym job = "string \<Rightarrow> world \<Rightarrow> string option \<times> world"

definition local_done :: "methods \<Rightarrow> job \<Rightarrow> world \<Rightarrow> world" where
  "local_done ms job w =
     (let (err, w1) = job (Stage w) (w\<lparr>waiting := remove1 WLocal (waiting w)\<rparr>) in
      case err of
        Some e \<Rightarrow> execITask ms True e w1
      | None \<Rightarrow> execITask ms False [] w1)"

text \<open>A child reports; the parent runs when it was the last of those of its current stage, with
  the report of this child only.\<close>

definition pending_children :: "string \<Rightarrow> wait list \<Rightarrow> wait list" where
  "pending_children s ws = filter (\<lambda>x. case x of WLocal \<Rightarrow> False | WChild t _ \<Rightarrow> t = s) ws"

definition child_done :: "methods \<Rightarrow> string \<Rightarrow> string \<Rightarrow> bool \<Rightarrow> string \<Rightarrow> world \<Rightarrow> world" where
  "child_done ms s name failed data w =
     (let w1 = w\<lparr>waiting := remove1 (WChild s name) (waiting w)\<rparr> in
      if s = Stage w1 \<and> pending_children s (waiting w1) = [] then execITask ms failed data w1
      else w1)"

definition new_task :: "string \<Rightarrow> world" where
  "new_task st = \<lparr>Stage = TASK_INIT_STAGE, waiting = [], notified = [], failed_reason = [],
     obj_status = st, status_reason = [], obj_deleted = False, obj_enabled = True, deleted_ids = [], calls = [], logs = []\<rparr>"

text \<open>A run: the task is called once, then whatever it waits for reports, in the order of
  \<open>waiting\<close>, with the results \<open>rs\<close> for the children.\<close>

fun resume :: "methods \<Rightarrow> job \<Rightarrow> (bool \<times> string) list \<Rightarrow> world \<Rightarrow> world" where
  "resume ms job [] w = w"
| "resume ms job ((failed, data) # rs) w =
     (case waiting w of
        [] \<Rightarrow> w
      | WLocal # _ \<Rightarrow> resume ms job rs (local_done ms job w)
      | WChild s name # _ \<Rightarrow> resume ms job rs (child_done ms s name failed data w))"

definition run_task :: "methods \<Rightarrow> job \<Rightarrow> (bool \<times> string) list \<Rightarrow> world \<Rightarrow> world" where
  "run_task ms job rs w = resume ms job rs (execITask ms False [] w)"

section \<open>Tasks that end\<close>

text \<open>The rank of a stage in the order a task goes through its methods.\<close>

definition rank_in :: "string list \<Rightarrow> string \<Rightarrow> nat" where
  "rank_in order s = length (dropWhile (\<lambda>x. x \<noteq> method_of s) order)"

definition finished :: "world \<Rightarrow> bool" where
  "finished w \<longleftrightarrow> waiting w = [] \<and>
     (Stage w = TASK_STAGE_COMPLETE \<and> notified w = [False] \<or>
      Stage w = TASK_STAGE_FAILED \<and> notified w = [True])"

text \<open>A task that is not over and waits for nothing: no report reaches it any more.\<close>

definition stuck :: "world \<Rightarrow> bool" where
  "stuck w \<longleftrightarrow> waiting w = [] \<and> notified w = [] \<and> Stage w \<notin> {TASK_STAGE_COMPLETE, TASK_STAGE_FAILED}"

lemma stuck_stays: "stuck w \<Longrightarrow> resume ms job rs w = w"
  by (cases rs) (auto simp: stuck_def)

text \<open>A task in a stage of rank \<open>n\<close> that waits for one thing, and has not reported.\<close>

definition running :: "(string \<Rightarrow> nat) \<Rightarrow> nat \<Rightarrow> world \<Rightarrow> bool" where
  "running rank n w \<longleftrightarrow> notified w = [] \<and> Stage w \<noteq> TASK_STAGE_FAILED \<and> rank (Stage w) < n \<and>
     (waiting w = [WLocal] \<or> (\<exists>name. waiting w = [WChild (Stage w) name]))"

text \<open>Between two methods of a task: it has not reported and waits for nothing.\<close>

definition idle :: "world \<Rightarrow> bool" where
  "idle w \<longleftrightarrow> notified w = [] \<and> waiting w = [] \<and> Stage w \<noteq> TASK_STAGE_FAILED"

lemmas engine_defs = SetStage_def SetStageComplete_def SetStageFailed_def SetStatus_def
  LogWithStartable_def LocalTaskRun_def start_child_def

text \<open>A method moves a task on from a stage of rank \<open>n\<close>: it ends it in a good state, or takes it to
  another stage of \<open>body\<close> of smaller rank.\<close>

definition moves :: "(string \<Rightarrow> nat) \<Rightarrow> string set \<Rightarrow> (world \<Rightarrow> bool) \<Rightarrow> nat \<Rightarrow> world \<Rightarrow> bool" where
  "moves rank body good n w \<longleftrightarrow> finished w \<and> good w \<or> running rank n w \<and> Stage w \<in> body"

lemma moves_running:
  "idle w \<Longrightarrow> s \<noteq> TASK_STAGE_FAILED \<Longrightarrow> rank s < n \<Longrightarrow> s \<in> body \<Longrightarrow>
    moves rank body good n (LocalTaskRun (SetStage s w))"
  "idle w \<Longrightarrow> s \<noteq> TASK_STAGE_FAILED \<Longrightarrow> rank s < n \<Longrightarrow> s \<in> body \<Longrightarrow>
    moves rank body good n (start_child c None (SetStage s w))"
  "idle w \<Longrightarrow> s \<noteq> TASK_STAGE_FAILED \<Longrightarrow> rank s < n \<Longrightarrow> s \<in> body \<Longrightarrow>
    moves rank body good n (LocalTaskRun (SetStatus a b (SetStage s w)))"
  by (auto simp: moves_def running_def idle_def engine_defs)

lemma finished_intros:
  "idle w \<Longrightarrow> finished (SetStageComplete w)"
  "idle w \<Longrightarrow> finished (SetStageFailed r w)"
  "finished w \<Longrightarrow> finished (LogWithStartable a b w)"
  by (auto simp: finished_def idle_def engine_defs task_stages)

lemma moves_finished:
  "idle w \<Longrightarrow> good (SetStageComplete w) \<Longrightarrow> moves rank body good n (SetStageComplete w)"
  "idle w \<Longrightarrow> good (SetStageFailed r w) \<Longrightarrow> moves rank body good n (SetStageFailed r w)"
  "finished w \<Longrightarrow> good (LogWithStartable a b w) \<Longrightarrow> moves rank body good n (LogWithStartable a b w)"
  by (auto simp: moves_def finished_intros)

lemma idle_intros:
  "idle w \<Longrightarrow> s \<noteq> TASK_STAGE_FAILED \<Longrightarrow> idle (SetStage s w)"
  "idle w \<Longrightarrow> idle (SetStatus a b w)"
  "idle w \<Longrightarrow> idle (LogWithStartable a' b' w)"
  "idle w \<Longrightarrow> idle (w\<lparr>obj_deleted := d\<rparr>)"
  "idle w \<Longrightarrow> idle (w\<lparr>obj_enabled := d\<rparr>)"
  by (auto simp: idle_def engine_defs)

text \<open>A failed task marks its object with the status \<open>st\<close> and logs the action \<open>act\<close> as failed.\<close>

definition marked :: "string \<Rightarrow> string \<Rightarrow> world \<Rightarrow> bool" where
  "marked st act w \<longleftrightarrow>
     (Stage w = TASK_STAGE_FAILED \<longrightarrow> obj_status w = st \<and> logs w \<noteq> [] \<and> last (logs w) = (act, False))"

lemma marked_intros:
  "marked st act (SetStageComplete w)"
  "marked st act (LogWithStartable act False (SetStageFailed r (SetStatus st r' w)))"
  "marked st act (LogWithStartable a b (SetStageComplete w))"
  by (auto simp: marked_def engine_defs task_stages)

text \<open>Tasks that write no log, or set no status, when they fail.\<close>

definition status_marked :: "string \<Rightarrow> world \<Rightarrow> bool" where
  "status_marked st w \<longleftrightarrow> (Stage w = TASK_STAGE_FAILED \<longrightarrow> obj_status w = st)"

lemma status_marked_intros:
  "status_marked st (SetStageComplete w)"
  "status_marked st (SetStageFailed r (SetStatus st r' w))"
  "status_marked st w \<Longrightarrow> status_marked st (LogWithStartable a b w)"
  by (auto simp: status_marked_def engine_defs task_stages)

definition log_marked :: "string \<Rightarrow> world \<Rightarrow> bool" where
  "log_marked act w \<longleftrightarrow> (Stage w = TASK_STAGE_FAILED \<longrightarrow> logs w \<noteq> [] \<and> last (logs w) = (act, False))"

lemma log_marked_intros:
  "log_marked act (SetStageComplete w)"
  "log_marked act (LogWithStartable act False w)"
  "log_marked act (LogWithStartable a b (SetStageComplete w))"
  by (auto simp: log_marked_def engine_defs task_stages)

lemmas task_intros = moves_running moves_finished finished_intros idle_intros marked_intros
  status_marked_intros log_marked_intros
lemmas rank_defs = rank_in_def method_of_def task_stages

text \<open>
  The interface of a staged task: called in one of its stages, with either outcome of what it
  waited for, it ends the task in a good state or moves on to a stage of smaller rank and waits
  there for one thing; its jobs touch the object only.
\<close>

locale staged =
  fixes ms :: methods and job :: job and rank :: "string \<Rightarrow> nat"
    and body :: "string set" and good :: "world \<Rightarrow> bool"
  assumes init_moves: "idle w \<Longrightarrow> Stage w = TASK_INIT_STAGE \<Longrightarrow>
      moves rank body good (rank TASK_INIT_STAGE) (execITask ms False data w)"
    and stage_moves: "Stage w \<in> body \<Longrightarrow> idle w \<Longrightarrow>
      moves rank body good (rank (Stage w)) (execITask ms failed data w)"
    and job_object: "job s w = (err, w1) \<Longrightarrow>
      Stage w1 = Stage w \<and> waiting w1 = waiting w \<and> notified w1 = notified w"
begin

lemma report_moves:
  assumes "running rank n w" "Stage w \<in> body"
  shows "\<exists>w'. resume ms job ((failed, data) # rs) w = resume ms job rs w' \<and>
    moves rank body good (rank (Stage w)) w'"
proof -
  from assms have w: "notified w = []" "Stage w \<noteq> TASK_STAGE_FAILED" by (auto simp: running_def)
  from assms consider "waiting w = [WLocal]" | name where "waiting w = [WChild (Stage w) name]"
    by (auto simp: running_def)
  then show ?thesis
  proof cases
    case 1
    obtain err w1 where j: "job (Stage w) (w\<lparr>waiting := []\<rparr>) = (err, w1)" by fastforce
    with job_object [OF j] w have "idle w1" "Stage w1 = Stage w" by (auto simp: idle_def)
    then show ?thesis using stage_moves [of w1] assms(2) 1 j
      by (auto simp: local_done_def split: option.splits)
  next
    case 2
    then have "idle (w\<lparr>waiting := []\<rparr>)" using w by (simp add: idle_def)
    then show ?thesis using stage_moves [of "w\<lparr>waiting := []\<rparr>"] assms(2) 2
      by (auto simp: child_done_def pending_children_def)
  qed
qed

lemma finished_stays: "finished w \<Longrightarrow> resume ms job rs w = w"
  by (cases rs) (auto simp: finished_def)

lemma resume_ends:
  assumes "running rank n w" "Stage w \<in> body" "n \<le> length rs"
  shows "finished (resume ms job rs w) \<and> good (resume ms job rs w)"
  using assms
proof (induction n arbitrary: w rs rule: less_induct)
  case (less n)
  then have lt: "rank (Stage w) < n" by (simp add: running_def)
  with less.prems(3) obtain r rs' where rs: "rs = r # rs'" by (cases rs) auto
  obtain failed data where r: "r = (failed, data)" by (cases r)
  obtain w' where w': "resume ms job rs w = resume ms job rs' w'"
      "finished w' \<and> good w' \<or> running rank (rank (Stage w)) w' \<and> Stage w' \<in> body"
    using report_moves [OF less.prems(1,2), of failed data rs'] rs r by (auto simp: moves_def)
  show ?case
  proof (cases "finished w' \<and> good w'")
    case True
    then show ?thesis using w'(1) finished_stays by simp
  next
    case False
    with w' less.IH [OF lt, of w' rs'] lt rs less.prems(3) show ?thesis by simp
  qed
qed

text \<open>Whatever its jobs and children report, the task ends, in a good state, and reports once.\<close>

lemma task_ends:
  assumes "rank TASK_INIT_STAGE \<le> length rs"
  shows "finished (run_task ms job rs (new_task st)) \<and> good (run_task ms job rs (new_task st))"
proof -
  have "idle (new_task st)" "Stage (new_task st) = TASK_INIT_STAGE"
    by (simp_all add: idle_def new_task_def task_stages)
  from init_moves [OF this, of "[]"] show ?thesis
    unfolding run_task_def moves_def using resume_ends assms finished_stays by metis
qed

end

end
