(* ===== verification/ClusterTasks.thy ===== *)
theory ClusterTasks
  imports TaskEngine
begin

text \<open>
  The tasks of clusters and of the resources in them, src/pkg/tasks/cluster_*.go. What the
  handlers get from the database, the cluster drivers and Kubernetes is an environment record of
  each task: an error text or \<open>None\<close> for a call that can fail. A handler takes the data of the
  report it is called with, rendered as text, and the world.
\<close>

type_synonym err = "string option"

definition ClusterStatusInit :: string where "ClusterStatusInit = ''init''"
definition ClusterStatusCreateFail :: string where "ClusterStatusCreateFail = ''create_fail''"
definition ClusterStatusCreateMachineFail :: string where "ClusterStatusCreateMachineFail = ''create_machine_fail''"
definition ClusterStatusRunning :: string where "ClusterStatusRunning = ''running''"
definition ClusterStatusUnknown :: string where "ClusterStatusUnknown = ''unknown''"
definition ClusterStatusError :: string where "ClusterStatusError = ''error''"
definition ClusterStatusDeleting :: string where "ClusterStatusDeleting = ''deleting''"
definition ClusterStatusDeleteFail :: string where "ClusterStatusDeleteFail = ''delete_fail''"

definition SetObjectTaskFailed :: "string \<Rightarrow> string \<Rightarrow> world \<Rightarrow> world" where
  "SetObjectTaskFailed st reason w =
     SetStageFailed reason (if st \<noteq> [] then SetStatus st reason w else w)"

section \<open>ClusterApplyAddonsTask\<close>

record ApplyAddonsEnv =
  aa_kubeconfig :: err
  aa_client :: err
  aa_manifest :: "string + string"
  aa_apply :: err

definition ApplyAddons :: "ApplyAddonsEnv \<Rightarrow> err" where
  "ApplyAddons env =
     (if aa_kubeconfig env \<noteq> None then aa_kubeconfig env
      else if aa_client env \<noteq> None then aa_client env
      else case aa_manifest env of
             Inl e \<Rightarrow> Some e
           | Inr manifest \<Rightarrow> if length manifest = 0 then None else aa_apply env)"

definition ApplyAddons_OnError :: "string \<Rightarrow> world \<Rightarrow> world" where
  "ApplyAddons_OnError e w = LogWithStartable ''cluster_apply_addons'' False (SetStageFailed e w)"

definition ApplyAddons_OnInit :: handler where
  "ApplyAddons_OnInit data w = LocalTaskRun (SetStage ''OnApplyAddons'' w)"

definition OnApplyAddons :: handler where
  "OnApplyAddons data w = SetStageComplete (LogWithStartable ''cluster_apply_addons'' True w)"

definition OnApplyAddonsFailed :: handler where
  "OnApplyAddonsFailed data w = ApplyAddons_OnError data w"

definition ClusterApplyAddonsTask :: methods where
  "ClusterApplyAddonsTask = map_of
     [((''OnInit'', False), ApplyAddons_OnInit),
      ((''OnApplyAddons'', False), OnApplyAddons),
      ((''OnApplyAddons'', True), OnApplyAddonsFailed)]"

definition ClusterApplyAddonsTask_job :: "ApplyAddonsEnv \<Rightarrow> job" where
  "ClusterApplyAddonsTask_job env s w = (ApplyAddons env, w)"

section \<open>ClusterCreateMachinesTask\<close>

record CreateMachineData =
  cm_Name :: string
  cm_ClusterId :: string
  cm_Role :: string
  cm_ResourceType :: string
  cm_ResourceId :: string

definition bind_machines :: "string \<Rightarrow> CreateMachineData list \<Rightarrow> CreateMachineData list" where
  "bind_machines clusterId ms = map (\<lambda>m. m\<lparr>cm_ClusterId := clusterId\<rparr>) ms"

text \<open>The drivers of clusters: the base driver does nothing when machines are requested, the
  cluster API driver runs them.\<close>

datatype cluster_driver = BaseDriver | ClusterAPIDriver

record CreateMachinesEnv =
  cms_clusterId :: string
  cms_machines :: "string + CreateMachineData list"
  cms_driver :: cluster_driver
  cms_create :: err
  cms_deploy :: err

definition CreateMachinesTask_getMachines :: "CreateMachinesEnv \<Rightarrow> string + CreateMachineData list" where
  "CreateMachinesTask_getMachines env =
     (case cms_machines env of
        Inl e \<Rightarrow> Inl e
      | Inr ms \<Rightarrow> Inr (bind_machines (cms_clusterId env) ms))"

definition RequestDeployMachines :: "cluster_driver \<Rightarrow> world \<Rightarrow> err \<times> world" where
  "RequestDeployMachines d w = (None, case d of BaseDriver \<Rightarrow> w | ClusterAPIDriver \<Rightarrow> LocalTaskRun w)"

definition CreateMachines :: "CreateMachinesEnv \<Rightarrow> world \<Rightarrow> err \<times> world" where
  "CreateMachines env w =
     (if cms_create env \<noteq> None then (cms_create env, w) else RequestDeployMachines (cms_driver env) w)"

definition CreateMachinesTask_onError :: "string \<Rightarrow> world \<Rightarrow> world" where
  "CreateMachinesTask_onError e w =
     LogWithStartable ''cluster_create_machines'' False (SetObjectTaskFailed ClusterStatusCreateMachineFail e w)"

definition CreateMachinesTask_OnInit :: "CreateMachinesEnv \<Rightarrow> handler" where
  "CreateMachinesTask_OnInit env data w =
     (case CreateMachinesTask_getMachines env of
        Inl e \<Rightarrow> CreateMachinesTask_onError e w
      | Inr ms \<Rightarrow>
          (case CreateMachines env (SetStage ''OnMachinesCreated'' w) of
             (Some e, w1) \<Rightarrow> CreateMachinesTask_onError e w1
           | (None, w1) \<Rightarrow> w1))"

definition CreateMachinesTask_OnMachinesCreated :: handler where
  "CreateMachinesTask_OnMachinesCreated data w =
     SetStageComplete (LogWithStartable ''cluster_create_machines'' True w)"

definition CreateMachinesTask_OnMachinesCreatedFailed :: handler where
  "CreateMachinesTask_OnMachinesCreatedFailed data w = CreateMachinesTask_onError data w"

definition ClusterCreateMachinesTask :: "CreateMachinesEnv \<Rightarrow> methods" where
  "ClusterCreateMachinesTask env = map_of
     [((''OnInit'', False), CreateMachinesTask_OnInit env),
      ((''OnMachinesCreated'', False), CreateMachinesTask_OnMachinesCreated),
      ((''OnMachinesCreated'', True), CreateMachinesTask_OnMachinesCreatedFailed)]"

definition ClusterCreateMachinesTask_job :: "CreateMachinesEnv \<Rightarrow> job" where
  "ClusterCreateMachinesTask_job env s w = (cms_deploy env, w)"

section \<open>ClusterCreateTask\<close>

record ClusterCreateEnv =
  cc_needCreateMachines :: bool
  cc_clusterId :: string
  cc_machines :: "string + CreateMachineData list"
  cc_input :: err
  cc_certificates :: err
  cc_startCreateMachines :: err
  cc_startApplyAddons :: err
  cc_startSyncStatus :: err
  cc_startSync :: err

definition ClusterCreate_getMachines :: "ClusterCreateEnv \<Rightarrow> string + CreateMachineData list" where
  "ClusterCreate_getMachines env =
     (if \<not> cc_needCreateMachines env then Inr []
      else case cc_machines env of
             Inl e \<Rightarrow> Inl e
           | Inr ms \<Rightarrow> Inr (bind_machines (cc_clusterId env) ms))"

definition ClusterCreate_SetFailed :: "string \<Rightarrow> world \<Rightarrow> world" where
  "ClusterCreate_SetFailed reason w =
     LogWithStartable ''cluster_create'' False
       (SetStageFailed reason (SetStatus ClusterStatusCreateFail reason w))"

definition ClusterCreate_onError :: "string \<Rightarrow> world \<Rightarrow> world" where
  "ClusterCreate_onError e w = ClusterCreate_SetFailed e w"

definition ClusterCreate_CreateMachines :: "ClusterCreateEnv \<Rightarrow> world \<Rightarrow> world" where
  "ClusterCreate_CreateMachines env w =
     (case ClusterCreate_getMachines env of
        Inl e \<Rightarrow> ClusterCreate_onError e w
      | Inr ms \<Rightarrow>
          start_child ''ClusterCreateMachinesTask'' (cc_startCreateMachines env)
            (SetStage ''OnMachinesCreated'' w))"

definition ClusterCreate_OnMachinesCreated :: "ClusterCreateEnv \<Rightarrow> handler" where
  "ClusterCreate_OnMachinesCreated env data w =
     start_child ''ClusterApplyAddonsTask'' (cc_startApplyAddons env) (SetStage ''OnApplyAddonsComplete'' w)"

definition ClusterCreate_OnApplyAddonsComplete :: "ClusterCreateEnv \<Rightarrow> handler" where
  "ClusterCreate_OnApplyAddonsComplete env data w =
     start_child ''ClusterSyncstatusTask'' (cc_startSyncStatus env) (SetStage ''OnSyncStatusComplete'' w)"

definition ClusterCreate_OnInit :: "ClusterCreateEnv \<Rightarrow> handler" where
  "ClusterCreate_OnInit env data w =
     (case ClusterCreate_getMachines env of
        Inl e \<Rightarrow> ClusterCreate_onError e w
      | Inr ms \<Rightarrow>
          if length ms = 0 then ClusterCreate_OnApplyAddonsComplete env data w
          else case cc_input env of
                 Some e \<Rightarrow> ClusterCreate_onError (''Unmarshal: '' @ e) w
               | None \<Rightarrow>
                   (case cc_certificates env of
                      Some e \<Rightarrow> ClusterCreate_onError (''GenerateCertificates: '' @ e) w
                    | None \<Rightarrow> ClusterCreate_CreateMachines env w))"

definition ClusterCreate_OnSyncStatusComplete :: "ClusterCreateEnv \<Rightarrow> handler" where
  "ClusterCreate_OnSyncStatusComplete env data w =
     (let w1 = start_child ''ClusterSyncTask'' (cc_startSync env) (SetStage ''OnSyncComplete'' w) in
      case cc_startSync env of
        Some e \<Rightarrow> ClusterCreate_SetFailed e w1
      | None \<Rightarrow> w1)"

definition ClusterCreate_OnSyncComplete :: handler where
  "ClusterCreate_OnSyncComplete data w = SetStageComplete (LogWithStartable ''cluster_create'' True w)"

definition ClusterCreateTask :: "ClusterCreateEnv \<Rightarrow> methods" where
  "ClusterCreateTask env = map_of
     [((''OnInit'', False), ClusterCreate_OnInit env),
      ((''OnMachinesCreated'', False), ClusterCreate_OnMachinesCreated env),
      ((''OnMachinesCreated'', True), ClusterCreate_SetFailed),
      ((''OnApplyAddonsComplete'', False), ClusterCreate_OnApplyAddonsComplete env),
      ((''OnApplyAddonsComplete'', True), ClusterCreate_SetFailed),
      ((''OnSyncStatusComplete'', False), ClusterCreate_OnSyncStatusComplete env),
      ((''OnSyncStatusComplete'', True), ClusterCreate_SetFailed),
      ((''OnSyncComplete'', False), ClusterCreate_OnSyncComplete),
      ((''OnSyncComplete'', True), ClusterCreate_SetFailed)]"

text \<open>No stage of it runs a local job.\<close>

definition no_job :: job where "no_job s w = (None, w)"

section \<open>ClusterDeleteMachinesTask\<close>

record DeleteMachinesEnv =
  dm_machines :: "string + string list"
  dm_fetch :: "string \<Rightarrow> err"
  dm_driver :: cluster_driver
  dm_startBatchDelete :: err
  dm_startSyncStatus :: err

fun fetch_all :: "(string \<Rightarrow> err) \<Rightarrow> string list \<Rightarrow> string + string list" where
  "fetch_all f [] = Inr []"
| "fetch_all f (i # is) =
     (case f i of
        Some e \<Rightarrow> Inl e
      | None \<Rightarrow> (case fetch_all f is of Inl e \<Rightarrow> Inl e | Inr ms \<Rightarrow> Inr (i # ms)))"

definition getDeleteMachines :: "DeleteMachinesEnv \<Rightarrow> string + string list" where
  "getDeleteMachines env =
     (case dm_machines env of Inl e \<Rightarrow> Inl e | Inr ids \<Rightarrow> fetch_all (dm_fetch env) ids)"

definition RequestDeleteMachines :: "cluster_driver \<Rightarrow> err \<Rightarrow> world \<Rightarrow> err \<times> world" where
  "RequestDeleteMachines d start w =
     (case d of
        BaseDriver \<Rightarrow> (None, w)
      | ClusterAPIDriver \<Rightarrow> (start, start_child ''MachineBatchDeleteTask'' start w))"

definition DeleteMachines_OnError :: "string \<Rightarrow> world \<Rightarrow> world" where
  "DeleteMachines_OnError e w =
     LogWithStartable ''cluster_delete_machine'' False (SetStageFailed e (SetStatus ClusterStatusError e w))"

definition DeleteMachines_OnInit :: "DeleteMachinesEnv \<Rightarrow> handler" where
  "DeleteMachines_OnInit env data w =
     (case getDeleteMachines env of
        Inl e \<Rightarrow> DeleteMachines_OnError e w
      | Inr ms \<Rightarrow>
          (case RequestDeleteMachines (dm_driver env) (dm_startBatchDelete env) (SetStage ''OnDeleteMachines'' w) of
             (Some e, w1) \<Rightarrow> DeleteMachines_OnError e w1
           | (None, w1) \<Rightarrow> w1))"

definition OnDeleteMachines :: "DeleteMachinesEnv \<Rightarrow> handler" where
  "OnDeleteMachines env data w =
     (let w1 = LogWithStartable ''cluster_delete_machine'' True w in
      if obj_status w1 = ClusterStatusDeleting then SetStageComplete w1
      else start_child ''ClusterSyncstatusTask'' (dm_startSyncStatus env) (SetStage ''OnSyncStatus'' w1))"

definition OnDeleteMachinesFailed :: handler where
  "OnDeleteMachinesFailed data w = DeleteMachines_OnError data w"

definition DeleteMachines_OnSyncStatus :: handler where
  "DeleteMachines_OnSyncStatus data w = SetStageComplete w"

definition DeleteMachines_OnSyncStatusFailed :: handler where
  "DeleteMachines_OnSyncStatusFailed data w = DeleteMachines_OnError data w"

definition ClusterDeleteMachinesTask :: "DeleteMachinesEnv \<Rightarrow> methods" where
  "ClusterDeleteMachinesTask env = map_of
     [((''OnInit'', False), DeleteMachines_OnInit env),
      ((''OnDeleteMachines'', False), OnDeleteMachines env),
      ((''OnDeleteMachines'', True), OnDeleteMachinesFailed),
      ((''OnSyncStatus'', False), DeleteMachines_OnSyncStatus),
      ((''OnSyncStatus'', True), DeleteMachines_OnSyncStatusFailed)]"

section \<open>ClusterDeleteTask\<close>

record ClusterDeleteEnv =
  cd_machines :: "string + string list"
  cd_startDeleteMachines :: err
  cd_realDelete :: err

definition ClusterDelete_SetFailed :: "string \<Rightarrow> world \<Rightarrow> world" where
  "ClusterDelete_SetFailed reason w =
     LogWithStartable ''cluster_delete'' False (SetStageFailed reason (SetStatus ClusterStatusDeleteFail [] w))"

definition ClusterDelete_onError :: "string \<Rightarrow> world \<Rightarrow> world" where
  "ClusterDelete_onError e w = ClusterDelete_SetFailed e w"

definition OnMachinesDeleted :: "ClusterDeleteEnv \<Rightarrow> handler" where
  "OnMachinesDeleted env data w =
     (case cd_realDelete env of
        Some e \<Rightarrow> ClusterDelete_onError e w
      | None \<Rightarrow> LogWithStartable ''cluster_delete'' True (SetStageComplete (w\<lparr>obj_deleted := True\<rparr>)))"

definition startDeleteMachines :: "ClusterDeleteEnv \<Rightarrow> world \<Rightarrow> err \<times> world" where
  "startDeleteMachines env w =
     (case cd_machines env of
        Inl e \<Rightarrow> (Some (''Get machines: '' @ e), w)
      | Inr ms \<Rightarrow>
          if length ms = 0 then (None, OnMachinesDeleted env [] w)
          else (cd_startDeleteMachines env,
                start_child ''ClusterDeleteMachinesTask'' (cd_startDeleteMachines env)
                  (SetStage ''OnMachinesDeleted'' w)))"

definition ClusterDelete_OnInit :: "ClusterDeleteEnv \<Rightarrow> handler" where
  "ClusterDelete_OnInit env data w =
     (case startDeleteMachines env w of
        (Some e, w1) \<Rightarrow> ClusterDelete_onError e w1
      | (None, w1) \<Rightarrow> w1)"

definition OnMachinesDeletedFailed :: handler where
  "OnMachinesDeletedFailed data w = ClusterDelete_onError data w"

definition ClusterDeleteTask :: "ClusterDeleteEnv \<Rightarrow> methods" where
  "ClusterDeleteTask env = map_of
     [((''OnInit'', False), ClusterDelete_OnInit env),
      ((''OnMachinesDeleted'', False), OnMachinesDeleted env),
      ((''OnMachinesDeleted'', True), OnMachinesDeletedFailed)]"

section \<open>ClusterDeployMachinesTask\<close>

record DeployMachinesEnv =
  dp_ids :: "string + string list"
  dp_fetch :: "string \<Rightarrow> err"
  dp_driver :: cluster_driver
  dp_deploy :: err
  dp_startApplyAddons :: err

definition getAddMachines :: "DeployMachinesEnv \<Rightarrow> string + string list" where
  "getAddMachines env = (case dp_ids env of Inl e \<Rightarrow> Inl e | Inr ids \<Rightarrow> fetch_all (dp_fetch env) ids)"

definition DeployMachines_OnError :: "string \<Rightarrow> world \<Rightarrow> world" where
  "DeployMachines_OnError e w = SetStageFailed e (SetStatus ClusterStatusError e w)"

definition DeployMachines_OnInit :: "DeployMachinesEnv \<Rightarrow> handler" where
  "DeployMachines_OnInit env data w =
     (case getAddMachines env of
        Inl e \<Rightarrow> DeployMachines_OnError e w
      | Inr ms \<Rightarrow>
          (case RequestDeployMachines (dp_driver env) (SetStage ''OnDeployMachines'' w) of
             (Some e, w1) \<Rightarrow> DeployMachines_OnError e w1
           | (None, w1) \<Rightarrow> w1))"

text \<open>The add-ons task is started without a parent, so this task does not wait for it.\<close>

definition OnDeployMachines :: handler where
  "OnDeployMachines data w = SetStageComplete w"

definition OnDeployMachinesFailed :: handler where
  "OnDeployMachinesFailed data w = DeployMachines_OnError data w"

definition ClusterDeployMachinesTask :: "DeployMachinesEnv \<Rightarrow> methods" where
  "ClusterDeployMachinesTask env = map_of
     [((''OnInit'', False), DeployMachines_OnInit env),
      ((''OnDeployMachines'', False), OnDeployMachines),
      ((''OnDeployMachines'', True), OnDeployMachinesFailed)]"

definition ClusterDeployMachinesTask_job :: "DeployMachinesEnv \<Rightarrow> job" where
  "ClusterDeployMachinesTask_job env s w = (dp_deploy env, w)"

section \<open>ClusterSyncTask\<close>

text \<open>\<open>AddClient\<close> of the client manager may say that the cluster is known already.\<close>

datatype add_client = Added | ClusterAlreadyAdded | AddFailed string

record ClusterSyncEnv =
  cs_addClient :: add_client
  cs_syncCall :: err

definition ClusterSync_OnInit :: handler where
  "ClusterSync_OnInit data w = LocalTaskRun (SetStage ''OnSyncComplete'' w)"

definition ClusterSyncTask_job :: "ClusterSyncEnv \<Rightarrow> job" where
  "ClusterSyncTask_job env s w =
     (case cs_addClient env of
        AddFailed e \<Rightarrow> Some (''add cluster to client manager: '' @ e)
      | _ \<Rightarrow> (case cs_syncCall env of Some e \<Rightarrow> Some (''SyncCallSyncTask: '' @ e) | None \<Rightarrow> None),
      w)"

definition ClusterSync_OnSyncComplete :: handler where
  "ClusterSync_OnSyncComplete data w = SetStageComplete (LogWithStartable ''cluster_sync'' True w)"

definition ClusterSync_OnSyncCompleteFailed :: handler where
  "ClusterSync_OnSyncCompleteFailed reason w = LogWithStartable ''cluster_sync'' False (SetStageFailed reason w)"

definition ClusterSyncTask :: methods where
  "ClusterSyncTask = map_of
     [((''OnInit'', False), ClusterSync_OnInit),
      ((''OnSyncComplete'', False), ClusterSync_OnSyncComplete),
      ((''OnSyncComplete'', True), ClusterSync_OnSyncCompleteFailed)]"

section \<open>ClusterSyncstatusTask\<close>

record SyncstatusEnv =
  ss_machinesCount :: "string + int"
  ss_needCreateMachines :: bool
  ss_client :: err
  ss_version :: err
  ss_setStatus :: err

definition Syncstatus_SetFailed :: "string \<Rightarrow> world \<Rightarrow> world" where
  "Syncstatus_SetFailed reason w = SetStageFailed reason (SetStatus ClusterStatusUnknown [] w)"

definition Syncstatus_onError :: "string \<Rightarrow> world \<Rightarrow> world" where
  "Syncstatus_onError e w = LogWithStartable ''cluster_sync_status'' False (Syncstatus_SetFailed e w)"

definition Syncstatus_OnInit :: "SyncstatusEnv \<Rightarrow> handler" where
  "Syncstatus_OnInit env data w =
     (case ss_machinesCount env of
        Inl e \<Rightarrow> Syncstatus_onError e w
      | Inr mCnt \<Rightarrow>
          if mCnt = 0 \<and> ss_needCreateMachines env
          then SetStageComplete (SetStatus ClusterStatusInit [] w)
          else LocalTaskRun (SetStage ''OnSyncStatus'' w))"

definition ClusterSyncstatusTask_job :: "SyncstatusEnv \<Rightarrow> job" where
  "ClusterSyncstatusTask_job env s w =
     (if ss_client env \<noteq> None then (ss_client env, w)
      else if ss_version env \<noteq> None then (ss_version env, w)
      else case ss_setStatus env of
             Some e \<Rightarrow> (Some (''set status to running: '' @ e), w)
           | None \<Rightarrow> (None, SetStatus ClusterStatusRunning [] w))"

definition Syncstatus_OnSyncStatus :: handler where
  "Syncstatus_OnSyncStatus data w = SetStageComplete (LogWithStartable ''cluster_sync_status'' True w)"

definition Syncstatus_OnSyncStatusFailed :: handler where
  "Syncstatus_OnSyncStatusFailed data w = Syncstatus_onError data w"

definition ClusterSyncstatusTask :: "SyncstatusEnv \<Rightarrow> methods" where
  "ClusterSyncstatusTask env = map_of
     [((''OnInit'', False), Syncstatus_OnInit env),
      ((''OnSyncStatus'', False), Syncstatus_OnSyncStatus),
      ((''OnSyncStatus'', True), Syncstatus_OnSyncStatusFailed)]"

section \<open>The tasks end\<close>

definition starts :: "err list \<Rightarrow> bool" where
  "starts es \<longleftrightarrow> (\<forall>e\<in>set es. e = None)"

definition creation_stages :: "string list" where
  "creation_stages = [''OnInit'', ''OnMachinesCreated'', ''OnApplyAddonsComplete'', ''OnSyncStatusComplete'', ''OnSyncComplete'']"

lemmas ClusterCreate_defs = ClusterCreateTask_def ClusterCreate_OnInit_def ClusterCreate_OnMachinesCreated_def
  ClusterCreate_OnApplyAddonsComplete_def ClusterCreate_OnSyncStatusComplete_def ClusterCreate_OnSyncComplete_def
  ClusterCreate_SetFailed_def ClusterCreate_onError_def ClusterCreate_CreateMachines_def

lemma ClusterCreate_staged:
  assumes "starts [cc_startCreateMachines env, cc_startApplyAddons env, cc_startSyncStatus env]"
  shows "staged (ClusterCreateTask env) no_job (rank_in creation_stages) (set (tl creation_stages))
    (marked ClusterStatusCreateFail ''cluster_create'')"
proof
  have e: "cc_startCreateMachines env = None" "cc_startApplyAddons env = None" "cc_startSyncStatus env = None"
    using assms by (simp_all add: starts_def)
  fix w :: world and data failed
  assume idle: "idle w"
  show "moves (rank_in creation_stages) (set (tl creation_stages)) (marked ClusterStatusCreateFail ''cluster_create'')
      (rank_in creation_stages TASK_INIT_STAGE) (execITask (ClusterCreateTask env) False data w)"
    if "Stage w = TASK_INIT_STAGE"
    using idle e that
    by (auto simp: execITask_def ClusterCreate_defs creation_stages_def rank_defs intro!: task_intros
       split: sum.split option.split)
  show "moves (rank_in creation_stages) (set (tl creation_stages)) (marked ClusterStatusCreateFail ''cluster_create'')
      (rank_in creation_stages (Stage w)) (execITask (ClusterCreateTask env) failed data w)"
    if "Stage w \<in> set (tl creation_stages)"
  proof -
    from that consider "Stage w = ''OnMachinesCreated''" | "Stage w = ''OnApplyAddonsComplete''" |
      "Stage w = ''OnSyncStatusComplete''" | "Stage w = ''OnSyncComplete''"
      unfolding creation_stages_def by auto
    then show ?thesis
      by cases (cases failed; use idle e in \<open>auto simp: execITask_def ClusterCreate_defs creation_stages_def rank_defs Let_def
         intro!: task_intros split: option.split\<close>)+
  qed
qed (simp add: no_job_def)

interpretation apply_addons: staged ClusterApplyAddonsTask "ClusterApplyAddonsTask_job env"
  "rank_in [''OnInit'', ''OnApplyAddons'']" "{''OnApplyAddons''}" "log_marked ''cluster_apply_addons''" for env
  by unfold_locales
    (auto simp: execITask_def ClusterApplyAddonsTask_def ClusterApplyAddonsTask_job_def ApplyAddons_OnInit_def
      OnApplyAddons_def OnApplyAddonsFailed_def ApplyAddons_OnError_def rank_defs intro!: task_intros
      split: if_splits)

interpretation cluster_sync: staged ClusterSyncTask "ClusterSyncTask_job env"
  "rank_in [''OnInit'', ''OnSyncComplete'']" "{''OnSyncComplete''}" "log_marked ''cluster_sync''" for env
  by unfold_locales
    (auto simp: execITask_def ClusterSyncTask_def ClusterSyncTask_job_def ClusterSync_OnInit_def
      ClusterSync_OnSyncComplete_def ClusterSync_OnSyncCompleteFailed_def rank_defs intro!: task_intros
      split: if_splits)

interpretation sync_status: staged "ClusterSyncstatusTask env" "ClusterSyncstatusTask_job env"
  "rank_in [''OnInit'', ''OnSyncStatus'']" "{''OnSyncStatus''}"
  "marked ClusterStatusUnknown ''cluster_sync_status''" for env
  by unfold_locales
    (auto simp: execITask_def ClusterSyncstatusTask_def ClusterSyncstatusTask_job_def Syncstatus_OnInit_def
      Syncstatus_OnSyncStatus_def Syncstatus_OnSyncStatusFailed_def Syncstatus_onError_def
      Syncstatus_SetFailed_def SetStatus_def [of ClusterStatusRunning] rank_defs intro!: task_intros
      split: if_splits sum.split option.splits)

interpretation cluster_delete: staged "ClusterDeleteTask env" no_job
  "rank_in [''OnInit'', ''OnMachinesDeleted'']" "{''OnMachinesDeleted''}"
  "marked ClusterStatusDeleteFail ''cluster_delete''" for env
  by unfold_locales
    (auto simp: execITask_def ClusterDeleteTask_def ClusterDelete_OnInit_def startDeleteMachines_def
      OnMachinesDeleted_def OnMachinesDeletedFailed_def ClusterDelete_onError_def ClusterDelete_SetFailed_def
      no_job_def rank_defs intro!: task_intros split: if_splits sum.split option.split)

text \<open>With the base driver, which requests nothing, these three tasks would wait for ever; the
  drivers of the clusters that have machines are cluster API drivers.\<close>

lemma CreateMachines_staged:
  assumes "cms_driver env = ClusterAPIDriver"
  shows "staged (ClusterCreateMachinesTask env) (ClusterCreateMachinesTask_job env)
    (rank_in [''OnInit'', ''OnMachinesCreated'']) {''OnMachinesCreated''}
    (marked ClusterStatusCreateMachineFail ''cluster_create_machines'')"
  using assms
  by unfold_locales
    (auto simp: execITask_def ClusterCreateMachinesTask_def ClusterCreateMachinesTask_job_def
      CreateMachinesTask_OnInit_def CreateMachines_def RequestDeployMachines_def CreateMachinesTask_onError_def
      CreateMachinesTask_OnMachinesCreated_def CreateMachinesTask_OnMachinesCreatedFailed_def
      SetObjectTaskFailed_def ClusterStatusCreateMachineFail_def rank_defs
      intro!: task_intros split: if_splits sum.split option.split)

lemma DeployMachines_staged:
  assumes "dp_driver env = ClusterAPIDriver"
  shows "staged (ClusterDeployMachinesTask env) (ClusterDeployMachinesTask_job env)
    (rank_in [''OnInit'', ''OnDeployMachines'']) {''OnDeployMachines''} (status_marked ClusterStatusError)"
  using assms
  by unfold_locales
    (auto simp: execITask_def ClusterDeployMachinesTask_def ClusterDeployMachinesTask_job_def
      DeployMachines_OnInit_def RequestDeployMachines_def DeployMachines_OnError_def
      OnDeployMachines_def OnDeployMachinesFailed_def rank_defs
      intro!: task_intros split: if_splits sum.split option.split)

lemma DeleteMachines_staged:
  assumes "dm_driver env = ClusterAPIDriver" "dm_startSyncStatus env = None"
  shows "staged (ClusterDeleteMachinesTask env) no_job
    (rank_in [''OnInit'', ''OnDeleteMachines'', ''OnSyncStatus'']) {''OnDeleteMachines'', ''OnSyncStatus''}
    (marked ClusterStatusError ''cluster_delete_machine'')"
  using assms
  by unfold_locales
    (auto simp: execITask_def ClusterDeleteMachinesTask_def no_job_def Let_def
      DeleteMachines_OnInit_def RequestDeleteMachines_def DeleteMachines_OnError_def
      OnDeleteMachines_def OnDeleteMachinesFailed_def DeleteMachines_OnSyncStatus_def
      DeleteMachines_OnSyncStatusFailed_def rank_defs
      intro!: task_intros split: if_splits sum.split option.split)

section \<open>What the tasks guarantee\<close>

lemma creation_rank: "rank_in creation_stages TASK_INIT_STAGE = 5"
  by (simp add: creation_stages_def rank_defs)


definition create_env :: ClusterCreateEnv where
  "create_env = \<lparr>cc_needCreateMachines = True, cc_clusterId = ''c1'',
     cc_machines = Inr [\<lparr>cm_Name = ''m1'', cm_ClusterId = [], cm_Role = ''controlplane'',
       cm_ResourceType = ''vm'', cm_ResourceId = []\<rparr>],
     cc_input = None, cc_certificates = None, cc_startCreateMachines = None, cc_startApplyAddons = None,
     cc_startSyncStatus = None, cc_startSync = None\<rparr>"


text \<open>The errors of starting a child task are dropped, and then the task hangs. When
  \<open>StartCreateMachinesTask\<close> fails, cluster creation stays in the stage \<open>OnMachinesCreated\<close>, waiting
  for nothing: no report ever moves it on, its parent is never told, nothing is logged and
  the cluster keeps the status it had.\<close>

theorem ClusterCreateTask_hangs:
  assumes "cc_needCreateMachines env" "cc_machines env = Inr (m # ms)" "cc_input env = None"
    and "cc_certificates env = None" "cc_startCreateMachines env = Some e"
  shows "run_task (ClusterCreateTask env) no_job rs (new_task st) = (new_task st)\<lparr>Stage := ''OnMachinesCreated''\<rparr>"
proof -
  have "execITask (ClusterCreateTask env) False [] (new_task st) = (new_task st)\<lparr>Stage := ''OnMachinesCreated''\<rparr>"
    using assms by (simp add: execITask_def ClusterCreate_defs ClusterCreate_getMachines_def bind_machines_def
        new_task_def rank_defs engine_defs)
  then show ?thesis by (cases rs) (auto simp: run_task_def new_task_def)
qed

theorem ClusterCreateTask_hangs_witness:
  "run_task (ClusterCreateTask (create_env\<lparr>cc_startCreateMachines := Some ''db down''\<rparr>)) no_job
     [(False, []), (False, [])] (new_task ''creating'') = (new_task ''creating'')\<lparr>Stage := ''OnMachinesCreated''\<rparr>"
  by (rule ClusterCreateTask_hangs) (simp_all add: create_env_def)

text \<open>Deleting a cluster ends, and the record of the cluster is removed only when all its
  machines were deleted before; otherwise the cluster is kept, marked \<open>delete_fail\<close>.\<close>

theorem ClusterDeleteTask_outcome:
  assumes "2 \<le> length rs"
  shows "let w = run_task (ClusterDeleteTask env) no_job rs (new_task st) in
    finished w \<and>
    (obj_deleted w \<longleftrightarrow> Stage w = TASK_STAGE_COMPLETE) \<and>
    (Stage w = TASK_STAGE_COMPLETE \<longleftrightarrow> cd_realDelete env = None \<and>
       (cd_machines env = Inr [] \<or>
        (\<exists>ms. cd_machines env = Inr ms) \<and> cd_startDeleteMachines env = None \<and> \<not> fst (hd rs))) \<and>
    (Stage w = TASK_STAGE_FAILED \<longrightarrow> obj_status w = ClusterStatusDeleteFail)"
proof -
  let ?w = "run_task (ClusterDeleteTask env) no_job rs (new_task st)"
  have fin: "finished ?w \<and> marked ClusterStatusDeleteFail ''cluster_delete'' ?w"
    by (rule cluster_delete.task_ends) (use assms in \<open>simp add: rank_defs\<close>)
  obtain f d rs' where rs: "rs = (f, d) # rs'" using assms by (cases rs) auto
  have "(obj_deleted ?w \<longleftrightarrow> Stage ?w = TASK_STAGE_COMPLETE) \<and>
    (Stage ?w = TASK_STAGE_COMPLETE \<longleftrightarrow> cd_realDelete env = None \<and>
       (cd_machines env = Inr [] \<or>
        (\<exists>ms. cd_machines env = Inr ms) \<and> cd_startDeleteMachines env = None \<and> \<not> fst (hd rs)))"
    unfolding rs
    by (cases "cd_machines env"; cases "cd_realDelete env"; cases "cd_startDeleteMachines env"; cases f; cases rs')
      (auto simp: run_task_def execITask_def ClusterDeleteTask_def ClusterDelete_OnInit_def startDeleteMachines_def
        OnMachinesDeleted_def OnMachinesDeletedFailed_def ClusterDelete_onError_def ClusterDelete_SetFailed_def
        new_task_def rank_defs engine_defs child_done_def pending_children_def)
  with fin show ?thesis by (simp add: marked_def Let_def)
qed

theorem ClusterDeleteTask_outcome_witness:
  "let w = run_task (ClusterDeleteTask \<lparr>cd_machines = Inr [''m1''], cd_startDeleteMachines = None, cd_realDelete = None\<rparr>)
       no_job [(True, ''etcd''), (False, [])] (new_task ''deleting'') in
   finished w \<and> \<not> obj_deleted w"
  using ClusterDeleteTask_outcome [of "[(True, ''etcd''), (False, [])]"
      "\<lparr>cd_machines = Inr [''m1''], cd_startDeleteMachines = None, cd_realDelete = None\<rparr>" "''deleting''"]
  by (auto simp: Let_def)

text \<open>A status synchronisation ends after at most two reports and decides the status of the cluster
  for sure: \<open>init\<close> when it should have machines and has none, \<open>running\<close> when the API server answers,
  \<open>unknown\<close> in every other case.\<close>

theorem ClusterSyncstatusTask_status:
  assumes "2 \<le> length rs"
  shows "let w = run_task (ClusterSyncstatusTask env) (ClusterSyncstatusTask_job env) rs (new_task st) in
    finished w \<and> obj_status w =
      (case ss_machinesCount env of
         Inl _ \<Rightarrow> ClusterStatusUnknown
       | Inr n \<Rightarrow>
           if n = 0 \<and> ss_needCreateMachines env then ClusterStatusInit
           else if ss_client env = None \<and> ss_version env = None \<and> ss_setStatus env = None
           then ClusterStatusRunning else ClusterStatusUnknown)"
proof -
  let ?w = "run_task (ClusterSyncstatusTask env) (ClusterSyncstatusTask_job env) rs (new_task st)"
  have "finished ?w"
    using sync_status.task_ends [of rs env st] assms by (simp add: rank_defs)
  moreover obtain f d rs' where rs: "rs = (f, d) # rs'" using assms by (cases rs) auto
  have "obj_status ?w = (case ss_machinesCount env of
         Inl _ \<Rightarrow> ClusterStatusUnknown
       | Inr n \<Rightarrow>
           if n = 0 \<and> ss_needCreateMachines env then ClusterStatusInit
           else if ss_client env = None \<and> ss_version env = None \<and> ss_setStatus env = None
           then ClusterStatusRunning else ClusterStatusUnknown)"
    unfolding rs
    by (cases "ss_machinesCount env"; cases "ss_client env"; cases "ss_version env"; cases "ss_setStatus env"; cases rs')
      (auto simp: run_task_def execITask_def ClusterSyncstatusTask_def ClusterSyncstatusTask_job_def
        Syncstatus_OnInit_def Syncstatus_OnSyncStatus_def Syncstatus_OnSyncStatusFailed_def
        Syncstatus_onError_def Syncstatus_SetFailed_def new_task_def rank_defs engine_defs local_done_def)
  ultimately show ?thesis by (simp add: Let_def)
qed

theorem ClusterSyncstatusTask_status_witness:
  "let env = \<lparr>ss_machinesCount = Inr 3, ss_needCreateMachines = True, ss_client = None,
       ss_version = Some ''timeout'', ss_setStatus = None\<rparr> in
   obj_status (run_task (ClusterSyncstatusTask env) (ClusterSyncstatusTask_job env) [(False, []), (False, [])]
     (new_task ''running'')) = ClusterStatusUnknown"
  using ClusterSyncstatusTask_status [of "[(False, []), (False, [])]" "\<lparr>ss_machinesCount = Inr 3,
      ss_needCreateMachines = True, ss_client = None, ss_version = Some ''timeout'', ss_setStatus = None\<rparr>" "''running''"]
  by (simp add: Let_def)

end
