(* ===== verification/ResourceTasks.thy ===== *)
theory ResourceTasks
  imports ClusterTasks
begin

text \<open>
  The tasks of machines (src/pkg/tasks/machine_*.go), of components (component_*.go), of the
  Kubernetes resources in a cluster (cluster_resource*_task.go, namespace_create_task.go) and of
  federated resources (fed_resource_task.go), on the engine of \<open>TaskEngine\<close>.
\<close>

section \<open>Resources of a cluster\<close>

definition ClusterResourceStatusCreating :: string where "ClusterResourceStatusCreating = ''creating''"
definition ClusterResourceStatusCreateFail :: string where "ClusterResourceStatusCreateFail = ''create_fail''"
definition ClusterResourceStatusUpdating :: string where "ClusterResourceStatusUpdating = ''updating''"
definition ClusterResourceStatusUpdateFail :: string where "ClusterResourceStatusUpdateFail = ''update_fail''"
definition ClusterResourceStatusDeleting :: string where "ClusterResourceStatusDeleting = ''deleting''"
definition ClusterResourceStatusDeleteFail :: string where "ClusterResourceStatusDeleteFail = ''delete_fail''"
definition ClusterResourceStatusSyncing :: string where "ClusterResourceStatusSyncing = ''syncing''"
definition ClusterResourceStatusSyncFail :: string where "ClusterResourceStatusSyncFail = ''sync_fail''"

lemmas resource_statuses = ClusterResourceStatusCreating_def ClusterResourceStatusCreateFail_def
  ClusterResourceStatusUpdating_def ClusterResourceStatusUpdateFail_def ClusterResourceStatusDeleting_def
  ClusterResourceStatusDeleteFail_def ClusterResourceStatusSyncing_def ClusterResourceStatusSyncFail_def

text \<open>The remote calls: \<open>CreateRemoteObject\<close>, \<open>UpdateRemoteObject\<close>, \<open>DeleteRemoteObject\<close>,
  \<open>PerformSyncResource\<close>, then the start of the sync task and \<open>RealDelete\<close>.\<close>

record ResourceEnv =
  re_logPrefix :: string
  re_remote :: err
  re_startSync :: err
  re_realDelete :: err

definition wrap :: "string \<Rightarrow> err \<Rightarrow> err" where
  "wrap msg e = (case e of None \<Rightarrow> None | Some t \<Rightarrow> Some (msg @ '': '' @ t))"

subsection \<open>ClusterResourceCreateTask\<close>

definition ResourceCreate_OnInit :: handler where
  "ResourceCreate_OnInit data w =
     LocalTaskRun (SetStage ''OnCreateComplete'' (SetStatus ClusterResourceStatusCreating ''create resource'' w))"

definition ResourceCreate_job :: "ResourceEnv \<Rightarrow> job" where
  "ResourceCreate_job env s w = (wrap ''CreateRemoteObject'' (re_remote env), w)"

definition OnCreateCompleteFailed :: handler where
  "OnCreateCompleteFailed reason w = SetObjectTaskFailed ClusterResourceStatusCreateFail reason w"

definition OnCreateComplete :: "ResourceEnv \<Rightarrow> handler" where
  "OnCreateComplete env data w =
     (let w1 = start_child ''ClusterResourceSyncTask'' (re_startSync env) (SetStage ''OnResourceSyncComplete'' w)
      in case re_startSync env of
           Some e \<Rightarrow> OnCreateCompleteFailed e w1
         | None \<Rightarrow> w1)"

definition OnResourceSyncComplete :: handler where
  "OnResourceSyncComplete data w = SetStageComplete (LogWithStartable ''resource_create'' True w)"

definition OnResourceSyncCompleteFailed :: handler where
  "OnResourceSyncCompleteFailed e w = SetStageFailed e (LogWithStartable ''resource_create'' False w)"

definition ClusterResourceCreateTask :: "ResourceEnv \<Rightarrow> methods" where
  "ClusterResourceCreateTask env = map_of
     [((''OnInit'', False), ResourceCreate_OnInit),
      ((''OnCreateComplete'', False), OnCreateComplete env),
      ((''OnCreateComplete'', True), OnCreateCompleteFailed),
      ((''OnResourceSyncComplete'', False), OnResourceSyncComplete),
      ((''OnResourceSyncComplete'', True), OnResourceSyncCompleteFailed)]"

text \<open>\<open>NamespaceCreateTask\<close> embeds it.\<close>

definition NamespaceCreateTask :: "ResourceEnv \<Rightarrow> methods" where
  "NamespaceCreateTask env = ClusterResourceCreateTask env"

subsection \<open>ClusterResourceUpdateTask\<close>

definition ResourceUpdate_OnInit :: handler where
  "ResourceUpdate_OnInit data w =
     LocalTaskRun (SetStage ''OnUpdateComplete'' (SetStatus ClusterResourceStatusUpdating ''update resource'' w))"

definition ResourceUpdate_job :: "ResourceEnv \<Rightarrow> job" where
  "ResourceUpdate_job env s w = (wrap ''UpdateRemoteObject'' (re_remote env), w)"

definition ResourceUpdate_OnUpdateComplete :: handler where
  "ResourceUpdate_OnUpdateComplete data w = LogWithStartable ''resource_update'' True (SetStageComplete w)"

definition ResourceUpdate_OnUpdateCompleteFailed :: handler where
  "ResourceUpdate_OnUpdateCompleteFailed reason w =
     LogWithStartable ''resource_update'' False (SetObjectTaskFailed ClusterResourceStatusUpdateFail reason w)"

definition ClusterResourceUpdateTask :: methods where
  "ClusterResourceUpdateTask = map_of
     [((''OnInit'', False), ResourceUpdate_OnInit),
      ((''OnUpdateComplete'', False), ResourceUpdate_OnUpdateComplete),
      ((''OnUpdateComplete'', True), ResourceUpdate_OnUpdateCompleteFailed)]"

subsection \<open>ClusterResourceDeleteTask\<close>

definition ResourceDelete_OnInit :: handler where
  "ResourceDelete_OnInit data w =
     LocalTaskRun (SetStage ''OnDeleteComplete'' (SetStatus ClusterResourceStatusDeleting ''delete resource'' w))"

definition ResourceDelete_job :: "ResourceEnv \<Rightarrow> job" where
  "ResourceDelete_job env s w = (wrap ''DeleteRemoteObject'' (re_remote env), w)"

definition OnDeleteCompleteFailed :: handler where
  "OnDeleteCompleteFailed reason w =
     LogWithStartable ''resource_delete'' False (SetObjectTaskFailed ClusterResourceStatusDeleteFail reason w)"

definition OnDeleteComplete :: "ResourceEnv \<Rightarrow> handler" where
  "OnDeleteComplete env data w =
     (case re_realDelete env of
        Some e \<Rightarrow> OnDeleteCompleteFailed e w
      | None \<Rightarrow> SetStageComplete (LogWithStartable ''resource_delete'' True (w\<lparr>obj_deleted := True\<rparr>)))"

definition ClusterResourceDeleteTask :: "ResourceEnv \<Rightarrow> methods" where
  "ClusterResourceDeleteTask env = map_of
     [((''OnInit'', False), ResourceDelete_OnInit),
      ((''OnDeleteComplete'', False), OnDeleteComplete env),
      ((''OnDeleteComplete'', True), OnDeleteCompleteFailed)]"

subsection \<open>ClusterResourceSyncTask\<close>

definition ResourceSync_OnInit :: handler where
  "ResourceSync_OnInit data w =
     LocalTaskRun (SetStage ''OnSyncComplete'' (SetStatus ClusterResourceStatusSyncing ''sync resource'' w))"

definition ResourceSync_job :: "ResourceEnv \<Rightarrow> job" where
  "ResourceSync_job env s w = (wrap (''sync '' @ re_logPrefix env @ '' resource'') (re_remote env), w)"

definition ResourceSync_OnSyncComplete :: handler where
  "ResourceSync_OnSyncComplete data w = LogWithStartable ''resource_sync'' True (SetStageComplete w)"

definition ResourceSync_OnSyncCompleteFailed :: handler where
  "ResourceSync_OnSyncCompleteFailed reason w =
     LogWithStartable ''resource_sync'' False (SetObjectTaskFailed ClusterResourceStatusSyncFail reason w)"

definition ClusterResourceSyncTask :: methods where
  "ClusterResourceSyncTask = map_of
     [((''OnInit'', False), ResourceSync_OnInit),
      ((''OnSyncComplete'', False), ResourceSync_OnSyncComplete),
      ((''OnSyncComplete'', True), ResourceSync_OnSyncCompleteFailed)]"

section \<open>Components\<close>

definition ComponentStatusDeployed :: string where "ComponentStatusDeployed = ''deployed''"
definition ComponentStatusDeployFail :: string where "ComponentStatusDeployFail = ''deploy_fail''"
definition ComponentStatusUndeployFail :: string where "ComponentStatusUndeployFail = ''undeploy_fail''"
definition ComponentStatusDeleteFail :: string where "ComponentStatusDeleteFail = ''delete_fail''"
definition ComponentStatusUpdateFail :: string where "ComponentStatusUpdateFail = ''update_fail''"
definition ComponentStatusInit :: string where "ComponentStatusInit = ''init''"

text \<open>\<open>GetCluster\<close>, \<open>GetDriver\<close>, \<open>GetSettings\<close>, then the driver's \<open>DoEnable\<close>, \<open>DoUpdate\<close> or
  \<open>DoDisable\<close>; the start of the undeploy task and \<open>DeleteWithJoint\<close>.\<close>

record ComponentEnv =
  co_cluster :: err
  co_driver :: err
  co_settings :: err
  co_do :: err
  co_startUndeploy :: err
  co_delete :: err

definition component_call :: "ComponentEnv \<Rightarrow> err" where
  "component_call env =
     (if co_driver env \<noteq> None then co_driver env
      else if co_settings env \<noteq> None then co_settings env
      else co_do env)"

definition ComponentDeploy_onError :: "string \<Rightarrow> world \<Rightarrow> world" where
  "ComponentDeploy_onError e w = SetStageFailed e (SetStatus ComponentStatusDeployFail e w)"

definition ComponentDeploy_OnInit :: "ComponentEnv \<Rightarrow> handler" where
  "ComponentDeploy_OnInit env data w =
     (case co_cluster env of
        Some e \<Rightarrow> ComponentDeploy_onError e w
      | None \<Rightarrow> LocalTaskRun (SetStage ''OnDeployComplete'' w))"

definition Component_job :: "ComponentEnv \<Rightarrow> job" where
  "Component_job env s w = (component_call env, w)"

definition OnDeployComplete :: handler where
  "OnDeployComplete data w = SetStageComplete (SetStatus ComponentStatusDeployed [] w)"

definition OnDeployCompleteFailed :: handler where
  "OnDeployCompleteFailed reason w = ComponentDeploy_onError reason w"

definition ComponentDeployTask :: "ComponentEnv \<Rightarrow> methods" where
  "ComponentDeployTask env = map_of
     [((''OnInit'', False), ComponentDeploy_OnInit env),
      ((''OnDeployComplete'', False), OnDeployComplete),
      ((''OnDeployComplete'', True), OnDeployCompleteFailed)]"

definition ComponentUpdate_onError :: "string \<Rightarrow> world \<Rightarrow> world" where
  "ComponentUpdate_onError e w = SetStageFailed e (SetStatus ComponentStatusUpdateFail e w)"

definition ComponentUpdate_OnInit :: "ComponentEnv \<Rightarrow> handler" where
  "ComponentUpdate_OnInit env data w =
     (case co_cluster env of
        Some e \<Rightarrow> ComponentUpdate_onError e w
      | None \<Rightarrow> LocalTaskRun (SetStage ''OnUpdateComplete'' w))"

definition ComponentUpdate_OnUpdateComplete :: handler where
  "ComponentUpdate_OnUpdateComplete data w = SetStageComplete (SetStatus ComponentStatusDeployed [] w)"

definition ComponentUpdate_OnUpdateCompleteFailed :: handler where
  "ComponentUpdate_OnUpdateCompleteFailed reason w = ComponentUpdate_onError reason w"

definition ComponentUpdateTask :: "ComponentEnv \<Rightarrow> methods" where
  "ComponentUpdateTask env = map_of
     [((''OnInit'', False), ComponentUpdate_OnInit env),
      ((''OnUpdateComplete'', False), ComponentUpdate_OnUpdateComplete),
      ((''OnUpdateComplete'', True), ComponentUpdate_OnUpdateCompleteFailed)]"

definition ComponentUndeploy_onError :: "string \<Rightarrow> world \<Rightarrow> world" where
  "ComponentUndeploy_onError e w = SetStageFailed e (SetStatus ComponentStatusUndeployFail e w)"

definition ComponentUndeploy_OnInit :: "ComponentEnv \<Rightarrow> handler" where
  "ComponentUndeploy_OnInit env data w =
     (case co_cluster env of
        Some e \<Rightarrow> ComponentUndeploy_onError e w
      | None \<Rightarrow>
          (case component_call env of
             Some e \<Rightarrow> ComponentUndeploy_onError e w
           | None \<Rightarrow> SetStageComplete ((SetStatus ComponentStatusInit [] w)\<lparr>obj_enabled := False\<rparr>)))"

definition ComponentUndeployTask :: "ComponentEnv \<Rightarrow> methods" where
  "ComponentUndeployTask env = map_of [((''OnInit'', False), ComponentUndeploy_OnInit env)]"

definition ComponentDelete_onError :: "string \<Rightarrow> world \<Rightarrow> world" where
  "ComponentDelete_onError e w = SetStageFailed e (SetStatus ComponentStatusDeleteFail e w)"

definition ComponentDelete_OnInit :: "ComponentEnv \<Rightarrow> handler" where
  "ComponentDelete_OnInit env data w =
     start_child ''ComponentUndeployTask'' (co_startUndeploy env) (SetStage ''OnUndeployComplete'' w)"

definition OnUndeployComplete :: "ComponentEnv \<Rightarrow> handler" where
  "OnUndeployComplete env data w =
     (case co_delete env of
        Some e \<Rightarrow> ComponentDelete_onError e w
      | None \<Rightarrow> SetStageComplete (w\<lparr>obj_deleted := True\<rparr>))"

definition OnUndeployCompleteFailed :: handler where
  "OnUndeployCompleteFailed reason w = ComponentDelete_onError reason w"

definition ComponentDeleteTask :: "ComponentEnv \<Rightarrow> methods" where
  "ComponentDeleteTask env = map_of
     [((''OnInit'', False), ComponentDelete_OnInit env),
      ((''OnUndeployComplete'', False), OnUndeployComplete env),
      ((''OnUndeployComplete'', True), OnUndeployCompleteFailed)]"

section \<open>Machines\<close>

definition MachineStatusCreateFail :: string where "MachineStatusCreateFail = ''create_fail''"
definition MachineStatusPrepareFail :: string where "MachineStatusPrepareFail = ''prepare_fail''"
definition MachineStatusRunning :: string where "MachineStatusRunning = ''running''"
definition MachineStatusTerminateFail :: string where "MachineStatusTerminateFail = ''terminate_fail''"

subsection \<open>MachineCreateTask\<close>

record MachineCreateEnv =
  mc_cluster :: err
  mc_postCreate :: err
  mc_startPrepare :: err

definition MachineCreate_OnError :: "string \<Rightarrow> world \<Rightarrow> world" where
  "MachineCreate_OnError e w =
     LogWithStartable ''machine_create'' False (SetStageFailed e (SetStatus MachineStatusCreateFail e w))"

text \<open>\<open>RequestPrepareMachine\<close> of the base driver starts the prepare task.\<close>

definition RequestPrepareMachine :: "err \<Rightarrow> world \<Rightarrow> err \<times> world" where
  "RequestPrepareMachine start w = (start, start_child ''MachinePrepareTask'' start w)"

definition MachineCreate_OnInit :: "MachineCreateEnv \<Rightarrow> handler" where
  "MachineCreate_OnInit env data w =
     (case mc_cluster env of
        Some e \<Rightarrow> MachineCreate_OnError e w
      | None \<Rightarrow>
          (case mc_postCreate env of
             Some e \<Rightarrow> MachineCreate_OnError e w
           | None \<Rightarrow>
               (case RequestPrepareMachine (mc_startPrepare env) (SetStage ''OnMachinePrepared'' w) of
                  (Some e, w1) \<Rightarrow> MachineCreate_OnError e w1
                | (None, w1) \<Rightarrow> w1)))"

definition OnMachinePrepared :: handler where
  "OnMachinePrepared data w = LogWithStartable ''machine_create'' True (SetStageComplete w)"

definition OnMachinePreparedFailed :: handler where
  "OnMachinePreparedFailed data w = MachineCreate_OnError data w"

definition MachineCreateTask :: "MachineCreateEnv \<Rightarrow> methods" where
  "MachineCreateTask env = map_of
     [((''OnInit'', False), MachineCreate_OnInit env),
      ((''OnMachinePrepared'', False), OnMachinePrepared),
      ((''OnMachinePrepared'', True), OnMachinePreparedFailed)]"

subsection \<open>MachinePrepareTask and MachineTerminateTask\<close>

text \<open>The calls of \<open>MachinePrepareTask.OnInit\<close> in their order: \<open>Unmarshal\<close>, \<open>GetCluster\<close>,
  \<open>FillMachinePrepareInput\<close>, \<open>GetSession\<close>, \<open>PrepareResource\<close>, \<open>GetPrivateIP\<close>, \<open>SetPrivateIP\<close>. The
  message of a failed \<open>GetPrivateIP\<close> formats the method value \<open>machine.GetResourceId\<close>, which is
  not called; what \<open>%s\<close> prints for it is \<open>mp_fmtGetResourceId\<close>.\<close>

record MachinePrepareEnv =
  mp_unmarshal :: err
  mp_cluster :: err
  mp_fill :: err
  mp_session :: err
  mp_prepare :: err
  mp_privateIP :: "string + string"
  mp_setPrivateIP :: "string \<Rightarrow> err"
  mp_fmtGetResourceId :: string

definition MachinePrepare_OnError :: "string \<Rightarrow> world \<Rightarrow> world" where
  "MachinePrepare_OnError e w =
     LogWithStartable ''machine_prepare'' False (SetStageFailed e (SetStatus MachineStatusPrepareFail e w))"

definition MachinePrepare_OnInit :: "MachinePrepareEnv \<Rightarrow> handler" where
  "MachinePrepare_OnInit env data w =
     (case (mp_unmarshal env, mp_cluster env, mp_fill env, mp_session env, mp_prepare env) of
        (Some e, _, _, _, _) \<Rightarrow> MachinePrepare_OnError e w
      | (None, Some e, _, _, _) \<Rightarrow> MachinePrepare_OnError e w
      | (None, None, Some e, _, _) \<Rightarrow> MachinePrepare_OnError e w
      | (None, None, None, Some e, _) \<Rightarrow> MachinePrepare_OnError e w
      | (None, None, None, None, Some e) \<Rightarrow> MachinePrepare_OnError e w
      | (None, None, None, None, None) \<Rightarrow>
          (case mp_privateIP env of
             Inl e \<Rightarrow>
               MachinePrepare_OnError (''Get resource '' @ mp_fmtGetResourceId env @ '' private ip: '' @ e) w
           | Inr ip \<Rightarrow>
               (case mp_setPrivateIP env ip of
                  Some e \<Rightarrow> MachinePrepare_OnError (''Set machine private ip '' @ ip @ '': '' @ e) w
                | None \<Rightarrow>
                    LogWithStartable ''machine_prepare'' True
                      (SetStageComplete (SetStatus MachineStatusRunning [] w)))))"

definition MachinePrepareTask :: "MachinePrepareEnv \<Rightarrow> methods" where
  "MachinePrepareTask env = map_of [((''OnInit'', False), MachinePrepare_OnInit env)]"

record MachineTerminateEnv =
  mt_session :: err
  mt_terminate :: err

definition MachineTerminate_OnError :: "string \<Rightarrow> world \<Rightarrow> world" where
  "MachineTerminate_OnError e w = SetStageFailed e (SetStatus MachineStatusTerminateFail e w)"

definition MachineTerminate_OnInit :: "MachineTerminateEnv \<Rightarrow> handler" where
  "MachineTerminate_OnInit env data w =
     (case mt_session env of
        Some e \<Rightarrow> MachineTerminate_OnError e w
      | None \<Rightarrow>
          (case mt_terminate env of
             Some e \<Rightarrow> MachineTerminate_OnError e w
           | None \<Rightarrow> SetStageComplete w))"

definition MachineTerminateTask :: "MachineTerminateEnv \<Rightarrow> methods" where
  "MachineTerminateTask env = map_of [((''OnInit'', False), MachineTerminate_OnInit env)]"

subsection \<open>MachineBatchDeleteTask\<close>

text \<open>A child of it is named by the machine it terminates.\<close>

record BatchDeleteEnv =
  bd_machines :: "string list"
  bd_startTerminate :: "string \<Rightarrow> err"
  bd_realDelete :: "string \<Rightarrow> err"

definition doDelete :: "BatchDeleteEnv \<Rightarrow> string \<Rightarrow> world \<Rightarrow> err \<times> world" where
  "doDelete env m w = (bd_startTerminate env m, start_child m (bd_startTerminate env m) w)"

fun BatchDelete_OnInit_loop :: "BatchDeleteEnv \<Rightarrow> string list \<Rightarrow> world \<Rightarrow> world" where
  "BatchDelete_OnInit_loop env [] w = w"
| "BatchDelete_OnInit_loop env (m # ms) w =
     (case doDelete env m w of
        (Some e, w1) \<Rightarrow> SetStageFailed (''delete machine '' @ m @ '': '' @ e) w1
      | (None, w1) \<Rightarrow> BatchDelete_OnInit_loop env ms w1)"

definition BatchDelete_OnInit :: "BatchDeleteEnv \<Rightarrow> handler" where
  "BatchDelete_OnInit env data w =
     BatchDelete_OnInit_loop env (bd_machines env) (SetStage ''OnDeleteMachines'' w)"

fun BatchDelete_OnDeleteMachines_loop :: "BatchDeleteEnv \<Rightarrow> string list \<Rightarrow> world \<Rightarrow> world" where
  "BatchDelete_OnDeleteMachines_loop env [] w = SetStageComplete w"
| "BatchDelete_OnDeleteMachines_loop env (m # ms) w =
     (case bd_realDelete env m of
        Some e \<Rightarrow> SetStageFailed (''Delete machine '' @ m @ '' error: '' @ e) w
      | None \<Rightarrow> BatchDelete_OnDeleteMachines_loop env ms (w\<lparr>deleted_ids := deleted_ids w @ [m]\<rparr>))"

definition BatchDelete_OnDeleteMachines :: "BatchDeleteEnv \<Rightarrow> handler" where
  "BatchDelete_OnDeleteMachines env data w = BatchDelete_OnDeleteMachines_loop env (bd_machines env) w"

definition BatchDelete_OnDeleteMachinesFailed :: handler where
  "BatchDelete_OnDeleteMachinesFailed data w = SetStageFailed data w"

definition MachineBatchDeleteTask :: "BatchDeleteEnv \<Rightarrow> methods" where
  "MachineBatchDeleteTask env = map_of
     [((''OnInit'', False), BatchDelete_OnInit env),
      ((''OnDeleteMachines'', False), BatchDelete_OnDeleteMachines env),
      ((''OnDeleteMachines'', True), BatchDelete_OnDeleteMachinesFailed)]"

section \<open>Federated resources\<close>

definition FederatedResourceStatusActive :: string where "FederatedResourceStatusActive = ''active''"
definition FederatedResourceStatusUpdateFail :: string where "FederatedResourceStatusUpdateFail = ''update_fail''"
definition FederatedResourceStatusSyncing :: string where "FederatedResourceStatusSyncing = ''syncing''"
definition FedreatedResourceStatusSyncFail :: string where "FedreatedResourceStatusSyncFail = ''sync_fail''"

subsection \<open>FedResourceUpdateTask\<close>

definition FedUpdate_OnUpdateComplete :: handler where
  "FedUpdate_OnUpdateComplete data w = LogWithStartable ''resource_update'' True (SetStageComplete w)"

definition FedUpdate_OnUpdateCompleteFailed :: handler where
  "FedUpdate_OnUpdateCompleteFailed reason w =
     LogWithStartable ''resource_update'' False (SetObjectTaskFailed FederatedResourceStatusUpdateFail reason w)"

definition FedUpdate_OnInit :: "err \<Rightarrow> handler" where
  "FedUpdate_OnInit startSync data w =
     (let w1 = start_child ''FedResourceSyncTask'' startSync (SetStage ''OnUpdateComplete'' w) in
      case startSync of
        Some e \<Rightarrow> FedUpdate_OnUpdateCompleteFailed e w1
      | None \<Rightarrow> w1)"

definition FedResourceUpdateTask :: "err \<Rightarrow> methods" where
  "FedResourceUpdateTask startSync = map_of
     [((''OnInit'', False), FedUpdate_OnInit startSync),
      ((''OnUpdateComplete'', False), FedUpdate_OnUpdateComplete),
      ((''OnUpdateComplete'', True), FedUpdate_OnUpdateCompleteFailed)]"

subsection \<open>FedResourceSyncTask\<close>

text \<open>The job goes through the attached clusters; an error of one cluster is only logged.\<close>

record FedSyncEnv =
  fs_attached :: "string + string list"
  fs_syncCluster :: "string \<Rightarrow> err"

definition FedSync_OnInit :: handler where
  "FedSync_OnInit data w =
     LocalTaskRun (SetStatus FederatedResourceStatusSyncing ''start syncing'' (SetStage ''OnSyncComplete'' w))"

fun FedSync_loop :: "FedSyncEnv \<Rightarrow> string list \<Rightarrow> world \<Rightarrow> world" where
  "FedSync_loop env [] w = w"
| "FedSync_loop env (c # cs) w =
     FedSync_loop env cs (w\<lparr>calls := calls w @ [(c, fs_syncCluster env c)]\<rparr>)"

definition FedSync_job :: "FedSyncEnv \<Rightarrow> job" where
  "FedSync_job env s w =
     (case fs_attached env of
        Inl e \<Rightarrow> (Some (''get attached clusters: '' @ e), w)
      | Inr clusters \<Rightarrow> (None, FedSync_loop env clusters w))"

lemma FedSync_loop_eq:
  "FedSync_loop env cs w = w\<lparr>calls := calls w @ map (\<lambda>c. (c, fs_syncCluster env c)) cs\<rparr>"
  by (induction cs arbitrary: w) simp_all

definition FedSync_OnSyncComplete :: handler where
  "FedSync_OnSyncComplete data w =
     LogWithStartable ''resource_sync'' True
       (SetStageComplete (SetStatus FederatedResourceStatusActive ''sync complete'' w))"

definition FedSync_OnSyncCompleteFailed :: handler where
  "FedSync_OnSyncCompleteFailed reason w =
     LogWithStartable ''resource_sync'' False (SetObjectTaskFailed FedreatedResourceStatusSyncFail reason w)"

definition FedResourceSyncTask :: methods where
  "FedResourceSyncTask = map_of
     [((''OnInit'', False), FedSync_OnInit),
      ((''OnSyncComplete'', False), FedSync_OnSyncComplete),
      ((''OnSyncComplete'', True), FedSync_OnSyncCompleteFailed)]"

subsection \<open>FedResourceAttachClusterTask\<close>

text \<open>A lookup of the namespace in the cluster.\<close>

datatype ns_lookup = NsNoRows string | NsError string | NsFound string string

record AttachEnv =
  at_getClusterId :: err
  at_isNamespace :: bool
  at_attachCluster :: err
  at_fedNamespace :: "string + string"
  at_unmarshal :: err
  at_clusterId :: string
  at_isAttached :: "string + bool"
  at_nsExists :: ns_lookup
  at_syncNs :: err
  at_attachNs :: err
  at_nsPoll :: "nat \<Rightarrow> ns_lookup"
  at_attachNamespaced :: err

text \<open>The result of a job is a panic, or its error. \<open>errors.Wrapf\<close> of a nil error is nil, so an
  empty \<open>cluster_id\<close> is no error.\<close>

definition ensureFedNamespaceAttached :: "AttachEnv \<Rightarrow> err go" where
  "ensureFedNamespaceAttached env =
     (if \<not> at_isNamespace env then Inl NilDereference
      else case at_fedNamespace env of
        Inl e \<Rightarrow> Inr (Some (''get federated namespace: '' @ e))
      | Inr name \<Rightarrow>
          (case at_unmarshal env of
             Some e \<Rightarrow> Inr (Some (''unmarshal params to federated namespace input: '' @ e))
           | None \<Rightarrow>
               if at_clusterId env = [] then Inr None
               else case at_isAttached env of
                 Inl e \<Rightarrow> Inr (Some (''check cluster '' @ at_clusterId env @ '' is attached: '' @ e))
               | Inr True \<Rightarrow>
                   (case at_nsExists env of
                      NsError e \<Rightarrow> Inr (Some (''get cluster '' @ at_clusterId env @ '' namespace '' @ name @ '': '' @ e))
                    | NsNoRows _ \<Rightarrow> Inr (wrap ''perform sync cluster'' (at_syncNs env))
                    | NsFound _ _ \<Rightarrow> Inr None)
               | Inr False \<Rightarrow>
                   Inr (wrap ''perform attach federated namespace to cluster'' (at_attachNs env))))"

text \<open>The polling loop of the job: \<open>Inl\<close> an error, \<open>Inr True\<close> when the namespace became active.\<close>

fun poll_active :: "(nat \<Rightarrow> ns_lookup) \<Rightarrow> nat \<Rightarrow> nat \<Rightarrow> string + bool" where
  "poll_active f i 0 = Inr False"
| "poll_active f i (Suc n) =
     (case f i of
        NsNoRows e \<Rightarrow> Inl e
      | NsError e \<Rightarrow> Inl e
      | NsFound _ st \<Rightarrow> if st = ''Active'' then Inr True else poll_active f (Suc i) n)"

text \<open>The names of the attachments the job has performed, and its result.\<close>

definition FedAttach_proc :: "AttachEnv \<Rightarrow> string list \<times> err go" where
  "FedAttach_proc env =
     (case at_getClusterId env of
        Some e \<Rightarrow> ([], Inr (Some (''get cluster_id from task params: '' @ e)))
      | None \<Rightarrow>
          if \<not> at_isNamespace env \<and> at_attachCluster env \<noteq> None
          then ([], Inr (wrap ''PerformAttachCluster to federated cluster resource'' (at_attachCluster env)))
          else
            (let done = (if at_isNamespace env then [] else [''cluster resource'']) in
             case ensureFedNamespaceAttached env of
               Inl p \<Rightarrow> (done, Inl p)
             | Inr (Some e) \<Rightarrow> (done, Inr (Some (''ensureFedNamespaceAttached: '' @ e)))
             | Inr None \<Rightarrow>
                 (case at_fedNamespace env of
                    Inl e \<Rightarrow> (done, Inr (Some (''get resource related federated namespace: '' @ e)))
                  | Inr name \<Rightarrow>
                      (case poll_active (at_nsPoll env) 0 5 of
                         Inl e \<Rightarrow> (done, Inr (Some (''get cluster '' @ at_clusterId env @ '' namespace '' @ name @ '': '' @ e)))
                       | Inr False \<Rightarrow>
                           (done, Inr (Some (''Wait cluster '' @ at_clusterId env @ '' namespace active timeout'')))
                       | Inr True \<Rightarrow>
                           (case at_attachNamespaced env of
                              Some e \<Rightarrow> (done, Inr (Some (''PerformAttachCluster to federated namespace resource: '' @ e)))
                            | None \<Rightarrow> (done @ [''namespace resource''], Inr None))))))"

text \<open>\<open>LocalTaskRun\<close> recovers from a panic and reports it as an error.\<close>

definition FedAttach_job :: "AttachEnv \<Rightarrow> job" where
  "FedAttach_job env s w =
     (case snd (FedAttach_proc env) of
        Inl p \<Rightarrow> Some ''LocalTaskRun error: invalid memory address or nil pointer dereference''
      | Inr e \<Rightarrow> e, w)"

definition FedAttach_OnInit :: handler where
  "FedAttach_OnInit data w = LocalTaskRun (SetStage ''OnAttachComplete'' w)"

definition OnAttachComplete :: handler where
  "OnAttachComplete data w = SetStageComplete w"

definition OnAttachCompleteFailed :: handler where
  "OnAttachCompleteFailed reason w =
     LogWithStartable ''resource_attach'' False (SetObjectTaskFailed FederatedResourceStatusUpdateFail reason w)"

definition FedResourceAttachClusterTask :: methods where
  "FedResourceAttachClusterTask = map_of
     [((''OnInit'', False), FedAttach_OnInit),
      ((''OnAttachComplete'', False), OnAttachComplete),
      ((''OnAttachComplete'', True), OnAttachCompleteFailed)]"

section \<open>The tasks end\<close>

lemmas ResourceCreate_defs = ClusterResourceCreateTask_def ResourceCreate_OnInit_def OnCreateComplete_def
  OnCreateCompleteFailed_def OnResourceSyncComplete_def OnResourceSyncCompleteFailed_def SetObjectTaskFailed_def

lemmas fed_statuses = FederatedResourceStatusUpdateFail_def FedreatedResourceStatusSyncFail_def

interpretation resource_create: staged "ClusterResourceCreateTask env" "ResourceCreate_job env"
  "rank_in [''OnInit'', ''OnCreateComplete'', ''OnResourceSyncComplete'']"
  "{''OnCreateComplete'', ''OnResourceSyncComplete''}" "\<lambda>w. True" for env
  by unfold_locales
    (auto simp: execITask_def ResourceCreate_defs ResourceCreate_job_def rank_defs Let_def
      resource_statuses intro!: task_intros split: if_splits option.split)

interpretation resource_update: staged ClusterResourceUpdateTask "ResourceUpdate_job env"
  "rank_in [''OnInit'', ''OnUpdateComplete'']" "{''OnUpdateComplete''}"
  "marked ClusterResourceStatusUpdateFail ''resource_update''" for env
  by unfold_locales
    (auto simp: execITask_def ClusterResourceUpdateTask_def ResourceUpdate_OnInit_def ResourceUpdate_job_def
      ResourceUpdate_OnUpdateComplete_def ResourceUpdate_OnUpdateCompleteFailed_def SetObjectTaskFailed_def
      rank_defs resource_statuses intro!: task_intros split: if_splits)

interpretation resource_delete: staged "ClusterResourceDeleteTask env" "ResourceDelete_job env"
  "rank_in [''OnInit'', ''OnDeleteComplete'']" "{''OnDeleteComplete''}"
  "marked ClusterResourceStatusDeleteFail ''resource_delete''" for env
  by unfold_locales
    (auto simp: execITask_def ClusterResourceDeleteTask_def ResourceDelete_OnInit_def ResourceDelete_job_def
      OnDeleteComplete_def OnDeleteCompleteFailed_def SetObjectTaskFailed_def
      rank_defs resource_statuses intro!: task_intros split: if_splits option.split)

interpretation resource_sync: staged ClusterResourceSyncTask "ResourceSync_job env"
  "rank_in [''OnInit'', ''OnSyncComplete'']" "{''OnSyncComplete''}"
  "marked ClusterResourceStatusSyncFail ''resource_sync''" for env
  by unfold_locales
    (auto simp: execITask_def ClusterResourceSyncTask_def ResourceSync_OnInit_def ResourceSync_job_def
      ResourceSync_OnSyncComplete_def ResourceSync_OnSyncCompleteFailed_def SetObjectTaskFailed_def
      rank_defs resource_statuses intro!: task_intros split: if_splits)

interpretation component_deploy: staged "ComponentDeployTask env" "Component_job env"
  "rank_in [''OnInit'', ''OnDeployComplete'']" "{''OnDeployComplete''}"
  "status_marked ComponentStatusDeployFail" for env
  by unfold_locales
    (auto simp: execITask_def ComponentDeployTask_def ComponentDeploy_OnInit_def Component_job_def
      OnDeployComplete_def OnDeployCompleteFailed_def ComponentDeploy_onError_def
      rank_defs intro!: task_intros split: if_splits option.split)

interpretation component_update: staged "ComponentUpdateTask env" "Component_job env"
  "rank_in [''OnInit'', ''OnUpdateComplete'']" "{''OnUpdateComplete''}"
  "status_marked ComponentStatusUpdateFail" for env
  by unfold_locales
    (auto simp: execITask_def ComponentUpdateTask_def ComponentUpdate_OnInit_def Component_job_def
      ComponentUpdate_OnUpdateComplete_def ComponentUpdate_OnUpdateCompleteFailed_def ComponentUpdate_onError_def
      rank_defs intro!: task_intros split: if_splits option.split)

interpretation component_undeploy: staged "ComponentUndeployTask env" no_job "rank_in [''OnInit'']" "{}"
  "status_marked ComponentStatusUndeployFail" for env
  by unfold_locales
    (auto simp: execITask_def ComponentUndeployTask_def ComponentUndeploy_OnInit_def ComponentUndeploy_onError_def
      no_job_def rank_defs intro!: task_intros split: if_splits option.split)

lemma ComponentDelete_staged:
  assumes "co_startUndeploy env = None"
  shows "staged (ComponentDeleteTask env) no_job (rank_in [''OnInit'', ''OnUndeployComplete''])
    {''OnUndeployComplete''} (status_marked ComponentStatusDeleteFail)"
  using assms
  by unfold_locales
    (auto simp: execITask_def ComponentDeleteTask_def ComponentDelete_OnInit_def OnUndeployComplete_def
      OnUndeployCompleteFailed_def ComponentDelete_onError_def no_job_def rank_defs
      intro!: task_intros split: if_splits option.split)

interpretation machine_create: staged "MachineCreateTask env" no_job
  "rank_in [''OnInit'', ''OnMachinePrepared'']" "{''OnMachinePrepared''}"
  "marked MachineStatusCreateFail ''machine_create''" for env
  by unfold_locales
    (auto simp: execITask_def MachineCreateTask_def MachineCreate_OnInit_def RequestPrepareMachine_def
      OnMachinePrepared_def OnMachinePreparedFailed_def MachineCreate_OnError_def no_job_def rank_defs
      intro!: task_intros split: if_splits option.split)

interpretation machine_prepare: staged "MachinePrepareTask env" no_job "rank_in [''OnInit'']" "{}"
  "marked MachineStatusPrepareFail ''machine_prepare''" for env
  by unfold_locales
    (auto simp: execITask_def MachinePrepareTask_def MachinePrepare_OnInit_def MachinePrepare_OnError_def
      no_job_def rank_defs intro!: task_intros split: option.split sum.split)

interpretation machine_terminate: staged "MachineTerminateTask env" no_job "rank_in [''OnInit'']" "{}"
  "status_marked MachineStatusTerminateFail" for env
  by unfold_locales
    (auto simp: execITask_def MachineTerminateTask_def MachineTerminate_OnInit_def MachineTerminate_OnError_def
      no_job_def rank_defs intro!: task_intros split: option.split)

interpretation fed_update: staged "FedResourceUpdateTask startSync" no_job
  "rank_in [''OnInit'', ''OnUpdateComplete'']" "{''OnUpdateComplete''}"
  "\<lambda>w. True" for startSync
  by unfold_locales
    (auto simp: execITask_def FedResourceUpdateTask_def FedUpdate_OnInit_def FedUpdate_OnUpdateComplete_def
      FedUpdate_OnUpdateCompleteFailed_def SetObjectTaskFailed_def no_job_def rank_defs Let_def fed_statuses
      intro!: task_intros split: if_splits option.split)

interpretation fed_sync: staged FedResourceSyncTask "FedSync_job env"
  "rank_in [''OnInit'', ''OnSyncComplete'']" "{''OnSyncComplete''}"
  "marked FedreatedResourceStatusSyncFail ''resource_sync''" for env
  by unfold_locales
    (auto simp: execITask_def FedResourceSyncTask_def FedSync_OnInit_def FedSync_job_def FedSync_loop_eq
      FedSync_OnSyncComplete_def FedSync_OnSyncCompleteFailed_def SetObjectTaskFailed_def
      rank_defs fed_statuses intro!: task_intros split: if_splits sum.splits)

interpretation fed_attach: staged FedResourceAttachClusterTask "FedAttach_job env"
  "rank_in [''OnInit'', ''OnAttachComplete'']" "{''OnAttachComplete''}"
  "marked FederatedResourceStatusUpdateFail ''resource_attach''" for env
  by unfold_locales
    (auto simp: execITask_def FedResourceAttachClusterTask_def FedAttach_OnInit_def FedAttach_job_def
      OnAttachComplete_def OnAttachCompleteFailed_def SetObjectTaskFailed_def
      rank_defs fed_statuses intro!: task_intros split: if_splits)

section \<open>Batches\<close>

text \<open>The children of a stage report one after the other.\<close>

fun reports :: "methods \<Rightarrow> string \<Rightarrow> (string \<times> bool \<times> string) list \<Rightarrow> world \<Rightarrow> world" where
  "reports ms s [] w = w"
| "reports ms s ((name, failed, data) # rs) w = reports ms s rs (child_done ms s name failed data w)"

text \<open>Only the last report counts.\<close>

lemma reports_last:
  assumes "rs \<noteq> []" "Stage w = s" "mset (waiting w) = mset (map (\<lambda>r. WChild s (fst r)) rs)"
  shows "reports ms s rs w = execITask ms (fst (snd (last rs))) (snd (snd (last rs))) (w\<lparr>waiting := []\<rparr>)"
  using assms
proof (induction rs arbitrary: w)
  case (Cons r rs)
  obtain name failed data where r: "r = (name, failed, data)" by (cases r)
  let ?w = "w\<lparr>waiting := remove1 (WChild s name) (waiting w)\<rparr>"
  have m: "mset (waiting ?w) = mset (map (\<lambda>r. WChild s (fst r)) rs)" using Cons.prems(3) r by simp
  show ?case
  proof (cases "rs = []")
    case True
    with m have "mset (waiting ?w) = {#}" by (simp only: list.map mset.simps)
    then have "waiting ?w = []" by (simp only: mset_zero_iff)
    with True r Cons.prems(2) show ?thesis by (simp add: child_done_def pending_children_def)
  next
    case False
    then obtain q rs' where "rs = q # rs'" by (cases rs) auto
    then have "WChild s (fst q) \<in># mset (waiting ?w)" using m by simp
    then have "pending_children s (waiting ?w) \<noteq> []"
      unfolding set_mset_mset
      by (auto simp: pending_children_def filter_empty_conv intro!: bexI [of _ "WChild s (fst q)"])
    then have "child_done ms s name failed data w = ?w" by (simp add: child_done_def)
    with Cons.IH [OF False, of ?w] Cons.prems(2) m r False show ?thesis by simp
  qed
qed simp

text \<open>Reports to a task that left the stage change nothing but what it waits for.\<close>

lemma reports_late:
  assumes "Stage w \<noteq> s" "mset (waiting w) = mset (map (\<lambda>r. WChild s (fst r)) rs)"
  shows "reports ms s rs w = w\<lparr>waiting := []\<rparr>"
  using assms
proof (induction rs arbitrary: w)
  case (Cons r rs)
  obtain name failed data where r: "r = (name, failed, data)" by (cases r)
  let ?w = "w\<lparr>waiting := remove1 (WChild s name) (waiting w)\<rparr>"
  have "mset (waiting ?w) = mset (map (\<lambda>r. WChild s (fst r)) rs)" using Cons.prems(2) r by simp
  from Cons.IH [OF _ this] Cons.prems(1) show ?case by (simp add: r child_done_def)
qed simp

lemma BatchDelete_OnInit_loop_ok:
  assumes "\<forall>m\<in>set ms. bd_startTerminate env m = None"
  shows "BatchDelete_OnInit_loop env ms w = w\<lparr>waiting := waiting w @ map (WChild (Stage w)) ms\<rparr>"
  using assms by (induction ms arbitrary: w) (auto simp: doDelete_def start_child_def)

lemma BatchDelete_delete_ok:
  assumes "\<forall>m\<in>set ms. bd_realDelete env m = None"
  shows "BatchDelete_OnDeleteMachines_loop env ms w = SetStageComplete (w\<lparr>deleted_ids := deleted_ids w @ ms\<rparr>)"
  using assms by (induction ms arbitrary: w) auto

text \<open>The machines whose terminate task was started: those before the first that could not.\<close>

definition terminating :: "BatchDeleteEnv \<Rightarrow> string list" where
  "terminating env = takeWhile (\<lambda>m. bd_startTerminate env m = None) (bd_machines env)"

lemma BatchDelete_OnInit_loop_fails:
  assumes "takeWhile (\<lambda>m. bd_startTerminate env m = None) ms \<noteq> ms"
  shows "\<exists>r. BatchDelete_OnInit_loop env ms w = SetStageFailed r
    (w\<lparr>waiting := waiting w @ map (WChild (Stage w)) (takeWhile (\<lambda>m. bd_startTerminate env m = None) ms)\<rparr>)"
  using assms
proof (induction ms arbitrary: w)
  case (Cons m ms)
  show ?case
  proof (cases "bd_startTerminate env m")
    case None
    with Cons.prems have "takeWhile (\<lambda>m. bd_startTerminate env m = None) ms \<noteq> ms" by simp
    from Cons.IH [OF this, of "w\<lparr>waiting := waiting w @ [WChild (Stage w) m]\<rparr>"] None
    show ?thesis by (simp add: doDelete_def start_child_def)
  qed (auto simp: doDelete_def start_child_def)
qed simp

lemma BatchDelete_delete_finished: "idle w \<Longrightarrow> finished (BatchDelete_OnDeleteMachines_loop env ms w)"
  by (induction ms arbitrary: w) (auto simp: finished_intros idle_def split: option.split)

text \<open>A batch of machines, whichever terminate tasks start and however these and the removals of the
  records end, is over when all children that were started have reported.\<close>

lemma MachineBatchDeleteTask_ends:
  assumes "mset (map fst rs) = mset (terminating env)" "bd_machines env \<noteq> []"
  shows "finished (reports (MachineBatchDeleteTask env) ''OnDeleteMachines'' rs
    (execITask (MachineBatchDeleteTask env) False [] (new_task st)))"
proof -
  let ?s = "''OnDeleteMachines''"
  let ?w = "(new_task st)\<lparr>Stage := ?s, waiting := map (WChild ?s) (terminating env)\<rparr>"
  have "mset (waiting ?w) = image_mset (WChild ?s) (mset (map fst rs))" using assms(1) by simp
  also have "\<dots> = mset (map (\<lambda>r. WChild ?s (fst r)) rs)" by (simp add: image_mset.compositionality o_def)
  finally have m: "mset (waiting ?w) = mset (map (\<lambda>r. WChild ?s (fst r)) rs)" .
  note batch_defs = execITask_def MachineBatchDeleteTask_def BatchDelete_OnInit_def
    BatchDelete_OnDeleteMachines_def BatchDelete_OnDeleteMachinesFailed_def new_task_def rank_defs SetStage_def
  show ?thesis
  proof (cases "terminating env = bd_machines env")
    case True
    then have "\<forall>m\<in>set (bd_machines env). bd_startTerminate env m = None"
      by (simp add: terminating_def takeWhile_eq_all_conv)
    then have init: "execITask (MachineBatchDeleteTask env) False [] (new_task st) = ?w"
      by (simp only: True) (simp add: batch_defs BatchDelete_OnInit_loop_ok)
    have "rs \<noteq> []" using assms True by auto
    then have run: "reports (MachineBatchDeleteTask env) ?s rs ?w =
        execITask (MachineBatchDeleteTask env) (fst (snd (last rs))) (snd (snd (last rs))) (?w\<lparr>waiting := []\<rparr>)"
      by (intro reports_last m) simp_all
    have "idle (?w\<lparr>waiting := []\<rparr>)" by (simp add: idle_def new_task_def task_stages)
    then have "finished (execITask (MachineBatchDeleteTask env) failed data (?w\<lparr>waiting := []\<rparr>))" for failed data
      by (cases failed) (simp_all add: execITask_def MachineBatchDeleteTask_def BatchDelete_OnDeleteMachines_def
          BatchDelete_OnDeleteMachinesFailed_def rank_defs finished_intros BatchDelete_delete_finished)
    then show ?thesis by (simp only: init run)
  next
    case False
    then obtain r where init: "execITask (MachineBatchDeleteTask env) False [] (new_task st) = SetStageFailed r ?w"
      using BatchDelete_OnInit_loop_fails [of env "bd_machines env" "(new_task st)\<lparr>Stage := ?s\<rparr>"]
      by (auto simp: batch_defs terminating_def)
    have "reports (MachineBatchDeleteTask env) ?s rs (SetStageFailed r ?w) = (SetStageFailed r ?w)\<lparr>waiting := []\<rparr>"
      by (rule reports_late) (use m in \<open>simp_all add: engine_defs task_stages\<close>)
    then show ?thesis by (simp only: init) (simp add: finished_def engine_defs task_stages new_task_def)
  qed
qed

lemma MachineBatchDeleteTask_empty:
  assumes "mset (map fst rs) = mset (terminating env)" "bd_machines env = []"
  shows "stuck (reports (MachineBatchDeleteTask env) ''OnDeleteMachines'' rs
    (execITask (MachineBatchDeleteTask env) False [] (new_task st)))"
  using assms
  by (simp add: terminating_def stuck_def execITask_def MachineBatchDeleteTask_def BatchDelete_OnInit_def
      new_task_def rank_defs SetStage_def)

text \<open>When the undeploy task cannot be started its error is dropped: the deletion of the component
  waits for nothing.\<close>

lemma ComponentDeleteTask_stuck:
  assumes "co_startUndeploy env \<noteq> None"
  shows "stuck (run_task (ComponentDeleteTask env) no_job rs (new_task st))"
proof -
  have "stuck (execITask (ComponentDeleteTask env) False [] (new_task st))"
    using assms by (auto simp: stuck_def execITask_def ComponentDeleteTask_def ComponentDelete_OnInit_def
        new_task_def rank_defs engine_defs)
  then show ?thesis by (simp add: run_task_def stuck_stays)
qed

section \<open>What the tasks guarantee\<close>


definition component_env :: ComponentEnv where
  "component_env = \<lparr>co_cluster = None, co_driver = None, co_settings = None, co_do = Some ''timeout'',
     co_startUndeploy = None, co_delete = None\<rparr>"

definition batch_env :: BatchDeleteEnv where
  "batch_env = \<lparr>bd_machines = [''m1'', ''m2'', ''m3''],
     bd_startTerminate = (\<lambda>m. if m = ''m3'' then Some ''db down'' else None), bd_realDelete = (\<lambda>_. None)\<rparr>"


text \<open>The record of a Kubernetes resource is removed only after the resource was deleted in its
  cluster; when either fails the record stays, marked \<open>delete_fail\<close>.\<close>

theorem ClusterResourceDeleteTask_outcome:
  assumes "2 \<le> length rs"
  shows "let w = run_task (ClusterResourceDeleteTask env) (ResourceDelete_job env) rs (new_task st) in
    finished w \<and> (obj_deleted w \<longleftrightarrow> re_remote env = None \<and> re_realDelete env = None) \<and>
    (\<not> obj_deleted w \<longrightarrow> Stage w = TASK_STAGE_FAILED \<and> obj_status w = ClusterResourceStatusDeleteFail \<and>
       last (logs w) = (''resource_delete'', False))"
proof -
  let ?w = "run_task (ClusterResourceDeleteTask env) (ResourceDelete_job env) rs (new_task st)"
  have fin: "finished ?w \<and> marked ClusterResourceStatusDeleteFail ''resource_delete'' ?w"
    by (rule resource_delete.task_ends) (use assms in \<open>simp add: rank_defs\<close>)
  obtain f d rs' where rs: "rs = (f, d) # rs'" using assms by (cases rs) auto
  have "(obj_deleted ?w \<longleftrightarrow> re_remote env = None \<and> re_realDelete env = None) \<and>
      (\<not> obj_deleted ?w \<longrightarrow> Stage ?w = TASK_STAGE_FAILED)"
    unfolding rs
    by (cases "re_remote env"; cases "re_realDelete env"; cases rs')
      (auto simp: run_task_def execITask_def ClusterResourceDeleteTask_def ResourceDelete_OnInit_def
        ResourceDelete_job_def OnDeleteComplete_def OnDeleteCompleteFailed_def SetObjectTaskFailed_def wrap_def
        new_task_def rank_defs engine_defs local_done_def resource_statuses)
  with fin show ?thesis by (simp add: marked_def Let_def)
qed

theorem ClusterResourceDeleteTask_outcome_witness:
  "let env = \<lparr>re_logPrefix = ''pod'', re_remote = Some ''forbidden'', re_startSync = None, re_realDelete = None\<rparr> in
   \<not> obj_deleted (run_task (ClusterResourceDeleteTask env) (ResourceDelete_job env) [(False, []), (False, [])]
     (new_task ''deleting''))"
  using ClusterResourceDeleteTask_outcome [of "[(False, []), (False, [])]" "\<lparr>re_logPrefix = ''pod'',
      re_remote = Some ''forbidden'', re_startSync = None, re_realDelete = None\<rparr>" "''deleting''"]
  by (simp add: Let_def)

subsection \<open>Deleting machines in a batch\<close>

text \<open>A batch deletion of machines judges by the terminate task that reports last. When that one
  succeeds, the records of all machines of the batch are removed, also of those whose
  terminate task failed, and the batch is reported as complete; when it fails, none is removed.\<close>

theorem batch_delete_judges_by_last:
  assumes "bd_machines env = ms" "ms \<noteq> []"
    and "\<forall>m\<in>set ms. bd_startTerminate env m = None \<and> bd_realDelete env m = None"
    and "mset (map fst rs) = mset ms"
  shows "let w = reports (MachineBatchDeleteTask env) ''OnDeleteMachines'' rs
             (execITask (MachineBatchDeleteTask env) False [] (new_task st)) in
    finished w \<and> deleted_ids w = (if fst (snd (last rs)) then [] else ms) \<and>
    (Stage w = TASK_STAGE_FAILED \<longleftrightarrow> fst (snd (last rs)))"
proof -
  let ?s = "''OnDeleteMachines''"
  let ?w = "(new_task st)\<lparr>Stage := ?s, waiting := map (WChild ?s) ms\<rparr>"
  have init: "execITask (MachineBatchDeleteTask env) False [] (new_task st) = ?w"
    using assms(1,3) by (simp add: execITask_def MachineBatchDeleteTask_def BatchDelete_OnInit_def new_task_def
        rank_defs SetStage_def BatchDelete_OnInit_loop_ok)
  have ne: "rs \<noteq> []" using assms(2,4) by auto
  have "mset (waiting ?w) = image_mset (WChild ?s) (mset (map fst rs))" using assms(4) by simp
  also have "\<dots> = mset (map (\<lambda>r. WChild ?s (fst r)) rs)" by (simp add: image_mset.compositionality o_def)
  finally have run: "reports (MachineBatchDeleteTask env) ?s rs ?w =
      execITask (MachineBatchDeleteTask env) (fst (snd (last rs))) (snd (snd (last rs))) (?w\<lparr>waiting := []\<rparr>)"
    by (intro reports_last ne) simp_all
  show ?thesis
    unfolding init run using assms(1,3)
    by (cases "fst (snd (last rs))") (auto simp: execITask_def MachineBatchDeleteTask_def
        BatchDelete_OnDeleteMachines_def BatchDelete_OnDeleteMachinesFailed_def BatchDelete_delete_ok
        new_task_def rank_defs engine_defs finished_def)
qed

theorem batch_delete_judges_by_last_witness:
  "let env = \<lparr>bd_machines = [''m1'', ''m2''], bd_startTerminate = (\<lambda>_. None), bd_realDelete = (\<lambda>_. None)\<rparr>;
       w = reports (MachineBatchDeleteTask env) ''OnDeleteMachines'' [(''m1'', True, ''no permission''), (''m2'', False, [])]
             (execITask (MachineBatchDeleteTask env) False [] (new_task ''deleting''))
   in deleted_ids w = [''m1'', ''m2''] \<and> Stage w = TASK_STAGE_COMPLETE"
proof -
  let ?env = "\<lparr>bd_machines = [''m1'', ''m2''], bd_startTerminate = (\<lambda>_. None), bd_realDelete = (\<lambda>_. None)\<rparr>"
  let ?rs = "[(''m1'', True, ''no permission''), (''m2'', False, [])]"
  from batch_delete_judges_by_last [of ?env "[''m1'', ''m2'']" ?rs "''deleting''"]
  show ?thesis by (auto simp: Let_def finished_def)
qed

subsection \<open>Federated resources\<close>

text \<open>Synchronising a federated resource goes through all attached clusters in order, also
  after one of them failed, and ends as \<open>active\<close> when they could be listed: the errors of
  single clusters do not show in the status, only a failure of the list does.\<close>

theorem FedResourceSyncTask_status:
  assumes "2 \<le> length rs"
  shows "let w = run_task FedResourceSyncTask (FedSync_job env) rs (new_task st) in
    finished w \<and>
    (case fs_attached env of
       Inl _ \<Rightarrow> obj_status w = FedreatedResourceStatusSyncFail \<and> calls w = []
     | Inr cs \<Rightarrow> obj_status w = FederatedResourceStatusActive \<and>
         calls w = map (\<lambda>c. (c, fs_syncCluster env c)) cs)"
proof -
  let ?w = "run_task FedResourceSyncTask (FedSync_job env) rs (new_task st)"
  have "finished ?w" using fed_sync.task_ends [of rs env st] assms by (simp add: rank_defs)
  moreover obtain f d rs' where rs: "rs = (f, d) # rs'" using assms by (cases rs) auto
  have "case fs_attached env of
       Inl _ \<Rightarrow> obj_status ?w = FedreatedResourceStatusSyncFail \<and> calls ?w = []
     | Inr cs \<Rightarrow> obj_status ?w = FederatedResourceStatusActive \<and>
         calls ?w = map (\<lambda>c. (c, fs_syncCluster env c)) cs"
    unfolding rs
    by (cases "fs_attached env"; cases rs')
      (auto simp: run_task_def execITask_def FedResourceSyncTask_def FedSync_OnInit_def FedSync_job_def
        FedSync_loop_eq FedSync_OnSyncComplete_def FedSync_OnSyncCompleteFailed_def SetObjectTaskFailed_def
        new_task_def rank_defs engine_defs local_done_def fed_statuses)
  ultimately show ?thesis by (simp add: Let_def)
qed

theorem FedResourceSyncTask_status_witness:
  "let env = \<lparr>fs_attached = Inr [''c1''], fs_syncCluster = (\<lambda>_. Some ''unreachable'')\<rparr> in
   obj_status (run_task FedResourceSyncTask (FedSync_job env) [(False, []), (False, [])] (new_task ''syncing''))
     = FederatedResourceStatusActive"
  using FedResourceSyncTask_status [of "[(False, []), (False, [])]"
      "\<lparr>fs_attached = Inr [''c1''], fs_syncCluster = (\<lambda>_. Some ''unreachable'')\<rparr>" "''syncing''"]
  by (simp add: Let_def)

lemma poll_active_True:
  "poll_active f i n = Inr True \<Longrightarrow> \<exists>k < n. \<exists>j. f (i + k) = NsFound j ''Active''"
proof (induction n arbitrary: i)
  case (Suc n)
  show ?case
  proof (cases "\<exists>j. f i = NsFound j ''Active''")
    case True
    then show ?thesis by (intro exI [of _ 0]) simp
  next
    case False
    with Suc.prems have "poll_active f (Suc i) n = Inr True"
      by (auto split: ns_lookup.splits if_splits)
    from Suc.IH [OF this] obtain k j where "k < n" "f (Suc i + k) = NsFound j ''Active''" by blast
    then show ?thesis by (intro exI [of _ "Suc k"]) auto
  qed
qed simp

text \<open>A resource of a federated namespace is attached to a cluster only after its namespace was
  seen active there, within five polls; the job succeeds in exactly that case.\<close>

theorem attach_waits_for_namespace:
  assumes "at_isNamespace env"
  shows "(fst (FedAttach_proc env) = [''namespace resource''] \<longleftrightarrow> snd (FedAttach_proc env) = Inr None) \<and>
    (snd (FedAttach_proc env) = Inr None \<longrightarrow> (\<exists>k < 5. \<exists>j. at_nsPoll env k = NsFound j ''Active''))"
proof
  show "fst (FedAttach_proc env) = [''namespace resource''] \<longleftrightarrow> snd (FedAttach_proc env) = Inr None"
    using assms by (auto simp: FedAttach_proc_def Let_def split: option.splits sum.splits bool.splits)
  have "poll_active (at_nsPoll env) 0 5 = Inr True" if "snd (FedAttach_proc env) = Inr None"
    using that assms by (auto simp: FedAttach_proc_def Let_def split: option.splits sum.splits bool.splits)
  then show "snd (FedAttach_proc env) = Inr None \<longrightarrow> (\<exists>k < 5. \<exists>j. at_nsPoll env k = NsFound j ''Active'')"
    using poll_active_True [of "at_nsPoll env" 0 5] by simp
qed

definition attach_env :: AttachEnv where
  "attach_env = \<lparr>at_getClusterId = None, at_isNamespace = True, at_attachCluster = None,
     at_fedNamespace = Inr ''web'', at_unmarshal = None, at_clusterId = ''c1'', at_isAttached = Inr False,
     at_nsExists = NsNoRows ''none'', at_syncNs = None, at_attachNs = None,
     at_nsPoll = (\<lambda>i. NsFound ''n1'' (if i < 2 then ''creating'' else ''Active'')), at_attachNamespaced = None\<rparr>"

theorem attach_waits_for_namespace_witness:
  "fst (FedAttach_proc attach_env) = [''namespace resource''] \<and>
   (\<exists>k < 5. \<exists>j. at_nsPoll attach_env k = NsFound j ''Active'')"
proof -
  have "snd (FedAttach_proc attach_env) = Inr None"
    by (simp add: FedAttach_proc_def ensureFedNamespaceAttached_def attach_env_def wrap_def eval_nat_numeral)
  with attach_waits_for_namespace [of attach_env] show ?thesis by (simp add: attach_env_def)
qed

text \<open>The branch for cluster-scoped resources cannot succeed: it attaches the resource and then
  goes on with the nil namespace object, so the job panics and the task is reported failed
  with the attachment in place.\<close>

theorem attach_cluster_resource_panics:
  assumes "\<not> at_isNamespace env" "at_getClusterId env = None" "at_attachCluster env = None"
  shows "FedAttach_proc env = ([''cluster resource''], Inl NilDereference)"
  using assms by (simp add: FedAttach_proc_def ensureFedNamespaceAttached_def)

theorem attach_cluster_resource_panics_witness:
  "FedAttach_proc (attach_env\<lparr>at_isNamespace := False\<rparr>) = ([''cluster resource''], Inl NilDereference)"
  by (rule attach_cluster_resource_panics) (simp_all add: attach_env_def)

end
