(* ===== verification/CompareSets.thy ===== *)
theory CompareSets
  imports Prelude
begin

text \<open>
  The comparison of the records of a cluster's resources with what the cluster reports,
  src/pkg/models/compare.go: both sides are sorted by key (with \<open>sort.Sort\<close>, so any \<open>go_sort\<close>)
  and merged into those to remove, to update and to add. The result is shown to be the
  matching that the synchronisation of a cluster needs.
\<close>

text \<open>A \<open>valueElement\<close>: the key and the value.\<close>

record 'v valueElement =
  ve_key :: string
  ve_value :: 'v

text \<open>\<open>None\<close> stands for an argument that is not a slice.\<close>

definition valueSet2Array :: "'v list option \<Rightarrow> ('v \<Rightarrow> string) \<Rightarrow> string + 'v valueElement list" where
  "valueSet2Array dbSet fieldFunc =
     (case dbSet of
        None \<Rightarrow> Inl ''input set is not a slice''
      | Some vs \<Rightarrow> Inr (map (\<lambda>v. \<lparr>ve_key = fieldFunc v, ve_value = v\<rparr>) vs))"

definition valueSet_Less :: "'v valueElement \<Rightarrow> 'v valueElement \<Rightarrow> bool go" where
  "valueSet_Less a b = Inr (strings_Compare (ve_key a) (ve_key b) < 0)"

record ('l, 'r) comparison =
  removed :: "'l list"
  commonDB :: "'l list"
  commonExt :: "'r list"
  added :: "'r list"

text \<open>The loop, on what is left of both arrays.\<close>

function compare_loop ::
  "'l valueElement list \<Rightarrow> 'r valueElement list \<Rightarrow> ('l, 'r) comparison \<Rightarrow> ('l, 'r) comparison" where
  "compare_loop [] [] acc = acc"
| "compare_loop (d # ds) (e # es) acc =
     (let cmp = strings_Compare (ve_key d) (ve_key e) in
      if cmp = 0
      then compare_loop ds es (acc\<lparr>commonDB := commonDB acc @ [ve_value d], commonExt := commonExt acc @ [ve_value e]\<rparr>)
      else if cmp < 0 then compare_loop ds (e # es) (acc\<lparr>removed := removed acc @ [ve_value d]\<rparr>)
      else compare_loop (d # ds) es (acc\<lparr>added := added acc @ [ve_value e]\<rparr>))"
| "compare_loop [] (e # es) acc = compare_loop [] es (acc\<lparr>added := added acc @ [ve_value e]\<rparr>)"
| "compare_loop (d # ds) [] acc = compare_loop ds [] (acc\<lparr>removed := removed acc @ [ve_value d]\<rparr>)"
  by pat_completeness auto
termination by (relation "measure (\<lambda>(ds, es, _). length ds + length es)") auto

definition CompareSetsByFunc ::
  "'l valueElement go_sorter \<Rightarrow> 'r valueElement go_sorter \<Rightarrow> 'l list option \<Rightarrow> ('l \<Rightarrow> string) \<Rightarrow>
   'r list option \<Rightarrow> ('r \<Rightarrow> string) \<Rightarrow> ('l, 'r) comparison \<Rightarrow> (string + ('l, 'r) comparison) go" where
  "CompareSetsByFunc srt1 srt2 localObjs getExternalId extObjs getGlobalId acc =
     (case valueSet2Array localObjs getExternalId of
        Inl e \<Rightarrow> Inr (Inl (''Get local objects: '' @ e))
      | Inr dbSet \<Rightarrow>
          (case valueSet2Array extObjs getGlobalId of
             Inl e \<Rightarrow> Inr (Inl (''Get remote objects: '' @ e))
           | Inr extSet \<Rightarrow>
               gbind (srt1 valueSet_Less dbSet) (\<lambda>ds.
               gbind (srt2 valueSet_Less extSet) (\<lambda>es.
                 Inr (Inr (compare_loop ds es acc))))))"

definition CompareRemoteObjectSets ::
  "'l valueElement go_sorter \<Rightarrow> 'r valueElement go_sorter \<Rightarrow> ('l \<Rightarrow> string) \<Rightarrow> 'l list \<Rightarrow>
   'r list \<Rightarrow> ('r \<Rightarrow> string) \<Rightarrow> ('l, 'r) comparison \<Rightarrow> (string + ('l, 'r) comparison) go" where
  "CompareRemoteObjectSets srt1 srt2 getExternalId localObjs extObjs getGlobalId acc =
     CompareSetsByFunc srt1 srt2 (Some localObjs) getExternalId (Some extObjs) getGlobalId acc"

definition no_comparison :: "('l, 'r) comparison" where
  "no_comparison = \<lparr>removed = [], commonDB = [], commonExt = [], added = []\<rparr>"

section \<open>The merge\<close>

lemma compare_loop_mset:
  "mset (removed (compare_loop ds es acc)) + mset (commonDB (compare_loop ds es acc)) =
     mset (removed acc) + mset (commonDB acc) + mset (map ve_value ds)"
  "mset (added (compare_loop ds es acc)) + mset (commonExt (compare_loop ds es acc)) =
     mset (added acc) + mset (commonExt acc) + mset (map ve_value es)"
  by (induction ds es acc rule: compare_loop.induct) (simp_all add: Let_def)

lemma compare_loop_keys:
  assumes "\<forall>d\<in>set ds. ve_key d = kl (ve_value d)" "\<forall>e\<in>set es. ve_key e = kr (ve_value e)"
    and "map kl (commonDB acc) = map kr (commonExt acc)"
  shows "map kl (commonDB (compare_loop ds es acc)) = map kr (commonExt (compare_loop ds es acc))"
  using assms by (induction ds es acc rule: compare_loop.induct) (simp_all add: Let_def)

text \<open>How often a key occurs.\<close>

definition occurs :: "('a \<Rightarrow> string) \<Rightarrow> string \<Rightarrow> 'a list \<Rightarrow> nat" where
  "occurs f k xs = count (mset (map f xs)) k"

lemma occurs_simps [simp]:
  "occurs f k [] = 0"
  "occurs f k (x # xs) = (if f x = k then Suc (occurs f k xs) else occurs f k xs)"
  "occurs f k (xs @ ys) = occurs f k xs + occurs f k ys"
  by (simp_all add: occurs_def)

lemma occurs_0: "(\<And>x. x \<in> set xs \<Longrightarrow> f x \<noteq> k) \<Longrightarrow> occurs f k xs = 0"
  by (induction xs) auto

lemma occurs_cong_mset: "mset xs = mset ys \<Longrightarrow> occurs f k xs = occurs f k ys"
  by (simp add: occurs_def)

lemma compare_loop_count:
  assumes "sorted_wrt (\<lambda>a b. ve_key a \<le> ve_key b) ds" "sorted_wrt (\<lambda>a b. ve_key a \<le> ve_key b) es"
    and "\<forall>d\<in>set ds. ve_key d = kl (ve_value d)"
  shows "occurs kl k (commonDB (compare_loop ds es acc)) =
    occurs kl k (commonDB acc) + min (occurs ve_key k ds) (occurs ve_key k es)"
  using assms
proof (induction ds es acc rule: compare_loop.induct)
  case (2 d ds e es acc)
  have e: "occurs ve_key (ve_key d) (e # es) = 0" if "ve_key d < ve_key e"
    by (rule occurs_0) (use that "2.prems"(2) in fastforce)
  have d: "occurs ve_key (ve_key e) (d # ds) = 0" if "ve_key e < ve_key d"
    by (rule occurs_0) (use that "2.prems"(1) in fastforce)
  consider "ve_key d = ve_key e" | "ve_key d < ve_key e" | "ve_key e < ve_key d" by fastforce
  then show ?case
  proof cases
    case 1
    then show ?thesis using "2.IH"(1) "2.prems" by (auto simp: Let_def)
  next
    case 2
    then show ?thesis using "2.IH"(2) "2.prems" e by (auto simp: Let_def)
  next
    case 3
    then have "\<not> ve_key d < ve_key e" "ve_key d \<noteq> ve_key e" by auto
    then show ?thesis using "2.IH"(3) "2.prems" d 3 by (auto simp: Let_def)
  qed
qed simp_all

section \<open>The contract of the comparison\<close>

lemma valueSet_Less_decides: "decides_on A valueSet_Less (\<lambda>a b. ve_key a < ve_key b)"
  by (simp add: decides_on_def valueSet_Less_def)

lemma key_strict_weak: "strict_weak_on A (\<lambda>a b. ve_key a < ve_key b)"
  by (intro strict_weak_onI) auto

lemma sort_valueSet:
  assumes "go_sort srt"
  obtains ys where "srt valueSet_Less xs = Inr ys" "mset ys = mset xs" "sorted_wrt (\<lambda>a b. ve_key a \<le> ve_key b) ys"
proof -
  from go_sort.sort_ok [OF assms valueSet_Less_decides key_strict_weak, of xs]
  obtain ys where "srt valueSet_Less xs = Inr ys" "mset ys = mset xs"
    "sorted_wrt (\<lambda>a b. \<not> ve_key b < ve_key a) ys" by blast
  then show ?thesis by (intro that [of ys]) (simp_all add: not_less)
qed

lemma compare_splits:
  fixes loc :: "'l list" and ext :: "'r list"
  assumes "go_sort srt1" "go_sort srt2"
  shows "\<exists>c. CompareRemoteObjectSets srt1 srt2 kl loc ext kr no_comparison = Inr (Inr c) \<and>
    mset (removed c) + mset (commonDB c) = mset loc \<and>
    mset (added c) + mset (commonExt c) = mset ext \<and>
    map kl (commonDB c) = map kr (commonExt c) \<and>
    (\<forall>k. occurs kl k (commonDB c) = min (occurs kl k loc) (occurs kr k ext))"
proof -
  let ?d = "map (\<lambda>v. \<lparr>ve_key = kl v, ve_value = v\<rparr>) loc" and ?e = "map (\<lambda>v. \<lparr>ve_key = kr v, ve_value = v\<rparr>) ext"
  obtain ds where ds: "srt1 valueSet_Less ?d = Inr ds" "mset ds = mset ?d"
    "sorted_wrt (\<lambda>a b. ve_key a \<le> ve_key b) ds" by (rule sort_valueSet [OF assms(1)])
  obtain es where es: "srt2 valueSet_Less ?e = Inr es" "mset es = mset ?e"
    "sorted_wrt (\<lambda>a b. ve_key a \<le> ve_key b) es" by (rule sort_valueSet [OF assms(2)])
  have kd: "\<forall>d\<in>set ds. ve_key d = kl (ve_value d)" using mset_eq_setD [OF ds(2)] by auto
  have ke: "\<forall>e\<in>set es. ve_key e = kr (ve_value e)" using mset_eq_setD [OF es(2)] by auto
  have vd: "mset (map ve_value ds) = mset loc" using arg_cong [OF ds(2), of "image_mset ve_value"]
    by (simp add: image_mset.compositionality o_def)
  have ve: "mset (map ve_value es) = mset ext" using arg_cong [OF es(2), of "image_mset ve_value"]
    by (simp add: image_mset.compositionality o_def)
  have od: "occurs ve_key k ds = occurs kl k loc" for k
    using occurs_cong_mset [OF ds(2), of ve_key k] by (simp add: occurs_def o_def)
  have oe: "occurs ve_key k es = occurs kr k ext" for k
    using occurs_cong_mset [OF es(2), of ve_key k] by (simp add: occurs_def o_def)
  let ?c = "compare_loop ds es no_comparison"
  have "CompareRemoteObjectSets srt1 srt2 kl loc ext kr no_comparison = Inr (Inr ?c)"
    using ds(1) es(1) by (simp add: CompareRemoteObjectSets_def CompareSetsByFunc_def valueSet2Array_def)
  moreover have "map kl (commonDB ?c) = map kr (commonExt ?c)"
    by (rule compare_loop_keys [OF kd ke]) (simp add: no_comparison_def)
  moreover have "occurs kl k (commonDB ?c) = min (occurs kl k loc) (occurs kr k ext)" for k
    using compare_loop_count [OF ds(3) es(3) kd, of k no_comparison] by (simp add: no_comparison_def od oe)
  ultimately show ?thesis
    using compare_loop_mset [of ds es no_comparison] vd ve
    by (intro exI [of _ ?c]) (simp add: no_comparison_def del: mset_map)
qed

text \<open>C30: comparing the records with the remote objects never fails or panics and splits both sides
  exactly: every record is either to be removed or matched, every remote object either to be
  added or matched, matched pairs have the same key, and a key with \<open>m\<close> records and \<open>n\<close> remote
  objects has \<open>min m n\<close> matches, so a record is removed only if its key has no partner left.\<close>

theorem CompareRemoteObjectSets_splits:
  fixes loc :: "'l list" and ext :: "'r list"
  assumes "go_sort srt1" "go_sort srt2"
  shows "\<exists>c. CompareRemoteObjectSets srt1 srt2 kl loc ext kr no_comparison = Inr (Inr c) \<and>
    mset (removed c) + mset (commonDB c) = mset loc \<and>
    mset (added c) + mset (commonExt c) = mset ext \<and>
    map kl (commonDB c) = map kr (commonExt c) \<and>
    (\<forall>k. occurs kl k (commonDB c) = min (occurs kl k loc) (occurs kr k ext))"
  using compare_splits [OF assms] .

theorem CompareRemoteObjectSets_splits_witness:
  "\<exists>c. CompareRemoteObjectSets insertionSort insertionSort id [''b'', ''a''] [''c'', ''b''] id no_comparison = Inr (Inr c) \<and>
     mset (removed c) + mset (commonDB c) = {#''b'', ''a''#} \<and> occurs id ''b'' (commonDB c) = 1"
  using CompareRemoteObjectSets_splits [OF insertion.go_sort_axioms insertion.go_sort_axioms,
      of id "[''b'', ''a'']" "[''c'', ''b'']" id]
  by fastforce

end
