(* ===== verification/SyncStatus.thy ===== *)
theory SyncStatus
  imports Prelude
begin

text \<open>
  The synchronisation status of a cluster, src/pkg/models/k8ssync.go. Times are nanoseconds since
  the zero time, so \<open>0\<close> is \<open>time.Time{}\<close>; a database update is given by the error it meets, and
  leaves the stored record alone when it fails.
\<close>

definition K8S_SYNC_STATUS_QUEUED :: string where "K8S_SYNC_STATUS_QUEUED = ''queued''"
definition K8S_SYNC_STATUS_SYNCING :: string where "K8S_SYNC_STATUS_SYNCING = ''syncing''"
definition K8S_SYNC_STATUS_IDLE :: string where "K8S_SYNC_STATUS_IDLE = ''idle''"
definition K8S_SYNC_STATUS_ERROR :: string where "K8S_SYNC_STATUS_ERROR = ''error''"

lemmas sync_status_defs = K8S_SYNC_STATUS_QUEUED_def K8S_SYNC_STATUS_SYNCING_def K8S_SYNC_STATUS_IDLE_def
  K8S_SYNC_STATUS_ERROR_def

record SSyncableK8sBaseResource =
  SyncStatus :: string
  SyncMessage :: string
  LastSync :: int
  LastSyncEndAt :: int

definition time_Minute :: int where "time_Minute = 60 * 1000000000"

text \<open>\<open>time.Now().Sub(t)\<close> saturates at the bounds of a duration, an int64.\<close>

definition time_Sub :: "int \<Rightarrow> int \<Rightarrow> int" where
  "time_Sub t u = max (- (2 ^ 63)) (min (2 ^ 63 - 1) (t - u))"

definition CanSync :: "int \<Rightarrow> SSyncableK8sBaseResource \<Rightarrow> bool" where
  "CanSync now self =
     (if SyncStatus self = K8S_SYNC_STATUS_QUEUED \<or> SyncStatus self = K8S_SYNC_STATUS_SYNCING
      then (if LastSync self = 0 \<or> time_Sub now (LastSync self) > 30 * time_Minute then True else False)
      else True)"

definition SetSyncStatus :: "string \<Rightarrow> SSyncableK8sBaseResource \<Rightarrow> SSyncableK8sBaseResource" where
  "SetSyncStatus status self = self\<lparr>SyncStatus := status\<rparr>"

definition SetLastSync :: "int \<Rightarrow> SSyncableK8sBaseResource \<Rightarrow> SSyncableK8sBaseResource" where
  "SetLastSync syncTime self = self\<lparr>LastSync := syncTime\<rparr>"

definition SetLastSyncEndAt :: "int \<Rightarrow> SSyncableK8sBaseResource \<Rightarrow> SSyncableK8sBaseResource" where
  "SetLastSyncEndAt endAt self = self\<lparr>LastSyncEndAt := endAt\<rparr>"

definition SetSyncMessage :: "string \<Rightarrow> SSyncableK8sBaseResource \<Rightarrow> SSyncableK8sBaseResource" where
  "SetSyncMessage msg self = self\<lparr>SyncMessage := msg\<rparr>"

text \<open>\<open>db.Update\<close> with a function that cannot fail.\<close>

definition db_Update :: "string option \<Rightarrow> ('a \<Rightarrow> 'a) \<Rightarrow> 'a \<Rightarrow> 'a \<times> string option" where
  "db_Update upd f obj = (case upd of Some e \<Rightarrow> (obj, Some e) | None \<Rightarrow> (f obj, None))"

definition SaveSyncMessage ::
  "string option \<Rightarrow> string \<Rightarrow> SSyncableK8sBaseResource \<Rightarrow> SSyncableK8sBaseResource" where
  "SaveSyncMessage upd msg obj = fst (db_Update upd (SetSyncMessage msg) obj)"

definition MarkSyncing ::
  "string option \<Rightarrow> int \<Rightarrow> SSyncableK8sBaseResource \<Rightarrow> SSyncableK8sBaseResource \<times> string option" where
  "MarkSyncing upd now obj =
     (let (obj', err) = db_Update upd
            (\<lambda>o'. SetLastSyncEndAt 0 (SetLastSync now (SetSyncStatus K8S_SYNC_STATUS_SYNCING o'))) obj
      in (obj', errors_Wrap ''failed to MarkSyncing'' err))"

definition MarkEndSync ::
  "string option \<Rightarrow> int \<Rightarrow> SSyncableK8sBaseResource \<Rightarrow> SSyncableK8sBaseResource \<times> string option" where
  "MarkEndSync upd now obj =
     (let (obj', err) = db_Update upd
            (\<lambda>o'. SetSyncMessage [] (SetLastSyncEndAt now (SetSyncStatus K8S_SYNC_STATUS_IDLE o'))) obj
      in (obj', errors_Wrap ''MarkEndSync'' err))"

text \<open>The second test is of the error passed in, whose message was already taken.\<close>

definition MarkErrorSync ::
  "string option \<Rightarrow> string option \<Rightarrow> SSyncableK8sBaseResource \<Rightarrow> (SSyncableK8sBaseResource \<times> string option) go" where
  "MarkErrorSync upd err obj =
     (case err of
        None \<Rightarrow> Inl NilDereference
      | Some msg \<Rightarrow>
          let (obj', updateErr) = db_Update upd (\<lambda>o'. SetSyncMessage msg (SetSyncStatus K8S_SYNC_STATUS_ERROR o')) obj
          in Inr (obj', errors_Wrap ''MarkErrorSync'' updateErr))"

lemmas sync_mark_defs = MarkSyncing_def MarkEndSync_def MarkErrorSync_def db_Update_def SetSyncStatus_def
  SetLastSync_def SetLastSyncEndAt_def SetSyncMessage_def SaveSyncMessage_def

text \<open>A cluster marked as syncing refuses another synchronisation for thirty minutes and takes one
  after that; marking the end or an error makes it ready at once.\<close>

theorem CanSync_after_marks:
  assumes "0 < t" "t \<le> now" "now - t < 2 ^ 63"
  shows "(CanSync now (fst (MarkSyncing None t obj)) \<longleftrightarrow> now - t > 30 * time_Minute) \<and>
    CanSync now (fst (MarkEndSync None t' obj)) \<and>
    (\<exists>o'. MarkErrorSync None (Some msg) obj = Inr (o', None) \<and> CanSync now o')"
  using assms by (auto simp: CanSync_def sync_mark_defs sync_status_defs time_Sub_def)

theorem CanSync_after_marks_witness:
  "\<not> CanSync (5 * time_Minute) (fst (MarkSyncing None (2 * time_Minute)
       \<lparr>SyncStatus = ''idle'', SyncMessage = [], LastSync = 0, LastSyncEndAt = 0\<rparr>))"
  using CanSync_after_marks [of "2 * time_Minute" "5 * time_Minute"] by (simp add: time_Minute_def)

end
