(* ===== verification/ClusterSync.thy ===== *)
theory ClusterSync
  imports CompareSets SyncStatus
begin

text \<open>
  The synchronisation of a cluster's resources into the database: clusterresource.go,
  namespaceresource.go and cluster_api.go of src/pkg/models, for managers of resources that belong to
  a cluster and for managers of resources that belong to a namespace; the methods the two kinds
  override are chosen by the scope in the environment. A table is the list of its rows; every error the database or the cluster's client
  can give is a field of the environment, as is the ownership by a domain that the name lookup
  filters on. Shown: a synchronisation makes the rows of the cluster mirror its objects.
\<close>

section \<open>Rows and remote objects\<close>

record cluster_row =
  r_Id :: string
  r_Name :: string
  r_Status :: string
  r_ExternalId :: string
  r_ClusterId :: string
  r_ResourceVersion :: string
  r_NamespaceId :: string

record remote_object =
  ro_UID :: string
  ro_Name :: string
  ro_Namespace :: string
  ro_ResourceVersion :: string

type_synonym table = "cluster_row list"

datatype fetch_error = ErrNoRows | ErrDuplicateEntry | ErrOther string

text \<open>The scope of a manager: none for resources of a cluster; for resources of a namespace the lookup of
  the id of the namespace's record by its name, \<open>GetNamespaceManager().GetByName\<close>.\<close>

type_synonym scope = "(string \<Rightarrow> fetch_error + string) option"

record sync_env =
  se_client_err :: "string option"
  se_list :: "string + remote_object list"
  se_rows_err :: "string option"
  se_inTask :: "cluster_row \<Rightarrow> bool"
  se_count_err :: "string option"
  se_owner_err :: "string option"
  se_model_err :: "string option"
  se_first_err :: "string option"
  se_has_cred :: bool
  se_owned :: "cluster_row \<Rightarrow> bool"
  se_newId :: "table \<Rightarrow> string"
  se_insert_err :: "cluster_row \<Rightarrow> string option"
  se_cluster_err :: "string option"
  se_update_err :: "cluster_row \<Rightarrow> string option"
  se_delete_err :: "cluster_row \<Rightarrow> string option"
  se_sort_rows :: "cluster_row valueElement go_sorter"
  se_sort_objects :: "remote_object valueElement go_sorter"
  se_IsUtf8 :: "string \<Rightarrow> bool"
  se_scope :: scope

definition ClusterResourceStatusActive :: string where "ClusterResourceStatusActive = ''active''"

subsection \<open>strconv.ParseInt(s, 10, 32)\<close>

datatype parsed = SyntaxError | RangeError | Parsed int

definition digit_value :: "char \<Rightarrow> int option" where
  "digit_value c = (if c \<in> set ''0123456789'' then Some (of_char c - 48) else None)"

text \<open>The loop stops at the first byte that takes the value out of range, even before a bad byte.\<close>

fun ParseUint_loop :: "int \<Rightarrow> string \<Rightarrow> parsed" where
  "ParseUint_loop n [] = Parsed n"
| "ParseUint_loop n (c # cs) =
     (case digit_value c of
        None \<Rightarrow> SyntaxError
      | Some d \<Rightarrow> if n * 10 + d > 2 ^ 32 - 1 then RangeError else ParseUint_loop (n * 10 + d) cs)"

definition ParseUint :: "string \<Rightarrow> parsed" where
  "ParseUint s = (if s = [] then SyntaxError else ParseUint_loop 0 s)"

text \<open>The value; the callers drop the error.\<close>

definition ParseInt_abs :: "bool \<Rightarrow> string \<Rightarrow> int" where
  "ParseInt_abs neg s =
     (case ParseUint s of
        SyntaxError \<Rightarrow> 0
      | RangeError \<Rightarrow> if neg then - (2 ^ 31) else 2 ^ 31 - 1
      | Parsed un \<Rightarrow> if \<not> neg \<and> un \<ge> 2 ^ 31 then 2 ^ 31 - 1
                     else if neg \<and> un > 2 ^ 31 then - (2 ^ 31)
                     else if neg then - un else un)"

definition ParseInt :: "string \<Rightarrow> int" where
  "ParseInt s =
     (case s of
        [] \<Rightarrow> 0
      | c # cs \<Rightarrow> if c = CHR ''+'' then ParseInt_abs False cs
                  else if c = CHR ''-'' then ParseInt_abs True cs
                  else ParseInt_abs False s)"

section \<open>Lookup by name\<close>

definition first_count :: "sync_env \<Rightarrow> table \<Rightarrow> fetch_error + cluster_row" where
  "first_count e q =
     (if length q = 1 then
        (case se_model_err e of
           Some err \<Rightarrow> Inl (ErrOther (''NewModelObject: '' @ err))
         | None \<Rightarrow> (case se_first_err e of Some err \<Rightarrow> Inl (ErrOther err) | None \<Rightarrow> Inr (hd q)))
      else if length q > 1 then Inl ErrDuplicateEntry
      else Inl ErrNoRows)"

text \<open>\<open>nsScope\<close> is \<open>IsNamespaceScope()\<close> of the manager.\<close>

definition FetchClusterResourceByName ::
  "sync_env \<Rightarrow> bool \<Rightarrow> string \<Rightarrow> string \<Rightarrow> string \<Rightarrow> table \<Rightarrow> fetch_error + cluster_row" where
  "FetchClusterResourceByName e nsScope clusterId namespaceId resId tbl =
     (if clusterId = [] then Inl (ErrOther ''cluster id must provided'')
      else
        let q = filter (\<lambda>r. r_Name r = resId \<and> r_ClusterId r = clusterId \<and>
                             (nsScope \<and> namespaceId \<noteq> [] \<longrightarrow> r_NamespaceId r = namespaceId)) tbl in
        case se_count_err e of
          Some err \<Rightarrow> Inl (ErrOther (''first count with error: '' @ err))
        | None \<Rightarrow>
            if length q > 0 \<and> se_has_cred e then
              (case se_owner_err e of
                 Some err \<Rightarrow> Inl (ErrOther (''filter by owner: '' @ err))
               | None \<Rightarrow> first_count e (filter (se_owned e) q))
            else first_count e q)"

text \<open>By id, the count alone decides.\<close>

definition FetchClusterResourceById ::
  "sync_env \<Rightarrow> bool \<Rightarrow> string \<Rightarrow> string \<Rightarrow> string \<Rightarrow> table \<Rightarrow> fetch_error + cluster_row" where
  "FetchClusterResourceById e nsScope clusterId namespaceId resId tbl =
     (if clusterId = [] then Inl (ErrOther ''cluster id must provided'')
      else case se_count_err e of
             Some err \<Rightarrow> Inl (ErrOther err)
           | None \<Rightarrow>
               first_count e (filter (\<lambda>r. r_Id r = resId \<and> r_ClusterId r = clusterId \<and>
                   (nsScope \<and> namespaceId \<noteq> [] \<longrightarrow> r_NamespaceId r = namespaceId)) tbl))"

definition FetchClusterResourceByIdOrName ::
  "sync_env \<Rightarrow> bool \<Rightarrow> string \<Rightarrow> string \<Rightarrow> string \<Rightarrow> table \<Rightarrow> fetch_error + cluster_row" where
  "FetchClusterResourceByIdOrName e nsScope clusterId namespaceId resId tbl =
     (if se_IsUtf8 e resId then FetchClusterResourceByName e nsScope clusterId namespaceId resId tbl
      else case FetchClusterResourceById e nsScope clusterId namespaceId resId tbl of
             Inl ErrNoRows \<Rightarrow> FetchClusterResourceByName e nsScope clusterId namespaceId resId tbl
           | r \<Rightarrow> r)"

fun fetch_message :: "fetch_error \<Rightarrow> string" where
  "fetch_message ErrNoRows = ''sql: no rows in result set''"
| "fetch_message ErrDuplicateEntry = ''duplicate entry''"
| "fetch_message (ErrOther err) = err"

text \<open>The local object, if one has the name; of a namespaced manager, if one has the name in the record of the object's
  namespace, where every error of the second lookup counts as absence.\<close>

definition Cluster_IsRemoteObjectLocalExist ::
  "sync_env \<Rightarrow> string \<Rightarrow> remote_object \<Rightarrow> table \<Rightarrow> string + cluster_row option" where
  "Cluster_IsRemoteObjectLocalExist e clusterId obj tbl =
     (case FetchClusterResourceByName e False clusterId [] (ro_Name obj) tbl of
        Inl ErrNoRows \<Rightarrow> Inr None
      | Inl err \<Rightarrow> Inl (fetch_message err)
      | Inr localObj \<Rightarrow> Inr (Some localObj))"

definition NS_IsRemoteObjectLocalExist ::
  "sync_env \<Rightarrow> (string \<Rightarrow> fetch_error + string) \<Rightarrow> string \<Rightarrow> remote_object \<Rightarrow> table \<Rightarrow> string + cluster_row option" where
  "NS_IsRemoteObjectLocalExist e ns clusterId obj tbl =
     (case ns (ro_Namespace obj) of
        Inl ErrNoRows \<Rightarrow> Inr None
      | Inl err \<Rightarrow> Inl (fetch_message err)
      | Inr nsId \<Rightarrow>
          (case FetchClusterResourceByName e True clusterId nsId (ro_Name obj) tbl of
             Inl _ \<Rightarrow> Inr None
           | Inr localObj \<Rightarrow> Inr (Some localObj)))"

definition IsRemoteObjectLocalExist ::
  "sync_env \<Rightarrow> string \<Rightarrow> remote_object \<Rightarrow> table \<Rightarrow> string + cluster_row option" where
  "IsRemoteObjectLocalExist e clusterId obj tbl =
     (case se_scope e of
        None \<Rightarrow> Cluster_IsRemoteObjectLocalExist e clusterId obj tbl
      | Some ns \<Rightarrow> NS_IsRemoteObjectLocalExist e ns clusterId obj tbl)"

section \<open>Update, create and remove a row\<close>

definition GetRemoteObjectGlobalId :: "remote_object \<Rightarrow> string" where
  "GetRemoteObjectGlobalId obj = ro_UID obj"

definition Base_UpdateFromRemoteObject :: "remote_object \<Rightarrow> cluster_row \<Rightarrow> string + cluster_row" where
  "Base_UpdateFromRemoteObject extObj obj =
     (let resVersion = ro_ResourceVersion extObj;
          ver = ParseInt resVersion;
          curResVer = (if r_ResourceVersion obj \<noteq> [] then ParseInt (r_ResourceVersion obj) else 0)
      in if ver < curResVer then Inl ''remote object resourceVersion less than local''
         else let obj1 = (if r_Name obj \<noteq> ro_Name extObj then obj\<lparr>r_Name := ro_Name extObj\<rparr> else obj)
              in Inr (if r_ResourceVersion obj1 \<noteq> resVersion then obj1\<lparr>r_ResourceVersion := resVersion\<rparr> else obj1))"

definition NS_UpdateFromRemoteObject :: "sync_env \<Rightarrow> (string \<Rightarrow> fetch_error + string) \<Rightarrow> remote_object \<Rightarrow> cluster_row \<Rightarrow> string + cluster_row" where
  "NS_UpdateFromRemoteObject e ns extObj obj =
     (case Base_UpdateFromRemoteObject extObj obj of
        Inl err \<Rightarrow> Inl (''SClusterResourceBase.UpdateFromRemoteObject: '' @ err)
      | Inr obj1 \<Rightarrow>
          (case se_cluster_err e of
             Some err \<Rightarrow> Inl (''SNamespaceResourceBase.GetCluster: '' @ err)
           | None \<Rightarrow>
               (case ns (ro_Namespace extObj) of
                  Inl err \<Rightarrow> Inl (''get local namespace by name '' @ ro_Namespace extObj @ '': '' @ fetch_message err)
                | Inr nsId \<Rightarrow> Inr (obj1\<lparr>r_NamespaceId := nsId\<rparr>))))"

definition obj_UpdateFromRemoteObject :: "sync_env \<Rightarrow> remote_object \<Rightarrow> cluster_row \<Rightarrow> string + cluster_row" where
  "obj_UpdateFromRemoteObject e extObj obj =
     (case se_scope e of None \<Rightarrow> Base_UpdateFromRemoteObject extObj obj | Some ns \<Rightarrow> NS_UpdateFromRemoteObject e ns extObj obj)"

definition SetStatusByRemoteObject :: "cluster_row \<Rightarrow> cluster_row" where
  "SetStatusByRemoteObject obj = obj\<lparr>r_Status := ClusterResourceStatusActive\<rparr>"

text \<open>A row is saved over the one with its id.\<close>

definition save_row :: "cluster_row \<Rightarrow> table \<Rightarrow> table" where
  "save_row row tbl = map (\<lambda>r. if r_Id r = r_Id row then row else r) tbl"

definition API_UpdateFromRemoteObject ::
  "sync_env \<Rightarrow> cluster_row \<Rightarrow> remote_object \<Rightarrow> table \<Rightarrow> table \<times> string option" where
  "API_UpdateFromRemoteObject e obj remoteObj tbl =
     (case obj_UpdateFromRemoteObject e remoteObj obj of
        Inl err \<Rightarrow> (tbl, Some (''Update from remote object error: UpdateFromRemoteObject: '' @ err))
      | Inr obj1 \<Rightarrow>
          (case se_cluster_err e of
             Some err \<Rightarrow> (tbl, Some (''Update from remote object error: GetCluster: '' @ err))
           | None \<Rightarrow>
               let obj2 = SetStatusByRemoteObject (obj1\<lparr>r_ExternalId := GetRemoteObjectGlobalId remoteObj\<rparr>) in
               case se_update_err e obj2 of
                 Some err \<Rightarrow> (tbl, Some (''Update from remote object error: '' @ err))
               | None \<Rightarrow> (save_row obj2 tbl, None)))"

definition SyncUpdatedClusterResource ::
  "sync_env \<Rightarrow> cluster_row \<Rightarrow> remote_object \<Rightarrow> table \<Rightarrow> table \<times> string option" where
  "SyncUpdatedClusterResource e dbObj extObj tbl =
     (let (tbl', err) = API_UpdateFromRemoteObject e dbObj extObj tbl
      in (tbl', errors_Wrap ''SyncUpdatedClusterResource'' err))"

text \<open>A new model object has the column defaults; its id is chosen at the insert.\<close>

definition Base_NewFromRemoteObject :: "sync_env \<Rightarrow> string \<Rightarrow> remote_object \<Rightarrow> table \<Rightarrow> string + cluster_row" where
  "Base_NewFromRemoteObject e clusterId obj tbl =
     (case se_model_err e of
        Some err \<Rightarrow> Inl (''NewModelObject: '' @ err)
      | None \<Rightarrow>
          Inr \<lparr>r_Id = se_newId e tbl, r_Name = ro_Name obj, r_Status = ''init'',
               r_ExternalId = GetRemoteObjectGlobalId obj, r_ClusterId = clusterId, r_ResourceVersion = [],
               r_NamespaceId = []\<rparr>)"

definition NS_NewFromRemoteObject ::
  "sync_env \<Rightarrow> (string \<Rightarrow> fetch_error + string) \<Rightarrow> string \<Rightarrow> remote_object \<Rightarrow> table \<Rightarrow> string + cluster_row" where
  "NS_NewFromRemoteObject e ns clusterId obj tbl =
     (case Base_NewFromRemoteObject e clusterId obj tbl of
        Inl err \<Rightarrow> Inl (''call cluster resource base NewFromRemoteObject: '' @ err)
      | Inr localObj \<Rightarrow>
          (case ns (ro_Namespace obj) of
             Inl err \<Rightarrow> Inl (''get local namespace by name '' @ ro_Namespace obj @ '': '' @ fetch_message err)
           | Inr nsId \<Rightarrow> Inr (localObj\<lparr>r_NamespaceId := nsId\<rparr>)))"

definition man_NewFromRemoteObject :: "sync_env \<Rightarrow> string \<Rightarrow> remote_object \<Rightarrow> table \<Rightarrow> string + cluster_row" where
  "man_NewFromRemoteObject e clusterId obj tbl =
     (case se_scope e of
        None \<Rightarrow> Base_NewFromRemoteObject e clusterId obj tbl
      | Some ns \<Rightarrow> NS_NewFromRemoteObject e ns clusterId obj tbl)"

definition NewFromRemoteObject :: "sync_env \<Rightarrow> string \<Rightarrow> remote_object \<Rightarrow> table \<Rightarrow> table \<times> string option" where
  "NewFromRemoteObject e clusterId obj tbl =
     (case IsRemoteObjectLocalExist e clusterId obj tbl of
        Inl err \<Rightarrow> (tbl, Some (''check IsRemoteObjectLocalExist: '' @ err))
      | Inr (Some localObj) \<Rightarrow> (tbl, Some (r_Name localObj @ '' already exists''))
      | Inr None \<Rightarrow>
          (case man_NewFromRemoteObject e clusterId obj tbl of
             Inl err \<Rightarrow> (tbl, Some (''NewFromRemoteObject: '' @ err))
           | Inr dbObj \<Rightarrow>
               (case se_insert_err e dbObj of
                  Some err \<Rightarrow> (tbl, Some (''Insert to database: '' @ err))
                | None \<Rightarrow>
                    let (tbl2, err) = API_UpdateFromRemoteObject e dbObj obj (tbl @ [dbObj])
                    in (tbl2, errors_Wrap ''NewFromRemoteObject.UpdateFromRemoteObject'' err))))"

definition RealDelete :: "sync_env \<Rightarrow> cluster_row \<Rightarrow> table \<Rightarrow> table \<times> string option" where
  "RealDelete e obj tbl =
     (case se_delete_err e obj of
        Some err \<Rightarrow> (tbl, Some err)
      | None \<Rightarrow> (filter (\<lambda>r. r_Id r \<noteq> r_Id obj) tbl, None))"

definition SyncRemovedClusterResource :: "sync_env \<Rightarrow> cluster_row \<Rightarrow> table \<Rightarrow> table \<times> string option" where
  "SyncRemovedClusterResource e dbObj tbl =
     (if strings_HasSuffix (r_Status dbObj) ''_fail'' \<or> strings_HasSuffix (r_Status dbObj) ''_failed''
      then (tbl, None)
      else let (tbl', err) = RealDelete e dbObj tbl in (tbl', errors_Wrap ''SyncRemovedClusterResource '' err))"

section \<open>syncClusterResources\<close>

record SyncResult =
  AddCnt :: nat
  AddErrCnt :: nat
  UpdateCnt :: nat
  UpdateErrCnt :: nat
  DelCnt :: nat
  DelErrCnt :: nat
  sr_errors :: "string list"

definition SyncResult_zero :: SyncResult where
  "SyncResult_zero = \<lparr>AddCnt = 0, AddErrCnt = 0, UpdateCnt = 0, UpdateErrCnt = 0, DelCnt = 0, DelErrCnt = 0, sr_errors = []\<rparr>"

definition SyncResult_Error :: "string \<Rightarrow> SyncResult \<Rightarrow> SyncResult" where
  "SyncResult_Error msg s = s\<lparr>sr_errors := sr_errors s @ [msg]\<rparr>"

definition IsError :: "SyncResult \<Rightarrow> bool" where
  "IsError s = (length (sr_errors s) > 0)"

definition GetClusterModelObjects :: "sync_env \<Rightarrow> string \<Rightarrow> table \<Rightarrow> string + cluster_row list" where
  "GetClusterModelObjects e clusterId tbl =
     (case se_rows_err e of
        Some err \<Rightarrow> Inl err
      | None \<Rightarrow> Inr (filter (\<lambda>r. r_ClusterId r = clusterId) tbl))"

fun removed_loop :: "sync_env \<Rightarrow> cluster_row list \<Rightarrow> table \<Rightarrow> SyncResult \<Rightarrow> table \<times> SyncResult" where
  "removed_loop e [] tbl s = (tbl, s)"
| "removed_loop e (row # rows) tbl s =
     (case SyncRemovedClusterResource e row tbl of
        (tbl', Some err) \<Rightarrow> removed_loop e rows tbl' (SyncResult_Error err (s\<lparr>DelErrCnt := DelErrCnt s + 1\<rparr>))
      | (tbl', None) \<Rightarrow> removed_loop e rows tbl' (s\<lparr>DelCnt := DelCnt s + 1\<rparr>))"

fun common_loop :: "sync_env \<Rightarrow> (cluster_row \<times> remote_object) list \<Rightarrow> table \<Rightarrow> SyncResult \<Rightarrow> table \<times> SyncResult" where
  "common_loop e [] tbl s = (tbl, s)"
| "common_loop e ((row, ext) # ps) tbl s =
     (case SyncUpdatedClusterResource e row ext tbl of
        (tbl', Some err) \<Rightarrow> common_loop e ps tbl' (SyncResult_Error err (s\<lparr>UpdateErrCnt := UpdateErrCnt s + 1\<rparr>))
      | (tbl', None) \<Rightarrow> common_loop e ps tbl' (s\<lparr>UpdateCnt := UpdateCnt s + 1\<rparr>))"

fun added_loop :: "sync_env \<Rightarrow> string \<Rightarrow> remote_object list \<Rightarrow> table \<Rightarrow> SyncResult \<Rightarrow> table \<times> SyncResult" where
  "added_loop e clusterId [] tbl s = (tbl, s)"
| "added_loop e clusterId (obj # objs) tbl s =
     (case NewFromRemoteObject e clusterId obj tbl of
        (tbl', Some err) \<Rightarrow>
          added_loop e clusterId objs tbl' (SyncResult_Error (''add object: '' @ err) (s\<lparr>AddErrCnt := AddErrCnt s + 1\<rparr>))
      | (tbl', None) \<Rightarrow> added_loop e clusterId objs tbl' (s\<lparr>AddCnt := AddCnt s + 1\<rparr>))"

fun in_task_error :: "sync_env \<Rightarrow> cluster_row list \<Rightarrow> string option" where
  "in_task_error e [] = None"
| "in_task_error e (row # rows) =
     (if se_inTask e row then Some (''object '' @ r_Name row @ '' is in task'') else in_task_error e rows)"

definition syncClusterResources :: "sync_env \<Rightarrow> string \<Rightarrow> table \<Rightarrow> (table \<times> SyncResult) go" where
  "syncClusterResources e clusterId tbl =
     (let s = SyncResult_zero in
      case se_client_err e of
        Some err \<Rightarrow> Inr (tbl, SyncResult_Error (''Get cluster client: '' @ err) s)
      | None \<Rightarrow>
      (case se_list e of
         Inl err \<Rightarrow> Inr (tbl, SyncResult_Error err s)
       | Inr listObjs \<Rightarrow>
      (case GetClusterModelObjects e clusterId tbl of
         Inl err \<Rightarrow> Inr (tbl, SyncResult_Error (''get db objects: '' @ err) s)
       | Inr dbObjs \<Rightarrow>
      (case in_task_error e dbObjs of
         Some err \<Rightarrow> Inr (tbl, SyncResult_Error err s)
       | None \<Rightarrow>
           gbind (CompareRemoteObjectSets (se_sort_rows e) (se_sort_objects e) r_ExternalId dbObjs listObjs
                    GetRemoteObjectGlobalId no_comparison) (\<lambda>r.
             case r of
               Inl err \<Rightarrow> Inr (tbl, SyncResult_Error err s)
             | Inr c \<Rightarrow>
                 let (tbl1, s1) = removed_loop e (removed c) tbl s;
                     (tbl2, s2) = common_loop e (zip (commonDB c) (commonExt c)) tbl1 s1
                 in Inr (added_loop e clusterId (added c) tbl2 s2))))))"

section \<open>The abstract view\<close>

text \<open>What a row says of its object, and what an object should have its row say; of a namespaced object also the
  record of its namespace. The rows of a cluster mirror its objects when these are the same, counted with
  multiplicity.\<close>

definition ns_of :: "scope \<Rightarrow> remote_object \<Rightarrow> string" where
  "ns_of sc obj = (case sc of None \<Rightarrow> [] | Some ns \<Rightarrow> (case ns (ro_Namespace obj) of Inl _ \<Rightarrow> [] | Inr i \<Rightarrow> i))"

definition ns_found :: "scope \<Rightarrow> remote_object \<Rightarrow> bool" where
  "ns_found sc obj \<longleftrightarrow> (case sc of None \<Rightarrow> True | Some ns \<Rightarrow> (\<exists>i. ns (ro_Namespace obj) = Inr i \<and> i \<noteq> []))"

definition row_ns :: "scope \<Rightarrow> cluster_row \<Rightarrow> string" where
  "row_ns sc r = (case sc of None \<Rightarrow> [] | Some _ \<Rightarrow> r_NamespaceId r)"

text \<open>The name, and the namespace where there is one, identify an object and a row.\<close>

definition row_key :: "scope \<Rightarrow> cluster_row \<Rightarrow> string \<times> string" where
  "row_key sc r = (r_Name r, row_ns sc r)"

definition object_key :: "scope \<Rightarrow> remote_object \<Rightarrow> string \<times> string" where
  "object_key sc obj = (ro_Name obj, ns_of sc obj)"

type_synonym view = "(string \<times> string) \<times> string \<times> string \<times> string"

definition row_view :: "scope \<Rightarrow> cluster_row \<Rightarrow> view" where
  "row_view sc r = (row_key sc r, r_ExternalId r, r_ResourceVersion r, r_Status r)"

definition object_view :: "scope \<Rightarrow> remote_object \<Rightarrow> view" where
  "object_view sc obj = (object_key sc obj, ro_UID obj, ro_ResourceVersion obj, ClusterResourceStatusActive)"

definition mine :: "string \<Rightarrow> table \<Rightarrow> cluster_row multiset" where
  "mine c tbl = filter_mset (\<lambda>r. r_ClusterId r = c) (mset tbl)"

definition others :: "string \<Rightarrow> table \<Rightarrow> cluster_row multiset" where
  "others c tbl = filter_mset (\<lambda>r. r_ClusterId r \<noteq> c) (mset tbl)"

definition ids_ok :: "table \<Rightarrow> bool" where
  "ids_ok tbl \<longleftrightarrow> distinct (map r_Id tbl) \<and> [] \<notin> set (map r_Id tbl)"

definition mirrors :: "scope \<Rightarrow> string \<Rightarrow> table \<Rightarrow> remote_object list \<Rightarrow> bool" where
  "mirrors sc c tbl objs \<longleftrightarrow> ids_ok tbl \<and> image_mset (row_view sc) (mine c tbl) = mset (map (object_view sc) objs)"

text \<open>A database without failures: an insert gets a fresh id.\<close>

definition db_ok :: "sync_env \<Rightarrow> bool" where
  "db_ok e \<longleftrightarrow> se_count_err e = None \<and> se_owner_err e = None \<and> se_model_err e = None \<and> se_first_err e = None \<and>
     se_cluster_err e = None \<and> se_rows_err e = None \<and>
     (\<forall>r. se_insert_err e r = None \<and> se_update_err e r = None \<and> se_delete_err e r = None) \<and>
     (\<forall>t. se_newId e t \<notin> r_Id ` set t \<and> se_newId e t \<noteq> [])"

definition row_version :: "cluster_row \<Rightarrow> int" where
  "row_version r = (if r_ResourceVersion r \<noteq> [] then ParseInt (r_ResourceVersion r) else 0)"

definition synced_row :: "scope \<Rightarrow> remote_object \<Rightarrow> cluster_row \<Rightarrow> cluster_row" where
  "synced_row sc obj r = r\<lparr>r_Name := ro_Name obj, r_Status := ClusterResourceStatusActive,
     r_ExternalId := ro_UID obj, r_ResourceVersion := ro_ResourceVersion obj,
     r_NamespaceId := (case sc of None \<Rightarrow> r_NamespaceId r | Some _ \<Rightarrow> ns_of sc obj)\<rparr>"

lemma synced_row_simps [simp]:
  "r_Id (synced_row sc obj r) = r_Id r" "r_ClusterId (synced_row sc obj r) = r_ClusterId r"
  "row_key sc (synced_row sc obj r) = object_key sc obj" "row_view sc (synced_row sc obj r) = object_view sc obj"
  by (simp_all add: synced_row_def row_view_def object_view_def row_key_def object_key_def row_ns_def ns_of_def split: option.split)

definition failed_row :: "cluster_row \<Rightarrow> bool" where
  "failed_row r \<longleftrightarrow> strings_HasSuffix (r_Status r) ''_fail'' \<or> strings_HasSuffix (r_Status r) ''_failed''"

subsection \<open>Single rows\<close>

lemma API_Update_ok:
  assumes "db_ok e" "row_version row \<le> ParseInt (ro_ResourceVersion obj)" "ns_found (se_scope e) obj"
  shows "API_UpdateFromRemoteObject e row obj tbl = (save_row (synced_row (se_scope e) obj row) tbl, None)"
proof -
  have base: "\<exists>obj1. Base_UpdateFromRemoteObject obj row = Inr obj1 \<and>
      obj1 = row\<lparr>r_Name := ro_Name obj, r_ResourceVersion := ro_ResourceVersion obj\<rparr>"
    using assms(2) by (cases row) (auto simp: Base_UpdateFromRemoteObject_def row_version_def Let_def)
  have "\<exists>obj1. obj_UpdateFromRemoteObject e obj row = Inr obj1 \<and>
      SetStatusByRemoteObject (obj1\<lparr>r_ExternalId := ro_UID obj\<rparr>) = synced_row (se_scope e) obj row"
    using assms(1,3) base
    by (cases row) (auto simp: obj_UpdateFromRemoteObject_def NS_UpdateFromRemoteObject_def SetStatusByRemoteObject_def synced_row_def ns_of_def
        ns_found_def db_ok_def split: option.splits)
  with assms(1) show ?thesis
    by (auto simp: API_UpdateFromRemoteObject_def db_ok_def GetRemoteObjectGlobalId_def Let_def)
qed

lemma API_Update_stale:
  assumes "ParseInt (ro_ResourceVersion obj) < row_version row"
  shows "\<exists>err. API_UpdateFromRemoteObject e row obj tbl = (tbl, Some err)"
  using assms
  by (auto simp: API_UpdateFromRemoteObject_def obj_UpdateFromRemoteObject_def NS_UpdateFromRemoteObject_def Base_UpdateFromRemoteObject_def
      row_version_def Let_def split: option.splits)

lemma mset_save_row:
  assumes "distinct (map r_Id tbl)" "old \<in> set tbl" "r_Id row = r_Id old"
  shows "mset (save_row row tbl) = add_mset row (mset tbl - {#old#})"
  using assms
proof (induction tbl)
  case (Cons r tbl)
  show ?case
  proof (cases "r = old")
    case True
    with Cons.prems have "\<forall>x\<in>set tbl. r_Id x \<noteq> r_Id row" by (metis distinct.simps(2) image_eqI list.set_map list.simps(9))
    then have "map (\<lambda>x. if r_Id x = r_Id row then row else x) tbl = tbl" by (induction tbl) auto
    with True Cons.prems show ?thesis by (simp add: save_row_def)
  next
    case False
    then have "r_Id r \<noteq> r_Id row" "old \<in> set tbl" using Cons.prems by force+
    with False Cons show ?thesis by (simp add: save_row_def add_mset_commute)
  qed
qed simp

lemma save_row_ids [simp]: "ids_ok (save_row row tbl) = ids_ok tbl"
  by (simp add: save_row_def ids_ok_def comp_def image_image if_distrib [of r_Id] cong: if_cong)

lemma mset_delete_row:
  assumes "distinct (map r_Id tbl)" "old \<in> set tbl"
  shows "mset (filter (\<lambda>r. r_Id r \<noteq> r_Id old) tbl) = mset tbl - {#old#}"
  using assms
proof (induction tbl)
  case (Cons r tbl)
  show ?case
  proof (cases "r = old")
    case True
    with Cons.prems have "\<forall>x\<in>set tbl. r_Id x \<noteq> r_Id old" by (metis distinct.simps(2) image_eqI list.set_map list.simps(9))
    then show ?thesis using True by (simp add: filter_id_conv)
  next
    case False
    then have "r_Id r \<noteq> r_Id old" "old \<in> set tbl" using Cons.prems by force+
    with False Cons show ?thesis by simp
  qed
qed simp

lemma delete_row_ids: "ids_ok tbl \<Longrightarrow> ids_ok (filter P tbl)"
  by (auto simp: ids_ok_def distinct_map_filter)

lemma mine_in: "r \<in># mine c tbl \<longleftrightarrow> r \<in> set tbl \<and> r_ClusterId r = c"
  by (auto simp: mine_def)

lemma save_row_views:
  assumes "ids_ok tbl" "old \<in># mine c tbl" "r_Id row = r_Id old" "r_ClusterId row = c"
  shows "mine c (save_row row tbl) = add_mset row (mine c tbl - {#old#})" "others c (save_row row tbl) = others c tbl"
  using assms mset_save_row [of tbl old row] by (simp_all add: mine_def others_def ids_ok_def)

lemma delete_row_views:
  assumes "ids_ok tbl" "old \<in># mine c tbl"
  shows "mine c (filter (\<lambda>r. r_Id r \<noteq> r_Id old) tbl) = mine c tbl - {#old#}"
    "others c (filter (\<lambda>r. r_Id r \<noteq> r_Id old) tbl) = others c tbl"
  using assms mset_delete_row [of tbl old] by (simp_all add: mine_def others_def ids_ok_def del: mset_filter)

subsection \<open>Rows by name\<close>

text \<open>The lookup of the row of an object, by both kinds of managers.\<close>

definition lookup_row :: "sync_env \<Rightarrow> string \<Rightarrow> remote_object \<Rightarrow> table \<Rightarrow> fetch_error + cluster_row" where
  "lookup_row e c obj tbl = FetchClusterResourceByName e (se_scope e \<noteq> None) c (ns_of (se_scope e) obj) (ro_Name obj) tbl"

lemma key_rows:
  assumes "ns_found sc obj"
  shows "filter (\<lambda>r. r_Name r = ro_Name obj \<and> r_ClusterId r = c \<and> (sc \<noteq> None \<and> ns_of sc obj \<noteq> [] \<longrightarrow> r_NamespaceId r = ns_of sc obj)) tbl =
    filter (\<lambda>r. r_ClusterId r = c \<and> row_key sc r = object_key sc obj) tbl"
  using assms by (auto simp: row_key_def object_key_def row_ns_def ns_of_def ns_found_def intro!: filter_cong split: option.splits)

lemma filter_key_rows:
  "mset (filter (\<lambda>r. r_ClusterId r = c \<and> row_key sc r = k) tbl) = filter_mset (\<lambda>r. row_key sc r = k) (mine c tbl)"
  by (simp add: mine_def filter_filter_mset conj_commute)

lemma Fetch_scope [simp]: "FetchClusterResourceByName (e\<lparr>se_scope := sc\<rparr>) = FetchClusterResourceByName e"
proof -
  have "first_count (e\<lparr>se_scope := sc\<rparr>) = first_count e" by (simp add: fun_eq_iff first_count_def split: option.split)
  then show ?thesis by (simp add: fun_eq_iff FetchClusterResourceByName_def Let_def split: option.split)
qed

lemma Fetch_none:
  assumes "db_ok e" "c \<noteq> []" "ns_found (se_scope e) obj" "\<forall>r \<in># mine c tbl. row_key (se_scope e) r \<noteq> object_key (se_scope e) obj"
  shows "lookup_row e c obj tbl = Inl ErrNoRows"
proof -
  have "filter (\<lambda>r. r_ClusterId r = c \<and> row_key (se_scope e) r = object_key (se_scope e) obj) tbl = []"
    using assms(4) by (auto simp: filter_empty_conv mine_in)
  then show ?thesis
    unfolding lookup_row_def FetchClusterResourceByName_def Let_def key_rows [OF assms(3)]
    using assms(1,2) by (simp add: db_ok_def first_count_def)
qed

lemma Fetch_one:
  assumes "db_ok e" "c \<noteq> []" "se_owned e row" "ns_found (se_scope e) obj"
    "filter_mset (\<lambda>r. row_key (se_scope e) r = object_key (se_scope e) obj) (mine c tbl) = {#row#}"
  shows "lookup_row e c obj tbl = Inr row"
proof -
  have "filter (\<lambda>r. r_ClusterId r = c \<and> row_key (se_scope e) r = object_key (se_scope e) obj) tbl = [row]"
    using assms(5) unfolding filter_key_rows [symmetric] by (simp del: mset_filter)
  then show ?thesis
    unfolding lookup_row_def FetchClusterResourceByName_def Let_def key_rows [OF assms(4)]
    using assms(1-3) by (simp add: db_ok_def first_count_def)
qed

lemma LocalExist_lookup:
  assumes "ns_found (se_scope e) obj"
  shows "lookup_row e c obj tbl = Inl ErrNoRows \<Longrightarrow> IsRemoteObjectLocalExist e c obj tbl = Inr None"
    "lookup_row e c obj tbl = Inr row \<Longrightarrow> IsRemoteObjectLocalExist e c obj tbl = Inr (Some row)"
  using assms
  by (auto simp: lookup_row_def IsRemoteObjectLocalExist_def Cluster_IsRemoteObjectLocalExist_def NS_IsRemoteObjectLocalExist_def
      ns_of_def ns_found_def split: option.splits)

lemma NewFrom_absent:
  assumes "db_ok e" "c \<noteq> []" "ids_ok tbl" "IsRemoteObjectLocalExist e c obj tbl = Inr None"
    and "0 \<le> ParseInt (ro_ResourceVersion obj)" "ns_found (se_scope e) obj"
  obtains tbl' row where "NewFromRemoteObject e c obj tbl = (tbl', None)" "ids_ok tbl'"
    "mine c tbl' = add_mset row (mine c tbl)" "others c tbl' = others c tbl" "row_view (se_scope e) row = object_view (se_scope e) obj"
proof -
  obtain dbObj where new: "man_NewFromRemoteObject e c obj tbl = Inr dbObj" "r_Id dbObj \<notin> r_Id ` set tbl" "r_Id dbObj \<noteq> []"
      "r_ClusterId dbObj = c" "row_version dbObj = 0"
    using assms(1,6)
    by (auto simp: man_NewFromRemoteObject_def NS_NewFromRemoteObject_def Base_NewFromRemoteObject_def db_ok_def row_version_def ns_found_def
        split: option.splits)
  let ?t = "tbl @ [dbObj]" and ?row = "synced_row (se_scope e) obj dbObj"
  have t: "ids_ok ?t" "dbObj \<in># mine c ?t" using assms(3) new(2-4) by (auto simp: mine_in ids_ok_def)
  have "API_UpdateFromRemoteObject e dbObj obj ?t = (save_row ?row ?t, None)"
    by (rule API_Update_ok [OF assms(1) _ assms(6)]) (use new(5) assms(5) in simp)
  then have "NewFromRemoteObject e c obj tbl = (save_row ?row ?t, None)"
    using assms(1,4) new(1)
    by (simp add: NewFromRemoteObject_def db_ok_def)
  moreover have "mine c (save_row ?row ?t) = add_mset ?row (mine c tbl)" "others c (save_row ?row ?t) = others c tbl"
    using save_row_views [OF t, of ?row] new(4) by (simp_all add: mine_def others_def)
  ultimately show thesis using that [of "save_row ?row ?t" ?row] t(1) by simp
qed

lemma NewFrom_ok:
  assumes "db_ok e" "c \<noteq> []" "ids_ok tbl" "\<forall>r \<in># mine c tbl. row_key (se_scope e) r \<noteq> object_key (se_scope e) obj"
    and "0 \<le> ParseInt (ro_ResourceVersion obj)" "ns_found (se_scope e) obj"
  obtains tbl' row where "NewFromRemoteObject e c obj tbl = (tbl', None)" "ids_ok tbl'"
    "mine c tbl' = add_mset row (mine c tbl)" "others c tbl' = others c tbl" "row_view (se_scope e) row = object_view (se_scope e) obj"
  using NewFrom_absent [OF assms(1-3) LocalExist_lookup(1) [OF assms(6) Fetch_none [OF assms(1,2,6,4)]] assms(5,6)] by blast

subsection \<open>The loops\<close>

lemma removed_loop_ok:
  assumes "db_ok e"
  shows "ids_ok tbl \<Longrightarrow> mset rows \<subseteq># mine c tbl \<Longrightarrow> \<forall>r\<in>set rows. \<not> failed_row r \<Longrightarrow>
    \<exists>tbl' s'. removed_loop e rows tbl s = (tbl', s') \<and> ids_ok tbl' \<and>
      mine c tbl' = mine c tbl - mset rows \<and> others c tbl' = others c tbl \<and> sr_errors s' = sr_errors s"
proof (induction rows arbitrary: tbl s)
  case (Cons row rows)
  let ?t = "filter (\<lambda>r. r_Id r \<noteq> r_Id row) tbl"
  have row: "row \<in># mine c tbl" using Cons.prems(2) by (simp add: insert_subset_eq_iff)
  have "SyncRemovedClusterResource e row tbl = (?t, None)"
    using assms Cons.prems(3) by (simp add: SyncRemovedClusterResource_def failed_row_def RealDelete_def db_ok_def)
  moreover have "mset rows \<subseteq># mine c ?t"
    using Cons.prems(2) delete_row_views(1) [OF Cons.prems(1) row] by (simp add: insert_subset_eq_iff)
  moreover note Cons.IH [of ?t "s\<lparr>DelCnt := DelCnt s + 1\<rparr>"]
  ultimately show ?case
    using Cons.prems delete_row_views [OF Cons.prems(1) row] delete_row_ids by auto
qed simp

lemma common_loop_ok:
  assumes "db_ok e"
  shows "ids_ok tbl \<Longrightarrow> mine c tbl = mset (map fst ps) + done \<Longrightarrow>
    \<forall>(r, obj)\<in>set ps. row_version r \<le> ParseInt (ro_ResourceVersion obj) \<and> ns_found (se_scope e) obj \<Longrightarrow>
    \<exists>tbl' s'. common_loop e ps tbl s = (tbl', s') \<and> ids_ok tbl' \<and>
      mine c tbl' = mset (map (\<lambda>(r, obj). synced_row (se_scope e) obj r) ps) + done \<and> others c tbl' = others c tbl \<and>
      sr_errors s' = sr_errors s"
proof (induction ps arbitrary: tbl s "done")
  case (Cons p ps)
  obtain row obj where p: "p = (row, obj)" by (cases p)
  let ?t = "save_row (synced_row (se_scope e) obj row) tbl"
  have row: "row \<in># mine c tbl" "r_ClusterId row = c" using Cons.prems(2) p mine_in [of row c tbl] by auto
  have "SyncUpdatedClusterResource e row obj tbl = (?t, None)"
    using API_Update_ok [OF assms] Cons.prems(3) p by (simp add: SyncUpdatedClusterResource_def)
  moreover have "mine c ?t = mset (map fst ps) + add_mset (synced_row (se_scope e) obj row) done"
    using save_row_views(1) [OF Cons.prems(1) row(1)] Cons.prems(2) row(2) p by simp
  moreover note Cons.IH [of ?t "add_mset (synced_row (se_scope e) obj row) done" "s\<lparr>UpdateCnt := UpdateCnt s + 1\<rparr>"]
  ultimately show ?case
    using Cons.prems p row save_row_views(2) [OF Cons.prems(1) row(1), of "synced_row (se_scope e) obj row"] by auto
qed simp

lemma added_loop_ok:
  assumes "db_ok e" "c \<noteq> []"
  shows "ids_ok tbl \<Longrightarrow> distinct (map (object_key (se_scope e)) objs) \<Longrightarrow>
    \<forall>obj\<in>set objs. \<forall>r \<in># mine c tbl. row_key (se_scope e) r \<noteq> object_key (se_scope e) obj \<Longrightarrow>
    \<forall>obj\<in>set objs. 0 \<le> ParseInt (ro_ResourceVersion obj) \<and> ns_found (se_scope e) obj \<Longrightarrow>
    \<exists>tbl' s'. added_loop e c objs tbl s = (tbl', s') \<and> ids_ok tbl' \<and>
      image_mset (row_view (se_scope e)) (mine c tbl') = image_mset (row_view (se_scope e)) (mine c tbl) + mset (map (object_view (se_scope e)) objs) \<and>
      others c tbl' = others c tbl \<and> sr_errors s' = sr_errors s"
proof (induction objs arbitrary: tbl s)
  case (Cons obj objs)
  obtain t row where t: "NewFromRemoteObject e c obj tbl = (t, None)" "ids_ok t"
      "mine c t = add_mset row (mine c tbl)" "others c t = others c tbl" "row_view (se_scope e) row = object_view (se_scope e) obj"
    by (rule NewFrom_ok [OF assms Cons.prems(1)]) (use Cons.prems in auto)
  have "row_key (se_scope e) row = object_key (se_scope e) obj" using t(5) by (simp add: row_view_def object_view_def)
  then have "\<forall>o'\<in>set objs. \<forall>r \<in># mine c t. row_key (se_scope e) r \<noteq> object_key (se_scope e) o'" using Cons.prems(2,3) t(3) by auto
  with Cons.IH [of t "s\<lparr>AddCnt := AddCnt s + 1\<rparr>"] Cons.prems t show ?case by auto
qed simp

subsection \<open>The whole synchronisation\<close>

lemma in_task_error_None: "in_task_error e rows = None \<longleftrightarrow> (\<forall>r\<in>set rows. \<not> se_inTask e r)"
  by (induction rows) auto

lemma mset_rows: "mset (filter (\<lambda>r. r_ClusterId r = c) tbl) = mine c tbl"
  by (simp add: mine_def)

lemma zip_synced:
  "length rows = length exts \<Longrightarrow>
   image_mset (row_view (se_scope e)) (mset (map (\<lambda>(r, obj). synced_row (se_scope e) obj r) (zip rows exts))) = mset (map (object_view (se_scope e)) exts)"
  by (induction rows exts rule: list_induct2) auto

text \<open>The two loops after the comparison.\<close>

lemma update_and_add_ok:
  assumes "db_ok e" "c \<noteq> []" "ids_ok tbl" "mine c tbl = mset rows" "length rows = length exts"
    and "mset new + mset exts = mset objs" "distinct (map (object_key (se_scope e)) objs)"
    and "\<forall>(r, obj)\<in>set (zip rows exts). row_version r \<le> ParseInt (ro_ResourceVersion obj)"
    and "\<forall>obj\<in>set objs. 0 \<le> ParseInt (ro_ResourceVersion obj) \<and> ns_found (se_scope e) obj"
  shows "\<exists>tbl1 s1 tbl2 s2. common_loop e (zip rows exts) tbl s = (tbl1, s1) \<and>
    added_loop e c new tbl1 s1 = (tbl2, s2) \<and> mirrors (se_scope e) c tbl2 objs \<and> others c tbl2 = others c tbl \<and>
    sr_errors s2 = sr_errors s"
proof -
  have set: "set objs = set new \<union> set exts" using assms(6) by (metis set_mset_mset set_mset_union)
  have "mset (map (object_key (se_scope e)) objs) = mset (map (object_key (se_scope e)) new) + mset (map (object_key (se_scope e)) exts)"
    using assms(6) by (metis image_mset_union mset_map)
  then have names: "distinct (map (object_key (se_scope e)) (new @ exts))"
    using assms(7) by (metis map_append mset_append mset_eq_imp_distinct_iff)
  obtain tbl1 s1 where t1: "common_loop e (zip rows exts) tbl s = (tbl1, s1)" "ids_ok tbl1"
      "mine c tbl1 = mset (map (\<lambda>(r, obj). synced_row (se_scope e) obj r) (zip rows exts))" "others c tbl1 = others c tbl"
      "sr_errors s1 = sr_errors s"
  proof -
    have "\<forall>(r, obj)\<in>set (zip rows exts). row_version r \<le> ParseInt (ro_ResourceVersion obj) \<and> ns_found (se_scope e) obj"
      using assms(8,9) set by (auto dest: set_zip_rightD)
    then show thesis using common_loop_ok [OF assms(1,3), of c "zip rows exts" "{#}" s] assms(4,5) that by auto
  qed
  have fresh: "row_key (se_scope e) r \<noteq> object_key (se_scope e) obj" if "obj \<in> set new" "r \<in># mine c tbl1" for obj r
  proof -
    have "object_key (se_scope e) obj \<notin> object_key (se_scope e) ` set exts" using that(1) names by auto
    moreover from that(2) t1(3) obtain r' obj' where "(r', obj') \<in> set (zip rows exts)" "r = synced_row (se_scope e) obj' r'"
      by auto
    ultimately show ?thesis by (metis image_eqI set_zip_rightD synced_row_simps(3))
  qed
  obtain tbl2 s2 where t2: "added_loop e c new tbl1 s1 = (tbl2, s2)" "ids_ok tbl2"
      "image_mset (row_view (se_scope e)) (mine c tbl2) = image_mset (row_view (se_scope e)) (mine c tbl1) + mset (map (object_view (se_scope e)) new)"
      "others c tbl2 = others c tbl1" "sr_errors s2 = sr_errors s1"
    using added_loop_ok [OF assms(1,2) t1(2), of new s1] names fresh assms(9) set by auto
  have "image_mset (row_view (se_scope e)) (mine c tbl2) = mset (map (object_view (se_scope e)) objs)"
    using t2(3) t1(3) zip_synced [OF assms(5)] assms(6)
    by (metis add.commute image_mset_union mset_map)
  with t1 t2 show ?thesis by (auto simp: mirrors_def)
qed

lemma sync_mirrors:
  assumes "db_ok e" "go_sort (se_sort_rows e)" "go_sort (se_sort_objects e)"
    and "se_client_err e = None" "se_list e = Inr objs" "c \<noteq> []"
    and "ids_ok tbl" "distinct (map (object_key (se_scope e)) objs)"
    and "\<forall>r \<in># mine c tbl. \<not> se_inTask e r \<and> \<not> failed_row r"
    and "\<forall>r \<in># mine c tbl. \<forall>obj\<in>set objs. ro_UID obj = r_ExternalId r \<longrightarrow>
           row_version r \<le> ParseInt (ro_ResourceVersion obj)"
    and "\<forall>obj\<in>set objs. 0 \<le> ParseInt (ro_ResourceVersion obj) \<and> ns_found (se_scope e) obj"
  shows "\<exists>tbl' s. syncClusterResources e c tbl = Inr (tbl', s) \<and> \<not> IsError s \<and> mirrors (se_scope e) c tbl' objs \<and>
    others c tbl' = others c tbl"
proof -
  let ?rows = "filter (\<lambda>r. r_ClusterId r = c) tbl"
  obtain cmp where cmp: "CompareRemoteObjectSets (se_sort_rows e) (se_sort_objects e) r_ExternalId ?rows objs
        GetRemoteObjectGlobalId no_comparison = Inr (Inr cmp)"
      "mset (removed cmp) + mset (commonDB cmp) = mset ?rows" "mset (added cmp) + mset (commonExt cmp) = mset objs"
      "map r_ExternalId (commonDB cmp) = map GetRemoteObjectGlobalId (commonExt cmp)"
    using compare_splits [OF assms(2,3), of r_ExternalId ?rows objs GetRemoteObjectGlobalId] by blast
  have mine: "mset (removed cmp) + mset (commonDB cmp) = mine c tbl" using cmp(2) mset_rows by simp
  then have in_mine: "r \<in># mine c tbl" if "r \<in> set (removed cmp) \<union> set (commonDB cmp)" for r
    using that by (metis Un_iff set_mset_mset set_mset_union)
  have objs: "set (commonExt cmp) \<subseteq> set objs" using cmp(3) by (metis set_mset_mset set_mset_union Un_upper2)
  have len: "length (commonDB cmp) = length (commonExt cmp)" using cmp(4) by (metis length_map)
  have sub: "mset (removed cmp) \<subseteq># mine c tbl" unfolding mine [symmetric] by simp
  have rem: "\<forall>r\<in>set (removed cmp). \<not> failed_row r" using in_mine assms(9) by blast
  obtain tbl1 s1 where t1: "removed_loop e (removed cmp) tbl SyncResult_zero = (tbl1, s1)" "ids_ok tbl1"
      "mine c tbl1 = mine c tbl - mset (removed cmp)" "others c tbl1 = others c tbl" "sr_errors s1 = []"
    using removed_loop_ok [OF assms(1,7) sub rem, of SyncResult_zero] by (auto simp: SyncResult_zero_def)
  have m1: "mine c tbl1 = mset (commonDB cmp)" using t1(3) mine by (metis add_diff_cancel_left')
  have "row_version r \<le> ParseInt (ro_ResourceVersion obj)" if "(r, obj) \<in> set (zip (commonDB cmp) (commonExt cmp))" for r obj
  proof -
    from that obtain i where i: "i < length (commonDB cmp)" "r = commonDB cmp ! i" "obj = commonExt cmp ! i"
      by (auto simp: set_zip)
    then have "ro_UID obj = r_ExternalId r"
      using arg_cong [OF cmp(4), of "\<lambda>l. l ! i"] len by (simp add: GetRemoteObjectGlobalId_def)
    then show ?thesis using assms(10) in_mine objs i len by (metis Un_iff nth_mem subsetD)
  qed
  then have ver: "\<forall>(r, obj)\<in>set (zip (commonDB cmp) (commonExt cmp)). row_version r \<le> ParseInt (ro_ResourceVersion obj)"
    by blast
  obtain t2 s2 t3 s3 where "common_loop e (zip (commonDB cmp) (commonExt cmp)) tbl1 s1 = (t2, s2)"
      "added_loop e c (added cmp) t2 s2 = (t3, s3)" "mirrors (se_scope e) c t3 objs" "others c t3 = others c tbl1" "sr_errors s3 = []"
    using update_and_add_ok [OF assms(1,6) t1(2) m1 len cmp(3) assms(8) ver assms(11), of s1] t1(5) by auto
  moreover have "in_task_error e ?rows = None" "GetClusterModelObjects e c tbl = Inr ?rows"
    using assms(1,9) by (auto simp: in_task_error_None GetClusterModelObjects_def db_ok_def mine_in)
  ultimately show ?thesis
    using assms(4,5) t1(1,4) cmp(1) by (simp add: syncClusterResources_def IsError_def Let_def)
qed

text \<open>C1: A synchronisation of one kind of resource, cluster-wide or namespaced, makes the rows of the
  cluster mirror its objects: one row per object, with its UID, name, version and the status active,
  in the namespace recorded for it, and no other row of that cluster; the rows of other clusters are
  untouched and no error is recorded. This holds whatever rows there were (renamed, stale,
  duplicated), when the database and the cluster answer, none of them is in a task or failed, no row
  is ahead of its object, and the namespaces of the objects are recorded.\<close>

theorem syncClusterResources_mirrors:
  assumes "db_ok e" "go_sort (se_sort_rows e)" "go_sort (se_sort_objects e)"
    and "se_client_err e = None" "se_list e = Inr objs" "c \<noteq> []"
    and "ids_ok tbl" "distinct (map (object_key (se_scope e)) objs)"
    and "\<forall>r \<in># mine c tbl. \<not> se_inTask e r \<and> \<not> failed_row r"
    and "\<forall>r \<in># mine c tbl. \<forall>obj\<in>set objs. ro_UID obj = r_ExternalId r \<longrightarrow>
           row_version r \<le> ParseInt (ro_ResourceVersion obj)"
    and "\<forall>obj\<in>set objs. 0 \<le> ParseInt (ro_ResourceVersion obj) \<and> ns_found (se_scope e) obj"
  shows "\<exists>tbl' s. syncClusterResources e c tbl = Inr (tbl', s) \<and> \<not> IsError s \<and> mirrors (se_scope e) c tbl' objs \<and>
    others c tbl' = others c tbl"
  using sync_mirrors [OF assms] .

text \<open>A failed row (status \<open>\<dots>_fail\<close> or \<open>\<dots>_failed\<close>) whose object is gone is counted as deleted and
  kept, and from then on an object created under its name cannot be recorded.\<close>

theorem failed_row_blocks_name:
  assumes "db_ok e" "c \<noteq> []" "se_owned e row" "failed_row row" "ns_found (se_scope e) obj"
    and "filter_mset (\<lambda>r. row_key (se_scope e) r = object_key (se_scope e) obj) (mine c tbl) = {#row#}"
  shows "SyncRemovedClusterResource e row tbl = (tbl, None) \<and>
    (\<exists>err. NewFromRemoteObject e c obj tbl = (tbl, Some err))"
proof
  show "SyncRemovedClusterResource e row tbl = (tbl, None)"
    using assms(4) by (simp add: SyncRemovedClusterResource_def failed_row_def)
  show "\<exists>err. NewFromRemoteObject e c obj tbl = (tbl, Some err)"
    using LocalExist_lookup(2) [OF assms(5) Fetch_one [OF assms(1-3,5,6)]] by (simp add: NewFromRemoteObject_def)
qed

text \<open>A namespaced manager takes every error of the lookup for absence, also that there are several rows: an object that has two or more is recorded once
  more by each call, where a manager of cluster resources returns the error.\<close>

theorem duplicate_rows_multiply:
  assumes "db_ok e" "c \<noteq> []" "ids_ok tbl" "\<forall>r. se_owned e r" "ns_found (se_scope e) obj" "0 \<le> ParseInt (ro_ResourceVersion obj)"
    "2 \<le> size (filter_mset (\<lambda>r. row_key (se_scope e) r = object_key (se_scope e) obj) (mine c tbl))"
  shows "if se_scope e = None then \<exists>err. NewFromRemoteObject e c obj tbl = (tbl, Some err)
    else \<exists>tbl' row. NewFromRemoteObject e c obj tbl = (tbl', None) \<and> mine c tbl' = add_mset row (mine c tbl) \<and> row_key (se_scope e) row = object_key (se_scope e) obj"
proof -
  have "2 \<le> length (filter (\<lambda>r. r_ClusterId r = c \<and> row_key (se_scope e) r = object_key (se_scope e) obj) tbl)"
    using assms(7) unfolding filter_key_rows [symmetric] by (simp del: mset_filter)
  then have dup: "lookup_row e c obj tbl = Inl ErrDuplicateEntry"
    unfolding lookup_row_def FetchClusterResourceByName_def Let_def key_rows [OF assms(5)]
    using assms(1,2,4) by (auto simp: db_ok_def first_count_def)
  show ?thesis
  proof (cases "se_scope e")
    case None
    with dup show ?thesis
      by (simp add: lookup_row_def ns_of_def NewFromRemoteObject_def IsRemoteObjectLocalExist_def Cluster_IsRemoteObjectLocalExist_def)
  next
    case (Some ns)
    with dup assms(5) have "IsRemoteObjectLocalExist e c obj tbl = Inr None"
      by (auto simp: lookup_row_def IsRemoteObjectLocalExist_def NS_IsRemoteObjectLocalExist_def ns_of_def ns_found_def)
    then obtain tbl' row where "NewFromRemoteObject e c obj tbl = (tbl', None)" "mine c tbl' = add_mset row (mine c tbl)"
        "row_view (se_scope e) row = object_view (se_scope e) obj"
      by (rule NewFrom_absent [OF assms(1-3) _ assms(6,5)])
    then show ?thesis using Some by (auto simp: row_view_def object_view_def)
  qed
qed

text \<open>What a synchronisation relies on: of the rows and the objects alone, and of the keys of the objects in a scope.\<close>

definition rows_ready :: "sync_env \<Rightarrow> string \<Rightarrow> table \<Rightarrow> remote_object list \<Rightarrow> bool" where
  "rows_ready e c tbl objs \<longleftrightarrow>
     db_ok e \<and> go_sort (se_sort_rows e) \<and> go_sort (se_sort_objects e) \<and>
     se_client_err e = None \<and> se_list e = Inr objs \<and> c \<noteq> [] \<and> ids_ok tbl \<and>
     (\<forall>r \<in># mine c tbl. \<not> se_inTask e r \<and> \<not> failed_row r) \<and>
     (\<forall>r \<in># mine c tbl. \<forall>obj\<in>set objs. ro_UID obj = r_ExternalId r \<longrightarrow> row_version r \<le> ParseInt (ro_ResourceVersion obj)) \<and>
     (\<forall>obj\<in>set objs. 0 \<le> ParseInt (ro_ResourceVersion obj))"

definition keys_ok :: "scope \<Rightarrow> remote_object list \<Rightarrow> bool" where
  "keys_ok sc objs \<longleftrightarrow> distinct (map (object_key sc) objs) \<and> (\<forall>obj\<in>set objs. ns_found sc obj)"

definition ready :: "sync_env \<Rightarrow> string \<Rightarrow> table \<Rightarrow> remote_object list \<Rightarrow> bool" where
  "ready e c tbl objs \<longleftrightarrow> rows_ready e c tbl objs \<and> keys_ok (se_scope e) objs"

lemmas ready_defs = ready_def rows_ready_def keys_ok_def

lemma rows_ready_scope [simp]: "rows_ready (e\<lparr>se_scope := sc\<rparr>) c tbl objs = rows_ready e c tbl objs"
  by (simp add: rows_ready_def db_ok_def)

lemma keys_ok_cluster: "keys_ok None objs \<longleftrightarrow> distinct (map ro_Name objs)"
  by (simp add: keys_ok_def object_key_def ns_of_def ns_found_def distinct_map inj_on_def)

lemma ParseInt_Nil [simp]: "ParseInt [] = 0"
  by (simp add: ParseInt_def)

lemma mirrors_row:
  assumes "mirrors sc c tbl objs" "distinct (map (object_key sc) objs)" "old \<in> set objs"
  obtains row where "filter_mset (\<lambda>r. row_key sc r = object_key sc old) (mine c tbl) = {#row#}" "row_view sc row = object_view sc old"
    "row \<in># mine c tbl" "row_version row = ParseInt (ro_ResourceVersion old)" "\<not> failed_row row"
proof -
  have only: "filter (\<lambda>x. object_key sc x = object_key sc old) objs = [old]"
    using assms(2,3) by (induction objs) (auto simp: filter_empty_conv image_iff)
  have "image_mset (row_view sc) (filter_mset (\<lambda>r. row_key sc r = object_key sc old) (mine c tbl)) =
      filter_mset (\<lambda>v. fst v = object_key sc old) (image_mset (row_view sc) (mine c tbl))"
    by (simp add: filter_mset_image_mset row_view_def)
  also have "\<dots> = mset (map (object_view sc) (filter (\<lambda>x. object_key sc x = object_key sc old) objs))"
    using assms(1) by (simp add: mirrors_def filter_mset_image_mset object_view_def)
  finally have "image_mset (row_view sc) (filter_mset (\<lambda>r. row_key sc r = object_key sc old) (mine c tbl)) = {#object_view sc old#}"
    by (simp add: only)
  then obtain row where row: "filter_mset (\<lambda>r. row_key sc r = object_key sc old) (mine c tbl) = {#row#}" "row_view sc row = object_view sc old"
    by (auto dest!: msed_map_invR)
  then have "row \<in># mine c tbl" by (metis filter_mset_eq_conv mset_subset_eqD multi_member_last multiset_filter_subset)
  moreover have "row_version row = ParseInt (ro_ResourceVersion old)" "\<not> failed_row row"
    using row(2) by (auto simp: row_view_def object_view_def row_version_def failed_row_def strings_HasSuffix_def
        ClusterResourceStatusActive_def suffix_def)
  ultimately show thesis using that row by blast
qed

lemma ready_mirrors:
  assumes "ready e c tbl objs"
  obtains tbl' s where "syncClusterResources e c tbl = Inr (tbl', s)" "\<not> IsError s" "mirrors (se_scope e) c tbl' objs"
proof -
  have "\<exists>tbl' s. syncClusterResources e c tbl = Inr (tbl', s) \<and> \<not> IsError s \<and> mirrors (se_scope e) c tbl' objs \<and> others c tbl' = others c tbl"
    by (rule sync_mirrors) (use assms in \<open>simp_all add: ready_defs\<close>)
  then show thesis using that by blast
qed

section \<open>Examples\<close>

definition fresh_id :: "table \<Rightarrow> string" where
  "fresh_id tbl = replicate (Suc (Max (insert 0 (set (map (length \<circ> r_Id) tbl))))) CHR ''x''"

lemma fresh_id_fresh: "fresh_id t \<notin> r_Id ` set t"
proof
  assume "fresh_id t \<in> r_Id ` set t"
  then have "length (fresh_id t) \<in> set (map (length \<circ> r_Id) t)" by (auto simp: image_iff)
  then have "length (fresh_id t) \<le> Max (insert 0 (set (map (length \<circ> r_Id) t)))" by (intro Max_ge) auto
  then show False by (simp add: fresh_id_def)
qed

definition sample_objects :: "remote_object list" where
  "sample_objects =
     [\<lparr>ro_UID = ''u1'', ro_Name = ''web'', ro_Namespace = [], ro_ResourceVersion = ''12''\<rparr>,
      \<lparr>ro_UID = ''u3'', ro_Name = ''db'', ro_Namespace = [], ro_ResourceVersion = ''9''\<rparr>]"

definition sample_table :: table where
  "sample_table =
     [\<lparr>r_Id = ''1'', r_Name = ''old'', r_Status = ''active'', r_ExternalId = ''u1'', r_ClusterId = ''c'', r_ResourceVersion = ''7'', r_NamespaceId = []\<rparr>,
      \<lparr>r_Id = ''2'', r_Name = ''gone'', r_Status = ''active'', r_ExternalId = ''u2'', r_ClusterId = ''c'', r_ResourceVersion = ''8'', r_NamespaceId = []\<rparr>,
      \<lparr>r_Id = ''3'', r_Name = ''web'', r_Status = ''active'', r_ExternalId = ''u9'', r_ClusterId = ''d'', r_ResourceVersion = ''1'', r_NamespaceId = []\<rparr>]"

definition sample_sync_env :: sync_env where
  "sample_sync_env =
     \<lparr>se_client_err = None, se_list = Inr sample_objects, se_rows_err = None, se_inTask = (\<lambda>_. False),
      se_count_err = None, se_owner_err = None, se_model_err = None, se_first_err = None,
      se_has_cred = True, se_owned = (\<lambda>_. True), se_newId = fresh_id, se_insert_err = (\<lambda>_. None),
      se_cluster_err = None, se_update_err = (\<lambda>_. None), se_delete_err = (\<lambda>_. None),
      se_sort_rows = insertionSort, se_sort_objects = insertionSort, se_IsUtf8 = (\<lambda>_. False), se_scope = None\<rparr>"

lemma sample_versions:
  "ParseInt ''12'' = 12" "ParseInt ''9'' = 9" "ParseInt ''7'' = 7" "ParseInt ''8'' = 8"
  by code_simp+

lemma sample_db_ok: "db_ok sample_sync_env"
  by (simp add: db_ok_def sample_sync_env_def fresh_id_fresh) (simp add: fresh_id_def)

lemma sample_rows:
  "mine ''c'' sample_table =
   {#\<lparr>r_Id = ''1'', r_Name = ''old'', r_Status = ''active'', r_ExternalId = ''u1'', r_ClusterId = ''c'', r_ResourceVersion = ''7'', r_NamespaceId = []\<rparr>,
     \<lparr>r_Id = ''2'', r_Name = ''gone'', r_Status = ''active'', r_ExternalId = ''u2'', r_ClusterId = ''c'', r_ResourceVersion = ''8'', r_NamespaceId = []\<rparr>#}"
  by (simp add: mine_def sample_table_def)

lemma active_not_failed: "r_Status r = ''active'' \<Longrightarrow> \<not> failed_row r"
  by (simp add: failed_row_def strings_HasSuffix_def suffix_to_prefix)

lemma sample_scope [simp]: "se_scope sample_sync_env = None"
  by (simp add: sample_sync_env_def)

lemmas scope_defs = row_key_def object_key_def row_ns_def ns_of_def ns_found_def

lemma sample_ready: "ready sample_sync_env ''c'' sample_table sample_objects"
  unfolding ready_defs sample_rows sample_scope
proof (intro conjI)
  show "db_ok sample_sync_env" by (rule sample_db_ok)
  show "ids_ok sample_table" by (simp add: sample_table_def ids_ok_def)
qed (simp_all add: sample_sync_env_def insertion.go_sort_axioms active_not_failed row_version_def
    sample_objects_def sample_versions scope_defs)

text \<open>A namespaced manager, with two objects of one name in two namespaces.\<close>

definition sample_ns_objects :: "remote_object list" where
  "sample_ns_objects =
     [\<lparr>ro_UID = ''u1'', ro_Name = ''web'', ro_Namespace = ''default'', ro_ResourceVersion = ''12''\<rparr>,
      \<lparr>ro_UID = ''u3'', ro_Name = ''web'', ro_Namespace = ''prod'', ro_ResourceVersion = ''9''\<rparr>]"

definition sample_ns_scope :: scope where
  "sample_ns_scope = Some (\<lambda>n. if n = ''default'' then Inr ''n1'' else if n = ''prod'' then Inr ''n2'' else Inl ErrNoRows)"

definition sample_ns_env :: sync_env where
  "sample_ns_env = sample_sync_env\<lparr>se_list := Inr sample_ns_objects, se_scope := sample_ns_scope\<rparr>"

lemma sample_ns_ready: "ready sample_ns_env ''c'' sample_table sample_ns_objects"
  using sample_ready
  by (simp add: ready_defs db_ok_def sample_ns_env_def sample_ns_objects_def sample_ns_scope_def sample_rows row_version_def sample_versions scope_defs)

theorem syncClusterResources_mirrors_witness:
  "(\<exists>tbl' s. syncClusterResources sample_sync_env ''c'' sample_table = Inr (tbl', s) \<and> \<not> IsError s \<and>
     mirrors None ''c'' tbl' sample_objects \<and> others ''c'' tbl' = others ''c'' sample_table) \<and>
   (\<exists>tbl' s. syncClusterResources sample_ns_env ''c'' sample_table = Inr (tbl', s) \<and> \<not> IsError s \<and>
     mirrors sample_ns_scope ''c'' tbl' sample_ns_objects \<and> others ''c'' tbl' = others ''c'' sample_table)"
proof -
  have sc: "se_scope sample_ns_env = sample_ns_scope" by (simp add: sample_ns_env_def)
  have "\<exists>tbl' s. syncClusterResources sample_sync_env ''c'' sample_table = Inr (tbl', s) \<and> \<not> IsError s \<and>
     mirrors (se_scope sample_sync_env) ''c'' tbl' sample_objects \<and> others ''c'' tbl' = others ''c'' sample_table"
    by (rule syncClusterResources_mirrors) (use sample_ready in \<open>simp_all add: ready_defs\<close>)
  moreover have "\<exists>tbl' s. syncClusterResources sample_ns_env ''c'' sample_table = Inr (tbl', s) \<and> \<not> IsError s \<and>
     mirrors (se_scope sample_ns_env) ''c'' tbl' sample_ns_objects \<and> others ''c'' tbl' = others ''c'' sample_table"
    by (rule syncClusterResources_mirrors) (use sample_ns_ready in \<open>simp_all add: ready_defs\<close>)
  ultimately show ?thesis unfolding sc sample_scope by blast
qed

definition sample_mirror :: table where
  "sample_mirror =
     [\<lparr>r_Id = ''1'', r_Name = ''web'', r_Status = ''active'', r_ExternalId = ''u1'', r_ClusterId = ''c'', r_ResourceVersion = ''12'', r_NamespaceId = []\<rparr>,
      \<lparr>r_Id = ''4'', r_Name = ''db'', r_Status = ''active'', r_ExternalId = ''u3'', r_ClusterId = ''c'', r_ResourceVersion = ''9'', r_NamespaceId = []\<rparr>]"

lemma sample_mirrors: "mirrors None ''c'' sample_mirror sample_objects"
  by (simp add: mirrors_def mine_def sample_mirror_def sample_objects_def row_view_def object_view_def
      ClusterResourceStatusActive_def ids_ok_def scope_defs)

theorem duplicate_rows_multiply_witness:
  "\<exists>tbl' row. NewFromRemoteObject sample_ns_env ''c'' (hd sample_ns_objects)
       [(hd sample_mirror)\<lparr>r_NamespaceId := ''n1''\<rparr>, (hd sample_mirror)\<lparr>r_Id := ''5'', r_NamespaceId := ''n1''\<rparr>] = (tbl', None) \<and> row_key sample_ns_scope row = (''web'', ''n1'')"
proof -
  let ?t = "[(hd sample_mirror)\<lparr>r_NamespaceId := ''n1''\<rparr>, (hd sample_mirror)\<lparr>r_Id := ''5'', r_NamespaceId := ''n1''\<rparr>]"
  have "db_ok sample_ns_env" "\<forall>r. se_owned sample_ns_env r" "se_scope sample_ns_env = sample_ns_scope"
    using sample_db_ok by (simp_all add: db_ok_def sample_ns_env_def sample_sync_env_def)
  moreover have "ids_ok ?t" "ns_found sample_ns_scope (hd sample_ns_objects)" "0 \<le> ParseInt (ro_ResourceVersion (hd sample_ns_objects))"
    "2 \<le> size (filter_mset (\<lambda>r. row_key sample_ns_scope r = object_key sample_ns_scope (hd sample_ns_objects)) (mine ''c'' ?t))"
    by (simp_all add: ids_ok_def sample_mirror_def sample_ns_objects_def sample_versions scope_defs sample_ns_scope_def mine_def)
  ultimately show ?thesis using duplicate_rows_multiply [of sample_ns_env "''c''" ?t "hd sample_ns_objects"]
    by (auto simp: sample_ns_scope_def object_key_def ns_of_def sample_ns_objects_def)
qed

theorem failed_row_blocks_name_witness:
  "\<exists>err. NewFromRemoteObject sample_sync_env ''c'' (hd sample_objects)
     [(hd sample_mirror)\<lparr>r_Status := ''create_fail''\<rparr>] = ([(hd sample_mirror)\<lparr>r_Status := ''create_fail''\<rparr>], Some err)"
  using failed_row_blocks_name [OF sample_db_ok, of "''c''" "(hd sample_mirror)\<lparr>r_Status := ''create_fail''\<rparr>" "hd sample_objects"
      "[(hd sample_mirror)\<lparr>r_Status := ''create_fail''\<rparr>]"]
  by (simp add: sample_sync_env_def sample_mirror_def sample_objects_def mine_def failed_row_def strings_HasSuffix_def
      suffix_to_prefix scope_defs)

end
