(* ===== verification/ClusterEvents.thy ===== *)
theory ClusterEvents
  imports ClusterSync
begin

text \<open>
  The events of a cluster: the informer callbacks of src/pkg/client/cache.go and the functions of
  src/pkg/models/clusterresource.go that carry them into the database. Shown, by induction over
  the runs of a cluster: rows that mirror the cluster's objects go on doing so.
\<close>

section \<open>Events of a cluster\<close>

definition onRemoteObjectCreate :: "sync_env \<Rightarrow> string \<Rightarrow> remote_object \<Rightarrow> table \<Rightarrow> table \<times> string option" where
  "onRemoteObjectCreate e c obj tbl =
     (let (tbl', err) = NewFromRemoteObject e c obj tbl in (tbl', errors_Wrap ''NewFromRemoteObject'' err))"

definition onRemoteObjectUpdate :: "sync_env \<Rightarrow> cluster_row \<Rightarrow> remote_object \<Rightarrow> table \<Rightarrow> table \<times> string option" where
  "onRemoteObjectUpdate e dbObj newObj tbl =
     (let (tbl', err) = SyncUpdatedClusterResource e dbObj newObj tbl in (tbl', errors_Wrap ''onRemoteObjectUpdate'' err))"

definition OnRemoteObjectDelete :: "sync_env \<Rightarrow> cluster_row \<Rightarrow> table \<Rightarrow> table \<times> string option" where
  "OnRemoteObjectDelete e dbObj tbl =
     (let (tbl', err) = SyncRemovedClusterResource e dbObj tbl in (tbl', errors_Wrap ''OnRemoteObjectDelete'' err))"

definition processCreateOrUpdateByRemoteObject ::
  "sync_env \<Rightarrow> string \<Rightarrow> remote_object \<Rightarrow> table \<Rightarrow> table \<times> string option" where
  "processCreateOrUpdateByRemoteObject e c obj tbl =
     (case IsRemoteObjectLocalExist e c obj tbl of
        Inl err \<Rightarrow> (tbl, Some (''check remote object is local exist: '' @ err))
      | Inr (Some dbObj) \<Rightarrow>
          (let (tbl', err) = onRemoteObjectUpdate e dbObj obj tbl in (tbl', errors_Wrap ''call onRemoteObjectUpdate'' err))
      | Inr None \<Rightarrow>
          (let (tbl', err) = onRemoteObjectCreate e c obj tbl in (tbl', errors_Wrap ''call onRemoteObjectCreate'' err)))"

definition processRemoteObjectDelete :: "sync_env \<Rightarrow> string \<Rightarrow> remote_object \<Rightarrow> table \<Rightarrow> table \<times> string option" where
  "processRemoteObjectDelete e c obj tbl =
     (case (case se_scope e of None \<Rightarrow> Inr [] | Some ns \<Rightarrow> ns (ro_Namespace obj)) of
        Inl err \<Rightarrow> (tbl, Some (''OnRemoteObjectDelete get namespace: '' @ fetch_message err))
      | Inr dbNsId \<Rightarrow>
          (case FetchClusterResourceByName e (se_scope e \<noteq> None) c dbNsId (ro_Name obj) tbl of
             Inl ErrNoRows \<Rightarrow> (tbl, None)
           | Inl err \<Rightarrow> (tbl, Some (''FetchClusterResourceByName: '' @ fetch_message err))
           | Inr dbObj \<Rightarrow> OnRemoteObjectDelete e dbObj tbl))"

text \<open>The informer's handler; errors are logged only.\<close>

datatype cluster_event = OnAdd remote_object | OnUpdate remote_object remote_object | OnDelete remote_object

definition eventHandler_run :: "bool \<Rightarrow> (table \<Rightarrow> table) \<Rightarrow> table \<Rightarrow> table" where
  "eventHandler_run bidirectionalSync f tbl = (if \<not> bidirectionalSync then tbl else f tbl)"

fun handle_event :: "bool \<Rightarrow> sync_env \<Rightarrow> string \<Rightarrow> cluster_event \<Rightarrow> table \<Rightarrow> table" where
  "handle_event bidi e c (OnAdd obj) tbl =
     eventHandler_run bidi (\<lambda>t. fst (processCreateOrUpdateByRemoteObject e c obj t)) tbl"
| "handle_event bidi e c (OnUpdate oldObj newObj) tbl =
     eventHandler_run bidi (\<lambda>t. fst (processCreateOrUpdateByRemoteObject e c newObj t)) tbl"
| "handle_event bidi e c (OnDelete obj) tbl =
     eventHandler_run bidi (\<lambda>t. fst (processRemoteObjectDelete e c obj t)) tbl"

text \<open>The delete callback with the assertion it makes of its argument: after a missed deletion the
  informer passes a \<open>DeletedFinalStateUnknown\<close>, which is no runtime object.\<close>

datatype informer_object = InformerObject remote_object | DeletedFinalStateUnknown string remote_object

definition eventHandler_OnDelete :: "bool \<Rightarrow> sync_env \<Rightarrow> string \<Rightarrow> informer_object \<Rightarrow> table \<Rightarrow> table go" where
  "eventHandler_OnDelete bidi e c obj tbl =
     (if \<not> bidi then Inr tbl
      else case obj of
             InformerObject o' \<Rightarrow> Inr (fst (processRemoteObjectDelete e c o' tbl))
           | DeletedFinalStateUnknown key o' \<Rightarrow> Inl TypeAssertionPanic)"

lemma eventHandler_OnDelete_plain:
  "eventHandler_OnDelete bidi e c (InformerObject obj) tbl = Inr (handle_event bidi e c (OnDelete obj) tbl)"
  by (simp add: eventHandler_OnDelete_def eventHandler_run_def)

text \<open>While events are handled, a deletion the informer learned of only by a new list panics the
  informer's goroutine.\<close>

theorem missed_delete_panics:
  "eventHandler_OnDelete True e c (DeletedFinalStateUnknown key obj) tbl = Inl TypeAssertionPanic \<and>
   eventHandler_OnDelete True e c (InformerObject obj) tbl = Inr (handle_event True e c (OnDelete obj) tbl)"
  by (simp add: eventHandler_OnDelete_def eventHandler_run_def)

subsection \<open>Runs\<close>



text \<open>The objects of a cluster change, and the handler sees each change; the namespace of a new object is recorded. An update
  keeps the name and the namespace and does not lower the version; the UID may change, when the informer joins a deletion and a creation.\<close>

inductive cluster_run :: "sync_env \<Rightarrow> string \<Rightarrow> remote_object list \<Rightarrow> table \<Rightarrow> remote_object list \<Rightarrow> table \<Rightarrow> bool"
  for e c objs0 tbl0 where
  run_start: "cluster_run e c objs0 tbl0 objs0 tbl0"
| run_add: "cluster_run e c objs0 tbl0 objs tbl \<Longrightarrow> object_key (se_scope e) obj \<notin> object_key (se_scope e) ` set objs \<Longrightarrow>
    ns_found (se_scope e) obj \<Longrightarrow> 0 \<le> ParseInt (ro_ResourceVersion obj) \<Longrightarrow>
    cluster_run e c objs0 tbl0 (obj # objs) (handle_event True e c (OnAdd obj) tbl)"
| run_update: "cluster_run e c objs0 tbl0 objs tbl \<Longrightarrow> old \<in> set objs \<Longrightarrow> ro_Name obj = ro_Name old \<Longrightarrow>
    ro_Namespace obj = ro_Namespace old \<Longrightarrow> ParseInt (ro_ResourceVersion old) \<le> ParseInt (ro_ResourceVersion obj) \<Longrightarrow>
    cluster_run e c objs0 tbl0 (obj # remove1 old objs) (handle_event True e c (OnUpdate old obj) tbl)"
| run_delete: "cluster_run e c objs0 tbl0 objs tbl \<Longrightarrow> old \<in> set objs \<Longrightarrow>
    cluster_run e c objs0 tbl0 (remove1 old objs) (handle_event True e c (OnDelete old) tbl)"



lemma mset_remove1_keys:
  "distinct (map k objs) \<Longrightarrow> distinct (map k (remove1 old objs))"
  by (induction objs) (auto dest: notin_set_remove1 simp: image_iff)

lemma remove1_key_absent:
  assumes "distinct (map k objs)" "old \<in> set objs"
  shows "k old \<notin> k ` set (remove1 old objs)"
  using assms by (induction objs) (auto simp: image_iff)

lemma mirrors_keys:
  assumes "mirrors sc c tbl objs" "r \<in># mine c tbl"
  shows "row_key sc r \<in> object_key sc ` set objs"
proof -
  have "row_view sc r \<in># mset (map (object_view sc) objs)" using assms unfolding mirrors_def by (metis image_eqI set_image_mset)
  then show ?thesis by (auto simp: row_view_def object_view_def)
qed

lemma event_add:
  assumes "db_ok e" "c \<noteq> []" "mirrors (se_scope e) c tbl objs" "object_key (se_scope e) obj \<notin> object_key (se_scope e) ` set objs"
    "0 \<le> ParseInt (ro_ResourceVersion obj)" "ns_found (se_scope e) obj"
  shows "mirrors (se_scope e) c (handle_event True e c (OnAdd obj) tbl) (obj # objs)"
    "others c (handle_event True e c (OnAdd obj) tbl) = others c tbl"
proof -
  have fresh: "\<forall>r \<in># mine c tbl. row_key (se_scope e) r \<noteq> object_key (se_scope e) obj" using mirrors_keys [OF assms(3)] assms(4) by metis
  obtain t row where t: "NewFromRemoteObject e c obj tbl = (t, None)" "ids_ok t"
      "mine c t = add_mset row (mine c tbl)" "others c t = others c tbl" "row_view (se_scope e) row = object_view (se_scope e) obj"
    by (rule NewFrom_ok [OF assms(1,2) _ fresh assms(5,6)]) (use assms(3) in \<open>auto simp: mirrors_def\<close>)
  have "handle_event True e c (OnAdd obj) tbl = t"
    using t(1) LocalExist_lookup(1) [OF assms(6) Fetch_none [OF assms(1,2,6) fresh]]
    by (simp add: eventHandler_run_def processCreateOrUpdateByRemoteObject_def onRemoteObjectCreate_def)
  with t assms(3) show "mirrors (se_scope e) c (handle_event True e c (OnAdd obj) tbl) (obj # objs)"
      "others c (handle_event True e c (OnAdd obj) tbl) = others c tbl"
    by (simp_all add: mirrors_def)
qed

lemma mset_views_remove1:
  "old \<in> set objs \<Longrightarrow> mset (map (object_view sc) (remove1 old objs)) = mset (map (object_view sc) objs) - {#object_view sc old#}"
  by (simp add: image_mset_Diff)

lemma same_key:
  assumes "ro_Name obj = ro_Name old" "ro_Namespace obj = ro_Namespace old"
  shows "object_key sc obj = object_key sc old" "ns_found sc obj = ns_found sc old"
  using assms by (simp_all add: object_key_def ns_of_def ns_found_def split: option.split)

lemma event_update:
  assumes "db_ok e" "c \<noteq> []" "\<forall>r. se_owned e r" "mirrors (se_scope e) c tbl objs" "distinct (map (object_key (se_scope e)) objs)" "old \<in> set objs"
    "ro_Name obj = ro_Name old" "ro_Namespace obj = ro_Namespace old" "ns_found (se_scope e) old"
    "ParseInt (ro_ResourceVersion old) \<le> ParseInt (ro_ResourceVersion obj)"
  shows "mirrors (se_scope e) c (handle_event True e c (OnUpdate old obj) tbl) (obj # remove1 old objs)"
    "others c (handle_event True e c (OnUpdate old obj) tbl) = others c tbl"
proof -
  let ?sc = "se_scope e"
  have key: "object_key ?sc obj = object_key ?sc old" "ns_found ?sc obj" using same_key [OF assms(7,8)] assms(9) by simp_all
  obtain row where row: "filter_mset (\<lambda>r. row_key ?sc r = object_key ?sc old) (mine c tbl) = {#row#}" "row_view ?sc row = object_view ?sc old"
      "row \<in># mine c tbl" "row_version row = ParseInt (ro_ResourceVersion old)"
    by (rule mirrors_row [OF assms(4-6)])
  have ids: "ids_ok tbl" "r_ClusterId row = c" using assms(4) row(3) by (auto simp: mirrors_def mine_in)
  have "IsRemoteObjectLocalExist e c obj tbl = Inr (Some row)"
    using LocalExist_lookup(2) [OF key(2) Fetch_one [OF assms(1,2) _ key(2)]] row(1) assms(3) key(1) by simp
  moreover have "API_UpdateFromRemoteObject e row obj tbl = (save_row (synced_row ?sc obj row) tbl, None)"
    by (rule API_Update_ok [OF assms(1) _ key(2)]) (use row(4) assms(10) in simp)
  ultimately have "handle_event True e c (OnUpdate old obj) tbl = save_row (synced_row ?sc obj row) tbl"
    by (simp add: eventHandler_run_def processCreateOrUpdateByRemoteObject_def
        onRemoteObjectUpdate_def SyncUpdatedClusterResource_def)
  moreover have "image_mset (row_view ?sc) (mine c tbl - {#row#}) = mset (map (object_view ?sc) objs) - {#object_view ?sc old#}"
    using assms(4) row(2,3) by (simp add: image_mset_Diff mirrors_def)
  ultimately show "mirrors ?sc c (handle_event True e c (OnUpdate old obj) tbl) (obj # remove1 old objs)"
      "others c (handle_event True e c (OnUpdate old obj) tbl) = others c tbl"
    using save_row_views [OF ids(1) row(3), of "synced_row ?sc obj row"] ids mset_views_remove1 [OF assms(6)]
    by (simp_all add: mirrors_def del: mset_map)
qed

lemma event_delete:
  assumes "db_ok e" "c \<noteq> []" "\<forall>r. se_owned e r" "mirrors (se_scope e) c tbl objs" "distinct (map (object_key (se_scope e)) objs)" "old \<in> set objs"
    "ns_found (se_scope e) old"
  shows "mirrors (se_scope e) c (handle_event True e c (OnDelete old) tbl) (remove1 old objs)"
    "others c (handle_event True e c (OnDelete old) tbl) = others c tbl"
proof -
  let ?sc = "se_scope e"
  obtain row where row: "filter_mset (\<lambda>r. row_key ?sc r = object_key ?sc old) (mine c tbl) = {#row#}" "row_view ?sc row = object_view ?sc old"
      "row \<in># mine c tbl" "\<not> failed_row row"
    by (rule mirrors_row [OF assms(4-6)])
  have ids: "ids_ok tbl" using assms(4) by (simp add: mirrors_def)
  have "lookup_row e c old tbl = Inr row" using Fetch_one [OF assms(1,2) _ assms(7) row(1)] assms(3) by simp
  moreover have "(case ?sc of None \<Rightarrow> Inr [] | Some ns \<Rightarrow> ns (ro_Namespace old)) = Inr (ns_of ?sc old)"
    using assms(7) by (auto simp: ns_of_def ns_found_def split: option.splits)
  ultimately have "handle_event True e c (OnDelete old) tbl = filter (\<lambda>r. r_Id r \<noteq> r_Id row) tbl"
    using assms(1) row(4)
    by (simp add: eventHandler_run_def processRemoteObjectDelete_def lookup_row_def OnRemoteObjectDelete_def
        SyncRemovedClusterResource_def failed_row_def RealDelete_def db_ok_def)
  moreover have "image_mset (row_view ?sc) (mine c tbl - {#row#}) = mset (map (object_view ?sc) objs) - {#object_view ?sc old#}"
    using assms(4) row(2,3) by (simp add: image_mset_Diff mirrors_def)
  ultimately show "mirrors ?sc c (handle_event True e c (OnDelete old) tbl) (remove1 old objs)"
      "others c (handle_event True e c (OnDelete old) tbl) = others c tbl"
    using delete_row_views [OF ids row(3)] delete_row_ids [OF ids] mset_views_remove1 [OF assms(6)]
    by (simp_all add: mirrors_def del: mset_map)
qed

text \<open>C3: once the rows of a cluster mirror its objects, handling the events of any sequence of
  creations, updates and deletions keeps them so, for resources of the cluster and for resources of its
  namespaces, and never touches the rows of another cluster.\<close>

theorem events_keep_mirror:
  assumes "cluster_run e c objs0 tbl0 objs tbl"
    and "db_ok e" "c \<noteq> []" "\<forall>r. se_owned e r" "mirrors (se_scope e) c tbl0 objs0"
    and "distinct (map (object_key (se_scope e)) objs0)" "\<forall>obj\<in>set objs0. ns_found (se_scope e) obj"
  shows "mirrors (se_scope e) c tbl objs \<and> distinct (map (object_key (se_scope e)) objs) \<and>
    (\<forall>obj\<in>set objs. ns_found (se_scope e) obj) \<and> others c tbl = others c tbl0"
  using assms(1)
proof (induction rule: cluster_run.induct)
  case run_start
  then show ?case using assms(5-7) by simp
next
  case (run_add objs tbl obj)
  then show ?case using event_add [OF assms(2,3), of tbl objs obj] by (simp del: handle_event.simps)
next
  case (run_update objs tbl old obj)
  then show ?case
    using event_update [OF assms(2-4), of tbl objs old obj] mset_remove1_keys [of "object_key (se_scope e)" objs old]
      remove1_key_absent [of "object_key (se_scope e)" objs old] same_key [of obj old "se_scope e"] notin_set_remove1
    by (auto simp del: handle_event.simps)
next
  case (run_delete objs tbl old)
  then show ?case using event_delete [OF assms(2-4), of tbl objs old] mset_remove1_keys [of "object_key (se_scope e)" objs old] notin_set_remove1
    by (auto simp del: handle_event.simps)
qed

definition sample_ns_mirror :: table where
  "sample_ns_mirror =
     [(sample_mirror ! 0)\<lparr>r_NamespaceId := ''n1''\<rparr>, (sample_mirror ! 1)\<lparr>r_Name := ''web'', r_NamespaceId := ''n2''\<rparr>]"

theorem events_keep_mirror_witness:
  "mirrors sample_ns_scope ''c'' (handle_event True sample_ns_env ''c'' (OnDelete (hd sample_ns_objects)) sample_ns_mirror) (tl sample_ns_objects)"
proof -
  have sc: "se_scope sample_ns_env = sample_ns_scope" by (simp add: sample_ns_env_def)
  have run: "cluster_run sample_ns_env ''c'' sample_ns_objects sample_ns_mirror (remove1 (hd sample_ns_objects) sample_ns_objects)
      (handle_event True sample_ns_env ''c'' (OnDelete (hd sample_ns_objects)) sample_ns_mirror)"
    by (rule run_delete [OF run_start]) (simp add: sample_ns_objects_def)
  have "mirrors sample_ns_scope ''c'' sample_ns_mirror sample_ns_objects"
    by (simp add: mirrors_def mine_def sample_ns_mirror_def sample_mirror_def sample_ns_objects_def row_view_def object_view_def
        ClusterResourceStatusActive_def ids_ok_def scope_defs sample_ns_scope_def)
  moreover have "db_ok sample_ns_env" "\<forall>r. se_owned sample_ns_env r"
    using sample_db_ok by (simp_all add: db_ok_def sample_ns_env_def sample_sync_env_def)
  moreover have "distinct (map (object_key sample_ns_scope) sample_ns_objects)" "\<forall>obj\<in>set sample_ns_objects. ns_found sample_ns_scope obj"
    by (simp_all add: sample_ns_objects_def scope_defs sample_ns_scope_def)
  ultimately have "mirrors sample_ns_scope ''c'' (handle_event True sample_ns_env ''c'' (OnDelete (hd sample_ns_objects)) sample_ns_mirror)
      (remove1 (hd sample_ns_objects) sample_ns_objects)"
    using events_keep_mirror [OF run] unfolding sc by blast
  then show ?thesis by (simp add: sample_ns_objects_def del: handle_event.simps)
qed

end
