(* ===== verification/RemoteSets.thy ===== *)
theory RemoteSets
  imports Prelude
begin

text \<open>
  The sets of remote resources of src/pkg/api/cluster.go (\<open>operateSet\<close> and the three kinds of
  resource lists on it) and the collection of them over the running clusters of a federation,
  src/pkg/models/federated_utils.go. The order in which Go walks a map, and the value of the
  shared loop variable that a goroutine sees, are parameters. The theorems show that the
  operations do not give the union or the intersection they are named for.
\<close>

section \<open>The resources\<close>

record ClusterAPIGroupResource =
  APIGroup :: string
  APIResource_Name :: string

definition ClusterAPIGroupResource_GetKey :: "ClusterAPIGroupResource \<Rightarrow> string" where
  "ClusterAPIGroupResource_GetKey r = APIGroup r @ ''/'' @ APIResource_Name r"

record ClusterUser =
  user_Name :: string
  user_FullName :: string
  user_Identities :: "string list"
  user_Groups :: "string list"

definition ClusterUser_GetKey :: "ClusterUser \<Rightarrow> string" where
  "ClusterUser_GetKey u = user_Name u @ ''/'' @ user_FullName u"

record ClusterUserGroup =
  group_Name :: string
  group_Users :: "string list"

definition ClusterUserGroup_GetKey :: "ClusterUserGroup \<Rightarrow> string" where
  "ClusterUserGroup_GetKey g = group_Name g"

text \<open>The methods \<open>New\<close>, \<open>Append\<close> of the three list types; \<open>Append\<close> has a value receiver and returns
  the longer slice.\<close>

definition RS_New :: "'r list" where "RS_New = []"

definition RS_Append :: "'r list \<Rightarrow> 'r \<Rightarrow> 'r list" where
  "RS_Append rs res = rs @ [res]"

section \<open>operateSet\<close>

fun mark_all :: "('r \<Rightarrow> string) \<Rightarrow> 'r list \<Rightarrow> (string \<rightharpoonup> 'r) \<Rightarrow> (string \<rightharpoonup> 'r)" where
  "mark_all key [] marks = marks"
| "mark_all key (res # rs) marks = mark_all key rs (marks(key res \<mapsto> res))"

fun operate_marks :: "bool \<Rightarrow> (string \<times> 'r) list \<Rightarrow> (string \<rightharpoonup> 'r) \<Rightarrow> (string \<rightharpoonup> 'r)" where
  "operate_marks isUnion [] marks = marks"
| "operate_marks isUnion ((key, res) # oms) marks =
     operate_marks isUnion oms
       (if isUnion
        then (if marks key \<noteq> None then marks else marks(key \<mapsto> res))
        else (if marks key \<noteq> None then marks else marks(key := None)))"

text \<open>The last loop calls \<open>ret.Append(res)\<close> and drops what it returns.\<close>

fun append_loop :: "'r list \<Rightarrow> 'r list \<Rightarrow> 'r list" where
  "append_loop ret [] = ret"
| "append_loop ret (res # rs) = (let dropped = RS_Append ret res in append_loop ret rs)"

text \<open>\<open>walk\<close> lists the entries of a map in the order Go happens to take.\<close>

type_synonym 'r walk = "(string \<rightharpoonup> 'r) \<Rightarrow> (string \<times> 'r) list"

definition operateSet :: "'r walk \<Rightarrow> ('r \<Rightarrow> string) \<Rightarrow> 'r list \<Rightarrow> 'r list \<Rightarrow> bool \<Rightarrow> 'r list" where
  "operateSet walk key rs ors isUnion =
     (let marks = mark_all key rs Map.empty;
          oMarks = mark_all key ors Map.empty;
          marks' = operate_marks isUnion (walk oMarks) marks
      in append_loop RS_New (map snd (walk marks')))"

definition Intersection :: "'r walk \<Rightarrow> ('r \<Rightarrow> string) \<Rightarrow> 'r list \<Rightarrow> 'r list \<Rightarrow> 'r list" where
  "Intersection walk key rs ors = operateSet walk key rs ors False"

definition Unionset :: "'r walk \<Rightarrow> ('r \<Rightarrow> string) \<Rightarrow> 'r list \<Rightarrow> 'r list \<Rightarrow> 'r list" where
  "Unionset walk key rs ors = operateSet walk key rs ors True"

lemma append_loop_eq: "append_loop ret rs = ret"
  by (induction rs) simp_all

lemma operateSet_empty: "operateSet walk key rs ors isUnion = []"
  by (simp add: operateSet_def append_loop_eq RS_New_def Let_def)

text \<open>\<open>Unionset\<close> and \<open>Intersection\<close> of any two lists are empty, in whatever order the maps are
  walked: the slices that \<open>Append\<close> returns are dropped.\<close>

theorem set_operations_empty:
  "Unionset walk key rs ors = [] \<and> Intersection walk key rs ors = []"
  by (simp add: Unionset_def Intersection_def operateSet_empty)

subsection \<open>The marks\<close>

text \<open>What the marks hold before that loop: for a union they are right, for an intersection nothing
  was taken out.\<close>

definition walks_map :: "'r walk \<Rightarrow> bool" where
  "walks_map walk \<longleftrightarrow> (\<forall>m. finite (dom m) \<longrightarrow> distinct (map fst (walk m)) \<and> map_of (walk m) = m)"

lemma mark_all_eq: "mark_all key rs m = m ++ map_of (map (\<lambda>r. (key r, r)) (rev rs))"
  by (induction rs arbitrary: m) (simp_all add: map_add_assoc [symmetric] map_add_def fun_eq_iff split: option.splits)

lemma dom_mark_all: "dom (mark_all key rs Map.empty) = key ` set rs"
  by (simp add: mark_all_eq dom_map_of_conv_image_fst image_image)

lemma operate_marks_inter: "operate_marks False oms m = m"
  by (induction oms arbitrary: m) (auto simp: fun_upd_idem)

lemma operate_marks_union: "dom (operate_marks True oms m) = dom m \<union> fst ` set oms"
proof (induction oms arbitrary: m)
  case (Cons x oms)
  then show ?case by (cases x) (auto split: if_splits)
qed simp

text \<open>If the list were built from the marks, a union would have the right keys, while an
  intersection would be the first operand unchanged: \<open>operateSet\<close> deletes from the marks only
  keys that are not there.\<close>

theorem operateSet_marks:
  assumes "walks_map walk"
  shows "dom (operate_marks True (walk (mark_all key ors Map.empty)) (mark_all key rs Map.empty))
      = key ` set rs \<union> key ` set ors \<and>
    operate_marks False (walk (mark_all key ors Map.empty)) (mark_all key rs Map.empty)
      = mark_all key rs Map.empty"
proof -
  let ?o = "mark_all key ors Map.empty"
  have "finite (dom ?o)" by (simp add: dom_mark_all)
  then have "map_of (walk ?o) = ?o" using assms by (simp add: walks_map_def)
  then have "fst ` set (walk ?o) = key ` set ors"
    using dom_map_of_conv_image_fst [of "walk ?o"] by (simp add: dom_mark_all)
  then show ?thesis by (simp add: operate_marks_union operate_marks_inter dom_mark_all)
qed

definition sorted_walk :: "'r walk" where
  "sorted_walk m = map (\<lambda>k. (k, the (m k))) (sorted_list_of_set (dom m))"

lemma map_of_sorted_walk:
  assumes "finite (dom m)"
  shows "map_of (sorted_walk m) = m"
proof
  fix k
  have "map_of (map (\<lambda>k. (k, the (m k))) ks) k = (if k \<in> set ks then Some (the (m k)) else None)" for ks
    by (induction ks) auto
  with assms show "map_of (sorted_walk m) k = m k"
    by (cases "m k") (auto simp: sorted_walk_def domIff)
qed

lemma sorted_walk_ok: "walks_map sorted_walk"
  by (simp add: walks_map_def map_of_sorted_walk) (simp add: sorted_walk_def o_def)

theorem operateSet_marks_witness:
  "dom (operate_marks True (sorted_walk (mark_all id [''b''] Map.empty)) (mark_all id [''a''] Map.empty)) = {''a'', ''b''}"
  using operateSet_marks [OF sorted_walk_ok, of id "[''b'']" "[''a'']"] by auto

section \<open>Over the clusters of a federation\<close>

text \<open>The clusters asked: the running ones, of the caller's domain unless the scope is the system.
  \<open>rows\<close> is the cluster table, or the error of the query.\<close>

record fed_cluster =
  fc_id :: string
  fc_status :: string
  fc_domain_id :: string

definition GetFedRunningCluster :: "string + fed_cluster list \<Rightarrow> string \<Rightarrow> string \<Rightarrow> string + fed_cluster list" where
  "GetFedRunningCluster rows scope domain =
     (case rows of
        Inl e \<Rightarrow> Inl (''get domain '' @ domain @ '' running clusters: '' @ e)
      | Inr cs \<Rightarrow>
          Inr (filter (\<lambda>c. fc_status c = ''running'' \<and> (scope \<noteq> ''system'' \<longrightarrow> fc_domain_id c = domain)) cs))"

text \<open>
  One goroutine per cluster fetches its resources and stores them at \<open>results[i]\<close>, where \<open>i\<close> is the
  variable of the loop that started them all: \<open>slot k\<close> is what the goroutine of cluster \<open>k\<close> reads,
  which is at least \<open>k\<close>. \<open>gf k\<close> is what cluster \<open>k\<close> answers; \<open>order\<close> is the order of the stores.
\<close>

fun store_results :: "(nat \<Rightarrow> nat) \<Rightarrow> (nat \<Rightarrow> 'r list option) \<Rightarrow> nat list \<Rightarrow> 'r list option list \<Rightarrow> 'r list option list" where
  "store_results slot res [] results = results"
| "store_results slot res (k # ks) results = store_results slot res ks (results[slot k := res k])"

fun first_error :: "(nat \<Rightarrow> string + 'r list option) \<Rightarrow> nat list \<Rightarrow> string option" where
  "first_error gf [] = None"
| "first_error gf (k # ks) = (case gf k of Inl e \<Rightarrow> Some e | Inr _ \<Rightarrow> first_error gf ks)"

definition fetcher ::
  "string + fed_cluster list \<Rightarrow> (fed_cluster \<Rightarrow> string + 'r list option) \<Rightarrow> (nat \<Rightarrow> nat) \<Rightarrow> nat list \<Rightarrow>
   string + 'r list option list" where
  "fetcher clusters gf slot order =
     (case clusters of
        Inl e \<Rightarrow> Inl e
      | Inr cs \<Rightarrow>
          if length cs = 0 then Inr []
          else (case first_error (\<lambda>k. gf (cs ! k)) order of
                  Some e \<Rightarrow> Inl e
                | None \<Rightarrow>
                    Inr (store_results slot (\<lambda>k. case gf (cs ! k) of Inl _ \<Rightarrow> None | Inr r \<Rightarrow> r) order
                           (replicate (length cs) None))))"

text \<open>The union over the slices that are not nil, from the first to the last but one.\<close>

definition union_of :: "('r list \<Rightarrow> 'r list \<Rightarrow> 'r list) \<Rightarrow> 'r list list \<Rightarrow> 'r list option" where
  "union_of un fRess =
     (case fRess of
        [] \<Rightarrow> None
      | [r] \<Rightarrow> Some r
      | r # rest \<Rightarrow> Some (foldl un r (butlast rest)))"

definition callFedClustersGetResFunc ::
  "('r list \<Rightarrow> 'r list \<Rightarrow> 'r list) \<Rightarrow> string + fed_cluster list \<Rightarrow> string \<Rightarrow> string \<Rightarrow>
   (fed_cluster \<Rightarrow> string + 'r list option) \<Rightarrow> (nat \<Rightarrow> nat) \<Rightarrow> nat list \<Rightarrow> string + 'r list option" where
  "callFedClustersGetResFunc un rows scope domain gf slot order =
     (case fetcher (GetFedRunningCluster rows scope domain) gf slot order of
        Inl e \<Rightarrow> Inl (''fetch clusters api resources: '' @ e)
      | Inr all \<Rightarrow> Inr (union_of un (List.map_filter (\<lambda>x. x) all)))"

lemma first_error_None: "\<forall>k\<in>set ks. \<exists>r. gf k = Inr r \<Longrightarrow> first_error gf ks = None"
  by (induction ks) auto

lemma store_length [simp]: "length (store_results slot res ks results) = length results"
  by (induction ks arbitrary: results) auto

lemma store_last:
  assumes "ks \<noteq> []" "\<forall>k\<in>set ks. slot k = n" "n < length results"
  shows "store_results slot res ks results = results[n := res (last ks)]"
  using assms by (induction ks arbitrary: results) auto

lemma store_inorder:
  assumes "length results = n"
  shows "store_results (\<lambda>k. k) res [0..<m] results = map res [0..<min m n] @ drop m results"
  using assms
proof (induction m)
  case (Suc m)
  have split: "store_results (\<lambda>k. k) res (xs @ [y]) r = (store_results (\<lambda>k. k) res xs r)[y := res y]" for xs y r
    by (induction xs arbitrary: r) auto
  show ?case
  proof (cases "m < n")
    case True
    then have "drop m results = results ! m # drop (Suc m) results" using Suc.prems by (simp add: Cons_nth_drop_Suc)
    with True Suc show ?thesis by (simp add: split list_update_append min_def)
  qed (use Suc in \<open>simp add: split min_def list_update_beyond\<close>)
qed simp

lemma map_filter_Some: "List.map_filter (\<lambda>x. x) (map (\<lambda>k. Some (f k)) xs) = map f xs"
  by (induction xs) (simp_all add: List.map_filter_simps)

lemma fetch_ok:
  assumes "length cs = n" "0 < n" "set order \<subseteq> {0..<n}" "\<forall>k < n. gf (cs ! k) = Inr (Some (res k))"
  shows "fetcher (Inr cs) gf slot order = Inr (store_results slot (\<lambda>k. Some (res k)) order (replicate n None))"
proof -
  have "first_error (\<lambda>k. gf (cs ! k)) order = None" by (rule first_error_None) (use assms(3,4) in auto)
  moreover have "store_results slot (\<lambda>k. case gf (cs ! k) of Inl _ \<Rightarrow> None | Inr r \<Rightarrow> r) order r =
      store_results slot (\<lambda>k. Some (res k)) order r" for r
    using assms(3,4) by (induction order arbitrary: r) auto
  ultimately show ?thesis using assms(1,2) by (auto simp: fetcher_def)
qed

lemma foldl_Unionset_Cons: "foldl (Unionset walk key) r (x # xs) = []"
  by (induction xs arbitrary: r x) (simp_all add: Unionset_def operateSet_empty)

text \<open>Even when every goroutine stores at its own index, the union is not taken: with two running
  clusters the answer is that of the first, with three or more it is empty.\<close>

theorem federated_union_wrong:
  assumes "GetFedRunningCluster rows scope domain = Inr cs" "length cs = n" "2 \<le> n"
    "\<forall>k < n. gf (cs ! k) = Inr (Some (res k))"
  shows "callFedClustersGetResFunc (Unionset walk key) rows scope domain gf (\<lambda>k. k) [0..<n] =
    Inr (Some (if n = 2 then res 0 else []))"
proof -
  have f: "fetcher (Inr cs) gf (\<lambda>k. k) [0..<n] = Inr (map (\<lambda>k. Some (res k)) [0..<n])"
    using assms store_inorder [of "replicate n None" n "\<lambda>k. Some (res k)" n]
    by (subst fetch_ok [of cs n _ gf res]) auto
  have up: "[0..<n] = 0 # 1 # [2..<n]" using assms(3) by (simp add: upt_rec numeral_2_eq_2)
  have "union_of (Unionset walk key) (map res [0..<n]) = Some (if n = 2 then res 0 else [])"
  proof (cases "n = 2")
    case False
    with assms(3) have "[2..<n] \<noteq> []" by simp
    then have "butlast (map res (1 # [2..<n])) = res 1 # butlast (map res [2..<n])" by simp
    then show ?thesis unfolding up using False foldl_Unionset_Cons by (simp add: union_of_def del: foldl_Cons)
  next
    case True
    show ?thesis unfolding True by (simp add: union_of_def upt_rec)
  qed
  then show ?thesis by (simp add: callFedClustersGetResFunc_def f map_filter_Some assms(1))
qed

definition sample_fed_clusters :: "fed_cluster list" where
  "sample_fed_clusters =
     [\<lparr>fc_id = ''c0'', fc_status = ''running'', fc_domain_id = ''default''\<rparr>,
      \<lparr>fc_id = ''c1'', fc_status = ''running'', fc_domain_id = ''default''\<rparr>,
      \<lparr>fc_id = ''c2'', fc_status = ''deleting'', fc_domain_id = ''default''\<rparr>]"

lemma sample_fed_running:
  "GetFedRunningCluster (Inr sample_fed_clusters) ''domain'' ''default'' = Inr (take 2 sample_fed_clusters)"
  by (simp add: GetFedRunningCluster_def sample_fed_clusters_def)

theorem federated_union_wrong_witness:
  "callFedClustersGetResFunc (Unionset sorted_walk ClusterUserGroup_GetKey) (Inr sample_fed_clusters)
     ''domain'' ''default'' (\<lambda>c. Inr (Some [\<lparr>group_Name = fc_id c, group_Users = []\<rparr>])) (\<lambda>k. k) [0..<2]
   = Inr (Some [\<lparr>group_Name = ''c0'', group_Users = []\<rparr>])"
  by (subst federated_union_wrong [OF sample_fed_running,
        where res = "\<lambda>k. [\<lparr>group_Name = fc_id (take 2 sample_fed_clusters ! k), group_Users = []\<rparr>]"])
    (simp_all add: sample_fed_clusters_def)

lemma replicate_update_last: "(replicate (Suc m) a)[m := x] = replicate m a @ [x]"
  by (induction m) simp_all

text \<open>When the goroutines start after the loop, they all see the last index: the answers of all
  clusters but the one that stores last are lost, and that one is returned alone.\<close>

theorem shared_loop_variable_loses_answers:
  assumes "GetFedRunningCluster rows scope domain = Inr cs" "length cs = n" "0 < n"
    "mset order = mset [0..<n]" "\<forall>k < n. gf (cs ! k) = Inr (Some (res k))"
  shows "callFedClustersGetResFunc un rows scope domain gf (\<lambda>k. n - 1) order = Inr (Some (res (last order)))"
proof -
  have set: "set order = {0..<n}" using mset_eq_setD [OF assms(4)] by simp
  then have ne: "order \<noteq> []" using assms(3) by auto
  have rep: "(replicate n None)[n - 1 := x] = replicate (n - 1) None @ [x]" for x :: "'a list option"
    using assms(3) replicate_update_last [of "n - 1" None x] by simp
  have "fetcher (Inr cs) gf (\<lambda>k. n - 1) order =
      Inr (store_results (\<lambda>k. n - 1) (\<lambda>k. Some (res k)) order (replicate n None))"
    using fetch_ok [of cs n order gf res] assms(2,3,5) set by simp
  also have "\<dots> = Inr (replicate (n - 1) None @ [Some (res (last order))])"
    using store_last [OF ne, of "\<lambda>k. n - 1" "n - 1" "replicate n None" "\<lambda>k. Some (res k)"] assms(3)
    by (simp add: rep del: One_nat_def)
  finally have "fetcher (Inr cs) gf (\<lambda>k. n - 1) order = \<dots>" .
  moreover have "List.map_filter (\<lambda>x. x) (replicate m None @ [Some r]) = [r]" for m and r :: "'a list"
    by (induction m) (simp_all add: List.map_filter_simps)
  ultimately show ?thesis by (simp add: callFedClustersGetResFunc_def union_of_def assms(1))
qed

theorem shared_loop_variable_loses_answers_witness:
  "callFedClustersGetResFunc (Unionset sorted_walk id) (Inr sample_fed_clusters) ''domain'' ''default''
     (\<lambda>c. Inr (Some [fc_id c])) (\<lambda>k. 2 - 1) [1, 0] = Inr (Some [''c0''])"
  by (subst shared_loop_variable_loses_answers [OF sample_fed_running,
        where res = "\<lambda>k. [fc_id (take 2 sample_fed_clusters ! k)]"])
    (simp_all add: upt_rec sample_fed_clusters_def)

end
