(* ===== verification/K8sQuery.thy ===== *)
theory K8sQuery
  imports Prelude
begin

text \<open>
  The in-memory queries over the objects of a Kubernetes cluster, src/pkg/k8s/common/model:
  filter clauses (filterclause.go), order fields (sort.go), the query with its filters, sorters,
  offset and limit (query.go), the item filters of the managers (resourcebase.go) and the list
  handler that assembles them (handler_k8s_model.go). Parameters are the cluster client, the
  JSON rendering of an object, \<open>utils.FindWords\<close> and \<open>sort.Sort\<close>. A filter is a function value,
  which may be nil, so calling it may panic.
\<close>

section \<open>Objects\<close>

record KObjectMeta =
  km_Name :: string
  km_Namespace :: string
  km_UID :: string
  km_CreationTimestamp :: int

definition KObjectMeta_zero :: KObjectMeta where
  "KObjectMeta_zero = \<lparr>km_Name = [], km_Namespace = [], km_UID = [], km_CreationTimestamp = 0\<rparr>"

text \<open>A runtime object is a struct, which has a field \<open>ObjectMeta\<close> or not, or an unstructured
  content, named by a handle for the converter of apimachinery.\<close>

datatype runtime_Object = StructObject "KObjectMeta option" | UnstructuredObject nat

text \<open>The metadata and the error; \<open>convMeta\<close> reads it from an unstructured content.\<close>

definition NewObjectMeta :: "(nat \<Rightarrow> string + KObjectMeta) \<Rightarrow> runtime_Object \<Rightarrow> KObjectMeta \<times> string option" where
  "NewObjectMeta convMeta kObj =
     (case kObj of
        UnstructuredObject u \<Rightarrow>
          (case convMeta u of Inl e \<Rightarrow> (KObjectMeta_zero, Some e) | Inr m \<Rightarrow> (m, None))
      | StructObject None \<Rightarrow> (KObjectMeta_zero, Some ''get invalid object meta'')
      | StructObject (Some m) \<Rightarrow> (m, None))"

record k8s_model =
  k8sObject :: runtime_Object

text \<open>\<open>isModel\<close>: the factory's type implements the model interface; \<open>conv\<close> is the converter from
  unstructured contents.\<close>

definition NewK8SModelObject ::
  "bool \<Rightarrow> (nat \<Rightarrow> string + runtime_Object) \<Rightarrow> runtime_Object \<Rightarrow> string + k8s_model" where
  "NewK8SModelObject isModel conv obj =
     (if \<not> isModel then Inl ''InconsistentDataType''
      else (case obj of
              UnstructuredObject u \<Rightarrow> (case conv u of Inl e \<Rightarrow> Inl e | Inr o' \<Rightarrow> Inr \<lparr>k8sObject = o'\<rparr>)
            | StructObject m \<Rightarrow> Inr \<lparr>k8sObject = obj\<rparr>))"

definition GetObjectMeta :: "(nat \<Rightarrow> string + KObjectMeta) \<Rightarrow> k8s_model \<Rightarrow> KObjectMeta \<times> string option" where
  "GetObjectMeta convMeta m = NewObjectMeta convMeta (k8sObject m)"

definition k8s_GetName :: "(nat \<Rightarrow> string + KObjectMeta) \<Rightarrow> k8s_model \<Rightarrow> string" where
  "k8s_GetName convMeta m = km_Name (fst (GetObjectMeta convMeta m))"

section \<open>Filter clauses\<close>

type_synonym 'a fallible = "(string + 'a) go"
type_synonym QueryFilter = "k8s_model \<Rightarrow> bool fallible"
type_synonym getObject = "k8s_model \<Rightarrow> string + (string \<rightharpoonup> string)"

record SFilterClause =
  fc_field :: string
  fc_funcName :: string
  fc_params :: "string list"

definition QWrap :: "getObject \<Rightarrow> ((string \<rightharpoonup> string) \<Rightarrow> string + bool) \<Rightarrow> string \<Rightarrow> QueryFilter" where
  "QWrap getObj f msg = (\<lambda>obj.
     Inr (case getObj obj of
            Inl err \<Rightarrow> Inl (msg @ '': '' @ err)
          | Inr data \<Rightarrow> (case f data of Inl err \<Rightarrow> Inl (msg @ '': '' @ err) | Inr ret \<Rightarrow> Inr ret)))"

definition QWrapStr :: "getObject \<Rightarrow> string \<Rightarrow> (string \<Rightarrow> string + bool) \<Rightarrow> string \<Rightarrow> QueryFilter" where
  "QWrapStr getObj field f msg =
     QWrap getObj (\<lambda>data. case data field of None \<Rightarrow> Inl ''json.ErrJsonDictKeyNotFound'' | Some val \<Rightarrow> f val) msg"

fun IsInStringArray :: "string \<Rightarrow> string list \<Rightarrow> bool" where
  "IsInStringArray val [] = False"
| "IsInStringArray val (ele # es) = (if ele = val then True else IsInStringArray val es)"

text \<open>The messages format two verbs with one argument, the parameters; \<open>fmt\<close> prints them.\<close>

definition qCond_IN :: "getObject \<Rightarrow> (string \<Rightarrow> string list \<Rightarrow> string) \<Rightarrow> string \<Rightarrow> string list \<Rightarrow> QueryFilter" where
  "qCond_IN getObj fmt field params =
     QWrapStr getObj field (\<lambda>val. Inr (IsInStringArray val params)) (fmt ''%s.in(%v)'' params)"

definition qCond_NOT_IN :: "getObject \<Rightarrow> (string \<Rightarrow> string list \<Rightarrow> string) \<Rightarrow> string \<Rightarrow> string list \<Rightarrow> QueryFilter" where
  "qCond_NOT_IN getObj fmt field params =
     QWrapStr getObj field (\<lambda>val. Inr (IsInStringArray val params)) (fmt ''%s.notin(%v)'' params)"

fun qCond_or :: "(string \<Rightarrow> string \<Rightarrow> bool) \<Rightarrow> string \<Rightarrow> string list \<Rightarrow> string + bool" where
  "qCond_or op val [] = Inr False"
| "qCond_or op val (param # ps) = (if op val param then Inr True else qCond_or op val ps)"

definition qCond_CONTAINS :: "getObject \<Rightarrow> (string \<Rightarrow> string list \<Rightarrow> string) \<Rightarrow> string \<Rightarrow> string list \<Rightarrow> QueryFilter" where
  "qCond_CONTAINS getObj fmt field params =
     QWrapStr getObj field (\<lambda>val. qCond_or strings_Contains val params) (fmt ''%s.contains(%v)'' params)"

definition qCond_LIKE :: "getObject \<Rightarrow> (string \<Rightarrow> string list \<Rightarrow> string) \<Rightarrow> string \<Rightarrow> string list \<Rightarrow> QueryFilter" where
  "qCond_LIKE getObj fmt field params = qCond_CONTAINS getObj fmt field params"

definition qCond_STARTWITH :: "getObject \<Rightarrow> (string \<Rightarrow> string list \<Rightarrow> string) \<Rightarrow> string \<Rightarrow> string list \<Rightarrow> QueryFilter" where
  "qCond_STARTWITH getObj fmt field params =
     QWrapStr getObj field (\<lambda>val. qCond_or strings_HasPrefix val params) (fmt ''%s.startwith(%v)'' params)"

definition qCond_ENDWITH :: "getObject \<Rightarrow> (string \<Rightarrow> string list \<Rightarrow> string) \<Rightarrow> string \<Rightarrow> string list \<Rightarrow> QueryFilter" where
  "qCond_ENDWITH getObj fmt field params =
     QWrapStr getObj field (\<lambda>val. qCond_or strings_HasSuffix val params) (fmt ''%s.endwith(%v)'' params)"

definition qCond_EQUALS :: "getObject \<Rightarrow> (string \<Rightarrow> string list \<Rightarrow> string) \<Rightarrow> string \<Rightarrow> string list \<Rightarrow> QueryFilter" where
  "qCond_EQUALS getObj fmt field params =
     QWrapStr getObj field (\<lambda>val. qCond_or (\<lambda>v1 v2. strings_Compare v1 v2 = 0) val params) (fmt ''%s.equals(%v)'' params)"

definition qCond_NOT_EQUALS :: "getObject \<Rightarrow> (string \<Rightarrow> string list \<Rightarrow> string) \<Rightarrow> string \<Rightarrow> string list \<Rightarrow> QueryFilter" where
  "qCond_NOT_EQUALS getObj fmt field params =
     QWrapStr getObj field (\<lambda>val. qCond_or (\<lambda>v1 v2. strings_Compare v1 v2 \<noteq> 0) val params) (fmt ''%s.not_equals(%v)'' params)"

text \<open>\<open>None\<close> is the nil function of an unknown name.\<close>

definition FilterClause_QueryFilter ::
  "getObject \<Rightarrow> (string \<Rightarrow> string list \<Rightarrow> string) \<Rightarrow> SFilterClause \<Rightarrow> QueryFilter option" where
  "FilterClause_QueryFilter getObj fmt fc =
     (let field = fc_field fc; params = fc_params fc; name = fc_funcName fc in
      if name = ''in'' then Some (qCond_IN getObj fmt field params)
      else if name = ''notin'' then Some (qCond_NOT_IN getObj fmt field params)
      else if name = ''like'' then Some (qCond_LIKE getObj fmt field params)
      else if name = ''contains'' then Some (qCond_CONTAINS getObj fmt field params)
      else if name = ''startswith'' then Some (qCond_STARTWITH getObj fmt field params)
      else if name = ''endswith'' then Some (qCond_ENDWITH getObj fmt field params)
      else if name = ''equals'' then Some (qCond_EQUALS getObj fmt field params)
      else if name = ''notequals'' then
        (if length params = 1 then Some (qCond_NOT_EQUALS getObj fmt field params) else None)
      else None)"

subsection \<open>Their text\<close>

definition FilterClause_String :: "SFilterClause \<Rightarrow> string" where
  "FilterClause_String fc =
     fc_field fc @ ''.'' @ fc_funcName fc @ ''('' @ strings_Join (fc_params fc) '','' @ '')''"

definition is_word :: "char \<Rightarrow> bool" where
  "is_word c \<longleftrightarrow> c \<in> set ''0123456789ABCDEFGHIJKLMNOPQRSTUVWXYZabcdefghijklmnopqrstuvwxyz_''"

text \<open>\<open>(.*)\)\<close> is greedy: what stands before the last closing parenthesis of the line.\<close>

definition match_params :: "string \<Rightarrow> string option" where
  "match_params s =
     (let line = takeWhile (\<lambda>c. c \<noteq> CHR 0x0A) s in
      case dropWhile (\<lambda>c. c \<noteq> CHR '')'') (rev line) of [] \<Rightarrow> None | _ # r \<Rightarrow> Some (rev r))"

definition match_word :: "string \<Rightarrow> (string \<times> string) option" where
  "match_word s = (let w = takeWhile is_word s in if w = [] then None else Some (w, dropWhile is_word s))"

fun match_char :: "char \<Rightarrow> string \<Rightarrow> string option" where
  "match_char c [] = None"
| "match_char c (x # xs) = (if x = c then Some xs else None)"

definition filterClausePattern :: "string \<Rightarrow> (string \<times> string \<times> string) option" where
  "filterClausePattern s =
     Option.bind (match_word s) (\<lambda>(field, s1).
     Option.bind (match_char CHR ''.'' s1) (\<lambda>s2.
     Option.bind (match_word s2) (\<lambda>(name, s3).
     Option.bind (match_char CHR ''('' s3) (\<lambda>s4.
     map_option (\<lambda>p. (field, name, p)) (match_params s4)))))"

definition ParseFilterClause :: "(string \<Rightarrow> string list go) \<Rightarrow> string \<Rightarrow> SFilterClause option go" where
  "ParseFilterClause FindWords clause =
     (case filterClausePattern clause of
        None \<Rightarrow> Inr None
      | Some (field, name, ps) \<Rightarrow>
          gbind (FindWords ps) (\<lambda>params. Inr (Some \<lparr>fc_field = field, fc_funcName = name, fc_params = params\<rparr>)))"

section \<open>Order fields\<close>

datatype OrderType = OrderDESC | OrderASC

datatype IOrderField = OrderFieldCreationTimestamp | orderFieldStringF string

record OrderField =
  of_Field :: IOrderField
  of_Order :: OrderType

definition NewOrderField :: "IOrderField \<Rightarrow> OrderType \<Rightarrow> OrderField" where
  "NewOrderField f order = \<lparr>of_Field = f, of_Order = order\<rparr>"

fun GetFieldName :: "IOrderField \<Rightarrow> string" where
  "GetFieldName OrderFieldCreationTimestamp = ''creationTimestamp''"
| "GetFieldName (orderFieldStringF name) = name"

definition OrderFieldName :: IOrderField where "OrderFieldName = orderFieldStringF ''name''"
definition OrderFieldNamespace :: IOrderField where "OrderFieldNamespace = orderFieldStringF ''namespace''"
definition OrderFieldStatus :: IOrderField where "OrderFieldStatus = orderFieldStringF ''status''"

text \<open>The field of the metadata struct with that JSON name, by reflection; the order fields ask for
  \<open>name\<close>, \<open>namespace\<close> and \<open>status\<close>, and the metadata of a Kubernetes object has no \<open>status\<close>.\<close>

definition FindStructFieldInterface :: "KObjectMeta \<Rightarrow> string \<Rightarrow> string option" where
  "FindStructFieldInterface m name =
     (if name = ''name'' then Some (km_Name m)
      else if name = ''namespace'' then Some (km_Namespace m)
      else None)"

text \<open>\<open>name1.(string)\<close>.\<close>

definition assert_string :: "string option \<Rightarrow> string go" where
  "assert_string v = (case v of None \<Rightarrow> Inl TypeAssertionPanic | Some s \<Rightarrow> Inr s)"

fun OrderField_Compare :: "(nat \<Rightarrow> string + KObjectMeta) \<Rightarrow> IOrderField \<Rightarrow> k8s_model \<Rightarrow> k8s_model \<Rightarrow> bool go" where
  "OrderField_Compare convMeta OrderFieldCreationTimestamp obj1 obj2 =
     (let m1 = fst (GetObjectMeta convMeta obj1); m2 = fst (GetObjectMeta convMeta obj2)
      in Inr (\<not> km_CreationTimestamp m1 < km_CreationTimestamp m2))"
| "OrderField_Compare convMeta (orderFieldStringF name) obj1 obj2 =
     (let name1 = FindStructFieldInterface (fst (GetObjectMeta convMeta obj1)) name;
          name2 = FindStructFieldInterface (fst (GetObjectMeta convMeta obj2)) name
      in gbind (assert_string name1) (\<lambda>n1. gbind (assert_string name2) (\<lambda>n2. Inr (strings_Compare n1 n2 < 0))))"

type_synonym OrderFields = "string \<rightharpoonup> IOrderField"

fun OrderFields_Set :: "OrderFields \<Rightarrow> IOrderField list \<Rightarrow> OrderFields" where
  "OrderFields_Set ofs [] = ofs"
| "OrderFields_Set ofs (f # fs) = OrderFields_Set (ofs(GetFieldName f \<mapsto> f)) fs"

text \<open>What the managers of cluster and of namespaced resources register.\<close>

definition NewK8SClusterResourceBaseManager :: OrderFields where
  "NewK8SClusterResourceBaseManager = OrderFields_Set Map.empty [OrderFieldCreationTimestamp, OrderFieldName]"

definition NewK8sNamespaceResourceBaseManager :: OrderFields where
  "NewK8sNamespaceResourceBaseManager =
     OrderFields_Set NewK8SClusterResourceBaseManager [OrderFieldNamespace, OrderFieldStatus]"

section \<open>Queries\<close>

record sK8SQuery =
  q_limit :: int
  q_offset :: int
  q_total :: int
  q_pagingMarker :: string
  q_namespace :: string
  q_filters :: "QueryFilter option list"
  q_filterAny :: bool
  q_orderFields :: "OrderField list"

definition NewK8SResourceQuery :: sK8SQuery where
  "NewK8SResourceQuery =
     \<lparr>q_limit = 0, q_offset = 0, q_total = 0, q_pagingMarker = [], q_namespace = [],
      q_filters = [], q_filterAny = False, q_orderFields = []\<rparr>"

definition AddFilter :: "QueryFilter option list \<Rightarrow> sK8SQuery \<Rightarrow> sK8SQuery" where
  "AddFilter fs q = q\<lparr>q_filters := q_filters q @ fs\<rparr>"

definition FilterAny :: "bool \<Rightarrow> sK8SQuery \<Rightarrow> sK8SQuery" where
  "FilterAny any q = q\<lparr>q_filterAny := any\<rparr>"

definition AddOrderFields :: "OrderField list \<Rightarrow> sK8SQuery \<Rightarrow> sK8SQuery" where
  "AddOrderFields orders q = q\<lparr>q_orderFields := q_orderFields q @ orders\<rparr>"

definition Query_Namespace :: "string \<Rightarrow> sK8SQuery \<Rightarrow> sK8SQuery" where
  "Query_Namespace ns q = q\<lparr>q_namespace := ns\<rparr>"

definition Query_Limit :: "int \<Rightarrow> sK8SQuery \<Rightarrow> sK8SQuery" where
  "Query_Limit limit q = q\<lparr>q_limit := limit\<rparr>"

definition Query_Offset :: "int \<Rightarrow> sK8SQuery \<Rightarrow> sK8SQuery" where
  "Query_Offset offset q = q\<lparr>q_offset := offset\<rparr>"

definition Query_PagingMarker :: "string \<Rightarrow> sK8SQuery \<Rightarrow> sK8SQuery" where
  "Query_PagingMarker pm q = q\<lparr>q_pagingMarker := pm\<rparr>"

subsection \<open>Filters, sorters, offset and limit\<close>

fun filters_pass :: "QueryFilter option list \<Rightarrow> k8s_model \<Rightarrow> bool fallible" where
  "filters_pass [] obj = Inr (Inr True)"
| "filters_pass (None # fs) obj = Inl NilDereference"
| "filters_pass (Some f # fs) obj =
     gbind (f obj) (\<lambda>r. case r of
        Inl err \<Rightarrow> Inr (Inl err)
      | Inr ok \<Rightarrow> if \<not> ok then Inr (Inr False) else filters_pass fs obj)"

fun applyFilters :: "QueryFilter option list \<Rightarrow> k8s_model list \<Rightarrow> k8s_model list \<Rightarrow> k8s_model list fallible" where
  "applyFilters fs [] ret = Inr (Inr ret)"
| "applyFilters fs (obj # objs) ret =
     gbind (filters_pass fs obj) (\<lambda>r. case r of
        Inl err \<Rightarrow> Inr (Inl err)
      | Inr filtered \<Rightarrow> applyFilters fs objs (if filtered then ret @ [obj] else ret))"

definition k8sModelSorter_Less :: "(nat \<Rightarrow> string + KObjectMeta) \<Rightarrow> OrderField \<Rightarrow> k8s_model go_less" where
  "k8sModelSorter_Less convMeta field a b =
     gbind (OrderField_Compare convMeta (of_Field field) a b) (\<lambda>descRet.
       Inr (if of_Order field = OrderASC then \<not> descRet else descRet))"

fun doSort :: "k8s_model go_sorter \<Rightarrow> (nat \<Rightarrow> string + KObjectMeta) \<Rightarrow> OrderField list \<Rightarrow> k8s_model list \<Rightarrow> k8s_model list go" where
  "doSort srt convMeta [] objs = Inr objs"
| "doSort srt convMeta (field # ofs) objs =
     gbind (srt (k8sModelSorter_Less convMeta field) objs) (\<lambda>objs'. doSort srt convMeta ofs objs')"

definition applySorters :: "k8s_model go_sorter \<Rightarrow> (nat \<Rightarrow> string + KObjectMeta) \<Rightarrow> sK8SQuery \<Rightarrow> k8s_model list \<Rightarrow> k8s_model list go" where
  "applySorters srt convMeta q objs = doSort srt convMeta (q_orderFields q) objs"

definition applyOffseter :: "sK8SQuery \<Rightarrow> k8s_model list \<Rightarrow> k8s_model list go" where
  "applyOffseter q objs =
     (if q_offset q = 0 then Inr objs
      else if q_total q > q_offset q then slice_from objs (q_offset q)
      else Inr objs)"

definition applyLimiter :: "sK8SQuery \<Rightarrow> k8s_model list \<Rightarrow> k8s_model list go" where
  "applyLimiter q objs =
     (if q_limit q < 0 then Inr objs
      else if q_total q > q_limit q then
        (if q_limit q \<le> int (length objs) then slice_upto objs (q_limit q) else Inr objs)
      else Inr objs)"

fun new_models :: "(runtime_Object \<Rightarrow> string + k8s_model) \<Rightarrow> runtime_Object list \<Rightarrow> string + k8s_model list" where
  "new_models mk [] = Inr []"
| "new_models mk (obj # objs) =
     (case mk obj of
        Inl err \<Rightarrow> Inl err
      | Inr model \<Rightarrow> (case new_models mk objs of Inl err \<Rightarrow> Inl err | Inr ret \<Rightarrow> Inr (model # ret)))"

text \<open>The environment of a query: the client's listing by namespace, the factory, the converters,
  the JSON rendering of a model and the sort routine.\<close>

record k8s_env =
  e_List :: "string \<Rightarrow> string + runtime_Object list"
  e_isModel :: bool
  e_conv :: "nat \<Rightarrow> string + runtime_Object"
  e_convMeta :: "nat \<Rightarrow> string + KObjectMeta"
  e_getObject :: getObject
  e_fmt :: "string \<Rightarrow> string list \<Rightarrow> string"
  e_FindWords :: "string \<Rightarrow> string list go"
  e_sort :: "k8s_model go_sorter"
  e_DefaultPagingLimit :: int

text \<open>The objects and the query with its total.\<close>

definition FetchObjects :: "k8s_env \<Rightarrow> sK8SQuery \<Rightarrow> (k8s_model list \<times> sK8SQuery) fallible" where
  "FetchObjects e q =
     (case e_List e (q_namespace q) of
        Inl err \<Rightarrow> Inr (Inl err)
      | Inr objs \<Rightarrow>
          (case new_models (NewK8SModelObject (e_isModel e) (e_conv e)) objs of
             Inl err \<Rightarrow> Inr (Inl err)
           | Inr ret \<Rightarrow>
               gbind (applyFilters (q_filters q) ret []) (\<lambda>r. case r of
                 Inl err \<Rightarrow> Inr (Inl err)
               | Inr ret1 \<Rightarrow>
                   gbind (applySorters (e_sort e) (e_convMeta e) q ret1) (\<lambda>ret2.
                   let q' = q\<lparr>q_total := int (length ret2)\<rparr> in
                   gbind (applyOffseter q' ret2) (\<lambda>ret3.
                   gbind (applyLimiter q' ret3) (\<lambda>ret4. Inr (Inr (ret4, q'))))))))"

section \<open>The list handler\<close>

record ListInputK8SBase =
  li_Limit :: int
  li_Offset :: int
  li_OrderBy :: "string list"
  li_Order :: string
  li_Filter :: "string list"
  li_Name :: string
  li_Namespace :: string

definition Cluster_ListItemFilter :: "k8s_env \<Rightarrow> ListInputK8SBase \<Rightarrow> sK8SQuery \<Rightarrow> string + sK8SQuery" where
  "Cluster_ListItemFilter e query q =
     Inr (if li_Name query \<noteq> []
          then AddFilter [Some (\<lambda>obj. Inr (Inr (k8s_GetName (e_convMeta e) obj = li_Name query \<or>
                 strings_Contains (k8s_GetName (e_convMeta e) obj) (li_Name query))))] q
          else q)"

definition Namespace_ListItemFilter :: "k8s_env \<Rightarrow> ListInputK8SBase \<Rightarrow> sK8SQuery \<Rightarrow> string + sK8SQuery" where
  "Namespace_ListItemFilter e query q =
     Cluster_ListItemFilter e query (if li_Namespace query \<noteq> [] then Query_Namespace (li_Namespace query) q else q)"

fun order_by_fields :: "OrderFields \<Rightarrow> OrderType \<Rightarrow> string list \<Rightarrow> OrderField list" where
  "order_by_fields exists order [] = []"
| "order_by_fields exists order (name # names) =
     (case exists name of
        None \<Rightarrow> order_by_fields exists order names
      | Some ret \<Rightarrow> \<lparr>of_Field = ret, of_Order = order\<rparr> # order_by_fields exists order names)"

fun add_general_filters :: "k8s_env \<Rightarrow> string list \<Rightarrow> sK8SQuery \<Rightarrow> sK8SQuery go" where
  "add_general_filters e [] q = Inr q"
| "add_general_filters e (clause # cs) q =
     gbind (ParseFilterClause (e_FindWords e) clause) (\<lambda>fc.
       add_general_filters e cs
         (case fc of None \<Rightarrow> q | Some c \<Rightarrow> AddFilter [FilterClause_QueryFilter (e_getObject e) (e_fmt e) c] q))"

fun get_objects :: "getObject \<Rightarrow> k8s_model list \<Rightarrow> string + (string \<rightharpoonup> string) list" where
  "get_objects getObj [] = Inr []"
| "get_objects getObj (obj # objs) =
     (case getObj obj of
        Inl err \<Rightarrow> Inl err
      | Inr d \<Rightarrow> (case get_objects getObj objs of Inl err \<Rightarrow> Inl err | Inr ds \<Rightarrow> Inr (d # ds)))"

definition Query2List :: "k8s_env \<Rightarrow> sK8SQuery \<Rightarrow> ((string \<rightharpoonup> string) list \<times> sK8SQuery) fallible" where
  "Query2List e q =
     gbind (FetchObjects e q) (\<lambda>r. Inr (case r of
        Inl err \<Rightarrow> Inl err
      | Inr (objs, q') \<Rightarrow> (case get_objects (e_getObject e) objs of Inl err \<Rightarrow> Inl err | Inr results \<Rightarrow> Inr (results, q'))))"

record ListResult =
  lr_Data :: "(string \<rightharpoonup> string) list"
  lr_Total :: int
  lr_Limit :: int
  lr_Offset :: int

definition calculateListResult :: "(string \<rightharpoonup> string) list \<Rightarrow> int \<Rightarrow> int \<Rightarrow> int \<Rightarrow> ListResult" where
  "calculateListResult data tot limit offset =
     \<lparr>lr_Data = data, lr_Total = tot, lr_Limit = limit, lr_Offset = offset\<rparr>"

text \<open>\<open>ofs\<close> and \<open>itemFilter\<close> are the manager's.\<close>

definition ListK8SModels ::
  "k8s_env \<Rightarrow> OrderFields \<Rightarrow> (ListInputK8SBase \<Rightarrow> sK8SQuery \<Rightarrow> string + sK8SQuery) \<Rightarrow> ListInputK8SBase \<Rightarrow>
   ListResult fallible" where
  "ListK8SModels e ofs itemFilter input =
     (let limit = (if li_Limit input = 0 then e_DefaultPagingLimit e else li_Limit input);
          q = Query_Limit limit (Query_Offset (li_Offset input) NewK8SResourceQuery)
      in case itemFilter input q of
           Inl err \<Rightarrow> Inr (Inl err)
         | Inr q1 \<Rightarrow>
             let order = (if li_Order input = ''asc'' then OrderASC else OrderDESC);
                 byFields = order_by_fields ofs order (li_OrderBy input);
                 orderByFields = (if byFields = [] then [NewOrderField OrderFieldCreationTimestamp order] else byFields);
                 q2 = AddOrderFields orderByFields q1
             in gbind (add_general_filters e (li_Filter input) q2) (\<lambda>q3.
                gbind (Query2List e q3) (\<lambda>r. Inr (case r of
                  Inl err \<Rightarrow> Inl err
                | Inr (results, q4) \<Rightarrow>
                    Inr (calculateListResult results (q_total q4) (q_limit q4) (q_offset q4))))))"

section \<open>Lemmas\<close>

lemma IsInStringArray_iff [simp]: "IsInStringArray val ps \<longleftrightarrow> val \<in> set ps"
  by (induction ps) auto

lemma applyFilters_ok:
  assumes "\<forall>obj\<in>set objs. filters_pass fs obj = Inr (Inr (P obj))"
  shows "applyFilters fs objs ret = Inr (Inr (ret @ filter P objs))"
  using assms by (induction objs arbitrary: ret) auto

lemma applyFilters_panic:
  assumes "filters_pass fs obj = Inl p"
  shows "applyFilters fs (obj # objs) ret = Inl p"
  using assms by simp

lemma new_models_length: "new_models mk objs = Inr ms \<Longrightarrow> length ms = length objs"
  by (induction objs arbitrary: ms) (auto split: sum.splits)

lemma page_ok:
  assumes "q_total q = int (length objs)" "0 \<le> q_offset q"
  shows "gbind (applyOffseter q objs) (applyLimiter q) =
    Inr (let rest = (if q_offset q < q_total q then drop (nat (q_offset q)) objs else objs) in
         if q_limit q < 0 then rest else take (nat (q_limit q)) rest)"
  using assms
  by (auto simp: applyOffseter_def applyLimiter_def slice_from_def slice_upto_def Let_def)

subsection \<open>The orders that are strict\<close>

text \<open>\<open>Less\<close> is a strict order for the creation time ascending and for the strings descending; the
  other two are the negations.\<close>

definition sort_before :: "(nat \<Rightarrow> string + KObjectMeta) \<Rightarrow> IOrderField \<Rightarrow> k8s_model \<Rightarrow> k8s_model \<Rightarrow> bool" where
  "sort_before convMeta f a b =
     (let ma = fst (GetObjectMeta convMeta a); mb = fst (GetObjectMeta convMeta b) in
      case f of
        OrderFieldCreationTimestamp \<Rightarrow> km_CreationTimestamp ma < km_CreationTimestamp mb
      | orderFieldStringF name \<Rightarrow>
          if name = ''name'' then km_Name ma < km_Name mb else km_Namespace ma < km_Namespace mb)"

definition strict_field :: "OrderField \<Rightarrow> bool" where
  "strict_field field \<longleftrightarrow>
     of_Field field = OrderFieldCreationTimestamp \<and> of_Order field = OrderASC \<or>
     of_Field field \<in> {OrderFieldName, OrderFieldNamespace} \<and> of_Order field = OrderDESC"

lemma strict_field_decides:
  assumes "strict_field field"
  shows "decides_on A (k8sModelSorter_Less convMeta field) (sort_before convMeta (of_Field field))"
  using assms
  by (auto simp: decides_on_def strict_field_def k8sModelSorter_Less_def sort_before_def Let_def
      OrderFieldName_def OrderFieldNamespace_def FindStructFieldInterface_def assert_string_def)

lemma sort_before_strict_weak: "strict_weak_on A (sort_before convMeta f)"
  by (rule strict_weak_onI) (auto simp: sort_before_def Let_def split: IOrderField.splits if_splits)

lemma doSort_strict:
  assumes "go_sort srt" "strict_field field"
  obtains ys where "doSort srt convMeta [field] objs = Inr ys" "mset ys = mset objs"
    "sorted_wrt (\<lambda>a b. \<not> sort_before convMeta (of_Field field) b a) ys"
proof -
  obtain ys where "srt (k8sModelSorter_Less convMeta field) objs = Inr ys" "mset ys = mset objs"
      "sorted_wrt (\<lambda>a b. \<not> sort_before convMeta (of_Field field) b a) ys"
    by (rule go_sort.sort_ok [OF assms(1) strict_field_decides [OF assms(2)] sort_before_strict_weak])
  then show thesis using that by simp
qed

definition query_page :: "sK8SQuery \<Rightarrow> k8s_model list \<Rightarrow> k8s_model list" where
  "query_page q ys =
     (let rest = (if q_offset q < int (length ys) then drop (nat (q_offset q)) ys else ys)
      in if q_limit q < 0 then rest else take (nat (q_limit q)) rest)"

lemma FetchObjects_eq:
  assumes "e_List e (q_namespace q) = Inr objs"
    and "new_models (NewK8SModelObject (e_isModel e) (e_conv e)) objs = Inr ms"
    and "\<forall>m\<in>set ms. filters_pass (q_filters q) m = Inr (Inr (P m))"
    and "doSort (e_sort e) (e_convMeta e) (q_orderFields q) (filter P ms) = Inr ys"
    and "0 \<le> q_offset q"
  shows "FetchObjects e q = Inr (Inr (query_page q ys, q\<lparr>q_total := int (length ys)\<rparr>))"
proof -
  let ?q = "q\<lparr>q_total := int (length ys)\<rparr>"
  have "gbind (applyOffseter ?q ys) (applyLimiter ?q) = Inr (query_page q ys)"
    using page_ok [of ?q ys] assms(5) by (simp add: query_page_def)
  then obtain r where "applyOffseter ?q ys = Inr r" "applyLimiter ?q r = Inr (query_page q ys)"
    by (auto simp: gbind_Inr_iff)
  then show ?thesis
    using assms(1,2,4) applyFilters_ok [OF assms(3), of "[]"]
    by (simp add: FetchObjects_def applySorters_def Let_def)
qed


text \<open>An offset at or past the total is ignored: the query returns the same page as offset 0, so a
  client that pages until it gets an empty page starts over.\<close>

theorem offset_past_end_restarts:
  assumes "e_List e (q_namespace q) = Inr objs"
    and "new_models (NewK8SModelObject (e_isModel e) (e_conv e)) objs = Inr ms"
    and "\<forall>m\<in>set ms. filters_pass (q_filters q) m = Inr (Inr (P m))"
    and "doSort (e_sort e) (e_convMeta e) (q_orderFields q) (filter P ms) = Inr ys"
    and "int (length ys) \<le> offset"
  shows "map_sum id (map_sum id fst) (FetchObjects e (Query_Offset offset q)) =
         map_sum id (map_sum id fst) (FetchObjects e (Query_Offset 0 q))"
proof -
  have "FetchObjects e (Query_Offset n q) =
      Inr (Inr (query_page (Query_Offset n q) ys, Query_Offset n q\<lparr>q_total := int (length ys)\<rparr>))"
    if "0 \<le> n" for n
    using FetchObjects_eq [of e "Query_Offset n q" objs ms P ys] assms that by (simp add: Query_Offset_def)
  with assms(5) show ?thesis by (simp add: query_page_def Query_Offset_def Let_def)
qed

section \<open>The list handler\<close>

lemma ListK8SModels_panics:
  assumes "itemFilter input (Query_Limit limit (Query_Offset (li_Offset input) NewK8SResourceQuery)) = Inr q1"
    and "limit = (if li_Limit input = 0 then e_DefaultPagingLimit e else li_Limit input)"
    and "order = (if li_Order input = ''asc'' then OrderASC else OrderDESC)"
    and "byFields = order_by_fields ofs order (li_OrderBy input)"
    and "add_general_filters e (li_Filter input)
           (AddOrderFields (if byFields = [] then [NewOrderField OrderFieldCreationTimestamp order] else byFields) q1) = Inr q3"
    and "FetchObjects e q3 = Inl p"
  shows "ListK8SModels e ofs itemFilter input = Inl p"
  unfolding ListK8SModels_def Let_def assms(2) [symmetric] assms(3) [symmetric] assms(4) [symmetric] assms(1)
  by (simp add: assms(5,6) Query2List_def split del: if_split)

lemma status_order_field: "NewK8sNamespaceResourceBaseManager ''status'' = Some OrderFieldStatus"
  by (simp add: NewK8sNamespaceResourceBaseManager_def NewK8SClusterResourceBaseManager_def
      OrderFieldStatus_def OrderFieldNamespace_def OrderFieldName_def)

lemma Less_status_panics:
  "k8sModelSorter_Less convMeta \<lparr>of_Field = OrderFieldStatus, of_Order = order\<rparr> a b = Inl TypeAssertionPanic"
  by (simp add: k8sModelSorter_Less_def OrderFieldStatus_def FindStructFieldInterface_def assert_string_def Let_def)

lemma FetchObjects_sort_panics:
  assumes "e_List e (q_namespace q) = Inr objs"
    and "new_models (NewK8SModelObject (e_isModel e) (e_conv e)) objs = Inr ms"
    and "q_filters q = []"
    and "doSort (e_sort e) (e_convMeta e) (q_orderFields q) ms = Inl p"
  shows "FetchObjects e q = Inl p"
proof -
  have "applyFilters (q_filters q) ms [] = Inr (Inr ms)"
    using applyFilters_ok [of ms "q_filters q" "\<lambda>_. True" "[]"] assms(3) by simp
  with assms show ?thesis by (simp add: FetchObjects_def applySorters_def)
qed

text \<open>Every namespaced resource offers \<open>order_by=status\<close>, and listing two or more objects by it
  panics: the order field reads \<open>status\<close> from the metadata, which has none, and asserts a string.\<close>

theorem order_by_status_panics:
  assumes "go_sort (e_sort e)"
    and "li_OrderBy input = [''status'']" "li_Filter input = []" "li_Name input = []"
    and "e_List e (li_Namespace input) = Inr objs" "2 \<le> length objs"
    and "new_models (NewK8SModelObject (e_isModel e) (e_conv e)) objs = Inr ms"
  shows "ListK8SModels e NewK8sNamespaceResourceBaseManager (Namespace_ListItemFilter e) input = Inl TypeAssertionPanic"
proof -
  let ?order = "if li_Order input = ''asc'' then OrderASC else OrderDESC"
  let ?limit = "if li_Limit input = 0 then e_DefaultPagingLimit e else li_Limit input"
  let ?q0 = "Query_Limit ?limit (Query_Offset (li_Offset input) NewK8SResourceQuery)"
  let ?q1 = "if li_Namespace input \<noteq> [] then Query_Namespace (li_Namespace input) ?q0 else ?q0"
  let ?f = "\<lparr>of_Field = OrderFieldStatus, of_Order = ?order\<rparr>"
  let ?q = "AddOrderFields [?f] ?q1"
  have q: "q_namespace ?q = li_Namespace input" "q_filters ?q = []" "q_orderFields ?q = [?f]"
    by (simp_all add: AddOrderFields_def Query_Namespace_def Query_Limit_def Query_Offset_def NewK8SResourceQuery_def)
  have "2 \<le> length ms" using assms(6,7) by (simp add: new_models_length)
  then have "doSort (e_sort e) (e_convMeta e) [?f] ms = Inl TypeAssertionPanic"
    using go_sort.sort_panic [OF assms(1), of ms "k8sModelSorter_Less (e_convMeta e) ?f" TypeAssertionPanic]
    by (simp add: Less_status_panics)
  then have "FetchObjects e ?q = Inl TypeAssertionPanic"
    using FetchObjects_sort_panics [of e ?q objs ms] assms(5,7) q by simp
  then show ?thesis
    by (intro ListK8SModels_panics [OF _ refl refl refl])
      (simp_all add: assms(2-4) status_order_field Namespace_ListItemFilter_def Cluster_ListItemFilter_def)
qed

subsection \<open>Filter clauses\<close>

text \<open>\<open>notin\<close> selects what \<open>in\<close> selects: the objects whose field has one of the values.\<close>

theorem notin_selects_in:
  assumes "getObj obj = Inr data" "data (fc_field fc) = Some val" "fc_funcName fc \<in> {''in'', ''notin''}"
  shows "\<exists>f. FilterClause_QueryFilter getObj fmt fc = Some f \<and> f obj = Inr (Inr (val \<in> set (fc_params fc)))"
  using assms
  by (auto simp: FilterClause_QueryFilter_def qCond_IN_def qCond_NOT_IN_def QWrapStr_def QWrap_def Let_def)

text \<open>A filter clause with a function the switch does not know (\<open>ge\<close>, \<open>isnull\<close>, \<open>between\<close>, or
  \<open>notequals\<close> with several values) installs a nil filter, and listing any object with it panics.\<close>

theorem unknown_filter_panics:
  assumes "li_Filter input = [clause]" "li_Name input = []"
    and "ParseFilterClause (e_FindWords e) clause = Inr (Some fc)"
    and "fc_funcName fc \<notin> {''in'', ''notin'', ''like'', ''contains'', ''startswith'', ''endswith'', ''equals''}"
    and "fc_funcName fc = ''notequals'' \<longrightarrow> length (fc_params fc) \<noteq> 1"
    and "e_List e (li_Namespace input) = Inr (obj # objs)"
    and "new_models (NewK8SModelObject (e_isModel e) (e_conv e)) (obj # objs) = Inr (m # ms)"
  shows "ListK8SModels e ofs (Namespace_ListItemFilter e) input = Inl NilDereference"
proof -
  let ?order = "if li_Order input = ''asc'' then OrderASC else OrderDESC"
  let ?limit = "if li_Limit input = 0 then e_DefaultPagingLimit e else li_Limit input"
  let ?q0 = "Query_Limit ?limit (Query_Offset (li_Offset input) NewK8SResourceQuery)"
  let ?q1 = "if li_Namespace input \<noteq> [] then Query_Namespace (li_Namespace input) ?q0 else ?q0"
  let ?by = "order_by_fields ofs ?order (li_OrderBy input)"
  let ?ofs = "if ?by = [] then [NewOrderField OrderFieldCreationTimestamp ?order] else ?by"
  let ?q = "AddFilter [None] (AddOrderFields ?ofs ?q1)"
  have nil: "FilterClause_QueryFilter getObj fmt fc = None" for getObj fmt
    using assms(4,5) by (simp add: FilterClause_QueryFilter_def Let_def)
  have "q_namespace ?q = li_Namespace input" "q_filters ?q = [None]"
    by (simp_all add: AddFilter_def AddOrderFields_def Query_Namespace_def Query_Limit_def Query_Offset_def NewK8SResourceQuery_def)
  then have "FetchObjects e ?q = Inl NilDereference"
    using assms(6,7) by (simp add: FetchObjects_def)
  then show ?thesis
    by (intro ListK8SModels_panics [OF _ refl refl refl])
      (simp_all add: assms(1-3) nil Namespace_ListItemFilter_def Cluster_ListItemFilter_def)
qed

lemma match_word_append:
  assumes "w \<noteq> []" "\<forall>c\<in>set w. is_word c" "\<not> is_word x"
  shows "match_word (w @ x # r) = Some (w, x # r)"
  using assms by (simp add: match_word_def Let_def takeWhile_append2 dropWhile_append2)

lemma match_params_close:
  assumes "CHR 0x0A \<notin> set p"
  shows "match_params (p @ '')'') = Some p"
proof -
  have "takeWhile (\<lambda>c. c \<noteq> CHR 0x0A) (p @ '')'') = p @ '')''" using assms by (auto simp: takeWhile_eq_all_conv)
  then show ?thesis by (simp add: match_params_def)
qed

text \<open>Parsing the text of a filter clause gives the clause back, when its field and function are
  words, its parameters have no line break and splitting their joined text gives them back.\<close>

theorem FilterClause_roundtrip:
  assumes "fc_field fc \<noteq> []" "\<forall>c\<in>set (fc_field fc). is_word c"
    and "fc_funcName fc \<noteq> []" "\<forall>c\<in>set (fc_funcName fc). is_word c"
    and "CHR 0x0A \<notin> set (strings_Join (fc_params fc) '','')"
    and "FindWords (strings_Join (fc_params fc) '','') = Inr (fc_params fc)"
  shows "ParseFilterClause FindWords (FilterClause_String fc) = Inr (Some fc)"
proof -
  have "\<not> is_word CHR ''.''" "\<not> is_word CHR ''(''" by (simp_all add: is_word_def)
  then have "filterClausePattern (FilterClause_String fc) =
      Some (fc_field fc, fc_funcName fc, strings_Join (fc_params fc) '','')"
    using match_word_append [OF assms(1,2)] match_word_append [OF assms(3,4)] match_params_close [OF assms(5)]
    by (simp add: filterClausePattern_def FilterClause_String_def)
  with assms(6) show ?thesis by (simp add: ParseFilterClause_def)
qed

subsection \<open>Examples\<close>

definition sample_pod :: "string \<Rightarrow> int \<Rightarrow> runtime_Object" where
  "sample_pod name t =
     StructObject (Some \<lparr>km_Name = name, km_Namespace = ''default'', km_UID = name, km_CreationTimestamp = t\<rparr>)"

definition sample_k8s_env :: k8s_env where
  "sample_k8s_env =
     \<lparr>e_List = (\<lambda>ns. Inr [sample_pod ''web'' 30, sample_pod ''db'' 10, sample_pod ''mq'' 20]),
      e_isModel = True, e_conv = (\<lambda>_. Inl ''''), e_convMeta = (\<lambda>_. Inl ''''),
      e_getObject = (\<lambda>obj. Inr [''name'' \<mapsto> k8s_GetName (\<lambda>_. Inl '''') obj]),
      e_fmt = (\<lambda>f ps. f), e_FindWords = (\<lambda>s. Inr [s]), e_sort = insertionSort, e_DefaultPagingLimit = 20\<rparr>"

definition sample_models :: "k8s_model list" where
  "sample_models = [\<lparr>k8sObject = sample_pod ''web'' 30\<rparr>, \<lparr>k8sObject = sample_pod ''db'' 10\<rparr>, \<lparr>k8sObject = sample_pod ''mq'' 20\<rparr>]"

definition sample_query :: sK8SQuery where
  "sample_query =
     AddOrderFields [NewOrderField OrderFieldCreationTimestamp OrderASC] (Query_Limit 1 (Query_Offset 1 NewK8SResourceQuery))"

definition sample_input :: ListInputK8SBase where
  "sample_input = \<lparr>li_Limit = 0, li_Offset = 0, li_OrderBy = [''status''], li_Order = ''asc'', li_Filter = [],
     li_Name = [], li_Namespace = ''default''\<rparr>"

lemmas sample_query_simps = sample_query_def AddOrderFields_def Query_Limit_def Query_Offset_def
  NewK8SResourceQuery_def NewOrderField_def

lemma sample_env_models:
  "e_List sample_k8s_env ns = Inr [sample_pod ''web'' 30, sample_pod ''db'' 10, sample_pod ''mq'' 20]"
  "new_models (NewK8SModelObject (e_isModel sample_k8s_env) (e_conv sample_k8s_env))
     [sample_pod ''web'' 30, sample_pod ''db'' 10, sample_pod ''mq'' 20] = Inr sample_models"
  by (simp_all add: sample_k8s_env_def NewK8SModelObject_def sample_models_def sample_pod_def)

lemma sample_env_sort: "e_sort sample_k8s_env = insertionSort"
  by (simp add: sample_k8s_env_def)

lemma sample_clause_pattern: "filterClausePattern ''age.ge(3)'' = Some (''age'', ''ge'', ''3'')"
  by code_simp

lemma sample_clause_parse:
  "ParseFilterClause (e_FindWords sample_k8s_env) ''age.ge(3)'' =
   Inr (Some \<lparr>fc_field = ''age'', fc_funcName = ''ge'', fc_params = [''3'']\<rparr>)"
  unfolding ParseFilterClause_def sample_clause_pattern by (simp add: sample_k8s_env_def)


theorem offset_past_end_restarts_witness:
  "map_sum id (map_sum id fst) (FetchObjects sample_k8s_env (Query_Offset 3 NewK8SResourceQuery)) =
   map_sum id (map_sum id fst) (FetchObjects sample_k8s_env (Query_Offset 0 NewK8SResourceQuery))"
  by (rule offset_past_end_restarts [of sample_k8s_env NewK8SResourceQuery _ _ "\<lambda>_. True" sample_models, OF sample_env_models])
    (simp_all add: NewK8SResourceQuery_def sample_models_def)

theorem order_by_status_panics_witness:
  "ListK8SModels sample_k8s_env NewK8sNamespaceResourceBaseManager (Namespace_ListItemFilter sample_k8s_env) sample_input
   = Inl TypeAssertionPanic"
  by (rule order_by_status_panics [OF _ _ _ _ sample_env_models(1) _ sample_env_models(2)])
    (simp_all add: sample_env_sort insertion.go_sort_axioms sample_input_def)

theorem notin_selects_in_witness:
  "\<exists>f. FilterClause_QueryFilter (e_getObject sample_k8s_env) (\<lambda>f ps. f)
         \<lparr>fc_field = ''name'', fc_funcName = ''notin'', fc_params = [''db'']\<rparr> = Some f \<and>
       f \<lparr>k8sObject = sample_pod ''db'' 10\<rparr> = Inr (Inr True)"
  using notin_selects_in [of "e_getObject sample_k8s_env" "\<lparr>k8sObject = sample_pod ''db'' 10\<rparr>" "[''name'' \<mapsto> ''db'']"
      "\<lparr>fc_field = ''name'', fc_funcName = ''notin'', fc_params = [''db'']\<rparr>" "''db''" "\<lambda>f ps. f"]
  by (simp add: sample_k8s_env_def k8s_GetName_def GetObjectMeta_def NewObjectMeta_def sample_pod_def)

theorem unknown_filter_panics_witness:
  "ListK8SModels sample_k8s_env Map.empty (Namespace_ListItemFilter sample_k8s_env)
     (sample_input\<lparr>li_Filter := [''age.ge(3)'']\<rparr>) = Inl NilDereference"
  by (rule unknown_filter_panics [where clause = "''age.ge(3)''" and fc = "\<lparr>fc_field = ''age'', fc_funcName = ''ge'', fc_params = [''3'']\<rparr>",
        OF _ _ _ _ _ sample_env_models(1) sample_env_models(2) [unfolded sample_models_def]])
    (simp_all add: sample_input_def sample_clause_parse)

theorem FilterClause_roundtrip_witness:
  "ParseFilterClause (\<lambda>s. Inr [s]) (FilterClause_String \<lparr>fc_field = ''name'', fc_funcName = ''like'', fc_params = [''db'']\<rparr>)
   = Inr (Some \<lparr>fc_field = ''name'', fc_funcName = ''like'', fc_params = [''db'']\<rparr>)"
  by (rule FilterClause_roundtrip) (simp_all add: is_word_def)

end
