(* ===== verification/MachineNames.thy ===== *)
theory MachineNames
  imports Prelude
begin

text \<open>
  The names of the machines of a cluster, src/pkg/drivers/clusters/yunion_vm.go: a generated name ends in
  an index that no machine of the role uses. The search for it has no bound in the code; it is shown
  to end, and the generated names to be new.
\<close>

section \<open>Names of machines\<close>

fun strings_Split :: "char \<Rightarrow> string \<Rightarrow> string list" where
  "strings_Split c [] = [[]]"
| "strings_Split c (x # xs) =
     (if x = c then [] # strings_Split c xs
      else case strings_Split c xs of [] \<Rightarrow> [[x]] | p # ps \<Rightarrow> (x # p) # ps)"

definition digit :: "char \<Rightarrow> nat option" where
  "digit c = (if c \<in> set ''0123456789'' then Some (of_char c - 48) else None)"

fun digits_value :: "nat \<Rightarrow> string \<Rightarrow> nat option" where
  "digits_value n [] = Some n"
| "digits_value n (c # cs) = (case digit c of None \<Rightarrow> None | Some d \<Rightarrow> digits_value (n * 10 + d) cs)"

text \<open>\<open>strconv.Atoi\<close> on 64 bits; \<open>None\<close> is a syntax or range error.\<close>

definition strconv_Atoi :: "string \<Rightarrow> int option" where
  "strconv_Atoi s =
     (let neg = (s \<noteq> [] \<and> hd s = CHR ''-'');
          ds = (if s \<noteq> [] \<and> (hd s = CHR ''-'' \<or> hd s = CHR ''+'') then tl s else s)
      in if ds = [] then None
         else case digits_value 0 ds of
                None \<Rightarrow> None
              | Some n \<Rightarrow>
                  if neg then (if n \<le> 2 ^ 63 then Some (- int n) else None)
                  else if n < 2 ^ 63 then Some (int n) else None)"

definition name_index :: "string \<Rightarrow> int option" where
  "name_index name = strconv_Atoi (last (strings_Split CHR ''-'' name))"

fun used_indexes :: "string list \<Rightarrow> int set" where
  "used_indexes [] = {}"
| "used_indexes (n # ns) =
     (case name_index n of None \<Rightarrow> used_indexes ns | Some idx \<Rightarrow> insert idx (used_indexes ns))"

definition orderGen :: "nat \<Rightarrow> int list" where
  "orderGen cnt = map int [0..<cnt]"

text \<open>The loop \<open>for idx := 0; ; idx++\<close> has no bound.\<close>

partial_function (option) next_index :: "int set \<Rightarrow> int \<Rightarrow> int option" where
  "next_index idxs idx = (if idx \<notin> idxs then Some idx else next_index idxs (idx + 1))"

fun take_indexes :: "nat \<Rightarrow> int set \<Rightarrow> int list option" where
  "take_indexes 0 idxs = Some []"
| "take_indexes (Suc n) idxs =
     (case next_index idxs 0 of
        None \<Rightarrow> None
      | Some idx \<Rightarrow> map_option ((#) idx) (take_indexes n (insert idx idxs)))"

text \<open>The cluster is nil when it is being created; otherwise the names of its machines of the role, or
  the error of getting them. \<open>None\<close> stands for a call that does not return.\<close>

definition getClusterMachineIndexs :: "(string + string list) option \<Rightarrow> string \<Rightarrow> nat \<Rightarrow> (string + int list) option" where
  "getClusterMachineIndexs cluster role cnt =
     (if cnt = 0 then Some (Inr [])
      else case cluster of
             None \<Rightarrow> Some (Inr (orderGen cnt))
           | Some (Inl e) \<Rightarrow> Some (Inl (''Get machines by role '' @ role @ '': '' @ e))
           | Some (Inr names) \<Rightarrow>
               let idxs = used_indexes names in
               if idxs = {} then Some (Inr (orderGen cnt)) else map_option Inr (take_indexes cnt idxs))"

definition generateVMName :: "string \<Rightarrow> string \<Rightarrow> string \<Rightarrow> int \<Rightarrow> string" where
  "generateVMName cluster role randStr idx = cluster @ ''-'' @ role @ ''-'' @ randStr @ ''-'' @ show_int idx"

subsection \<open>The indexes are the least free ones\<close>

lemma finite_used_indexes [simp]: "finite (used_indexes ns)"
  by (induction ns) (auto split: option.splits)

lemma used_indexes_iff: "i \<in> used_indexes ns \<longleftrightarrow> (\<exists>n\<in>set ns. name_index n = Some i)"
  by (induction ns) (auto split: option.splits)

lemma next_index_free:
  assumes "\<forall>k\<in>{i..<j}. k \<in> idxs" "j \<notin> idxs" "i \<le> j"
  shows "next_index idxs i = Some j"
  using assms
proof (induction "nat (j - i)" arbitrary: i)
  case 0
  then show ?case by (subst next_index.simps) simp
next
  case (Suc n)
  then have "i < j" "next_index idxs (i + 1) = Some j" by auto
  with Suc.prems show ?case by (subst next_index.simps) auto
qed

text \<open>The least index at or above 0 that is free; the loop finds it because the map is finite.\<close>

lemma next_index_least:
  assumes "finite idxs"
  obtains j where "next_index idxs 0 = Some j" "0 \<le> j" "j \<notin> idxs" "\<forall>k. 0 \<le> k \<and> k < j \<longrightarrow> k \<in> idxs"
proof -
  have "infinite (UNIV :: nat set)" by simp
  with assms obtain m :: nat where "int m \<notin> idxs"
    by (metis finite_imageD finite_subset image_subset_iff inj_of_nat subset_UNIV)
  then obtain l :: nat where l: "int l \<notin> idxs" "\<forall>k<l. int k \<in> idxs"
    using exists_least_iff [of "\<lambda>n. int n \<notin> idxs"] by blast
  have below: "\<forall>k. 0 \<le> k \<and> k < int l \<longrightarrow> k \<in> idxs"
  proof (intro allI impI)
    fix k :: int assume "0 \<le> k \<and> k < int l"
    then show "k \<in> idxs" using l(2) [rule_format, of "nat k"] by (simp add: nat_less_iff)
  qed
  have "next_index idxs 0 = Some (int l)" by (rule next_index_free) (use below l(1) in auto)
  then show thesis using that below l(1) by simp
qed

lemma take_indexes_spec:
  assumes "finite idxs"
  shows "\<exists>is. take_indexes n idxs = Some is \<and> length is = n \<and> distinct is \<and> sorted is \<and>
    (\<forall>i\<in>set is. 0 \<le> i \<and> i \<notin> idxs \<and> (\<forall>k. 0 \<le> k \<and> k < i \<longrightarrow> k \<in> idxs \<or> k \<in> set is))"
  using assms
proof (induction n arbitrary: idxs)
  case (Suc n)
  obtain j where j: "next_index idxs 0 = Some j" "0 \<le> j" "j \<notin> idxs" "\<forall>k. 0 \<le> k \<and> k < j \<longrightarrow> k \<in> idxs"
    using next_index_least [OF Suc.prems] .
  obtain js where js: "take_indexes n (insert j idxs) = Some js" "length js = n" "distinct js" "sorted js"
    "\<forall>i\<in>set js. 0 \<le> i \<and> i \<notin> insert j idxs \<and> (\<forall>k. 0 \<le> k \<and> k < i \<longrightarrow> k \<in> insert j idxs \<or> k \<in> set js)"
    using Suc.IH [of "insert j idxs"] Suc.prems by auto
  have "j \<le> i" if "i \<in> set js" for i using js(5) j(4) that by (metis insertI2 linorder_le_less_linear)
  with j js show ?case by (intro exI [of _ "j # js"]) auto
qed simp


lemma take_indexes_initial: "take_indexes n (int ` {0..<m}) = Some (map int [m..<m + n])"
proof (induction n arbitrary: m)
  case (Suc n)
  have "next_index (int ` {0..<m}) 0 = Some (int m)"
    by (rule next_index_free) (auto simp: image_iff intro!: bexI [of _ "nat _"])
  moreover have "insert (int m) (int ` {0..<m}) = int ` {0..<Suc m}" by (auto simp: less_Suc_eq)
  moreover have "map int [m..<m + Suc n] = int m # map int [Suc m..<Suc m + n]" by (simp add: upt_conv_Cons)
  ultimately show ?case by (simp add: Suc.IH [of "Suc m"])
qed simp

subsection \<open>Numbers in names\<close>

lemma digits_value_append:
  "digits_value n (xs @ ys) = (case digits_value n xs of None \<Rightarrow> None | Some m \<Rightarrow> digits_value m ys)"
  by (induction xs arbitrary: n) (auto split: option.splits)

lemma digit_nth:
  assumes "d < 10"
  shows "digit (''0123456789'' ! d) = Some d"
proof -
  have "\<forall>d\<in>set [0..<10]. digit (''0123456789'' ! d) = Some d" by code_simp
  with assms show ?thesis by simp
qed

lemma digits_value_show: "digits_value 0 (show_nat n) = Some n"
proof (induction n rule: show_nat.induct)
  case (1 n)
  show ?case
  proof (cases "n < 10")
    case True
    then show ?thesis by (subst show_nat.simps) (simp add: digit_nth)
  next
    case False
    with 1 show ?thesis by (subst show_nat.simps) (simp add: digits_value_append digit_nth)
  qed
qed

lemma show_nat_digits: "set (show_nat n) \<subseteq> set ''0123456789''"
proof (induction n rule: show_nat.induct)
  case (1 n)
  have "''0123456789'' ! d \<in> set ''0123456789''" if "d < 10" for d using that by (intro nth_mem) simp
  with 1 show ?case by (subst show_nat.simps) auto
qed

lemma show_nat_Nil [simp]: "show_nat n \<noteq> []"
  by (subst show_nat.simps) simp

lemma Atoi_show_nat:
  assumes "n < 2 ^ 63"
  shows "strconv_Atoi (show_nat n) = Some (int n)"
proof -
  obtain c cs where s: "show_nat n = c # cs" by (cases "show_nat n") simp_all
  with show_nat_digits [of n] have "c \<noteq> CHR ''-''" "c \<noteq> CHR ''+''" by auto
  then show ?thesis using assms digits_value_show [of n] by (simp add: strconv_Atoi_def s)
qed

lemma Split_Nil [simp]: "strings_Split c s \<noteq> []"
  by (induction s) (auto split: list.splits)

lemma Split_absent: "c \<notin> set s \<Longrightarrow> strings_Split c s = [s]"
  by (induction s) auto

lemma Split_join: "\<exists>p ps. strings_Split c (a @ c # b) = p # ps \<and> ps \<noteq> [] \<and> last ps = last (strings_Split c b)"
  by (induction a) auto

lemma last_Split_join: "last (strings_Split c (a @ c # b)) = last (strings_Split c b)"
  using Split_join [of c a b] by auto

lemma name_index_generated:
  assumes "0 \<le> i" "i < 2 ^ 63"
  shows "name_index (generateVMName cl role r i) = Some i"
proof -
  have s: "show_int i = show_nat (nat i)" using assms(1) by (simp add: show_int_def)
  have "CHR ''-'' \<notin> set (show_nat (nat i))" using show_nat_digits [of "nat i"] by auto
  moreover have "generateVMName cl role r i = (cl @ ''-'' @ role @ ''-'' @ r) @ CHR ''-'' # show_nat (nat i)"
    by (simp add: generateVMName_def s)
  ultimately show ?thesis
    using assms Atoi_show_nat [of "nat i"]
    by (simp only: name_index_def last_Split_join) (simp add: Split_absent nat_less_iff)
qed

text \<open>C32: the indexes for new machines are found, however the machines of the cluster are named: as many as
  asked for, distinct, none of them in use, and without a gap below them. The names made of them
  are distinct and differ from the names of all machines of the role.\<close>

theorem getClusterMachineIndexs_fresh:
  assumes "cnt > 0"
  shows "\<exists>is. getClusterMachineIndexs (Some (Inr names)) role cnt = Some (Inr is) \<and> length is = cnt \<and> distinct is \<and>
    (\<forall>i\<in>set is. 0 \<le> i \<and> (\<forall>k. 0 \<le> k \<and> k < i \<longrightarrow> k \<in> set is \<or> (\<exists>n\<in>set names. name_index n = Some k))) \<and>
    ((\<forall>i\<in>set is. i < 2 ^ 63) \<longrightarrow>
       distinct (map (generateVMName cl role r) is) \<and> generateVMName cl role r ` set is \<inter> set names = {})"
proof -
  obtain "is" where i: "take_indexes cnt (used_indexes names) = Some is" "length is = cnt" "distinct is"
      "\<forall>i\<in>set is. 0 \<le> i \<and> i \<notin> used_indexes names \<and> (\<forall>k. 0 \<le> k \<and> k < i \<longrightarrow> k \<in> used_indexes names \<or> k \<in> set is)"
    using take_indexes_spec [of "used_indexes names" cnt] by auto
  have order: "take_indexes cnt {} = Some (orderGen cnt)"
    using take_indexes_initial [of cnt 0] by (simp add: orderGen_def)
  have res: "getClusterMachineIndexs (Some (Inr names)) role cnt = Some (Inr is)"
    using assms i(1) order by (auto simp: getClusterMachineIndexs_def Let_def)
  have idx: "name_index (generateVMName cl role r k) = Some k" if "\<forall>i\<in>set is. i < 2 ^ 63" "k \<in> set is" for k
    using that i(4) by (intro name_index_generated) auto
  have "distinct (map (generateVMName cl role r) is) \<and> generateVMName cl role r ` set is \<inter> set names = {}"
    if "\<forall>i\<in>set is. i < 2 ^ 63"
  proof
    show "distinct (map (generateVMName cl role r) is)"
      using i(3) idx [OF that] by (auto simp: distinct_map inj_on_def) (metis option.inject)
    show "generateVMName cl role r ` set is \<inter> set names = {}"
      using i(4) idx [OF that] by (auto simp: used_indexes_iff)
  qed
  with res i show ?thesis by (auto simp: used_indexes_iff)
qed


theorem getClusterMachineIndexs_fresh_witness:
  "\<exists>is. getClusterMachineIndexs (Some (Inr [''prod-node-ab-0'', ''db'', ''prod-node-cd-2''])) ''node'' 2 = Some (Inr is) \<and>
     length is = 2 \<and> distinct is"
proof -
  have "(0 :: nat) < 2" by simp
  from getClusterMachineIndexs_fresh [OF this, of "[''prod-node-ab-0'', ''db'', ''prod-node-cd-2'']" "''node''" "''prod''" "''ef''"]
  show ?thesis by blast
qed

end
