(* ===== verification/Machines.thy ===== *)
theory Machines
  imports MachineNames
begin

text \<open>
  The machines of a self-built cluster: the records and their operations (src/pkg/models/machines.go and
  the parts of clusters.go on machines) and the drivers that validate, name, create and delete them
  (src/pkg/drivers/common.go, drivers/clusters/base.go, clusterapi_base.go, yunion_vm.go and
  drivers/machines/yunion_vm.go). The state is the table of machines with the tasks that were started;
  the cloud services are fields of an environment. Shown: validated machines meet the requirements, which
  the defaults do not.
\<close>

section \<open>Data\<close>

definition RoleTypeControlplane :: string where "RoleTypeControlplane = ''controlplane''"
definition RoleTypeNode :: string where "RoleTypeNode = ''node''"
definition MachineResourceTypeBaremetal :: string where "MachineResourceTypeBaremetal = ''baremetal''"
definition MachineResourceTypeVm :: string where "MachineResourceTypeVm = ''vm''"
definition DefaultVMMemSize :: int where "DefaultVMMemSize = 2048"
definition DefaultVMCPUCount :: int where "DefaultVMCPUCount = 2"
definition DefaultVMRootDiskSize :: int where "DefaultVMRootDiskSize = 100 * 1024"

record disk =
  SizeMb :: int
  ImageId :: string

text \<open>The fields of the VM configuration that the code reads or sets; the others (networks, preferred
  hosts, devices) are passed on.\<close>

record vm_config =
  Hypervisor :: string
  VmemSize :: int
  VcpuCount :: int
  Disks :: "disk list"

definition new_vm_config :: vm_config where
  "new_vm_config = \<lparr>Hypervisor = [], VmemSize = 0, VcpuCount = 0, Disks = []\<rparr>"

text \<open>\<open>in_Config\<close> is the pointer to the configuration, which holds the pointer to that of the VM.\<close>

record machine_input =
  in_Name :: string
  in_ClusterId :: string
  in_Role :: string
  in_ResourceType :: string
  in_ResourceId :: string
  in_FirstNode :: bool
  in_Config :: "vm_config option option"

record machine =
  m_Id :: string
  m_Name :: string
  m_ClusterId :: string
  m_Role :: string
  m_ResourceType :: string
  m_ResourceId :: string
  m_FirstNode :: bool
  m_Address :: string
  m_Status :: string

record machine_store =
  machines :: "machine list"
  tasks :: "(string \<times> string list) list"

section \<open>Queries\<close>

definition GetMachines :: "string \<Rightarrow> machine_store \<Rightarrow> machine list" where
  "GetMachines clusterId s = filter (\<lambda>m. m_ClusterId m = clusterId) (machines s)"

definition GetMachinesByRole :: "string \<Rightarrow> string \<Rightarrow> machine_store \<Rightarrow> machine list" where
  "GetMachinesByRole clusterId role s = filter (\<lambda>m. m_Role m = role) (GetMachines clusterId s)"

definition IsControlplane :: "machine \<Rightarrow> bool" where
  "IsControlplane m \<longleftrightarrow> m_Role m = RoleTypeControlplane"

definition GetControlplaneMachines :: "string \<Rightarrow> machine_store \<Rightarrow> machine list" where
  "GetControlplaneMachines clusterId s = filter IsControlplane (GetMachines clusterId s)"

definition NeedControlplane :: "string \<Rightarrow> machine_store \<Rightarrow> bool" where
  "NeedControlplane clusterId s \<longleftrightarrow> GetMachines clusterId s = []"

fun controlplane_loop :: "bool \<Rightarrow> machine list \<Rightarrow> string + machine" where
  "controlplane_loop checkStatus [] = Inl ''Not found a controlplane machine''"
| "controlplane_loop checkStatus (m # ms) =
     (if IsControlplane m \<and> m_FirstNode m then
        (if \<not> checkStatus then Inr m
         else if m_Status m = ''running'' then Inr m
         else Inl (''Not found a running controlplane machine, status is '' @ m_Status m))
      else controlplane_loop checkStatus ms)"

definition getControlplaneMachine :: "bool \<Rightarrow> string \<Rightarrow> machine_store \<Rightarrow> string + machine" where
  "getControlplaneMachine checkStatus clusterId s = controlplane_loop checkStatus (GetMachines clusterId s)"

section \<open>Validation\<close>

text \<open>What the validation calls: the name prefix of a cluster that is being created, the image
  repository, the session, the image and its status, the random part of names, the SSH key, the
  check of the compute service, and the order in which the goroutines end.\<close>

record machine_env =
  me_prefix :: "string option"
  me_repo_err :: "string option"
  me_session_err :: "string option"
  me_image :: "string + string \<times> string"
  me_rand :: string
  me_key_err :: "string option"
  me_check :: "vm_config \<Rightarrow> string option"
  me_order :: "nat list"

fun GetControlplaneMachineDatas :: "string \<Rightarrow> machine_input list \<Rightarrow> machine_input list \<times> machine_input list" where
  "GetControlplaneMachineDatas clusterId [] = ([], [])"
| "GetControlplaneMachineDatas clusterId (d # ds) =
     (let d' = (if clusterId \<noteq> [] then d\<lparr>in_ClusterId := clusterId\<rparr> else d);
          (controls, nodes) = GetControlplaneMachineDatas clusterId ds
      in if in_Role d' = RoleTypeControlplane then (d' # controls, nodes) else (controls, d' # nodes))"

text \<open>The cluster is nil while it is being created.\<close>

definition Base_ValidateCreateMachines ::
  "(string \<times> string) option \<Rightarrow> machine_store \<Rightarrow> machine_input list \<Rightarrow> string + machine_input list \<times> machine_input list" where
  "Base_ValidateCreateMachines cluster s data =
     (let needControlplane = (case cluster of None \<Rightarrow> False | Some (cid, _) \<Rightarrow> NeedControlplane cid s);
          clusterId = (case cluster of None \<Rightarrow> [] | Some (cid, _) \<Rightarrow> cid);
          (controls, nodes) = GetControlplaneMachineDatas clusterId data
      in if needControlplane \<and> controls = [] then Inl ''controlplane node must created'' else Inr (controls, nodes))"

definition ValidateRole :: "string \<Rightarrow> string option" where
  "ValidateRole role = (if role \<in> {RoleTypeControlplane, RoleTypeNode} then None else Some (''Invalid role: '' @ role))"

definition ValidateResourceType :: "string \<Rightarrow> string option" where
  "ValidateResourceType resType =
     (if resType \<in> {MachineResourceTypeVm, MachineResourceTypeBaremetal} then None
      else Some (''Invalid machine resource type: '' @ resType))"

definition findImage :: "machine_env \<Rightarrow> string + string" where
  "findImage e =
     (case me_image e of
        Inl err \<Rightarrow> Inl err
      | Inr (status, imageId) \<Rightarrow> if status \<noteq> ''active'' then Inl (''Image status is '' @ status) else Inr imageId)"

definition set_image :: "string \<Rightarrow> disk list \<Rightarrow> disk list" where
  "set_image imageId ds =
     (case ds of
        [] \<Rightarrow> [\<lparr>SizeMb = DefaultVMRootDiskSize, ImageId = imageId\<rparr>]
      | d # rest \<Rightarrow> d\<lparr>ImageId := imageId\<rparr> # rest)"

definition applyMachineCreateConfig :: "machine_input \<Rightarrow> string \<Rightarrow> string + machine_input" where
  "applyMachineCreateConfig m imageId =
     (let config = (case in_Config m of Some (Some c) \<Rightarrow> c | _ \<Rightarrow> new_vm_config);
          config1 = (if Hypervisor config = [] then config\<lparr>Hypervisor := ''kvm''\<rparr> else config);
          config2 = (if VmemSize config1 \<le> 0 then config1\<lparr>VmemSize := DefaultVMMemSize\<rparr> else config1);
          config3 = (if VcpuCount config2 \<le> 0 then config2\<lparr>VcpuCount := DefaultVMCPUCount\<rparr> else config2)
      in if VcpuCount config3 < DefaultVMCPUCount then Inl ''cpu count less than 2''
         else Inr (m\<lparr>in_Config := Some (Some (config3\<lparr>Disks := set_image imageId (Disks config3)\<rparr>))\<rparr>))"

text \<open>The VM driver of machines; a nil configuration is dereferenced.\<close>

definition validateConfig :: "machine_env \<Rightarrow> vm_config \<Rightarrow> string option" where
  "validateConfig e config =
     (if VcpuCount config < 4 then Some ''CPU count must large than 4''
      else if VmemSize config < 4096 then Some ''Memory size must large than 4G''
      else me_check e config)"

definition VM_ValidateCreateData :: "machine_env \<Rightarrow> machine_input \<Rightarrow> string option go" where
  "VM_ValidateCreateData e m =
     (if in_ResourceType m \<noteq> MachineResourceTypeVm then Inr (Some (''Invalid resource type: '' @ in_ResourceType m))
      else if in_ResourceId m \<noteq> [] then Inr (Some ''Resource id must not provide'')
      else case in_Config m of
             Some (Some config) \<Rightarrow> Inr (validateConfig e config)
           | _ \<Rightarrow> Inl NilDereference)"

definition validateCreateMachine :: "machine_env \<Rightarrow> machine_input \<Rightarrow> string option go" where
  "validateCreateMachine e m =
     (case ValidateRole (in_Role m) of
        Some err \<Rightarrow> Inr (Some err)
      | None \<Rightarrow>
          if in_ResourceType m \<noteq> MachineResourceTypeVm then Inr (Some (''Invalid resource type: '' @ in_ResourceType m))
          else if in_ResourceId m \<noteq> [] then Inr (Some ''ResourceId can't be specify'')
          else VM_ValidateCreateData e m)"

fun name_machines :: "string \<Rightarrow> string \<Rightarrow> string \<Rightarrow> int list \<Rightarrow> machine_input list \<Rightarrow> string + machine_input list" where
  "name_machines pre r imageId idxs [] = Inr []"
| "name_machines pre r imageId idxs (m # ms) =
     (let m1 = (if in_Name m = [] then m\<lparr>in_Name := generateVMName pre (in_Role m) r (hd idxs)\<rparr> else m) in
      case applyMachineCreateConfig m1 imageId of
        Inl err \<Rightarrow> Inl err
      | Inr m2 \<Rightarrow> (case name_machines pre r imageId (tl idxs) ms of Inl err \<Rightarrow> Inl err | Inr ms2 \<Rightarrow> Inr (m2 # ms2)))"

text \<open>The inputs are pointers: the changes of the two groups show in the list they come from.\<close>

fun weave :: "machine_input list \<Rightarrow> machine_input list \<Rightarrow> machine_input list \<Rightarrow> machine_input list" where
  "weave [] controls nodes = []"
| "weave (d # ds) controls nodes =
     (if in_Role d = RoleTypeControlplane then hd controls # weave ds (tl controls) nodes
      else hd nodes # weave ds controls (tl nodes))"

text \<open>\<open>errgroup\<close>: all goroutines run; the error of the first that fails is returned.\<close>

fun errgroup :: "machine_env \<Rightarrow> machine_input list \<Rightarrow> nat list \<Rightarrow> string option go" where
  "errgroup e data [] = Inr None"
| "errgroup e data (k # ks) =
     gbind (validateCreateMachine e (data ! k)) (\<lambda>err.
       gbind (errgroup e data ks) (\<lambda>rest. Inr (case err of None \<Rightarrow> rest | Some _ \<Rightarrow> err)))"

definition role_names :: "(string \<times> string) option \<Rightarrow> machine_store \<Rightarrow> string \<Rightarrow> (string + string list) option" where
  "role_names cluster s role =
     (case cluster of None \<Rightarrow> None | Some (cid, _) \<Rightarrow> Some (Inr (map m_Name (GetMachinesByRole cid role s))))"

definition ValidateCreateMachines ::
  "machine_env \<Rightarrow> (string \<times> string) option \<Rightarrow> machine_store \<Rightarrow> machine_input list \<Rightarrow> (string + machine_input list) go option" where
  "ValidateCreateMachines e cluster s data =
     (case Base_ValidateCreateMachines cluster s data of
        Inl err \<Rightarrow> Some (Inr (Inl err))
      | Inr (controls, nodes) \<Rightarrow>
          (case (case cluster of
                   None \<Rightarrow> (case me_prefix e of None \<Rightarrow> Inl ''VmNamePrefix not in context'' | Some p \<Rightarrow> Inr p)
                 | Some (_, name) \<Rightarrow>
                     (case me_repo_err e of Some err \<Rightarrow> Inl (''get cluster image repo: '' @ err) | None \<Rightarrow> Inr name)) of
             Inl err \<Rightarrow> Some (Inr (Inl err))
           | Inr namePrefix \<Rightarrow>
               (case me_session_err e of
                  Some err \<Rightarrow> Some (Inr (Inl err))
                | None \<Rightarrow>
                    (case findImage e of
                       Inl err \<Rightarrow> Some (Inr (Inl (''Invalid kubernetes image: '' @ err)))
                     | Inr imageId \<Rightarrow>
                         (case getClusterMachineIndexs (role_names cluster s RoleTypeControlplane) RoleTypeControlplane (length controls) of
                            None \<Rightarrow> None
                          | Some (Inl err) \<Rightarrow> Some (Inr (Inl (''Generate controlplane machines name: '' @ err)))
                          | Some (Inr controlIdxs) \<Rightarrow>
                              (case name_machines namePrefix (me_rand e) imageId controlIdxs controls of
                                 Inl err \<Rightarrow> Some (Inr (Inl (''Apply controlplane vm config: '' @ err)))
                               | Inr controls2 \<Rightarrow>
                                   (case getClusterMachineIndexs (role_names cluster s RoleTypeNode) RoleTypeNode (length nodes) of
                                      None \<Rightarrow> None
                                    | Some (Inl err) \<Rightarrow> Some (Inr (Inl (''Generate node machines name: '' @ err)))
                                    | Some (Inr nodeIdxs) \<Rightarrow>
                                        (case name_machines namePrefix (me_rand e) imageId nodeIdxs nodes of
                                           Inl err \<Rightarrow> Some (Inr (Inl (''Apply node vm config: '' @ err)))
                                         | Inr nodes2 \<Rightarrow>
                                             (case me_key_err e of
                                                Some err \<Rightarrow> Some (Inr (Inl (''failed to get cloud ssh privateKey: '' @ err)))
                                              | None \<Rightarrow>
                                                  let data2 = weave data controls2 nodes2 in
                                                  Some (gbind (errgroup e data2 (me_order e)) (\<lambda>err.
                                                    Inr (case err of Some x \<Rightarrow> Inl x | None \<Rightarrow> Inr data2))))))))))))"


subsection \<open>What validated machines are like\<close>

definition in_cluster :: "string \<Rightarrow> machine_input \<Rightarrow> machine_input" where
  "in_cluster clusterId d = (if clusterId \<noteq> [] then d\<lparr>in_ClusterId := clusterId\<rparr> else d)"

abbreviation control_input :: "machine_input \<Rightarrow> bool" where
  "control_input d \<equiv> in_Role d = RoleTypeControlplane"

lemma in_cluster_simps [simp]:
  "in_Role (in_cluster c d) = in_Role d" "in_Name (in_cluster c d) = in_Name d"
  "in_ResourceType (in_cluster c d) = in_ResourceType d" "in_ResourceId (in_cluster c d) = in_ResourceId d"
  "in_FirstNode (in_cluster c d) = in_FirstNode d" "in_Config (in_cluster c d) = in_Config d"
  "in_ClusterId (in_cluster c d) = (if c \<noteq> [] then c else in_ClusterId d)"
  by (simp_all add: in_cluster_def)

lemma GetControlplaneMachineDatas_filter:
  "GetControlplaneMachineDatas c ds =
     (filter control_input (map (in_cluster c) ds), filter (\<lambda>d. \<not> control_input d) (map (in_cluster c) ds))"
  by (induction ds) (auto simp: in_cluster_def Let_def)

text \<open>\<open>prepared imageId m m2\<close>: \<open>m2\<close> is \<open>m\<close> with a name and a complete VM configuration.\<close>

definition prepared :: "string \<Rightarrow> machine_input \<Rightarrow> machine_input \<Rightarrow> bool" where
  "prepared imageId m m2 \<longleftrightarrow>
     in_Role m2 = in_Role m \<and> in_ClusterId m2 = in_ClusterId m \<and> in_ResourceType m2 = in_ResourceType m \<and>
     in_ResourceId m2 = in_ResourceId m \<and> in_FirstNode m2 = in_FirstNode m \<and>
     in_Name m2 \<noteq> [] \<and> (in_Name m \<noteq> [] \<longrightarrow> in_Name m2 = in_Name m) \<and>
     (let c0 = (case in_Config m of Some (Some c) \<Rightarrow> c | _ \<Rightarrow> new_vm_config) in
      \<exists>c. in_Config m2 = Some (Some c) \<and> Hypervisor c \<noteq> [] \<and>
        VmemSize c = (if VmemSize c0 \<le> 0 then DefaultVMMemSize else VmemSize c0) \<and>
        VcpuCount c = (if VcpuCount c0 \<le> 0 then DefaultVMCPUCount else VcpuCount c0) \<and>
        Disks c = set_image imageId (Disks c0))"

lemma apply_prepared:
  assumes "applyMachineCreateConfig m1 imageId = Inr m2" "in_Name m1 \<noteq> []" "in_Name m \<noteq> [] \<longrightarrow> in_Name m1 = in_Name m"
    "m1 = m\<lparr>in_Name := in_Name m1\<rparr>"
  shows "prepared imageId m m2"
proof -
  from assms(4) have "in_Config m1 = in_Config m" "in_Role m1 = in_Role m" "in_ClusterId m1 = in_ClusterId m"
    "in_ResourceType m1 = in_ResourceType m" "in_ResourceId m1 = in_ResourceId m" "in_FirstNode m1 = in_FirstNode m"
    by (metis machine_input.select_convs machine_input.surjective machine_input.update_convs(1))+
  with assms(1-3) show ?thesis
    by (auto simp: prepared_def applyMachineCreateConfig_def Let_def split: if_splits)
qed

lemma generateVMName_Nil [simp]: "generateVMName a b c d \<noteq> []"
  by (simp add: generateVMName_def)

lemma name_machines_prepared:
  "name_machines pre r imageId idxs ms = Inr ms2 \<Longrightarrow> list_all2 (prepared imageId) ms ms2"
proof (induction ms arbitrary: idxs ms2)
  case (Cons m ms)
  let ?m1 = "if in_Name m = [] then m\<lparr>in_Name := generateVMName pre (in_Role m) r (hd idxs)\<rparr> else m"
  from Cons.prems obtain m2 ms3 where r: "applyMachineCreateConfig ?m1 imageId = Inr m2"
      "name_machines pre r imageId (tl idxs) ms = Inr ms3" "ms2 = m2 # ms3"
    by (auto simp: Let_def split: sum.splits if_splits)
  have "prepared imageId m m2" by (rule apply_prepared [OF r(1)]) auto
  with Cons.IH [OF r(2)] r(3) show ?case by simp
qed simp

lemma weave_all2:
  assumes "list_all2 R (filter control_input (map f ds)) cs" "list_all2 R (filter (\<lambda>d. \<not> control_input d) (map f ds)) ns"
    and "\<And>d. in_Role (f d) = in_Role d"
  shows "list_all2 R (map f ds) (weave ds cs ns)"
  using assms(1,2)
proof (induction ds arbitrary: cs ns)
  case (Cons d ds)
  then show ?case by (cases cs; cases ns) (auto simp: assms(3) split: if_splits)
qed simp

lemma errgroup_None:
  "errgroup e data ks = Inr None \<Longrightarrow> k \<in> set ks \<Longrightarrow> validateCreateMachine e (data ! k) = Inr None"
  by (induction ks) (auto simp: gbind_Inr_iff split: option.splits)


definition cluster_id :: "(string \<times> string) option \<Rightarrow> string" where
  "cluster_id cluster = (case cluster of None \<Rightarrow> [] | Some (cid, _) \<Rightarrow> cid)"

lemma ValidateCreateMachines_Inr:
  assumes "ValidateCreateMachines e cluster s data = Some (Inr (Inr data2))"
  obtains imageId where "list_all2 (prepared imageId) (map (in_cluster (cluster_id cluster)) data) data2"
    "errgroup e data2 (me_order e) = Inr None" "findImage e = Inr imageId"
    "\<And>cid n. cluster = Some (cid, n) \<Longrightarrow> NeedControlplane cid s \<Longrightarrow> \<exists>d\<in>set data. control_input d"
proof -
  let ?data = "map (in_cluster (cluster_id cluster)) data"
  have base: "Base_ValidateCreateMachines cluster s data = Inr (filter control_input ?data, filter (\<lambda>d. \<not> control_input d) ?data)"
    and need: "\<And>cid n. cluster = Some (cid, n) \<Longrightarrow> NeedControlplane cid s \<Longrightarrow> \<exists>d\<in>set data. control_input d"
    using assms
    by (auto simp: ValidateCreateMachines_def Base_ValidateCreateMachines_def GetControlplaneMachineDatas_filter Let_def
        cluster_id_def filter_empty_conv split: sum.splits if_splits)
  obtain imageId p i1 c2 i2 n2 where r: "findImage e = Inr imageId"
      "name_machines p (me_rand e) imageId i1 (filter control_input ?data) = Inr c2"
      "name_machines p (me_rand e) imageId i2 (filter (\<lambda>d. \<not> control_input d) ?data) = Inr n2"
      "errgroup e (weave data c2 n2) (me_order e) = Inr None" "data2 = weave data c2 n2"
    using assms unfolding ValidateCreateMachines_def base
    by (auto simp: Let_def gbind_Inr_iff split: sum.splits option.splits)
  have "list_all2 (prepared imageId) ?data data2"
    unfolding r(5) using name_machines_prepared [OF r(2)] name_machines_prepared [OF r(3)]
    by (rule weave_all2) simp
  with r need show thesis using that by blast
qed

text \<open>The contract of \<open>ValidateCreateMachines\<close> of a cluster driver, on which the creation of the machines relies: the
  accepted machines are those of the request with their roles, in the cluster, and with a control node if the cluster has none.\<close>

locale machine_validation =
  fixes cid :: string
    and accepts :: "machine_store \<Rightarrow> machine_input list \<Rightarrow> machine_input list \<Rightarrow> bool"
  assumes roles: "accepts s d d2 \<Longrightarrow> map in_Role d2 = map in_Role d"
    and own: "accepts s d d2 \<Longrightarrow> cid \<noteq> [] \<Longrightarrow> m \<in> set d2 \<Longrightarrow> in_ClusterId m = cid"
    and control: "accepts s d d2 \<Longrightarrow> NeedControlplane cid s \<Longrightarrow> \<exists>m\<in>set d. control_input m"
begin

lemma created_as_accepted:
  assumes "accepts s d d2"
  shows "GetControlplaneMachineDatas cid d2 = (filter control_input d2, filter (\<lambda>m. \<not> control_input m) d2)"
proof -
  have "in_cluster cid m = m" if "m \<in> set d2" for m
    using own [OF assms _ that] by (simp add: in_cluster_def)
  then have "map (in_cluster cid) d2 = d2" by (rule map_idI)
  then show ?thesis by (simp add: GetControlplaneMachineDatas_filter)
qed

lemma control_created:
  assumes "accepts s d d2" "NeedControlplane cid s"
  shows "fst (GetControlplaneMachineDatas cid d2) \<noteq> []"
proof -
  from control [OF assms] have "RoleTypeControlplane \<in> set (map in_Role d)" by force
  then have "RoleTypeControlplane \<in> set (map in_Role d2)" by (simp only: roles [OF assms(1)])
  then obtain m where "m \<in> set d2" "control_input m" by (metis (no_types, lifting) imageE list.set_map)
  then show ?thesis by (auto simp: created_as_accepted [OF assms(1)] filter_empty_conv)
qed

end

lemma prepared_all2:
  assumes "list_all2 (prepared i) (map (in_cluster c) d) d2"
  shows "map in_Role d2 = map in_Role d" "c \<noteq> [] \<Longrightarrow> m \<in> set d2 \<Longrightarrow> in_ClusterId m = c"
  using assms
  by (auto simp: list_all2_conv_all_nth prepared_def in_set_conv_nth intro!: nth_equalityI)

interpretation vm_machines: machine_validation cid "\<lambda>s d d2. ValidateCreateMachines e (Some (cid, name)) s d = Some (Inr (Inr d2))"
  for cid e name
proof unfold_locales
  fix s d d2 m
  assume "ValidateCreateMachines e (Some (cid, name)) s d = Some (Inr (Inr d2))"
  then obtain i where i: "list_all2 (prepared i) (map (in_cluster cid) d) d2" "NeedControlplane cid s \<Longrightarrow> \<exists>m\<in>set d. control_input m"
    by (rule ValidateCreateMachines_Inr) (auto simp: cluster_id_def)
  show "map in_Role d2 = map in_Role d" using prepared_all2(1) [OF i(1)] .
  show "cid \<noteq> [] \<Longrightarrow> m \<in> set d2 \<Longrightarrow> in_ClusterId m = cid" using prepared_all2(2) [OF i(1)] .
  show "NeedControlplane cid s \<Longrightarrow> \<exists>m\<in>set d. control_input m" by (rule i(2))
qed

text \<open>C27: what the validation of new machines accepts are complete machines: named,
  with a valid role, a VM configuration of at least four CPUs and 4 GB, a root disk with the
  Kubernetes image and the cluster they were asked for; and for a cluster without machines there is
  a control node among them.\<close>

theorem ValidateCreateMachines_sound:
  assumes "set (me_order e) = {..<length data}" "ValidateCreateMachines e cluster s data = Some (Inr (Inr data2))"
  shows "length data2 = length data \<and>
    (\<forall>m\<in>set data2. in_Name m \<noteq> [] \<and> in_Role m \<in> {RoleTypeControlplane, RoleTypeNode} \<and>
       in_ResourceType m = MachineResourceTypeVm \<and> (cluster_id cluster \<noteq> [] \<longrightarrow> in_ClusterId m = cluster_id cluster) \<and>
       (\<exists>c d ds. in_Config m = Some (Some c) \<and> 4 \<le> VcpuCount c \<and> 4096 \<le> VmemSize c \<and> Disks c = d # ds \<and>
          findImage e = Inr (ImageId d))) \<and>
    (\<forall>cid n. cluster = Some (cid, n) \<and> NeedControlplane cid s \<longrightarrow> (\<exists>m\<in>set data2. control_input m))"
proof -
  obtain imageId where r: "list_all2 (prepared imageId) (map (in_cluster (cluster_id cluster)) data) data2"
      "errgroup e data2 (me_order e) = Inr None" "findImage e = Inr imageId"
      "\<And>cid n. cluster = Some (cid, n) \<Longrightarrow> NeedControlplane cid s \<Longrightarrow> \<exists>d\<in>set data. control_input d"
    using ValidateCreateMachines_Inr [OF assms(2)] by blast
  have len: "length data2 = length data" using list_all2_lengthD [OF r(1)] by simp
  have nth: "prepared imageId (in_cluster (cluster_id cluster) (data ! k)) (data2 ! k)" if "k < length data" for k
    using list_all2_nthD [OF r(1), of k] that by simp
  have good: "in_Name m \<noteq> [] \<and> in_Role m \<in> {RoleTypeControlplane, RoleTypeNode} \<and>
       in_ResourceType m = MachineResourceTypeVm \<and> (cluster_id cluster \<noteq> [] \<longrightarrow> in_ClusterId m = cluster_id cluster) \<and>
       (\<exists>c d ds. in_Config m = Some (Some c) \<and> 4 \<le> VcpuCount c \<and> 4096 \<le> VmemSize c \<and> Disks c = d # ds \<and>
          findImage e = Inr (ImageId d))" if m: "m \<in> set data2" for m
  proof -
    from m obtain k where k: "k < length data" "m = data2 ! k" by (auto simp: in_set_conv_nth len)
    then have "validateCreateMachine e m = Inr None" using errgroup_None [OF r(2)] assms(1) by blast
    with nth [OF k(1)] show ?thesis unfolding k(2) [symmetric]
      by (auto simp: prepared_def validateCreateMachine_def ValidateRole_def VM_ValidateCreateData_def validateConfig_def
          set_image_def r(3) Let_def split: option.splits if_splits list.splits)
  qed
  have "\<exists>m\<in>set data2. control_input m" if "cluster = Some (cid, n)" "NeedControlplane cid s" for cid n
  proof -
    from r(4) [OF that] obtain k where k: "k < length data" "control_input (data ! k)" by (auto simp: in_set_conv_nth)
    with nth [OF k(1)] have "control_input (data2 ! k)" by (simp add: prepared_def)
    then show ?thesis using k(1) len by (metis nth_mem)
  qed
  with good len show ?thesis by blast
qed


lemma getClusterMachineIndexs_total [simp]: "getClusterMachineIndexs cl role n \<noteq> None"
  using take_indexes_spec [OF finite_used_indexes, of n]
  by (auto simp: getClusterMachineIndexs_def Let_def split: option.splits sum.splits)

lemma validateCreateMachine_prepared:
  "prepared imageId m m2 \<Longrightarrow> \<exists>err. validateCreateMachine e m2 = Inr err"
  by (auto simp: prepared_def validateCreateMachine_def VM_ValidateCreateData_def Let_def split: option.splits)

lemma errgroup_total:
  "\<forall>k\<in>set ks. \<exists>err. validateCreateMachine e (data ! k) = Inr err \<Longrightarrow> \<exists>err. errgroup e data ks = Inr err"
  by (induction ks) auto

lemma ValidateCreateMachines_total:
  assumes "set (me_order e) = {..<length data}"
  shows "\<exists>r. ValidateCreateMachines e cluster s data = Some (Inr r)"
proof -
  let ?data = "map (in_cluster (cluster_id cluster)) data"
  have err: "\<exists>err. errgroup e (weave data c2 n2) (me_order e) = Inr err"
    if n: "name_machines p r imageId i1 (filter control_input ?data) = Inr c2"
      "name_machines p r imageId i2 (filter (\<lambda>d. \<not> control_input d) ?data) = Inr n2" for p r imageId i1 i2 c2 n2
  proof -
    have all: "list_all2 (prepared imageId) ?data (weave data c2 n2)"
      using name_machines_prepared [OF n(1)] name_machines_prepared [OF n(2)] by (rule weave_all2) simp
    show ?thesis
      using list_all2_nthD [OF all] assms by (intro errgroup_total) (auto dest!: validateCreateMachine_prepared [of imageId])
  qed
  have "Base_ValidateCreateMachines cluster s data =
      Inr (filter control_input ?data, filter (\<lambda>d. \<not> control_input d) ?data) \<or>
    (\<exists>x. Base_ValidateCreateMachines cluster s data = Inl x)"
    by (auto simp: Base_ValidateCreateMachines_def GetControlplaneMachineDatas_filter Let_def cluster_id_def)
  then show ?thesis
  proof
    assume b: "Base_ValidateCreateMachines cluster s data = Inr (filter control_input ?data, filter (\<lambda>d. \<not> control_input d) ?data)"
    show ?thesis
      using err unfolding ValidateCreateMachines_def b
      by (auto simp: Let_def gbind_Inr_iff split: sum.split option.split)
  qed (auto simp: ValidateCreateMachines_def)
qed

text \<open>A machine that leaves its CPUs or its memory to the defaults is always refused: the cluster driver
  fills in 2 CPUs and 2 GB, the machine driver then demands at least 4 and 4 GB.\<close>

theorem default_vm_rejected:
  assumes "set (me_order e) = {..<length data}" "d \<in> set data"
    and "case in_Config d of Some (Some c) \<Rightarrow> VcpuCount c \<le> 0 \<or> VmemSize c \<le> 0 | _ \<Rightarrow> True"
  shows "\<exists>err. ValidateCreateMachines e cluster s data = Some (Inr (Inl err))"
proof -
  obtain r where r: "ValidateCreateMachines e cluster s data = Some (Inr r)"
    using ValidateCreateMachines_total [OF assms(1)] by blast
  show ?thesis
  proof (cases r)
    case (Inr data2)
    with r obtain imageId where p: "list_all2 (prepared imageId) (map (in_cluster (cluster_id cluster)) data) data2"
      "errgroup e data2 (me_order e) = Inr None" using ValidateCreateMachines_Inr by blast
    from assms(2) obtain k where k: "k < length data" "d = data ! k" by (auto simp: in_set_conv_nth)
    then have "prepared imageId (in_cluster (cluster_id cluster) d) (data2 ! k)" using list_all2_nthD [OF p(1), of k] by simp
    moreover have "validateCreateMachine e (data2 ! k) = Inr None" using errgroup_None [OF p(2)] assms(1) k(1) by blast
    ultimately have False using assms(3)
      by (auto simp: prepared_def validateCreateMachine_def VM_ValidateCreateData_def validateConfig_def Let_def
          new_vm_config_def DefaultVMCPUCount_def DefaultVMMemSize_def split: option.splits if_splits)
    then show ?thesis ..
  qed (use r in auto)
qed


section \<open>Creating machines\<close>

text \<open>A call may not return (\<open>None\<close>), panic or answer.\<close>

definition cbind :: "'a go option \<Rightarrow> ('a \<Rightarrow> 'b go option) \<Rightarrow> 'b go option" where
  "cbind x f = (case x of None \<Rightarrow> None | Some (Inl p) \<Rightarrow> Some (Inl p) | Some (Inr a) \<Rightarrow> f a)"

lemma cbind_Some_Inr:
  "cbind x f = Some (Inr b) \<longleftrightarrow> (\<exists>a. x = Some (Inr a) \<and> f a = Some (Inr b))"
  by (auto simp: cbind_def split: option.splits sum.splits)

text \<open>The database: the cluster by id or name, the project of the domain, the inherited validation of the
  name, the insertion and its new id, and the metadata that is saved after it.\<close>

record create_env = machine_env +
  ce_cluster :: "string \<Rightarrow> string + (string \<times> string)"
  ce_project_err :: "string option"
  ce_base_err :: "machine_input \<Rightarrow> string option"
  ce_insert_err :: "machine_input \<Rightarrow> string option"
  ce_newId :: "machine_store \<Rightarrow> string"
  ce_metadata_err :: "string option"

definition ValidateAddMachines ::
  "machine_env \<Rightarrow> string \<times> string \<Rightarrow> machine_store \<Rightarrow> machine_input list \<Rightarrow> (string + machine_input list) go option" where
  "ValidateAddMachines e cluster s ms =
     (case me_repo_err e of Some err \<Rightarrow> Some (Inr (Inl err)) | None \<Rightarrow> ValidateCreateMachines e (Some cluster) s ms)"

definition Machine_ValidateCreateData :: "create_env \<Rightarrow> machine_store \<Rightarrow> machine_input \<Rightarrow> (string + machine_input) go option" where
  "Machine_ValidateCreateData e s data =
     (if in_ClusterId data = [] then Some (Inr (Inl ''Cluster must specified''))
      else case ce_cluster e (in_ClusterId data) of
             Inl err \<Rightarrow> Some (Inr (Inl (''Cluster '' @ in_ClusterId data @ '' not found'')))
           | Inr (clusterId, name) \<Rightarrow>
               let resourceType = (if in_ResourceType data = [] then MachineResourceTypeBaremetal else in_ResourceType data);
                   data1 = data\<lparr>in_ClusterId := clusterId, in_ResourceType := resourceType\<rparr>;
                   clusterMachines = GetMachines clusterId s
               in case ValidateResourceType resourceType of
                    Some err \<Rightarrow> Some (Inr (Inl err))
                  | None \<Rightarrow>
                      (case ValidateRole (in_Role data1) of
                         Some err \<Rightarrow> Some (Inr (Inl err))
                       | None \<Rightarrow>
                           if length clusterMachines = 0 \<and> in_Role data1 \<noteq> RoleTypeControlplane
                           then Some (Inr (Inl ''First machine's role must controlplane''))
                           else cbind (ValidateAddMachines (machine_env.truncate (e\<lparr>me_order := [0]\<rparr>)) (clusterId, name) s
                                         [data1\<lparr>in_FirstNode := (length clusterMachines = 0)\<rparr>])
                                  (\<lambda>r. Some (Inr (case r of
                                     Inl err \<Rightarrow> Inl err
                                   | Inr ms \<Rightarrow>
                                       (case ce_base_err e (hd ms) of Some err \<Rightarrow> Inl err | None \<Rightarrow> Inr (hd ms)))))))"

definition new_machine :: "string \<Rightarrow> machine_input \<Rightarrow> machine" where
  "new_machine rid d =
     \<lparr>m_Id = rid, m_Name = in_Name d, m_ClusterId = in_ClusterId d, m_Role = in_Role d, m_ResourceType = in_ResourceType d,
      m_ResourceId = in_ResourceId d, m_FirstNode = in_FirstNode d, m_Address = [], m_Status = ''init''\<rparr>"

definition CreateMachineNoHook ::
  "create_env \<Rightarrow> machine_store \<Rightarrow> machine_input \<Rightarrow> (machine_store \<times> (string + machine)) go option" where
  "CreateMachineNoHook e s data =
     (case ce_project_err e of
        Some err \<Rightarrow> Some (Inr (s, Inl err))
      | None \<Rightarrow>
          cbind (Machine_ValidateCreateData e s data) (\<lambda>r.
            case r of
              Inl err \<Rightarrow> Some (Inr (s, Inl err))
            | Inr d \<Rightarrow>
                (case ce_insert_err e d of
                   Some err \<Rightarrow> Some (Inr (s, Inl err))
                 | None \<Rightarrow>
                     let m = new_machine (ce_newId e s) d;
                         s1 = s\<lparr>machines := machines s @ [m]\<rparr>
                     in Some (Inr (s1, case ce_metadata_err e of Some err \<Rightarrow> Inl err | None \<Rightarrow> Inr m)))))"

fun createMachines ::
  "create_env \<Rightarrow> machine_store \<Rightarrow> machine_input list \<Rightarrow> (machine_store \<times> (string + machine list)) go option" where
  "createMachines e s [] = Some (Inr (s, Inr []))"
| "createMachines e s (d # ds) =
     cbind (CreateMachineNoHook e s d) (\<lambda>(s1, r).
       case r of
         Inl err \<Rightarrow> Some (Inr (s1, Inl err))
       | Inr m \<Rightarrow>
           cbind (createMachines e s1 ds) (\<lambda>(s2, r2).
             Some (Inr (s2, case r2 of Inl err \<Rightarrow> Inl err | Inr ms \<Rightarrow> Inr (m # ms)))))"

text \<open>The control nodes are created before the others.\<close>

definition ClusterAPI_CreateMachines ::
  "create_env \<Rightarrow> string \<Rightarrow> machine_store \<Rightarrow> machine_input list \<Rightarrow> (machine_store \<times> (string + machine list)) go option" where
  "ClusterAPI_CreateMachines e clusterId s data =
     (let (controls, nodes) = GetControlplaneMachineDatas clusterId data in
      if NeedControlplane clusterId s \<and> length controls = 0 then Some (Inr (s, Inl ''Empty controlplane machines''))
      else cbind (createMachines e s controls) (\<lambda>(s1, r1).
             case r1 of
               Inl err \<Rightarrow> Some (Inr (s1, Inl err))
             | Inr cms \<Rightarrow>
                 cbind (createMachines e s1 nodes) (\<lambda>(s2, r2).
                   Some (Inr (s2, case r2 of Inl err \<Rightarrow> Inl err | Inr nms \<Rightarrow> Inr (cms @ nms))))))"

definition StartTask :: "string \<Rightarrow> string list \<Rightarrow> machine_store \<Rightarrow> machine_store" where
  "StartTask name ids s = s\<lparr>tasks := tasks s @ [(name, ids)]\<rparr>"

definition PerformAddMachines ::
  "create_env \<Rightarrow> string \<times> string \<Rightarrow> string \<Rightarrow> string option \<Rightarrow> machine_input list \<Rightarrow> machine_store \<Rightarrow>
     (machine_store \<times> string option) go option" where
  "PerformAddMachines e cluster status task_err ms s =
     (if status \<notin> {''running'', ''init''} then Some (Inr (s, Some (''Cluster status is '' @ status)))
      else cbind (ValidateAddMachines (machine_env.truncate e) cluster s ms) (\<lambda>r.
        case r of
          Inl err \<Rightarrow> Some (Inr (s, Some err))
        | Inr new \<Rightarrow>
            (case task_err of
               Some err \<Rightarrow> Some (Inr (s, Some err))
             | None \<Rightarrow> Some (Inr (StartTask ''ClusterCreateMachinesTask'' (map in_Name new) s, None)))))"

section \<open>Deleting machines\<close>

definition SetStatus :: "string \<Rightarrow> machine \<Rightarrow> machine_store \<Rightarrow> machine_store" where
  "SetStatus status m s = s\<lparr>machines := map (\<lambda>k. if m_Id k = m_Id m then k\<lparr>m_Status := status\<rparr> else k) (machines s)\<rparr>"

text \<open>The lookup by id or name, the persistent volume claims of the cluster and the start of the task.\<close>

record delete_env =
  de_fetch :: "machine_store \<Rightarrow> string \<Rightarrow> string + machine"
  de_pvcs :: "string + nat"
  de_task_err :: "string option"

fun fetch_machines :: "delete_env \<Rightarrow> machine_store \<Rightarrow> string list \<Rightarrow> string + machine list" where
  "fetch_machines e s [] = Inr []"
| "fetch_machines e s (i # is) =
     (case de_fetch e s i of
        Inl err \<Rightarrow> Inl (''Not found node by id: '' @ i)
      | Inr m \<Rightarrow> (case fetch_machines e s is of Inl err \<Rightarrow> Inl err | Inr ms \<Rightarrow> Inr (m # ms)))"

definition CheckPVCEmpty :: "delete_env \<Rightarrow> string option" where
  "CheckPVCEmpty e =
     (let pvcCnt = (case de_pvcs e of Inl _ \<Rightarrow> 0 | Inr n \<Rightarrow> n) in
      if pvcCnt > 0 then Some ''Cluster has PersistentVolumeClaims, clean them firstly'' else None)"

fun first_not_last :: "bool \<Rightarrow> machine list \<Rightarrow> string option" where
  "first_not_last all [] = None"
| "first_not_last all (m # ms) =
     (if \<not> all \<and> m_FirstNode m then Some (''First control node '' @ m_Name m @ '' must deleted at last'')
      else first_not_last all ms)"

definition ValidateDeleteMachines :: "string \<Rightarrow> machine list \<Rightarrow> machine_store \<Rightarrow> string option" where
  "ValidateDeleteMachines clusterId ms s = first_not_last (length (GetMachines clusterId s) = length ms) ms"

definition StartDeleteMachinesTask :: "delete_env \<Rightarrow> machine list \<Rightarrow> machine_store \<Rightarrow> machine_store \<times> string option" where
  "StartDeleteMachinesTask e ms s =
     (let s1 = fold (SetStatus ''deleting'') ms s in
      case de_task_err e of
        Some err \<Rightarrow> (s1, Some err)
      | None \<Rightarrow> (StartTask ''ClusterDeleteMachinesTask'' (map m_Id ms) s1, None))"

definition PerformDeleteMachines :: "delete_env \<Rightarrow> string \<Rightarrow> string list \<Rightarrow> machine_store \<Rightarrow> machine_store \<times> string option" where
  "PerformDeleteMachines e clusterId ids s =
     (case fetch_machines e s ids of
        Inl err \<Rightarrow> (s, Some err)
      | Inr ms \<Rightarrow>
          if length ms = 0 then (s, Some ''Machines id is empty'')
          else
            (case (if length (GetMachines clusterId s) = length ms then CheckPVCEmpty e else None) of
               Some err \<Rightarrow> (s, Some err)
             | None \<Rightarrow>
                 (case ValidateDeleteMachines clusterId ms s of
                    Some err \<Rightarrow> (s, Some err)
                  | None \<Rightarrow> StartDeleteMachinesTask e ms s)))"

text \<open>Deleting one machine through its own record: the driver of the machine asks that of the cluster.\<close>

definition Machine_CustomizeDelete :: "delete_env \<Rightarrow> string option \<Rightarrow> machine \<Rightarrow> machine_store \<Rightarrow> machine_store \<times> string option" where
  "Machine_CustomizeDelete e cluster_err m s =
     (case cluster_err of
        Some err \<Rightarrow> (s, Some err)
      | None \<Rightarrow>
          (case ValidateDeleteMachines (m_ClusterId m) [m] s of
             Some err \<Rightarrow> (s, Some err)
           | None \<Rightarrow> StartDeleteMachinesTask e [m] s))"

text \<open>What the batch task does in the end when nothing fails.\<close>

definition RealDelete_all :: "string list \<Rightarrow> machine_store \<Rightarrow> machine_store" where
  "RealDelete_all ids s = s\<lparr>machines := filter (\<lambda>m. m_Id m \<notin> set ids) (machines s)\<rparr>"


section \<open>A sample\<close>

definition sample_config :: vm_config where
  "sample_config = \<lparr>Hypervisor = [], VmemSize = 8192, VcpuCount = 4, Disks = []\<rparr>"

definition sample_control :: machine_input where
  "sample_control = \<lparr>in_Name = [], in_ClusterId = ''c'', in_Role = ''controlplane'', in_ResourceType = ''vm'',
     in_ResourceId = [], in_FirstNode = False, in_Config = Some (Some sample_config)\<rparr>"

definition sample_node :: machine_input where
  "sample_node = sample_control\<lparr>in_Role := ''node''\<rparr>"

definition sample_machine_env :: machine_env where
  "sample_machine_env = \<lparr>me_prefix = None, me_repo_err = None, me_session_err = None, me_image = Inr (''active'', ''img''),
     me_rand = ''r4nd'', me_key_err = None, me_check = (\<lambda>_. None), me_order = [1, 0]\<rparr>"

definition empty_store :: machine_store where
  "empty_store = \<lparr>machines = [], tasks = []\<rparr>"

definition sample_validated :: "machine_input list" where
  "sample_validated =
     (let c = Some (Some \<lparr>Hypervisor = ''kvm'', VmemSize = 8192, VcpuCount = 4, Disks = [\<lparr>SizeMb = 102400, ImageId = ''img''\<rparr>]\<rparr>)
      in [sample_node\<lparr>in_Name := ''prod-node-r4nd-0'', in_Config := c\<rparr>,
          sample_control\<lparr>in_Name := ''prod-controlplane-r4nd-0'', in_Config := c\<rparr>])"

lemma sample_validation:
  "ValidateCreateMachines sample_machine_env (Some (''c'', ''prod'')) empty_store [sample_node, sample_control] =
     Some (Inr (Inr sample_validated))"
  by code_simp

theorem ValidateCreateMachines_sound_witness:
  "length sample_validated = 2 \<and> (\<exists>m\<in>set sample_validated. control_input m)"
proof -
  have o: "set (me_order sample_machine_env) = {..<length [sample_node, sample_control]}"
    by (auto simp: sample_machine_env_def less_Suc_eq)
  have "NeedControlplane ''c'' empty_store" by code_simp
  with ValidateCreateMachines_sound [OF o sample_validation] show ?thesis by simp
qed

theorem default_vm_rejected_witness:
  "\<exists>err. ValidateCreateMachines sample_machine_env (Some (''c'', ''prod'')) empty_store
     [sample_control, sample_node\<lparr>in_Config := None\<rparr>] = Some (Inr (Inl err))"
  by (rule default_vm_rejected [of _ _ "sample_node\<lparr>in_Config := None\<rparr>"])
    (auto simp: sample_machine_env_def less_Suc_eq)

end
