(* ===== verification/FirstNode.thy ===== *)
theory FirstNode
  imports Machines
begin

text \<open>
  The first control node of a cluster: the operations of \<open>Machines\<close> keep exactly one per cluster that has
  machines, and it goes last; naming it several times in one request gets around the guard.
\<close>

section \<open>The invariant\<close>

definition first_ok :: "machine list \<Rightarrow> bool" where
  "first_ok ms \<longleftrightarrow> (ms \<noteq> [] \<longrightarrow> (\<exists>f. filter m_FirstNode ms = [f] \<and> IsControlplane f))"

definition machines_inv :: "machine_store \<Rightarrow> bool" where
  "machines_inv s \<longleftrightarrow> distinct (map m_Id (machines s)) \<and> (\<forall>c. first_ok (GetMachines c s))"

definition ids_fresh :: "create_env \<Rightarrow> bool" where
  "ids_fresh e \<longleftrightarrow> (\<forall>s. ce_newId e s \<notin> m_Id ` set (machines s))"

lemma Machine_ValidateCreateData_Inr:
  assumes "Machine_ValidateCreateData e s data = Some (Inr (Inr d))"
  shows "in_FirstNode d = (GetMachines (in_ClusterId d) s = []) \<and>
    (GetMachines (in_ClusterId d) s = [] \<longrightarrow> in_Role d = RoleTypeControlplane)"
proof -
  from assms obtain cid name where c: "ce_cluster e (in_ClusterId data) = Inr (cid, name)"
    by (cases "ce_cluster e (in_ClusterId data)") (auto simp: Machine_ValidateCreateData_def split: if_splits)
  define t where "t = (if in_ResourceType data = [] then MachineResourceTypeBaremetal else in_ResourceType data)"
  let ?in = "data\<lparr>in_ClusterId := cid, in_ResourceType := t, in_FirstNode := (GetMachines cid s = [])\<rparr>"
  let ?out = "\<lambda>r. case r of Inl err \<Rightarrow> Inl err | Inr ms \<Rightarrow> (case ce_base_err e (hd ms) of Some err \<Rightarrow> Inl err | None \<Rightarrow> Inr (hd ms))"
  have "(GetMachines cid s = [] \<longrightarrow> in_Role data = RoleTypeControlplane) \<and>
    cbind (ValidateAddMachines (machine_env.truncate (e\<lparr>me_order := [0]\<rparr>)) (cid, name) s [?in]) (\<lambda>r. Some (Inr (?out r))) =
      Some (Inr (Inr d))"
    using assms c by (simp add: Machine_ValidateCreateData_def Let_def t_def [symmetric] split: if_splits option.splits)
  then obtain q where role: "GetMachines cid s = [] \<longrightarrow> in_Role data = RoleTypeControlplane"
      and q: "ValidateAddMachines (machine_env.truncate (e\<lparr>me_order := [0]\<rparr>)) (cid, name) s [?in] = Some (Inr q)"
      "?out q = Inr d"
    by (auto simp: cbind_Some_Inr)
  from q(2) obtain ms where ms: "q = Inr ms" "d = hd ms" by (cases q) (auto split: option.splits)
  from q(1) have "ValidateCreateMachines (machine_env.truncate (e\<lparr>me_order := [0]\<rparr>)) (Some (cid, name)) s [?in] = Some (Inr (Inr ms))"
    by (simp add: ValidateAddMachines_def ms(1) split: option.splits)
  from ValidateCreateMachines_Inr [OF this] obtain imageId where "list_all2 (prepared imageId) (map (in_cluster cid) [?in]) ms"
    by (auto simp: cluster_id_def)
  then obtain d' where "ms = [d']" "prepared imageId (in_cluster cid ?in) d'" by (auto simp: list_all2_Cons1)
  then have "in_Role d = in_Role data" "in_ClusterId d = cid" "in_FirstNode d = (GetMachines cid s = [])"
    by (auto simp: prepared_def ms(2) split: if_splits)
  with role show ?thesis by simp
qed

lemma first_ok_insert:
  assumes "first_ok ms" "m_FirstNode m \<longleftrightarrow> ms = []" "ms = [] \<longrightarrow> IsControlplane m"
  shows "first_ok (ms @ [m])"
  using assms by (auto simp: first_ok_def)

lemma CreateMachineNoHook_inv:
  assumes "machines_inv s" "ids_fresh e" "CreateMachineNoHook e s data = Some (Inr (s', r))"
  shows "machines_inv s'"
proof (cases "s' = s")
  case False
  from assms(3) False obtain q where q: "Machine_ValidateCreateData e s data = Some (Inr q)"
    by (auto simp: CreateMachineNoHook_def cbind_Some_Inr split: option.splits)
  with assms(3) False obtain d where d: "Machine_ValidateCreateData e s data = Some (Inr (Inr d))"
      "s' = s\<lparr>machines := machines s @ [new_machine (ce_newId e s) d]\<rparr>"
    by (cases q) (auto simp: CreateMachineNoHook_def cbind_def Let_def split: option.splits)
  let ?m = "new_machine (ce_newId e s) d"
  have "first_ok (GetMachines c s')" for c
  proof (cases "c = in_ClusterId d")
    case True
    then have "GetMachines c s' = GetMachines c s @ [?m]" by (simp add: d(2) GetMachines_def new_machine_def)
    then show ?thesis
      using assms(1) Machine_ValidateCreateData_Inr [OF d(1)] True
      by (simp only:) (rule first_ok_insert, auto simp: machines_inv_def new_machine_def IsControlplane_def)
  next
    case False
    then have "GetMachines c s' = GetMachines c s" by (simp add: d(2) GetMachines_def new_machine_def)
    then show ?thesis using assms(1) by (simp add: machines_inv_def)
  qed
  then show ?thesis using assms(1,2) d(2) by (simp add: machines_inv_def ids_fresh_def new_machine_def)
qed (use assms in simp)

lemma createMachines_inv:
  "machines_inv s \<Longrightarrow> ids_fresh e \<Longrightarrow> createMachines e s ds = Some (Inr (s', r)) \<Longrightarrow> machines_inv s'"
proof (induction ds arbitrary: s r)
  case (Cons d ds)
  then obtain s1 r1 where c: "CreateMachineNoHook e s d = Some (Inr (s1, r1))" by (auto simp: cbind_Some_Inr)
  have i: "machines_inv s1" by (rule CreateMachineNoHook_inv [OF Cons.prems(1,2) c])
  show ?case
  proof (cases r1)
    case (Inr m)
    with Cons.prems(3) c obtain r2 where "createMachines e s1 ds = Some (Inr (s', r2))"
      by (auto simp: cbind_Some_Inr)
    then show ?thesis by (rule Cons.IH [OF i Cons.prems(2)])
  qed (use Cons.prems(3) c i in \<open>auto simp: cbind_Some_Inr\<close>)
qed simp

lemma ClusterAPI_CreateMachines_inv:
  assumes "machines_inv s" "ids_fresh e" "ClusterAPI_CreateMachines e c s data = Some (Inr (s', r))"
  shows "machines_inv s'"
proof -
  obtain controls nodes where g: "GetControlplaneMachineDatas c data = (controls, nodes)"
    by (cases "GetControlplaneMachineDatas c data")
  show ?thesis
  proof (cases "s' = s")
    case False
    with assms(3) g obtain s1 r1 where c1: "createMachines e s controls = Some (Inr (s1, r1))"
      by (auto simp: ClusterAPI_CreateMachines_def cbind_Some_Inr split: if_splits)
    have i: "machines_inv s1" by (rule createMachines_inv [OF assms(1,2) c1])
    show ?thesis
    proof (cases "s' = s1")
      case False
      with assms(3) g c1 \<open>s' \<noteq> s\<close> obtain r2 where "createMachines e s1 nodes = Some (Inr (s', r2))"
        by (cases r1) (auto simp: ClusterAPI_CreateMachines_def cbind_Some_Inr split: if_splits)
      then show ?thesis by (rule createMachines_inv [OF i assms(2)])
    qed (use i in simp)
  qed (use assms in simp)
qed


section \<open>Deleting\<close>

lemma first_ok_map:
  assumes "\<And>m. m_FirstNode (f m) = m_FirstNode m" "\<And>m. m_Role (f m) = m_Role m"
  shows "first_ok (map f ms) = first_ok ms"
proof -
  have "filter m_FirstNode (map f ms) = map f (filter m_FirstNode ms)" by (simp add: filter_map o_def assms(1))
  then show ?thesis by (auto simp: first_ok_def IsControlplane_def assms(2) map_eq_Cons_conv)
qed

lemma SetStatus_inv: "machines_inv (SetStatus st m s) = machines_inv s"
proof -
  let ?f = "\<lambda>k. if m_Id k = m_Id m then k\<lparr>m_Status := st\<rparr> else k"
  have "GetMachines c (SetStatus st m s) = map ?f (GetMachines c s)" for c
    by (auto simp: GetMachines_def SetStatus_def filter_map o_def if_distrib [of m_ClusterId] cong: if_cong)
  moreover have "map m_Id (machines (SetStatus st m s)) = map m_Id (machines s)" by (simp add: SetStatus_def)
  moreover have "first_ok (map ?f ms) = first_ok ms" for ms by (rule first_ok_map) auto
  ultimately show ?thesis by (simp add: machines_inv_def)
qed

lemma SetStatus_GetMachines:
  "map m_Id (GetMachines c (SetStatus st m s)) = map m_Id (GetMachines c s)"
  by (auto simp: GetMachines_def SetStatus_def filter_map o_def if_distrib [of m_ClusterId] cong: if_cong)

lemma fold_SetStatus_inv: "machines_inv (fold (SetStatus st) ms s) = machines_inv s"
  by (induction ms arbitrary: s) (simp_all add: SetStatus_inv)

lemma StartTask_inv [simp]: "machines_inv (StartTask n ids s) = machines_inv s"
  by (simp add: machines_inv_def StartTask_def GetMachines_def)

lemma StartDeleteMachinesTask_inv:
  "StartDeleteMachinesTask e ms s = (s', err) \<Longrightarrow> machines_inv s' = machines_inv s"
  by (auto simp: StartDeleteMachinesTask_def Let_def fold_SetStatus_inv split: option.splits)

lemma first_not_last_None: "first_not_last b ms = None \<longleftrightarrow> b \<or> (\<forall>m\<in>set ms. \<not> m_FirstNode m)"
  by (induction ms) auto

text \<open>Deleting machines that the driver agreed to: all of the cluster or none that is first.\<close>

lemma RealDelete_all_inv:
  assumes "machines_inv s" "distinct (map m_Id ms)" "\<forall>m\<in>set ms. m \<in> set (GetMachines c s)"
    and "ValidateDeleteMachines c ms s = None"
  shows "machines_inv (RealDelete_all (map m_Id ms) s)"
proof -
  have dist: "distinct (map m_Id (machines s))" using assms(1) by (simp add: machines_inv_def)
  have get: "GetMachines d (RealDelete_all (map m_Id ms) s) = filter (\<lambda>m. m_Id m \<notin> m_Id ` set ms) (GetMachines d s)" for d
    by (simp add: GetMachines_def RealDelete_all_def conj_commute)
  have mem: "m_Id m \<in> m_Id ` set ms \<longleftrightarrow> m \<in> set ms" if "m \<in> set (machines s)" for m
  proof
    assume "m_Id m \<in> m_Id ` set ms"
    then obtain k where k: "k \<in> set ms" "m_Id k = m_Id m" by auto
    then have "k \<in> set (machines s)" using assms(3) by (auto simp: GetMachines_def)
    with k that dist show "m \<in> set ms" by (metis distinct_map inj_on_def)
  qed simp
  have "first_ok (GetMachines d (RealDelete_all (map m_Id ms) s))" for d
  proof (cases "d = c")
    case False
    then have "filter (\<lambda>m. m_Id m \<notin> m_Id ` set ms) (GetMachines d s) = GetMachines d s"
      using mem assms(3) by (auto simp: GetMachines_def intro!: filter_cong)
    then show ?thesis using get assms(1) by (simp add: machines_inv_def)
  next
    case True
    have eq: "filter (\<lambda>m. m_Id m \<notin> m_Id ` set ms) (GetMachines c s) = filter (\<lambda>m. m \<notin> set ms) (GetMachines c s)"
      using mem by (intro filter_cong) (auto simp: GetMachines_def)
    show ?thesis
    proof (cases "length (GetMachines c s) = length ms")
      case all: True
      have "distinct ms" using assms(2) by (simp add: distinct_map)
      moreover have "distinct (GetMachines c s)" using dist by (simp add: GetMachines_def distinct_map)
      ultimately have "set ms = set (GetMachines c s)"
        using all assms(3) by (intro card_subset_eq) (auto simp: distinct_card)
      then show ?thesis unfolding True get eq by (simp add: first_ok_def)
    next
      case False
      then have none: "\<forall>m\<in>set ms. \<not> m_FirstNode m"
        using assms(4) by (simp add: ValidateDeleteMachines_def first_not_last_None)
      have "filter m_FirstNode (filter (\<lambda>m. m \<notin> set ms) xs) = filter m_FirstNode xs" for xs
        using none by (auto intro: filter_cong)
      then show ?thesis
        unfolding True get eq using assms(1)
        by (cases "GetMachines c s = []") (auto simp: machines_inv_def first_ok_def)
    qed
  qed
  then show ?thesis using dist by (simp add: machines_inv_def RealDelete_all_def distinct_map_filter)
qed

lemma RealDelete_all_task:
  assumes "StartDeleteMachinesTask e ms s = (s1, err)" "machines_inv (RealDelete_all ids s)"
  shows "machines_inv (RealDelete_all ids s1)"
proof -
  have swap: "RealDelete_all ids (SetStatus st m s) = SetStatus st m (RealDelete_all ids s)" for st m s
    by (auto simp: RealDelete_all_def SetStatus_def filter_map o_def if_distrib [of m_Id] cong: if_cong)
  have "machines_inv (RealDelete_all ids (fold (SetStatus st) ms s)) = machines_inv (RealDelete_all ids s)" for st
    by (induction ms arbitrary: s) (simp_all add: swap SetStatus_inv)
  moreover have "machines_inv (RealDelete_all ids (StartTask n xs s)) = machines_inv (RealDelete_all ids s)" for n xs s
    by (simp add: RealDelete_all_def StartTask_def machines_inv_def GetMachines_def)
  ultimately show ?thesis using assms by (auto simp: StartDeleteMachinesTask_def Let_def split: option.splits)
qed


section \<open>Every sequence of operations\<close>

text \<open>A lookup returns a machine of the store.\<close>

definition fetch_ok :: "delete_env \<Rightarrow> bool" where
  "fetch_ok de \<longleftrightarrow> (\<forall>s i m. de_fetch de s i = Inr m \<longrightarrow> m \<in> set (machines s))"

lemma fetch_machines_in:
  "fetch_ok de \<Longrightarrow> fetch_machines de s ids = Inr ms \<Longrightarrow> set ms \<subseteq> set (machines s)"
  by (induction ids arbitrary: ms) (auto simp: fetch_ok_def split: sum.splits)

text \<open>Machines are created, with any outcome; deleted by a request that names distinct machines of the
  cluster, or one by one, where the request may fail and otherwise its task removes them; and change
  their status.\<close>

inductive machine_step :: "create_env \<Rightarrow> delete_env \<Rightarrow> machine_store \<Rightarrow> machine_store \<Rightarrow> bool" for e de where
  step_create: "ClusterAPI_CreateMachines e c s data = Some (Inr (s', r)) \<Longrightarrow> machine_step e de s s'"
| step_delete: "fetch_machines de s ids = Inr ms \<Longrightarrow> distinct (map m_Id ms) \<Longrightarrow> \<forall>m\<in>set ms. m_ClusterId m = c \<Longrightarrow>
    PerformDeleteMachines de c ids s = (s1, None) \<Longrightarrow> machine_step e de s (RealDelete_all (map m_Id ms) s1)"
| step_delete_one: "m \<in> set (machines s) \<Longrightarrow> Machine_CustomizeDelete de cluster_err m s = (s1, None) \<Longrightarrow>
    machine_step e de s (RealDelete_all [m_Id m] s1)"
| step_delete_failed: "PerformDeleteMachines de c ids s = (s', Some err) \<Longrightarrow> machine_step e de s s'"
| step_status: "machine_step e de s (SetStatus st m s)"

lemma PerformDeleteMachines_None:
  assumes "PerformDeleteMachines de c ids s = (s1, None)" "fetch_machines de s ids = Inr ms"
  shows "ValidateDeleteMachines c ms s = None \<and> StartDeleteMachinesTask de ms s = (s1, None)"
  using assms by (auto simp: PerformDeleteMachines_def split: if_splits option.splits)

lemma machine_step_inv:
  assumes "machine_step e de s s'" "ids_fresh e" "fetch_ok de" "machines_inv s"
  shows "machines_inv s'"
  using assms(1)
proof cases
  case (step_create c data r)
  then show ?thesis using ClusterAPI_CreateMachines_inv assms(2,4) by blast
next
  case (step_delete ids ms c s1)
  note ok = PerformDeleteMachines_None [OF step_delete(5,2)]
  have "\<forall>m\<in>set ms. m \<in> set (GetMachines c s)"
    using fetch_machines_in [OF assms(3) step_delete(2)] step_delete(4) by (auto simp: GetMachines_def)
  then have "machines_inv (RealDelete_all (map m_Id ms) s)"
    using RealDelete_all_inv [OF assms(4) step_delete(3)] ok by blast
  then show ?thesis using RealDelete_all_task ok step_delete(1) by blast
next
  case (step_delete_one m cluster_err s1)
  then have ok: "ValidateDeleteMachines (m_ClusterId m) [m] s = None" "StartDeleteMachinesTask de [m] s = (s1, None)"
    by (auto simp: Machine_CustomizeDelete_def split: option.splits)
  have "machines_inv (RealDelete_all (map m_Id [m]) s)"
    by (rule RealDelete_all_inv [OF assms(4) _ _ ok(1)]) (use step_delete_one(2) in \<open>auto simp: GetMachines_def\<close>)
  then show ?thesis using RealDelete_all_task [OF ok(2)] step_delete_one(1) by simp
next
  case (step_delete_failed c ids err)
  then have "s' = s \<or> (\<exists>ms. StartDeleteMachinesTask de ms s = (s', Some err))"
    by (auto simp: PerformDeleteMachines_def split: sum.splits if_splits option.splits)
  then show ?thesis using StartDeleteMachinesTask_inv assms(4) by blast
next
  case (step_status st m)
  then show ?thesis using assms(4) by (simp add: SetStatus_inv)
qed

lemma controlplane_loop_first:
  "filter m_FirstNode ms = [f] \<Longrightarrow> IsControlplane f \<Longrightarrow> controlplane_loop False ms = Inr f"
  by (induction ms) (auto split: if_splits)

text \<open>C10: whatever machines are created and deleted, one by one or in batches that name each machine once,
  every cluster that has machines has exactly one first node, it is a control node, and it is the one
  that the cluster takes its API server address from.\<close>

theorem first_node_unique:
  assumes "(machine_step e de)\<^sup>*\<^sup>* s s'" "ids_fresh e" "fetch_ok de" "machines_inv s" "GetMachines c s' \<noteq> []"
  shows "\<exists>f. filter m_FirstNode (GetMachines c s') = [f] \<and> IsControlplane f \<and>
    getControlplaneMachine False c s' = Inr f"
proof -
  have "machines_inv s'"
    using assms(1,4) by (induction rule: rtranclp_induct) (use machine_step_inv assms(2,3) in blast)+
  then obtain f where "filter m_FirstNode (GetMachines c s') = [f]" "IsControlplane f"
    using assms(5) by (auto simp: machines_inv_def first_ok_def)
  then show ?thesis using controlplane_loop_first by (auto simp: getControlplaneMachine_def)
qed

lemma StartDeleteMachinesTask_map:
  assumes "StartDeleteMachinesTask e ms s = (s', err)"
  shows "\<exists>g. (\<forall>m. m_Id (g m) = m_Id m \<and> m_ClusterId (g m) = m_ClusterId m \<and> m_FirstNode (g m) = m_FirstNode m) \<and>
    machines s' = map g (machines s)"
proof -
  have "\<exists>g. (\<forall>m. m_Id (g m) = m_Id m \<and> m_ClusterId (g m) = m_ClusterId m \<and> m_FirstNode (g m) = m_FirstNode m) \<and>
    machines (fold (SetStatus st) ms s) = map g (machines s)" for st
  proof (induction ms arbitrary: s)
    case (Cons m ms)
    obtain g where g: "\<forall>m. m_Id (g m) = m_Id m \<and> m_ClusterId (g m) = m_ClusterId m \<and> m_FirstNode (g m) = m_FirstNode m"
        "machines (fold (SetStatus st) ms (SetStatus st m s)) = map g (machines (SetStatus st m s))"
      using Cons.IH [of "SetStatus st m s"] by blast
    moreover have "machines (SetStatus st m s) = map (\<lambda>k. if m_Id k = m_Id m then k\<lparr>m_Status := st\<rparr> else k) (machines s)"
      by (simp add: SetStatus_def)
    ultimately show ?case
      by (intro exI [of _ "g \<circ> (\<lambda>k. if m_Id k = m_Id m then k\<lparr>m_Status := st\<rparr> else k)"]) simp
  qed (auto intro: exI [of _ id])
  then show ?thesis using assms by (auto simp: StartDeleteMachinesTask_def StartTask_def Let_def split: option.splits)
qed

lemma fetch_machines_replicate: "de_fetch de s i = Inr m \<Longrightarrow> fetch_machines de s (replicate n i) = Inr (replicate n m)"
  by (induction n) auto

lemma controlplane_loop_none: "filter m_FirstNode ms = [] \<Longrightarrow> \<exists>err. controlplane_loop b ms = Inl err"
  by (induction ms) (auto split: if_splits)

text \<open>The guard counts the names of a request and not the machines: naming the first control node as
  often as the cluster has machines deletes it while the others stay, and the cluster has no control
  node any more from which it could take the address of its API server.\<close>

theorem first_node_deleted_early:
  assumes "machines_inv s" "de_fetch de s i = Inr f" "f \<in> set (GetMachines c s)" "m_FirstNode f"
    and "CheckPVCEmpty de = None" "de_task_err de = None"
  shows "\<exists>s1. PerformDeleteMachines de c (replicate (length (GetMachines c s)) i) s = (s1, None) \<and>
    (\<exists>err. getControlplaneMachine False c (RealDelete_all [m_Id f] s1) = Inl err) \<and>
    length (GetMachines c (RealDelete_all [m_Id f] s1)) = length (GetMachines c s) - 1"
proof -
  let ?ms = "GetMachines c s" and ?n = "length (GetMachines c s)"
  obtain s1 where s1: "StartDeleteMachinesTask de (replicate ?n f) s = (s1, None)"
    using assms(6) by (simp add: StartDeleteMachinesTask_def Let_def)
  have ne: "0 < ?n" using assms(3) by (cases ?ms) auto
  have perf: "PerformDeleteMachines de c (replicate ?n i) s = (s1, None)"
    using fetch_machines_replicate [OF assms(2)] ne s1 assms(5)
    by (simp add: PerformDeleteMachines_def ValidateDeleteMachines_def first_not_last_None [THEN iffD2])
  have first: "filter m_FirstNode ?ms = [f]"
  proof -
    have "?ms \<noteq> []" using ne by auto
    with assms(1) obtain g where g: "filter m_FirstNode ?ms = [g]" by (auto simp: machines_inv_def first_ok_def)
    have "f \<in> set (filter m_FirstNode ?ms)" using assms(3,4) by simp
    with g show ?thesis by simp
  qed
  have dist: "distinct (map m_Id ?ms)" using assms(1) by (simp add: machines_inv_def GetMachines_def distinct_map_filter)
  obtain g where g: "\<And>m. m_Id (g m) = m_Id m \<and> m_ClusterId (g m) = m_ClusterId m \<and> m_FirstNode (g m) = m_FirstNode m"
      "machines s1 = map g (machines s)"
    using StartDeleteMachinesTask_map [OF s1] by blast
  then have left: "GetMachines c (RealDelete_all [m_Id f] s1) = map g (filter (\<lambda>m. m_Id m \<noteq> m_Id f) ?ms)"
    by (simp add: GetMachines_def RealDelete_all_def filter_map o_def conj_commute)
  have "filter m_FirstNode (filter (\<lambda>m. m_Id m \<noteq> m_Id f) ?ms) = filter (\<lambda>m. m_Id m \<noteq> m_Id f) (filter m_FirstNode ?ms)"
    by (simp add: conj_commute)
  then have "filter m_FirstNode (GetMachines c (RealDelete_all [m_Id f] s1)) = []"
    unfolding left by (simp add: filter_map o_def g(1) first)
  then have none: "\<exists>err. getControlplaneMachine False c (RealDelete_all [m_Id f] s1) = Inl err"
    unfolding getControlplaneMachine_def by (rule controlplane_loop_none)
  have "filter (\<lambda>m. m_Id m \<noteq> m_Id f) ?ms = remove1 f ?ms"
  proof -
    have "distinct ?ms" "m_Id m \<noteq> m_Id f \<longleftrightarrow> f \<noteq> m" if "m \<in> set ?ms" for m
      using dist that assms(3) by (auto simp: distinct_map inj_on_def)
    then show ?thesis using dist
      by (simp add: distinct_remove1_removeAll distinct_map removeAll_filter_not_eq cong: filter_cong)
  qed
  with left have "length (GetMachines c (RealDelete_all [m_Id f] s1)) = ?n - 1"
    using assms(3) by (simp add: length_remove1)
  with perf none show ?thesis by blast
qed


section \<open>A sample\<close>

definition sample_create_env :: create_env where
  "sample_create_env = machine_env.extend sample_machine_env
     \<lparr>ce_cluster = (\<lambda>_. Inr (''c'', ''prod'')), ce_project_err = None, ce_base_err = (\<lambda>_. None), ce_insert_err = (\<lambda>_. None),
      ce_newId = (\<lambda>s. CHR ''x'' # concat (map m_Id (machines s))), ce_metadata_err = None\<rparr>"

definition find_machine :: "machine_store \<Rightarrow> string \<Rightarrow> string + machine" where
  "find_machine s i = (case filter (\<lambda>m. m_Id m = i) (machines s) of [] \<Rightarrow> Inl ''not found'' | m # _ \<Rightarrow> Inr m)"

definition sample_delete_env :: delete_env where
  "sample_delete_env = \<lparr>de_fetch = find_machine, de_pvcs = Inr 0, de_task_err = None\<rparr>"

lemma sample_ids_fresh: "ids_fresh sample_create_env"
proof -
  have "m_Id m \<noteq> CHR ''x'' # concat (map m_Id ms)" if "m \<in> set ms" for m ms
  proof -
    have "length (m_Id m) \<le> length (concat (map m_Id ms))" using that by (induction ms) auto
    then show ?thesis by (metis impossible_Cons)
  qed
  then show ?thesis by (force simp: ids_fresh_def sample_create_env_def machine_env.extend_def)
qed

lemma sample_fetch_ok: "fetch_ok sample_delete_env"
  by (auto simp: fetch_ok_def sample_delete_env_def find_machine_def split: list.splits dest!: filter_eq_ConsD)

definition created_store :: machine_store where
  "created_store =
     (case ClusterAPI_CreateMachines sample_create_env ''c'' empty_store [sample_node, sample_control] of
        Some (Inr (s, _)) \<Rightarrow> s | _ \<Rightarrow> empty_store)"

lemma created_machines:
  "map (\<lambda>m. (m_Id m, m_Role m, m_FirstNode m, m_ClusterId m)) (machines created_store) =
     [(''x'', ''controlplane'', True, ''c''), (''xx'', ''node'', False, ''c'')]"
  "length (GetMachines ''c'' created_store) = 2"
  by code_simp+

lemma created_step: "machine_step sample_create_env sample_delete_env empty_store created_store"
proof -
  have "case ClusterAPI_CreateMachines sample_create_env ''c'' empty_store [sample_node, sample_control] of
      Some (Inr _) \<Rightarrow> True | _ \<Rightarrow> False" by code_simp
  then obtain s r where "ClusterAPI_CreateMachines sample_create_env ''c'' empty_store [sample_node, sample_control] = Some (Inr (s, r))"
    by (auto split: option.splits sum.splits)
  then show ?thesis unfolding created_store_def by (auto intro: step_create)
qed

lemma empty_inv: "machines_inv empty_store"
  by (simp add: machines_inv_def empty_store_def GetMachines_def first_ok_def)

theorem first_node_unique_witness:
  "\<exists>f. filter m_FirstNode (GetMachines ''c'' created_store) = [f] \<and> IsControlplane f"
proof -
  have "GetMachines ''c'' created_store \<noteq> []" using created_machines(2) by auto
  from first_node_unique [OF r_into_rtranclp [of "machine_step sample_create_env sample_delete_env", OF created_step]
      sample_ids_fresh sample_fetch_ok empty_inv this] show ?thesis by blast
qed

theorem first_node_deleted_early_witness:
  "\<exists>s1. PerformDeleteMachines sample_delete_env ''c'' [''x'', ''x''] created_store = (s1, None) \<and>
     length (GetMachines ''c'' (RealDelete_all [''x''] s1)) = 1"
proof -
  define f where "f = hd (machines created_store)"
  have f: "de_fetch sample_delete_env created_store ''x'' = Inr f" "f \<in> set (GetMachines ''c'' created_store)" "m_FirstNode f" "m_Id f = ''x''"
    unfolding f_def by code_simp+
  have inv: "machines_inv created_store"
    by (rule machine_step_inv [OF created_step sample_ids_fresh sample_fetch_ok empty_inv])
  from first_node_deleted_early [OF inv f(1-3)] f(4) created_machines(2) show ?thesis
    by (simp add: sample_delete_env_def CheckPVCEmpty_def numeral_2_eq_2) blast
qed

end
