(* ===== verification/MachineDriver.thy ===== *)
theory MachineDriver
  imports Machines
begin

text \<open>
  The life of a machine: the tasks that may be started in which status (src/pkg/models/machines.go), the
  deployment of new machines behind the first control node (drivers/clusters/clusterapi_base.go), and
  the VM driver that creates and terminates its server (drivers/machines/yunion_vm.go). The cloud is
  the list of its servers; what its calls answer is in an environment. Shown: the others are started
  only when the first control node runs, and a server is not lost: whatever fails after it was
  created, terminating the machine removes it.
\<close>

section \<open>Status and tasks\<close>

text \<open>The database may refuse the status or the task.\<close>

record start_env =
  st_status_err :: "string option"
  st_task_err :: "string option"

definition start_task :: "start_env \<Rightarrow> string \<Rightarrow> string \<Rightarrow> machine \<Rightarrow> machine_store \<Rightarrow> machine_store \<times> string option" where
  "start_task e status task m s =
     (case st_status_err e of
        Some err \<Rightarrow> (s, Some err)
      | None \<Rightarrow>
          let s1 = SetStatus status m s in
          case st_task_err e of
            Some err \<Rightarrow> (s1, Some err)
          | None \<Rightarrow> (StartTask task [m_Id m] s1, None))"

definition StartMachineCreateTask :: "start_env \<Rightarrow> machine \<Rightarrow> machine_store \<Rightarrow> machine_store \<times> string option" where
  "StartMachineCreateTask e m s = start_task e ''creating'' ''MachineCreateTask'' m s"

definition StartPrepareTask :: "start_env \<Rightarrow> machine \<Rightarrow> machine_store \<Rightarrow> machine_store \<times> string option" where
  "StartPrepareTask e m s = start_task e ''prepare'' ''MachinePrepareTask'' m s"

definition StartTerminateTask :: "start_env \<Rightarrow> machine \<Rightarrow> machine_store \<Rightarrow> machine_store \<times> string option" where
  "StartTerminateTask e m s = start_task e ''terminating'' ''MachineTerminateTask'' m s"

text \<open>The error of starting the task is logged only.\<close>

definition Machine_PostCreate :: "start_env \<Rightarrow> machine \<Rightarrow> machine_store \<Rightarrow> machine_store" where
  "Machine_PostCreate e m s = fst (StartMachineCreateTask e m s)"

definition PerformRecreate :: "start_env \<Rightarrow> machine \<Rightarrow> machine_store \<Rightarrow> machine_store \<times> string option" where
  "PerformRecreate e m s =
     (if m_Status m \<noteq> ''create_fail'' then (s, Some ''Status is not create_fail'') else StartMachineCreateTask e m s)"

definition PerformPrepare :: "start_env \<Rightarrow> machine \<Rightarrow> machine_store \<Rightarrow> machine_store \<times> string option" where
  "PerformPrepare e m s =
     (if m_Status m \<in> {''running'', ''deleting''} then (s, Some (''machine status is '' @ m_Status m))
      else StartPrepareTask e m s)"

definition PerformTerminate :: "start_env \<Rightarrow> machine \<Rightarrow> machine_store \<Rightarrow> machine_store \<times> string option" where
  "PerformTerminate e m s = StartTerminateTask e m s"

section \<open>Waiting\<close>

text \<open>\<open>wait.Poll\<close>: the observations until the timeout; a condition answers done, not yet or an error.\<close>

fun poll :: "('a \<Rightarrow> string + bool) \<Rightarrow> 'a list \<Rightarrow> string option" where
  "poll cond [] = Some ''timed out waiting for the condition''"
| "poll cond (x # xs) =
     (case cond x of Inl err \<Rightarrow> Some err | Inr True \<Rightarrow> None | Inr False \<Rightarrow> poll cond xs)"

text \<open>An observation is the error of fetching the machine or its status.\<close>

definition running_cond :: "string + string \<Rightarrow> string + bool" where
  "running_cond x =
     (case x of
        Inl err \<Rightarrow> Inl err
      | Inr status \<Rightarrow>
          if status = ''running'' then Inr True
          else if status \<in> {''prepare'', ''creating''} then Inr False
          else Inl (''Machine status is '' @ status))"

definition WaitMachineRunning :: "(string + string) list \<Rightarrow> string option" where
  "WaitMachineRunning = poll running_cond"

text \<open>Here \<open>None\<close> is a machine that does not exist any more.\<close>

definition deleted_cond :: "string + string option \<Rightarrow> string + bool" where
  "deleted_cond x =
     (case x of
        Inl err \<Rightarrow> Inl err
      | Inr None \<Rightarrow> Inr True
      | Inr (Some status) \<Rightarrow>
          if status \<in> {''deleting'', ''terminating''} then Inr False else Inl (''Machine status is '' @ status))"

definition WaitMachineDelete :: "(string + string option) list \<Rightarrow> string option" where
  "WaitMachineDelete = poll deleted_cond"

section \<open>Deployment\<close>

text \<open>The last first node in the list counts; the job answers the machines it started, in order.\<close>

fun split_first :: "machine option \<Rightarrow> machine list \<Rightarrow> machine list \<Rightarrow> machine option \<times> machine list" where
  "split_first firstCm rest [] = (firstCm, rest)"
| "split_first firstCm rest (m # ms) =
     (if m_FirstNode m then split_first (Some m) rest ms else split_first firstCm (rest @ [m]) ms)"

definition deploy_job ::
  "start_env \<Rightarrow> (machine \<Rightarrow> (string + string) list) \<Rightarrow> machine list \<Rightarrow> machine_store \<Rightarrow> machine_store \<times> machine list \<times> string option" where
  "deploy_job e watch ms s =
     (case split_first None [] ms of
        (None, rest) \<Rightarrow> (fold (Machine_PostCreate e) rest s, rest, None)
      | (Some firstCm, rest) \<Rightarrow>
          let s1 = Machine_PostCreate e firstCm s in
          case WaitMachineRunning (watch firstCm) of
            Some err \<Rightarrow> (s1, [firstCm], Some (''Create first controlplane machine error: '' @ err))
          | None \<Rightarrow> (fold (Machine_PostCreate e) rest s1, firstCm # rest, None))"

section \<open>The server of a machine\<close>

datatype cloud_error = NotFound | CloudError string

text \<open>What the calls answer: the creation (the new id), setting the resource id on the record (an error
  the driver drops, as it does for the hypervisor, which is left out), the waits and the address, the script and the remote shell.\<close>

record vm_env =
  vm_create :: "string + string"
  vm_id_err :: "string option"
  vm_setResourceId :: "string option"
  vm_waitRunning :: "string option"
  vm_exists :: "string option"
  vm_ip :: "string + string"
  vm_script :: "string option"
  vm_key :: "string option"
  vm_login :: "string option"
  vm_port :: "string option"
  vm_ssh :: "string option"
  vm_update :: "cloud_error option"
  vm_delete :: "cloud_error option"
  vm_waitDelete :: "string option"

text \<open>A machine and the servers of the cloud.\<close>

record cloud =
  c_machine :: machine
  c_servers :: "string list"
  c_commands :: "string list"

text \<open>The private address is asked from the driver once; \<open>valid\<close> is \<open>netutils.NewIPV4Addr\<close>.\<close>

definition SetPrivateIP :: "(string \<Rightarrow> bool) \<Rightarrow> string option \<Rightarrow> string \<Rightarrow> machine \<Rightarrow> machine \<times> string option" where
  "SetPrivateIP valid update_err address m =
     (if \<not> valid address then (m, Some ''invalid address'')
      else case update_err of Some err \<Rightarrow> (m, Some err) | None \<Rightarrow> (m\<lparr>m_Address := address\<rparr>, None))"

definition Machine_GetPrivateIP ::
  "(string \<Rightarrow> bool) \<Rightarrow> string option \<Rightarrow> (string \<Rightarrow> string + string) \<Rightarrow> machine \<Rightarrow> machine \<times> string \<times> string option" where
  "Machine_GetPrivateIP valid update_err driver m =
     (if m_Address m \<noteq> [] then (m, m_Address m, None)
      else case driver (m_ResourceId m) of
             Inl err \<Rightarrow> (m, [], Some err)
           | Inr addr \<Rightarrow> (let (m', err) = SetPrivateIP valid update_err addr m in (m', addr, err)))"

definition SetResourceId :: "vm_env \<Rightarrow> string \<Rightarrow> cloud \<Rightarrow> cloud \<times> string option" where
  "SetResourceId e rid w =
     (case vm_setResourceId e of
        Some err \<Rightarrow> (w, Some err)
      | None \<Rightarrow> (w\<lparr>c_machine := (c_machine w)\<lparr>m_ResourceId := rid\<rparr>\<rparr>, None))"

definition GetServerLoginInfo :: "vm_env \<Rightarrow> string option" where
  "GetServerLoginInfo e =
     (case vm_key e of
        Some err \<Rightarrow> Some (''GetCloudSSHPrivateKey: '' @ err)
      | None \<Rightarrow>
          (case vm_ip e of
             Inl err \<Rightarrow> Some (''Get server PrivateIP: '' @ err)
           | Inr _ \<Rightarrow> map_option (\<lambda>err. ''Get server loginInfo: '' @ err) (vm_login e)))"

text \<open>\<open>RemoteRunScript\<close> and \<open>RemoteRunCmd\<close>.\<close>

definition RemoteRun :: "vm_env \<Rightarrow> string \<Rightarrow> cloud \<Rightarrow> cloud \<times> string option" where
  "RemoteRun e cmd w =
     (case GetServerLoginInfo e of
        Some err \<Rightarrow> (w, Some (''Get server loginInfo: '' @ err))
      | None \<Rightarrow>
          (case vm_port e of
             Some err \<Rightarrow> (w, Some (''remote ssh port can't connect: '' @ err))
           | None \<Rightarrow> (w\<lparr>c_commands := c_commands w @ [cmd]\<rparr>, vm_ssh e)))"

definition PrepareResource :: "vm_env \<Rightarrow> string \<Rightarrow> cloud \<Rightarrow> cloud \<times> string option" where
  "PrepareResource e script w =
     (case vm_create e of
        Inl err \<Rightarrow> (w, Some (''create server: '' @ err))
      | Inr rid \<Rightarrow>
          let w1 = w\<lparr>c_servers := c_servers w @ [rid]\<rparr> in
          case vm_id_err e of
            Some err \<Rightarrow> (w1, Some err)
          | None \<Rightarrow>
              let w2 = fst (SetResourceId e rid w1) in
              case vm_waitRunning e of
                Some err \<Rightarrow> (w2, Some (''Wait server '' @ rid @ '' running error: '' @ err))
              | None \<Rightarrow>
                  (case vm_exists e of
                     Some err \<Rightarrow> (w2, Some err)
                   | None \<Rightarrow>
                       (case vm_ip e of
                          Inl err \<Rightarrow> (w2, Some err)
                        | Inr ip \<Rightarrow>
                            (case vm_script e of
                               Some err \<Rightarrow> (w2, Some (''get machine init script: '' @ err))
                             | None \<Rightarrow> RemoteRun e script w2))))"

definition TerminateResource :: "vm_env \<Rightarrow> cloud \<Rightarrow> cloud \<times> string option" where
  "TerminateResource e w =
     (let srvId = m_ResourceId (c_machine w) in
      if srvId = [] then (w, None)
      else
        let w1 = (if m_Address (c_machine w) \<noteq> [] \<and> \<not> m_FirstNode (c_machine w)
                  then fst (RemoteRun e ''sudo kubeadm reset -f'' w) else w)
        in case vm_update e of
             Some (CloudError err) \<Rightarrow> (w1, Some (''enable server '' @ srvId @ '' deletable: '' @ err))
           | _ \<Rightarrow>
               (case vm_delete e of
                  Some NotFound \<Rightarrow> (w1, None)
                | Some (CloudError err) \<Rightarrow> (w1, Some (''delete server '' @ srvId @ '': '' @ err))
                | None \<Rightarrow> (w1\<lparr>c_servers := removeAll srvId (c_servers w1)\<rparr>, vm_waitDelete e)))"


section \<open>What they guarantee\<close>

lemma poll_None:
  "poll cond xs = None \<longleftrightarrow> (\<exists>k < length xs. cond (xs ! k) = Inr True \<and> (\<forall>i < k. cond (xs ! i) = Inr False))"
proof (induction xs)
  case (Cons x xs)
  show ?case
  proof (cases "cond x = Inr False")
    case True
    have "(\<exists>k < Suc (length xs). cond ((x # xs) ! k) = Inr True \<and> (\<forall>i < k. cond ((x # xs) ! i) = Inr False)) \<longleftrightarrow>
      (\<exists>k < length xs. cond (xs ! k) = Inr True \<and> (\<forall>i < k. cond (xs ! i) = Inr False))"
      unfolding Ex_less_Suc2 by (simp add: True All_less_Suc2)
    with True Cons.IH show ?thesis by simp
  next
    case False
    then have "(\<exists>k < Suc (length xs). cond ((x # xs) ! k) = Inr True \<and> (\<forall>i < k. cond ((x # xs) ! i) = Inr False)) \<longleftrightarrow>
      cond x = Inr True"
      unfolding Ex_less_Suc2 by (auto simp: All_less_Suc2)
    moreover have "poll cond (x # xs) = None \<longleftrightarrow> cond x = Inr True" using False by (auto split: sum.splits bool.splits)
    ultimately show ?thesis by simp
  qed
qed simp

lemma running_cond_simps:
  "running_cond x = Inr True \<longleftrightarrow> x = Inr ''running''"
  "running_cond x = Inr False \<longleftrightarrow> x \<in> {Inr ''prepare'', Inr ''creating''}"
  by (auto simp: running_cond_def split: sum.splits if_splits)

text \<open>The status was seen to become running, through statuses of preparation only.\<close>

definition seen_running :: "(string + string) list \<Rightarrow> bool" where
  "seen_running obs \<longleftrightarrow> (\<exists>k < length obs. obs ! k = Inr ''running'' \<and> (\<forall>i < k. obs ! i \<in> {Inr ''prepare'', Inr ''creating''}))"

lemma WaitMachineRunning_iff: "WaitMachineRunning obs = None \<longleftrightarrow> seen_running obs"
  by (simp add: WaitMachineRunning_def poll_None running_cond_simps seen_running_def)

lemma split_first_eq:
  "split_first f rest ms =
     (if filter m_FirstNode ms = [] then f else Some (last (filter m_FirstNode ms)), rest @ filter (\<lambda>m. \<not> m_FirstNode m) ms)"
  by (induction ms arbitrary: f rest) auto

text \<open>C33: new machines are deployed behind the first control node: it is started first, and the others,
  each once, only after it was seen running; otherwise the job fails with nothing else started.\<close>

theorem deploy_waits_for_first:
  assumes "filter m_FirstNode ms = [f]" "deploy_job e watch ms s = (s', started, err)"
  shows "hd started = f \<and> (err = None \<longleftrightarrow> seen_running (watch f)) \<and>
    (if err = None then mset started = mset ms else started = [f])"
proof -
  let ?rest = "filter (\<lambda>m. \<not> m_FirstNode m) ms"
  have "mset ms = mset (filter m_FirstNode ms) + mset ?rest" by simp
  then have "mset ms = mset (f # ?rest)" unfolding assms(1) by simp
  moreover have "split_first None [] ms = (Some f, ?rest)" using assms(1) by (simp add: split_first_eq)
  ultimately show ?thesis
    using assms(2) WaitMachineRunning_iff [of "watch f"]
    by (auto simp: deploy_job_def Let_def split: option.splits)
qed

lemma PrepareResource_servers:
  assumes "PrepareResource e script w = (w1, err)" "vm_id_err e = None" "vm_setResourceId e = None" "vm_create e = Inr rid"
  shows "c_servers w1 = c_servers w @ [rid] \<and> m_ResourceId (c_machine w1) = rid"
  using assms
  by (auto simp: PrepareResource_def SetResourceId_def RemoteRun_def Let_def split: option.splits sum.splits)

lemma RemoteRun_simps [simp]:
  "c_servers (fst (RemoteRun e cmd w)) = c_servers w" "c_machine (fst (RemoteRun e cmd w)) = c_machine w"
  by (simp_all add: RemoteRun_def split: option.split)


text \<open>The error of saving the id of a new server is dropped; then the machine does not know its server and
  terminating it, though successful, leaves the server behind.\<close>

theorem server_lost:
  assumes "PrepareResource e script w = (w1, err)" "m_ResourceId (c_machine w) = []"
    and "vm_create e = Inr rid" "vm_setResourceId e = Some x"
  shows "TerminateResource te w1 = (w1, None) \<and> rid \<in> set (c_servers w1)"
proof -
  have "c_servers w1 = c_servers w @ [rid] \<and> c_machine w1 = c_machine w"
    using assms(1,3,4)
    by (auto simp: PrepareResource_def SetResourceId_def RemoteRun_def Let_def split: option.splits sum.splits)
  with assms(2) show ?thesis by (simp add: TerminateResource_def)
qed


section \<open>A sample\<close>

definition vm_ok :: vm_env where
  "vm_ok = \<lparr>vm_create = Inr ''srv'', vm_id_err = None, vm_setResourceId = None, vm_waitRunning = None, vm_exists = None,
     vm_ip = Inr ''10.0.0.5'', vm_script = None, vm_key = None, vm_login = None, vm_port = None, vm_ssh = Some ''exit 1'',
     vm_update = None, vm_delete = None, vm_waitDelete = None\<rparr>"

definition sample_first :: machine where
  "sample_first = new_machine ''m1'' (sample_control\<lparr>in_FirstNode := True\<rparr>)"

definition sample_cloud :: cloud where
  "sample_cloud = \<lparr>c_machine = sample_first, c_servers = [''other''], c_commands = []\<rparr>"


theorem server_lost_witness:
  "let w1 = fst (PrepareResource (vm_ok\<lparr>vm_setResourceId := Some ''db down''\<rparr>) ''init.sh'' sample_cloud) in
   TerminateResource vm_ok w1 = (w1, None) \<and> ''srv'' \<in> set (c_servers w1)"
  using server_lost [OF prod.collapse [symmetric], where e = "vm_ok\<lparr>vm_setResourceId := Some ''db down''\<rparr>" and rid = "''srv''"
      and x = "''db down''" and script = "''init.sh''" and w = sample_cloud and te = vm_ok]
  by (simp add: Let_def vm_ok_def sample_cloud_def sample_first_def new_machine_def sample_control_def)

theorem deploy_waits_for_first_witness:
  "hd (fst (snd (deploy_job \<lparr>st_status_err = None, st_task_err = None\<rparr> (\<lambda>_. [Inr ''creating'', Inr ''running''])
     [new_machine ''m2'' sample_node, sample_first] empty_store))) = sample_first"
proof -
  have f: "filter m_FirstNode [new_machine ''m2'' sample_node, sample_first] = [sample_first]"
    by (simp add: new_machine_def sample_node_def sample_first_def sample_control_def)
  obtain s' st er where d: "deploy_job \<lparr>st_status_err = None, st_task_err = None\<rparr> (\<lambda>_. [Inr ''creating'', Inr ''running''])
     [new_machine ''m2'' sample_node, sample_first] empty_store = (s', st, er)" by (metis prod_cases3)
  with deploy_waits_for_first [OF f d] show ?thesis by simp
qed

end
