(* ===== verification/SyncTask.thy ===== *)
theory SyncTask
  imports ClusterSync
begin

text \<open>
  The synchronisation task of a cluster: \<open>SubmitSyncTask\<close> and its callers in src/pkg/models/clusters.go,
  the recursion over the managers in clusterresource.go, and the purge and the garbage collection
  of cluster_api.go. Shown: a successful call mirrors the tables of all managers, events are
  handled again only after success, and the wait for a cluster without a client deadlocks.
\<close>

section \<open>The synchronisation task\<close>

datatype syncable_manager = SyncableManager string "syncable_manager list"

text \<open>The state: the cluster record's status and synchronisation fields, the table of each manager and
  the flag of the cluster's cache.\<close>

record cluster_state =
  cs_Status :: string
  cs_sync :: SSyncableK8sBaseResource
  cs_tables :: "string \<Rightarrow> table"
  cs_bidirectional :: bool

record task_env =
  te_clusterId :: string
  te_now :: int
  te_manager :: "string \<Rightarrow> sync_env"
  te_disable_err :: "string option"
  te_enable_err :: "string option"
  te_syncing_err :: "string option"
  te_message_err :: "string \<Rightarrow> string option"
  te_error_err :: "string option"
  te_end_err :: "string option"
  te_namespaced :: "string \<Rightarrow> bool"

text \<open>A manager of namespaced resources looks the record of a namespace up in the table of namespaces as it is at that time.\<close>

definition manager_scope :: "task_env \<Rightarrow> cluster_state \<Rightarrow> string \<Rightarrow> scope" where
  "manager_scope te st man =
     (if te_namespaced te man then
        Some (\<lambda>n. map_sum id r_Id (FetchClusterResourceByName (te_manager te ''namespaces'') False (te_clusterId te) [] n (cs_tables st ''namespaces'')))
      else None)"

definition manager_env :: "task_env \<Rightarrow> cluster_state \<Rightarrow> string \<Rightarrow> sync_env" where
  "manager_env te st man = (te_manager te man)\<lparr>se_scope := manager_scope te st man\<rparr>"

definition task_MarkErrorSync :: "task_env \<Rightarrow> string \<Rightarrow> cluster_state \<Rightarrow> cluster_state go" where
  "task_MarkErrorSync te err st =
     gbind (MarkErrorSync (te_error_err te) (Some err) (cs_sync st)) (\<lambda>(sync, _). Inr (st\<lparr>cs_sync := sync\<rparr>))"

function SyncClusterResources :: "task_env \<Rightarrow> syncable_manager list \<Rightarrow> cluster_state \<Rightarrow> (cluster_state \<times> string option) go" where
  "SyncClusterResources te [] st = Inr (st, None)"
| "SyncClusterResources te (SyncableManager man subs # mans) st =
     (let st1 = st\<lparr>cs_sync := SaveSyncMessage (te_message_err te man) (''syncing_'' @ man) (cs_sync st)\<rparr> in
      gbind (syncClusterResources (manager_env te st1 man) (te_clusterId te) (cs_tables st1 man)) (\<lambda>(tbl, ret).
        let st2 = st1\<lparr>cs_tables := (cs_tables st1)(man := tbl)\<rparr> in
        if IsError ret then
          gbind (task_MarkErrorSync te (''Sync cluster resource '' @ man @ '' error'') st2) (\<lambda>st3.
            Inr (st3, Some (''Sync cluster resource '' @ man @ '' error'')))
        else
          gbind (SyncClusterResources te subs st2) (\<lambda>(st3, err).
            case err of
              Some msg \<Rightarrow> Inr (st3, Some (''Sync sub resources: '' @ msg))
            | None \<Rightarrow> SyncClusterResources te mans st3)))"
  by pat_completeness auto
termination by (relation "measure (\<lambda>(te, mans, st). size_list size mans)") auto

definition prepareStartSync :: "cluster_state \<Rightarrow> string option" where
  "prepareStartSync st = (if cs_Status st \<noteq> ''running'' then Some (''Cluster status is '' @ cs_Status st) else None)"

text \<open>The loop of the worker over the managers of a cluster.\<close>

fun worker_loop :: "task_env \<Rightarrow> syncable_manager list \<Rightarrow> cluster_state \<Rightarrow> (cluster_state \<times> string option) go" where
  "worker_loop te [] st = Inr (st, None)"
| "worker_loop te (man # mans) st =
     gbind (SyncClusterResources te [man] st) (\<lambda>(st1, err).
       case err of
         Some msg \<Rightarrow> gbind (task_MarkErrorSync te msg st1) (\<lambda>st2. Inr (st2, Some msg))
       | None \<Rightarrow> worker_loop te mans st1)"

text \<open>The function given to the worker pool, and the error it sends to a waiting channel.\<close>

definition sync_worker :: "task_env \<Rightarrow> syncable_manager list \<Rightarrow> cluster_state \<Rightarrow> (cluster_state \<times> string option) go" where
  "sync_worker te mans st =
     (case prepareStartSync st of
        Some err \<Rightarrow> Inr (st, Some err)
      | None \<Rightarrow>
          (case MarkSyncing (te_syncing_err te) (te_now te) (cs_sync st) of
             (sync, Some err) \<Rightarrow> Inr (st\<lparr>cs_sync := sync\<rparr>, Some err)
           | (sync, None) \<Rightarrow>
               gbind (worker_loop te mans (st\<lparr>cs_sync := sync\<rparr>)) (\<lambda>(st1, err).
                 case err of
                   Some msg \<Rightarrow> Inr (st1, Some msg)
                 | None \<Rightarrow>
                     (case MarkEndSync (te_end_err te) (te_now te) (cs_sync st1) of
                        (sync2, Some msg) \<Rightarrow> Inr (st1\<lparr>cs_sync := sync2\<rparr>, Some msg)
                      | (sync2, None) \<Rightarrow>
                          (case te_enable_err te of
                             Some msg \<Rightarrow> Inr (st1\<lparr>cs_sync := sync2\<rparr>, Some (''GetRemoteClient: '' @ msg))
                           | None \<Rightarrow> Inr (st1\<lparr>cs_sync := sync2, cs_bidirectional := True\<rparr>, None))))))"

text \<open>Whether the action starts a task.\<close>

definition PerformSync :: "int \<Rightarrow> bool \<Rightarrow> cluster_state \<Rightarrow> bool" where
  "PerformSync now force st = (CanSync now (cs_sync st) \<or> force)"

text \<open>\<open>SubmitSyncTask\<close> either queues the function for a worker or, when the client of the cluster
  cannot be had, returns; with a channel it first sends the error itself.\<close>

datatype submission = CallerSends string | ReturnsUnqueued | Queued cluster_state

definition SubmitSyncTask :: "task_env \<Rightarrow> bool \<Rightarrow> cluster_state \<Rightarrow> submission" where
  "SubmitSyncTask te waitChan st =
     (case te_disable_err te of
        Some err \<Rightarrow> if waitChan then CallerSends (''GetRemoteClient: '' @ err) else ReturnsUnqueued
      | None \<Rightarrow> Queued (st\<lparr>cs_bidirectional := False\<rparr>))"

text \<open>\<open>SyncCallSyncTask\<close> submits with an unbuffered channel and then receives from it. A send of its
  own, before that, has no receiver and blocks for ever; a queued function is run by a worker,
  whose send the caller then receives.\<close>

datatype sync_call = BlockedForever | Received "string option" cluster_state

definition SyncCallSyncTask :: "task_env \<Rightarrow> syncable_manager list \<Rightarrow> cluster_state \<Rightarrow> sync_call go" where
  "SyncCallSyncTask te mans st =
     (case SubmitSyncTask te True st of
        CallerSends err \<Rightarrow> Inr BlockedForever
      | ReturnsUnqueued \<Rightarrow> Inr BlockedForever
      | Queued st1 \<Rightarrow> gbind (sync_worker te mans st1) (\<lambda>(st2, err). Inr (Received err st2)))"

text \<open>\<open>startAutoSyncTask\<close> with \<open>wait\<close>, as \<open>WaitFullSynced\<close> calls it: one cluster after the other.\<close>

fun startAutoSyncTask ::
  "(task_env \<times> cluster_state) list \<Rightarrow> syncable_manager list \<Rightarrow> string list \<Rightarrow> cluster_state list \<Rightarrow>
   (string list \<times> cluster_state list) option go" where
  "startAutoSyncTask [] mans errs sts = Inr (Some (errs, sts))"
| "startAutoSyncTask ((te, st) # cls) mans errs sts =
     gbind (SyncCallSyncTask te mans st) (\<lambda>r. case r of
        BlockedForever \<Rightarrow> Inr None
      | Received err st' \<Rightarrow>
          startAutoSyncTask cls mans (case err of None \<Rightarrow> errs | Some e \<Rightarrow> errs @ [e]) (sts @ [st']))"

subsection \<open>What a successful task leaves\<close>

fun man_names :: "syncable_manager \<Rightarrow> string list" where
  "man_names (SyncableManager n subs) = n # concat (map man_names subs)"

definition all_names :: "syncable_manager list \<Rightarrow> string list" where
  "all_names mans = concat (map man_names mans)"

lemma all_names_simps [simp]:
  "all_names [] = []"
  "all_names (SyncableManager n subs # mans) = n # all_names subs @ all_names mans"
  "all_names [man] = man_names man"
  by (simp_all add: all_names_def)

lemma all_names_Cons: "all_names (man # mans) = man_names man @ all_names mans"
  by (simp add: all_names_def)

text \<open>Managers of namespaced resources stand below the manager of namespaces, as \<open>NewK8sNamespaceModelManager\<close> puts them; \<open>below\<close> tells that
  it was passed.\<close>

function scoped :: "task_env \<Rightarrow> bool \<Rightarrow> syncable_manager list \<Rightarrow> bool" where
  "scoped te below [] \<longleftrightarrow> True"
| "scoped te below (SyncableManager man subs # mans) \<longleftrightarrow>
     (te_namespaced te man \<longrightarrow> below) \<and> scoped te (below \<or> man = ''namespaces'') subs \<and> scoped te below mans"
  by pat_completeness auto
termination by (relation "measure (\<lambda>(te, below, mans). size_list size mans)") auto

lemma scoped_above:
  "scoped te below mans \<Longrightarrow> \<not> below \<Longrightarrow> n \<in> set (all_names mans) \<Longrightarrow> te_namespaced te n \<Longrightarrow> ''namespaces'' \<in> set (all_names mans)"
  by (induction te below mans rule: scoped.induct) auto

text \<open>The tables of the names in \<open>ns\<close> mirror the remote objects, the rest of the state is kept but for
  the synchronisation fields.\<close>

definition synced_to :: "task_env \<Rightarrow> (string \<Rightarrow> remote_object list) \<Rightarrow> string set \<Rightarrow> cluster_state \<Rightarrow> cluster_state \<Rightarrow> bool" where
  "synced_to te remote ns st st' \<longleftrightarrow>
     (\<forall>n\<in>ns. mirrors (manager_scope te st' n) (te_clusterId te) (cs_tables st' n) (remote n)) \<and> (\<forall>n. n \<notin> ns \<longrightarrow> cs_tables st' n = cs_tables st n) \<and>
     cs_Status st' = cs_Status st \<and> cs_bidirectional st' = cs_bidirectional st"

lemma manager_scope_cong: "cs_tables st' ''namespaces'' = cs_tables st ''namespaces'' \<or> \<not> te_namespaced te n \<Longrightarrow> manager_scope te st' n = manager_scope te st n"
  by (auto simp: manager_scope_def)

lemma synced_to_trans:
  assumes "synced_to te remote ns st st1" "synced_to te remote ms st1 st2" "ns \<inter> ms = {}" "''namespaces'' \<in> ms \<longrightarrow> (\<forall>n\<in>ns. \<not> te_namespaced te n)"
  shows "synced_to te remote (ns \<union> ms) st st2"
proof -
  have "manager_scope te st2 n = manager_scope te st1 n" "cs_tables st2 n = cs_tables st1 n" if "n \<in> ns" for n
    using that assms(2-4) by (auto simp: synced_to_def intro!: manager_scope_cong)
  then show ?thesis using assms(1,2) by (auto simp: synced_to_def)
qed

text \<open>What the task relies on: every manager can be synchronised as far as its own rows and objects go, the names of objects are unique within a
  namespace, and their namespaces are among the namespaces of the cluster.\<close>

definition sync_ready :: "task_env \<Rightarrow> (string \<Rightarrow> remote_object list) \<Rightarrow> string set \<Rightarrow> cluster_state \<Rightarrow> bool" where
  "sync_ready te remote ns st \<longleftrightarrow>
     (\<forall>n\<in>ns. rows_ready (te_manager te n) (te_clusterId te) (cs_tables st n) (remote n) \<and>
        (if te_namespaced te n
         then distinct (map (\<lambda>obj. (ro_Namespace obj, ro_Name obj)) (remote n)) \<and> ro_Namespace ` set (remote n) \<subseteq> ro_Name ` set (remote ''namespaces'')
         else distinct (map ro_Name (remote n))))"

definition namespaces_ok :: "task_env \<Rightarrow> (string \<Rightarrow> remote_object list) \<Rightarrow> bool" where
  "namespaces_ok te remote \<longleftrightarrow> \<not> te_namespaced te ''namespaces'' \<and> db_ok (te_manager te ''namespaces'') \<and>
     (\<forall>r. se_owned (te_manager te ''namespaces'') r) \<and> te_clusterId te \<noteq> [] \<and> distinct (map ro_Name (remote ''namespaces''))"

text \<open>A table that mirrors the namespaces of the cluster has the record of each, under an id of its own.\<close>

lemma namespace_record:
  assumes "namespaces_ok te remote" "mirrors None (te_clusterId te) (cs_tables st ''namespaces'') (remote ''namespaces'')"
    "te_namespaced te n" "name \<in> ro_Name ` set (remote ''namespaces'')"
  obtains row where "row \<in> set (cs_tables st ''namespaces'')" "r_Name row = name" "the (manager_scope te st n) name = Inr (r_Id row)" "r_Id row \<noteq> []"
proof -
  let ?e = "(te_manager te ''namespaces'')\<lparr>se_scope := None\<rparr>"
  from assms(4) obtain obj where obj: "obj \<in> set (remote ''namespaces'')" "ro_Name obj = name" by auto
  have d: "distinct (map (object_key None) (remote ''namespaces''))" using assms(1) keys_ok_cluster [of "remote ''namespaces''"] unfolding keys_ok_def namespaces_ok_def by blast
  obtain row where row: "filter_mset (\<lambda>r. row_key None r = object_key None obj) (mine (te_clusterId te) (cs_tables st ''namespaces'')) = {#row#}"
      "row_view None row = object_view None obj" "row \<in># mine (te_clusterId te) (cs_tables st ''namespaces'')"
    by (rule mirrors_row [OF assms(2) d obj(1)])
  have "lookup_row ?e (te_clusterId te) obj (cs_tables st ''namespaces'') = Inr row"
    by (rule Fetch_one) (use assms(1) row(1) in \<open>simp_all add: namespaces_ok_def db_ok_def ns_found_def\<close>)
  then have "FetchClusterResourceByName (te_manager te ''namespaces'') False (te_clusterId te) [] name (cs_tables st ''namespaces'') = Inr row"
    using obj(2) by (simp add: lookup_row_def ns_of_def)
  moreover have "row \<in> set (cs_tables st ''namespaces'')" "r_Name row = name" "r_Id row \<noteq> []"
    using row(2,3) obj(2) assms(2) by (auto simp: mine_in row_view_def object_view_def row_key_def object_key_def mirrors_def ids_ok_def image_iff)
  ultimately show thesis using that assms(3) by (simp add: manager_scope_def)
qed

lemma manager_keys_ok:
  assumes "namespaces_ok te remote" "sync_ready te remote ns st" "n \<in> ns"
    "te_namespaced te n \<longrightarrow> mirrors None (te_clusterId te) (cs_tables st' ''namespaces'') (remote ''namespaces'')"
  shows "keys_ok (manager_scope te st' n) (remote n)"
proof (cases "te_namespaced te n")
  case True
  let ?sc = "manager_scope te st' n" and ?t = "cs_tables st' ''namespaces''"
  have sub: "ro_Namespace ` set (remote n) \<subseteq> ro_Name ` set (remote ''namespaces'')" and
      d: "distinct (map (\<lambda>obj. (ro_Namespace obj, ro_Name obj)) (remote n))"
    using assms(2,3) True by (auto simp: sync_ready_def)
  have rec: "\<exists>row\<in>set ?t. r_Name row = ro_Namespace obj \<and> the ?sc (ro_Namespace obj) = Inr (r_Id row) \<and> r_Id row \<noteq> []" if "obj \<in> set (remote n)" for obj
    by (rule namespace_record [OF assms(1) _ True, of st' "ro_Namespace obj"]) (use that sub assms(4) True in auto)
  obtain ns' where sc: "?sc = Some ns'" using True by (simp add: manager_scope_def)
  have inj: "inj_on r_Id (set ?t)" using assms(4) True by (simp add: mirrors_def ids_ok_def distinct_map)
  have "ro_Namespace x = ro_Namespace y" if xy: "x \<in> set (remote n)" "y \<in> set (remote n)" "ns_of ?sc x = ns_of ?sc y" for x y
  proof -
    from rec [OF xy(1)] rec [OF xy(2)] obtain r1 r2 where rows: "r1 \<in> set ?t" "r_Name r1 = ro_Namespace x" "the ?sc (ro_Namespace x) = Inr (r_Id r1)"
        "r2 \<in> set ?t" "r_Name r2 = ro_Namespace y" "the ?sc (ro_Namespace y) = Inr (r_Id r2)" by blast
    then have "r_Id r1 = r_Id r2" using xy(3) sc by (simp add: ns_of_def)
    then show ?thesis using inj_onD [OF inj _ rows(1,4)] rows(2,5) by simp
  qed
  then have "distinct (map (object_key ?sc) (remote n))"
    using d unfolding distinct_map inj_on_def object_key_def by (metis prod.inject)
  moreover have "\<forall>obj\<in>set (remote n). ns_found ?sc obj" using rec sc by (fastforce simp: ns_found_def)
  ultimately show ?thesis by (simp add: keys_ok_def)
next
  case False
  then show ?thesis using assms(2,3) by (simp add: manager_scope_def keys_ok_cluster sync_ready_def)
qed

lemma sync_ready_cong: "\<forall>n\<in>ns. cs_tables st' n = cs_tables st n \<Longrightarrow> sync_ready te remote ns st \<Longrightarrow> sync_ready te remote ns st'"
  by (simp add: sync_ready_def)

lemma sync_ready_mono: "ms \<subseteq> ns \<Longrightarrow> sync_ready te remote ns st \<Longrightarrow> sync_ready te remote ms st"
  unfolding sync_ready_def by blast

lemma SyncClusterResources_ok:
  assumes "namespaces_ok te remote"
  shows "distinct (all_names mans) \<Longrightarrow> scoped te below mans \<Longrightarrow> sync_ready te remote (set (all_names mans)) st \<Longrightarrow>
    below \<longrightarrow> ''namespaces'' \<notin> set (all_names mans) \<and> mirrors None (te_clusterId te) (cs_tables st ''namespaces'') (remote ''namespaces'') \<Longrightarrow>
    \<exists>st'. SyncClusterResources te mans st = Inr (st', None) \<and> synced_to te remote (set (all_names mans)) st st'"
  using assms
proof (induction te mans st arbitrary: below rule: SyncClusterResources.induct)
  case (1 te st)
  then show ?case by (simp add: synced_to_def)
next
  case (2 te man subs mans st)
  note ns = "2.prems"(5)
  let ?c = "te_clusterId te"
  let ?st1 = "st\<lparr>cs_sync := SaveSyncMessage (te_message_err te man) (''syncing_'' @ man) (cs_sync st)\<rparr>"
  have sc1: "manager_scope te ?st1 man = manager_scope te st man" by (simp add: manager_scope_def)
  have "ready (manager_env te ?st1 man) ?c (cs_tables ?st1 man) (remote man)"
    using "2.prems"(2-4) manager_keys_ok [OF ns "2.prems"(3), of man ?st1] by (auto simp: ready_def manager_env_def sync_ready_def)
  then obtain tbl s where t: "syncClusterResources (manager_env te ?st1 man) ?c (cs_tables ?st1 man) = Inr (tbl, s)" "\<not> IsError s"
      "mirrors (se_scope (manager_env te ?st1 man)) ?c tbl (remote man)"
    by (rule ready_mirrors)
  let ?st2 = "?st1\<lparr>cs_tables := (cs_tables ?st1)(man := tbl)\<rparr>"
  have man: "''namespaces'' = man \<longrightarrow> \<not> te_namespaced te man" using ns by (auto simp: namespaces_ok_def)
  have "manager_scope te ?st2 man = manager_scope te ?st1 man" using man by (intro manager_scope_cong) auto
  then have s2: "synced_to te remote {man} st ?st2" using t(3) by (simp add: synced_to_def manager_env_def)
  have r2: "sync_ready te remote (set (all_names subs)) ?st2"
    by (rule sync_ready_cong [of _ _ st]) (use "2.prems"(1,3) sync_ready_mono in \<open>auto elim: sync_ready_mono [rotated]\<close>)
  have below2: "below \<or> man = ''namespaces'' \<longrightarrow> ''namespaces'' \<notin> set (all_names subs) \<and>
      mirrors None ?c (cs_tables ?st2 ''namespaces'') (remote ''namespaces'')"
    using "2.prems"(1,4) t(3) man by (auto simp: manager_env_def manager_scope_def)
  obtain st3 where st3: "SyncClusterResources te subs ?st2 = Inr (st3, None)" "synced_to te remote (set (all_names subs)) ?st2 st3"
    using "2.IH"(1) [OF refl t(1) refl refl t(2) _ _ r2 below2 ns] "2.prems"(1,2) by auto
  have s3: "synced_to te remote ({man} \<union> set (all_names subs)) st st3"
    by (rule synced_to_trans [OF s2 st3(2)]) (use "2.prems"(1,2,4) in auto)
  have keep: "\<forall>n\<in>set (all_names mans). cs_tables st3 n = cs_tables st n" using s3 "2.prems"(1) by (auto simp: synced_to_def)
  have r3: "sync_ready te remote (set (all_names mans)) st3"
    by (rule sync_ready_cong [OF keep]) (use "2.prems"(3) in \<open>auto elim: sync_ready_mono [rotated]\<close>)
  have below3: "below \<longrightarrow> ''namespaces'' \<notin> set (all_names mans) \<and> mirrors None ?c (cs_tables st3 ''namespaces'') (remote ''namespaces'')"
    using "2.prems"(4) s3 by (auto simp: synced_to_def)
  obtain st4 where st4: "SyncClusterResources te mans st3 = Inr (st4, None)" "synced_to te remote (set (all_names mans)) st3 st4"
    using "2.IH"(2) [OF refl t(1) refl refl t(2) st3(1) refl refl _ _ r3 below3 ns] "2.prems"(1,2) by auto
  have "synced_to te remote ({man} \<union> set (all_names subs) \<union> set (all_names mans)) st st4"
  proof (rule synced_to_trans [OF s3 st4(2)])
    show "''namespaces'' \<in> set (all_names mans) \<longrightarrow> (\<forall>n\<in>{man} \<union> set (all_names subs). \<not> te_namespaced te n)"
    proof (intro impI)
      assume n: "''namespaces'' \<in> set (all_names mans)"
      with "2.prems"(1,2,4) have nb: "\<not> below" "man \<noteq> ''namespaces''" "''namespaces'' \<notin> set (all_names subs)" "\<not> te_namespaced te man" by auto
      moreover have "scoped te False subs" using "2.prems"(2) nb(1,2) by simp
      ultimately show "\<forall>n\<in>{man} \<union> set (all_names subs). \<not> te_namespaced te n" using scoped_above [of te False subs] by blast
    qed
  qed (use "2.prems"(1) in auto)
  with t(1,2) st3(1) st4(1) show ?case by (simp add: Let_def Un_assoc)
qed

lemma worker_loop_ok:
  assumes "namespaces_ok te remote"
  shows "distinct (all_names mans) \<Longrightarrow> scoped te False mans \<Longrightarrow> sync_ready te remote (set (all_names mans)) st \<Longrightarrow>
    \<exists>st'. worker_loop te mans st = Inr (st', None) \<and> synced_to te remote (set (all_names mans)) st st'"
proof (induction mans arbitrary: st)
  case (Cons man mans)
  have sc: "scoped te False [man]" "scoped te False mans" using Cons.prems(2) by (cases man; simp)+
  have "sync_ready te remote (set (all_names [man])) st" using Cons.prems(3) by (auto simp: all_names_Cons elim: sync_ready_mono [rotated])
  then obtain st1 where st1: "SyncClusterResources te [man] st = Inr (st1, None)" "synced_to te remote (set (man_names man)) st st1"
    using SyncClusterResources_ok [OF assms, of "[man]" False st] Cons.prems(1) sc(1) by (auto simp: all_names_Cons)
  have "\<forall>n\<in>set (all_names mans). cs_tables st1 n = cs_tables st n"
    using st1(2) Cons.prems(1) by (auto simp: synced_to_def all_names_Cons)
  then have "sync_ready te remote (set (all_names mans)) st1"
    by (rule sync_ready_cong) (rule sync_ready_mono [OF _ Cons.prems(3)], simp add: all_names_Cons)
  then obtain st2 where st2: "worker_loop te mans st1 = Inr (st2, None)" "synced_to te remote (set (all_names mans)) st1 st2"
    using Cons.IH [of st1] Cons.prems(1) sc(2) by (auto simp: all_names_Cons)
  have "synced_to te remote (set (man_names man) \<union> set (all_names mans)) st st2"
  proof (rule synced_to_trans [OF st1(2) st2(2)])
    show "''namespaces'' \<in> set (all_names mans) \<longrightarrow> (\<forall>n\<in>set (man_names man). \<not> te_namespaced te n)"
      using Cons.prems(1) scoped_above [OF sc(1)] by (auto simp: all_names_Cons)
  qed (use Cons.prems(1) in \<open>auto simp: all_names_Cons\<close>)
  with st1(1) st2(1) show ?case by (simp add: all_names_Cons)
qed (simp add: synced_to_def)

text \<open>C13: A synchronisation call of a running cluster returns without error and leaves the tables of
  all its managers, at any depth, mirroring the cluster, the status idle and the handling of
  events enabled. The rows of namespaced resources point to the records of their namespaces, which
  the same call synchronises before.\<close>

theorem SyncCallSyncTask_mirrors:
  assumes "te_disable_err te = None" "te_enable_err te = None" "te_syncing_err te = None" "te_end_err te = None"
    and "cs_Status st = ''running''" "distinct (all_names mans)" "scoped te False mans"
    and "namespaces_ok te remote" "sync_ready te remote (set (all_names mans)) st"
  shows "\<exists>st'. SyncCallSyncTask te mans st = Inr (Received None st') \<and>
    (\<forall>n\<in>set (all_names mans). mirrors (manager_scope te st' n) (te_clusterId te) (cs_tables st' n) (remote n)) \<and>
    SyncStatus (cs_sync st') = K8S_SYNC_STATUS_IDLE \<and> cs_bidirectional st'"
proof -
  obtain sync where sync: "MarkSyncing None (te_now te) (cs_sync st) = (sync, None)"
    by (simp add: MarkSyncing_def db_Update_def)
  let ?st1 = "st\<lparr>cs_bidirectional := False, cs_sync := sync\<rparr>"
  have "sync_ready te remote (set (all_names mans)) ?st1" using assms(9) by (simp add: sync_ready_def)
  then obtain st2 where st2: "worker_loop te mans ?st1 = Inr (st2, None)"
      "synced_to te remote (set (all_names mans)) ?st1 st2"
    using worker_loop_ok [OF assms(8,6,7)] by blast
  obtain sync2 where sync2: "MarkEndSync None (te_now te) (cs_sync st2) = (sync2, None)" "SyncStatus sync2 = K8S_SYNC_STATUS_IDLE"
    by (simp add: sync_mark_defs)
  then have "SyncCallSyncTask te mans st = Inr (Received None (st2\<lparr>cs_sync := sync2, cs_bidirectional := True\<rparr>))"
    using assms(1-5) sync st2(1)
    by (simp_all add: SyncCallSyncTask_def SubmitSyncTask_def sync_worker_def prepareStartSync_def)
  moreover have "manager_scope te (st2\<lparr>cs_sync := sync2, cs_bidirectional := True\<rparr>) n = manager_scope te st2 n" for n by (simp add: manager_scope_def)
  ultimately show ?thesis using st2(2) sync2(2) by (simp add: synced_to_def)
qed

subsection \<open>What a failed task leaves\<close>

lemma task_MarkErrorSync_bidirectional:
  "task_MarkErrorSync te err st = Inr st' \<Longrightarrow> cs_bidirectional st' = cs_bidirectional st"
  by (auto simp: task_MarkErrorSync_def gbind_Inr_iff)

lemma SyncClusterResources_bidirectional:
  "SyncClusterResources te mans st = Inr (st', err) \<Longrightarrow> cs_bidirectional st' = cs_bidirectional st"
proof (induction te mans st arbitrary: st' err rule: SyncClusterResources.induct)
  case (2 te man subs mans st)
  let ?st1 = "st\<lparr>cs_sync := SaveSyncMessage (te_message_err te man) (''syncing_'' @ man) (cs_sync st)\<rparr>"
  from "2.prems" obtain tbl ret
    where t: "syncClusterResources (manager_env te ?st1 man) (te_clusterId te) (cs_tables ?st1 man) = Inr (tbl, ret)"
    by (cases "syncClusterResources (manager_env te ?st1 man) (te_clusterId te) (cs_tables ?st1 man)") (auto simp: Let_def)
  let ?st2 = "?st1\<lparr>cs_tables := (cs_tables ?st1)(man := tbl)\<rparr>"
  have b2: "cs_bidirectional ?st2 = cs_bidirectional st" by simp
  show ?case
  proof (cases "IsError ret")
    case True
    with "2.prems" t show ?thesis
      using task_MarkErrorSync_bidirectional [of te _ ?st2] by (auto simp: Let_def gbind_Inr_iff)
  next
    case False
    with "2.prems" t obtain st3 e3 where s3: "SyncClusterResources te subs ?st2 = Inr (st3, e3)"
      by (cases "SyncClusterResources te subs ?st2") (auto simp: Let_def)
    note b3 = "2.IH"(1) [OF refl t refl refl False s3]
    show ?thesis
    proof (cases e3)
      case None
      with "2.prems" t False s3 have "SyncClusterResources te mans st3 = Inr (st', err)" by (simp add: Let_def)
      then show ?thesis using "2.IH"(2) [OF refl t refl refl False s3 refl None] b3 b2 by simp
    next
      case (Some msg)
      with "2.prems" t False s3 b3 show ?thesis by (simp add: Let_def)
    qed
  qed
qed simp

lemma worker_loop_bidirectional:
  "worker_loop te mans st = Inr (st', err) \<Longrightarrow> cs_bidirectional st' = cs_bidirectional st"
proof (induction mans arbitrary: st)
  case (Cons man mans)
  then show ?case
    by (auto simp: gbind_Inr_iff dest!: task_MarkErrorSync_bidirectional SyncClusterResources_bidirectional
        split: prod.splits option.splits)
qed simp

text \<open>After a synchronisation call the events of the cluster are handled exactly if the call
  succeeded: a failure at any point leaves them ignored, until a later synchronisation succeeds.\<close>

theorem events_enabled_iff_synced:
  assumes "SyncCallSyncTask te mans st = Inr (Received err st')"
  shows "cs_bidirectional st' \<longleftrightarrow> err = None"
proof -
  have w: "cs_bidirectional s' \<longleftrightarrow> e = None" if "sync_worker te mans s = Inr (s', e)" "\<not> cs_bidirectional s" for s s' e
  proof (cases "prepareStartSync s")
    case None
    with that show ?thesis
      by (auto simp: sync_worker_def gbind_Inr_iff dest!: worker_loop_bidirectional split: option.splits prod.splits)
  next
    case (Some msg)
    with that(1) have "s' = s" "e = Some msg" by (simp_all add: sync_worker_def)
    then show ?thesis using that(2) by simp
  qed
  from assms obtain s where "sync_worker te mans s = Inr (st', err)" "\<not> cs_bidirectional s"
    by (auto simp: SyncCallSyncTask_def SubmitSyncTask_def gbind_Inr_iff split: option.splits)
  then show ?thesis using w by blast
qed


section \<open>Purge and garbage collection\<close>

fun delete_all :: "sync_env \<Rightarrow> cluster_row list \<Rightarrow> table \<Rightarrow> table \<times> string option" where
  "delete_all e [] tbl = (tbl, None)"
| "delete_all e (obj # objs) tbl =
     (case RealDelete e obj tbl of
        (tbl', Some err) \<Rightarrow> (tbl', Some (''delete object '' @ r_Id obj @ '': '' @ err))
      | (tbl', None) \<Rightarrow> delete_all e objs tbl')"

definition PurgeAllByCluster :: "sync_env \<Rightarrow> string \<Rightarrow> table \<Rightarrow> table \<times> string option" where
  "PurgeAllByCluster e clusterId tbl =
     (case se_rows_err e of
        Some err \<Rightarrow> (tbl, Some (''Fetch all objects when purge all: '' @ err))
      | None \<Rightarrow> delete_all e (filter (\<lambda>r. r_ClusterId r = clusterId) tbl) tbl)"

text \<open>The rows to collect, by the kind of the manager: those whose cluster is gone; of a namespaced resource, those whose namespace is gone as well; of a
  pod, those whose node is gone as well, where \<open>node\<close> is the node of a row.\<close>

datatype gc_kind = GCCluster | GCNamespaced | GCPod "cluster_row \<Rightarrow> string"

definition GetGCQuery :: "gc_kind \<Rightarrow> string set \<Rightarrow> (string \<Rightarrow> table) \<Rightarrow> table \<Rightarrow> table" where
  "GetGCQuery kind clusterIds tables tbl =
     (let q = filter (\<lambda>r. r_ClusterId r \<notin> clusterIds) tbl;
          nq = filter (\<lambda>r. r_NamespaceId r \<notin> r_Id ` set (tables ''namespaces'')) q
      in case kind of
           GCCluster \<Rightarrow> q
         | GCNamespaced \<Rightarrow> nq
         | GCPod node \<Rightarrow> filter (\<lambda>r. node r \<notin> r_Id ` set (tables ''nodes'')) nq)"

function PerformGC :: "(string \<Rightarrow> sync_env) \<Rightarrow> (string \<Rightarrow> gc_kind) \<Rightarrow> string set \<Rightarrow> syncable_manager list \<Rightarrow> (string \<Rightarrow> table) \<Rightarrow>
    (string \<Rightarrow> table) \<times> string option" where
  "PerformGC env kind clusterIds [] tables = (tables, None)"
| "PerformGC env kind clusterIds (SyncableManager man subs # mans) tables =
     (case PerformGC env kind clusterIds subs tables of
        (t1, Some err) \<Rightarrow> (t1, Some (''PerformGC for subresource: '' @ err))
      | (t1, None) \<Rightarrow>
          (case se_rows_err (env man) of
             Some err \<Rightarrow> (t1, Some (''FetchModelObjects '' @ man @ '': '' @ err))
           | None \<Rightarrow>
               (case delete_all (env man) (GetGCQuery (kind man) clusterIds t1 (t1 man)) (t1 man) of
                  (tbl, Some err) \<Rightarrow> (t1(man := tbl), Some err)
                | (tbl, None) \<Rightarrow> PerformGC env kind clusterIds mans (t1(man := tbl)))))"
  by pat_completeness auto
termination by (relation "measure (\<lambda>(env, kind, ids, mans, t). size_list size mans)") auto

lemma delete_all_ok:
  assumes "db_ok e"
  shows "delete_all e objs tbl = (filter (\<lambda>r. r_Id r \<notin> r_Id ` set objs) tbl, None)"
proof (induction objs arbitrary: tbl)
  case (Cons obj objs)
  then show ?case using assms by (simp add: RealDelete_def db_ok_def)
qed simp

lemma delete_all_filter:
  assumes "db_ok e" "distinct (map r_Id tbl)"
  shows "delete_all e (filter P tbl) tbl = (filter (\<lambda>r. \<not> P r) tbl, None)"
proof -
  have "r_Id r \<notin> r_Id ` set (filter P tbl) \<longleftrightarrow> \<not> P r" if "r \<in> set tbl" for r
    using that assms(2) by (auto simp: distinct_map inj_on_def)
  then show ?thesis unfolding delete_all_ok [OF assms(1)] by (simp cong: filter_cong)
qed

lemma PurgeAllByCluster_filter:
  assumes "db_ok e" "distinct (map r_Id tbl)"
  shows "PurgeAllByCluster e c tbl = (filter (\<lambda>r. r_ClusterId r \<noteq> c) tbl, None)"
  using assms delete_all_filter [OF assms] by (simp add: PurgeAllByCluster_def db_ok_def)

text \<open>Purging a cluster empties its rows of a table and keeps all others.\<close>

theorem PurgeAllByCluster_exact:
  assumes "db_ok e" "distinct (map r_Id tbl)"
  shows "PurgeAllByCluster e c tbl = (filter (\<lambda>r. r_ClusterId r \<noteq> c) tbl, None)"
  by (rule PurgeAllByCluster_filter [OF assms])

text \<open>What a collection may leave of a table.\<close>

definition collected :: "gc_kind \<Rightarrow> string set \<Rightarrow> table \<Rightarrow> table \<Rightarrow> bool" where
  "collected kind ids tbl tbl' \<longleftrightarrow> (\<exists>P. tbl' = filter P tbl \<and> (\<forall>r. r_ClusterId r \<in> ids \<longrightarrow> P r) \<and> (kind = GCCluster \<longrightarrow> P = (\<lambda>r. r_ClusterId r \<in> ids)))"

lemma GetGCQuery_filter:
  "\<exists>P. GetGCQuery kind ids tables tbl = filter P tbl \<and> (\<forall>r. P r \<longrightarrow> r_ClusterId r \<notin> ids) \<and> (kind = GCCluster \<longrightarrow> P = (\<lambda>r. r_ClusterId r \<notin> ids))"
  by (cases kind) (force simp: GetGCQuery_def Let_def)+

lemma PerformGC_ok:
  "distinct (all_names mans) \<Longrightarrow> \<forall>n\<in>set (all_names mans). db_ok (env n) \<and> distinct (map r_Id (tables n)) \<Longrightarrow>
   \<exists>t'. PerformGC env kind ids mans tables = (t', None) \<and>
     (\<forall>n. if n \<in> set (all_names mans) then collected (kind n) ids (tables n) (t' n) else t' n = tables n)"
proof (induction env kind ids mans tables rule: PerformGC.induct)
  case (2 env kind ids man subs mans tables)
  obtain t1 where t1: "PerformGC env kind ids subs tables = (t1, None)"
      "\<forall>n. if n \<in> set (all_names subs) then collected (kind n) ids (tables n) (t1 n) else t1 n = tables n"
    using "2.IH"(1) "2.prems" by auto
  have man: "t1 man = tables man" "db_ok (env man)" "distinct (map r_Id (tables man))" using "2.prems" t1(2) by auto
  obtain P where P: "GetGCQuery (kind man) ids t1 (tables man) = filter P (tables man)" "\<forall>r. P r \<longrightarrow> r_ClusterId r \<notin> ids"
      "kind man = GCCluster \<longrightarrow> P = (\<lambda>r. r_ClusterId r \<notin> ids)"
    using GetGCQuery_filter by blast
  let ?tbl = "filter (\<lambda>r. \<not> P r) (tables man)"
  have del: "delete_all (env man) (GetGCQuery (kind man) ids t1 (t1 man)) (t1 man) = (?tbl, None)"
    using delete_all_filter [OF man(2,3)] P(1) man(1) by simp
  have coll: "collected (kind man) ids (tables man) ?tbl" unfolding collected_def
  proof (intro exI [of _ "\<lambda>r. \<not> P r"] conjI impI)
    assume "kind man = GCCluster"
    with P(3) show "(\<lambda>r. \<not> P r) = (\<lambda>r. r_ClusterId r \<in> ids)" by simp
  qed (use P(2) in blast)+
  let ?t2 = "t1(man := ?tbl)"
  have rows: "se_rows_err (env man) = None" using man(2) by (simp add: db_ok_def)
  have same: "\<forall>n\<in>set (all_names mans). ?t2 n = tables n"
  proof
    fix n assume "n \<in> set (all_names mans)"
    with "2.prems"(1) have "n \<notin> set (all_names subs)" "n \<noteq> man" by auto
    then show "?t2 n = tables n" using t1(2) by simp
  qed
  obtain t' where t': "PerformGC env kind ids mans ?t2 = (t', None)"
      "\<forall>n. if n \<in> set (all_names mans) then collected (kind n) ids (?t2 n) (t' n) else t' n = ?t2 n"
  proof -
    have "distinct (all_names mans)" "\<forall>n\<in>set (all_names mans). db_ok (env n) \<and> distinct (map r_Id (?t2 n))" using "2.prems" same by auto
    from "2.IH"(2) [OF t1(1) [symmetric] refl rows del [symmetric] refl this] show thesis using that by blast
  qed
  have "\<forall>n. if n \<in> set (all_names (SyncableManager man subs # mans)) then collected (kind n) ids (tables n) (t' n) else t' n = tables n"
  proof
    fix n
    have "n \<in> set (all_names subs) \<Longrightarrow> n \<noteq> man \<and> n \<notin> set (all_names mans)" "man \<notin> set (all_names mans)" using "2.prems"(1) by auto
    then show "if n \<in> set (all_names (SyncableManager man subs # mans)) then collected (kind n) ids (tables n) (t' n) else t' n = tables n"
      using spec [OF t1(2), of n] spec [OF t'(2), of n] coll same
      by (cases "n \<in> set (all_names subs)"; cases "n \<in> set (all_names mans)"; cases "n = man"; force)
  qed
  then show ?case using t1(1) rows del t'(1) by simp
qed simp

text \<open>C37: A garbage collection over managers at any depth removes no row of a cluster that exists and changes nothing else in what it keeps; the tables of
  cluster resources keep exactly these rows. It ends without error and leaves the tables of other managers alone.\<close>

theorem PerformGC_exact:
  assumes "distinct (all_names mans)" "\<forall>n\<in>set (all_names mans). db_ok (env n) \<and> distinct (map r_Id (tables n))"
  shows "\<exists>t'. PerformGC env kind ids mans tables = (t', None) \<and> (\<forall>n. n \<notin> set (all_names mans) \<longrightarrow> t' n = tables n) \<and>
    (\<forall>n\<in>set (all_names mans). filter (\<lambda>r. r_ClusterId r \<in> ids) (t' n) = filter (\<lambda>r. r_ClusterId r \<in> ids) (tables n) \<and>
       (\<exists>P. t' n = filter P (tables n)) \<and> (kind n = GCCluster \<longrightarrow> t' n = filter (\<lambda>r. r_ClusterId r \<in> ids) (tables n)))"
proof -
  obtain t' where t': "PerformGC env kind ids mans tables = (t', None)"
      "\<forall>n. if n \<in> set (all_names mans) then collected (kind n) ids (tables n) (t' n) else t' n = tables n"
    using PerformGC_ok [OF assms] by blast
  have "filter (\<lambda>r. r_ClusterId r \<in> ids) (t' n) = filter (\<lambda>r. r_ClusterId r \<in> ids) (tables n) \<and> (\<exists>P. t' n = filter P (tables n)) \<and>
      (kind n = GCCluster \<longrightarrow> t' n = filter (\<lambda>r. r_ClusterId r \<in> ids) (tables n))" if "n \<in> set (all_names mans)" for n
  proof -
    from t'(2) that have "collected (kind n) ids (tables n) (t' n)" by presburger
    then obtain P where P: "t' n = filter P (tables n)" "\<forall>r. r_ClusterId r \<in> ids \<longrightarrow> P r" "kind n = GCCluster \<longrightarrow> P = (\<lambda>r. r_ClusterId r \<in> ids)"
      unfolding collected_def by blast
    have "filter (\<lambda>r. r_ClusterId r \<in> ids) (filter P (tables n)) = filter (\<lambda>r. r_ClusterId r \<in> ids) (tables n)"
      unfolding filter_filter by (rule filter_cong) (use P(2) in auto)
    then show ?thesis using P by auto
  qed
  then show ?thesis using t' by (intro exI [of _ t']) auto
qed

text \<open>The rows of namespaced resources of a cluster that is gone outlive the collection that removes their namespaces, because they are visited before
  and the two conditions are both required; a row whose namespace alone is gone is never collected.\<close>

theorem gc_misses_namespaced:
  assumes "db_ok (env ''namespaces'')" "db_ok (env n)" "n \<noteq> ''namespaces''" "kind ''namespaces'' = GCCluster" "kind n = GCNamespaced"
    "distinct (map r_Id (tables ''namespaces''))" "distinct (map r_Id (tables n))" "r \<in> set (tables n)"
    "r_NamespaceId r \<in> r_Id ` set (tables ''namespaces'') \<or> r_ClusterId r \<in> ids"
    "PerformGC env kind ids [SyncableManager ''namespaces'' [SyncableManager n []]] tables = (t', err)"
  shows "r \<in> set (t' n) \<and> t' ''namespaces'' = filter (\<lambda>x. r_ClusterId x \<in> ids) (tables ''namespaces'')"
proof -
  let ?q = "\<lambda>x. r_ClusterId x \<notin> ids \<and> r_NamespaceId x \<notin> r_Id ` set (tables ''namespaces'')"
  have q: "GetGCQuery (kind n) ids tables (tables n) = filter ?q (tables n)" using assms(5) by (auto simp: GetGCQuery_def Let_def intro: filter_cong)
  let ?t1 = "tables(n := filter (\<lambda>x. \<not> ?q x) (tables n))"
  have d1: "delete_all (env n) (GetGCQuery (kind n) ids tables (tables n)) (tables n) = (?t1 n, None)"
    unfolding q using delete_all_filter [OF assms(2,7), of ?q] by simp
  have d2: "delete_all (env ''namespaces'') (GetGCQuery (kind ''namespaces'') ids ?t1 (tables ''namespaces'')) (tables ''namespaces'') =
      (filter (\<lambda>x. r_ClusterId x \<in> ids) (tables ''namespaces''), None)"
    using delete_all_filter [OF assms(1,6), of "\<lambda>x. r_ClusterId x \<notin> ids"] assms(4) by (simp add: GetGCQuery_def Let_def)
  have "se_rows_err (env n) = None" "se_rows_err (env ''namespaces'') = None" using assms(1,2) by (simp_all add: db_ok_def)
  then have "t' = ?t1(''namespaces'' := filter (\<lambda>x. r_ClusterId x \<in> ids) (tables ''namespaces''))"
    using assms(10) d1 d2 assms(3) by simp
  then show ?thesis using assms(3,8,9) by auto
qed

subsection \<open>Examples\<close>

definition sample_remote :: "string \<Rightarrow> remote_object list" where
  "sample_remote n =
     (if n = ''namespaces'' then
        [\<lparr>ro_UID = ''u7'', ro_Name = ''default'', ro_Namespace = [], ro_ResourceVersion = ''7''\<rparr>,
         \<lparr>ro_UID = ''u8'', ro_Name = ''prod'', ro_Namespace = [], ro_ResourceVersion = ''8''\<rparr>]
      else if n = ''configmaps'' then sample_ns_objects else sample_objects)"

definition sample_task_env :: task_env where
  "sample_task_env =
     \<lparr>te_clusterId = ''c'', te_now = 1, te_manager = (\<lambda>n. sample_sync_env\<lparr>se_list := Inr (sample_remote n)\<rparr>), te_disable_err = None, te_enable_err = None,
      te_syncing_err = None, te_message_err = (\<lambda>_. None), te_error_err = None, te_end_err = None, te_namespaced = (\<lambda>n. n = ''configmaps'')\<rparr>"

definition sample_state :: cluster_state where
  "sample_state =
     \<lparr>cs_Status = ''running'',
      cs_sync = \<lparr>SyncStatus = ''idle'', SyncMessage = [], LastSync = 0, LastSyncEndAt = 0\<rparr>,
      cs_tables = (\<lambda>_. sample_table), cs_bidirectional = True\<rparr>"

definition sample_managers :: "syncable_manager list" where
  "sample_managers = [SyncableManager ''nodes'' [], SyncableManager ''namespaces'' [SyncableManager ''configmaps'' []]]"

lemma sample_rows_ready: "rows_ready (te_manager sample_task_env n) ''c'' sample_table (sample_remote n)"
  using sample_ready sample_ns_ready
  by (auto simp: ready_def rows_ready_def db_ok_def sample_task_env_def sample_remote_def sample_ns_env_def sample_rows row_version_def sample_versions)

theorem SyncCallSyncTask_mirrors_witness:
  "\<exists>st'. SyncCallSyncTask sample_task_env sample_managers sample_state = Inr (Received None st') \<and>
     mirrors (manager_scope sample_task_env st' ''configmaps'') ''c'' (cs_tables st' ''configmaps'') sample_ns_objects \<and> cs_bidirectional st'"
proof -
  let ?te = sample_task_env
  have te: "te_clusterId ?te = ''c''" "te_namespaced ?te = (\<lambda>n. n = ''configmaps'')" "te_disable_err ?te = None" "te_enable_err ?te = None"
      "te_syncing_err ?te = None" "te_end_err ?te = None" by (simp_all add: sample_task_env_def)
  have names: "all_names sample_managers = [''nodes'', ''namespaces'', ''configmaps'']" "distinct (all_names sample_managers)" "scoped ?te False sample_managers"
    by (simp_all add: sample_managers_def te)
  have "namespaces_ok ?te sample_remote"
    using sample_db_ok by (simp add: namespaces_ok_def te) (simp add: sample_task_env_def db_ok_def sample_sync_env_def sample_remote_def)
  moreover have "sync_ready ?te sample_remote (set (all_names sample_managers)) sample_state"
    using sample_rows_ready by (auto simp: sync_ready_def te names(1) sample_state_def sample_remote_def sample_objects_def sample_ns_objects_def)
  moreover have "cs_Status sample_state = ''running''" by (simp add: sample_state_def)
  moreover have "''configmaps'' \<in> set (all_names sample_managers)" "sample_remote ''configmaps'' = sample_ns_objects" by (simp_all add: names sample_remote_def)
  ultimately show ?thesis using SyncCallSyncTask_mirrors [OF te(3-6) _ names(2,3), of sample_state sample_remote] te(1) by metis
qed

theorem events_enabled_iff_synced_witness:
  "\<exists>st'. SyncCallSyncTask sample_task_env sample_managers (sample_state\<lparr>cs_Status := ''deleting''\<rparr>) =
       Inr (Received (Some ''Cluster status is deleting'') st') \<and> \<not> cs_bidirectional st'"
proof -
  obtain st' where st': "SyncCallSyncTask sample_task_env sample_managers (sample_state\<lparr>cs_Status := ''deleting''\<rparr>) =
       Inr (Received (Some ''Cluster status is deleting'') st')"
    by (simp add: SyncCallSyncTask_def SubmitSyncTask_def sample_task_env_def sync_worker_def prepareStartSync_def
        sample_state_def)
  then show ?thesis using events_enabled_iff_synced [OF st'] by simp
qed


theorem PurgeAllByCluster_exact_witness:
  "PurgeAllByCluster sample_sync_env ''c'' sample_table = (drop 2 sample_table, None)"
  by (subst PurgeAllByCluster_exact [OF sample_db_ok]) (simp_all add: sample_table_def)

theorem PerformGC_exact_witness:
  "\<exists>t'. PerformGC (\<lambda>_. sample_sync_env) (\<lambda>n. if n = ''configmaps'' then GCNamespaced else GCCluster) {''d''} sample_managers (\<lambda>_. sample_table) = (t', None) \<and>
     t' ''nodes'' = drop 2 sample_table"
proof -
  have "distinct (all_names sample_managers)" "''nodes'' \<in> set (all_names sample_managers)" by (simp_all add: sample_managers_def)
  moreover have "\<forall>n\<in>set (all_names sample_managers). db_ok sample_sync_env \<and> distinct (map r_Id sample_table)"
    by (simp add: sample_db_ok sample_table_def)
  moreover have "filter (\<lambda>r. r_ClusterId r \<in> {''d''}) sample_table = drop 2 sample_table" by (simp add: sample_table_def)
  ultimately show ?thesis
    using PerformGC_exact [of sample_managers "\<lambda>_. sample_sync_env" "\<lambda>_. sample_table" "\<lambda>n. if n = ''configmaps'' then GCNamespaced else GCCluster" "{''d''}"]
    by fastforce
qed

theorem gc_misses_namespaced_witness:
  "(hd sample_table)\<lparr>r_NamespaceId := ''1''\<rparr> \<in> set (fst (PerformGC (\<lambda>_. sample_sync_env) (\<lambda>n. if n = ''configmaps'' then GCNamespaced else GCCluster) {}
     [SyncableManager ''namespaces'' [SyncableManager ''configmaps'' []]] (\<lambda>n. if n = ''configmaps'' then [(hd sample_table)\<lparr>r_NamespaceId := ''1''\<rparr>] else sample_table)) ''configmaps'')"
  by (rule gc_misses_namespaced [OF _ _ _ _ _ _ _ _ _ prod.collapse [symmetric], THEN conjunct1])
    (simp_all add: sample_db_ok sample_table_def)

end
