(* ===== verification/Federation.thy ===== *)
theory Federation
  imports ClusterSync
begin

text \<open>
  Federated resources: fed_api.go, federated_resource.go, federated_joint_resource.go,
  federated_namespaces.go and federated_namespace_resource.go of src/pkg/models. A federated
  resource is attached to clusters by joint records; reconciling one creates the resource in its
  cluster or adopts the one of that name. The store holds the tables, the operations pass it on;
  errors of the database and of the validations the manager inherits are fields of the
  environment. Starting the create and update tasks of a resource is recorded in the store.
\<close>

section \<open>The store\<close>

record fed_member =
  cl_Id :: string
  cl_Name :: string

record fed_row =
  fd_Id :: string
  fd_Name :: string
  fd_NamespaceId :: string

record joint =
  j_FedId :: string
  j_ClusterId :: string
  j_ResourceId :: string

datatype post = PostCreate string | PostUpdate string

record fed_store =
  fs_clusters :: "fed_member list"
  fs_feds :: "fed_row list"
  fs_fednss :: "fed_row list"
  fs_joints :: "joint list"
  fs_resources :: table
  fs_namespaces :: table
  fs_posts :: "post list"
  fs_logs :: "(string \<times> bool) list"

text \<open>\<open>fe_cluster\<close> is the lookup of a cluster by id or name; \<open>fe_db\<close> is the environment of the resource
  manager's lookups and \<open>fe_nsScope\<close> its scope; \<open>fe_DoCreate\<close> is the error of the creation of a
  resource record, \<open>fe_newId\<close> the id it gets.\<close>

record fed_env =
  fe_nsScope :: bool
  fe_cluster :: "fed_store \<Rightarrow> string \<Rightarrow> string + fed_member"
  fe_db :: sync_env
  fe_joint_err :: "string option"
  fe_insert_err :: "string option"
  fe_update_err :: "string option"
  fe_createData :: "fed_row \<Rightarrow> string option"
  fe_updateData :: "fed_row \<Rightarrow> cluster_row \<Rightarrow> string option"
  fe_DoCreate :: "string option"
  fe_newId :: "fed_store \<Rightarrow> string"
  fe_delete_err :: "string option"

definition fetch_message :: "fetch_error \<Rightarrow> string" where
  "fetch_message err =
     (case err of ErrNoRows \<Rightarrow> ''sql: no rows in result set'' | ErrDuplicateEntry \<Rightarrow> ''duplicate entry'' | ErrOther e \<Rightarrow> e)"

section \<open>Joint records\<close>

definition GetFederatedJointClusterModel :: "fed_env \<Rightarrow> fed_store \<Rightarrow> string \<Rightarrow> string \<Rightarrow> fetch_error + joint" where
  "GetFederatedJointClusterModel fe s masterId clusterId =
     (case fe_joint_err fe of
        Some e \<Rightarrow> Inl (ErrOther e)
      | None \<Rightarrow>
          (case filter (\<lambda>j. j_ClusterId j = clusterId \<and> j_FedId j = masterId) (fs_joints s) of
             [] \<Rightarrow> Inl ErrNoRows
           | j # _ \<Rightarrow> Inr j))"

definition GetJointModel :: "fed_env \<Rightarrow> fed_store \<Rightarrow> string \<Rightarrow> string \<Rightarrow> string + joint option" where
  "GetJointModel fe s objId clusterId =
     (case GetFederatedJointClusterModel fe s objId clusterId of
        Inl ErrNoRows \<Rightarrow> Inr None
      | Inl err \<Rightarrow> Inl (fetch_message err)
      | Inr j \<Rightarrow> Inr (Some j))"

definition IsAttach2Cluster :: "fed_env \<Rightarrow> fed_store \<Rightarrow> string \<Rightarrow> string \<Rightarrow> string + bool" where
  "IsAttach2Cluster fe s objId clusterId =
     (case GetJointModel fe s objId clusterId of Inl e \<Rightarrow> Inl e | Inr jObj \<Rightarrow> Inr (jObj \<noteq> None))"

definition GetAttachedClusters :: "fed_env \<Rightarrow> fed_store \<Rightarrow> string \<Rightarrow> string + fed_member list" where
  "GetAttachedClusters fe s objId =
     (case fe_joint_err fe of
        Some e \<Rightarrow> Inl (''get attached clusters: '' @ e)
      | None \<Rightarrow>
          Inr (filter (\<lambda>c. cl_Id c \<in> set (map j_ClusterId (filter (\<lambda>j. j_FedId j = objId) (fs_joints s)))) (fs_clusters s)))"

definition GetClustersCount :: "fed_store \<Rightarrow> string \<Rightarrow> nat" where
  "GetClustersCount s objId = length (filter (\<lambda>j. j_FedId j = objId) (fs_joints s))"

text \<open>The cluster id that is left in the data, if the data is not nil, and the joint record.\<close>

definition ValidateJointCluster ::
  "fed_env \<Rightarrow> fed_store \<Rightarrow> string \<Rightarrow> string \<Rightarrow> string option \<times> (fetch_error + joint)" where
  "ValidateJointCluster fe s objId clusterId =
     (if clusterId = [] then (Some clusterId, Inl (ErrOther ''cluster_id not provided''))
      else case fe_cluster fe s clusterId of
             Inl e \<Rightarrow> (None, Inl (ErrOther e))
           | Inr cluster \<Rightarrow> (Some (cl_Id cluster), GetFederatedJointClusterModel fe s objId (cl_Id cluster)))"

definition data_cluster :: "string option \<Rightarrow> string go" where
  "data_cluster data = (case data of None \<Rightarrow> Inl NilDereference | Some c \<Rightarrow> Inr c)"

definition Base_ValidateAttachCluster :: "fed_env \<Rightarrow> fed_store \<Rightarrow> string \<Rightarrow> string \<Rightarrow> (string + string) go" where
  "Base_ValidateAttachCluster fe s objId clusterId =
     (case ValidateJointCluster fe s objId clusterId of
        (data, Inl ErrNoRows) \<Rightarrow> gbind (data_cluster data) (\<lambda>c. Inr (Inr c))
      | (data, Inl err) \<Rightarrow> Inr (Inl (fetch_message err))
      | (data, Inr j) \<Rightarrow> gbind (data_cluster data) (\<lambda>c. Inr (Inl (''cluster '' @ c @ '' has been attached''))))"

definition ValidateDetachCluster :: "fed_env \<Rightarrow> fed_store \<Rightarrow> string \<Rightarrow> string \<Rightarrow> (string + string) go" where
  "ValidateDetachCluster fe s objId clusterId =
     (case ValidateJointCluster fe s objId clusterId of
        (data, Inl ErrNoRows) \<Rightarrow> gbind (data_cluster data) (\<lambda>c. Inr (Inl (''cluster '' @ c @ '' has not been attached'')))
      | (data, Inl err) \<Rightarrow> Inr (Inl (fetch_message err))
      | (data, Inr j) \<Rightarrow> gbind (data_cluster data) (\<lambda>c. Inr (Inr c)))"

definition fetch_fed :: "string \<Rightarrow> fed_row list \<Rightarrow> string + fed_row" where
  "fetch_fed fid rows = (case filter (\<lambda>f. fd_Id f = fid) rows of [] \<Rightarrow> Inl (fetch_message ErrNoRows) | f # _ \<Rightarrow> Inr f)"

text \<open>For a namespaced resource the federated namespace must exist too.\<close>

definition ValidateAttachCluster :: "fed_env \<Rightarrow> fed_store \<Rightarrow> fed_row \<Rightarrow> string \<Rightarrow> (string + string) go" where
  "ValidateAttachCluster fe s obj clusterId =
     gbind (Base_ValidateAttachCluster fe s (fd_Id obj) clusterId) (\<lambda>r. Inr (case r of
        Inl e \<Rightarrow> Inl e
      | Inr c \<Rightarrow>
          if fe_nsScope fe then
            (case fetch_fed (fd_NamespaceId obj) (fs_fednss s) of
               Inl e \<Rightarrow> Inl (''get federated namespace: '' @ e)
             | Inr _ \<Rightarrow> Inr c)
          else Inr c))"

definition fed_log :: "string \<Rightarrow> bool \<Rightarrow> fed_store \<Rightarrow> fed_store" where
  "fed_log action ok s = s\<lparr>fs_logs := fs_logs s @ [(action, ok)]\<rparr>"

definition fetch_member :: "string \<Rightarrow> fed_store \<Rightarrow> string + fed_member" where
  "fetch_member clusterId s =
     (case filter (\<lambda>c. cl_Id c = clusterId) (fs_clusters s) of [] \<Rightarrow> Inl (fetch_message ErrNoRows) | c # _ \<Rightarrow> Inr c)"

definition JustAttachCluster :: "fed_env \<Rightarrow> fed_store \<Rightarrow> string \<Rightarrow> string \<Rightarrow> fed_store \<times> (string + joint)" where
  "JustAttachCluster fe s objId clusterId =
     (case fetch_member clusterId s of
        Inl e \<Rightarrow> (s, Inl (''get cluster '' @ clusterId @ '': '' @ e))
      | Inr cls \<Rightarrow>
          (case IsAttach2Cluster fe s objId clusterId of
             Inl e \<Rightarrow> (s, Inl (''check IsAttach2Cluster: '' @ e))
           | Inr attached \<Rightarrow>
               if attached then (s, Inl (objId @ '' has been attached to cluster '' @ clusterId))
               else (case fe_insert_err fe of
                       Some e \<Rightarrow> (s, Inl (''insert joint model: '' @ e))
                     | None \<Rightarrow>
                         let jointModel = \<lparr>j_FedId = objId, j_ClusterId = clusterId, j_ResourceId = []\<rparr>
                         in (s\<lparr>fs_joints := fs_joints s @ [jointModel]\<rparr>, Inr jointModel))))"

text \<open>A joint record is saved over the one of its pair.\<close>

definition same_pair :: "joint \<Rightarrow> joint \<Rightarrow> bool" where
  "same_pair j k \<longleftrightarrow> j_FedId j = j_FedId k \<and> j_ClusterId j = j_ClusterId k"

definition SetResource :: "fed_env \<Rightarrow> joint \<Rightarrow> string \<Rightarrow> fed_store \<Rightarrow> fed_store \<times> string option" where
  "SetResource fe j resId s =
     (case fe_update_err fe of
        Some e \<Rightarrow> (s, Some (''set resource_id: '' @ e))
      | None \<Rightarrow> (s\<lparr>fs_joints := map (\<lambda>k. if same_pair k j then k\<lparr>j_ResourceId := resId\<rparr> else k) (fs_joints s)\<rparr>, None))"

section \<open>The resource of a joint record\<close>

definition FetchFedResourceModel :: "joint \<Rightarrow> fed_store \<Rightarrow> string + fed_row" where
  "FetchFedResourceModel j s =
     (case fetch_fed (j_FedId j) (fs_feds s) of
        Inl e \<Rightarrow> Inl (''get federated resource by id '' @ j_FedId j @ '': '' @ e)
      | Inr f \<Rightarrow> Inr f)"

definition FetchFedNamespace :: "joint \<Rightarrow> fed_store \<Rightarrow> string + fed_row" where
  "FetchFedNamespace j s =
     (case FetchFedResourceModel j s of
        Inl e \<Rightarrow> Inl (''failed to get fed obj: '' @ e)
      | Inr f \<Rightarrow> fetch_fed (fd_NamespaceId f) (fs_fednss s))"

definition FetchClusterNamespace :: "fed_env \<Rightarrow> joint \<Rightarrow> fed_member \<Rightarrow> fed_store \<Rightarrow> string + cluster_row" where
  "FetchClusterNamespace fe j cluster s =
     (case FetchFedNamespace j s of
        Inl e \<Rightarrow> Inl (''get federatednamespace: '' @ e)
      | Inr fedNs \<Rightarrow>
          (case FetchClusterResourceByIdOrName (fe_db fe) False (cl_Id cluster) [] (fd_Name fedNs) (fs_namespaces s) of
             Inl e \<Rightarrow> Inl (''get cluster namespace: '' @ fetch_message e)
           | Inr ns \<Rightarrow> Inr ns))"

definition FetchResourceModel :: "fed_env \<Rightarrow> joint \<Rightarrow> fed_store \<Rightarrow> fetch_error + cluster_row" where
  "FetchResourceModel fe j s =
     FetchClusterResourceById (fe_db fe) (fe_nsScope fe) (j_ClusterId j) [] (j_ResourceId j) (fs_resources s)"

definition FetchResourceModelByName :: "fed_env \<Rightarrow> joint \<Rightarrow> fed_store \<Rightarrow> string + cluster_row option" where
  "FetchResourceModelByName fe j s =
     (case fetch_member (j_ClusterId j) s of
        Inl e \<Rightarrow> Inl (''get joint object cluster: '' @ e)
      | Inr cluster \<Rightarrow>
          (case FetchFedResourceModel j s of
             Inl e \<Rightarrow> Inl (''get related federated resource: '' @ e)
           | Inr fedObj \<Rightarrow>
               (case (if fe_nsScope fe
                      then (case FetchClusterNamespace fe j cluster s of
                              Inl e \<Rightarrow> Inl (''get cluster namespace: '' @ e)
                            | Inr ns \<Rightarrow> Inr (r_Id ns))
                      else Inr []) of
                  Inl e \<Rightarrow> Inl e
                | Inr clsNsId \<Rightarrow>
                    (case FetchClusterResourceByIdOrName (fe_db fe) (fe_nsScope fe) (cl_Id cluster) clsNsId
                            (fd_Name fedObj) (fs_resources s) of
                       Inl ErrNoRows \<Rightarrow> Inr None
                     | Inl err \<Rightarrow> Inl (''get cluster resource: '' @ fetch_message err)
                     | Inr resObj \<Rightarrow> Inr (Some resObj)))))"

definition IsResourceExist :: "fed_env \<Rightarrow> joint \<Rightarrow> fed_store \<Rightarrow> string + cluster_row option" where
  "IsResourceExist fe j s =
     (if j_ResourceId j = []
      then (case FetchResourceModelByName fe j s of
              Inl e \<Rightarrow> Inl (''fetch joint resource model by name: '' @ e)
            | Inr r \<Rightarrow> Inr r)
      else (case FetchResourceModel fe j s of
              Inl ErrNoRows \<Rightarrow> Inr None
            | Inl err \<Rightarrow> Inl (''FetchResourceModel: '' @ fetch_message err)
            | Inr r \<Rightarrow> Inr (Some r)))"

section \<open>Reconciliation\<close>

definition createResource :: "fed_env \<Rightarrow> joint \<Rightarrow> fed_member \<Rightarrow> fed_store \<Rightarrow> fed_store \<times> string option" where
  "createResource fe j cluster s =
     (case (if fe_nsScope fe
            then (case FetchClusterNamespace fe j cluster s of
                    Inl e \<Rightarrow> Inl (''get cluster namespace: '' @ e)
                  | Inr ns \<Rightarrow> Inr (r_Id ns))
            else Inr []) of
        Inl e \<Rightarrow> (s, Some e)
      | Inr nsId \<Rightarrow>
          (case FetchFedResourceModel j s of
             Inl e \<Rightarrow> (s, Some (''get fed joint resource master object: '' @ e))
           | Inr fedObj \<Rightarrow>
               (case fe_createData fe fedObj of
                  Some e \<Rightarrow> (s, Some (''get fed joint resource create data: '' @ e))
                | None \<Rightarrow>
                    (case fe_DoCreate fe of
                       Some e \<Rightarrow> (s, Some (''create cluster local resource object: '' @ e))
                     | None \<Rightarrow>
                         let rid = fe_newId fe s;
                             row = \<lparr>r_Id = rid, r_Name = fd_Name fedObj, r_Status = ''init'', r_ExternalId = [],
                                    r_ClusterId = cl_Id cluster, r_ResourceVersion = [], r_NamespaceId = nsId\<rparr>;
                             s1 = s\<lparr>fs_resources := fs_resources s @ [row]\<rparr>
                         in case SetResource fe j rid s1 of
                              (s2, Some e) \<Rightarrow> (s2, Some (''set resource object: '' @ e))
                            | (s2, None) \<Rightarrow> (s2\<lparr>fs_posts := fs_posts s2 @ [PostCreate rid]\<rparr>, None)))))"

definition updateResource :: "fed_env \<Rightarrow> joint \<Rightarrow> cluster_row \<Rightarrow> fed_store \<Rightarrow> fed_store \<times> string option" where
  "updateResource fe j resObj s =
     (case SetResource fe j (r_Id resObj) s of
        (s1, Some e) \<Rightarrow> (s1, Some (''set resource object: '' @ e))
      | (s1, None) \<Rightarrow>
          (case FetchFedResourceModel j s1 of
             Inl e \<Rightarrow> (s1, Some (''get fed joint resource master object: '' @ e))
           | Inr fedObj \<Rightarrow>
               (case fe_updateData fe fedObj resObj of
                  Some e \<Rightarrow> (s1, Some (''get fed joint resource update data: '' @ e))
                | None \<Rightarrow> (s1\<lparr>fs_posts := fs_posts s1 @ [PostUpdate (r_Id resObj)]\<rparr>, None))))"

definition ReconcileResource :: "fed_env \<Rightarrow> joint \<Rightarrow> fed_store \<Rightarrow> fed_store \<times> string option" where
  "ReconcileResource fe j s =
     (case IsResourceExist fe j s of
        Inl e \<Rightarrow> (s, Some (''Check cluster resource exist: '' @ e))
      | Inr resObj \<Rightarrow>
          (case fetch_member (j_ClusterId j) s of
             Inl e \<Rightarrow> (s, Some (''get joint object cluster: '' @ e))
           | Inr cluster \<Rightarrow>
               (case resObj of
                  Some row \<Rightarrow>
                    (let (s', err) = updateResource fe j row s in (s', errors_Wrap ''UpdateClusterResource'' err))
                | None \<Rightarrow>
                    (let (s', err) = createResource fe j cluster s in (s', errors_Wrap ''CreateClusterResource'' err)))))"

section \<open>Attach, synchronise, detach\<close>

definition PerformSyncCluster :: "fed_env \<Rightarrow> fed_row \<Rightarrow> string \<Rightarrow> fed_store \<Rightarrow> fed_store \<times> string option" where
  "PerformSyncCluster fe obj clusterId s =
     (case snd (ValidateJointCluster fe s (fd_Id obj) clusterId) of
        Inl err \<Rightarrow> (s, Some (fetch_message err))
      | Inr jObj \<Rightarrow>
          (case ReconcileResource fe jObj s of
             (s', Some e) \<Rightarrow> (fed_log ''resource_sync'' False s', Some e)
           | (s', None) \<Rightarrow> (fed_log ''resource_sync'' True s', None)))"

definition PerformAttachCluster :: "fed_env \<Rightarrow> fed_row \<Rightarrow> string \<Rightarrow> fed_store \<Rightarrow> (fed_store \<times> string option) go" where
  "PerformAttachCluster fe obj clusterId s =
     gbind (ValidateAttachCluster fe s obj clusterId) (\<lambda>r. Inr (case r of
        Inl e \<Rightarrow> (s, Some e)
      | Inr cid \<Rightarrow>
          (case JustAttachCluster fe s (fd_Id obj) cid of
             (s1, Inl e) \<Rightarrow> (fed_log ''resource_attach'' False s1, Some e)
           | (s1, Inr jObj) \<Rightarrow> PerformSyncCluster fe obj cid (fed_log ''resource_attach'' True s1))))"

text \<open>\<open>Detach\<close> is \<open>db.DetachJoint\<close> for every joint type: the record is deleted.\<close>

definition Joint_Detach :: "fed_env \<Rightarrow> joint \<Rightarrow> fed_store \<Rightarrow> fed_store \<times> string option" where
  "Joint_Detach fe j s =
     (case fe_delete_err fe of
        Some e \<Rightarrow> (s, Some e)
      | None \<Rightarrow> (s\<lparr>fs_joints := filter (\<lambda>k. \<not> same_pair k j) (fs_joints s)\<rparr>, None))"

definition detachCluster :: "fed_env \<Rightarrow> string \<Rightarrow> string \<Rightarrow> fed_store \<Rightarrow> (fed_store \<times> string option) go" where
  "detachCluster fe objId clusterId s =
     (case IsAttach2Cluster fe s objId clusterId of
        Inl e \<Rightarrow> Inr (s, Some (''check IsAttach2Cluster: '' @ e))
      | Inr attached \<Rightarrow>
          if \<not> attached then Inr (s, None)
          else (case GetJointModel fe s objId clusterId of
                  Inl e \<Rightarrow> Inr (s, Some (''detach get joint model: '' @ e))
                | Inr None \<Rightarrow> Inl NilDereference
                | Inr (Some j) \<Rightarrow> Inr (Joint_Detach fe j s)))"

definition PerformDetachCluster :: "fed_env \<Rightarrow> fed_row \<Rightarrow> string \<Rightarrow> fed_store \<Rightarrow> (fed_store \<times> string option) go" where
  "PerformDetachCluster fe obj clusterId s =
     gbind (ValidateDetachCluster fe s (fd_Id obj) clusterId) (\<lambda>r. case r of
        Inl e \<Rightarrow> Inr (s, Some e)
      | Inr cid \<Rightarrow>
          gbind (detachCluster fe (fd_Id obj) cid s) (\<lambda>(s', err). Inr (fed_log ''resource_detach'' (err = None) s', err)))"

definition Fed_ValidateDeleteCondition :: "fed_env \<Rightarrow> string \<Rightarrow> fed_store \<Rightarrow> string option" where
  "Fed_ValidateDeleteCondition fe objId s =
     (case GetAttachedClusters fe s objId of
        Inl e \<Rightarrow> Some (''get attached clusters: '' @ e)
      | Inr clusters \<Rightarrow> if length clusters \<noteq> 0 then Some ''federated resource attached to cluster'' else None)"

fun purge_joints :: "fed_env \<Rightarrow> string \<Rightarrow> fed_row list \<Rightarrow> fed_store \<Rightarrow> fed_store \<times> string option" where
  "purge_joints fe clusterId [] s = (s, None)"
| "purge_joints fe clusterId (obj # objs) s =
     (case GetJointModel fe s (fd_Id obj) clusterId of
        Inl e \<Rightarrow> (s, Some (''get joint model by cluster: '' @ e))
      | Inr None \<Rightarrow> purge_joints fe clusterId objs s
      | Inr (Some j) \<Rightarrow>
          (case Joint_Detach fe j s of
             (s', Some e) \<Rightarrow> (s', Some (''delete joint model: '' @ e))
           | (s', None) \<Rightarrow> purge_joints fe clusterId objs s'))"

definition Fed_PurgeAllByCluster :: "fed_env \<Rightarrow> string \<Rightarrow> fed_store \<Rightarrow> fed_store \<times> string option" where
  "Fed_PurgeAllByCluster fe clusterId s =
     (case fe_joint_err fe of
        Some e \<Rightarrow> (s, Some (''Fetch all objects when purge all: '' @ e))
      | None \<Rightarrow>
          purge_joints fe clusterId
            (filter (\<lambda>f. fd_Id f \<in> set (map j_FedId (filter (\<lambda>j. j_ClusterId j = clusterId) (fs_joints s)))) (fs_feds s)) s)"

text \<open>The further condition on a federated namespace, over the namespaced kinds: the joint records of
  their federated resources in that namespace.\<close>

definition FetchModelsByFednamespace :: "string \<Rightarrow> fed_store \<Rightarrow> joint list" where
  "FetchModelsByFednamespace fednsId s =
     filter (\<lambda>j. j_FedId j \<in> set (map fd_Id (filter (\<lambda>f. fd_NamespaceId f = fednsId) (fs_feds s)))) (fs_joints s)"

fun fedns_kinds :: "string \<Rightarrow> fed_store list \<Rightarrow> string option" where
  "fedns_kinds fednsId [] = None"
| "fedns_kinds fednsId (k # ks) =
     (if length (FetchModelsByFednamespace fednsId k) > 0 then Some ''federatednamespace has related resources attached''
      else fedns_kinds fednsId ks)"

definition FedNamespace_ValidateDeleteCondition :: "fed_env \<Rightarrow> string \<Rightarrow> fed_store \<Rightarrow> fed_store list \<Rightarrow> string option" where
  "FedNamespace_ValidateDeleteCondition fe objId s kinds =
     (case Fed_ValidateDeleteCondition fe objId s of Some e \<Rightarrow> Some e | None \<Rightarrow> fedns_kinds objId kinds)"

section \<open>The invariant\<close>

text \<open>A pair of a federated resource and a cluster has at most one joint record, resource ids are
  unique, and a joint record that is bound to an existing resource is bound to one of its cluster.\<close>

definition pair_of :: "joint \<Rightarrow> string \<times> string" where
  "pair_of j = (j_FedId j, j_ClusterId j)"

definition fed_inv :: "fed_store \<Rightarrow> bool" where
  "fed_inv s \<longleftrightarrow> distinct (map pair_of (fs_joints s)) \<and> distinct (map r_Id (fs_resources s)) \<and>
     (\<forall>j\<in>set (fs_joints s). \<forall>r\<in>set (fs_resources s).
        j_ResourceId j \<noteq> [] \<and> r_Id r = j_ResourceId j \<longrightarrow> r_ClusterId r = j_ClusterId j)"

text \<open>What the environment promises: new ids are fresh, and a cluster found by id or name is one of the
  store's.\<close>

definition fed_ok :: "fed_env \<Rightarrow> bool" where
  "fed_ok fe \<longleftrightarrow>
     (\<forall>s. fe_newId fe s \<noteq> [] \<and> fe_newId fe s \<notin> r_Id ` set (fs_resources s) \<and>
          fe_newId fe s \<notin> j_ResourceId ` set (fs_joints s)) \<and>
     (\<forall>s x m. fe_cluster fe s x = Inr m \<longrightarrow> m \<in> set (fs_clusters s))"

lemma same_pair_iff: "same_pair k j \<longleftrightarrow> pair_of k = pair_of j"
  by (auto simp: same_pair_def pair_of_def)

lemma first_count_in: "first_count e q = Inr r \<Longrightarrow> r \<in> set q"
  by (cases q) (auto simp: first_count_def split: if_splits option.splits)

lemma FetchByName_in:
  "FetchClusterResourceByName e ns c nsId x t = Inr r \<Longrightarrow> r \<in> set t \<and> r_ClusterId r = c"
  by (auto simp: FetchClusterResourceByName_def Let_def split: if_splits option.splits dest!: first_count_in)

lemma FetchById_in:
  "FetchClusterResourceById e ns c nsId x t = Inr r \<Longrightarrow> r \<in> set t \<and> r_ClusterId r = c"
  by (auto simp: FetchClusterResourceById_def split: if_splits option.splits dest!: first_count_in)

lemma FetchByIdOrName_in:
  "FetchClusterResourceByIdOrName e ns c nsId x t = Inr r \<Longrightarrow> r \<in> set t \<and> r_ClusterId r = c"
  unfolding FetchClusterResourceByIdOrName_def
  by (auto split: if_splits sum.splits fetch_error.splits dest: FetchByName_in FetchById_in)

lemma fetch_member_in: "fetch_member c s = Inr m \<Longrightarrow> m \<in> set (fs_clusters s) \<and> cl_Id m = c"
  by (auto simp: fetch_member_def split: list.splits dest!: filter_eq_ConsD)

lemma IsResourceExist_in:
  assumes "IsResourceExist fe j s = Inr (Some r)"
  shows "r \<in> set (fs_resources s) \<and> r_ClusterId r = j_ClusterId j"
  using assms
  by (auto simp: IsResourceExist_def FetchResourceModelByName_def FetchResourceModel_def
      split: if_splits sum.splits fetch_error.splits dest!: FetchByIdOrName_in FetchById_in fetch_member_in)

lemma SetResource_inv:
  assumes "fed_inv s" "SetResource fe j rid s = (s', err)"
    and "\<forall>r\<in>set (fs_resources s). r_Id r = rid \<longrightarrow> r_ClusterId r = j_ClusterId j"
  shows "fed_inv s'"
proof -
  have "pair_of \<circ> (\<lambda>k. if same_pair k j then k\<lparr>j_ResourceId := rid\<rparr> else k) = pair_of"
    by (auto simp: fun_eq_iff pair_of_def)
  moreover have "j_ClusterId k = j_ClusterId j" if "same_pair k j" for k
    using that by (simp add: same_pair_def)
  ultimately show ?thesis
    using assms by (auto simp: SetResource_def fed_inv_def split: option.splits)
qed

lemma SetResource_resources: "SetResource fe j rid s = (s', err) \<Longrightarrow> fs_resources s' = fs_resources s"
  by (auto simp: SetResource_def split: option.splits)

lemma fed_inv_cong:
  "fs_joints s' = fs_joints s \<Longrightarrow> fs_resources s' = fs_resources s \<Longrightarrow> fed_inv s' = fed_inv s"
  by (simp add: fed_inv_def)

lemma fed_inv_posts [simp]: "fed_inv (s\<lparr>fs_posts := ps\<rparr>) = fed_inv s"
  by (rule fed_inv_cong) simp_all

lemma fed_inv_log [simp]: "fed_inv (fed_log a b s) = fed_inv s"
  by (rule fed_inv_cong) (simp_all add: fed_log_def)

lemma updateResource_inv:
  assumes "fed_inv s" "r \<in> set (fs_resources s)" "r_ClusterId r = j_ClusterId j" "updateResource fe j r s = (s', err)"
  shows "fed_inv s'"
proof -
  obtain s1 e1 where s1: "SetResource fe j (r_Id r) s = (s1, e1)" by (cases "SetResource fe j (r_Id r) s")
  have "\<forall>r'\<in>set (fs_resources s). r_Id r' = r_Id r \<longrightarrow> r_ClusterId r' = j_ClusterId j"
    using assms(1-3) by (auto simp: fed_inv_def distinct_map inj_on_def)
  then have "fed_inv s1" by (rule SetResource_inv [OF assms(1) s1])
  then show ?thesis
    using assms(4) s1 by (auto simp: updateResource_def split: option.splits sum.splits)
qed

lemma createResource_inv:
  assumes "fed_ok fe" "fed_inv s" "cl_Id cluster = j_ClusterId j" "createResource fe j cluster s = (s', err)"
  shows "fed_inv s'"
proof -
  let ?rid = "fe_newId fe s"
  have fresh: "?rid \<notin> r_Id ` set (fs_resources s)" "?rid \<notin> j_ResourceId ` set (fs_joints s)"
    using assms(1) by (auto simp: fed_ok_def)
  have ins: "fed_inv (s\<lparr>fs_resources := fs_resources s @ [row]\<rparr>)" if "r_Id row = ?rid" for row
    using assms(2) fresh that by (auto simp: fed_inv_def)
  have set: "fed_inv s2"
    if "SetResource fe j ?rid (s\<lparr>fs_resources := fs_resources s @ [row]\<rparr>) = (s2, e)" "r_Id row = ?rid"
      "r_ClusterId row = j_ClusterId j" for row s2 e
    by (rule SetResource_inv [OF ins [OF that(2)] that(1)]) (use that(3) fresh(1) in force)
  from assms(2,4) show ?thesis
    unfolding createResource_def Let_def
    by (auto split: if_splits sum.splits option.splits prod.splits simp: assms(3) dest!: set)
qed

lemma ReconcileResource_inv:
  assumes "fed_ok fe" "fed_inv s" "ReconcileResource fe j s = (s', err)"
  shows "fed_inv s'"
proof (cases "IsResourceExist fe j s")
  case (Inl e)
  with assms show ?thesis by (auto simp: ReconcileResource_def)
next
  case res: (Inr ro)
  show ?thesis
  proof (cases "fetch_member (j_ClusterId j) s")
    case (Inl e)
    with assms res show ?thesis by (auto simp: ReconcileResource_def)
  next
    case (Inr cluster)
    note cl = fetch_member_in [OF Inr]
    show ?thesis
    proof (cases ro)
      case None
      obtain s1 e1 where "createResource fe j cluster s = (s1, e1)" by (cases "createResource fe j cluster s")
      with assms(3) res Inr None cl show ?thesis
        using createResource_inv [OF assms(1,2), of cluster j s1 e1] by (auto simp: ReconcileResource_def)
    next
      case (Some r)
      obtain s1 e1 where "updateResource fe j r s = (s1, e1)" by (cases "updateResource fe j r s")
      with assms(3) res Inr Some show ?thesis
        using updateResource_inv [OF assms(2), of r j fe s1 e1] IsResourceExist_in [of fe j s r]
        by (auto simp: ReconcileResource_def)
    qed
  qed
qed

lemma JustAttachCluster_inv:
  assumes "fed_inv s" "JustAttachCluster fe s objId c = (s', r)"
  shows "fed_inv s'"
proof -
  have "(objId, c) \<notin> pair_of ` set (fs_joints s)"
    if "IsAttach2Cluster fe s objId c = Inr False"
    using that by (auto simp: IsAttach2Cluster_def GetJointModel_def GetFederatedJointClusterModel_def pair_of_def
        filter_empty_conv split: sum.splits option.splits list.splits fetch_error.splits)
  then show ?thesis
    using assms by (auto simp: JustAttachCluster_def fed_inv_def Let_def pair_of_def
        split: sum.splits if_splits option.splits)
qed

lemma Joint_Detach_inv:
  assumes "fed_inv s" "Joint_Detach fe j s = (s', err)"
  shows "fed_inv s'"
  using assms by (auto simp: Joint_Detach_def fed_inv_def distinct_map_filter split: option.splits)

lemma PerformSyncCluster_inv:
  assumes "fed_ok fe" "fed_inv s" "PerformSyncCluster fe obj c s = (s', err)"
  shows "fed_inv s'"
  using assms(2,3) ReconcileResource_inv [OF assms(1,2)]
  by (auto simp: PerformSyncCluster_def split: sum.splits prod.splits option.splits)

lemma PerformAttachCluster_inv:
  assumes "fed_ok fe" "fed_inv s" "PerformAttachCluster fe obj c s = Inr (s', err)"
  shows "fed_inv s'"
proof -
  from assms(3) obtain r where r: "ValidateAttachCluster fe s obj c = Inr r"
    by (auto simp: PerformAttachCluster_def gbind_Inr_iff)
  show ?thesis
  proof (cases r)
    case (Inl e)
    with r assms show ?thesis by (auto simp: PerformAttachCluster_def)
  next
    case (Inr cid)
    obtain s1 jr where s1: "JustAttachCluster fe s (fd_Id obj) cid = (s1, jr)" by (cases "JustAttachCluster fe s (fd_Id obj) cid")
    have "fed_inv s1" by (rule JustAttachCluster_inv [OF assms(2) s1])
    with r Inr s1 assms(3) show ?thesis
      using PerformSyncCluster_inv [OF assms(1), of "fed_log ''resource_attach'' True s1"]
      by (auto simp: PerformAttachCluster_def split: sum.splits)
  qed
qed

lemma detachCluster_inv:
  assumes "fed_inv s" "detachCluster fe objId c s = Inr (s', err)"
  shows "fed_inv s'"
  using assms Joint_Detach_inv [OF assms(1), of fe]
  by (auto simp: detachCluster_def split: sum.splits if_splits option.splits)

lemma PerformDetachCluster_inv:
  assumes "fed_inv s" "PerformDetachCluster fe obj c s = Inr (s', err)"
  shows "fed_inv s'"
proof -
  from assms(2) obtain r where r: "ValidateDetachCluster fe s (fd_Id obj) c = Inr r"
    by (auto simp: PerformDetachCluster_def gbind_Inr_iff)
  with assms detachCluster_inv [OF assms(1)] show ?thesis
    by (cases r) (auto simp: PerformDetachCluster_def gbind_Inr_iff)
qed

lemma purge_joints_inv:
  "fed_inv s \<Longrightarrow> purge_joints fe c objs s = (s', err) \<Longrightarrow> fed_inv s'"
proof (induction objs arbitrary: s)
  case (Cons obj objs)
  show ?case
  proof (cases "GetJointModel fe s (fd_Id obj) c")
    case (Inl e)
    with Cons.prems show ?thesis by auto
  next
    case (Inr jo)
    with Cons show ?thesis
      by (cases jo) (auto split: prod.splits option.splits dest: Joint_Detach_inv)
  qed
qed simp

text \<open>The store changes by these operations, with any outcome, and by the deletion of resources.\<close>

inductive fed_step :: "fed_env \<Rightarrow> fed_store \<Rightarrow> fed_store \<Rightarrow> bool" for fe where
  fed_attach: "PerformAttachCluster fe obj c s = Inr (s', err) \<Longrightarrow> fed_step fe s s'"
| fed_sync: "PerformSyncCluster fe obj c s = (s', err) \<Longrightarrow> fed_step fe s s'"
| fed_detach: "PerformDetachCluster fe obj c s = Inr (s', err) \<Longrightarrow> fed_step fe s s'"
| fed_purge: "Fed_PurgeAllByCluster fe c s = (s', err) \<Longrightarrow> fed_step fe s s'"
| fed_delete_resource: "fed_step fe s (s\<lparr>fs_resources := filter P (fs_resources s)\<rparr>)"

lemma fed_step_inv:
  assumes "fed_step fe s s'" "fed_ok fe" "fed_inv s"
  shows "fed_inv s'"
  using assms
proof cases
  case (fed_purge c err)
  then show ?thesis
    using purge_joints_inv [OF assms(3)] assms(3) by (auto simp: Fed_PurgeAllByCluster_def split: option.splits)
next
  case (fed_delete_resource P)
  then show ?thesis using assms(3) by (auto simp: fed_inv_def distinct_map_filter)
qed (use assms PerformAttachCluster_inv PerformSyncCluster_inv PerformDetachCluster_inv in blast)+

text \<open>C5: however federated resources are attached, synchronised, detached and purged, and whichever of
  these fail halfway, no pair of a federated resource and a cluster is attached twice, and no joint
  record is bound to a resource of another cluster.\<close>

theorem federation_invariant:
  assumes "(fed_step fe)\<^sup>*\<^sup>* s s'" "fed_ok fe" "fed_inv s"
  shows "distinct (map pair_of (fs_joints s')) \<and>
    (\<forall>j\<in>set (fs_joints s'). \<forall>r\<in>set (fs_resources s').
       j_ResourceId j \<noteq> [] \<and> r_Id r = j_ResourceId j \<longrightarrow> r_ClusterId r = j_ClusterId j)"
proof -
  have "fed_inv s'" using assms(1,3) by (induction rule: rtranclp_induct) (use assms(2) fed_step_inv in blast)+
  then show ?thesis by (simp add: fed_inv_def)
qed

section \<open>What reconciling does\<close>

definition bound :: "joint \<Rightarrow> string \<Rightarrow> joint list \<Rightarrow> joint list" where
  "bound j rid js = map (\<lambda>k. if same_pair k j then k\<lparr>j_ResourceId := rid\<rparr> else k) js"

text \<open>The calls of a reconciliation that can fail for reasons of their own do not.\<close>

definition fed_calls_ok :: "fed_env \<Rightarrow> bool" where
  "fed_calls_ok fe \<longleftrightarrow> fe_update_err fe = None \<and> fe_DoCreate fe = None \<and>
     (\<forall>f. fe_createData fe f = None \<and> (\<forall>r. fe_updateData fe f r = None))"

definition new_resource :: "fed_env \<Rightarrow> fed_row \<Rightarrow> fed_member \<Rightarrow> cluster_row \<Rightarrow> fed_store \<Rightarrow> cluster_row" where
  "new_resource fe f cluster ns s =
     \<lparr>r_Id = fe_newId fe s, r_Name = fd_Name f, r_Status = ''init'', r_ExternalId = [], r_ClusterId = cl_Id cluster,
      r_ResourceVersion = [], r_NamespaceId = (if fe_nsScope fe then r_Id ns else [])\<rparr>"

lemma new_resource_simps [simp]:
  "r_Id (new_resource fe f cluster ns s) = fe_newId fe s" "r_Name (new_resource fe f cluster ns s) = fd_Name f"
  "r_ClusterId (new_resource fe f cluster ns s) = cl_Id cluster"
  "fe_nsScope fe \<Longrightarrow> r_NamespaceId (new_resource fe f cluster ns s) = r_Id ns"
  by (simp_all add: new_resource_def)

lemma reconcile_eq:
  assumes "fed_calls_ok fe" "fetch_member (j_ClusterId j) s = Inr cluster" "FetchFedResourceModel j s = Inr f"
    and "fe_nsScope fe \<longrightarrow> FetchClusterNamespace fe j cluster s = Inr ns" "IsResourceExist fe j s = Inr ro"
  shows "ReconcileResource fe j s =
    (case ro of
       Some row \<Rightarrow> (s\<lparr>fs_joints := bound j (r_Id row) (fs_joints s), fs_posts := fs_posts s @ [PostUpdate (r_Id row)]\<rparr>, None)
     | None \<Rightarrow>
         (s\<lparr>fs_joints := bound j (fe_newId fe s) (fs_joints s),
            fs_resources := fs_resources s @ [new_resource fe f cluster ns s],
            fs_posts := fs_posts s @ [PostCreate (fe_newId fe s)]\<rparr>, None))"
  using assms
  by (auto simp: ReconcileResource_def createResource_def updateResource_def SetResource_def fed_calls_ok_def
      bound_def FetchFedResourceModel_def new_resource_def Let_def split: option.splits)


lemma filter_the_id:
  "distinct (map r_Id rows) \<Longrightarrow> row \<in> set rows \<Longrightarrow> P row \<Longrightarrow> filter (\<lambda>r. r_Id r = r_Id row \<and> P r) rows = [row]"
  by (induction rows) (auto simp: filter_empty_conv image_iff)

lemma bound_bound [simp]: "bound (j\<lparr>j_ResourceId := x\<rparr>) rid (bound j rid js) = bound j rid js"
  by (auto simp: bound_def same_pair_def)

text \<open>Reconciling is idempotent: a second pass finds the resource the first one bound, makes no
  record and leaves the bindings as they are.\<close>

theorem ReconcileResource_idempotent:
  assumes "fed_ok fe" "fed_calls_ok fe" "db_ok (fe_db fe)" "fed_inv s" "\<forall>r\<in>set (fs_resources s). r_Id r \<noteq> []"
    and "j_ClusterId j \<noteq> []" "fetch_member (j_ClusterId j) s = Inr cluster" "FetchFedResourceModel j s = Inr f"
    and "fe_nsScope fe \<longrightarrow> FetchClusterNamespace fe j cluster s = Inr ns" "IsResourceExist fe j s = Inr ro"
  shows "\<exists>s1 rid s2. ReconcileResource fe j s = (s1, None) \<and>
    ReconcileResource fe (j\<lparr>j_ResourceId := rid\<rparr>) s1 = (s2, None) \<and> fs_joints s1 = bound j rid (fs_joints s) \<and>
    fs_joints s2 = fs_joints s1 \<and> fs_resources s2 = fs_resources s1 \<and> fs_posts s2 = fs_posts s1 @ [PostUpdate rid]"
proof -
  obtain s1 row where s1: "ReconcileResource fe j s = (s1, None)" "row \<in> set (fs_resources s1)"
      "r_ClusterId row = j_ClusterId j" "fs_joints s1 = bound j (r_Id row) (fs_joints s)"
      "fs_clusters s1 = fs_clusters s" "fs_feds s1 = fs_feds s" "fs_fednss s1 = fs_fednss s"
      "fs_namespaces s1 = fs_namespaces s" "r_Id row \<noteq> []"
  proof (cases ro)
    case None
    with reconcile_eq [OF assms(2,7-10)]
    have "ReconcileResource fe j s =
      (s\<lparr>fs_joints := bound j (fe_newId fe s) (fs_joints s), fs_resources := fs_resources s @ [new_resource fe f cluster ns s],
         fs_posts := fs_posts s @ [PostCreate (fe_newId fe s)]\<rparr>, None)" by simp
    from that [OF this, of "new_resource fe f cluster ns s"] fetch_member_in [OF assms(7)] assms(1) show thesis
      by (simp add: fed_ok_def)
  next
    case (Some row)
    with reconcile_eq [OF assms(2,7-10)]
    have "ReconcileResource fe j s =
      (s\<lparr>fs_joints := bound j (r_Id row) (fs_joints s), fs_posts := fs_posts s @ [PostUpdate (r_Id row)]\<rparr>, None)" by simp
    from that [OF this, of row] IsResourceExist_in [of fe j s row] Some assms(5,10) show thesis by simp
  qed
  let ?j = "j\<lparr>j_ResourceId := r_Id row\<rparr>"
  have "distinct (map r_Id (fs_resources s1))"
    using ReconcileResource_inv [OF assms(1,4) s1(1)] by (simp add: fed_inv_def)
  then have only: "filter (\<lambda>r. r_Id r = r_Id row \<and> r_ClusterId r = j_ClusterId j) (fs_resources s1) = [row]"
    using filter_the_id [OF _ s1(2)] s1(3) by simp
  have exist: "IsResourceExist fe ?j s1 = Inr (Some row)"
    using only assms(3,6) s1(9)
    by (simp add: IsResourceExist_def FetchResourceModel_def FetchClusterResourceById_def db_ok_def first_count_def)
  have "fetch_member (j_ClusterId ?j) s1 = Inr cluster" "FetchFedResourceModel ?j s1 = Inr f"
      "fe_nsScope fe \<longrightarrow> FetchClusterNamespace fe ?j cluster s1 = Inr ns"
    using assms(7-9) s1(5-8)
    by (simp_all add: fetch_member_def FetchFedResourceModel_def FetchClusterNamespace_def FetchFedNamespace_def
        cong: sum.case_cong)
  from reconcile_eq [OF assms(2) this exist] s1(1,4) show ?thesis
    by (rule_tac x = s1 in exI, rule_tac x = "r_Id row" in exI) simp
qed


section \<open>What detaching and deleting do\<close>

lemma joint_found:
  assumes "distinct (map pair_of js)" "j \<in> set js"
  shows "filter (\<lambda>k. j_ClusterId k = j_ClusterId j \<and> j_FedId k = j_FedId j) js = [j]"
  using assms
proof (induction js)
  case (Cons k ks)
  have "pair_of i \<noteq> pair_of k" if "i \<in> set ks" for i
    using Cons.prems(1) imageI [OF that, of pair_of] by auto
  then show ?case using Cons by (auto simp: filter_empty_conv pair_of_def)
qed simp

text \<open>Detaching a federated resource from a cluster deletes exactly their joint record and nothing
  else: the resource that the attachment made in the cluster stays, although the interface says that
  detaching deletes it.\<close>

theorem PerformDetachCluster_keeps_resource:
  assumes "fed_inv s" "fe_joint_err fe = None" "fe_delete_err fe = None" "j \<in> set (fs_joints s)"
    and "c \<noteq> []" "fe_cluster fe s c = Inr cluster" "cl_Id cluster = j_ClusterId j" "fd_Id obj = j_FedId j"
  shows "\<exists>s'. PerformDetachCluster fe obj c s = Inr (s', None) \<and> fs_joints s' = remove1 j (fs_joints s) \<and>
    fs_resources s' = fs_resources s \<and> IsAttach2Cluster fe s' (fd_Id obj) (cl_Id cluster) = Inr False"
proof -
  have dist: "distinct (map pair_of (fs_joints s))" using assms(1) by (simp add: fed_inv_def)
  note found = joint_found [OF dist assms(4)]
  have "same_pair k j \<longleftrightarrow> j = k" if "k \<in> set (fs_joints s)" for k
    using dist assms(4) that by (auto simp: same_pair_iff distinct_map inj_on_def)
  then have rm: "filter (\<lambda>k. \<not> same_pair k j) (fs_joints s) = remove1 j (fs_joints s)"
    using dist by (simp add: distinct_remove1_removeAll distinct_map removeAll_filter_not_eq cong: filter_cong)
  have gone: "filter (\<lambda>k. j_ClusterId k = j_ClusterId j \<and> j_FedId k = j_FedId j)
      (filter (\<lambda>k. \<not> same_pair k j) (fs_joints s)) = []"
    by (auto simp: filter_empty_conv same_pair_def)
  show ?thesis
    using assms(2-8) found gone
    by (simp add: PerformDetachCluster_def ValidateDetachCluster_def ValidateJointCluster_def data_cluster_def
        GetFederatedJointClusterModel_def detachCluster_def IsAttach2Cluster_def GetJointModel_def Joint_Detach_def
        fed_log_def rm)
qed


text \<open>A federated resource may be deleted exactly if none of its joint records is of a cluster.\<close>

lemma Fed_ValidateDeleteCondition_iff:
  "Fed_ValidateDeleteCondition fe objId s = None \<longleftrightarrow>
     fe_joint_err fe = None \<and> (\<forall>j\<in>set (fs_joints s). j_FedId j = objId \<longrightarrow> j_ClusterId j \<notin> cl_Id ` set (fs_clusters s))"
proof -
  have "(\<forall>c\<in>set (fs_clusters s). cl_Id c \<notin> j_ClusterId ` {j \<in> set (fs_joints s). j_FedId j = objId}) \<longleftrightarrow>
    (\<forall>j\<in>set (fs_joints s). j_FedId j = objId \<longrightarrow> j_ClusterId j \<notin> cl_Id ` set (fs_clusters s))"
    by (force intro: sym)
  then show ?thesis
    by (simp add: Fed_ValidateDeleteCondition_def GetAttachedClusters_def filter_empty_conv split: option.split)
qed

lemma fedns_kinds_iff:
  "fedns_kinds nsId kinds = None \<longleftrightarrow>
     (\<forall>k\<in>set kinds. \<forall>f\<in>set (fs_feds k). fd_NamespaceId f = nsId \<longrightarrow> GetClustersCount k (fd_Id f) = 0)"
  by (induction kinds) (auto simp: FetchModelsByFednamespace_def GetClustersCount_def filter_empty_conv)

text \<open>A federated namespace may be deleted exactly if it is attached to no cluster and no federated
  resource in it is attached to one. Resources in it that are attached nowhere do not prevent it: they
  are left without their namespace and cannot be attached any more.\<close>

theorem FedNamespace_delete_condition:
  "(FedNamespace_ValidateDeleteCondition fe nsId s kinds = None \<longleftrightarrow>
      fe_joint_err fe = None \<and>
      (\<forall>j\<in>set (fs_joints s). j_FedId j = nsId \<longrightarrow> j_ClusterId j \<notin> cl_Id ` set (fs_clusters s)) \<and>
      (\<forall>k\<in>set kinds. \<forall>f\<in>set (fs_feds k). fd_NamespaceId f = nsId \<longrightarrow> GetClustersCount k (fd_Id f) = 0)) \<and>
   (\<forall>k f c. fe_nsScope fe \<and> fd_NamespaceId f \<notin> fd_Id ` set (fs_fednss k) \<longrightarrow>
      (\<forall>r. ValidateAttachCluster fe k f c = Inr r \<longrightarrow> (\<exists>e. r = Inl e)))"
proof -
  have "fetch_fed x rows = Inl (fetch_message ErrNoRows)" if "x \<notin> fd_Id ` set rows" for x rows
    using that by (auto simp: fetch_fed_def filter_empty_conv split: list.splits dest!: filter_eq_ConsD)
  then have attach: "\<exists>e. r = Inl e"
    if "fe_nsScope fe" "fd_NamespaceId f \<notin> fd_Id ` set (fs_fednss k)" "ValidateAttachCluster fe k f c = Inr r" for k f c r
  proof -
    from that(3) obtain b where b: "Base_ValidateAttachCluster fe k (fd_Id f) c = Inr b"
      by (auto simp: ValidateAttachCluster_def gbind_Inr_iff)
    with that show ?thesis
      by (cases b) (auto simp: ValidateAttachCluster_def \<open>\<And>x rows. x \<notin> fd_Id ` set rows \<Longrightarrow> fetch_fed x rows = _\<close>)
  qed
  have "FedNamespace_ValidateDeleteCondition fe nsId s kinds = None \<longleftrightarrow>
    Fed_ValidateDeleteCondition fe nsId s = None \<and> fedns_kinds nsId kinds = None"
    by (simp add: FedNamespace_ValidateDeleteCondition_def split: option.split)
  with attach show ?thesis
    unfolding Fed_ValidateDeleteCondition_iff fedns_kinds_iff by blast
qed

section \<open>A small federation\<close>

definition sample_newId :: "fed_store \<Rightarrow> string" where
  "sample_newId s = fresh_id (fs_resources s @ map (\<lambda>j. (hd sample_table)\<lparr>r_Id := j_ResourceId j\<rparr>) (fs_joints s))"

definition sample_fed_env :: fed_env where
  "sample_fed_env =
     \<lparr>fe_nsScope = True, fe_cluster = (\<lambda>s c. fetch_member c s), fe_db = sample_sync_env, fe_joint_err = None,
      fe_insert_err = None, fe_update_err = None, fe_createData = (\<lambda>_. None), fe_updateData = (\<lambda>_ _. None),
      fe_DoCreate = None, fe_newId = sample_newId, fe_delete_err = None\<rparr>"

definition sample_fed :: fed_row where
  "sample_fed = \<lparr>fd_Id = ''f'', fd_Name = ''role'', fd_NamespaceId = ''fns''\<rparr>"

definition sample_joint :: joint where
  "sample_joint = \<lparr>j_FedId = ''f'', j_ClusterId = ''c'', j_ResourceId = []\<rparr>"

definition sample_ns :: cluster_row where
  "sample_ns = \<lparr>r_Id = ''n1'', r_Name = ''ns'', r_Status = ''active'', r_ExternalId = ''u'', r_ClusterId = ''c'',
     r_ResourceVersion = ''1'', r_NamespaceId = []\<rparr>"

definition sample_fed_store :: fed_store where
  "sample_fed_store =
     \<lparr>fs_clusters = [\<lparr>cl_Id = ''c'', cl_Name = ''east''\<rparr>], fs_feds = [sample_fed],
      fs_fednss = [\<lparr>fd_Id = ''fns'', fd_Name = ''ns'', fd_NamespaceId = []\<rparr>], fs_joints = [sample_joint],
      fs_resources = [], fs_namespaces = [sample_ns], fs_posts = [], fs_logs = []\<rparr>"

lemma sample_newId_fresh:
  "sample_newId s \<noteq> []" "sample_newId s \<notin> r_Id ` set (fs_resources s)" "sample_newId s \<notin> j_ResourceId ` set (fs_joints s)"
  using fresh_id_fresh [of "fs_resources s @ map (\<lambda>j. (hd sample_table)\<lparr>r_Id := j_ResourceId j\<rparr>) (fs_joints s)"]
  unfolding sample_newId_def set_append image_Un set_map image_image Un_iff
  by (simp_all add: fresh_id_def)

lemma sample_fed_ok: "fed_ok sample_fed_env"
  by (auto simp: fed_ok_def sample_fed_env_def sample_newId_fresh dest: fetch_member_in)

lemma sample_calls_ok: "fed_calls_ok sample_fed_env"
  by (simp add: fed_calls_ok_def sample_fed_env_def)

lemma sample_fed_inv: "fed_inv sample_fed_store"
  by (simp add: fed_inv_def sample_fed_store_def)

lemma sample_fetches:
  "fetch_member (j_ClusterId sample_joint) sample_fed_store = Inr \<lparr>cl_Id = ''c'', cl_Name = ''east''\<rparr>"
  "FetchFedResourceModel sample_joint sample_fed_store = Inr sample_fed"
  "FetchClusterNamespace sample_fed_env sample_joint \<lparr>cl_Id = ''c'', cl_Name = ''east''\<rparr> sample_fed_store = Inr sample_ns"
  "IsResourceExist sample_fed_env sample_joint sample_fed_store = Inr None"
  by code_simp+

theorem federation_invariant_witness:
  "distinct (map pair_of (fs_joints (fst (PerformSyncCluster sample_fed_env sample_fed ''c'' sample_fed_store))))"
proof -
  have "fed_step sample_fed_env sample_fed_store (fst (PerformSyncCluster sample_fed_env sample_fed ''c'' sample_fed_store))"
    by (rule fed_sync) (rule prod.collapse [symmetric])
  then have "(fed_step sample_fed_env)\<^sup>*\<^sup>* sample_fed_store (fst (PerformSyncCluster sample_fed_env sample_fed ''c'' sample_fed_store))" ..
  from federation_invariant [OF this sample_fed_ok sample_fed_inv] show ?thesis ..
qed


theorem ReconcileResource_idempotent_witness:
  "\<exists>s1 rid s2. ReconcileResource sample_fed_env sample_joint sample_fed_store = (s1, None) \<and>
     ReconcileResource sample_fed_env (sample_joint\<lparr>j_ResourceId := rid\<rparr>) s1 = (s2, None) \<and>
     fs_resources s2 = fs_resources s1 \<and> fs_posts s2 = fs_posts s1 @ [PostUpdate rid]"
  using ReconcileResource_idempotent [OF sample_fed_ok sample_calls_ok _ sample_fed_inv _ _ sample_fetches(1,2) _ sample_fetches(4),
      of sample_ns] sample_fetches(3) sample_db_ok
  by (simp add: sample_fed_env_def sample_fed_store_def sample_joint_def) blast

theorem PerformDetachCluster_keeps_resource_witness:
  "\<exists>s'. PerformDetachCluster sample_fed_env sample_fed ''c'' sample_fed_store = Inr (s', None) \<and> fs_joints s' = []"
proof -
  have "sample_joint \<in> set (fs_joints sample_fed_store)" by (simp add: sample_fed_store_def)
  from PerformDetachCluster_keeps_resource [OF sample_fed_inv _ _ this, of sample_fed_env "''c''" "\<lparr>cl_Id = ''c'', cl_Name = ''east''\<rparr>" sample_fed]
    sample_fetches(1) show ?thesis
    by (simp add: sample_fed_env_def sample_joint_def sample_fed_def sample_fed_store_def) blast
qed

theorem FedNamespace_delete_condition_witness:
  "FedNamespace_ValidateDeleteCondition sample_fed_env ''fns'' sample_fed_store [sample_fed_store\<lparr>fs_joints := []\<rparr>] = None"
  using FedNamespace_delete_condition [of sample_fed_env "''fns''" sample_fed_store "[sample_fed_store\<lparr>fs_joints := []\<rparr>]"]
  by (simp add: sample_fed_env_def sample_fed_store_def sample_joint_def GetClustersCount_def)

end
