(* ===== verification/ClusterDelete.thy ===== *)
theory ClusterDelete
  imports SyncTask Federation
begin

text \<open>
  The deletion of a cluster's record, \<open>SCluster.RealDelete\<close> of src/pkg/models/clusters.go, with all that goes before
  it: the key pairs (x509_keypair.go, clusterx509keypairs.go), the components (clustercomponents.go), the rows of its
  resources in the tables of all managers and its joint records of all federated kinds. Shown: a deletion that succeeds leaves no
  trace of the cluster and everything of the others, and one that fails keeps the record of the cluster, so that
  it can be repeated.
\<close>

section \<open>The store\<close>

text \<open>Joint records are pairs of a cluster id and the id of a key pair or a component.\<close>

record delete_store =
  ds_keypairs :: "string list"
  ds_clusterKeypairs :: "(string \<times> string) list"
  ds_components :: "string list"
  ds_clusterComponents :: "(string \<times> string) list"
  ds_tables :: "string \<Rightarrow> table"
  ds_feds :: "(fed_env \<times> fed_store) list"
  ds_clusters :: "string list"

text \<open>The errors of the database; \<open>rd_manager\<close> is the environment of the manager of a name.\<close>

record real_delete_env =
  rd_keypairs_err :: "string option"
  rd_detach_err :: "string option"
  rd_keypair_err :: "string \<Rightarrow> string option"
  rd_components_err :: "string option"
  rd_component_err :: "string \<Rightarrow> string option"
  rd_manager :: "string \<Rightarrow> sync_env"
  rd_delete_err :: "string option"

section \<open>Key pairs\<close>

definition GetKeyPairsByCluster :: "string \<Rightarrow> delete_store \<Rightarrow> string list" where
  "GetKeyPairsByCluster c s =
     filter (\<lambda>kp. kp \<in> set (map snd (filter (\<lambda>j. fst j = c) (ds_clusterKeypairs s)))) (ds_keypairs s)"

text \<open>The first joint record of the key pair is detached, whatever its cluster.\<close>

definition KeyPair_Delete :: "real_delete_env \<Rightarrow> string \<Rightarrow> delete_store \<Rightarrow> delete_store \<times> string option" where
  "KeyPair_Delete e kp s =
     (case find (\<lambda>j. snd j = kp) (ds_clusterKeypairs s) of
        None \<Rightarrow> (s, Some ''delete cluster joint keypair: sql: no rows in result set'')
      | Some ckp \<Rightarrow>
          (case rd_detach_err e of
             Some err \<Rightarrow> (s, Some (''detach keypair '' @ kp @ '' joint: '' @ err))
           | None \<Rightarrow>
               let s1 = s\<lparr>ds_clusterKeypairs := removeAll ckp (ds_clusterKeypairs s)\<rparr> in
               case rd_keypair_err e kp of
                 Some err \<Rightarrow> (s1, Some err)
               | None \<Rightarrow> (s1\<lparr>ds_keypairs := removeAll kp (ds_keypairs s1)\<rparr>, None)))"

fun delete_keypairs :: "real_delete_env \<Rightarrow> string list \<Rightarrow> delete_store \<Rightarrow> delete_store \<times> string option" where
  "delete_keypairs e [] s = (s, None)"
| "delete_keypairs e (kp # kps) s =
     (case KeyPair_Delete e kp s of
        (s1, Some err) \<Rightarrow> (s1, Some (''Delete keypair '' @ kp @ '': '' @ err))
      | (s1, None) \<Rightarrow> delete_keypairs e kps s1)"

definition DeleteKeyPairsByCluster :: "real_delete_env \<Rightarrow> string \<Rightarrow> delete_store \<Rightarrow> delete_store \<times> string option" where
  "DeleteKeyPairsByCluster e c s =
     (case rd_keypairs_err e of
        Some err \<Rightarrow> (s, Some (''GetKeyPairsByClusters: '' @ err))
      | None \<Rightarrow> delete_keypairs e (GetKeyPairsByCluster c s) s)"

section \<open>Components\<close>

definition GetClusterComponents :: "string \<Rightarrow> delete_store \<Rightarrow> (string \<times> string) list" where
  "GetClusterComponents c s = filter (\<lambda>j. fst j = c) (ds_clusterComponents s)"

fun delete_components :: "real_delete_env \<Rightarrow> (string \<times> string) list \<Rightarrow> delete_store \<Rightarrow> delete_store \<times> string option" where
  "delete_components e [] s = (s, None)"
| "delete_components e (cp # cps) s =
     (if snd cp \<notin> set (ds_components s) then (s, Some ''sql: no rows in result set'')
      else case rd_detach_err e of
             Some err \<Rightarrow> (s, Some err)
           | None \<Rightarrow>
               let s1 = s\<lparr>ds_clusterComponents := removeAll cp (ds_clusterComponents s)\<rparr> in
               case rd_component_err e (snd cp) of
                 Some err \<Rightarrow> (s1, Some err)
               | None \<Rightarrow> delete_components e cps (s1\<lparr>ds_components := removeAll (snd cp) (ds_components s1)\<rparr>))"

definition DeleteAllComponents :: "real_delete_env \<Rightarrow> string \<Rightarrow> delete_store \<Rightarrow> delete_store \<times> string option" where
  "DeleteAllComponents e c s =
     (case rd_components_err e of
        Some err \<Rightarrow> (s, Some err)
      | None \<Rightarrow> delete_components e (GetClusterComponents c s) s)"

section \<open>Resources\<close>

text \<open>The sub-managers first.\<close>

fun purgeSubClusterResource ::
  "real_delete_env \<Rightarrow> string \<Rightarrow> syncable_manager list \<Rightarrow> (string \<Rightarrow> table) \<Rightarrow> (string \<Rightarrow> table) \<times> string option" where
  "purgeSubClusterResource e c [] tables = (tables, None)"
| "purgeSubClusterResource e c (SyncableManager man subs # mans) tables =
     (case purgeSubClusterResource e c subs tables of
        (t1, Some err) \<Rightarrow> (t1, Some (''purge resource '' @ man @ '' subresource: '' @ err))
      | (t1, None) \<Rightarrow>
          (case PurgeAllByCluster (rd_manager e man) c (t1 man) of
             (tbl, Some err) \<Rightarrow> (t1(man := tbl), Some (''purge subresource '' @ man @ '': '' @ err))
           | (tbl, None) \<Rightarrow> purgeSubClusterResource e c mans (t1(man := tbl))))"

fun PurgeAllFedResource :: "string \<Rightarrow> (fed_env \<times> fed_store) list \<Rightarrow> (fed_env \<times> fed_store) list \<times> string option" where
  "PurgeAllFedResource c [] = ([], None)"
| "PurgeAllFedResource c ((fe, s) # rest) =
     (case Fed_PurgeAllByCluster fe c s of
        (s1, Some err) \<Rightarrow> ((fe, s1) # rest, Some (''purge federated resource: '' @ err))
      | (s1, None) \<Rightarrow> (let (rest1, err) = PurgeAllFedResource c rest in ((fe, s1) # rest1, err)))"

definition Cluster_RealDelete :: "real_delete_env \<Rightarrow> syncable_manager list \<Rightarrow> string \<Rightarrow> delete_store \<Rightarrow> delete_store \<times> string option" where
  "Cluster_RealDelete e mans c s =
     (case DeleteKeyPairsByCluster e c s of
        (s1, Some err) \<Rightarrow> (s1, Some (''DeleteKeyPairsByCluster: '' @ err))
      | (s1, None) \<Rightarrow>
          (case DeleteAllComponents e c s1 of
             (s2, Some err) \<Rightarrow> (s2, Some (''DeleteClusterComponent: '' @ err))
           | (s2, None) \<Rightarrow>
               (case purgeSubClusterResource e c mans (ds_tables s2) of
                  (t, Some err) \<Rightarrow> (s2\<lparr>ds_tables := t\<rparr>, Some (''Purge all k8s cluster db resources: '' @ err))
                | (t, None) \<Rightarrow>
                    (case PurgeAllFedResource c (ds_feds s2) of
                       (f, Some err) \<Rightarrow> (s2\<lparr>ds_tables := t, ds_feds := f\<rparr>, Some (''Purge all federated cluster resources: '' @ err))
                     | (f, None) \<Rightarrow>
                         (case rd_delete_err e of
                            Some err \<Rightarrow> (s2\<lparr>ds_tables := t, ds_feds := f\<rparr>, Some err)
                          | None \<Rightarrow> (s2\<lparr>ds_tables := t, ds_feds := f, ds_clusters := removeAll c (ds_clusters s2)\<rparr>, None))))))"

section \<open>The stages\<close>

text \<open>A database that does not fail, and records that refer to what exists: key pairs belong to one cluster each.\<close>

definition deletes_ok :: "real_delete_env \<Rightarrow> bool" where
  "deletes_ok e \<longleftrightarrow> rd_keypairs_err e = None \<and> rd_detach_err e = None \<and> (\<forall>k. rd_keypair_err e k = None) \<and>
     rd_components_err e = None \<and> (\<forall>k. rd_component_err e k = None) \<and> rd_delete_err e = None"

definition refs_ok :: "delete_store \<Rightarrow> bool" where
  "refs_ok s \<longleftrightarrow> snd ` set (ds_clusterKeypairs s) \<subseteq> set (ds_keypairs s) \<and> distinct (map snd (ds_clusterKeypairs s)) \<and>
     distinct (ds_keypairs s) \<and> snd ` set (ds_clusterComponents s) \<subseteq> set (ds_components s) \<and> distinct (map snd (ds_clusterComponents s))"

lemma find_joint: "distinct (map snd js) \<Longrightarrow> (c, k) \<in> set js \<Longrightarrow> find (\<lambda>j. snd j = k) js = Some (c, k)"
  by (induction js) (auto simp: image_iff)

lemma delete_keypairs_ok:
  assumes "deletes_ok e" "distinct (map snd (ds_clusterKeypairs s))" "distinct kps" "\<forall>k\<in>set kps. (c, k) \<in> set (ds_clusterKeypairs s)"
  shows "delete_keypairs e kps s =
    (s\<lparr>ds_clusterKeypairs := filter (\<lambda>j. snd j \<notin> set kps) (ds_clusterKeypairs s),
       ds_keypairs := filter (\<lambda>k. k \<notin> set kps) (ds_keypairs s)\<rparr>, None)"
  using assms(2-4)
proof (induction kps arbitrary: s)
  case (Cons k kps)
  let ?s1 = "s\<lparr>ds_clusterKeypairs := removeAll (c, k) (ds_clusterKeypairs s), ds_keypairs := removeAll k (ds_keypairs s)\<rparr>"
  have find: "find (\<lambda>j. snd j = k) (ds_clusterKeypairs s) = Some (c, k)" using Cons.prems by (intro find_joint) auto
  then have "KeyPair_Delete e k s = (?s1, None)" using assms(1) by (simp add: KeyPair_Delete_def deletes_ok_def Let_def)
  moreover have "delete_keypairs e kps ?s1 =
    (?s1\<lparr>ds_clusterKeypairs := filter (\<lambda>j. snd j \<notin> set kps) (ds_clusterKeypairs ?s1),
       ds_keypairs := filter (\<lambda>k. k \<notin> set kps) (ds_keypairs ?s1)\<rparr>, None)"
    by (rule Cons.IH) (use Cons.prems in \<open>auto simp: removeAll_filter_not_eq distinct_map_filter\<close>)
  moreover have "filter (\<lambda>j. snd j \<notin> set kps) (removeAll (c, k) (ds_clusterKeypairs s)) =
      filter (\<lambda>j. snd j \<notin> set (k # kps)) (ds_clusterKeypairs s)"
  proof -
    have "(c, k) \<noteq> j \<longleftrightarrow> snd j \<noteq> k" if "j \<in> set (ds_clusterKeypairs s)" for j
      using Cons.prems(1,3) that by (auto simp: distinct_map inj_on_def)
    then show ?thesis by (auto simp: removeAll_filter_not_eq intro!: filter_cong)
  qed
  moreover have "filter (\<lambda>x. x \<notin> set kps) (removeAll k (ds_keypairs s)) = filter (\<lambda>x. x \<notin> set (k # kps)) (ds_keypairs s)"
    by (auto simp: removeAll_filter_not_eq intro!: filter_cong)
  ultimately show ?case by simp
qed simp


lemma delete_components_ok:
  assumes "deletes_ok e" "distinct (map snd cps)" "snd ` set cps \<subseteq> set (ds_components s)"
  shows "delete_components e cps s =
    (s\<lparr>ds_clusterComponents := filter (\<lambda>j. j \<notin> set cps) (ds_clusterComponents s),
       ds_components := filter (\<lambda>k. k \<notin> snd ` set cps) (ds_components s)\<rparr>, None)"
  using assms(2,3)
proof (induction cps arbitrary: s)
  case (Cons cp cps)
  let ?s1 = "s\<lparr>ds_clusterComponents := removeAll cp (ds_clusterComponents s), ds_components := removeAll (snd cp) (ds_components s)\<rparr>"
  have "delete_components e (cp # cps) s = delete_components e cps ?s1"
    using assms(1) Cons.prems(2) by (simp add: deletes_ok_def Let_def)
  also have "\<dots> = (?s1\<lparr>ds_clusterComponents := filter (\<lambda>j. j \<notin> set cps) (ds_clusterComponents ?s1),
       ds_components := filter (\<lambda>k. k \<notin> snd ` set cps) (ds_components ?s1)\<rparr>, None)"
  proof (rule Cons.IH)
    have "snd cp \<notin> snd ` set cps" "snd ` set cps \<subseteq> set (ds_components s)" using Cons.prems by simp_all
    then show "snd ` set cps \<subseteq> set (ds_components ?s1)" by (simp add: subset_Diff_insert)
  qed (use Cons.prems(1) in simp)
  also have "filter (\<lambda>j. j \<notin> set cps) (removeAll cp xs) = filter (\<lambda>j. j \<notin> set (cp # cps)) xs" for xs
    by (auto simp: removeAll_filter_not_eq intro!: filter_cong)
  moreover have "filter (\<lambda>k. k \<notin> snd ` set cps) (removeAll (snd cp) xs) = filter (\<lambda>k. k \<notin> snd ` set (cp # cps)) xs" for xs
    by (auto simp: removeAll_filter_not_eq intro!: filter_cong)
  ultimately show ?case by simp
qed simp

lemma purgeSubClusterResource_ok:
  assumes "distinct (all_names mans)" "\<forall>n\<in>set (all_names mans). db_ok (rd_manager e n) \<and> distinct (map r_Id (tables n))"
  shows "purgeSubClusterResource e c mans tables =
    (\<lambda>n. if n \<in> set (all_names mans) then filter (\<lambda>r. r_ClusterId r \<noteq> c) (tables n) else tables n, None)"
  using assms
proof (induction e c mans tables rule: purgeSubClusterResource.induct)
  case (2 e c man subs mans tables)
  let ?keep = "\<lambda>ns t n. if n \<in> set ns then filter (\<lambda>r. r_ClusterId r \<noteq> c) (t n) else t n"
  let ?t1 = "?keep (all_names subs) tables"
  have t1: "purgeSubClusterResource e c subs tables = (?t1, None)" by (rule "2.IH"(1)) (use "2.prems" in auto)
  have man: "?t1 man = tables man" "db_ok (rd_manager e man)" "distinct (map r_Id (tables man))" using "2.prems" by auto
  have del: "PurgeAllByCluster (rd_manager e man) c (?t1 man) = (filter (\<lambda>r. r_ClusterId r \<noteq> c) (tables man), None)"
    using PurgeAllByCluster_filter [OF man(2,3)] man(1) by simp
  let ?t2 = "?t1(man := filter (\<lambda>r. r_ClusterId r \<noteq> c) (tables man))"
  have "purgeSubClusterResource e c mans ?t2 = (?keep (all_names mans) ?t2, None)"
    by (rule "2.IH"(2) [OF t1 [symmetric] refl del [symmetric] refl]) (use "2.prems" in auto)
  with t1 del "2.prems"(1) show ?case by (auto simp: fun_eq_iff)
qed simp

lemma purge_joints_ok:
  assumes "fe_joint_err fe = None" "fe_delete_err fe = None"
  shows "purge_joints fe c objs s =
    (s\<lparr>fs_joints := filter (\<lambda>j. \<not> (j_ClusterId j = c \<and> j_FedId j \<in> fd_Id ` set objs)) (fs_joints s)\<rparr>, None)"
proof (induction objs arbitrary: s)
  case (Cons obj objs)
  let ?here = "\<lambda>j. j_ClusterId j = c \<and> j_FedId j = fd_Id obj"
  let ?s1 = "s\<lparr>fs_joints := filter (\<lambda>j. \<not> ?here j) (fs_joints s)\<rparr>"
  have "purge_joints fe c (obj # objs) s = purge_joints fe c objs ?s1"
  proof (cases "filter ?here (fs_joints s)")
    case Nil
    then have "?s1 = s" by (simp add: filter_empty_conv filter_id_conv)
    then show ?thesis using Nil assms(1) by (simp add: GetJointModel_def GetFederatedJointClusterModel_def)
  next
    case (Cons j js)
    then have j: "?here j" by (metis (mono_tags, lifting) filter_eq_ConsD)
    then have "same_pair k j \<longleftrightarrow> ?here k" for k by (auto simp: same_pair_def)
    then show ?thesis
      using Cons assms by (simp add: GetJointModel_def GetFederatedJointClusterModel_def Joint_Detach_def)
  qed
  then show ?case by (simp add: Cons.IH) (auto intro!: arg_cong [of _ _ "\<lambda>js. s\<lparr>fs_joints := js\<rparr>"] filter_cong)
qed simp

definition fed_refs_ok :: "fed_env \<times> fed_store \<Rightarrow> bool" where
  "fed_refs_ok x \<longleftrightarrow> fe_joint_err (fst x) = None \<and> fe_delete_err (fst x) = None \<and>
     j_FedId ` set (fs_joints (snd x)) \<subseteq> fd_Id ` set (fs_feds (snd x))"

definition without_cluster :: "string \<Rightarrow> fed_store \<Rightarrow> fed_store" where
  "without_cluster c s = s\<lparr>fs_joints := filter (\<lambda>j. j_ClusterId j \<noteq> c) (fs_joints s)\<rparr>"

lemma Fed_PurgeAllByCluster_ok:
  assumes "fed_refs_ok (fe, s)"
  shows "Fed_PurgeAllByCluster fe c s = (without_cluster c s, None)"
proof -
  let ?objs = "filter (\<lambda>f. fd_Id f \<in> set (map j_FedId (filter (\<lambda>j. j_ClusterId j = c) (fs_joints s)))) (fs_feds s)"
  have "j_FedId j \<in> fd_Id ` set ?objs" if "j \<in> set (fs_joints s)" "j_ClusterId j = c" for j
  proof -
    from assms that obtain f where "f \<in> set (fs_feds s)" "j_FedId j = fd_Id f" by (auto simp: fed_refs_ok_def)
    then show ?thesis using that by force
  qed
  then show ?thesis
    using assms unfolding Fed_PurgeAllByCluster_def without_cluster_def
    by (auto simp: fed_refs_ok_def purge_joints_ok intro!: arg_cong [of _ _ "\<lambda>js. s\<lparr>fs_joints := js\<rparr>"] filter_cong)
qed

lemma PurgeAllFedResource_ok:
  "\<forall>x\<in>set fs. fed_refs_ok x \<Longrightarrow> PurgeAllFedResource c fs = (map (apsnd (without_cluster c)) fs, None)"
  by (induction c fs rule: PurgeAllFedResource.induct) (auto simp: Fed_PurgeAllByCluster_ok)


section \<open>The deletion as a whole\<close>

text \<open>C9: A deletion that succeeds leaves no trace of the cluster: no joint record with a key pair or a component and none
  of these themselves, no row in the table of any manager, no joint record of a federated resource, and no
  cluster record. What belongs to other clusters is untouched.\<close>

theorem Cluster_RealDelete_complete:
  assumes "deletes_ok e" "refs_ok s" "distinct (all_names mans)"
    and "\<forall>n\<in>set (all_names mans). db_ok (rd_manager e n) \<and> distinct (map r_Id (ds_tables s n))" "\<forall>x\<in>set (ds_feds s). fed_refs_ok x"
  shows "\<exists>s'. Cluster_RealDelete e mans c s = (s', None) \<and> c \<notin> set (ds_clusters s') \<and>
    ds_clusterKeypairs s' = filter (\<lambda>j. fst j \<noteq> c) (ds_clusterKeypairs s) \<and>
    ds_keypairs s' = filter (\<lambda>k. (c, k) \<notin> set (ds_clusterKeypairs s)) (ds_keypairs s) \<and>
    ds_clusterComponents s' = filter (\<lambda>j. fst j \<noteq> c) (ds_clusterComponents s) \<and>
    ds_components s' = filter (\<lambda>k. (c, k) \<notin> set (ds_clusterComponents s)) (ds_components s) \<and>
    (\<forall>n\<in>set (all_names mans). ds_tables s' n = filter (\<lambda>r. r_ClusterId r \<noteq> c) (ds_tables s n)) \<and>
    map snd (ds_feds s') = map (without_cluster c \<circ> snd) (ds_feds s)"
proof -
  let ?kps = "GetKeyPairsByCluster c s" and ?cps = "GetClusterComponents c s"
  have refs: "distinct (map snd (ds_clusterKeypairs s))" "distinct (ds_keypairs s)" "distinct (map snd (ds_clusterComponents s))"
    using assms(2) by (simp_all add: refs_ok_def)
  have kps: "set ?kps = {k. (c, k) \<in> set (ds_clusterKeypairs s)}" "distinct ?kps"
    using assms(2) by (force simp: GetKeyPairsByCluster_def refs_ok_def image_iff)+
  have inj: "snd j \<in> set ?kps \<longleftrightarrow> fst j = c" if "j \<in> set (ds_clusterKeypairs s)" for j
  proof -
    have "(c, snd j) = j" if "(c, snd j) \<in> set (ds_clusterKeypairs s)"
      using inj_onD [of snd "set (ds_clusterKeypairs s)" "(c, snd j)" j] refs(1) that \<open>j \<in> _\<close> by (simp add: distinct_map)
    then show ?thesis unfolding kps(1) using that by (cases j) auto
  qed
  have k: "DeleteKeyPairsByCluster e c s = (s\<lparr>ds_clusterKeypairs := filter (\<lambda>j. fst j \<noteq> c) (ds_clusterKeypairs s),
       ds_keypairs := filter (\<lambda>k. (c, k) \<notin> set (ds_clusterKeypairs s)) (ds_keypairs s)\<rparr>, None)"
    (is "_ = (?s1, None)")
  proof -
    have "DeleteKeyPairsByCluster e c s = delete_keypairs e ?kps s" using assms(1) by (simp add: DeleteKeyPairsByCluster_def deletes_ok_def)
    also have "\<dots> = (s\<lparr>ds_clusterKeypairs := filter (\<lambda>j. snd j \<notin> set ?kps) (ds_clusterKeypairs s),
       ds_keypairs := filter (\<lambda>k. k \<notin> set ?kps) (ds_keypairs s)\<rparr>, None)"
      by (rule delete_keypairs_ok [OF assms(1) refs(1) kps(2), where c = c]) (simp add: kps(1))
    also have "filter (\<lambda>j. snd j \<notin> set ?kps) (ds_clusterKeypairs s) = filter (\<lambda>j. fst j \<noteq> c) (ds_clusterKeypairs s)"
      using inj by (intro filter_cong) auto
    finally show ?thesis by (simp add: kps(1))
  qed
  have cset: "snd ` set ?cps = {k. (c, k) \<in> set (ds_clusterComponents s)}" by (force simp: GetClusterComponents_def)
  have "DeleteAllComponents e c ?s1 = delete_components e ?cps ?s1"
    using assms(1) by (simp add: DeleteAllComponents_def deletes_ok_def GetClusterComponents_def)
  also have "\<dots> = (?s1\<lparr>ds_clusterComponents := filter (\<lambda>j. j \<notin> set ?cps) (ds_clusterComponents s),
       ds_components := filter (\<lambda>k. k \<notin> snd ` set ?cps) (ds_components s)\<rparr>, None)"
    using delete_components_ok [OF assms(1), of ?cps ?s1] assms(2) refs(3)
    by (auto simp: GetClusterComponents_def refs_ok_def distinct_map_filter)
  also have "filter (\<lambda>j. j \<notin> set ?cps) (ds_clusterComponents s) = filter (\<lambda>j. fst j \<noteq> c) (ds_clusterComponents s)"
    by (intro filter_cong) (auto simp: GetClusterComponents_def)
  finally show ?thesis
    using k purgeSubClusterResource_ok [OF assms(3,4)] PurgeAllFedResource_ok [OF assms(5)] assms(1)
    by (simp add: Cluster_RealDelete_def cset deletes_ok_def)
qed

lemma delete_keypairs_clusters: "ds_clusters (fst (delete_keypairs e kps s)) = ds_clusters s"
proof (induction kps arbitrary: s)
  case (Cons k kps)
  have "ds_clusters (fst (KeyPair_Delete e k s)) = ds_clusters s" by (auto simp: KeyPair_Delete_def Let_def split: option.splits)
  then show ?case using Cons.IH by (auto split: prod.split option.split)
qed simp

lemma delete_components_clusters: "ds_clusters (fst (delete_components e cps s)) = ds_clusters s"
  by (induction e cps s rule: delete_components.induct) (auto simp: Let_def split: option.split)

text \<open>A deletion that fails, at whatever stage, keeps the record of the cluster.\<close>

theorem Cluster_RealDelete_failed:
  assumes "Cluster_RealDelete e mans c s = (s', Some err)"
  shows "ds_clusters s' = ds_clusters s"
proof -
  have "ds_clusters (fst (DeleteKeyPairsByCluster e c s)) = ds_clusters s" for s
    by (simp add: DeleteKeyPairsByCluster_def delete_keypairs_clusters split: option.split)
  moreover have "ds_clusters (fst (DeleteAllComponents e c s)) = ds_clusters s" for s
    by (simp add: DeleteAllComponents_def delete_components_clusters split: option.split)
  ultimately show ?thesis
    using assms by (auto simp: Cluster_RealDelete_def split: prod.splits option.splits) (metis fst_conv)+
qed


section \<open>A sample\<close>

definition sample_delete_env :: real_delete_env where
  "sample_delete_env = \<lparr>rd_keypairs_err = None, rd_detach_err = None, rd_keypair_err = (\<lambda>_. None), rd_components_err = None,
     rd_component_err = (\<lambda>_. None), rd_manager = (\<lambda>_. sample_sync_env), rd_delete_err = None\<rparr>"

definition sample_delete_store :: delete_store where
  "sample_delete_store = \<lparr>ds_keypairs = [''ca'', ''other''], ds_clusterKeypairs = [(''c'', ''ca''), (''d'', ''other'')],
     ds_components = [''monitor''], ds_clusterComponents = [(''c'', ''monitor'')], ds_tables = (\<lambda>_. sample_table),
     ds_feds = [(sample_fed_env, sample_fed_store)], ds_clusters = [''c'', ''d'']\<rparr>"

theorem Cluster_RealDelete_complete_witness:
  "\<exists>s'. Cluster_RealDelete sample_delete_env [SyncableManager ''nodes'' [SyncableManager ''pods'' []]] ''c'' sample_delete_store = (s', None) \<and>
     ''c'' \<notin> set (ds_clusters s') \<and> ds_clusterKeypairs s' = [(''d'', ''other'')]"
proof -
  let ?mans = "[SyncableManager ''nodes'' [SyncableManager ''pods'' []]]"
  have ok: "deletes_ok sample_delete_env" by (simp add: deletes_ok_def sample_delete_env_def)
  have refs: "refs_ok sample_delete_store" by (simp add: refs_ok_def sample_delete_store_def)
  have names: "distinct (all_names ?mans)" by simp
  have tables: "\<forall>n\<in>set (all_names ?mans). db_ok (rd_manager sample_delete_env n) \<and> distinct (map r_Id (ds_tables sample_delete_store n))"
    by (simp add: sample_delete_env_def sample_delete_store_def sample_db_ok) (simp add: sample_table_def)
  have feds: "\<forall>x\<in>set (ds_feds sample_delete_store). fed_refs_ok x"
    by (simp add: sample_delete_store_def fed_refs_ok_def sample_fed_env_def sample_fed_store_def sample_joint_def sample_fed_def)
  have "filter (\<lambda>j. fst j \<noteq> ''c'') (ds_clusterKeypairs sample_delete_store) = [(''d'', ''other'')]" by (simp add: sample_delete_store_def)
  then show ?thesis using Cluster_RealDelete_complete [OF ok refs names tables feds, of "''c''"] by metis
qed

theorem Cluster_RealDelete_failed_witness:
  "ds_clusters (fst (Cluster_RealDelete (sample_delete_env\<lparr>rd_detach_err := Some ''locked''\<rparr>) [] ''c'' sample_delete_store)) = [''c'', ''d'']"
proof -
  have "\<exists>s' err. Cluster_RealDelete (sample_delete_env\<lparr>rd_detach_err := Some ''locked''\<rparr>) [] ''c'' sample_delete_store = (s', Some err)"
    by (simp add: Cluster_RealDelete_def DeleteKeyPairsByCluster_def GetKeyPairsByCluster_def KeyPair_Delete_def
        sample_delete_env_def sample_delete_store_def)
  then obtain s' err where r: "Cluster_RealDelete (sample_delete_env\<lparr>rd_detach_err := Some ''locked''\<rparr>) [] ''c'' sample_delete_store = (s', Some err)"
    by blast
  with Cluster_RealDelete_failed [OF r] show ?thesis by (simp add: sample_delete_store_def)
qed

end
