(* ===== verification/HostClusters.thy ===== *)
theory HostClusters
  imports Machines
begin

text \<open>
  Machines on hosts: the checks of src/pkg/drivers/yunion_host/common.go and the host driver of machines, src/pkg/drivers/machines/yunion_host.go.
  The compute service that knows the hosts and the remote shell are an environment. Shown: machines that are added to a
  cluster are on known hosts of the right kind that no machine uses; but the validation of a new cluster does
  not wait for its checks and accepts any host.
\<close>

section \<open>Hosts\<close>

definition HostTypeKVM :: string where "HostTypeKVM = ''hypervisor''"
definition HostTypeKubelet :: string where "HostTypeKubelet = ''kubelet''"

record host_obj =
  h_id :: string
  h_type :: string
  h_name :: "string option"
  h_access_ip :: string

text \<open>The answers of the session, the key, the compute service and the shell of a host, and the order in which goroutines
  end; \<open>he_done\<close> are the goroutines that end before their caller goes on without waiting.\<close>

record host_env =
  he_session_err :: "string option"
  he_key_err :: "string option"
  he_get :: "string \<Rightarrow> string + host_obj"
  he_ssh :: "string \<Rightarrow> string option"
  he_which :: "string \<Rightarrow> string option"
  he_order :: "nat list"
  he_done :: "nat list"

definition GetMachineByResourceId :: "string \<Rightarrow> machine_store \<Rightarrow> machine option" where
  "GetMachineByResourceId resId s = List.find (\<lambda>m. m_ResourceId m = resId) (machines s)"

definition RemoteCheckHostEnvironment :: "host_env \<Rightarrow> string \<Rightarrow> string option" where
  "RemoteCheckHostEnvironment e host =
     (case he_ssh e host of
        Some err \<Rightarrow> Some (''create ssh '' @ host @ '' connection: '' @ err)
      | None \<Rightarrow> map_option (\<lambda>err. ''required binary not exists: '' @ err) (he_which e host))"

text \<open>\<open>errgroup.Group\<close>: \<open>Wait\<close> answers the error of the first goroutine that failed.\<close>

fun group_Wait :: "(nat \<Rightarrow> string option) \<Rightarrow> nat list \<Rightarrow> string option" where
  "group_Wait f [] = None"
| "group_Wait f (k # ks) = (case f k of Some err \<Rightarrow> Some err | None \<Rightarrow> group_Wait f ks)"

definition RemoteCheckHostsEnvironment :: "host_env \<Rightarrow> string list \<Rightarrow> string option" where
  "RemoteCheckHostsEnvironment e hosts =
     group_Wait (\<lambda>k. map_option (\<lambda>err. ''Host '' @ hosts ! k @ '' bad environment: '' @ err)
                   (RemoteCheckHostEnvironment e (hosts ! k))) (he_order e)"

definition Host_ValidateResourceType :: "string \<Rightarrow> string option" where
  "Host_ValidateResourceType resType =
     (if resType \<noteq> MachineResourceTypeBaremetal then Some (''Invalid resource type: '' @ resType) else None)"

definition ValidateHostId :: "host_env \<Rightarrow> machine_store \<Rightarrow> string \<Rightarrow> string + host_obj" where
  "ValidateHostId e s hostId =
     (case he_get e hostId of
        Inl err \<Rightarrow> Inl err
      | Inr ret \<Rightarrow>
          (case GetMachineByResourceId (h_id ret) s of
             Some m \<Rightarrow> Inl (''Machine '' @ m_Name m @ '' already use host '' @ h_id ret)
           | None \<Rightarrow>
               if h_type ret \<notin> {HostTypeKVM, HostTypeKubelet} then Inl (''Host '' @ h_id ret @ '' invalid host_type '' @ h_type ret)
               else case RemoteCheckHostEnvironment e (h_access_ip ret) of
                      Some err \<Rightarrow> Inl (''host '' @ h_access_ip ret @ '': '' @ err)
                    | None \<Rightarrow> Inr ret))"

text \<open>The machine gets the name of its host.\<close>

definition Host_validateCreateMachine :: "host_env \<Rightarrow> machine_store \<Rightarrow> machine_input \<Rightarrow> string + machine_input" where
  "Host_validateCreateMachine e s m =
     (case ValidateRole (in_Role m) of
        Some err \<Rightarrow> Inl err
      | None \<Rightarrow>
          (case Host_ValidateResourceType (in_ResourceType m) of
             Some err \<Rightarrow> Inl err
           | None \<Rightarrow>
               if length (in_ResourceId m) = 0 then Inl ''ResourceId must provided''
               else case ValidateHostId e s (in_ResourceId m) of
                      Inl err \<Rightarrow> Inl err
                    | Inr hostObj \<Rightarrow>
                        (case h_name hostObj of
                           None \<Rightarrow> Inl ''not found host name''
                         | Some hostName \<Rightarrow> Inr (m\<lparr>in_Name := hostName\<rparr>))))"

definition CheckControlplaneExists :: "string \<Rightarrow> machine_store \<Rightarrow> string option" where
  "CheckControlplaneExists clusterId s =
     (case getControlplaneMachine True clusterId s of
        Inl err \<Rightarrow> Some (''CheckControlplaneExists: '' @ err)
      | Inr _ \<Rightarrow> None)"

text \<open>The inputs are pointers that the goroutines write to.\<close>

definition error_of :: "string + 'a \<Rightarrow> string option" where
  "error_of r = (case r of Inl err \<Rightarrow> Some err | Inr _ \<Rightarrow> None)"

definition value_of :: "'a \<Rightarrow> string + 'a \<Rightarrow> 'a" where
  "value_of d r = (case r of Inl _ \<Rightarrow> d | Inr x \<Rightarrow> x)"

definition Host_ValidateMachines :: "host_env \<Rightarrow> machine_store \<Rightarrow> machine_input list \<Rightarrow> string + machine_input list" where
  "Host_ValidateMachines e s ms =
     (case he_session_err e of
        Some err \<Rightarrow> Inl err
      | None \<Rightarrow>
          (case he_key_err e of
             Some err \<Rightarrow> Inl err
           | None \<Rightarrow>
               (case group_Wait (\<lambda>k. error_of (Host_validateCreateMachine e s (ms ! k))) (he_order e) of
                  Some err \<Rightarrow> Inl err
                | None \<Rightarrow> Inr (map (\<lambda>m. value_of m (Host_validateCreateMachine e s m)) ms))))"

text \<open>The method of the host driver of clusters.\<close>

definition Host_ValidateCreateMachines ::
  "host_env \<Rightarrow> (string \<times> string) option \<Rightarrow> machine_store \<Rightarrow> machine_input list \<Rightarrow> string + machine_input list" where
  "Host_ValidateCreateMachines e cluster s data =
     (case Base_ValidateCreateMachines cluster s data of
        Inl err \<Rightarrow> Inl err
      | Inr _ \<Rightarrow> Host_ValidateMachines e s (map (in_cluster (cluster_id cluster)) data))"

text \<open>The validation of a new cluster starts the same checks and does not wait: the names it returns are those of the goroutines
  that have ended by then.\<close>

definition ValidateClusterCreateData ::
  "host_env \<Rightarrow> machine_store \<Rightarrow> string \<Rightarrow> machine_input list \<Rightarrow> string + machine_input list" where
  "ValidateClusterCreateData e s provider ms =
     (let (controls, _) = GetControlplaneMachineDatas [] ms in
      if length controls = 0 \<and> provider \<noteq> ''system'' then Inl ''No controlplane nodes''
      else case he_session_err e of
             Some err \<Rightarrow> Inl err
           | None \<Rightarrow>
               (case he_key_err e of
                  Some err \<Rightarrow> Inl err
                | None \<Rightarrow>
                    Inr (map (\<lambda>(k, m). if k \<in> set (he_done e) then value_of m (Host_validateCreateMachine e s m) else m)
                           (enumerate 0 ms))))"

section \<open>The host driver of machines\<close>

record host_machine_env = host_env +
  hm_name_err :: "string \<Rightarrow> string option"
  hm_tag_create :: "string option"
  hm_attach_err :: "string option"
  hm_detach_err :: "string option"
  hm_list_err :: "string option"
  hm_cluster_err :: "string option"
  hm_endpoint_err :: "string option"
  hm_update_err :: "string option"
  hm_userdata_err :: "string option"
  hm_script_err :: "string option"

definition Host_Machine_ValidateCreateData :: "host_machine_env \<Rightarrow> machine_store \<Rightarrow> machine_input \<Rightarrow> string + machine_input" where
  "Host_Machine_ValidateCreateData e s input =
     (case Host_ValidateResourceType (in_ResourceType input) of
        Some err \<Rightarrow> Inl err
      | None \<Rightarrow>
          if length (in_ResourceId input) = 0 then Inl ''Resource id must provide''
          else case he_key_err e of
                 Some err \<Rightarrow> Inl err
               | None \<Rightarrow>
                   (case ValidateHostId (host_env.truncate e) s (in_ResourceId input) of
                      Inl err \<Rightarrow> Inl err
                    | Inr ret \<Rightarrow>
                        let name = (case h_name ret of None \<Rightarrow> [] | Some n \<Rightarrow> n) in
                        case hm_name_err e name of
                          Some err \<Rightarrow> Inl err
                        | None \<Rightarrow> Inr (input\<lparr>in_ResourceId := h_id ret, in_Name := name\<rparr>)))"

text \<open>A host with its scheduling tag and the commands it has run.\<close>

record host_state =
  hs_machine :: machine
  hs_tagged :: bool
  hs_commands :: "string list"

text \<open>A tag that exists already is no error.\<close>

definition createContainerSchedtag :: "host_machine_env \<Rightarrow> string option" where
  "createContainerSchedtag e =
     (case hm_tag_create e of None \<Rightarrow> None | Some err \<Rightarrow> if strings_Contains err ''Duplicate name'' then None else Some err)"

definition addMachineToContainerSchedtag :: "host_machine_env \<Rightarrow> host_state \<Rightarrow> host_state \<times> string option" where
  "addMachineToContainerSchedtag e w =
     (case createContainerSchedtag e of
        Some err \<Rightarrow> (w, Some err)
      | None \<Rightarrow> (case hm_attach_err e of Some _ \<Rightarrow> (w, None) | None \<Rightarrow> (w\<lparr>hs_tagged := True\<rparr>, None)))"

definition Host_GetPrivateIP :: "host_machine_env \<Rightarrow> string \<Rightarrow> string + string" where
  "Host_GetPrivateIP e hostId = (case he_get e hostId of Inl err \<Rightarrow> Inl err | Inr ret \<Rightarrow> Inr (h_access_ip ret))"

definition Host_PrepareResource :: "host_machine_env \<Rightarrow> string \<Rightarrow> bool \<Rightarrow> host_state \<Rightarrow> host_state \<times> string option" where
  "Host_PrepareResource e instanceId firstNode w =
     (case Host_GetPrivateIP e instanceId of
        Inl err \<Rightarrow> (w, Some err)
      | Inr accessIP \<Rightarrow>
          (case hm_cluster_err e of
             Some err \<Rightarrow> (w, Some (''Get machine cluster: '' @ err))
           | None \<Rightarrow>
               (case hm_endpoint_err e of
                  Some err \<Rightarrow> (w, Some (''Get cluster apiServerEndpoint: '' @ err))
                | None \<Rightarrow>
                    (case hm_update_err e of
                       Some err \<Rightarrow> (w, Some err)
                     | None \<Rightarrow>
                         let w1 = (if firstNode then w\<lparr>hs_machine := (hs_machine w)\<lparr>m_FirstNode := True\<rparr>\<rparr> else w);
                             (w2, err) = addMachineToContainerSchedtag e w1
                         in if err \<noteq> None then (w2, err)
                            else case hm_userdata_err e of
                                   Some err \<Rightarrow> (w2, Some err)
                                 | None \<Rightarrow>
                                     (case he_key_err e of
                                        Some err \<Rightarrow> (w2, Some err)
                                      | None \<Rightarrow> (w2\<lparr>hs_commands := hs_commands w2 @ [''init script'']\<rparr>, hm_script_err e))))))"

text \<open>Removing the tag is only logged when it fails; deleting the containers of the host is not checked.\<close>

definition Host_TerminateResource :: "host_machine_env \<Rightarrow> host_state \<Rightarrow> host_state \<times> string option" where
  "Host_TerminateResource e w =
     (case Host_GetPrivateIP e (m_ResourceId (hs_machine w)) of
        Inl err \<Rightarrow> (w, Some err)
      | Inr accessIP \<Rightarrow>
          (case hm_list_err e of
             Some err \<Rightarrow> (w, Some err)
           | None \<Rightarrow>
               let w1 = (if hm_detach_err e = None then w\<lparr>hs_tagged := False\<rparr> else w) in
               case he_key_err e of
                 Some err \<Rightarrow> (w1, Some err)
               | None \<Rightarrow> (w1\<lparr>hs_commands := hs_commands w1 @ [''kubeadm reset -f'']\<rparr>, hm_script_err e)))"

section \<open>What the checks guarantee\<close>

lemma group_Wait_None: "group_Wait f ks = None \<longleftrightarrow> (\<forall>k\<in>set ks. f k = None)"
  by (induction ks) (auto split: option.splits)

definition host_ok :: "host_env \<Rightarrow> machine_store \<Rightarrow> machine_input \<Rightarrow> bool" where
  "host_ok e s m \<longleftrightarrow>
     in_Role m \<in> {RoleTypeControlplane, RoleTypeNode} \<and> in_ResourceType m = MachineResourceTypeBaremetal \<and>
     (case he_get e (in_ResourceId m) of
        Inl _ \<Rightarrow> False
      | Inr h \<Rightarrow> h_name h = Some (in_Name m) \<and> h_type h \<in> {HostTypeKVM, HostTypeKubelet} \<and>
          h_id h \<notin> m_ResourceId ` set (machines s) \<and> RemoteCheckHostEnvironment e (h_access_ip h) = None)"

lemma find_None_iff_image: "List.find (\<lambda>m. f m = x) ms = None \<longleftrightarrow> x \<notin> f ` set ms"
  by (auto simp: find_None_iff)

lemma ValidateHostId_Inr:
  "ValidateHostId e s hid = Inr h \<longleftrightarrow>
     he_get e hid = Inr h \<and> h_id h \<notin> m_ResourceId ` set (machines s) \<and> h_type h \<in> {HostTypeKVM, HostTypeKubelet} \<and>
     RemoteCheckHostEnvironment e (h_access_ip h) = None"
  unfolding ValidateHostId_def GetMachineByResourceId_def find_None_iff_image [symmetric]
  by (auto split: sum.splits option.splits if_splits)

lemma Host_validateCreateMachine_ok:
  assumes "Host_validateCreateMachine e s m = Inr m'"
  shows "host_ok e s m' \<and> (\<exists>n. m' = m\<lparr>in_Name := n\<rparr>)"
  using assms
  by (auto simp: Host_validateCreateMachine_def host_ok_def ValidateHostId_Inr ValidateRole_def Host_ValidateResourceType_def
      split: sum.splits option.splits if_splits)

lemma Host_ValidateMachines_Inr:
  assumes "set (he_order e) = {..<length ms}" "Host_ValidateMachines e s ms = Inr ms'"
  shows "list_all2 (\<lambda>m m'. host_ok e s m' \<and> (\<exists>n. m' = m\<lparr>in_Name := n\<rparr>)) ms ms'"
proof -
  have "\<exists>m'. Host_validateCreateMachine e s (ms ! k) = Inr m'" if "k < length ms" for k
    using assms that
    by (cases "Host_validateCreateMachine e s (ms ! k)")
      (auto simp: Host_ValidateMachines_def group_Wait_None error_of_def split: option.splits sum.splits)
  moreover have "ms' = map (\<lambda>m. value_of m (Host_validateCreateMachine e s m)) ms"
    using assms(2) by (auto simp: Host_ValidateMachines_def split: option.splits)
  ultimately show ?thesis
    by (fastforce simp: list_all2_conv_all_nth value_of_def dest: Host_validateCreateMachine_ok)
qed

lemma Host_ValidateCreateMachines_Inr:
  assumes "Host_ValidateCreateMachines e (Some (cid, name)) s data = Inr data2"
  shows "Host_ValidateMachines e s (map (in_cluster cid) data) = Inr data2"
    and "NeedControlplane cid s \<Longrightarrow> \<exists>m\<in>set data. control_input m"
  using assms
  by (auto simp: Host_ValidateCreateMachines_def Base_ValidateCreateMachines_def cluster_id_def GetControlplaneMachineDatas_filter
      filter_empty_conv split: sum.splits if_splits)

lemma Host_ValidateMachines_frame:
  assumes "Host_ValidateMachines e s ms = Inr ms'"
  shows "list_all2 (\<lambda>m m'. \<exists>n. m' = m\<lparr>in_Name := n\<rparr>) ms ms'"
proof -
  have "\<exists>n. value_of m (Host_validateCreateMachine e s m) = m\<lparr>in_Name := n\<rparr>" for m
  proof (cases "Host_validateCreateMachine e s m")
    case (Inl err)
    then have "value_of m (Host_validateCreateMachine e s m) = m\<lparr>in_Name := in_Name m\<rparr>" by (simp add: value_of_def)
    then show ?thesis by blast
  qed (auto simp: value_of_def dest: Host_validateCreateMachine_ok)
  moreover have "ms' = map (\<lambda>m. value_of m (Host_validateCreateMachine e s m)) ms"
    using assms by (auto simp: Host_ValidateMachines_def split: option.splits)
  ultimately show ?thesis by (simp add: list_all2_conv_all_nth)
qed

lemma renamed_all2:
  assumes "list_all2 (\<lambda>m m'. \<exists>n. m' = m\<lparr>in_Name := n\<rparr>) (map (in_cluster c) d) d2"
  shows "map in_Role d2 = map in_Role d" "map in_ResourceId d2 = map in_ResourceId d" "c \<noteq> [] \<Longrightarrow> m \<in> set d2 \<Longrightarrow> in_ClusterId m = c"
  using assms
  by (auto simp: list_all2_conv_all_nth in_set_conv_nth intro!: nth_equalityI)

interpretation host_machines: machine_validation cid "\<lambda>s d d2. Host_ValidateCreateMachines e (Some (cid, name)) s d = Inr d2"
  for cid e name
proof unfold_locales
  fix s d d2 m
  assume a: "Host_ValidateCreateMachines e (Some (cid, name)) s d = Inr d2"
  note f = Host_ValidateMachines_frame [OF Host_ValidateCreateMachines_Inr(1) [OF a]]
  show "map in_Role d2 = map in_Role d" using renamed_all2(1) [OF f] .
  show "cid \<noteq> [] \<Longrightarrow> m \<in> set d2 \<Longrightarrow> in_ClusterId m = cid" using renamed_all2(3) [OF f] .
  show "NeedControlplane cid s \<Longrightarrow> \<exists>m\<in>set d. control_input m" using Host_ValidateCreateMachines_Inr(2) [OF a] .
qed

text \<open>What either driver accepts for a cluster is created as accepted: the creation splits exactly these machines into control nodes and
  others, and for a cluster without machines it does not fail for want of a control node.\<close>

theorem accepted_machines_are_created:
  assumes "ValidateCreateMachines ve (Some (cid, name)) s data = Some (Inr (Inr data2)) \<or>
    Host_ValidateCreateMachines he (Some (cid, name)) s data = Inr data2"
  shows "GetControlplaneMachineDatas cid data2 = (filter control_input data2, filter (\<lambda>m. \<not> control_input m) data2) \<and>
    ClusterAPI_CreateMachines ce cid s data2 =
      cbind (createMachines ce s (filter control_input data2)) (\<lambda>(s1, r1).
        case r1 of
          Inl err \<Rightarrow> Some (Inr (s1, Inl err))
        | Inr cms \<Rightarrow>
            cbind (createMachines ce s1 (filter (\<lambda>m. \<not> control_input m) data2)) (\<lambda>(s2, r2).
              Some (Inr (s2, case r2 of Inl err \<Rightarrow> Inl err | Inr nms \<Rightarrow> Inr (cms @ nms)))))"
proof -
  have 1: "GetControlplaneMachineDatas cid data2 = (filter control_input data2, filter (\<lambda>m. \<not> control_input m) data2)"
    using assms vm_machines.created_as_accepted host_machines.created_as_accepted by blast
  have 2: "NeedControlplane cid s \<Longrightarrow> fst (GetControlplaneMachineDatas cid data2) \<noteq> []"
    using assms vm_machines.control_created host_machines.control_created by blast
  have 3: "NeedControlplane cid s \<Longrightarrow> filter control_input data2 \<noteq> []" using 2 unfolding 1 by simp
  show ?thesis using 3 by (auto simp: ClusterAPI_CreateMachines_def 1)
qed

text \<open>Machines that are added to a cluster of hosts are returned in order with their cluster, each on a known host
  of the right kind that no machine of any cluster uses and whose environment was found complete, and named after it.\<close>

theorem Host_ValidateCreateMachines_sound:
  assumes "set (he_order e) = {..<length data}" "Host_ValidateCreateMachines e (Some (cid, name)) s data = Inr data2" "cid \<noteq> []"
  shows "length data2 = length data \<and> map in_ResourceId data2 = map in_ResourceId data \<and>
    (\<forall>m\<in>set data2. host_ok e s m \<and> in_ClusterId m = cid)"
proof -
  note a = Host_ValidateCreateMachines_Inr(1) [OF assms(2)]
  note r = renamed_all2 [OF Host_ValidateMachines_frame [OF a]]
  have "list_all2 (\<lambda>m m'. host_ok e s m' \<and> (\<exists>n. m' = m\<lparr>in_Name := n\<rparr>)) (map (in_cluster cid) data) data2"
    by (rule Host_ValidateMachines_Inr [OF _ a]) (simp add: assms(1))
  then have "\<forall>m\<in>set data2. host_ok e s m" by (auto simp: list_all2_conv_all_nth in_set_conv_nth)
  with r assms(3) show ?thesis by (simp add: map_eq_imp_length_eq [OF r(2)])
qed

text \<open>The validation of a new cluster accepts exactly the machine lists with a control node, whatever their hosts are:
  a host that does not exist, is in use or fails its check is not noticed.\<close>

lemma ValidateClusterCreateData_accepts:
  "(\<exists>ms'. ValidateClusterCreateData e s provider ms = Inr ms') \<longleftrightarrow>
     (provider = ''system'' \<or> (\<exists>m\<in>set ms. control_input m)) \<and> he_session_err e = None \<and> he_key_err e = None"
  by (auto simp: ValidateClusterCreateData_def GetControlplaneMachineDatas_filter filter_empty_conv split: option.splits)

lemma Host_validateCreateMachine_resource:
  "in_ResourceId (value_of m (Host_validateCreateMachine e s m)) = in_ResourceId m"
  by (auto simp: value_of_def dest: Host_validateCreateMachine_ok split: sum.split)

lemma ValidateClusterCreateData_resources:
  assumes "ValidateClusterCreateData e s provider ms = Inr ms'"
  shows "map in_ResourceId ms' = map in_ResourceId ms"
proof -
  have "ms' = map (\<lambda>(k, m). if k \<in> set (he_done e) then value_of m (Host_validateCreateMachine e s m) else m) (enumerate 0 ms)"
    using assms by (auto simp: ValidateClusterCreateData_def split: option.splits if_splits prod.splits)
  then show ?thesis
    by (auto simp: Host_validateCreateMachine_resource nth_enumerate_eq intro!: nth_equalityI)
qed

section \<open>A sample\<close>

definition sample_hosts :: host_env where
  "sample_hosts = \<lparr>he_session_err = None, he_key_err = None,
     he_get = (\<lambda>i. if i = ''h1'' then Inr \<lparr>h_id = ''h1'', h_type = ''kubelet'', h_name = Some ''node-1'', h_access_ip = ''10.1.0.1''\<rparr>
                   else Inl ''not found''),
     he_ssh = (\<lambda>_. None), he_which = (\<lambda>_. None), he_order = [0], he_done = []\<rparr>"

definition sample_host_machine :: machine_input where
  "sample_host_machine = \<lparr>in_Name = [], in_ClusterId = [], in_Role = RoleTypeControlplane,
     in_ResourceType = MachineResourceTypeBaremetal, in_ResourceId = ''h1'', in_FirstNode = False, in_Config = None\<rparr>"

lemma sample_host_accepted:
  "Host_ValidateCreateMachines sample_hosts (Some (''c'', ''cl'')) empty_store [sample_host_machine] =
     Inr [sample_host_machine\<lparr>in_ClusterId := ''c'', in_Name := ''node-1''\<rparr>]"
  by code_simp

theorem accepted_machines_are_created_witness:
  "GetControlplaneMachineDatas ''c'' [sample_host_machine\<lparr>in_ClusterId := ''c'', in_Name := ''node-1''\<rparr>] =
     ([sample_host_machine\<lparr>in_ClusterId := ''c'', in_Name := ''node-1''\<rparr>], [])"
proof -
  have "in_Role sample_host_machine = RoleTypeControlplane" by (simp add: sample_host_machine_def)
  then show ?thesis
    using conjunct1 [OF accepted_machines_are_created [OF disjI2 [OF sample_host_accepted]]] by simp
qed

theorem Host_ValidateCreateMachines_sound_witness:
  "Host_ValidateCreateMachines sample_hosts (Some (''c'', ''cl'')) empty_store [sample_host_machine] =
     Inr [sample_host_machine\<lparr>in_ClusterId := ''c'', in_Name := ''node-1''\<rparr>] \<and>
   host_ok sample_hosts empty_store (sample_host_machine\<lparr>in_ClusterId := ''c'', in_Name := ''node-1''\<rparr>)"
proof -
  have "set (he_order sample_hosts) = {..<length [sample_host_machine]}"
    by (auto simp: sample_hosts_def)
  then show ?thesis
    using Host_ValidateCreateMachines_sound [OF _ sample_host_accepted] sample_host_accepted by simp
qed

end
