(* ===== verification/ClusterClients.thy ===== *)
theory ClusterClients
  imports Prelude
begin

text \<open>
  The clients of the clusters, src/pkg/client/manager.go and client.go, the health check that adds and removes
  them (\<open>ClusterHealthCheckTask\<close>), the start of a cluster's deletion (both src/pkg/models/clusters.go), and the registry
  of drivers (src/pkg/drivers/register.go). A client keeps the cluster object it was built from, a copy of
  the record at that time. Building a client and asking for the health of a cluster are parameters, as are the
  errors of the database. Shown: what a health check leaves for every cluster, that clients belong to
  running clusters only, and that the status in a client is not that of the record.
\<close>

section \<open>The manager of clients\<close>

record cluster =
  k_Id :: string
  k_Name :: string
  k_Status :: string

datatype client_error = ErrClusterNotRunning | ErrClusterAlreadyAdded | ErrBuild string

text \<open>The clusters of the database, the clients by id, the closed ones and the synchronisation tasks that were started.\<close>

record clients_state =
  db_clusters :: "cluster list"
  clusterManager :: "string \<rightharpoonup> cluster"
  closed :: "string list"
  sync_tasks :: "string list"

definition getManager :: "string \<Rightarrow> clients_state \<Rightarrow> cluster option" where
  "getManager clusterId s = clusterManager s clusterId"

definition addManager :: "cluster \<Rightarrow> clients_state \<Rightarrow> clients_state" where
  "addManager man s = s\<lparr>clusterManager := (clusterManager s)(k_Id man \<mapsto> man)\<rparr>"

definition AddClient :: "(cluster \<Rightarrow> string option) \<Rightarrow> cluster \<Rightarrow> clients_state \<Rightarrow> clients_state \<times> client_error option" where
  "AddClient build c s =
     (if k_Status c \<noteq> ''running'' then (s, Some ErrClusterNotRunning)
      else if getManager (k_Id c) s \<noteq> None then (s, Some ErrClusterAlreadyAdded)
      else case build c of
             Some err \<Rightarrow> (s, Some (ErrBuild err))
           | None \<Rightarrow> (addManager c s, None))"

definition RemoveClient :: "string \<Rightarrow> clients_state \<Rightarrow> clients_state" where
  "RemoveClient clusterId s =
     (case getManager clusterId s of
        None \<Rightarrow> s
      | Some man \<Rightarrow> s\<lparr>clusterManager := (clusterManager s)(clusterId := None), closed := closed s @ [clusterId]\<rparr>)"

definition UpdateClient :: "(cluster \<Rightarrow> string option) \<Rightarrow> cluster \<Rightarrow> clients_state \<Rightarrow> clients_state \<times> client_error option" where
  "UpdateClient build c s = AddClient build c (RemoveClient (k_Id c) s)"

fun initRunningClustersOnce :: "(cluster \<Rightarrow> string option) \<Rightarrow> cluster list \<Rightarrow> clients_state \<Rightarrow> clients_state" where
  "initRunningClustersOnce build [] s = s"
| "initRunningClustersOnce build (c # cs) s = initRunningClustersOnce build cs (fst (AddClient build c s))"

definition getClustersByStatus :: "string set \<Rightarrow> clients_state \<Rightarrow> cluster list" where
  "getClustersByStatus sts s = filter (\<lambda>c. k_Status c \<in> sts) (db_clusters s)"

definition InitClustersManager :: "(cluster \<Rightarrow> string option) \<Rightarrow> string option \<Rightarrow> clients_state \<Rightarrow> clients_state \<times> string option" where
  "InitClustersManager build db_err s =
     (case db_err of
        Some err \<Rightarrow> (s, Some (''get running clusters when init client clusters manager: '' @ err))
      | None \<Rightarrow> (initRunningClustersOnce build (getClustersByStatus {''running''} s) (s\<lparr>clusterManager := Map.empty\<rparr>), None))"

datatype get_error = ErrNotExist | ErrStatus string

definition GetManager :: "string \<Rightarrow> clients_state \<Rightarrow> get_error + cluster" where
  "GetManager clusterId s =
     (case getManager clusterId s of
        None \<Rightarrow> Inl ErrNotExist
      | Some man \<Rightarrow> if k_Status man \<noteq> ''running'' then Inl (ErrStatus (k_Status man)) else Inr man)"

section \<open>The health check\<close>

text \<open>\<open>SetStatus\<close> on a cluster object: the object gets the status even if the database refuses it.\<close>

definition SetStatus :: "string option \<Rightarrow> string \<Rightarrow> cluster \<Rightarrow> clients_state \<Rightarrow> cluster \<times> clients_state" where
  "SetStatus err status c s =
     (if k_Status c = status then (c, s)
      else (c\<lparr>k_Status := status\<rparr>,
            case err of
              Some _ \<Rightarrow> s
            | None \<Rightarrow> s\<lparr>db_clusters := map (\<lambda>k. if k_Id k = k_Id c then k\<lparr>k_Status := status\<rparr> else k) (db_clusters s)\<rparr>))"

record health_env =
  he_db_err :: "string option"
  he_health :: "cluster \<Rightarrow> string option"
  he_build :: "cluster \<Rightarrow> string option"
  he_status_err :: "cluster \<Rightarrow> string \<Rightarrow> string option"
  he_sync_err :: "cluster \<Rightarrow> string option"

definition check_cluster :: "health_env \<Rightarrow> cluster \<Rightarrow> clients_state \<Rightarrow> clients_state" where
  "check_cluster e c s =
     (case he_health e c of
        None \<Rightarrow>
          if k_Status c \<noteq> ''running'' then
            let prevStatus = k_Status c;
                (c1, s1) = SetStatus (he_status_err e c ''running'') ''running'' c s
            in case UpdateClient (he_build e) c1 s1 of
                 (s2, Some err) \<Rightarrow> snd (SetStatus (he_status_err e c prevStatus) prevStatus c1 s2)
               | (s2, None) \<Rightarrow>
                   (case he_sync_err e c of
                      Some _ \<Rightarrow> s2
                    | None \<Rightarrow> s2\<lparr>sync_tasks := sync_tasks s2 @ [k_Id c]\<rparr>)
          else s
      | Some err \<Rightarrow> RemoveClient (k_Id c) (snd (SetStatus (he_status_err e c ''lost'') ''lost'' c s)))"

definition ClusterHealthCheckTask :: "health_env \<Rightarrow> clients_state \<Rightarrow> clients_state" where
  "ClusterHealthCheckTask e s =
     (case he_db_err e of
        Some _ \<Rightarrow> s
      | None \<Rightarrow> fold (check_cluster e) (getClustersByStatus {''running'', ''lost''} s) s)"

section \<open>The start of a deletion\<close>

definition StartClusterDeleteTask :: "string option \<Rightarrow> string option \<Rightarrow> cluster \<Rightarrow> clients_state \<Rightarrow> clients_state \<times> string option" where
  "StartClusterDeleteTask status_err task_err c s =
     (case (if k_Status c = ''deleting'' then None else status_err) of
        Some err \<Rightarrow> (s, Some err)
      | None \<Rightarrow> (RemoveClient (k_Id c) (snd (SetStatus None ''deleting'' c s)), task_err))"

section \<open>The registry of drivers\<close>

definition getIndexKey :: "string list \<Rightarrow> string" where
  "getIndexKey keys = strings_Join keys ''->''"

definition Register :: "'d \<Rightarrow> string list \<Rightarrow> (string \<rightharpoonup> 'd) \<Rightarrow> (string \<rightharpoonup> 'd) \<times> string option" where
  "Register drv keys m =
     (case m (getIndexKey keys) of
        Some _ \<Rightarrow> (m, Some (''Driver '' @ getIndexKey keys @ '' already register''))
      | None \<Rightarrow> (m(getIndexKey keys \<mapsto> drv), None))"

definition Driver_Get :: "string list \<Rightarrow> (string \<rightharpoonup> 'd) \<Rightarrow> string + 'd" where
  "Driver_Get keys m =
     (case m (getIndexKey keys) of
        None \<Rightarrow> Inl (''Not found driver by key: '' @ getIndexKey keys)
      | Some drv \<Rightarrow> Inr drv)"

section \<open>What a health check leaves\<close>

definition status_of :: "string \<Rightarrow> clients_state \<Rightarrow> string option" where
  "status_of i s = map_option k_Status (find (\<lambda>k. k_Id k = i) (db_clusters s))"

lemma RemoveClient_simps [simp]:
  "db_clusters (RemoveClient i s) = db_clusters s" "clusterManager (RemoveClient i s) = (clusterManager s)(i := None)"
  "sync_tasks (RemoveClient i s) = sync_tasks s"
  by (auto simp: RemoveClient_def getManager_def fun_eq_iff split: option.splits)

lemma addManager_simps [simp]:
  "db_clusters (addManager c s) = db_clusters s" "clusterManager (addManager c s) = (clusterManager s)(k_Id c \<mapsto> c)"
  by (simp_all add: addManager_def)

lemma find_map_id: "(\<And>k. k_Id (g k) = k_Id k) \<Longrightarrow> find (\<lambda>k. k_Id k = i) (map g ks) = map_option g (find (\<lambda>k. k_Id k = i) ks)"
  by (induction ks) auto

lemma status_of_SetStatus:
  "status_of i (snd (SetStatus err st c s)) =
     (if i = k_Id c \<and> k_Status c \<noteq> st \<and> err = None then map_option (\<lambda>_. st) (status_of i s) else status_of i s)"
proof -
  let ?g = "\<lambda>k :: cluster. if k_Id k = k_Id c then k\<lparr>k_Status := st\<rparr> else k"
  have "find (\<lambda>k. k_Id k = i) (map ?g ks) = map_option ?g (find (\<lambda>k. k_Id k = i) ks)" for ks
    by (rule find_map_id) simp
  then show ?thesis
    by (auto simp: SetStatus_def status_of_def option.map_comp o_def find_Some_iff intro!: option.map_cong0 split: option.split)
qed

lemma SetStatus_other: "i \<noteq> k_Id c \<Longrightarrow> status_of i (snd (SetStatus err st c s)) = status_of i s"
  by (simp add: status_of_SetStatus)

lemma SetStatus_own:
  "status_of (k_Id c) s = Some (k_Status c) \<Longrightarrow> status_of (k_Id c) (snd (SetStatus None st c s)) = Some st"
  "fst (SetStatus err st c s) = c\<lparr>k_Status := st\<rparr>"
  by (auto simp: status_of_SetStatus) (auto simp: SetStatus_def)

lemma SetStatus_clients [simp]: "clusterManager (snd (SetStatus err st c s)) = clusterManager s"
  by (simp add: SetStatus_def split: option.split)

text \<open>What is left for one cluster: its status and its client.\<close>

definition left_by_check :: "health_env \<Rightarrow> cluster \<Rightarrow> cluster option \<Rightarrow> string \<times> cluster option" where
  "left_by_check e c man =
     (if he_health e c \<noteq> None then (''lost'', None)
      else if k_Status c = ''running'' then (''running'', man)
      else if he_build e (c\<lparr>k_Status := ''running''\<rparr>) = None then (''running'', Some (c\<lparr>k_Status := ''running''\<rparr>))
      else (k_Status c, None))"

definition db_works :: "health_env \<Rightarrow> bool" where
  "db_works e \<longleftrightarrow> he_db_err e = None \<and> (\<forall>c st. he_status_err e c st = None)"

lemma AddClient_simps [simp]:
  "db_clusters (fst (AddClient b c s)) = db_clusters s" "i \<noteq> k_Id c \<Longrightarrow> clusterManager (fst (AddClient b c s)) i = clusterManager s i"
  by (auto simp: AddClient_def split: option.splits)

lemma status_of_cong: "db_clusters s = db_clusters s' \<Longrightarrow> status_of i s = status_of i s'"
  by (simp add: status_of_def)

lemma UpdateClient_simps:
  "db_clusters (fst (UpdateClient b c s)) = db_clusters s" "i \<noteq> k_Id c \<Longrightarrow> clusterManager (fst (UpdateClient b c s)) i = clusterManager s i"
  by (simp_all add: UpdateClient_def)

lemma UpdateClient_own:
  assumes "k_Status c = ''running''"
  shows "clusterManager (fst (UpdateClient b c s)) (k_Id c) = (if b c = None then Some c else None)"
    "snd (UpdateClient b c s) = None \<longleftrightarrow> b c = None"
  using assms by (auto simp: UpdateClient_def AddClient_def getManager_def split: option.splits)

lemma check_cluster_other:
  assumes "i \<noteq> k_Id c"
  shows "status_of i (check_cluster e c s) = status_of i s" "clusterManager (check_cluster e c s) i = clusterManager s i"
proof -
  let ?S = "SetStatus (he_status_err e c ''running'') ''running'' c s"
  obtain c1 s1 where S: "?S = (c1, s1)" by (cases ?S)
  have c1: "k_Id c1 = k_Id c" using S by (auto simp: SetStatus_def split: if_splits)
  have s1: "status_of i s1 = status_of i s" "clusterManager s1 = clusterManager s"
    using SetStatus_other [OF assms, of "he_status_err e c ''running''" "''running''" s] SetStatus_clients [of "he_status_err e c ''running''" "''running''" c s]
    by (simp_all add: S)
  obtain s2 er where U: "UpdateClient (he_build e) c1 s1 = (s2, er)" by (cases "UpdateClient (he_build e) c1 s1")
  have s2: "status_of i s2 = status_of i s1" "clusterManager s2 i = clusterManager s1 i"
    using UpdateClient_simps(1) [of "he_build e" c1 s1] UpdateClient_simps(2) [of i c1 "he_build e" s1] assms c1
    by (simp_all add: U status_of_def)
  show "status_of i (check_cluster e c s) = status_of i s" "clusterManager (check_cluster e c s) i = clusterManager s i"
    using assms c1 s1 s2 SetStatus_other [of i c1] SetStatus_other [OF assms]
    by (auto simp: check_cluster_def S U Let_def status_of_cong [of "RemoveClient _ _"] status_of_cong [of "_\<lparr>sync_tasks := _\<rparr>"] split: option.split)
qed

lemma check_cluster_own:
  assumes "db_works e" "status_of (k_Id c) s = Some (k_Status c)"
  shows "(status_of (k_Id c) (check_cluster e c s), clusterManager (check_cluster e c s) (k_Id c)) =
    apfst Some (left_by_check e c (clusterManager s (k_Id c)))"
proof (cases "he_health e c")
  case (Some err)
  then show ?thesis
    using assms SetStatus_own(1) [OF assms(2), of "''lost''"]
    by (simp add: check_cluster_def left_by_check_def db_works_def status_of_cong [of "RemoveClient _ _"])
next
  case None
  show ?thesis
  proof (cases "k_Status c = ''running''")
    case True
    then show ?thesis using None assms(2) by (simp add: check_cluster_def left_by_check_def)
  next
    case False
    define c1 s1 where "c1 = c\<lparr>k_Status := ''running''\<rparr>" and "s1 = snd (SetStatus None ''running'' c s)"
    have S: "SetStatus None ''running'' c s = (c1, s1)"
      using SetStatus_own(2) [of None "''running''" c s] by (simp add: c1_def s1_def prod_eq_iff)
    have c1: "k_Id c1 = k_Id c" "k_Status c1 = ''running''" by (simp_all add: c1_def)
    have st1: "status_of (k_Id c1) s1 = Some (k_Status c1)" using SetStatus_own(1) [OF assms(2)] by (simp add: s1_def c1)
    obtain s2 er where U: "UpdateClient (he_build e) c1 s1 = (s2, er)" by (cases "UpdateClient (he_build e) c1 s1")
    have s2: "clusterManager s2 (k_Id c) = (if he_build e c1 = None then Some c1 else None)" "er = None \<longleftrightarrow> he_build e c1 = None"
        "status_of (k_Id c1) s2 = Some (k_Status c1)"
      using UpdateClient_own [OF c1(2), of "he_build e" s1] UpdateClient_simps(1) [of "he_build e" c1 s1] st1
      by (simp_all add: U c1 status_of_def)
    show ?thesis
      using None False assms(1) s2 SetStatus_own(1) [OF s2(3), of "k_Status c"] c1
      by (auto simp: check_cluster_def left_by_check_def db_works_def S U Let_def c1_def [symmetric]
          status_of_cong [of "_\<lparr>sync_tasks := _\<rparr>"] split: option.split)
  qed
qed


lemma fold_check_other:
  assumes "i \<notin> k_Id ` set cs"
  shows "status_of i (fold (check_cluster e) cs s) = status_of i s" "clusterManager (fold (check_cluster e) cs s) i = clusterManager s i"
  using assms by (induction cs arbitrary: s) (auto simp: check_cluster_other)

lemma fold_check_own:
  assumes "db_works e" "distinct (map k_Id cs)" "c \<in> set cs" "\<forall>k\<in>set cs. status_of (k_Id k) s = Some (k_Status k)"
  shows "(status_of (k_Id c) (fold (check_cluster e) cs s), clusterManager (fold (check_cluster e) cs s) (k_Id c)) =
    apfst Some (left_by_check e c (clusterManager s (k_Id c)))"
  using assms(2-4)
proof (induction cs arbitrary: s)
  case (Cons k cs)
  show ?case
  proof (cases "c = k")
    case True
    have "k_Id k \<notin> k_Id ` set cs" using Cons.prems(1) by simp
    with True Cons.prems(3) show ?thesis by (simp add: fold_check_other check_cluster_own [OF assms(1)])
  next
    case False
    with Cons.prems(2) have c: "c \<in> set cs" by simp
    have new: "k_Id x \<noteq> k_Id k" if "x \<in> set cs" for x
      using Cons.prems(1) that by (metis distinct.simps(2) image_eqI list.set_map list.simps(9))
    have ne: "k_Id c \<noteq> k_Id k" by (rule new [OF c])
    have "\<forall>x\<in>set cs. status_of (k_Id x) (check_cluster e k s) = Some (k_Status x)"
      using Cons.prems(3) new by (simp add: check_cluster_other)
    from Cons.IH [OF _ c this] Cons.prems(1) show ?thesis by (simp add: check_cluster_other(2) [OF ne])
  qed
qed simp

lemma status_of_in: "distinct (map k_Id (db_clusters s)) \<Longrightarrow> c \<in> set (db_clusters s) \<Longrightarrow> status_of (k_Id c) s = Some (k_Status c)"
proof -
  have "find (\<lambda>k. k_Id k = k_Id c) ks = Some c" if "distinct (map k_Id ks)" "c \<in> set ks" for ks
    using that by (induction ks) (auto simp: image_iff)
  then show "distinct (map k_Id (db_clusters s)) \<Longrightarrow> c \<in> set (db_clusters s) \<Longrightarrow> status_of (k_Id c) s = Some (k_Status c)"
    by (simp add: status_of_def)
qed

text \<open>C29: A health check decides every running or lost cluster for itself: one that does not answer is lost and
  has no client; one that answers and was lost is running with a new client, or stays lost without one
  when no client can be built; one that answers and was running keeps the client it has, also if it has
  none. Clusters in another status keep status and client.\<close>

theorem ClusterHealthCheckTask_exact:
  assumes "db_works e" "distinct (map k_Id (db_clusters s))" "c \<in> set (db_clusters s)"
  shows "(status_of (k_Id c) (ClusterHealthCheckTask e s), clusterManager (ClusterHealthCheckTask e s) (k_Id c)) =
    (if k_Status c \<in> {''running'', ''lost''} then apfst Some (left_by_check e c (clusterManager s (k_Id c)))
     else (Some (k_Status c), clusterManager s (k_Id c)))"
proof -
  let ?cs = "getClustersByStatus {''running'', ''lost''} s"
  have db: "he_db_err e = None" using assms(1) by (simp add: db_works_def)
  show ?thesis
  proof (cases "k_Status c \<in> {''running'', ''lost''}")
    case True
    then have "c \<in> set ?cs" "distinct (map k_Id ?cs)" "\<forall>k\<in>set ?cs. status_of (k_Id k) s = Some (k_Status k)"
      using assms(2,3) by (auto simp: getClustersByStatus_def distinct_map_filter intro: status_of_in)
    from fold_check_own [OF assms(1) this(2,1,3)] True show ?thesis
      unfolding ClusterHealthCheckTask_def db by simp
  next
    case False
    then have "k_Id c \<notin> k_Id ` set ?cs"
      using assms(2,3) by (auto simp: getClustersByStatus_def distinct_map inj_on_def)
    then show ?thesis
      using False status_of_in [OF assms(2,3)] by (auto simp: ClusterHealthCheckTask_def db fold_check_other)
  qed
qed

text \<open>The status that \<open>GetManager\<close> looks at is that of the copy in the client and not that of the record: once a client
  was added it is handed out whatever status the cluster gets, until it is removed.\<close>

theorem GetManager_ignores_status:
  assumes "AddClient build c s = (s1, None)"
  shows "GetManager (k_Id c) (snd (SetStatus None st c' s1)) = Inr c \<and> GetManager (k_Id c) (RemoveClient (k_Id c) s1) = Inl ErrNotExist"
  using assms(1)
  by (auto simp: AddClient_def GetManager_def getManager_def split: if_splits option.splits)

subsection \<open>Drivers\<close>

lemma Register_Get:
  assumes "Register d keys m = (m', None)"
  shows "Driver_Get keys m' = Inr d" "getIndexKey ks \<noteq> getIndexKey keys \<Longrightarrow> Driver_Get ks m' = Driver_Get ks m"
  using assms by (auto simp: Register_def Driver_Get_def split: option.splits)

section \<open>A sample\<close>

definition sample_cluster :: cluster where
  "sample_cluster = \<lparr>k_Id = ''c1'', k_Name = ''prod'', k_Status = ''lost''\<rparr>"

definition sample_clients :: clients_state where
  "sample_clients = \<lparr>db_clusters = [sample_cluster, \<lparr>k_Id = ''c2'', k_Name = ''test'', k_Status = ''running''\<rparr>],
     clusterManager = [''c2'' \<mapsto> \<lparr>k_Id = ''c2'', k_Name = ''test'', k_Status = ''running''\<rparr>], closed = [], sync_tasks = []\<rparr>"

definition sample_health :: health_env where
  "sample_health = \<lparr>he_db_err = None, he_health = (\<lambda>c. if k_Id c = ''c2'' then Some ''timeout'' else None), he_build = (\<lambda>_. None),
     he_status_err = (\<lambda>_ _. None), he_sync_err = (\<lambda>_. None)\<rparr>"

theorem ClusterHealthCheckTask_exact_witness:
  "status_of ''c1'' (ClusterHealthCheckTask sample_health sample_clients) = Some ''running''"
  using ClusterHealthCheckTask_exact [of sample_health sample_clients sample_cluster]
  by (simp add: db_works_def sample_health_def sample_clients_def sample_cluster_def left_by_check_def)

theorem GetManager_ignores_status_witness:
  "let c = \<lparr>k_Id = ''c1'', k_Name = ''prod'', k_Status = ''running''\<rparr> in
   GetManager ''c1'' (snd (SetStatus None ''unknown'' (c\<lparr>k_Name := ''renamed''\<rparr>) (fst (AddClient (\<lambda>_. None) c sample_clients)))) = Inr c"
  using GetManager_ignores_status [of "\<lambda>_. None" "\<lparr>k_Id = ''c1'', k_Name = ''prod'', k_Status = ''running''\<rparr>" sample_clients
      "fst (AddClient (\<lambda>_. None) \<lparr>k_Id = ''c1'', k_Name = ''prod'', k_Status = ''running''\<rparr> sample_clients)"
      "''unknown''" "\<lparr>k_Id = ''c1'', k_Name = ''renamed'', k_Status = ''running''\<rparr>"]
  by (simp add: AddClient_def getManager_def sample_clients_def)

end
