(* ===== verification/ClusterCreate.thy ===== *)
theory ClusterCreate
  imports HostClusters ClusterClients
begin

text \<open>
  The validation of a new cluster, \<open>SClusterManager.ValidateCreateData\<close> of src/pkg/models/clusters.go with the drivers it
  dispatches to (src/pkg/models/cluster_drivers.go and drivers/clusters): VM and host clusters, imported clusters and the
  system cluster. The remote cluster that is imported and the parser of address prefixes are parameters.
  Shown: what is accepted is complete and has a driver; a query of versions for a combination without a driver ends the process; the system
  driver dereferences missing import data; the hosts of a new cluster and the operator of an OpenShift cluster are not checked.
\<close>

section \<open>The input\<close>

record import_data =
  imp_Kubeconfig :: string
  imp_ApiServer :: string
  imp_Distribution :: string
  imp_DistributionVersion :: string

record cluster_input =
  ci_Name :: string
  ci_IsSystem :: "bool option"
  ci_ClusterType :: string
  ci_CloudType :: string
  ci_ResourceType :: string
  ci_Mode :: string
  ci_Provider :: string
  ci_ServiceCidr :: string
  ci_ServiceDomain :: string
  ci_PodCidr :: string
  ci_Version :: string
  ci_Machines :: "machine_input list"
  ci_ImageRepository :: "string option"
  ci_ImportData :: "import_data option"

definition DefaultServiceCIDR :: string where "DefaultServiceCIDR = ''10.43.0.0/16''"
definition DefaultServiceDomain :: string where "DefaultServiceDomain = ''cluster.local''"
definition DefaultPodCIDR :: string where "DefaultPodCIDR = ''10.42.0.0/16''"

section \<open>Drivers\<close>

datatype cluster_driver_kind = YunionVM | YunionHost | DefaultImport | SystemImport

definition driver_keys :: "cluster_driver_kind \<Rightarrow> string list" where
  "driver_keys d =
     (case d of
        YunionVM \<Rightarrow> [''customize'', ''onecloud'', ''guest'']
      | YunionHost \<Rightarrow> [''customize'', ''onecloud'', ''host'']
      | DefaultImport \<Rightarrow> [''import'', ''external'', ''unknown'']
      | SystemImport \<Rightarrow> [''import'', ''system'', ''host''])"

text \<open>\<open>log.Fatalf\<close> ends the process.\<close>

datatype 'a outcome = Exits string | Returns 'a

definition RegisterClusterDriver ::
  "cluster_driver_kind \<Rightarrow> (string \<rightharpoonup> cluster_driver_kind) \<Rightarrow> (string \<rightharpoonup> cluster_driver_kind) outcome" where
  "RegisterClusterDriver d m =
     (case Register d (driver_keys d) m of (_, Some err) \<Rightarrow> Exits err | (m', None) \<Rightarrow> Returns m')"

text \<open>The registry after the \<open>init\<close> functions of the package.\<close>

definition clusterDrivers :: "string \<rightharpoonup> cluster_driver_kind" where
  "clusterDrivers =
     foldl (\<lambda>m d. fst (Register d (driver_keys d) m)) Map.empty [DefaultImport, SystemImport, YunionHost, YunionVM]"

definition GetDriverWithError :: "string \<Rightarrow> string \<Rightarrow> string \<Rightarrow> string + cluster_driver_kind" where
  "GetDriverWithError mode provider resType = Driver_Get [mode, provider, resType] clusterDrivers"

definition GetClusterDriver :: "string \<Rightarrow> string \<Rightarrow> string \<Rightarrow> cluster_driver_kind outcome" where
  "GetClusterDriver mode provider resType =
     (case GetDriverWithError mode provider resType of
        Inl err \<Rightarrow> Exits err
      | Inr drv \<Rightarrow> Returns drv)"

definition GetK8sVersions :: "cluster_driver_kind \<Rightarrow> string list" where
  "GetK8sVersions d = (case d of YunionVM \<Rightarrow> [''v1.14.1''] | YunionHost \<Rightarrow> [''v1.13.3''] | _ \<Rightarrow> [])"

definition NeedCreateMachines :: "cluster_driver_kind \<Rightarrow> bool" where
  "NeedCreateMachines d \<longleftrightarrow> d \<in> {YunionVM, YunionHost}"

definition NeedGenerateCertificate :: "cluster_driver_kind \<Rightarrow> bool" where
  "NeedGenerateCertificate d \<longleftrightarrow> d \<in> {YunionVM, YunionHost}"

definition Driver_ValidateDeleteCondition :: "cluster_driver_kind \<Rightarrow> string option" where
  "Driver_ValidateDeleteCondition d = (if d = SystemImport then Some ''system cluster not allow delete'' else None)"

subsection \<open>The validation of each driver\<close>

text \<open>What an imported cluster answers: the client configuration (host and encoded kubeconfig) and the version; the system
  cluster, the UIDs of the \<open>kubernetes\<close> service in both, and for OpenShift its client and the versions of the API server's operator.\<close>

record import_env =
  ie_config :: "string \<Rightarrow> string \<Rightarrow> string + string"
  ie_encode :: "string + string"
  ie_client_err :: "string option"
  ie_version :: "string \<Rightarrow> string + string"
  ie_sysCluster :: "string + bool"
  ie_uid :: "string + string"
  ie_sysClient_err :: "string option"
  ie_sysUid :: "string + string"
  ie_oc_err :: "string option"
  ie_operator :: "string + (string \<times> string) list"

text \<open>The driver of each distribution. When the operator cannot be read the driver wraps the error of the call
  before, which is nil, and \<open>errors.Wrap\<close> of nil is nil.\<close>

definition Openshift_ValidateCreateData :: "import_env \<Rightarrow> import_data \<Rightarrow> string option \<times> import_data" where
  "Openshift_ValidateCreateData e d =
     (let err = ie_oc_err e in
      if err \<noteq> None then (errors_Wrap ''new openshift client'' err, d)
      else case ie_operator e of
             Inl serverErr \<Rightarrow> (errors_Wrap ''get openshift apiserver'' err, d)
           | Inr versions \<Rightarrow>
               (None, fold (\<lambda>(name, ver) d. if name = ''operator'' then d\<lparr>imp_DistributionVersion := ver\<rparr> else d) versions d))"

definition Distro_ValidateCreateData :: "import_env \<Rightarrow> import_data \<Rightarrow> string option \<times> import_data" where
  "Distro_ValidateCreateData e d = (if imp_Distribution d = ''k8s'' then (None, d) else Openshift_ValidateCreateData e d)"

definition check_not_system :: "import_env \<Rightarrow> string option" where
  "check_not_system e =
     (case ie_sysCluster e of
        Inl err \<Rightarrow> Some (''Get system cluster: '' @ err)
      | Inr found \<Rightarrow>
          if \<not> found then Some ''Not found system cluster''
          else case ie_uid e of
                 Inl err \<Rightarrow> Some err
               | Inr u \<Rightarrow>
                   (case ie_sysClient_err e of
                      Some err \<Rightarrow> Some (''Get system cluster k8s client: '' @ err)
                    | None \<Rightarrow>
                        (case ie_sysUid e of
                           Inl err \<Rightarrow> Some err
                         | Inr v \<Rightarrow> if u = v then Some ''cluster already imported as default system cluster'' else None)))"

definition Import_ValidateCreateData :: "import_env \<Rightarrow> cluster_input \<Rightarrow> string + cluster_input" where
  "Import_ValidateCreateData e input =
     (case ci_ImportData input of
        None \<Rightarrow> Inl ''not found import data''
      | Some d0 \<Rightarrow>
          let d = (if imp_Distribution d0 = [] then d0\<lparr>imp_Distribution := ''k8s''\<rparr> else d0) in
          if imp_Distribution d \<notin> {''k8s'', ''openshift''} then Inl (''Not support import distribution '' @ imp_Distribution d)
          else case ie_config e (imp_ApiServer d) (imp_Kubeconfig d) of
                 Inl err \<Rightarrow> Inl (''Invalid imported kubeconfig: '' @ err)
               | Inr host \<Rightarrow>
                   (case ie_encode e of
                      Inl err \<Rightarrow> Inl (''Load kubeconfig error: '' @ err)
                    | Inr newKubeconfig \<Rightarrow>
                        (case ie_client_err e of
                           Some err \<Rightarrow> Inl err
                         | None \<Rightarrow>
                             (case ie_version e host of
                                Inl err \<Rightarrow> Inl err
                              | Inr version \<Rightarrow>
                                  (case check_not_system e of
                                     Some err \<Rightarrow> Inl err
                                   | None \<Rightarrow>
                                       let (err, d2) = Distro_ValidateCreateData e (d\<lparr>imp_Kubeconfig := newKubeconfig, imp_ApiServer := host\<rparr>) in
                                       case errors_Wrap (''check distribution '' @ imp_Distribution d) err of
                                         Some x \<Rightarrow> Inl x
                                       | None \<Rightarrow> Inr (input\<lparr>ci_Version := version, ci_ImportData := Some d2\<rparr>))))))"

definition System_ValidateCreateData :: "import_env \<Rightarrow> cluster_input \<Rightarrow> (string + cluster_input) go" where
  "System_ValidateCreateData e input =
     (case ci_ImportData input of
        None \<Rightarrow> Inl NilDereference
      | Some d \<Rightarrow>
          Inr (if imp_ApiServer d = [] then Inl ''ApiServer must provide''
               else case ie_config e (imp_ApiServer d) (imp_Kubeconfig d) of
                      Inl err \<Rightarrow> Inl (''Invalid imported kubeconfig: '' @ err)
                    | Inr host \<Rightarrow>
                        (case ie_version e host of
                           Inl err \<Rightarrow> Inl (''Get kubernetes version: '' @ err)
                         | Inr version \<Rightarrow> Inr (input\<lparr>ci_Version := version\<rparr>))))"

text \<open>For a VM cluster the machines are validated without a cluster, under its name.\<close>

definition VM_Cluster_ValidateCreateData ::
  "machine_env \<Rightarrow> cluster_input \<Rightarrow> (string + cluster_input) go option" where
  "VM_Cluster_ValidateCreateData e input =
     (let (controls, _) = GetControlplaneMachineDatas [] (ci_Machines input) in
      if length controls = 0 \<and> ci_Provider input \<noteq> ''onecloud'' then Some (Inr (Inl ''No controlplane nodes''))
      else cbind (ValidateCreateMachines (e\<lparr>me_prefix := Some (ci_Name input)\<rparr>) None empty_store (ci_Machines input))
             (\<lambda>r. Some (Inr (case r of Inl err \<Rightarrow> Inl err | Inr ms \<Rightarrow> Inr (input\<lparr>ci_Machines := ms\<rparr>)))))"

record cluster_env =
  cl_base_err :: "string option"
  cl_isAdmin :: bool
  cl_prefix :: "string \<Rightarrow> bool"
  cl_machines :: machine_env
  cl_hosts :: host_env
  cl_store :: machine_store
  cl_import :: import_env

definition Driver_ValidateCreateData :: "cluster_env \<Rightarrow> cluster_driver_kind \<Rightarrow> cluster_input \<Rightarrow> (string + cluster_input) go option" where
  "Driver_ValidateCreateData e d input =
     (case d of
        YunionVM \<Rightarrow> VM_Cluster_ValidateCreateData (cl_machines e) input
      | YunionHost \<Rightarrow>
          Some (Inr (case ValidateClusterCreateData (cl_hosts e) (cl_store e) (ci_Provider input) (ci_Machines input) of
                       Inl err \<Rightarrow> Inl err
                     | Inr ms \<Rightarrow> Inr (input\<lparr>ci_Machines := ms\<rparr>)))
      | DefaultImport \<Rightarrow> Some (Inr (Import_ValidateCreateData (cl_import e) input))
      | SystemImport \<Rightarrow> Some (System_ValidateCreateData (cl_import e) input))"

section \<open>ValidateCreateData\<close>

definition ValidateProviderType :: "string \<Rightarrow> string option" where
  "ValidateProviderType p =
     (if p \<in> {''onecloud'', ''system'', ''external''} then None else Some (''Invalid provider type: '' @ p))"

definition Cluster_ValidateResourceType :: "string \<Rightarrow> string option" where
  "Cluster_ValidateResourceType r =
     (if r \<in> {''host'', ''guest'', ''unknown''} then None else Some (''Invalid cluster resource type: '' @ r))"

definition GetRegistryUrlByRepoUrl :: "string \<Rightarrow> string + string" where
  "GetRegistryUrlByRepoUrl repo =
     (let rets = strings_Split CHR ''/'' repo in
      if length rets \<noteq> 2 then Inl (''Invalid image repository format '' @ repo) else Inr (rets ! 0))"

definition default_to :: "string \<Rightarrow> string \<Rightarrow> string" where
  "default_to d x = (if x = [] then d else x)"

text \<open>The loop over the machines: the first resource type counts for all.\<close>

fun same_machine_type :: "string \<Rightarrow> machine_input list \<Rightarrow> string option" where
  "same_machine_type t [] = None"
| "same_machine_type t (m # ms) =
     (if in_ResourceType m = [] then Some ''Machine resource type is empty''
      else let t1 = (if t = [] then in_ResourceType m else t) in
           if t1 \<noteq> in_ResourceType m then Some ''Machine resource type must same'' else same_machine_type t1 ms)"

text \<open>The types of the cluster; then its networks; then machines, version and registry.\<close>

definition validate_types :: "cluster_env \<Rightarrow> cluster_input \<Rightarrow> string + cluster_driver_kind \<times> cluster_input" where
  "validate_types e input =
     (if ci_IsSystem input = Some True \<and> \<not> cl_isAdmin e then Inl ''non-admin user not allowed to create system object''
      else
        let i1 = input\<lparr>ci_ClusterType := default_to ''default'' (ci_ClusterType input)\<rparr> in
        if ci_ClusterType i1 \<noteq> ''default'' then Inl (''Invalid cluster type: '' @ ci_ClusterType i1)
        else
          let i2 = i1\<lparr>ci_CloudType := default_to ''private'' (ci_CloudType i1)\<rparr> in
          if ci_CloudType i2 \<noteq> ''private'' then Inl (''Invalid cloud type: '' @ ci_CloudType i2)
          else
            let i3 = i2\<lparr>ci_ResourceType := default_to ''host'' (ci_ResourceType i2)\<rparr> in
            case Cluster_ValidateResourceType (ci_ResourceType i3) of
              Some err \<Rightarrow> Inl err
            | None \<Rightarrow>
                let i4 = i3\<lparr>ci_Mode := default_to ''customize'' (ci_Mode i3)\<rparr> in
                if ci_Mode i4 \<notin> {''customize'', ''import''} then Inl (''Invalid mode type: '' @ ci_Mode i4)
                else
                  let i5 = i4\<lparr>ci_Provider := default_to ''onecloud'' (ci_Provider i4)\<rparr> in
                  case ValidateProviderType (ci_Provider i5) of
                    Some err \<Rightarrow> Inl err
                  | None \<Rightarrow>
                      (case GetDriverWithError (ci_Mode i5) (ci_Provider i5) (ci_ResourceType i5) of
                         Inl err \<Rightarrow> Inl err
                       | Inr drv \<Rightarrow> Inr (drv, i5)))"

definition validate_networks :: "cluster_env \<Rightarrow> cluster_input \<Rightarrow> string + cluster_input" where
  "validate_networks e input =
     (let i1 = input\<lparr>ci_ServiceCidr := default_to DefaultServiceCIDR (ci_ServiceCidr input)\<rparr> in
      if \<not> cl_prefix e (ci_ServiceCidr i1) then Inl (''Invalid service CIDR: '' @ ci_ServiceCidr i1)
      else
        let i2 = i1\<lparr>ci_ServiceDomain := default_to DefaultServiceDomain (ci_ServiceDomain i1)\<rparr> in
        if ci_ServiceDomain i2 = [] then Inl ''service domain must provided''
        else
          let i3 = i2\<lparr>ci_PodCidr := default_to DefaultPodCIDR (ci_PodCidr i2)\<rparr> in
          if \<not> cl_prefix e (ci_PodCidr i3) then Inl (''Invalid pod CIDR: '' @ ci_PodCidr i3) else Inr i3)"

definition validate_version :: "cluster_driver_kind \<Rightarrow> cluster_input \<Rightarrow> string + cluster_input" where
  "validate_version drv input =
     (case GetK8sVersions drv of
        [] \<Rightarrow> Inr input
      | v # vs \<Rightarrow>
          let i1 = input\<lparr>ci_Version := default_to v (ci_Version input)\<rparr> in
          if ci_Version i1 \<notin> set (v # vs) then Inl (''Invalid version: '' @ ci_Version i1) else Inr i1)"

definition validate_registry :: "cluster_input \<Rightarrow> string option" where
  "validate_registry input =
     (case ci_ImageRepository input of
        None \<Rightarrow> None
      | Some url \<Rightarrow>
          if url = [] then Some ''image_repository.url is empty''
          else case GetRegistryUrlByRepoUrl url of Inl err \<Rightarrow> Some err | Inr _ \<Rightarrow> None)"

definition Cluster_ValidateCreateData :: "cluster_env \<Rightarrow> cluster_input \<Rightarrow> (string + cluster_input) go option" where
  "Cluster_ValidateCreateData e input =
     (case cl_base_err e of
        Some err \<Rightarrow> Some (Inr (Inl err))
      | None \<Rightarrow>
          (case validate_types e input of
             Inl err \<Rightarrow> Some (Inr (Inl err))
           | Inr (drv, i1) \<Rightarrow>
               (case validate_networks e i1 of
                  Inl err \<Rightarrow> Some (Inr (Inl err))
                | Inr i2 \<Rightarrow>
                    if ci_Provider i2 \<noteq> ''system'' \<and> NeedCreateMachines drv \<and> length (ci_Machines i2) = 0
                    then Some (Inr (Inl ''Machines desc not provider''))
                    else case same_machine_type [] (ci_Machines i2) of
                           Some err \<Rightarrow> Some (Inr (Inl err))
                         | None \<Rightarrow>
                             cbind (Driver_ValidateCreateData e drv i2) (\<lambda>r.
                               Some (Inr (case r of
                                  Inl err \<Rightarrow> Inl err
                                | Inr i3 \<Rightarrow>
                                    (case validate_version drv i3 of
                                       Inl err \<Rightarrow> Inl err
                                     | Inr i4 \<Rightarrow>
                                         (case validate_registry i4 of Some err \<Rightarrow> Inl err | None \<Rightarrow> Inr i4))))))))"

section \<open>The record of a new cluster\<close>

record cluster_record =
  cr_IsSystem :: bool
  cr_Mode :: string
  cr_Provider :: string
  cr_ResourceType :: string
  cr_Kubeconfig :: string
  cr_ApiServer :: string
  cr_Distribution :: string

definition CustomizeCreate :: "string option \<Rightarrow> cluster_input \<Rightarrow> cluster_record \<Rightarrow> (cluster_record \<times> string option) go" where
  "CustomizeCreate base_err input r =
     (case base_err of
        Some err \<Rightarrow> Inr (r, Some err)
      | None \<Rightarrow>
          let r1 = r\<lparr>cr_IsSystem := (ci_IsSystem input = Some True)\<rparr> in
          if ci_Mode input = ''import'' then
            (case ci_ImportData input of
               None \<Rightarrow> Inl NilDereference
             | Some d \<Rightarrow>
                 Inr (r1\<lparr>cr_Kubeconfig := imp_Kubeconfig d, cr_Distribution := imp_Distribution d, cr_ApiServer := imp_ApiServer d\<rparr>, None))
          else Inr (r1, None))"

section \<open>The query of versions\<close>

definition GetDriverByQuery :: "string \<Rightarrow> string \<Rightarrow> string \<Rightarrow> (string + cluster_driver_kind) outcome" where
  "GetDriverByQuery mode provider resType =
     (case ValidateProviderType provider of
        Some err \<Rightarrow> Returns (Inl err)
      | None \<Rightarrow>
          let r = (if length resType = 0 then ''host'' else resType) in
          case Cluster_ValidateResourceType r of
            Some err \<Rightarrow> Returns (Inl err)
          | None \<Rightarrow> (case GetClusterDriver mode provider r of Exits err \<Rightarrow> Exits err | Returns drv \<Rightarrow> Returns (Inr drv)))"

definition GetPropertyK8sVersions :: "string \<Rightarrow> string \<Rightarrow> string \<Rightarrow> (string + string list) outcome" where
  "GetPropertyK8sVersions mode provider resType =
     (case GetDriverByQuery (if mode = [] then ''customize'' else mode) provider resType of
        Exits err \<Rightarrow> Exits err
      | Returns (Inl err) \<Rightarrow> Returns (Inl err)
      | Returns (Inr drv) \<Rightarrow> Returns (Inr (GetK8sVersions drv)))"

section \<open>Which combinations have a driver\<close>

lemma append_eq_literal:
  "m @ suf = x \<longleftrightarrow> length suf \<le> length x \<and> drop (length x - length suf) x = suf \<and> m = take (length x - length suf) x"
proof
  assume "length suf \<le> length x \<and> drop (length x - length suf) x = suf \<and> m = take (length x - length suf) x"
  then show "m @ suf = x" by (metis append_take_drop_id)
qed auto

lemma clusterDrivers_eq:
  "clusterDrivers =
     [''import->external->unknown'' \<mapsto> DefaultImport, ''import->system->host'' \<mapsto> SystemImport,
      ''customize->onecloud->host'' \<mapsto> YunionHost, ''customize->onecloud->guest'' \<mapsto> YunionVM]"
  by (simp add: clusterDrivers_def Register_def driver_keys_def getIndexKey_def)

abbreviation valid_types :: "string \<Rightarrow> string \<Rightarrow> bool" where
  "valid_types provider resType \<equiv> ValidateProviderType provider = None \<and> Cluster_ValidateResourceType resType = None"

lemma valid_types_iff:
  "ValidateProviderType p = None \<longleftrightarrow> p \<in> {''onecloud'', ''system'', ''external''}"
  "Cluster_ValidateResourceType r = None \<longleftrightarrow> r \<in> {''host'', ''guest'', ''unknown''}"
  by (simp_all add: ValidateProviderType_def Cluster_ValidateResourceType_def)

lemma driver_keys_iff:
  "driver_keys d = [m, p, r] \<longleftrightarrow>
     (case d of
        YunionVM \<Rightarrow> m = ''customize'' \<and> p = ''onecloud'' \<and> r = ''guest''
      | YunionHost \<Rightarrow> m = ''customize'' \<and> p = ''onecloud'' \<and> r = ''host''
      | DefaultImport \<Rightarrow> m = ''import'' \<and> p = ''external'' \<and> r = ''unknown''
      | SystemImport \<Rightarrow> m = ''import'' \<and> p = ''system'' \<and> r = ''host'')"
  by (cases d) (auto simp: driver_keys_def)

text \<open>The key of the registry is the concatenation of its parts; for valid types it determines them.\<close>

lemma GetDriverWithError_Inr:
  assumes "valid_types p r"
  shows "GetDriverWithError m p r = Inr d \<longleftrightarrow> driver_keys d = [m, p, r]"
proof -
  have "p \<in> {''onecloud'', ''system'', ''external''}" "r \<in> {''host'', ''guest'', ''unknown''}"
    using assms by (simp_all add: valid_types_iff)
  then show ?thesis
    by (elim insertE emptyE)
      (simp_all add: GetDriverWithError_def Driver_Get_def clusterDrivers_eq getIndexKey_def append_eq_literal driver_keys_iff
        split: cluster_driver_kind.split)
qed

section \<open>What is accepted\<close>

lemma validate_types_Inr:
  assumes "validate_types e input = Inr (drv, i)"
  shows "driver_keys drv = [ci_Mode i, ci_Provider i, ci_ResourceType i] \<and> ci_ClusterType i = ''default'' \<and> ci_CloudType i = ''private'' \<and>
    ci_ImportData i = ci_ImportData input \<and> ci_Machines i = ci_Machines input \<and> ci_Version i = ci_Version input \<and>
    ci_ImageRepository i = ci_ImageRepository input"
  using assms
  by (auto simp: validate_types_def Let_def GetDriverWithError_Inr split: if_splits option.splits sum.splits)

lemma validate_networks_Inr:
  assumes "validate_networks e input = Inr i"
  shows "cl_prefix e (ci_ServiceCidr i) \<and> ci_ServiceDomain i \<noteq> [] \<and> cl_prefix e (ci_PodCidr i) \<and>
    i = input\<lparr>ci_ServiceCidr := ci_ServiceCidr i, ci_ServiceDomain := ci_ServiceDomain i, ci_PodCidr := ci_PodCidr i\<rparr>"
  using assms by (auto simp: validate_networks_def Let_def split: if_splits)

lemma validate_version_Inr:
  assumes "validate_version drv input = Inr i"
  shows "(GetK8sVersions drv \<noteq> [] \<longrightarrow> ci_Version i \<in> set (GetK8sVersions drv)) \<and> i = input\<lparr>ci_Version := ci_Version i\<rparr>"
  using assms by (auto simp: validate_version_def Let_def split: if_splits list.splits)

lemma case_Inr_iff: "(case r of Inl err \<Rightarrow> Inl err | Inr x \<Rightarrow> Inr (f x)) = Inr y \<longleftrightarrow> (\<exists>x. r = Inr x \<and> y = f x)"
  by (auto split: sum.splits)

lemma VM_Cluster_Inr:
  "VM_Cluster_ValidateCreateData e input = Some (Inr (Inr i)) \<Longrightarrow>
     \<exists>ms. ValidateCreateMachines (e\<lparr>me_prefix := Some (ci_Name input)\<rparr>) None empty_store (ci_Machines input) = Some (Inr (Inr ms)) \<and>
       i = input\<lparr>ci_Machines := ms\<rparr>"
  by (auto simp: VM_Cluster_ValidateCreateData_def cbind_Some_Inr case_Inr_iff split: prod.splits if_splits)

text \<open>A driver changes only the machines, the version and the import data, and leaves no import without data.\<close>

lemma Driver_ValidateCreateData_Inr:
  assumes "Driver_ValidateCreateData e drv input = Some (Inr (Inr i))"
  shows "i = input\<lparr>ci_Machines := ci_Machines i, ci_Version := ci_Version i, ci_ImportData := ci_ImportData i\<rparr> \<and>
    (drv \<in> {DefaultImport, SystemImport} \<longrightarrow> ci_ImportData i \<noteq> None)"
proof (cases drv)
  case YunionVM
  then show ?thesis using assms by (auto simp: Driver_ValidateCreateData_def dest!: VM_Cluster_Inr)
next
  case YunionHost
  then show ?thesis using assms by (auto simp: Driver_ValidateCreateData_def split: sum.splits)
next
  case DefaultImport
  then show ?thesis using assms
    by (auto simp: Driver_ValidateCreateData_def Import_ValidateCreateData_def Let_def split: sum.splits option.splits if_splits prod.splits)
next
  case SystemImport
  then show ?thesis using assms
    by (auto simp: Driver_ValidateCreateData_def System_ValidateCreateData_def split: sum.splits option.splits if_splits)
qed

lemma Driver_machines_length:
  assumes "Driver_ValidateCreateData e drv input = Some (Inr (Inr i))" "drv \<in> {YunionVM, YunionHost}"
  shows "length (ci_Machines i) = length (ci_Machines input)"
proof (cases "drv = YunionVM")
  case True
  then obtain ms where ms: "ValidateCreateMachines ((cl_machines e)\<lparr>me_prefix := Some (ci_Name input)\<rparr>) None empty_store (ci_Machines input)
      = Some (Inr (Inr ms))" "i = input\<lparr>ci_Machines := ms\<rparr>"
    using assms(1) by (auto simp: Driver_ValidateCreateData_def dest!: VM_Cluster_Inr)
  from ValidateCreateMachines_Inr [OF ms(1)] have "length ms = length (ci_Machines input)"
    by (metis list_all2_lengthD length_map)
  with ms(2) show ?thesis by simp
next
  case False
  then have "map in_ResourceId (ci_Machines i) = map in_ResourceId (ci_Machines input)"
    using assms by (auto simp: Driver_ValidateCreateData_def ValidateClusterCreateData_resources split: sum.splits)
  then show ?thesis by (rule map_eq_imp_length_eq)
qed

definition complete_input :: "cluster_env \<Rightarrow> cluster_driver_kind \<Rightarrow> cluster_input \<Rightarrow> bool" where
  "complete_input e drv i \<longleftrightarrow>
     ci_ClusterType i = ''default'' \<and> ci_CloudType i = ''private'' \<and>
     cl_prefix e (ci_ServiceCidr i) \<and> ci_ServiceDomain i \<noteq> [] \<and> cl_prefix e (ci_PodCidr i) \<and>
     (GetK8sVersions drv \<noteq> [] \<longrightarrow> ci_Version i \<in> set (GetK8sVersions drv)) \<and>
     (NeedCreateMachines drv \<longrightarrow> ci_Machines i \<noteq> []) \<and>
     (ci_Mode i = ''import'' \<longrightarrow> ci_ImportData i \<noteq> None)"

lemma Cluster_ValidateCreateData_steps:
  "Cluster_ValidateCreateData e input = Some (Inr (Inr out)) \<longleftrightarrow>
     cl_base_err e = None \<and> (\<exists>drv i1 i2 i3. validate_types e input = Inr (drv, i1) \<and> validate_networks e i1 = Inr i2 \<and>
       (ci_Provider i2 = ''system'' \<or> \<not> NeedCreateMachines drv \<or> ci_Machines i2 \<noteq> []) \<and> same_machine_type [] (ci_Machines i2) = None \<and>
       Driver_ValidateCreateData e drv i2 = Some (Inr (Inr i3)) \<and> validate_version drv i3 = Inr out \<and> validate_registry out = None)"
proof -
  have *: "(case a of Inl err \<Rightarrow> Inl err | Inr i3 \<Rightarrow> (case validate_version drv i3 of Inl err \<Rightarrow> Inl err
      | Inr i4 \<Rightarrow> (case validate_registry i4 of Some err \<Rightarrow> Inl err | None \<Rightarrow> Inr i4))) = Inr out \<longleftrightarrow>
      (\<exists>i3. a = Inr i3 \<and> validate_version drv i3 = Inr out \<and> validate_registry out = None)" for a drv
    by (auto split: sum.splits option.splits)
  show ?thesis
    by (auto simp: Cluster_ValidateCreateData_def cbind_Some_Inr * split: option.splits sum.splits if_splits)
qed

text \<open>C28: A cluster that passes validation is complete and has a driver: asking for the driver of its mode, provider and resource type later
  never ends the process, its addresses and version are valid, its driver gets the machines it needs, and creating the record of an
  imported cluster does not dereference missing data.\<close>

theorem Cluster_ValidateCreateData_sound:
  assumes "Cluster_ValidateCreateData e input = Some (Inr (Inr out))"
  shows "\<exists>drv. GetClusterDriver (ci_Mode out) (ci_Provider out) (ci_ResourceType out) = Returns drv \<and> complete_input e drv out \<and>
    (\<forall>base_err r. CustomizeCreate base_err out r \<noteq> Inl NilDereference)"
proof -
  obtain drv i1 i2 i3 where s: "validate_types e input = Inr (drv, i1)" "validate_networks e i1 = Inr i2"
      "ci_Provider i2 = ''system'' \<or> \<not> NeedCreateMachines drv \<or> ci_Machines i2 \<noteq> []"
      "Driver_ValidateCreateData e drv i2 = Some (Inr (Inr i3))" "validate_version drv i3 = Inr out"
    using assms unfolding Cluster_ValidateCreateData_steps by blast
  note t = validate_types_Inr [OF s(1)] and n = validate_networks_Inr [OF s(2)] and
    d = Driver_ValidateCreateData_Inr [OF s(4)] and v = validate_version_Inr [OF s(5)]
  obtain sc sd pc where 2: "i2 = i1\<lparr>ci_ServiceCidr := sc, ci_ServiceDomain := sd, ci_PodCidr := pc\<rparr>" using n by blast
  obtain ms w imp where 3: "i3 = i2\<lparr>ci_Machines := ms, ci_Version := w, ci_ImportData := imp\<rparr>" using d by blast
  obtain w' where 4: "out = i3\<lparr>ci_Version := w'\<rparr>" using v by blast
  have k: "driver_keys drv = [ci_Mode out, ci_Provider out, ci_ResourceType out]" using t by (simp add: 2 3 4)
  have i: "ci_ImportData out \<noteq> None" if "ci_Mode out = ''import''"
    using d k that by (cases drv) (auto simp: 3 4 driver_keys_iff)
  have m: "ci_Machines out \<noteq> []" if "NeedCreateMachines drv"
    using Driver_machines_length [OF s(4)] s(3) k that by (auto simp: NeedCreateMachines_def 3 4 driver_keys_iff)
  have "complete_input e drv out"
    using t n v i m by (auto simp: complete_input_def 2 3 4)
  moreover have "GetClusterDriver (ci_Mode out) (ci_Provider out) (ci_ResourceType out) = Returns drv"
    using GetDriverWithError_Inr [of "ci_Provider out" "ci_ResourceType out" "ci_Mode out" drv] k
    by (cases drv) (auto simp: GetClusterDriver_def driver_keys_iff valid_types_iff)
  moreover have "CustomizeCreate base_err out r \<noteq> Inl NilDereference" for base_err r
    using i by (auto simp: CustomizeCreate_def Let_def split: option.splits)
  ultimately show ?thesis by blast
qed

section \<open>What is not caught\<close>

text \<open>The query of the versions of a driver, which every user may send, ends the process exactly for valid types without a driver, such
  as the provider system with the default mode: the driver is asked for with \<open>log.Fatalf\<close>.\<close>

theorem k8s_versions_query_exits:
  "(\<exists>err. GetPropertyK8sVersions mode provider resType = Exits err) \<longleftrightarrow>
     valid_types provider (if resType = [] then ''host'' else resType) \<and>
     (\<nexists>drv. driver_keys drv = [if mode = [] then ''customize'' else mode, provider, if resType = [] then ''host'' else resType])"
proof (cases "valid_types provider (if resType = [] then ''host'' else resType)")
  case True
  let ?m = "if mode = [] then ''customize'' else mode" and ?r = "if resType = [] then ''host'' else resType"
  have "GetPropertyK8sVersions mode provider resType =
      (case GetDriverWithError ?m provider ?r of Inl err \<Rightarrow> Exits err | Inr drv \<Rightarrow> Returns (Inr (GetK8sVersions drv)))"
    using True by (auto simp: GetPropertyK8sVersions_def GetDriverByQuery_def GetClusterDriver_def Let_def split: sum.splits)
  then have "(\<exists>err. GetPropertyK8sVersions mode provider resType = Exits err) \<longleftrightarrow> (\<nexists>drv. GetDriverWithError ?m provider ?r = Inr drv)"
    by (cases "GetDriverWithError ?m provider ?r") auto
  then show ?thesis using True by (simp only: GetDriverWithError_Inr simp_thms)
next
  case False
  then show ?thesis
    by (auto simp: GetPropertyK8sVersions_def GetDriverByQuery_def Let_def split: option.splits)
qed

lemma k8s_versions_query_default: "\<exists>err. GetPropertyK8sVersions [] ''system'' [] = Exits err"
  by (simp add: GetPropertyK8sVersions_def GetDriverByQuery_def GetClusterDriver_def GetDriverWithError_def Driver_Get_def
      getIndexKey_def clusterDrivers_eq ValidateProviderType_def Cluster_ValidateResourceType_def)

text \<open>The system driver dereferences the import data of a request that has none.\<close>

lemma system_import_panics:
  "ci_ImportData input = None \<Longrightarrow> Driver_ValidateCreateData e SystemImport input = Some (Inl NilDereference)"
  by (simp add: Driver_ValidateCreateData_def System_ValidateCreateData_def)

text \<open>Importing an OpenShift cluster never fails on its operator: any cluster passes, without a version.\<close>

lemma openshift_unchecked:
  "ie_oc_err e = None \<Longrightarrow> ie_operator e = Inl serverErr \<Longrightarrow> Distro_ValidateCreateData e d = (None, d)"
  by (simp add: Distro_ValidateCreateData_def Openshift_ValidateCreateData_def errors_Wrap_def)

lemma validate_version_machines:
  "validate_version drv i = Inr out \<Longrightarrow> validate_version drv (i\<lparr>ci_Machines := ms\<rparr>) = Inr (out\<lparr>ci_Machines := ms\<rparr>)"
  by (auto simp: validate_version_def Let_def split: list.splits if_splits)

lemma validate_hosts:
  "validate_types (e\<lparr>cl_hosts := h\<rparr>) i = validate_types e i" "validate_networks (e\<lparr>cl_hosts := h\<rparr>) i = validate_networks e i"
  by (simp_all add: validate_types_def validate_networks_def Let_def)

text \<open>A new cluster of hosts is accepted whatever its hosts answer: two environments that differ in the compute service and the remote
  shells accept the same requests.\<close>

theorem host_cluster_unchecked:
  assumes "driver_keys YunionHost = [ci_Mode out, ci_Provider out, ci_ResourceType out]"
    and "Cluster_ValidateCreateData (e\<lparr>cl_hosts := h\<rparr>) input = Some (Inr (Inr out))"
    and "he_session_err h' = None" "he_key_err h' = None"
  shows "\<exists>out'. Cluster_ValidateCreateData (e\<lparr>cl_hosts := h'\<rparr>) input = Some (Inr (Inr out')) \<and>
    map in_ResourceId (ci_Machines out') = map in_ResourceId (ci_Machines input)"
proof -
  let ?e = "e\<lparr>cl_hosts := h\<rparr>" and ?e' = "e\<lparr>cl_hosts := h'\<rparr>"
  obtain drv i1 i2 i3 where s: "validate_types ?e input = Inr (drv, i1)" "validate_networks ?e i1 = Inr i2"
      "ci_Provider i2 = ''system'' \<or> \<not> NeedCreateMachines drv \<or> ci_Machines i2 \<noteq> []" "same_machine_type [] (ci_Machines i2) = None"
      "Driver_ValidateCreateData ?e drv i2 = Some (Inr (Inr i3))" "validate_version drv i3 = Inr out" "validate_registry out = None"
    and b: "cl_base_err ?e = None"
    using assms(2) unfolding Cluster_ValidateCreateData_steps by blast
  note t = validate_types_Inr [OF s(1)] and n = validate_networks_Inr [OF s(2)] and
    d = Driver_ValidateCreateData_Inr [OF s(5)] and v = validate_version_Inr [OF s(6)]
  obtain sc sd pc where 2: "i2 = i1\<lparr>ci_ServiceCidr := sc, ci_ServiceDomain := sd, ci_PodCidr := pc\<rparr>" using n by blast
  obtain ms w imp where 3: "i3 = i2\<lparr>ci_Machines := ms, ci_Version := w, ci_ImportData := imp\<rparr>" using d by blast
  obtain w' where 4: "out = i3\<lparr>ci_Version := w'\<rparr>" using v by blast
  have drv: "drv = YunionHost"
    using t assms(1) by (cases drv) (auto simp: 2 3 4 driver_keys_iff)
  obtain ms0 where "ValidateClusterCreateData h (cl_store e) (ci_Provider i2) (ci_Machines i2) = Inr ms0"
    and w: "i3 = i2\<lparr>ci_Machines := ms0\<rparr>"
    using s(5) by (auto simp: drv Driver_ValidateCreateData_def case_Inr_iff)
  then obtain ms' where a': "ValidateClusterCreateData h' (cl_store e) (ci_Provider i2) (ci_Machines i2) = Inr ms'"
    using ValidateClusterCreateData_accepts [of h "cl_store e" "ci_Provider i2" "ci_Machines i2"]
      ValidateClusterCreateData_accepts [of h' "cl_store e" "ci_Provider i2" "ci_Machines i2"] assms(3,4) by auto
  let ?out = "out\<lparr>ci_Machines := ms'\<rparr>"
  have "validate_types ?e' input = Inr (drv, i1)" "validate_networks ?e' i1 = Inr i2"
    using s(1,2) by (simp_all add: validate_hosts)
  moreover have "Driver_ValidateCreateData ?e' drv i2 = Some (Inr (Inr (i2\<lparr>ci_Machines := ms'\<rparr>)))"
    by (simp add: drv Driver_ValidateCreateData_def a')
  moreover have "validate_version drv (i2\<lparr>ci_Machines := ms'\<rparr>) = Inr ?out"
    using validate_version_machines [OF s(6), of ms'] by (simp add: w)
  moreover have "validate_registry ?out = None" using s(7) by (simp add: validate_registry_def)
  ultimately have "Cluster_ValidateCreateData ?e' input = Some (Inr (Inr ?out))"
    unfolding Cluster_ValidateCreateData_steps using s(3,4) b by auto
  moreover have "map in_ResourceId (ci_Machines ?out) = map in_ResourceId (ci_Machines input)"
    using ValidateClusterCreateData_resources [OF a'] t by (simp add: 2)
  ultimately show ?thesis by blast
qed

section \<open>A sample\<close>

definition sample_import :: import_env where
  "sample_import = \<lparr>ie_config = (\<lambda>_ _. Inl ''none''), ie_encode = Inl ''none'', ie_client_err = None, ie_version = (\<lambda>_. Inl ''none''),
     ie_sysCluster = Inr False, ie_uid = Inl ''none'', ie_sysClient_err = None, ie_sysUid = Inl ''none'', ie_oc_err = None,
     ie_operator = Inl ''forbidden''\<rparr>"

definition sample_cluster_env :: cluster_env where
  "sample_cluster_env = \<lparr>cl_base_err = None, cl_isAdmin = False, cl_prefix = (\<lambda>s. s \<noteq> []), cl_machines = sample_machine_env,
     cl_hosts = sample_hosts, cl_store = empty_store, cl_import = sample_import\<rparr>"

definition sample_request :: cluster_input where
  "sample_request = \<lparr>ci_Name = ''prod'', ci_IsSystem = None, ci_ClusterType = [], ci_CloudType = [], ci_ResourceType = [], ci_Mode = [],
     ci_Provider = [], ci_ServiceCidr = [], ci_ServiceDomain = [], ci_PodCidr = [], ci_Version = [], ci_Machines = [sample_host_machine],
     ci_ImageRepository = None, ci_ImportData = None\<rparr>"

definition sample_accepted :: cluster_input where
  "sample_accepted = sample_request\<lparr>ci_ClusterType := ''default'', ci_CloudType := ''private'', ci_ResourceType := ''host'',
     ci_Mode := ''customize'', ci_Provider := ''onecloud'', ci_ServiceCidr := DefaultServiceCIDR, ci_ServiceDomain := DefaultServiceDomain,
     ci_PodCidr := DefaultPodCIDR, ci_Version := ''v1.13.3''\<rparr>"

lemma sample_request_accepted: "Cluster_ValidateCreateData sample_cluster_env sample_request = Some (Inr (Inr sample_accepted))"
  by code_simp

theorem Cluster_ValidateCreateData_sound_witness:
  "\<exists>drv. GetClusterDriver ''customize'' ''onecloud'' ''host'' = Returns drv \<and> complete_input sample_cluster_env drv sample_accepted"
  using Cluster_ValidateCreateData_sound [OF sample_request_accepted]
  by (auto simp: sample_accepted_def)

text \<open>No host is known here.\<close>

theorem host_cluster_unchecked_witness:
  "\<exists>out. Cluster_ValidateCreateData (sample_cluster_env\<lparr>cl_hosts := sample_hosts\<lparr>he_get := \<lambda>_. Inl ''not found''\<rparr>\<rparr>) sample_request = Some (Inr (Inr out)) \<and>
     map in_ResourceId (ci_Machines out) = [''h1'']"
proof -
  have "Cluster_ValidateCreateData (sample_cluster_env\<lparr>cl_hosts := sample_hosts\<rparr>) sample_request = Some (Inr (Inr sample_accepted))"
    using sample_request_accepted by (simp add: sample_cluster_env_def)
  from host_cluster_unchecked [OF _ this, of "sample_hosts\<lparr>he_get := \<lambda>_. Inl ''not found''\<rparr>"] show ?thesis
    by (simp add: driver_keys_def sample_accepted_def sample_request_def sample_hosts_def sample_host_machine_def)
qed

end
