(* ===== verification/Rbac.thy ===== *)
theory Rbac
  imports Prelude
begin

text \<open>
  The mapping of the identity service's projects and roles to Kubernetes namespaces and role bindings, package
  src/pkg/controllers/auth (types.go, keystone.go, reconcile.go) with \<open>ConvertProjectToNamespace\<close> of src/pkg/types/helper.go.
  A cluster is the list of the objects the controller reads and creates; what its API refuses and the answers of the identity service are an
  environment. The pieces of \<open>Parallelize\<close> are interleaved by an arbitrary schedule.
  Shown: whatever the interleaving, a reconciliation that meets no error leaves all namespaces and bindings of a user's projects in place; a cluster-wide binding is
  created only for an administrator of the system project; different projects may share a namespace.
\<close>

section \<open>Role assignments\<close>

record role_assignment =
  ra_Role :: string
  ra_Project :: string
  ra_ProjectID :: string
  ra_User :: string
  ra_UserID :: string
  ra_Domain :: string

type_synonym role_assignments = "role_assignment list"

text \<open>\<open>sets.String\<close>: \<open>List\<close> is sorted.\<close>

definition sets_List :: "string list \<Rightarrow> string list" where
  "sets_List xs = sort (remdups xs)"

lemma set_sets_List [simp]: "set (sets_List xs) = set xs"
  by (simp add: sets_List_def)

definition GetFields :: "role_assignments \<Rightarrow> (role_assignment \<Rightarrow> string) \<Rightarrow> string list" where
  "GetFields r getAttr = sets_List (map getAttr r)"

definition Projects :: "role_assignments \<Rightarrow> string list" where
  "Projects r = GetFields r ra_Project"

definition GetStringFields :: "role_assignments \<Rightarrow> (role_assignment \<Rightarrow> string) \<Rightarrow> string list" where
  "GetStringFields r getAttr = filter (\<lambda>x. x \<noteq> []) (GetFields r getAttr)"

definition GetStringField :: "role_assignments \<Rightarrow> (role_assignment \<Rightarrow> string) \<Rightarrow> string" where
  "GetStringField r getAttr = (case GetStringFields r getAttr of [] \<Rightarrow> [] | x # _ \<Rightarrow> x)"

definition ProjectIDs :: "role_assignments \<Rightarrow> string list" where
  "ProjectIDs r = concat (map (\<lambda>project. GetStringFields r (\<lambda>ra. if ra_Project ra = project then ra_ProjectID ra else [])) (Projects r))"

definition RolesInProject :: "role_assignments \<Rightarrow> string \<Rightarrow> string list" where
  "RolesInProject r project = GetStringFields r (\<lambda>ra. if ra_Project ra = project then ra_Role ra else [])"

definition UserID :: "role_assignments \<Rightarrow> string \<Rightarrow> string" where
  "UserID r user = GetStringField r (\<lambda>ra. if ra_User ra = user then ra_UserID ra else [])"

definition is_user :: "string \<Rightarrow> role_assignment \<Rightarrow> bool" where
  "is_user ident ra \<longleftrightarrow> ra_User ra = ident \<or> ra_UserID ra = ident"

definition UserDomain :: "role_assignments \<Rightarrow> string \<Rightarrow> string" where
  "UserDomain r ident = GetStringField r (\<lambda>ra. if is_user ident ra then ra_Domain ra else [])"

definition AdminUserRoleSets :: "string set" where "AdminUserRoleSets = {''admin'', ''system''}"

fun IsAdminUser :: "role_assignments \<Rightarrow> string \<Rightarrow> bool" where
  "IsAdminUser [] ident = False"
| "IsAdminUser (ra # r) ident =
     (if is_user ident ra \<and> ra_Role ra \<in> AdminUserRoleSets then True else IsAdminUser r ident)"

fun UserProjectRole :: "role_assignments \<Rightarrow> string \<Rightarrow> string \<Rightarrow> string" where
  "UserProjectRole [] project ident = []"
| "UserProjectRole (ra # r) project ident =
     (if is_user ident ra \<and> (ra_Project ra = project \<or> ra_ProjectID ra = project) then ra_Role ra
      else UserProjectRole r project ident)"

section \<open>Namespaces of projects\<close>

definition isASCII :: "string \<Rightarrow> bool" where
  "isASCII s \<longleftrightarrow> (\<forall>c\<in>set s. of_char c \<le> (127 :: nat))"

definition unicode_ToLower :: "char \<Rightarrow> char" where
  "unicode_ToLower c = (let n = of_char c :: nat in if 65 \<le> n \<and> n \<le> 90 then char_of (n + 32) else c)"

definition strings_ToLower :: "string \<Rightarrow> string" where
  "strings_ToLower = map unicode_ToLower"

definition replaced_chars :: string where
  "replaced_chars = ''/'' @ [CHR 0x5C] @ ''.?!@#$%^&*()_+=''"

definition ConvertProjectToNamespace :: "string \<Rightarrow> string" where
  "ConvertProjectToNamespace name =
     (if \<not> isASCII name then []
      else strings_ToLower (fold (\<lambda>ch s. map (\<lambda>c. if c = ch then CHR ''-'' else c) s) replaced_chars name))"

definition ProjectsTranslate :: "string list \<Rightarrow> string list" where
  "ProjectsTranslate names = filter (\<lambda>n. n \<noteq> []) (map ConvertProjectToNamespace names)"

section \<open>The cluster\<close>

text \<open>Namespaces, role bindings (namespace, name, user), cluster role bindings (name, user) and limit ranges (namespace, name); the
  user is not part of a binding's key.\<close>

datatype kube_object = NS string | RB string string string | CRB string string | LR string string

datatype object_key = KNS string | KRB string string | KCRB string | KLR string string

fun key_of :: "kube_object \<Rightarrow> object_key" where
  "key_of (NS n) = KNS n"
| "key_of (RB n b u) = KRB n b"
| "key_of (CRB b u) = KCRB b"
| "key_of (LR n l) = KLR n l"

fun namespace_of :: "kube_object \<Rightarrow> string option" where
  "namespace_of (RB n b u) = Some n"
| "namespace_of (LR n l) = Some n"
| "namespace_of _ = None"

datatype kube_error = NotFound | AlreadyExists | OtherError string

type_synonym kube = "kube_object list"

record rbac_env =
  re_get :: "kube_object \<Rightarrow> string option"
  re_create :: "kube_object \<Rightarrow> string option"
  re_limits :: bool

definition present :: "kube_object \<Rightarrow> kube \<Rightarrow> bool" where
  "present x k \<longleftrightarrow> key_of x \<in> set (map key_of k)"

definition kube_Get :: "rbac_env \<Rightarrow> kube_object \<Rightarrow> kube \<Rightarrow> kube_error option" where
  "kube_Get e x k =
     (case re_get e x of
        Some err \<Rightarrow> Some (OtherError err)
      | None \<Rightarrow> if present x k then None else Some NotFound)"

definition kube_Create :: "rbac_env \<Rightarrow> kube_object \<Rightarrow> kube \<Rightarrow> kube \<times> kube_error option" where
  "kube_Create e x k =
     (case re_create e x of
        Some err \<Rightarrow> (k, Some (OtherError err))
      | None \<Rightarrow>
          if present x k then (k, Some AlreadyExists)
          else case namespace_of x of
                 Some n \<Rightarrow> if present (NS n) k then (k @ [x], None) else (k, Some NotFound)
               | None \<Rightarrow> (k @ [x], None))"

section \<open>Ensuring objects\<close>

definition IsK8sResourceExist :: "kube_error option \<Rightarrow> kube_error + bool" where
  "IsK8sResourceExist err =
     (case err of
        None \<Rightarrow> Inr True
      | Some NotFound \<Rightarrow> Inr False
      | Some AlreadyExists \<Rightarrow> Inr True
      | Some err \<Rightarrow> Inl err)"

definition IsNamespaceExist :: "rbac_env \<Rightarrow> string \<Rightarrow> kube \<Rightarrow> kube_error + bool" where
  "IsNamespaceExist e name k = IsK8sResourceExist (kube_Get e (NS name) k)"

definition IsRoleBindingExist :: "rbac_env \<Rightarrow> string \<Rightarrow> string \<Rightarrow> kube \<Rightarrow> kube_error + bool" where
  "IsRoleBindingExist e namespace name k = IsK8sResourceExist (kube_Get e (RB namespace name []) k)"

definition IsClusterRoleBindingExist :: "rbac_env \<Rightarrow> string \<Rightarrow> kube \<Rightarrow> kube_error + bool" where
  "IsClusterRoleBindingExist e name k = IsK8sResourceExist (kube_Get e (CRB name []) k)"

definition IsLimitRangeExist :: "rbac_env \<Rightarrow> string \<Rightarrow> string \<Rightarrow> kube \<Rightarrow> kube_error + bool" where
  "IsLimitRangeExist e namespace name k = IsK8sResourceExist (kube_Get e (LR namespace name) k)"

definition YunionResourceLimitRange :: string where "YunionResourceLimitRange = ''yunion-limit-range''"

definition CreateNamespace :: "rbac_env \<Rightarrow> string \<Rightarrow> kube \<Rightarrow> kube \<times> kube_error option" where
  "CreateNamespace e name = kube_Create e (NS name)"

definition CreateRoleBinding :: "rbac_env \<Rightarrow> string \<Rightarrow> string \<Rightarrow> string \<Rightarrow> kube \<Rightarrow> kube \<times> kube_error option" where
  "CreateRoleBinding e namespace name user = kube_Create e (RB namespace name user)"

definition CreateClusterRoleBinding :: "rbac_env \<Rightarrow> string \<Rightarrow> string \<Rightarrow> kube \<Rightarrow> kube \<times> kube_error option" where
  "CreateClusterRoleBinding e name user = kube_Create e (CRB name user)"

text \<open>The limit range is created under its own name, whatever name was asked for.\<close>

definition CreateLimitRange :: "rbac_env \<Rightarrow> string \<Rightarrow> string \<Rightarrow> kube \<Rightarrow> kube \<times> kube_error option" where
  "CreateLimitRange e namespace name = kube_Create e (LR namespace YunionResourceLimitRange)"

text \<open>\<open>EnsureFunc\<close> asks whether the object exists and creates it if not. Other goroutines may run between the two, so the answer
  is passed on: a piece is a pair of the question and the creation.\<close>

record piece =
  existsF :: "kube \<Rightarrow> kube_error + bool"
  createF :: "kube \<Rightarrow> kube \<times> kube_error option"

definition Ensure_create :: "piece \<Rightarrow> kube_error + bool \<Rightarrow> kube \<Rightarrow> kube \<times> kube_error option" where
  "Ensure_create p answer k =
     (case answer of
        Inl err \<Rightarrow> (k, Some err)
      | Inr True \<Rightarrow> (k, None)
      | Inr False \<Rightarrow>
          (case createF p k of
             (k', Some AlreadyExists) \<Rightarrow> (k', None)
           | r \<Rightarrow> r))"

definition EnsureFunc :: "piece \<Rightarrow> kube \<Rightarrow> kube \<times> kube_error option" where
  "EnsureFunc p k = Ensure_create p (existsF p k) k"

definition EnsureNamespace :: "rbac_env \<Rightarrow> string \<Rightarrow> piece" where
  "EnsureNamespace e project = \<lparr>existsF = IsNamespaceExist e project, createF = CreateNamespace e project\<rparr>"

definition EnsureRoleBinding :: "rbac_env \<Rightarrow> string \<Rightarrow> string \<Rightarrow> string \<Rightarrow> piece" where
  "EnsureRoleBinding e namespace name user =
     \<lparr>existsF = IsRoleBindingExist e namespace name, createF = CreateRoleBinding e namespace name user\<rparr>"

definition EnsureClusterRoleBinding :: "rbac_env \<Rightarrow> string \<Rightarrow> string \<Rightarrow> piece" where
  "EnsureClusterRoleBinding e name user =
     \<lparr>existsF = IsClusterRoleBindingExist e name, createF = CreateClusterRoleBinding e name user\<rparr>"

definition EnsureLimitRange :: "rbac_env \<Rightarrow> string \<Rightarrow> string \<Rightarrow> piece" where
  "EnsureLimitRange e namespace name = \<lparr>existsF = IsLimitRangeExist e namespace name, createF = CreateLimitRange e namespace name\<rparr>"

text \<open>\<open>Parallelize\<close>: the schedule names the piece that makes its next step; the first step of a piece asks, the second creates. The progress
  of a piece is its answer and, at the end, its error.\<close>

datatype progress = Waiting | Asked "kube_error + bool" | Done "kube_error option"

definition piece_step :: "piece \<Rightarrow> progress \<Rightarrow> kube \<Rightarrow> kube \<times> progress" where
  "piece_step p g k =
     (case g of
        Waiting \<Rightarrow> (k, Asked (existsF p k))
      | Asked answer \<Rightarrow> (let (k', err) = Ensure_create p answer k in (k', Done err))
      | Done err \<Rightarrow> (k, Done err))"

fun run_pieces :: "piece list \<Rightarrow> nat list \<Rightarrow> kube \<times> progress list \<Rightarrow> kube \<times> progress list" where
  "run_pieces ps [] st = st"
| "run_pieces ps (i # is) (k, gs) =
     (if i < length ps then let (k', g) = piece_step (ps ! i) (gs ! i) k in run_pieces ps is (k', gs[i := g])
      else run_pieces ps is (k, gs))"

text \<open>A schedule is complete if every piece makes both steps.\<close>

definition complete_schedule :: "nat \<Rightarrow> nat list \<Rightarrow> bool" where
  "complete_schedule n is \<longleftrightarrow> (\<forall>i<n. 2 \<le> count (mset is) i)"

definition errors_of :: "progress list \<Rightarrow> kube_error list" where
  "errors_of gs = concat (map (\<lambda>g. case g of Done (Some err) \<Rightarrow> [err] | _ \<Rightarrow> []) gs)"

definition Parallelize :: "nat list \<Rightarrow> piece list \<Rightarrow> kube \<Rightarrow> kube \<times> kube_error list" where
  "Parallelize schedule ps k =
     (let (k', gs) = run_pieces ps schedule (k, replicate (length ps) Waiting) in (k', errors_of gs))"

section \<open>Reconciliation\<close>

definition rbac_piece :: "rbac_env \<Rightarrow> string \<Rightarrow> string \<Rightarrow> role_assignments \<Rightarrow> string \<Rightarrow> piece" where
  "rbac_piece e userName userID ras project =
     (let rbacRoleName = userName @ '':'' @ userID in
      if project = ''system'' \<and> set (RolesInProject ras project) \<inter> AdminUserRoleSets \<noteq> {}
      then EnsureClusterRoleBinding e (''keystone:admin:'' @ rbacRoleName) userName
      else EnsureRoleBinding e project (''keystone:user:'' @ rbacRoleName) userName)"

definition EnsureNamespaces :: "rbac_env \<Rightarrow> nat list \<Rightarrow> string list \<Rightarrow> kube \<Rightarrow> kube \<times> kube_error list" where
  "EnsureNamespaces e schedule projects = Parallelize schedule (map (EnsureNamespace e) projects)"

definition EnsureUserProjectsRBAC ::
  "rbac_env \<Rightarrow> nat list \<Rightarrow> string \<Rightarrow> string \<Rightarrow> role_assignments \<Rightarrow> string list \<Rightarrow> kube \<Rightarrow> kube \<times> kube_error list" where
  "EnsureUserProjectsRBAC e schedule userName userID ras projects = Parallelize schedule (map (rbac_piece e userName userID ras) projects)"

definition EnsureProjectsLimitRange :: "rbac_env \<Rightarrow> nat list \<Rightarrow> string list \<Rightarrow> kube \<Rightarrow> kube \<times> kube_error list" where
  "EnsureProjectsLimitRange e schedule projects = Parallelize schedule (map (\<lambda>p. EnsureLimitRange e p YunionResourceLimitRange) projects)"

datatype reconcile_error = AssignmentError string | NamespaceError "kube_error list" | RBACError "kube_error list" | LimitRangeError "kube_error list"

text \<open>The assignments are the answer of \<open>GetRoleAssignments\<close>; each phase has its schedule.\<close>

definition ReconcileRBAC ::
  "rbac_env \<Rightarrow> nat list \<times> nat list \<times> nat list \<Rightarrow> string \<Rightarrow> string \<Rightarrow> string + role_assignments \<Rightarrow> kube \<Rightarrow> kube \<times> (reconcile_error + role_assignments)" where
  "ReconcileRBAC e schedules userName userID answer k =
     (case answer of
        Inl err \<Rightarrow> (k, Inl (AssignmentError err))
      | Inr ras \<Rightarrow>
          let projects = ProjectsTranslate (Projects ras);
              (k1, errs1) = EnsureNamespaces e (fst schedules) projects k
          in if errs1 \<noteq> [] then (k1, Inl (NamespaceError errs1))
             else
               let (k2, errs2) = EnsureUserProjectsRBAC e (fst (snd schedules)) userName userID ras projects k1
               in if errs2 \<noteq> [] then (k2, Inl (RBACError errs2))
                  else if \<not> re_limits e then (k2, Inr ras)
                  else
                    let (k3, errs3) = EnsureProjectsLimitRange e (snd (snd schedules)) projects k2
                    in if errs3 \<noteq> [] then (k3, Inl (LimitRangeError errs3)) else (k3, Inr ras))"

section \<open>The identity service\<close>

text \<open>The assignments of a user are cached for an hour after they were fetched; \<open>Update\<close> files them under the user of the first.\<close>

definition roleAssignmentsCacheTTL :: int where "roleAssignmentsCacheTTL = 3600"

type_synonym ra_cache = "string \<rightharpoonup> role_assignments \<times> int"

definition getRoleAssignmentsFromCache :: "int \<Rightarrow> string \<Rightarrow> ra_cache \<Rightarrow> ra_cache \<times> role_assignments option" where
  "getRoleAssignmentsFromCache now userId c =
     (case c userId of
        None \<Rightarrow> (c, None)
      | Some (ras, t) \<Rightarrow> if now - t > roleAssignmentsCacheTTL then (c(userId := None), None) else (c, Some ras))"

definition updateRoleAssignmentsInCache :: "int \<Rightarrow> role_assignments \<Rightarrow> ra_cache \<Rightarrow> ra_cache" where
  "updateRoleAssignmentsInCache now ras c = (case ras of [] \<Rightarrow> c | ra # _ \<Rightarrow> c(ra_UserID ra \<mapsto> (ras, now)))"

definition getRoleAssignmentsFromKeystone :: "(string \<Rightarrow> string + role_assignments) \<Rightarrow> string \<Rightarrow> string + role_assignments" where
  "getRoleAssignmentsFromKeystone list userId =
     (case list userId of
        Inl err \<Rightarrow> Inl (''List RoleAssignments error: '' @ err)
      | Inr [] \<Rightarrow> Inl ''User RoleAssignments is empty''
      | Inr ras \<Rightarrow> Inr ras)"

definition GetRoleAssignments ::
  "(string \<Rightarrow> string + role_assignments) \<Rightarrow> int \<Rightarrow> string \<Rightarrow> ra_cache \<Rightarrow> ra_cache \<times> (string + role_assignments)" where
  "GetRoleAssignments list now userId c =
     (case getRoleAssignmentsFromCache now userId c of
        (c', Some ras) \<Rightarrow> (c', Inr ras)
      | (c', None) \<Rightarrow>
          (case getRoleAssignmentsFromKeystone list userId of
             Inl err \<Rightarrow> (c', Inl (''Get user RoleAssignments from keystone error: '' @ err))
           | Inr ras \<Rightarrow> (updateRoleAssignmentsInCache now ras c', Inr ras)))"

record user_info =
  ui_Name :: string
  ui_UID :: string
  ui_Groups :: "string list"
  ui_Roles :: "string list"
  ui_ProjectIDs :: "string list"
  ui_ProjectNames :: "string list"

record token_cred =
  tc_UserName :: string
  tc_UserId :: string
  tc_Roles :: "string list"
  tc_ProjectName :: string

text \<open>The answer is the user, whether it is authenticated, with the cluster and the cache left.\<close>

definition AuthenticateToken ::
  "rbac_env \<Rightarrow> nat list \<times> nat list \<times> nat list \<Rightarrow> (string \<Rightarrow> string + token_cred) \<Rightarrow> (string \<Rightarrow> string + role_assignments) \<Rightarrow> int \<Rightarrow> string \<Rightarrow>
     ra_cache \<times> kube \<Rightarrow> (ra_cache \<times> kube) \<times> user_info option" where
  "AuthenticateToken e schedules verify list now token st =
     (case verify token of
        Inl _ \<Rightarrow> (st, None)
      | Inr cred \<Rightarrow>
          let (c, answer) = GetRoleAssignments list now (tc_UserId cred) (fst st);
              (k, r) = ReconcileRBAC e schedules (tc_UserName cred) (tc_UserId cred) answer (snd st)
          in ((c, k),
              case r of
                Inl _ \<Rightarrow> None
              | Inr ras \<Rightarrow>
                  Some \<lparr>ui_Name = tc_UserName cred, ui_UID = tc_UserId cred, ui_Groups = [tc_ProjectName cred], ui_Roles = tc_Roles cred,
                        ui_ProjectIDs = ProjectIDs ras, ui_ProjectNames = Projects ras\<rparr>))"

section \<open>Pieces under any schedule\<close>

text \<open>The contract of a piece that ensures an object: it tells whether the object is there, creates nothing else, and fails only if
  the API refuses it or its namespace is missing.\<close>

definition ns_ok :: "kube_object \<Rightarrow> kube \<Rightarrow> bool" where
  "ns_ok x k \<longleftrightarrow> (case namespace_of x of None \<Rightarrow> True | Some n \<Rightarrow> present (NS n) k)"

locale ensured =
  fixes p :: piece and x :: kube_object and refused :: bool
  assumes asks: "existsF p k = Inr b \<Longrightarrow> b = present x k"
    and creates: "createF p k = (k', r) \<Longrightarrow> r = None \<and> k' = k @ [x] \<or> r \<noteq> None \<and> k' = k"
    and already: "createF p k = (k', Some AlreadyExists) \<Longrightarrow> present x k"
    and answers: "\<not> refused \<Longrightarrow> existsF p k \<noteq> Inl err"
    and accepted: "\<not> refused \<Longrightarrow> ns_ok x k \<Longrightarrow> createF p k = (k', Some err) \<Longrightarrow> err = AlreadyExists"

definition progress_ok :: "kube_object \<Rightarrow> bool \<Rightarrow> progress \<Rightarrow> kube \<Rightarrow> bool" where
  "progress_ok x refused g k \<longleftrightarrow>
     (g \<in> {Asked (Inr True), Done None} \<longrightarrow> present x k) \<and>
     (\<not> refused \<and> ns_ok x k \<longrightarrow> g \<notin> range (Asked \<circ> Inl) \<union> range (Done \<circ> Some))"

lemma present_append [simp]: "present x (k @ k') \<longleftrightarrow> present x k \<or> present x k'"
  by (auto simp: present_def)

lemma present_self [simp]: "present x [x]"
  by (simp add: present_def)

lemma present_Nil [simp]: "\<not> present x []"
  by (simp add: present_def)

lemma ns_ok_append: "ns_ok x k \<Longrightarrow> ns_ok x (k @ k')"
  by (auto simp: ns_ok_def split: option.splits)

context ensured
begin

lemma create_cases:
  assumes "Ensure_create p answer k = (k', r)"
  shows "(k' = k \<or> k' = k @ [x]) \<and> (r = None \<longrightarrow> answer = Inr True \<or> present x k')"
proof (cases "createF p k")
  case (Pair k2 r2)
  then show ?thesis
    using assms creates [OF Pair] already [of k k2]
    by (auto simp: Ensure_create_def split: sum.splits bool.splits option.splits kube_error.splits)
qed

lemma create_fails:
  assumes "Ensure_create p answer k = (k', Some err)" "\<not> refused" "ns_ok x k"
  shows "\<exists>e. answer = Inl e"
proof (cases "createF p k")
  case (Pair k2 r2)
  then show ?thesis
    using assms accepted [OF assms(2,3), of k2]
    by (auto simp: Ensure_create_def split: sum.splits bool.splits option.splits kube_error.splits)
qed

lemma step_ok:
  assumes "piece_step p g k = (k', g')" "progress_ok x refused g k" "\<not> refused \<longrightarrow> ns_ok x k"
  shows "(k' = k \<or> k' = k @ [x]) \<and> progress_ok x refused g' k'"
proof (cases g)
  case Waiting
  then show ?thesis using assms asks [of k] answers [of k] by (auto simp: piece_step_def progress_ok_def)
next
  case (Asked answer)
  obtain r where r: "Ensure_create p answer k = (k', r)" "g' = Done r"
    using assms(1) Asked by (auto simp: piece_step_def split: prod.splits)
  note c = create_cases [OF r(1)]
  have "present x k'" if "r = None"
    using c that assms(2) Asked by (auto simp: progress_ok_def)
  moreover have "r = None" if "\<not> refused"
    using create_fails [of answer k k'] r that assms(2,3) Asked by (cases r) (auto simp: progress_ok_def)
  ultimately show ?thesis using c r(2) by (auto simp: progress_ok_def)
next
  case (Done r)
  then show ?thesis using assms by (auto simp: piece_step_def)
qed

end

lemma kube_Create_cases:
  assumes "kube_Create e x k = (k', r)"
  shows "r = None \<and> k' = k @ [x] \<or> r \<noteq> None \<and> k' = k" "r = Some AlreadyExists \<Longrightarrow> present x k"
    "re_create e x = None \<Longrightarrow> ns_ok x k \<Longrightarrow> r = Some err \<Longrightarrow> err = AlreadyExists"
  using assms by (auto simp: kube_Create_def ns_ok_def split: option.splits if_splits)

lemma IsK8sResourceExist_Get:
  "IsK8sResourceExist (kube_Get e x k) = (case re_get e x of Some err \<Rightarrow> Inl (OtherError err) | None \<Rightarrow> Inr (present x k))"
  by (simp add: IsK8sResourceExist_def kube_Get_def split: option.split)

lemma ensured_kube:
  assumes "key_of y = key_of x"
  shows "ensured \<lparr>existsF = \<lambda>k. IsK8sResourceExist (kube_Get e y k), createF = kube_Create e x\<rparr> x (re_get e y \<noteq> None \<or> re_create e x \<noteq> None)"
proof
  fix k b k' r err
  have "present y k = present x k" using assms by (simp add: present_def)
  then show "existsF \<lparr>existsF = \<lambda>k. IsK8sResourceExist (kube_Get e y k), createF = kube_Create e x\<rparr> k = Inr b \<Longrightarrow> b = present x k"
    by (auto simp: IsK8sResourceExist_Get split: option.splits)
qed (auto simp: IsK8sResourceExist_Get dest: kube_Create_cases)

interpretation namespace_piece: ensured "EnsureNamespace e n" "NS n" "re_get e (NS n) \<noteq> None \<or> re_create e (NS n) \<noteq> None" for e n
  using ensured_kube [of "NS n" "NS n" e] by (simp add: EnsureNamespace_def IsNamespaceExist_def [abs_def] CreateNamespace_def)

interpretation binding_piece: ensured "EnsureRoleBinding e n b u" "RB n b u" "re_get e (RB n b []) \<noteq> None \<or> re_create e (RB n b u) \<noteq> None"
  for e n b u
  using ensured_kube [of "RB n b []" "RB n b u" e]
  by (simp add: EnsureRoleBinding_def IsRoleBindingExist_def [abs_def] CreateRoleBinding_def)

interpretation cluster_binding_piece: ensured "EnsureClusterRoleBinding e b u" "CRB b u" "re_get e (CRB b []) \<noteq> None \<or> re_create e (CRB b u) \<noteq> None"
  for e b u
  using ensured_kube [of "CRB b []" "CRB b u" e]
  by (simp add: EnsureClusterRoleBinding_def IsClusterRoleBindingExist_def [abs_def] CreateClusterRoleBinding_def)

interpretation limit_piece: ensured "EnsureLimitRange e n YunionResourceLimitRange" "LR n YunionResourceLimitRange"
    "re_get e (LR n YunionResourceLimitRange) \<noteq> None \<or> re_create e (LR n YunionResourceLimitRange) \<noteq> None" for e n
  using ensured_kube [of "LR n YunionResourceLimitRange" "LR n YunionResourceLimitRange" e]
  by (simp add: EnsureLimitRange_def IsLimitRangeExist_def [abs_def] CreateLimitRange_def [abs_def])

text \<open>The pieces with the objects they ensure.\<close>

type_synonym ensuring = "(piece \<times> kube_object \<times> bool) list"

definition ensuring_ok :: "ensuring \<Rightarrow> bool" where
  "ensuring_ok es \<longleftrightarrow> (\<forall>(p, x, refused)\<in>set es. ensured p x refused)"

definition all_ok :: "ensuring \<Rightarrow> progress list \<Rightarrow> kube \<Rightarrow> bool" where
  "all_ok es gs k \<longleftrightarrow> length gs = length es \<and>
     (\<forall>i<length es. progress_ok (fst (snd (es ! i))) (snd (snd (es ! i))) (gs ! i) k)"

definition all_ns_ok :: "ensuring \<Rightarrow> kube \<Rightarrow> bool" where
  "all_ns_ok es k \<longleftrightarrow> (\<forall>(p, x, refused)\<in>set es. \<not> refused \<longrightarrow> ns_ok x k)"

lemma progress_ok_append: "progress_ok x refused g k \<Longrightarrow> \<not> refused \<longrightarrow> ns_ok x k \<Longrightarrow> progress_ok x refused g (k @ k')"
  by (auto simp: progress_ok_def)

lemma all_ns_ok_append: "all_ns_ok es k \<Longrightarrow> all_ns_ok es (k @ k')"
  by (auto simp: all_ns_ok_def ns_ok_append)

lemma run_pieces_ok:
  assumes "ensuring_ok es" "all_ns_ok es k" "all_ok es gs k" "run_pieces (map fst es) is (k, gs) = (k', gs')"
  shows "(\<exists>new. k' = k @ new \<and> set new \<subseteq> (fst \<circ> snd) ` set es) \<and> all_ok es gs' k'"
  using assms(2-4)
proof (induction "is" arbitrary: k gs)
  case Nil
  then show ?case by auto
next
  case (Cons i ss)
  show ?case
  proof (cases "i < length es")
    case False
    then show ?thesis using Cons.IH [OF Cons.prems(1,2)] Cons.prems(3) by simp
  next
    case True
    obtain p x refused where e: "es ! i = (p, x, refused)" by (metis prod_cases3)
    then have m: "(p, x, refused) \<in> set es" using True by (metis nth_mem)
    obtain k1 g1 where s: "piece_step p (gs ! i) k = (k1, g1)" by fastforce
    have h: "ensured p x refused" using assms(1) m by (auto simp: ensuring_ok_def)
    have ns: "\<not> refused \<longrightarrow> ns_ok x k" using Cons.prems(1) m by (auto simp: all_ns_ok_def)
    have "progress_ok x refused (gs ! i) k" using Cons.prems(2) True e by (auto simp: all_ok_def)
    note st = ensured.step_ok [OF h s this ns]
    then obtain a where a: "k1 = k @ a" "set a \<subseteq> {x}" by fastforce
    have "progress_ok (fst (snd (es ! j))) (snd (snd (es ! j))) ((gs[i := g1]) ! j) k1" if "j < length es" for j
    proof (cases "j = i")
      case True
      then show ?thesis using st e that Cons.prems(2) by (simp add: all_ok_def)
    next
      case False
      obtain q y ref where j: "es ! j = (q, y, ref)" by (metis prod_cases3)
      then have "(q, y, ref) \<in> set es" using that by (metis nth_mem)
      then have n: "\<not> ref \<longrightarrow> ns_ok y k" using Cons.prems(1) by (auto simp: all_ns_ok_def)
      have "progress_ok (fst (snd (es ! j))) (snd (snd (es ! j))) (gs ! j) k" using that Cons.prems(2) by (simp add: all_ok_def)
      then have "progress_ok y ref (gs ! j) k1" using progress_ok_append [OF _ n] by (simp add: j a(1))
      then show ?thesis using False j by simp
    qed
    then have ok: "all_ok es (gs[i := g1]) k1" using Cons.prems(2) by (simp add: all_ok_def)
    have r: "run_pieces (map fst es) ss (k1, gs[i := g1]) = (k', gs')" using Cons.prems(3) True e s by simp
    have "all_ns_ok es k1" using all_ns_ok_append [OF Cons.prems(1)] a(1) by simp
    from Cons.IH [OF this ok r] obtain new where "k' = k1 @ new" "set new \<subseteq> (fst \<circ> snd) ` set es" "all_ok es gs' k'" by blast
    moreover have "x \<in> (fst \<circ> snd) ` set es" using m by force
    ultimately show ?thesis using a by auto
  qed
qed

text \<open>How far a piece has come.\<close>

fun phase :: "progress \<Rightarrow> nat" where
  "phase Waiting = 0"
| "phase (Asked _) = 1"
| "phase (Done _) = 2"

lemma phase_step: "piece_step p g k = (k', g') \<Longrightarrow> phase g' = min 2 (Suc (phase g))"
  by (cases g) (auto simp: piece_step_def split: prod.splits)

lemma phase_le: "phase g \<le> 2"
  by (cases g) auto

lemma run_pieces_phase:
  assumes "run_pieces ps is (k, gs) = (k', gs')" "length gs = length ps" "i < length ps"
  shows "phase (gs' ! i) = min 2 (phase (gs ! i) + count (mset is) i)"
  using assms
proof (induction "is" arbitrary: k gs)
  case Nil
  then show ?case using phase_le [of "gs ! i"] by simp
next
  case (Cons j js)
  obtain k1 g1 where s: "piece_step (ps ! j) (gs ! j) k = (k1, g1)" by fastforce
  show ?case
  proof (cases "j < length ps")
    case True
    then have "run_pieces ps js (k1, gs[j := g1]) = (k', gs')" using Cons.prems(1) s by simp
    from Cons.IH [OF this] Cons.prems(2,3) phase_step [OF s] show ?thesis by (cases "j = i") auto
  qed (use Cons in auto)
qed

lemma phase_2: "phase g = 2 \<longleftrightarrow> (\<exists>r. g = Done r)"
  by (cases g) auto

lemma errors_of_Nil: "errors_of gs = [] \<longleftrightarrow> (\<forall>g\<in>set gs. \<forall>err. g \<noteq> Done (Some err))"
  by (induction gs) (auto simp: errors_of_def split: progress.splits option.splits)

lemma Parallelize_ensures:
  assumes "ensuring_ok es" "all_ns_ok es k" "complete_schedule (length es) schedule" "Parallelize schedule (map fst es) k = (k', errs)"
  shows "(\<exists>new. k' = k @ new \<and> set new \<subseteq> (fst \<circ> snd) ` set es)"
    and "errs = [] \<Longrightarrow> (p, x, refused) \<in> set es \<Longrightarrow> present x k'"
    and "(\<forall>(p, x, refused)\<in>set es. \<not> refused) \<Longrightarrow> errs = []"
proof -
  let ?gs = "replicate (length es) Waiting"
  obtain gs' where r: "run_pieces (map fst es) schedule (k, ?gs) = (k', gs')" and e: "errs = errors_of gs'"
    using assms(4) by (auto simp: Parallelize_def split: prod.splits)
  have "all_ok es ?gs k" by (auto simp: all_ok_def progress_ok_def)
  note ok = run_pieces_ok [OF assms(1,2) this r]
  then show "\<exists>new. k' = k @ new \<and> set new \<subseteq> (fst \<circ> snd) ` set es" by blast
  have l: "length gs' = length es" using ok by (simp add: all_ok_def)
  have fin: "\<exists>r. gs' ! i = Done r" if "i < length es" for i
  proof -
    have "phase (gs' ! i) = 2" using run_pieces_phase [OF r, of i] that assms(3) by (simp add: complete_schedule_def)
    then show ?thesis by (simp only: phase_2)
  qed
  show "present x k'" if m: "(p, x, refused) \<in> set es" and n: "errs = []"
  proof -
    obtain i where i: "i < length es" "es ! i = (p, x, refused)" using m by (auto simp: in_set_conv_nth)
    obtain r where r: "gs' ! i = Done r" using fin [OF i(1)] by blast
    have "gs' ! i \<in> set gs'" using i l by simp
    then have "r = None" using n r unfolding e errors_of_Nil by (cases r) auto
    then show ?thesis using ok i r by (auto simp: all_ok_def progress_ok_def)
  qed
  show "errs = []" if "\<forall>(p, x, refused)\<in>set es. \<not> refused"
  proof -
    have "g \<noteq> Done (Some err)" if g: "g \<in> set gs'" for g err
    proof -
      obtain i where i: "i < length es" "gs' ! i = g" using g l by (auto simp: in_set_conv_nth)
      obtain p x refused where x: "es ! i = (p, x, refused)" by (metis prod_cases3)
      then have "(p, x, refused) \<in> set es" using i by (metis nth_mem)
      moreover from this have "\<not> refused" using \<open>\<forall>(p, x, refused)\<in>set es. \<not> refused\<close> by auto
      ultimately have "ns_ok x k'" "\<not> refused" using assms(2) ok by (auto simp: all_ns_ok_def ns_ok_append)
      then show ?thesis using ok i x by (auto simp: all_ok_def progress_ok_def)
    qed
    then show ?thesis unfolding e errors_of_Nil by blast
  qed
qed

section \<open>What a reconciliation establishes\<close>

text \<open>The binding of a user in a project; what the API refuses (it is asked for an object without its user).\<close>

definition binding_of :: "string \<Rightarrow> string \<Rightarrow> role_assignments \<Rightarrow> string \<Rightarrow> kube_object" where
  "binding_of userName userID ras project =
     (if project = ''system'' \<and> (\<exists>ra\<in>set ras. ra_Project ra = ''system'' \<and> ra_Role ra \<in> AdminUserRoleSets)
      then CRB (''keystone:admin:'' @ userName @ '':'' @ userID) userName
      else RB project (''keystone:user:'' @ userName @ '':'' @ userID) userName)"

fun asked_for :: "kube_object \<Rightarrow> kube_object" where
  "asked_for (RB n b u) = RB n b []"
| "asked_for (CRB b u) = CRB b []"
| "asked_for x = x"

definition refusing :: "rbac_env \<Rightarrow> kube_object \<Rightarrow> bool" where
  "refusing e x \<longleftrightarrow> re_get e (asked_for x) \<noteq> None \<or> re_create e x \<noteq> None"

lemma set_RolesInProject:
  "r \<in> set (RolesInProject ras project) \<longleftrightarrow> r \<noteq> [] \<and> (\<exists>ra\<in>set ras. ra_Project ra = project \<and> ra_Role ra = r)"
  by (auto simp: RolesInProject_def GetStringFields_def GetFields_def)

lemma admin_roles:
  "set (RolesInProject ras project) \<inter> AdminUserRoleSets \<noteq> {} \<longleftrightarrow>
     (\<exists>ra\<in>set ras. ra_Project ra = project \<and> ra_Role ra \<in> AdminUserRoleSets)"
  by (auto simp: set_RolesInProject AdminUserRoleSets_def)

lemma rbac_piece_ensured: "ensured (rbac_piece e u i ras p) (binding_of u i ras p) (refusing e (binding_of u i ras p))"
  unfolding rbac_piece_def binding_of_def Let_def admin_roles refusing_def
  using binding_piece.ensured_axioms cluster_binding_piece.ensured_axioms by auto

lemma namespace_ensured: "ensured (EnsureNamespace e p) (NS p) (refusing e (NS p))"
  using namespace_piece.ensured_axioms by (simp add: refusing_def)

lemma limit_ensured:
  "ensured (EnsureLimitRange e p YunionResourceLimitRange) (LR p YunionResourceLimitRange) (refusing e (LR p YunionResourceLimitRange))"
  using limit_piece.ensured_axioms by (simp add: refusing_def)

lemma phase_ensures:
  assumes "\<And>q. q \<in> set ps \<Longrightarrow> ensured (f q) (g q) (refusing e (g q))"
    and "\<And>q. q \<in> set ps \<Longrightarrow> ns_ok (g q) k"
    and "complete_schedule (length ps) schedule" "Parallelize schedule (map f ps) k = (k', errs)"
  shows "\<exists>new. k' = k @ new \<and> set new \<subseteq> g ` set ps"
    and "errs = [] \<Longrightarrow> \<forall>q\<in>set ps. present (g q) k'"
    and "(\<forall>q\<in>set ps. \<not> refusing e (g q)) \<Longrightarrow> errs = []"
proof -
  let ?es = "map (\<lambda>q. (f q, g q, refusing e (g q))) ps"
  have es: "ensuring_ok ?es" "all_ns_ok ?es k" using assms(1,2) by (auto simp: ensuring_ok_def all_ns_ok_def)
  have r: "complete_schedule (length ?es) schedule" "Parallelize schedule (map fst ?es) k = (k', errs)"
    using assms(3,4) by (simp_all add: comp_def)
  note P = Parallelize_ensures [OF es r]
  show "\<exists>new. k' = k @ new \<and> set new \<subseteq> g ` set ps" using P(1) by (simp add: image_image)
  show "\<forall>q\<in>set ps. present (g q) k'" if "errs = []"
  proof
    fix q
    assume "q \<in> set ps"
    then have "(f q, g q, refusing e (g q)) \<in> set ?es" by simp
    from P(2) [OF that this] show "present (g q) k'" .
  qed
  show "(\<forall>q\<in>set ps. \<not> refusing e (g q)) \<Longrightarrow> errs = []" using P(3) by simp
qed

text \<open>Every object that a reconciliation is to ensure.\<close>

definition wanted :: "rbac_env \<Rightarrow> string \<Rightarrow> string \<Rightarrow> role_assignments \<Rightarrow> kube_object set" where
  "wanted e u i ras = (let ps = set (ProjectsTranslate (Projects ras)) in
     NS ` ps \<union> binding_of u i ras ` ps \<union> (if re_limits e then (\<lambda>p. LR p YunionResourceLimitRange) ` ps else {}))"

definition schedules_ok :: "role_assignments \<Rightarrow> nat list \<times> nat list \<times> nat list \<Rightarrow> bool" where
  "schedules_ok ras ss \<longleftrightarrow> (let n = length (ProjectsTranslate (Projects ras)) in
     complete_schedule n (fst ss) \<and> complete_schedule n (fst (snd ss)) \<and> complete_schedule n (snd (snd ss)))"

lemma ns_ok_binding: "present (NS p) k \<Longrightarrow> ns_ok (binding_of u i ras p) k"
  by (simp add: ns_ok_def binding_of_def)

lemma ReconcileRBAC_phases:
  assumes "schedules_ok ras ss" "ReconcileRBAC e ss u i (Inr ras) k = (k', r)"
  shows "(\<exists>new. k' = k @ new \<and> set new \<subseteq> wanted e u i ras) \<and> (r \<in> range Inr \<longrightarrow> (\<forall>x\<in>wanted e u i ras. present x k')) \<and>
    ((\<forall>x\<in>wanted e u i ras. \<not> refusing e x) \<longrightarrow> r = Inr ras)"
proof -
  let ?ps = "ProjectsTranslate (Projects ras)"
  have sch: "complete_schedule (length ?ps) (fst ss)" "complete_schedule (length ?ps) (fst (snd ss))" "complete_schedule (length ?ps) (snd (snd ss))"
    using assms(1) by (simp_all add: schedules_ok_def Let_def)
  obtain k1 e1 where 1: "EnsureNamespaces e (fst ss) ?ps k = (k1, e1)" by fastforce
  obtain k2 e2 where 2: "EnsureUserProjectsRBAC e (fst (snd ss)) u i ras ?ps k1 = (k2, e2)" by fastforce
  obtain k3 e3 where 3: "EnsureProjectsLimitRange e (snd (snd ss)) ?ps k2 = (k3, e3)" by fastforce
  note p1 = phase_ensures [OF namespace_ensured _ sch(1) 1 [unfolded EnsureNamespaces_def], simplified ns_ok_def namespace_of.simps option.case, simplified]
  obtain n1 where n1: "k1 = k @ n1" "set n1 \<subseteq> NS ` set ?ps" using p1(1) by blast
  show ?thesis
  proof (cases "e1 = []")
    case False
    then have "k' = k1" "r \<notin> range Inr" "\<exists>x\<in>NS ` set ?ps. refusing e x"
      using assms(2) 1 p1(3) by (auto simp: ReconcileRBAC_def Let_def)
    then show ?thesis using n1 by (auto simp: wanted_def Let_def)
  next
    case True
    then have ns: "present (NS q) k1" if "q \<in> set ?ps" for q using p1(2) that by blast
    note p2 = phase_ensures [OF rbac_piece_ensured ns_ok_binding [OF ns] sch(2) 2 [unfolded EnsureUserProjectsRBAC_def], simplified]
    obtain n2 where n2: "k2 = k1 @ n2" "set n2 \<subseteq> binding_of u i ras ` set ?ps" using p2(1) by blast
    show ?thesis
    proof (cases "e2 = [] \<and> re_limits e")
      case False
      then have "k' = k2" "r = (if e2 = [] then Inr ras else Inl (RBACError e2))"
        using assms(2) 1 2 True by (auto simp: ReconcileRBAC_def Let_def split: if_splits)
      moreover have "e2 = []" if "\<forall>x\<in>wanted e u i ras. \<not> refusing e x" using p2(3) that by (auto simp: wanted_def Let_def)
      moreover have "k2 = k @ (n1 @ n2)" "set (n1 @ n2) \<subseteq> wanted e u i ras" using n1 n2 by (auto simp: wanted_def Let_def)
      moreover have "present x k2" if "e2 = []" "x \<in> wanted e u i ras" for x
      proof -
        have "x \<in> NS ` set ?ps \<union> binding_of u i ras ` set ?ps" using that False by (simp add: wanted_def Let_def)
        then show ?thesis using ns p2(2) [OF that(1)] n2(1) by auto
      qed
      ultimately show ?thesis by auto
    next
      case lim: True
      have "ns_ok (LR q YunionResourceLimitRange) k2" if "q \<in> set ?ps" for q using ns that n2(1) by (simp add: ns_ok_def)
      note p3 = phase_ensures [OF limit_ensured this sch(3) 3 [unfolded EnsureProjectsLimitRange_def], simplified]
      obtain n3 where n3: "k3 = k2 @ n3" "set n3 \<subseteq> (\<lambda>q. LR q YunionResourceLimitRange) ` set ?ps" using p3(1) by blast
      have "k' = k3" "r = (if e3 = [] then Inr ras else Inl (LimitRangeError e3))"
        using assms(2) 1 2 3 True lim by (auto simp: ReconcileRBAC_def Let_def split: if_splits)
      moreover have "e3 = []" if "\<forall>x\<in>wanted e u i ras. \<not> refusing e x" using p3(3) that lim by (auto simp: wanted_def Let_def)
      moreover have "k3 = k @ (n1 @ n2 @ n3)" "set (n1 @ n2 @ n3) \<subseteq> wanted e u i ras" using n1 n2 n3 lim by (auto simp: wanted_def Let_def)
      moreover have "present x k3" if "e3 = []" "x \<in> wanted e u i ras" for x
      proof -
        have "x \<in> NS ` set ?ps \<union> binding_of u i ras ` set ?ps \<union> (\<lambda>q. LR q YunionResourceLimitRange) ` set ?ps"
          using that lim by (simp add: wanted_def Let_def)
        then show ?thesis using ns p2(2) p3(2) [OF that(1)] n2(1) n3(1) lim by auto
      qed
      ultimately show ?thesis by auto
    qed
  qed
qed

text \<open>C4: whatever the order in which the goroutines run, a reconciliation of a user that reports no error leaves the namespaces of all the user's
  projects, the user's binding in each and the limit ranges in place; and it reports an error only if the API refuses one of these objects. Nothing that
  was in the cluster is removed.\<close>

theorem ReconcileRBAC_establishes:
  assumes "schedules_ok ras ss" "ReconcileRBAC e ss userName userID (Inr ras) k = (k', r)"
  shows "(r \<in> range Inr \<longrightarrow> (\<forall>x\<in>wanted e userName userID ras. present x k')) \<and> set k \<subseteq> set k' \<and>
    ((\<forall>x\<in>wanted e userName userID ras. \<not> refusing e x) \<longrightarrow> r = Inr ras)"
  using ReconcileRBAC_phases [OF assms] by auto

text \<open>C19: rights are not given beyond the roles, not even by a reconciliation that fails: a cluster-wide binding that is new is the user's own and
  the user has an administrator's role in the system project; a new binding in a namespace is the user's own, in the
  namespace of one of the user's projects.\<close>

theorem ReconcileRBAC_least_rights:
  assumes "schedules_ok ras ss" "ReconcileRBAC e ss userName userID (Inr ras) k = (k', r)"
  shows "(CRB b u \<in> set k' - set k \<longrightarrow> u = userName \<and> (\<exists>ra\<in>set ras. ra_Project ra = ''system'' \<and> ra_Role ra \<in> {''admin'', ''system''})) \<and>
    (RB n b u \<in> set k' - set k \<longrightarrow> u = userName \<and> (\<exists>ra\<in>set ras. n = ConvertProjectToNamespace (ra_Project ra)))"
proof -
  from ReconcileRBAC_phases [OF assms] obtain new where new: "k' = k @ new" "set new \<subseteq> wanted e userName userID ras" by blast
  have ps: "q \<in> set (ProjectsTranslate (Projects ras)) \<Longrightarrow> \<exists>ra\<in>set ras. q = ConvertProjectToNamespace (ra_Project ra)" for q
    by (auto simp: ProjectsTranslate_def Projects_def GetFields_def)
  show ?thesis
    using new ps by (fastforce simp: wanted_def Let_def binding_of_def AdminUserRoleSets_def split: if_splits)
qed

text \<open>The namespace of a project does not determine the project: the users of two projects whose names differ only in case or punctuation are
  bound in the same namespace.\<close>

lemma namespaces_collide: "ConvertProjectToNamespace ''Dev_Team'' = ConvertProjectToNamespace ''dev.team''"
  by code_simp

section \<open>A sample\<close>

definition sample_ras :: role_assignments where
  "sample_ras = [\<lparr>ra_Role = ''admin'', ra_Project = ''system'', ra_ProjectID = ''p0'', ra_User = ''ann'', ra_UserID = ''u1'', ra_Domain = ''Default''\<rparr>,
     \<lparr>ra_Role = ''_member_'', ra_Project = ''Dev_Team'', ra_ProjectID = ''p1'', ra_User = ''ann'', ra_UserID = ''u1'', ra_Domain = ''Default''\<rparr>]"

definition sample_rbac_env :: rbac_env where
  "sample_rbac_env = \<lparr>re_get = (\<lambda>_. None), re_create = (\<lambda>_. None), re_limits = True\<rparr>"

definition sample_schedules :: "nat list \<times> nat list \<times> nat list" where
  "sample_schedules = ([0, 1, 1, 0], [1, 0, 0, 1], [0, 0, 1, 1])"

lemma sample_schedules_ok: "schedules_ok sample_ras sample_schedules"
proof -
  have "ProjectsTranslate (Projects sample_ras) = [''dev-team'', ''system'']" by code_simp
  then show ?thesis
    by (simp add: schedules_ok_def complete_schedule_def sample_schedules_def less_Suc_eq numeral_2_eq_2)
qed

theorem ReconcileRBAC_establishes_witness:
  "let (k', r) = ReconcileRBAC sample_rbac_env sample_schedules ''ann'' ''u1'' (Inr sample_ras) [NS ''system''] in
   r = Inr sample_ras \<and> present (NS ''dev-team'') k' \<and> present (CRB ''keystone:admin:ann:u1'' ''ann'') k'"
proof -
  obtain k' r where r: "ReconcileRBAC sample_rbac_env sample_schedules ''ann'' ''u1'' (Inr sample_ras) [NS ''system''] = (k', r)" by fastforce
  have w: "NS ''dev-team'' \<in> wanted sample_rbac_env ''ann'' ''u1'' sample_ras"
    "CRB ''keystone:admin:ann:u1'' ''ann'' \<in> wanted sample_rbac_env ''ann'' ''u1'' sample_ras" by code_simp+
  have "refusing sample_rbac_env x = False" for x by (simp add: refusing_def sample_rbac_env_def)
  with w ReconcileRBAC_establishes [OF sample_schedules_ok r] show ?thesis by (auto simp: r)
qed

theorem ReconcileRBAC_least_rights_witness:
  "CRB ''keystone:admin:ann:u1'' ''ann'' \<in> set (fst (ReconcileRBAC sample_rbac_env sample_schedules ''ann'' ''u1'' (Inr sample_ras) [])) \<and>
   (\<exists>ra\<in>set sample_ras. ra_Project ra = ''system'' \<and> ra_Role ra \<in> {''admin'', ''system''})"
proof -
  have "CRB ''keystone:admin:ann:u1'' ''ann'' \<in> set (fst (ReconcileRBAC sample_rbac_env sample_schedules ''ann'' ''u1'' (Inr sample_ras) []))"
    by code_simp
  then show ?thesis
    using ReconcileRBAC_least_rights [OF sample_schedules_ok prod.collapse [symmetric],
        where e = sample_rbac_env and userName = "''ann''" and userID = "''u1''" and k = "[]"] by auto
qed

end
