(* ===== verification/Webhook.thy ===== *)
theory Webhook
  imports Rbac
begin

text \<open>
  The webhook by which a cluster asks for the user of a token: src/pkg/controllers/auth/handler.go, over the authenticator of \<open>Rbac\<close>. A body is an
  object of JSON values or an error of the decoder. Shown: which bodies make the handler panic, when it answers that a token is authenticated,
  and that a token which is not verified changes nothing and is answered with status 401.
\<close>

datatype json = JString string | JObject "(string \<times> json) list" | JOther

record http_reply =
  rp_code :: int
  rp_user :: "user_info option"

type_synonym auth_state = "ra_cache \<times> kube"
type_synonym authenticator = "string \<Rightarrow> auth_state \<Rightarrow> auth_state \<times> user_info option"

definition as_string :: "json option \<Rightarrow> string go" where
  "as_string v = (case v of Some (JString s) \<Rightarrow> Inr s | _ \<Rightarrow> Inl TypeAssertionPanic)"

definition as_object :: "json option \<Rightarrow> (string \<times> json) list go" where
  "as_object v = (case v of Some (JObject fs) \<Rightarrow> Inr fs | _ \<Rightarrow> Inl TypeAssertionPanic)"

text \<open>The marshalling of the answer may fail.\<close>

definition webhook_authenticateToken :: "authenticator \<Rightarrow> string option \<Rightarrow> string \<Rightarrow> auth_state \<Rightarrow> auth_state \<times> http_reply" where
  "webhook_authenticateToken auth marshal token st =
     (case auth token st of
        (st', None) \<Rightarrow> (st', \<lparr>rp_code = (if marshal = None then 401 else 400), rp_user = None\<rparr>)
      | (st', Some u) \<Rightarrow>
          (st', if marshal = None then \<lparr>rp_code = 200, rp_user = Some u\<rparr> else \<lparr>rp_code = 500, rp_user = None\<rparr>))"

definition webhook_ServeHTTP ::
  "authenticator \<Rightarrow> string option \<Rightarrow> string + (string \<times> json) list \<Rightarrow> auth_state \<Rightarrow> (auth_state \<times> http_reply) go" where
  "webhook_ServeHTTP auth marshal body st =
     (case body of
        Inl _ \<Rightarrow> Inr (st, \<lparr>rp_code = 500, rp_user = None\<rparr>)
      | Inr data \<Rightarrow>
          gbind (as_string (map_of data ''apiVersion'')) (\<lambda>apiVersion.
          gbind (as_string (map_of data ''kind'')) (\<lambda>kind.
            if apiVersion \<noteq> ''authentication.k8s.io/v1beta1'' \<and> apiVersion \<noteq> ''authorization.k8s.io/v1beta1''
            then Inr (st, \<lparr>rp_code = 400, rp_user = None\<rparr>)
            else if kind = ''TokenReview''
            then gbind (as_object (map_of data ''spec'')) (\<lambda>spec.
                 gbind (as_string (map_of spec ''token'')) (\<lambda>token.
                   Inr (webhook_authenticateToken auth marshal token st)))
            else Inr (st, \<lparr>rp_code = 400, rp_user = None\<rparr>))))"

text \<open>A request of the kind that the handler serves.\<close>

definition token_review :: "(string \<times> json) list \<Rightarrow> string \<Rightarrow> bool" where
  "token_review data token \<longleftrightarrow> (\<exists>v spec. map_of data ''apiVersion'' = Some (JString v) \<and> v \<in> {''authentication.k8s.io/v1beta1'', ''authorization.k8s.io/v1beta1''} \<and>
     map_of data ''kind'' = Some (JString ''TokenReview'') \<and> map_of data ''spec'' = Some (JObject spec) \<and> map_of spec ''token'' = Some (JString token))"

lemma as_string_Inr [simp]: "as_string v = Inr s \<longleftrightarrow> v = Some (JString s)"
  by (auto simp: as_string_def split: option.splits json.splits)

lemma as_object_Inr [simp]: "as_object v = Inr fs \<longleftrightarrow> v = Some (JObject fs)"
  by (auto simp: as_object_def split: option.splits json.splits)

lemma webhook_token_review:
  "token_review data token \<Longrightarrow> webhook_ServeHTTP auth marshal (Inr data) st = Inr (webhook_authenticateToken auth marshal token st)"
  by (auto simp: token_review_def webhook_ServeHTTP_def as_string_def as_object_def)

lemma webhook_other:
  assumes "webhook_ServeHTTP auth marshal body st = Inr (st', reply)" "\<And>data token. body = Inr data \<Longrightarrow> \<not> token_review data token"
  shows "st' = st \<and> rp_user reply = None \<and> rp_code reply \<in> {400, 500}"
proof (cases body)
  case (Inr data)
  then show ?thesis using assms
    by (auto simp: webhook_ServeHTTP_def gbind_Inr_iff token_review_def split: if_splits)
qed (use assms(1) in \<open>auto simp: webhook_ServeHTTP_def\<close>)

text \<open>The webhook answers with a user exactly if the body is a token review, the identity service verified the token, and the reconciliation of the user's rights
  succeeded: then every right is in place. For a token that is not verified it answers 401 and changes neither the cluster nor the cache.\<close>

theorem webhook_replies_user:
  assumes "webhook_ServeHTTP (AuthenticateToken e schedules verify list now) None body st = Inr (st', reply)"
  shows "rp_code reply = 200 \<longleftrightarrow> rp_user reply \<noteq> None"
    and "rp_user reply = Some u \<Longrightarrow> \<exists>data token cred c ras k. body = Inr data \<and> token_review data token \<and> verify token = Inr cred \<and>
       ui_UID u = tc_UserId cred \<and> ui_Name u = tc_UserName cred \<and>
       ReconcileRBAC e schedules (tc_UserName cred) (tc_UserId cred) (snd (GetRoleAssignments list now (tc_UserId cred) (fst st))) (snd st) = (k, Inr ras) \<and>
       st' = (c, k) \<and> ui_ProjectNames u = Projects ras"
    and "body = Inr data \<Longrightarrow> token_review data token \<Longrightarrow> verify token = Inl err \<Longrightarrow> st' = st \<and> rp_code reply = 401"
proof -
  show "rp_code reply = 200 \<longleftrightarrow> rp_user reply \<noteq> None"
  proof (cases "\<exists>data token. body = Inr data \<and> token_review data token")
    case True
    then show ?thesis using assms by (auto simp: webhook_token_review webhook_authenticateToken_def split: prod.splits option.splits)
  next
    case False
    then show ?thesis using webhook_other [OF assms] by auto
  qed
  show "\<exists>data token cred c ras k. body = Inr data \<and> token_review data token \<and> verify token = Inr cred \<and>
       ui_UID u = tc_UserId cred \<and> ui_Name u = tc_UserName cred \<and>
       ReconcileRBAC e schedules (tc_UserName cred) (tc_UserId cred) (snd (GetRoleAssignments list now (tc_UserId cred) (fst st))) (snd st) = (k, Inr ras) \<and>
       st' = (c, k) \<and> ui_ProjectNames u = Projects ras" if u: "rp_user reply = Some u"
  proof -
    obtain data token where d: "body = Inr data" "token_review data token" using webhook_other [OF assms] u by fastforce
    then have "AuthenticateToken e schedules verify list now token st = (st', Some u)"
      using assms u by (auto simp: webhook_token_review webhook_authenticateToken_def split: prod.splits option.splits)
    then show ?thesis using d
      by (auto simp: AuthenticateToken_def Let_def split: sum.splits prod.splits)
  qed
  show "body = Inr data \<Longrightarrow> token_review data token \<Longrightarrow> verify token = Inl err \<Longrightarrow> st' = st \<and> rp_code reply = 401"
    using assms by (auto simp: webhook_token_review webhook_authenticateToken_def AuthenticateToken_def)
qed

end
