(* ===== verification/ComponentSettings.thy ===== *)
theory ComponentSettings
  imports MachineNames
begin

text \<open>
  The settings of the components of a cluster and their validation by the component drivers: components_cephcsi.go,
  components_monitor.go and components_fluent_bit.go of src/pkg/models, with the settings of src/pkg/api/component.go. A pointer is an option; dereferencing a
  nil one panics. Storage classes and generated certificates are an environment. Shown: what exactly the
  drivers accept; where they dereference parts that a request may leave out; that accepted settings are accepted again unchanged.
\<close>

section \<open>Settings\<close>

record ceph_cluster =
  ce_ClusterId :: string
  ce_Monitors :: "string list"

record storage =
  st_Enabled :: bool
  st_SizeMB :: int
  st_ClassName :: string

record tls_pair =
  tp_Name :: string
  tp_Certificate :: string
  tp_Key :: string

record grafana =
  gr_AdminUser :: string
  gr_AdminPassword :: string
  gr_Storage :: "storage option"
  gr_PublicAddress :: string
  gr_Host :: string
  gr_TLS :: "tls_pair option"

record volume =
  vo_HostPath :: string
  vo_MountPath :: string

record promtail =
  pt_DockerVolumeMount :: volume
  pt_PodsVolumeMount :: volume

text \<open>Loki and Prometheus have a storage only.\<close>

record monitor =
  mo_Grafana :: "grafana option"
  mo_Loki :: "storage option option"
  mo_Prometheus :: "storage option option"
  mo_Promtail :: "promtail option"

record backend_tls =
  tl_TLS :: bool
  tl_TLSVerify :: bool
  tl_TLSDebug :: bool
  tl_TLSCA :: string

record backend_es =
  es_Enabled :: bool
  es_Host :: string
  es_Port :: int
  es_Index :: string
  es_Type :: string
  es_LogstashPrefix :: string
  es_LogstashFormat :: bool
  es_ReplaceDots :: bool
  es_HTTPUser :: string
  es_HTTPPassword :: string
  es_TLS :: backend_tls

record backend_kafka =
  ka_Enabled :: bool
  ka_Format :: string
  ka_MessageKey :: string
  ka_TimestampKey :: string
  ka_Brokers :: "string list"
  ka_Topics :: "string list"

record fluent_backend =
  be_ES :: "backend_es option"
  be_Kafka :: "backend_kafka option"

record component_settings =
  se_Namespace :: string
  se_CephCSI :: "ceph_cluster list option"
  se_Monitor :: "monitor option"
  se_FluentBit :: "fluent_backend option option"

datatype component_kind = CephCSI | Monitor | FluentBit

definition kind_of_type :: "string \<Rightarrow> component_kind option" where
  "kind_of_type t = map_of [(''cephCSI'', CephCSI), (''monitor'', Monitor), (''fluentbit'', FluentBit)] t"

section \<open>Results\<close>

definition wrap :: "string \<Rightarrow> 'a validation \<Rightarrow> 'a validation" where
  "wrap msg x = (case x of Inr (Inl err) \<Rightarrow> Inr (Inl (msg @ '': '' @ err)) | y \<Rightarrow> y)"

lemma wrap_iff [simp]: "wrap msg x = Inr (Inr a) \<longleftrightarrow> x = Inr (Inr a)" "wrap msg x = Inl p \<longleftrightarrow> x = Inl p"
  by (cases x; auto simp: wrap_def split: sum.splits)+

section \<open>Ceph CSI\<close>

definition validateMon :: "string \<Rightarrow> string option" where
  "validateMon mon =
     (let parts = strings_Split CHR '':'' mon in
      if length parts \<noteq> 2 then Some ''monitor format error, use ip:port''
      else case strconv_Atoi (parts ! 1) of None \<Rightarrow> Some ''monitor format port invalid'' | Some _ \<Rightarrow> None)"

fun first_err :: "('a \<Rightarrow> string option) \<Rightarrow> 'a list \<Rightarrow> string option" where
  "first_err f [] = None"
| "first_err f (x # xs) = (case f x of Some err \<Rightarrow> Some err | None \<Rightarrow> first_err f xs)"

lemma first_err_None: "first_err f xs = None \<longleftrightarrow> (\<forall>x\<in>set xs. f x = None)"
  by (induction xs) (auto split: option.splits)

definition validateCreateConfig :: "ceph_cluster \<Rightarrow> string option" where
  "validateCreateConfig conf =
     (if ce_ClusterId conf = [] then Some ''cluster id is empty''
      else if ce_Monitors conf = [] then Some (''cluster '' @ ce_ClusterId conf @ '' monitors is empty'')
      else first_err validateMon (ce_Monitors conf))"

definition Ceph_validateSetting :: "ceph_cluster list option \<Rightarrow> string option" where
  "Ceph_validateSetting conf =
     (case conf of
        None \<Rightarrow> Some ''cephCSI config''
      | Some cs \<Rightarrow> if length cs = 0 then Some ''cephCSI config is empty'' else first_err validateCreateConfig cs)"

section \<open>Monitor\<close>

record setting_env =
  sv_class :: "string \<Rightarrow> string + string"
  sv_cert :: "string + string \<times> string"

definition validateStorage :: "setting_env \<Rightarrow> storage \<Rightarrow> string + storage" where
  "validateStorage e s =
     (if st_SizeMB s < 1024 then Inl ''storage size must large than 1 GB''
      else if st_ClassName s = [] then Inr s
      else case sv_class e (st_ClassName s) of
             Inl err \<Rightarrow> Inl (''get storageClass '' @ st_ClassName s @ '': '' @ err)
           | Inr name \<Rightarrow> Inr (s\<lparr>st_ClassName := name\<rparr>))"

text \<open>\<open>conf.Storage.Enabled\<close> of a nil storage panics.\<close>

definition storage_if_enabled :: "setting_env \<Rightarrow> storage option \<Rightarrow> storage option validation" where
  "storage_if_enabled e st =
     (case st of
        None \<Rightarrow> Inl NilDereference
      | Some s \<Rightarrow>
          if st_Enabled s then (case validateStorage e s of Inl err \<Rightarrow> Inr (Inl err) | Inr s' \<Rightarrow> Inr (Inr (Some s')))
          else Inr (Inr (Some s)))"

definition validateGrafanaTLSKeyPair :: "tls_pair \<Rightarrow> string + tls_pair" where
  "validateGrafanaTLSKeyPair p =
     (if tp_Certificate p = [] then Inl ''tls certificate not provide''
      else if tp_Key p = [] then Inl ''tls key not provide''
      else Inr (if tp_Name p = [] then p\<lparr>tp_Name := ''grafana-ingress-tls''\<rparr> else p))"

definition validateGrafana :: "setting_env \<Rightarrow> grafana option \<Rightarrow> grafana option validation" where
  "validateGrafana e conf =
     (case conf of
        None \<Rightarrow> Inl NilDereference
      | Some g \<Rightarrow>
          vbind (storage_if_enabled e (gr_Storage g)) (\<lambda>st.
            if gr_Host g = [] \<and> gr_PublicAddress g = [] then Inr (Inl ''grafana public address or host must provide'')
            else
              let kp = (case gr_TLS g of
                          Some p \<Rightarrow> Inr p
                        | None \<Rightarrow> (case sv_cert e of
                                    Inl err \<Rightarrow> Inl (''generate grafana tls keypair: '' @ err)
                                  | Inr (cert, key) \<Rightarrow> Inr \<lparr>tp_Name = [], tp_Certificate = cert, tp_Key = key\<rparr>))
              in case kp of
                   Inl err \<Rightarrow> Inr (Inl err)
                 | Inr p \<Rightarrow>
                     (case validateGrafanaTLSKeyPair p of
                        Inl err \<Rightarrow> Inr (Inl (''validate tls key pair: '' @ err))
                      | Inr p' \<Rightarrow> Inr (Inr (Some (g\<lparr>gr_Storage := st, gr_TLS := Some p'\<rparr>))))))"

definition validateLoki :: "setting_env \<Rightarrow> storage option option \<Rightarrow> storage option option validation" where
  "validateLoki e conf =
     (case conf of None \<Rightarrow> Inl NilDereference | Some st \<Rightarrow> vbind (storage_if_enabled e st) (\<lambda>st'. Inr (Inr (Some st'))))"

definition validatePrometheus :: "setting_env \<Rightarrow> storage option option \<Rightarrow> storage option option validation" where
  "validatePrometheus e conf =
     (case conf of
        None \<Rightarrow> Inr (Inl ''config is empty'')
      | Some st \<Rightarrow> vbind (storage_if_enabled e st) (\<lambda>st'. Inr (Inr (Some st'))))"

definition validatePromtail :: "promtail option \<Rightarrow> promtail option validation" where
  "validatePromtail input = Inr (Inr input)"

definition Monitor_validateSetting :: "setting_env \<Rightarrow> monitor option \<Rightarrow> monitor option validation" where
  "Monitor_validateSetting e conf =
     (case conf of
        None \<Rightarrow> Inr (Inl ''monitor config is empty'')
      | Some m \<Rightarrow>
          vbind (wrap ''component grafana'' (validateGrafana e (mo_Grafana m))) (\<lambda>g.
          vbind (wrap ''component loki'' (validateLoki e (mo_Loki m))) (\<lambda>l.
          vbind (wrap ''component prometheus'' (validatePrometheus e (mo_Prometheus m))) (\<lambda>p.
          vbind (wrap ''component promtail'' (validatePromtail (mo_Promtail m))) (\<lambda>t.
            Inr (Inr (Some (m\<lparr>mo_Grafana := g, mo_Loki := l, mo_Prometheus := p, mo_Promtail := t\<rparr>))))))))"

section \<open>Fluent Bit\<close>

definition validateBackendES :: "backend_es \<Rightarrow> string option" where
  "validateBackendES c =
     (if es_Host c = [] then Some ''ES host is empty''
      else if es_Port c = 0 then Some ''ES port is 0''
      else if es_Index c = [] then Some ''ES index must provided''
      else if es_Type c = [] then Some ''ES index type must specified''
      else None)"

definition validateBackendKafka :: "backend_kafka \<Rightarrow> string option" where
  "validateBackendKafka c =
     (if ka_Brokers c = [] then Some ''brokers is empty'' else if ka_Topics c = [] then Some ''topics is empty'' else None)"

definition validateBackend :: "fluent_backend option \<Rightarrow> unit validation" where
  "validateBackend backend =
     (case backend of
        None \<Rightarrow> Inl NilDereference
      | Some b \<Rightarrow>
          (case be_ES b of
             None \<Rightarrow> Inl NilDereference
           | Some es \<Rightarrow>
               (case (if es_Enabled es then validateBackendES es else None) of
                  Some err \<Rightarrow> Inr (Inl (''backend es: '' @ err))
                | None \<Rightarrow>
                    (case be_Kafka b of
                       None \<Rightarrow> Inl NilDereference
                     | Some ka \<Rightarrow>
                         (case (if ka_Enabled ka then validateBackendKafka ka else None) of
                            Some err \<Rightarrow> Inr (Inl (''backend kafka: '' @ err))
                          | None \<Rightarrow> if es_Enabled es \<or> ka_Enabled ka then Inr (Inr ()) else Inr (Inl ''No backend enabled''))))))"

definition Fluent_validateSetting :: "fluent_backend option option \<Rightarrow> unit validation" where
  "Fluent_validateSetting conf = (case conf of None \<Rightarrow> Inl NilDereference | Some b \<Rightarrow> validateBackend b)"

section \<open>The drivers\<close>

definition Component_ValidateCreateData :: "setting_env \<Rightarrow> component_kind \<Rightarrow> component_settings \<Rightarrow> component_settings validation" where
  "Component_ValidateCreateData e kind s =
     (case kind of
        CephCSI \<Rightarrow> (case Ceph_validateSetting (se_CephCSI s) of Some err \<Rightarrow> Inr (Inl err) | None \<Rightarrow> Inr (Inr s))
      | Monitor \<Rightarrow> vbind (Monitor_validateSetting e (se_Monitor s)) (\<lambda>m. Inr (Inr (s\<lparr>se_Monitor := m\<rparr>)))
      | FluentBit \<Rightarrow> Inr (Inr s))"

definition Component_ValidateUpdateData :: "setting_env \<Rightarrow> component_kind \<Rightarrow> component_settings \<Rightarrow> component_settings validation" where
  "Component_ValidateUpdateData e kind s =
     (case kind of
        CephCSI \<Rightarrow> (case Ceph_validateSetting (se_CephCSI s) of Some err \<Rightarrow> Inr (Inl err) | None \<Rightarrow> Inr (Inr s))
      | Monitor \<Rightarrow> vbind (Monitor_validateSetting e (se_Monitor s)) (\<lambda>m. Inr (Inr (s\<lparr>se_Monitor := m\<rparr>)))
      | FluentBit \<Rightarrow> vbind (Fluent_validateSetting (se_FluentBit s)) (\<lambda>_. Inr (Inr s)))"

definition GetCreateSettings :: "component_kind \<Rightarrow> component_settings \<Rightarrow> component_settings" where
  "GetCreateSettings kind s =
     (if se_Namespace s = [] then s\<lparr>se_Namespace := (case kind of CephCSI \<Rightarrow> ''ceph-csi'' | _ \<Rightarrow> ''onecloud-monitoring'')\<rparr> else s)"

definition GetUpdateSettings :: "component_kind \<Rightarrow> component_settings \<Rightarrow> component_settings \<Rightarrow> component_settings" where
  "GetUpdateSettings kind old input =
     (case kind of
        CephCSI \<Rightarrow> old\<lparr>se_CephCSI := se_CephCSI input\<rparr>
      | Monitor \<Rightarrow> old\<lparr>se_Monitor := se_Monitor input\<rparr>
      | FluentBit \<Rightarrow> old\<lparr>se_FluentBit := se_FluentBit input\<rparr>)"

section \<open>What is accepted\<close>

definition storage_ok :: "storage option \<Rightarrow> bool" where
  "storage_ok st \<longleftrightarrow> (\<exists>s. st = Some s \<and> (st_Enabled s \<longrightarrow> 1024 \<le> st_SizeMB s))"

definition monitor_ok :: "monitor \<Rightarrow> bool" where
  "monitor_ok m \<longleftrightarrow> (\<exists>g l p t. mo_Grafana m = Some g \<and> mo_Loki m = Some l \<and> mo_Prometheus m = Some p \<and> gr_TLS g = Some t \<and>
     storage_ok (gr_Storage g) \<and> storage_ok l \<and> storage_ok p \<and>
     (gr_Host g \<noteq> [] \<or> gr_PublicAddress g \<noteq> []) \<and> tp_Certificate t \<noteq> [] \<and> tp_Key t \<noteq> [] \<and> tp_Name t \<noteq> [])"

definition ceph_ok :: "ceph_cluster list \<Rightarrow> bool" where
  "ceph_ok cs \<longleftrightarrow> cs \<noteq> [] \<and> (\<forall>c\<in>set cs. ce_ClusterId c \<noteq> [] \<and> ce_Monitors c \<noteq> [] \<and> (\<forall>m\<in>set (ce_Monitors c). validateMon m = None))"

definition fluent_ok :: "fluent_backend \<Rightarrow> bool" where
  "fluent_ok b \<longleftrightarrow> (\<exists>es ka. be_ES b = Some es \<and> be_Kafka b = Some ka \<and> (es_Enabled es \<or> ka_Enabled ka) \<and>
     (es_Enabled es \<longrightarrow> validateBackendES es = None) \<and> (ka_Enabled ka \<longrightarrow> validateBackendKafka ka = None))"

lemma Ceph_validateSetting_None: "Ceph_validateSetting conf = None \<longleftrightarrow> (\<exists>cs. conf = Some cs \<and> ceph_ok cs)"
proof -
  have "validateCreateConfig c = None \<longleftrightarrow> ce_ClusterId c \<noteq> [] \<and> ce_Monitors c \<noteq> [] \<and> (\<forall>m\<in>set (ce_Monitors c). validateMon m = None)" for c
    by (simp add: validateCreateConfig_def first_err_None)
  then show ?thesis by (simp add: Ceph_validateSetting_def ceph_ok_def first_err_None split: option.split)
qed

lemma Fluent_validateSetting_ok: "Fluent_validateSetting conf = Inr (Inr ()) \<longleftrightarrow> (\<exists>b. conf = Some (Some b) \<and> fluent_ok b)"
  by (auto simp: Fluent_validateSetting_def validateBackend_def fluent_ok_def split: option.splits if_splits)

lemma storage_if_enabled_ok:
  "storage_if_enabled e st = Inr (Inr st') \<Longrightarrow> storage_ok st'"
  by (auto simp: storage_if_enabled_def storage_ok_def validateStorage_def split: option.splits if_splits sum.splits)

lemma validateGrafana_ok:
  assumes "validateGrafana e conf = Inr (Inr conf')"
  shows "\<exists>g t. conf' = Some g \<and> gr_TLS g = Some t \<and> storage_ok (gr_Storage g) \<and> (gr_Host g \<noteq> [] \<or> gr_PublicAddress g \<noteq> []) \<and>
    tp_Certificate t \<noteq> [] \<and> tp_Key t \<noteq> [] \<and> tp_Name t \<noteq> []"
  using assms
  by (auto simp: validateGrafana_def vbind_Inr_Inr validateGrafanaTLSKeyPair_def Let_def dest: storage_if_enabled_ok
      split: option.splits if_splits sum.splits)

lemma Monitor_validateSetting_ok:
  assumes "Monitor_validateSetting e conf = Inr (Inr conf')"
  shows "\<exists>m. conf' = Some m \<and> monitor_ok m"
proof -
  obtain m0 g l p where m: "conf = Some m0" "validateGrafana e (mo_Grafana m0) = Inr (Inr g)" "validateLoki e (mo_Loki m0) = Inr (Inr l)"
      "validatePrometheus e (mo_Prometheus m0) = Inr (Inr p)" "conf' = Some (m0\<lparr>mo_Grafana := g, mo_Loki := l, mo_Prometheus := p, mo_Promtail := mo_Promtail m0\<rparr>)"
    using assms by (auto simp: Monitor_validateSetting_def validatePromtail_def vbind_Inr_Inr split: option.splits)
  have "\<exists>st. l = Some st \<and> storage_ok st" "\<exists>st. p = Some st \<and> storage_ok st"
    using m(3,4) by (auto simp: validateLoki_def validatePrometheus_def vbind_Inr_Inr dest: storage_if_enabled_ok split: option.splits)
  with validateGrafana_ok [OF m(2)] m(5) show ?thesis by (auto simp: monitor_ok_def)
qed

text \<open>The settings of a component that was validated.\<close>

definition settings_ok :: "component_kind \<Rightarrow> component_settings \<Rightarrow> bool" where
  "settings_ok kind s =
     (case kind of
        CephCSI \<Rightarrow> (\<exists>cs. se_CephCSI s = Some cs \<and> ceph_ok cs)
      | Monitor \<Rightarrow> (\<exists>m. se_Monitor s = Some m \<and> monitor_ok m)
      | FluentBit \<Rightarrow> True)"

lemma Component_ValidateCreateData_ok:
  "Component_ValidateCreateData e kind s = Inr (Inr s') \<Longrightarrow> settings_ok kind s'"
  by (auto simp: Component_ValidateCreateData_def settings_ok_def Ceph_validateSetting_None vbind_Inr_Inr dest: Monitor_validateSetting_ok
      split: component_kind.splits option.splits)

lemma Component_ValidateUpdateData_ok:
  "Component_ValidateUpdateData e kind s = Inr (Inr s') \<Longrightarrow> settings_ok kind s'"
  by (auto simp: Component_ValidateUpdateData_def settings_ok_def Ceph_validateSetting_None vbind_Inr_Inr dest: Monitor_validateSetting_ok
      split: component_kind.splits option.splits)

lemma settings_ok_create [simp]: "settings_ok kind (GetCreateSettings kind s) \<longleftrightarrow> settings_ok kind s"
  by (simp add: settings_ok_def GetCreateSettings_def split: component_kind.split)

lemma settings_ok_update [simp]: "settings_ok kind (GetUpdateSettings kind old input) \<longleftrightarrow> settings_ok kind input"
  by (simp add: settings_ok_def GetUpdateSettings_def split: component_kind.split)

text \<open>Names of storage classes resolve to themselves.\<close>

definition class_stable :: "setting_env \<Rightarrow> bool" where
  "class_stable e \<longleftrightarrow> (\<forall>n n'. sv_class e n = Inr n' \<longrightarrow> sv_class e n' = Inr n')"

lemma storage_if_enabled_again:
  "class_stable e \<Longrightarrow> storage_if_enabled e st = Inr (Inr st') \<Longrightarrow> storage_if_enabled e st' = Inr (Inr st')"
  by (auto simp: storage_if_enabled_def validateStorage_def class_stable_def split: option.splits if_splits sum.splits)

lemma validateGrafana_again:
  assumes "class_stable e" "validateGrafana e conf = Inr (Inr conf')"
  shows "validateGrafana e conf' = Inr (Inr conf')"
proof -
  obtain g st p p' where g: "conf = Some g" "storage_if_enabled e (gr_Storage g) = Inr (Inr st)" "\<not> (gr_Host g = [] \<and> gr_PublicAddress g = [])"
      "validateGrafanaTLSKeyPair p = Inr p'" "conf' = Some (g\<lparr>gr_Storage := st, gr_TLS := Some p'\<rparr>)"
    using assms(2) by (auto simp: validateGrafana_def vbind_Inr_Inr Let_def split: option.splits if_splits sum.splits)
  have "validateGrafanaTLSKeyPair p' = Inr p'" using g(4) by (auto simp: validateGrafanaTLSKeyPair_def split: if_splits)
  then show ?thesis using g(3) storage_if_enabled_again [OF assms(1) g(2)] by (auto simp: validateGrafana_def g(5) Let_def)
qed

lemma Monitor_validateSetting_again:
  assumes "class_stable e" "Monitor_validateSetting e conf = Inr (Inr conf')"
  shows "Monitor_validateSetting e conf' = Inr (Inr conf')"
proof -
  obtain m0 g l p where m: "conf = Some m0" "validateGrafana e (mo_Grafana m0) = Inr (Inr g)" "validateLoki e (mo_Loki m0) = Inr (Inr l)"
      "validatePrometheus e (mo_Prometheus m0) = Inr (Inr p)" "conf' = Some (m0\<lparr>mo_Grafana := g, mo_Loki := l, mo_Prometheus := p, mo_Promtail := mo_Promtail m0\<rparr>)"
    using assms(2) by (auto simp: Monitor_validateSetting_def validatePromtail_def vbind_Inr_Inr split: option.splits)
  have "validateLoki e l = Inr (Inr l)" "validatePrometheus e p = Inr (Inr p)"
    using m(3,4) storage_if_enabled_again [OF assms(1)]
    by (auto simp: validateLoki_def validatePrometheus_def vbind_Inr_Inr split: option.splits)
  then show ?thesis using validateGrafana_again [OF assms(1) m(2)] by (simp add: Monitor_validateSetting_def validatePromtail_def m(5) wrap_def)
qed

text \<open>Accepted settings are complete for their component and are accepted again unchanged, as an update with the same settings is.\<close>

theorem Component_settings_stable:
  assumes "class_stable e" "Component_ValidateCreateData e kind s = Inr (Inr s')" "kind \<noteq> FluentBit"
  shows "settings_ok kind s' \<and> Component_ValidateCreateData e kind s' = Inr (Inr s') \<and> Component_ValidateUpdateData e kind s' = Inr (Inr s')"
proof -
  have "Component_ValidateCreateData e kind s' = Inr (Inr s')"
    using assms Monitor_validateSetting_again [OF assms(1)]
    by (cases kind) (auto simp: Component_ValidateCreateData_def vbind_Inr_Inr split: option.splits)
  moreover have "Component_ValidateUpdateData e kind s' = Component_ValidateCreateData e kind s'"
    using assms(3) by (cases kind) (simp_all add: Component_ValidateUpdateData_def Component_ValidateCreateData_def)
  ultimately show ?thesis using Component_ValidateCreateData_ok [OF assms(2)] by simp
qed

text \<open>Parts that a request may leave out are dereferenced: Grafana or Loki, their storage though it need not be enabled, and the backend that is
  not used. Only the first of them that is reached panics.\<close>

theorem settings_nil_panics:
  "Monitor_validateSetting e conf = Inl NilDereference \<longleftrightarrow>
     (\<exists>m. conf = Some m \<and> (case mo_Grafana m of
        None \<Rightarrow> True
      | Some g \<Rightarrow> gr_Storage g = None \<or>
          (\<exists>g'. validateGrafana e (Some g) = Inr (Inr g') \<and> (case mo_Loki m of
             None \<Rightarrow> True
           | Some l \<Rightarrow> l = None \<or> (\<exists>l'. validateLoki e (Some l) = Inr (Inr l') \<and> mo_Prometheus m = Some None)))))"
proof -
  have s: "storage_if_enabled e st = Inl x \<longleftrightarrow> st = None \<and> x = NilDereference" for st x
    by (auto simp: storage_if_enabled_def split: option.splits sum.splits)
  have g: "validateGrafana e (Some g) = Inl NilDereference \<longleftrightarrow> gr_Storage g = None" for g
    by (auto simp: validateGrafana_def vbind_Inl s Let_def validateGrafanaTLSKeyPair_def split: option.splits sum.splits if_splits)
  have l: "validateLoki e (Some l) = Inl NilDereference \<longleftrightarrow> l = None" for l by (simp add: validateLoki_def vbind_Inl s)
  have p: "validatePrometheus e c = Inl NilDereference \<longleftrightarrow> c = Some None" for c
    by (auto simp: validatePrometheus_def vbind_Inl s split: option.splits)
  have g0: "validateGrafana e None = Inl NilDereference" "validateLoki e None = Inl NilDereference"
    by (simp_all add: validateGrafana_def validateLoki_def)
  show ?thesis
  proof (cases conf)
    case None
    then show ?thesis by (simp add: Monitor_validateSetting_def)
  next
    case (Some m)
    then show ?thesis
      by (cases "mo_Grafana m"; cases "mo_Loki m") (auto simp: Monitor_validateSetting_def validatePromtail_def vbind_Inl g l p g0)
  qed
qed

lemma fluent_kafka_only_panics:
  "be_ES b = None \<Longrightarrow> Component_ValidateUpdateData e FluentBit (s\<lparr>se_FluentBit := Some (Some b)\<rparr>) = Inl NilDereference"
  by (simp add: Component_ValidateUpdateData_def Fluent_validateSetting_def validateBackend_def)

section \<open>A sample\<close>

definition sample_setting_env :: setting_env where
  "sample_setting_env = \<lparr>sv_class = (\<lambda>n. Inr ''local''), sv_cert = Inr (''CERT'', ''KEY'')\<rparr>"

definition sample_storage :: storage where
  "sample_storage = \<lparr>st_Enabled = True, st_SizeMB = 2048, st_ClassName = ''sc-1''\<rparr>"

definition sample_monitor :: component_settings where
  "sample_monitor = \<lparr>se_Namespace = [], se_CephCSI = None,
     se_Monitor = Some \<lparr>mo_Grafana = Some \<lparr>gr_AdminUser = [], gr_AdminPassword = [], gr_Storage = Some sample_storage, gr_PublicAddress = ''10.0.0.1'',
       gr_Host = [], gr_TLS = None\<rparr>, mo_Loki = Some (Some (sample_storage\<lparr>st_Enabled := False\<rparr>)), mo_Prometheus = Some (Some sample_storage),
       mo_Promtail = None\<rparr>, se_FluentBit = None\<rparr>"

definition sample_validated_monitor :: component_settings where
  "sample_validated_monitor = (case Component_ValidateCreateData sample_setting_env Monitor sample_monitor of Inr (Inr s) \<Rightarrow> s | _ \<Rightarrow> sample_monitor)"

theorem Component_settings_stable_witness:
  "settings_ok Monitor sample_validated_monitor \<and>
   Component_ValidateUpdateData sample_setting_env Monitor sample_validated_monitor = Inr (Inr sample_validated_monitor)"
proof -
  have "class_stable sample_setting_env" by (simp add: class_stable_def sample_setting_env_def)
  moreover have "Component_ValidateCreateData sample_setting_env Monitor sample_monitor = Inr (Inr sample_validated_monitor)" by code_simp
  ultimately show ?thesis using Component_settings_stable by blast
qed

end
