(* ===== verification/Components.thy ===== *)
theory Components
  imports ComponentSettings
begin

text \<open>
  The components of a cluster: src/pkg/models/components.go, the joint records of clustercomponents.go and the operations of a
  cluster on its components in clusters.go. The state holds the tables of components and of joint records and the tasks that were started; the errors of the database are
  an environment. The ends of the tasks (src/pkg/tasks/component_*.go, whose handlers are in \<open>ResourceTasks\<close>) change the
  state as their handlers do. The generic requests of the framework (POST, PUT and DELETE of a component) are steps as well: the manager is registered with the dispatcher and does not
  override them. Shown: whatever is enabled, disabled, updated and deleted, a cluster has at most one component of a type, a
  component at most one cluster, and, unless a PUT replaced them, settings that were validated; a component can be enabled again while it is being deleted.
\<close>

section \<open>State\<close>

record component =
  cp_Id :: string
  cp_Name :: string
  cp_Type :: string
  cp_Enabled :: bool
  cp_Status :: string
  cp_Settings :: component_settings

datatype component_task = DeployTask | UndeployTask | UpdateTask | DeleteTask

record component_store =
  comps :: "component list"
  joints :: "(string \<times> string) list"
  ctasks :: "(component_task \<times> string) list"

text \<open>The errors of the updates of a component, of new tasks, insertions and deletions and of fetching the cluster; the ids and names of new components.\<close>

record component_env =
  ve_enabled :: "string option"
  ve_status :: "string option"
  ve_settings :: "string option"
  ve_task :: "string option"
  ve_insert :: "string option"
  ve_joint :: "string option"
  ve_detach :: "string option"
  ve_delete :: "string option"
  ve_cluster :: "string option"
  ve_name :: "string + string"
  ve_newId :: "component_store \<Rightarrow> string"
  ve_validation :: setting_env

definition update_comp :: "(component \<Rightarrow> component) \<Rightarrow> string \<Rightarrow> component_store \<Rightarrow> component_store" where
  "update_comp f i s = s\<lparr>comps := map (\<lambda>c. if cp_Id c = i then f c else c) (comps s)\<rparr>"

definition find_comp :: "string \<Rightarrow> component_store \<Rightarrow> component option" where
  "find_comp i s = List.find (\<lambda>c. cp_Id c = i) (comps s)"

section \<open>Lookup\<close>

text \<open>A joint record whose component is missing is skipped.\<close>

definition GetComponents :: "string \<Rightarrow> component_store \<Rightarrow> component list" where
  "GetComponents clusterId s =
     List.map_filter (\<lambda>(c, i). if c = clusterId then find_comp i s else None) (joints s)"

definition GetComponentByTypeNoError :: "string \<Rightarrow> string \<Rightarrow> component_store \<Rightarrow> component option" where
  "GetComponentByTypeNoError clusterId cType s = List.find (\<lambda>c. cp_Type c = cType) (GetComponents clusterId s)"

definition GetComponentByType :: "string \<Rightarrow> string \<Rightarrow> component_store \<Rightarrow> string + component" where
  "GetComponentByType clusterId cType s =
     (case GetComponentByTypeNoError clusterId cType s of
        None \<Rightarrow> Inl (''not found component by type '' @ cType)
      | Some c \<Rightarrow> Inr c)"

text \<open>The query joins the joint records with the clusters that exist.\<close>

definition Component_GetCluster :: "string list \<Rightarrow> string \<Rightarrow> component_store \<Rightarrow> string + string" where
  "Component_GetCluster clusterIds i s =
     (case filter (\<lambda>(c, j). j = i \<and> c \<in> set clusterIds) (joints s) of
        [] \<Rightarrow> Inl (''Not found cluster by component '' @ i)
      | [(c, _)] \<Rightarrow> Inr c
      | _ \<Rightarrow> Inl ''Found clusters by component'')"

section \<open>Starting tasks\<close>

definition SetEnabled :: "component_env \<Rightarrow> bool \<Rightarrow> string \<Rightarrow> component_store \<Rightarrow> component_store \<times> string option" where
  "SetEnabled e b i s =
     (case ve_enabled e of Some err \<Rightarrow> (s, Some err) | None \<Rightarrow> (update_comp (cp_Enabled_update (\<lambda>_. b)) i s, None))"

definition set_status :: "component_env \<Rightarrow> string \<Rightarrow> string \<Rightarrow> component_store \<Rightarrow> component_store \<times> string option" where
  "set_status e st i s =
     (case ve_status e of Some err \<Rightarrow> (s, Some err) | None \<Rightarrow> (update_comp (cp_Status_update (\<lambda>_. st)) i s, None))"

definition new_task :: "component_env \<Rightarrow> component_task \<Rightarrow> string \<Rightarrow> component_store \<Rightarrow> component_store \<times> string option" where
  "new_task e t i s = (case ve_task e of Some err \<Rightarrow> (s, Some err) | None \<Rightarrow> (s\<lparr>ctasks := ctasks s @ [(t, i)]\<rparr>, None))"

text \<open>Calls in sequence up to the first error.\<close>

definition andThen :: "('s \<Rightarrow> 's \<times> string option) \<Rightarrow> ('s \<Rightarrow> 's \<times> string option) \<Rightarrow> 's \<Rightarrow> 's \<times> string option" where
  "andThen f g s = (case f s of (s', Some err) \<Rightarrow> (s', Some err) | (s', None) \<Rightarrow> g s')"

definition StartComponentDeployTask :: "component_env \<Rightarrow> string \<Rightarrow> component_store \<Rightarrow> component_store \<times> string option" where
  "StartComponentDeployTask e i = andThen (SetEnabled e True i) (andThen (set_status e ''deploying'' i) (new_task e DeployTask i))"

definition StartComponentUndeployTask :: "component_env \<Rightarrow> string \<Rightarrow> component_store \<Rightarrow> component_store \<times> string option" where
  "StartComponentUndeployTask e i = andThen (set_status e ''undeploying'' i) (new_task e UndeployTask i)"

definition StartComponentUpdateTask :: "component_env \<Rightarrow> string \<Rightarrow> component_store \<Rightarrow> component_store \<times> string option" where
  "StartComponentUpdateTask e i = andThen (set_status e ''updating'' i) (new_task e UpdateTask i)"

definition StartComponentDeleteTask :: "component_env \<Rightarrow> string \<Rightarrow> component_store \<Rightarrow> component_store \<times> string option" where
  "StartComponentDeleteTask e i = andThen (SetEnabled e False i) (andThen (set_status e ''deleting'' i) (new_task e DeleteTask i))"

definition DoEnable :: "component_env \<Rightarrow> component \<Rightarrow> component_store \<Rightarrow> component_store \<times> string option" where
  "DoEnable e c s =
     (if cp_Enabled c then (s, Some (''component '' @ cp_Type c @ '' already enabled''))
      else if cp_Status c = ''deleting'' then (s, Some (''component '' @ cp_Type c @ '' is '' @ cp_Status c))
      else StartComponentDeployTask e (cp_Id c) s)"

definition DoDisable :: "component_env \<Rightarrow> component \<Rightarrow> component_store \<Rightarrow> component_store \<times> string option" where
  "DoDisable e c = StartComponentUndeployTask e (cp_Id c)"

definition DoDelete :: "component_env \<Rightarrow> component \<Rightarrow> component_store \<Rightarrow> component_store \<times> string option" where
  "DoDelete e c = StartComponentDeleteTask e (cp_Id c)"

definition Component_GetDriver :: "string \<Rightarrow> string + component_kind" where
  "Component_GetDriver cType =
     (case kind_of_type cType of None \<Rightarrow> Inl (''component get by type '' @ cType) | Some k \<Rightarrow> Inr k)"

definition DoUpdate :: "component_env \<Rightarrow> component \<Rightarrow> component_settings \<Rightarrow> component_store \<Rightarrow> component_store \<times> string option" where
  "DoUpdate e c input s =
     (if \<not> cp_Enabled c then (s, Some (''component '' @ cp_Type c @ '' not enabled''))
      else if cp_Status c \<notin> {''deployed'', ''update_fail''} then (s, Some (''component can't update when status is '' @ cp_Status c))
      else case Component_GetDriver (cp_Type c) of
             Inl err \<Rightarrow> (s, Some err)
           | Inr kind \<Rightarrow>
               (case ve_settings e of
                  Some err \<Rightarrow> (s, Some err)
                | None \<Rightarrow>
                    StartComponentUpdateTask e (cp_Id c)
                      (update_comp (cp_Settings_update (\<lambda>_. GetUpdateSettings kind (cp_Settings c) input)) (cp_Id c) s)))"

section \<open>Creation and deletion\<close>

record component_input =
  co_Name :: string
  co_Type :: string
  co_Cluster :: string
  co_Settings :: component_settings

text \<open>\<open>db.DoCreate\<close> validates, lets the new record customise itself and inserts it.\<close>

definition Components_ValidateCreateData :: "component_env \<Rightarrow> component_input \<Rightarrow> component_input validation" where
  "Components_ValidateCreateData e input =
     (case Component_GetDriver (co_Type input) of
        Inl err \<Rightarrow> Inr (Inl err)
      | Inr kind \<Rightarrow>
          if co_Cluster input = [] then Inr (Inl ''cluster must specified'')
          else case ve_cluster e of
            Some err \<Rightarrow> Inr (Inl (''fetch cluster '' @ co_Cluster input @ '': '' @ err))
          | None \<Rightarrow> vbind (Component_ValidateCreateData (ve_validation e) kind (co_Settings input)) (\<lambda>st. Inr (Inr (input\<lparr>co_Settings := st\<rparr>))))"

definition Component_CustomizeCreate :: "component_input \<Rightarrow> string + component_settings" where
  "Component_CustomizeCreate input =
     (case Component_GetDriver (co_Type input) of Inl err \<Rightarrow> Inl err | Inr kind \<Rightarrow> Inr (GetCreateSettings kind (co_Settings input)))"

definition db_DoCreate :: "component_env \<Rightarrow> component_input \<Rightarrow> component_store \<Rightarrow> (component_store \<times> (string + component)) go" where
  "db_DoCreate e input s =
     (case Components_ValidateCreateData e input of
        Inl p \<Rightarrow> Inl p
      | Inr (Inl err) \<Rightarrow> Inr (s, Inl err)
      | Inr (Inr d) \<Rightarrow>
          Inr (case Component_CustomizeCreate d of
                 Inl err \<Rightarrow> (s, Inl err)
               | Inr st \<Rightarrow>
                   (case ve_insert e of
                      Some err \<Rightarrow> (s, Inl err)
                    | None \<Rightarrow>
                        let c = \<lparr>cp_Id = ve_newId e s, cp_Name = co_Name d, cp_Type = co_Type d, cp_Enabled = False, cp_Status = ''init'',
                                 cp_Settings = st\<rparr>
                        in (s\<lparr>comps := comps s @ [c]\<rparr>, Inr c))))"

text \<open>The error of starting the task after the creation is only logged.\<close>

definition CreateByCluster :: "component_env \<Rightarrow> string \<Rightarrow> component_input \<Rightarrow> component_store \<Rightarrow> (component_store \<times> string option) go" where
  "CreateByCluster e clusterId input s =
     (case (if co_Name input = [] then ve_name e else Inr (co_Name input)) of
        Inl err \<Rightarrow> Inr (s, Some (''generate component name: '' @ err))
      | Inr name \<Rightarrow>
          gbind (db_DoCreate e (input\<lparr>co_Name := name, co_Cluster := clusterId\<rparr>) s) (\<lambda>(s1, r).
            Inr (case r of
                   Inl err \<Rightarrow> (s1, Some (''create cluster component: '' @ err))
                 | Inr c \<Rightarrow>
                     (case ve_joint e of
                        Some err \<Rightarrow> (s1, Some (''create cluster component joint model: '' @ err))
                      | None \<Rightarrow>
                          (fst (StartComponentDeployTask e (cp_Id c) (s1\<lparr>joints := joints s1 @ [(clusterId, cp_Id c)]\<rparr>)), None)))))"

definition EnableComponent :: "component_env \<Rightarrow> string \<Rightarrow> component_input \<Rightarrow> component_store \<Rightarrow> (component_store \<times> string option) go" where
  "EnableComponent e clusterId input s =
     (case GetComponentByTypeNoError clusterId (co_Type input) s of
        Some c \<Rightarrow> Inr (DoEnable e c s)
      | None \<Rightarrow> CreateByCluster e clusterId input s)"

definition PerformDisableComponent :: "component_env \<Rightarrow> string \<Rightarrow> string \<Rightarrow> component_store \<Rightarrow> component_store \<times> string option" where
  "PerformDisableComponent e clusterId cType s =
     (case GetComponentByType clusterId cType s of Inl err \<Rightarrow> (s, Some err) | Inr c \<Rightarrow> DoDisable e c s)"

definition PerformDeleteComponent :: "component_env \<Rightarrow> string \<Rightarrow> string \<Rightarrow> component_store \<Rightarrow> component_store \<times> string option" where
  "PerformDeleteComponent e clusterId cType s =
     (case GetComponentByType clusterId cType s of Inl err \<Rightarrow> (s, Some err) | Inr c \<Rightarrow> DoDelete e c s)"

definition PerformUpdateComponent ::
  "component_env \<Rightarrow> string \<Rightarrow> string \<Rightarrow> component_settings \<Rightarrow> component_store \<Rightarrow> (component_store \<times> string option) go" where
  "PerformUpdateComponent e clusterId cType input s =
     (case GetComponentByType clusterId cType s of
        Inl err \<Rightarrow> Inr (s, Some err)
      | Inr c \<Rightarrow>
          (case Component_GetDriver (cp_Type c) of
             Inl err \<Rightarrow> Inr (s, Some err)
           | Inr kind \<Rightarrow>
               (case Component_ValidateUpdateData (ve_validation e) kind input of
                  Inl p \<Rightarrow> Inl p
                | Inr (Inl err) \<Rightarrow> Inr (s, Some err)
                | Inr (Inr input') \<Rightarrow> Inr (DoUpdate e c input' s))))"

definition GetByComponent :: "string \<Rightarrow> component_store \<Rightarrow> (string \<times> string) list" where
  "GetByComponent i s = filter (\<lambda>(c, j). j = i) (joints s)"

text \<open>The joint records are detached before the component is deleted.\<close>

definition DeleteWithJoint :: "component_env \<Rightarrow> string \<Rightarrow> component_store \<Rightarrow> component_store \<times> string option" where
  "DeleteWithJoint e i s =
     (if GetByComponent i s \<noteq> [] \<and> ve_detach e \<noteq> None then (s, ve_detach e)
      else
        let s1 = s\<lparr>joints := filter (\<lambda>j. j \<notin> set (GetByComponent i s)) (joints s)\<rparr> in
        case ve_delete e of
          Some err \<Rightarrow> (s1, Some err)
        | None \<Rightarrow> (s1\<lparr>comps := filter (\<lambda>c. cp_Id c \<noteq> i) (comps s1)\<rparr>, None))"

section \<open>Queries\<close>

record component_status =
  sa_Id :: string
  sa_Created :: bool
  sa_Enabled :: bool
  sa_Status :: string

definition InitStatus :: "component option \<Rightarrow> component_status" where
  "InitStatus c0 =
     (case c0 of
        None \<Rightarrow> \<lparr>sa_Id = [], sa_Created = False, sa_Enabled = False, sa_Status = []\<rparr>
      | Some c \<Rightarrow> \<lparr>sa_Id = cp_Id c, sa_Created = True, sa_Enabled = cp_Enabled c, sa_Status = cp_Status c\<rparr>)"

text \<open>Every driver fills in the part of its type, so the order of the drivers does not matter.\<close>

definition GetComponentsStatus :: "string \<Rightarrow> component_store \<Rightarrow> component_kind \<Rightarrow> component_status" where
  "GetComponentsStatus clusterId s kind =
     InitStatus (GetComponentByTypeNoError clusterId (case kind of CephCSI \<Rightarrow> ''cephCSI'' | Monitor \<Rightarrow> ''monitor'' | FluentBit \<Rightarrow> ''fluentbit'') s)"

definition GetDetailsComponentSetting :: "string \<Rightarrow> string option \<Rightarrow> component_store \<Rightarrow> string + component_settings" where
  "GetDetailsComponentSetting clusterId typ s =
     (case typ of
        None \<Rightarrow> Inl ''type not provided''
      | Some cType \<Rightarrow> (case GetComponentByType clusterId cType s of Inl err \<Rightarrow> Inl err | Inr c \<Rightarrow> Inr (cp_Settings c)))"

definition PerformEnableComponent ::
  "component_env \<Rightarrow> string \<Rightarrow> component_input \<Rightarrow> component_store \<Rightarrow> (component_store \<times> (string + component)) go" where
  "PerformEnableComponent e clusterId input s =
     gbind (EnableComponent e clusterId input s) (\<lambda>(s', r).
       Inr (s', case r of Some err \<Rightarrow> Inl err | None \<Rightarrow> GetComponentByType clusterId (co_Type input) s'))"

section \<open>Runs\<close>

text \<open>The steps are whole requests: the framework holds the lock of the cluster while an action is performed, and that of the component while a handler of a
  task runs. A task ends with the error of its work. The deletion starts the undeployment when it begins.\<close>

definition task_ends :: "component_env \<Rightarrow> component_task \<Rightarrow> string option \<Rightarrow> string \<Rightarrow> component_store \<Rightarrow> component_store" where
  "task_ends e t err i s =
     (case t of
        DeployTask \<Rightarrow> fst (set_status e (if err = None then ''deployed'' else ''deploy_fail'') i s)
      | UpdateTask \<Rightarrow> fst (set_status e (if err = None then ''deployed'' else ''update_fail'') i s)
      | UndeployTask \<Rightarrow>
          (if err = None then fst (SetEnabled e False i (fst (set_status e ''init'' i s)))
           else fst (set_status e ''undeploy_fail'' i s))
      | DeleteTask \<Rightarrow>
          (case err of
             Some _ \<Rightarrow> fst (set_status e ''delete_fail'' i s)
           | None \<Rightarrow>
               (case DeleteWithJoint e i s of
                  (s', None) \<Rightarrow> s'
                | (s', Some _) \<Rightarrow> fst (set_status e ''delete_fail'' i s'))))"

text \<open>The generic requests: a POST creates a component without a joint record and starts its deployment, a PUT stores the name and the settings it is given
  (\<open>Settings\<close> is marked for updates by users, and no \<open>ValidateUpdateData\<close> looks at them), a DELETE deletes the record and leaves the joint record.\<close>

definition rest_create :: "component_env \<Rightarrow> component_input \<Rightarrow> component_store \<Rightarrow> (component_store \<times> string option) go" where
  "rest_create e input s =
     gbind (db_DoCreate e input s) (\<lambda>(s1, r).
       Inr (case r of Inl err \<Rightarrow> (s1, Some err) | Inr c \<Rightarrow> (fst (StartComponentDeployTask e (cp_Id c) s1), None)))"

definition rest_update :: "component_env \<Rightarrow> string \<Rightarrow> string option \<Rightarrow> component_settings option \<Rightarrow> component_store \<Rightarrow> component_store \<times> string option" where
  "rest_update e i name settings s =
     (case ve_settings e of
        Some err \<Rightarrow> (s, Some err)
      | None \<Rightarrow> (update_comp (\<lambda>c. c\<lparr>cp_Name := (case name of None \<Rightarrow> cp_Name c | Some n \<Rightarrow> n),
                                       cp_Settings := (case settings of None \<Rightarrow> cp_Settings c | Some st \<Rightarrow> st)\<rparr>) i s, None))"

definition rest_delete :: "component_env \<Rightarrow> string \<Rightarrow> component_store \<Rightarrow> component_store \<times> string option" where
  "rest_delete e i s = (case ve_delete e of Some err \<Rightarrow> (s, Some err) | None \<Rightarrow> (s\<lparr>comps := filter (\<lambda>c. cp_Id c \<noteq> i) (comps s)\<rparr>, None))"

text \<open>A step, with the ids of the components whose settings a PUT replaced in it.\<close>

inductive comp_step :: "string set \<Rightarrow> component_store \<Rightarrow> component_store \<Rightarrow> bool" where
  enable: "EnableComponent e cl input s = Inr (s', r) \<Longrightarrow> ve_newId e s \<notin> cp_Id ` set (comps s) \<union> snd ` set (joints s) \<Longrightarrow> comp_step {} s s'"
| disable: "PerformDisableComponent e cl t s = (s', r) \<Longrightarrow> comp_step {} s s'"
| delete: "PerformDeleteComponent e cl t s = (s', r) \<Longrightarrow> comp_step {} s s'"
| update: "PerformUpdateComponent e cl t input s = Inr (s', r) \<Longrightarrow> comp_step {} s s'"
| enable_one: "c \<in> set (comps s) \<Longrightarrow> DoEnable e c s = (s', r) \<Longrightarrow> comp_step {} s s'"
| begin_delete: "StartComponentUndeployTask e i s = (s', r) \<Longrightarrow> comp_step {} s s'"
| ends: "comp_step {} s (task_ends e tk err i s)"
| post: "rest_create e input s = Inr (s', r) \<Longrightarrow> ve_newId e s \<notin> cp_Id ` set (comps s) \<union> snd ` set (joints s) \<Longrightarrow> comp_step {} s s'"
| put: "rest_update e i name settings s = (s', r) \<Longrightarrow> comp_step (if settings = None then {} else {i}) s s'"
| remove: "rest_delete e i s = (s', r) \<Longrightarrow> comp_step {} s s'"

text \<open>A run, with the ids of the components whose settings a PUT replaced.\<close>

inductive comp_run :: "string set \<Rightarrow> component_store \<Rightarrow> component_store \<Rightarrow> bool" where
  start: "comp_run {} s s"
| step: "comp_run W s s' \<Longrightarrow> comp_step V s' s'' \<Longrightarrow> comp_run (W \<union> V) s s''"

definition joints_ok :: "component_store \<Rightarrow> bool" where
  "joints_ok s \<longleftrightarrow> distinct (map cp_Id (comps s)) \<and> distinct (map snd (joints s)) \<and>
     (\<forall>cl. distinct (map cp_Type (GetComponents cl s)))"

definition all_settings_ok :: "component_store \<Rightarrow> bool" where
  "all_settings_ok s \<longleftrightarrow> (\<forall>c\<in>set (comps s). \<exists>k. kind_of_type (cp_Type c) = Some k \<and> settings_ok k (cp_Settings c))"

definition comp_inv :: "component_store \<Rightarrow> bool" where
  "comp_inv s \<longleftrightarrow> joints_ok s \<and> all_settings_ok s"

text \<open>The same, except for the settings of some components.\<close>

definition settings_but :: "string set \<Rightarrow> component_store \<Rightarrow> bool" where
  "settings_but W s \<longleftrightarrow> (\<forall>c\<in>set (comps s). \<exists>k. kind_of_type (cp_Type c) = Some k \<and> (cp_Id c \<in> W \<or> settings_ok k (cp_Settings c)))"

definition comp_inv_but :: "string set \<Rightarrow> component_store \<Rightarrow> bool" where
  "comp_inv_but W s \<longleftrightarrow> joints_ok s \<and> settings_but W s"

lemma comp_inv_iff: "comp_inv s \<longleftrightarrow> comp_inv_but {} s"
  by (simp add: comp_inv_def comp_inv_but_def all_settings_ok_def settings_but_def)

section \<open>What the operations keep\<close>

definition id_types :: "component_store \<Rightarrow> (string \<times> string) list" where
  "id_types s = map (\<lambda>c. (cp_Id c, cp_Type c)) (comps s)"

definition types_of :: "(string \<rightharpoonup> string) \<Rightarrow> string \<Rightarrow> (string \<times> string) list \<Rightarrow> string list" where
  "types_of m cl js = List.map_filter (\<lambda>(c, i). if c = cl then m i else None) js"

definition types_in :: "string \<Rightarrow> component_store \<Rightarrow> string list" where
  "types_in cl s = types_of (map_of (id_types s)) cl (joints s)"

lemma find_comp_type: "map_option cp_Type (find_comp i s) = map_of (id_types s) i"
proof -
  have "map_option cp_Type (List.find (\<lambda>c. cp_Id c = i) cs) = map_of (map (\<lambda>c. (cp_Id c, cp_Type c)) cs) i" for cs
    by (induction cs) auto
  then show ?thesis by (simp add: find_comp_def id_types_def)
qed

lemma map_map_filter: "map f (List.map_filter g xs) = List.map_filter (\<lambda>x. map_option f (g x)) xs"
  by (induction xs) (auto simp: List.map_filter_def)

lemma types_of_append [simp]: "types_of m cl (js @ ks) = types_of m cl js @ types_of m cl ks"
  by (simp add: types_of_def List.map_filter_def)

lemma types_of_one [simp]: "types_of m cl [(c, i)] = (if c = cl then case m i of None \<Rightarrow> [] | Some t \<Rightarrow> [t] else [])"
  by (simp add: types_of_def List.map_filter_def split: option.split)

lemma types_of_agree: "(\<And>c i. (c, i) \<in> set js \<Longrightarrow> m i = m' i) \<Longrightarrow> types_of m cl js = types_of m' cl js"
proof (induction js)
  case (Cons p js)
  obtain c i where p: "p = (c, i)" by (cases p)
  have "m i = m' i" "types_of m cl js = types_of m' cl js" using Cons p by auto
  then show ?case using types_of_append [of _ cl "[p]" js] by (simp add: p)
qed (simp add: types_of_def)

lemma types_of_filter: "distinct (types_of m cl js) \<Longrightarrow> distinct (types_of m cl (filter P js))"
  unfolding types_of_def by (induction js) (force simp: List.map_filter_def split: option.splits)+

lemma types_in_eq: "map cp_Type (GetComponents cl s) = types_in cl s"
  by (auto simp: GetComponents_def types_in_def types_of_def map_map_filter find_comp_type if_distrib [of "map_option cp_Type"] case_prod_unfold
      intro!: arg_cong2 [of _ _ _ _ List.map_filter] cong: if_cong)

lemma joints_ok_iff:
  "joints_ok s \<longleftrightarrow> distinct (map fst (id_types s)) \<and> distinct (map snd (joints s)) \<and> (\<forall>cl. distinct (types_in cl s))"
  by (simp add: joints_ok_def types_in_eq) (simp add: id_types_def comp_def)

text \<open>An operation on records keeps the tables when ids, types, settings and joint records stay.\<close>

definition same_tables :: "component_store \<Rightarrow> component_store \<Rightarrow> bool" where
  "same_tables s s' \<longleftrightarrow> joints s' = joints s \<and> map (\<lambda>c. (cp_Id c, cp_Type c, cp_Settings c)) (comps s') = map (\<lambda>c. (cp_Id c, cp_Type c, cp_Settings c)) (comps s)"

lemma same_tables_refl [simp]: "same_tables s s"
  by (simp add: same_tables_def)

lemma same_tables_trans: "same_tables s s1 \<Longrightarrow> same_tables s1 s2 \<Longrightarrow> same_tables s s2"
  by (simp add: same_tables_def)

lemma same_tables_id_types: "same_tables s s' \<Longrightarrow> id_types s' = id_types s"
proof -
  have "id_types x = map (\<lambda>(i, t, _). (i, t)) (map (\<lambda>c. (cp_Id c, cp_Type c, cp_Settings c)) (comps x))" for x by (simp add: id_types_def)
  then show "same_tables s s' \<Longrightarrow> ?thesis" by (simp only: same_tables_def)
qed

lemma types_in_cong: "id_types s' = id_types s \<Longrightarrow> joints s' = joints s \<Longrightarrow> types_in cl s' = types_in cl s"
  by (simp only: types_in_def)

lemma settings_but_iff:
  "settings_but W s \<longleftrightarrow>
     list_all (\<lambda>(i, t, st). \<exists>k. kind_of_type t = Some k \<and> (i \<in> W \<or> settings_ok k st)) (map (\<lambda>c. (cp_Id c, cp_Type c, cp_Settings c)) (comps s))"
  by (simp add: settings_but_def list_all_iff)

lemma same_tables_inv:
  assumes "same_tables s s'" "comp_inv_but W s"
  shows "comp_inv_but W s'"
  using assms same_tables_id_types [OF assms(1)]
  by (simp add: comp_inv_but_def joints_ok_iff types_in_cong [of s' s] settings_but_iff same_tables_def)

lemma update_comp_same_tables:
  "(\<And>c. cp_Id (f c) = cp_Id c \<and> cp_Type (f c) = cp_Type c \<and> cp_Settings (f c) = cp_Settings c) \<Longrightarrow> same_tables s (update_comp f i s)"
  by (simp add: same_tables_def update_comp_def)

lemma andThen_same_tables:
  assumes "\<And>s. same_tables s (fst (f s))" "\<And>s. same_tables s (fst (g s))"
  shows "same_tables s (fst (andThen f g s))"
  using assms(1) [of s] assms(2) by (auto simp: andThen_def intro: same_tables_trans split: prod.splits option.splits)

lemma SetEnabled_same_tables [simp]: "same_tables s (fst (SetEnabled e b i s))"
  by (auto simp: SetEnabled_def intro!: update_comp_same_tables split: option.split)

lemma set_status_same_tables [simp]: "same_tables s (fst (set_status e st i s))"
  by (auto simp: set_status_def intro!: update_comp_same_tables split: option.split)

lemma new_task_same_tables [simp]: "same_tables s (fst (new_task e t i s))"
  by (simp add: new_task_def same_tables_def split: option.split)

lemma Start_same_tables [simp]:
  "same_tables s (fst (StartComponentDeployTask e i s))" "same_tables s (fst (StartComponentUndeployTask e i s))"
  "same_tables s (fst (StartComponentUpdateTask e i s))" "same_tables s (fst (StartComponentDeleteTask e i s))"
  by (simp_all add: StartComponentDeployTask_def StartComponentUndeployTask_def StartComponentUpdateTask_def StartComponentDeleteTask_def
      andThen_same_tables)

lemma Do_same_tables [simp]:
  "same_tables s (fst (DoEnable e c s))" "same_tables s (fst (DoDisable e c s))" "same_tables s (fst (DoDelete e c s))"
  by (simp_all add: DoEnable_def DoDisable_def DoDelete_def)

section \<open>The tables stay consistent\<close>

lemma settings_update_inv:
  assumes "comp_inv_but W s" "\<And>c. c \<in> set (comps s) \<Longrightarrow> cp_Id c = i \<Longrightarrow> \<exists>k. kind_of_type (cp_Type c) = Some k \<and> settings_ok k st"
  shows "comp_inv_but W (update_comp (cp_Settings_update (\<lambda>_. st)) i s)"
proof -
  let ?u = "update_comp (cp_Settings_update (\<lambda>_. st)) i s"
  have u: "id_types ?u = id_types s" "joints ?u = joints s" by (simp_all add: id_types_def update_comp_def)
  have "settings_but W ?u" using assms by (fastforce simp: settings_but_def comp_inv_but_def update_comp_def)
  then show ?thesis using assms(1) u by (simp add: comp_inv_but_def joints_ok_iff types_in_cong [OF u])
qed

lemma GetComponents_in: "c \<in> set (GetComponents cl s) \<Longrightarrow> c \<in> set (comps s)"
  by (auto simp: GetComponents_def map_filter_def find_comp_def find_Some_iff split: if_splits)

lemma GetComponentByType_in: "GetComponentByType cl t s = Inr c \<Longrightarrow> c \<in> set (comps s)"
  by (auto simp: GetComponentByType_def GetComponentByTypeNoError_def find_Some_iff dest: GetComponents_in [OF nth_mem] split: option.splits)

lemma DoUpdate_inv:
  assumes "comp_inv_but W s" "c \<in> set (comps s)" "kind_of_type (cp_Type c) = Some k" "settings_ok k input" "DoUpdate e c input s = (s', r)"
  shows "comp_inv_but W s'"
proof -
  let ?u = "update_comp (cp_Settings_update (\<lambda>_. GetUpdateSettings k (cp_Settings c) input)) (cp_Id c) s"
  have "d = c" if "d \<in> set (comps s)" "cp_Id d = cp_Id c" for d
    using assms(1,2) that by (auto simp: comp_inv_but_def joints_ok_def distinct_map dest: inj_onD)
  then have "comp_inv_but W ?u" using assms(1,3,4) by (intro settings_update_inv) (metis settings_ok_update)+
  moreover have "s' = s \<or> s' = fst (StartComponentUpdateTask e (cp_Id c) ?u)"
    using assms(3,5) by (auto simp: DoUpdate_def Component_GetDriver_def split: if_splits option.splits)
  ultimately show ?thesis using assms(1) same_tables_inv [OF Start_same_tables(3)] by auto
qed

lemma PerformUpdateComponent_inv:
  assumes "comp_inv_but W s" "PerformUpdateComponent e cl t input s = Inr (s', r)"
  shows "comp_inv_but W s'"
  using assms DoUpdate_inv [OF assms(1) GetComponentByType_in _ Component_ValidateUpdateData_ok]
  by (auto simp: PerformUpdateComponent_def Component_GetDriver_def split: sum.splits option.splits)

lemma db_DoCreate_cases:
  assumes "db_DoCreate e input s = Inr (s', r)"
  shows "s' = s \<and> (\<exists>err. r = Inl err) \<or>
    (\<exists>c k. s' = s\<lparr>comps := comps s @ [c]\<rparr> \<and> r = Inr c \<and> cp_Id c = ve_newId e s \<and> cp_Type c = co_Type input \<and>
       kind_of_type (cp_Type c) = Some k \<and> settings_ok k (cp_Settings c))"
  using assms
  by (auto simp: db_DoCreate_def Components_ValidateCreateData_def Component_CustomizeCreate_def Component_GetDriver_def vbind_Inr_Inr Let_def
      dest!: Component_ValidateCreateData_ok split: sum.splits option.splits if_splits)

lemma added_component_inv:
  assumes "comp_inv_but W s" "cp_Id c \<notin> cp_Id ` set (comps s) \<union> snd ` set (joints s)" "kind_of_type (cp_Type c) = Some k" "settings_ok k (cp_Settings c)"
  shows "comp_inv_but W (s\<lparr>comps := comps s @ [c]\<rparr>)"
    and "GetComponentByTypeNoError cl (cp_Type c) s = None \<Longrightarrow> comp_inv_but W (s\<lparr>comps := comps s @ [c], joints := joints s @ [(cl, cp_Id c)]\<rparr>)"
proof -
  let ?s1 = "s\<lparr>comps := comps s @ [c]\<rparr>" and ?s2 = "s\<lparr>comps := comps s @ [c], joints := joints s @ [(cl, cp_Id c)]\<rparr>"
  have i: "id_types ?s1 = id_types s @ [(cp_Id c, cp_Type c)]" "id_types ?s2 = id_types s @ [(cp_Id c, cp_Type c)]" by (simp_all add: id_types_def)
  have n: "cp_Id c \<notin> fst ` set (id_types s)" using assms(2) by (force simp: id_types_def)
  have m: "map_of (id_types s @ [(cp_Id c, cp_Type c)]) j = map_of (id_types s) j" if "(cl', j) \<in> set (joints s)" for cl' j
    using that assms(2) by (auto simp: map_add_def image_iff split: option.split)
  have t1: "types_in cl' ?s1 = types_in cl' s" for cl'
    using m by (auto simp: types_in_def i intro!: types_of_agree)
  have m': "map_of (id_types s @ [(cp_Id c, cp_Type c)]) (cp_Id c) = Some (cp_Type c)"
    using n by (simp add: map_add_def map_of_eq_None_iff [THEN iffD2])
  have t2: "types_in cl' ?s2 = types_in cl' s @ (if cl' = cl then [cp_Type c] else [])" for cl'
    using t1 [of cl'] m' by (simp add: types_in_def i)
  show "comp_inv_but W ?s1" using assms n by (auto simp: comp_inv_but_def joints_ok_iff i t1 settings_but_def)
  show "comp_inv_but W ?s2" if "GetComponentByTypeNoError cl (cp_Type c) s = None"
  proof -
    have "cp_Type c \<notin> set (types_in cl s)"
      using that by (auto simp: GetComponentByTypeNoError_def find_None_iff types_in_eq [symmetric])
    then show ?thesis using assms n by (auto simp: comp_inv_but_def joints_ok_iff i t2 settings_but_def)
  qed
qed

lemma CreateByCluster_cases:
  assumes "CreateByCluster e cl input s = Inr (s', r)"
  shows "s' = s \<or> (\<exists>input' s1 q. co_Type input' = co_Type input \<and> db_DoCreate e input' s = Inr (s1, q) \<and>
    (s' = s1 \<or> (\<exists>c. q = Inr c \<and> s' = fst (StartComponentDeployTask e (cp_Id c) (s1\<lparr>joints := joints s1 @ [(cl, cp_Id c)]\<rparr>)))))"
proof (cases "if co_Name input = [] then ve_name e else Inr (co_Name input)")
  case (Inl err)
  then show ?thesis using assms by (simp add: CreateByCluster_def)
next
  case (Inr name)
  define input' where "input' = input\<lparr>co_Name := name, co_Cluster := cl\<rparr>"
  have t: "co_Type input' = co_Type input" by (simp add: input'_def)
  show ?thesis
  proof (cases "db_DoCreate e input' s")
    case (Inr p)
    obtain s1 q where p: "p = (s1, q)" by (cases p)
    have "s' = s1 \<or> (\<exists>c. q = Inr c \<and> s' = fst (StartComponentDeployTask e (cp_Id c) (s1\<lparr>joints := joints s1 @ [(cl, cp_Id c)]\<rparr>)))"
      using assms Inr \<open>(if co_Name input = [] then ve_name e else Inr (co_Name input)) = Inr name\<close>
      by (auto simp: CreateByCluster_def p input'_def [symmetric] split: sum.splits option.splits)
    then show ?thesis using t Inr p by blast
  qed (use assms Inr in \<open>simp add: CreateByCluster_def input'_def\<close>)
qed

lemma EnableComponent_inv:
  assumes "comp_inv_but W s" "EnableComponent e cl input s = Inr (s', r)" "ve_newId e s \<notin> cp_Id ` set (comps s) \<union> snd ` set (joints s)"
  shows "comp_inv_but W s'"
proof (cases "GetComponentByTypeNoError cl (co_Type input) s")
  case None
  have d: "comp_inv_but W s1 \<and> (\<forall>c. q = Inr c \<longrightarrow> comp_inv_but W (s1\<lparr>joints := joints s1 @ [(cl, cp_Id c)]\<rparr>))"
    if "db_DoCreate e input' s = Inr (s1, q)" and ty: "co_Type input' = co_Type input" for input' s1 q
    using db_DoCreate_cases [OF that(1)]
  proof (elim disjE exE conjE)
    fix c k
    assume c: "s1 = s\<lparr>comps := comps s @ [c]\<rparr>" "q = Inr c" "cp_Id c = ve_newId e s" "kind_of_type (cp_Type c) = Some k" "settings_ok k (cp_Settings c)"
      and t: "cp_Type c = co_Type input'"
    have n: "cp_Id c \<notin> cp_Id ` set (comps s) \<union> snd ` set (joints s)" using assms(3) c(3) by simp
    show ?thesis using added_component_inv [OF assms(1) n c(4,5)] None t ty c(1,2) by simp
  qed (use assms(1) in auto)
  have "CreateByCluster e cl input s = Inr (s', r)" using assms(2) None by (simp add: EnableComponent_def)
  from CreateByCluster_cases [OF this]
  show ?thesis using assms(1) d same_tables_inv [OF Start_same_tables(1)] by (elim disjE exE conjE) (simp, blast+)
next
  case (Some c)
  then have "s' = fst (DoEnable e c s)" using assms(2) by (simp add: EnableComponent_def)
  then show ?thesis using same_tables_inv [OF Do_same_tables(1) assms(1)] by simp
qed

lemma DeleteWithJoint_inv:
  assumes "comp_inv_but W s" "DeleteWithJoint e i s = (s', r)"
  shows "comp_inv_but W s'"
proof -
  let ?s1 = "s\<lparr>joints := filter (\<lambda>j. snd j \<noteq> i) (joints s)\<rparr>"
  have f: "filter (\<lambda>j. j \<notin> set (GetByComponent i s)) (joints s) = filter (\<lambda>j. snd j \<noteq> i) (joints s)"
    by (auto simp: GetByComponent_def intro!: filter_cong)
  have "s' \<in> {s, ?s1, ?s1\<lparr>comps := filter (\<lambda>c. cp_Id c \<noteq> i) (comps s)\<rparr>}"
    using assms(2) by (auto simp: DeleteWithJoint_def f Let_def split: if_splits option.splits)
  moreover have s1: "id_types ?s1 = id_types s" by (simp add: id_types_def)
  have t: "distinct (types_in cl ?s1)" for cl
    using assms(1) by (auto simp: comp_inv_but_def joints_ok_iff types_in_def s1 intro: types_of_filter)
  then have 1: "comp_inv_but W ?s1"
    using assms(1) by (auto simp: comp_inv_but_def joints_ok_iff id_types_def settings_but_def distinct_map intro: inj_on_subset)
  moreover have "comp_inv_but W (?s1\<lparr>comps := filter (\<lambda>c. cp_Id c \<noteq> i) (comps s)\<rparr>)"
  proof -
    let ?s2 = "?s1\<lparr>comps := filter (\<lambda>c. cp_Id c \<noteq> i) (comps s)\<rparr>"
    have i: "id_types ?s2 = filter (\<lambda>p. fst p \<noteq> i) (id_types s)" by (simp add: id_types_def filter_map comp_def)
    have "map_of (filter (\<lambda>p. fst p \<noteq> i) xs) j = map_of xs j" if "j \<noteq> i" for j xs
      using that by (induction xs) auto
    then have "types_in cl ?s2 = types_in cl ?s1" for cl
      by (auto simp: types_in_def i s1 intro!: types_of_agree)
    then show ?thesis using 1 t
      by (auto simp: comp_inv_but_def joints_ok_iff i id_types_def settings_but_def distinct_map intro: inj_on_subset)
  qed
  ultimately show ?thesis using assms(1) by auto
qed

lemma task_ends_inv: "comp_inv_but W s \<Longrightarrow> comp_inv_but W (task_ends e tk err i s)"
  by (auto simp: task_ends_def split: component_task.split option.split prod.split
      intro: same_tables_inv [OF set_status_same_tables] same_tables_inv [OF SetEnabled_same_tables] DeleteWithJoint_inv)

lemma comp_inv_mono: "comp_inv_but W s \<Longrightarrow> comp_inv_but (W \<union> V) s"
  by (auto simp: comp_inv_but_def settings_but_def)

lemma rest_create_inv:
  assumes "comp_inv_but W s" "rest_create e input s = Inr (s', r)" "ve_newId e s \<notin> cp_Id ` set (comps s) \<union> snd ` set (joints s)"
  shows "comp_inv_but W s'"
proof -
  obtain s1 q where q: "db_DoCreate e input s = Inr (s1, q)"
    using assms(2) by (cases "db_DoCreate e input s") (auto simp: rest_create_def)
  then have s': "s' = s1 \<or> (\<exists>i. s' = fst (StartComponentDeployTask e i s1))"
    using assms(2) by (auto simp: rest_create_def split: sum.splits)
  have "comp_inv_but W s1" using db_DoCreate_cases [OF q]
  proof (elim disjE exE conjE)
    fix c k
    assume c: "s1 = s\<lparr>comps := comps s @ [c]\<rparr>" "cp_Id c = ve_newId e s" "kind_of_type (cp_Type c) = Some k" "settings_ok k (cp_Settings c)"
    show ?thesis unfolding c(1) by (rule added_component_inv(1) [OF assms(1) _ c(3,4)]) (use assms(3) c(2) in simp)
  qed (use assms(1) in simp)
  then show ?thesis using s' same_tables_inv [OF Start_same_tables(1)] by auto
qed

lemma removed_component_inv:
  assumes "comp_inv_but W s"
  shows "comp_inv_but W (s\<lparr>comps := filter (\<lambda>c. cp_Id c \<noteq> i) (comps s)\<rparr>)"
proof -
  let ?s2 = "s\<lparr>comps := filter (\<lambda>c. cp_Id c \<noteq> i) (comps s)\<rparr>"
  have ids: "id_types ?s2 = filter (\<lambda>p. fst p \<noteq> i) (id_types s)" by (simp add: id_types_def filter_map comp_def)
  have m: "map_of (filter (\<lambda>p. fst p \<noteq> i) xs) j = (if j = i then None else map_of xs j)" for j xs by (induction xs) auto
  have "types_of (map_of (filter (\<lambda>p. fst p \<noteq> i) xs)) cl js = types_of (map_of xs) cl (filter (\<lambda>j. snd j \<noteq> i) js)" for cl xs js
  proof (induction js)
    case (Cons p js)
    obtain a b where p: "p = (a, b)" by (cases p)
    have one: "types_of n cl ((a, b) # ks) = types_of n cl [(a, b)] @ types_of n cl ks" for n ks using types_of_append [of n cl "[(a, b)]" ks] by simp
    show ?case
      using Cons one [of "\<lambda>a. if a = i then None else map_of xs a" js] one [of "map_of xs" "filter (\<lambda>j. snd j \<noteq> i) js"] by (simp add: p m)
  qed (simp add: types_of_def)
  then have "types_in cl ?s2 = types_of (map_of (id_types s)) cl (filter (\<lambda>j. snd j \<noteq> i) (joints s))" for cl
    unfolding types_in_def ids by simp
  then have "distinct (types_in cl ?s2)" for cl
    using assms by (auto simp: comp_inv_but_def joints_ok_iff types_in_def intro: types_of_filter)
  then show ?thesis using assms
    by (auto simp: comp_inv_but_def joints_ok_iff ids id_types_def settings_but_def distinct_map intro: inj_on_subset)
qed

lemma rest_update_inv:
  assumes "comp_inv_but W s" "rest_update e i name settings s = (s', r)"
  shows "comp_inv_but (W \<union> (if settings = None then {} else {i})) s'"
proof (cases "ve_settings e")
  case None
  then have s': "s' = update_comp (\<lambda>c. c\<lparr>cp_Name := (case name of None \<Rightarrow> cp_Name c | Some n \<Rightarrow> n),
      cp_Settings := (case settings of None \<Rightarrow> cp_Settings c | Some st \<Rightarrow> st)\<rparr>) i s"
    using assms(2) by (simp add: rest_update_def)
  have u: "id_types s' = id_types s" "joints s' = joints s" by (simp_all add: s' id_types_def update_comp_def)
  have "settings_but (W \<union> (if settings = None then {} else {i})) s'"
    using assms(1) by (cases settings) (auto simp: comp_inv_but_def settings_but_def s' update_comp_def)
  then show ?thesis using assms(1) u by (simp add: comp_inv_but_def joints_ok_iff types_in_cong [OF u])
qed (use assms comp_inv_mono in \<open>simp add: rest_update_def\<close>)

lemma comp_step_inv:
  assumes "comp_step V s s'" "comp_inv_but W s"
  shows "comp_inv_but (W \<union> V) s'"
  using assms(1)
proof cases
  case (enable e cl input r)
  then show ?thesis using EnableComponent_inv assms(2) by simp
next
  case (disable e cl t r)
  then show ?thesis using assms(2) same_tables_inv [OF Do_same_tables(2) assms(2)]
    by (simp add: PerformDisableComponent_def split: sum.splits) (metis fst_conv)+
next
  case (delete e cl t r)
  then show ?thesis using assms(2) same_tables_inv [OF Do_same_tables(3) assms(2)]
    by (simp add: PerformDeleteComponent_def split: sum.splits) (metis fst_conv)+
next
  case (update e cl t input r)
  then show ?thesis using PerformUpdateComponent_inv [OF assms(2)] by simp
next
  case (enable_one c e r)
  then show ?thesis using assms(2) same_tables_inv [OF Do_same_tables(1)] by (metis fst_conv sup_bot.right_neutral)
next
  case (begin_delete e i r)
  then show ?thesis using assms(2) same_tables_inv [OF Start_same_tables(2)] by (metis fst_conv sup_bot.right_neutral)
next
  case (ends e tk err i)
  then show ?thesis using assms(2) task_ends_inv by simp
next
  case (post e input r)
  then show ?thesis using rest_create_inv [OF assms(2)] by simp
next
  case (put e i name settings r)
  then show ?thesis using rest_update_inv [OF assms(2)] by simp
next
  case (remove e i r)
  then show ?thesis using removed_component_inv [OF assms(2)] assms(2) by (auto simp: rest_delete_def split: option.splits)
qed

lemma reachable_inv: "comp_run W s s' \<Longrightarrow> comp_inv s \<Longrightarrow> comp_inv_but W s'"
  by (induction rule: comp_run.induct) (auto simp: comp_inv_iff intro: comp_step_inv)


text \<open>A PUT stores the settings it is given, whatever they are.\<close>

theorem put_stores_anything:
  assumes "ve_settings e = None" "find_comp i s = Some c"
  shows "\<exists>s' c'. rest_update e i None (Some st) s = (s', None) \<and> comp_step {i} s s' \<and> find_comp i s' = Some c' \<and> c' = c\<lparr>cp_Settings := st\<rparr>"
proof -
  let ?s' = "update_comp (\<lambda>c. c\<lparr>cp_Name := cp_Name c, cp_Settings := st\<rparr>) i s"
  have "find_comp i ?s' = Some (c\<lparr>cp_Settings := st\<rparr>)"
  proof -
    have "List.find (\<lambda>d. cp_Id d = i) (map (\<lambda>d. if cp_Id d = i then d\<lparr>cp_Settings := st\<rparr> else d) xs) =
        map_option (\<lambda>d. d\<lparr>cp_Settings := st\<rparr>) (List.find (\<lambda>d. cp_Id d = i) xs)" for xs :: "component list"
      by (induction xs) auto
    then show ?thesis using assms(2) by (simp add: find_comp_def update_comp_def)
  qed
  moreover have u: "rest_update e i None (Some st) s = (?s', None)" using assms(1) by (simp add: rest_update_def)
  moreover have "comp_step {i} s ?s'" using comp_step.put [OF u] by simp
  ultimately show ?thesis by blast
qed

section \<open>Enabling during a deletion\<close>

lemma find_comp_update [simp]:
  assumes "\<And>d. cp_Id (f d) = cp_Id d"
  shows "find_comp i (update_comp f i s) = map_option f (find_comp i s)"
proof -
  have "List.find (\<lambda>d. cp_Id d = i) (map (\<lambda>d. if cp_Id d = i then f d else d) xs) = map_option f (List.find (\<lambda>d. cp_Id d = i) xs)" for xs
    by (induction xs) (auto simp: assms)
  then show ?thesis by (simp add: find_comp_def update_comp_def)
qed

lemma find_comp_ctasks [simp]: "find_comp i (s\<lparr>ctasks := ts\<rparr>) = find_comp i s" "ctasks (update_comp f i s) = ctasks s"
  by (simp_all add: find_comp_def update_comp_def)

lemma DeleteWithJoint_removes: "ve_detach e = None \<Longrightarrow> ve_delete e = None \<Longrightarrow> DeleteWithJoint e i s = (s', r) \<Longrightarrow> find_comp i s' = None \<and> r = None"
  by (auto simp: DeleteWithJoint_def find_comp_def find_None_iff Let_def)

lemmas start_simps = StartComponentDeployTask_def StartComponentUndeployTask_def StartComponentDeleteTask_def DoDelete_def DoEnable_def
  andThen_def SetEnabled_def set_status_def new_task_def

text \<open>Without errors of the database, a component that is being deleted cannot be enabled at first, but it can as soon as the deletion has started
  its undeployment, because that overwrites the status which the guard of \<open>DoEnable\<close> tests. The component is then marked enabled and
  deploying while the deletion goes on, and is removed at its end.\<close>

theorem enable_during_delete:
  assumes "find_comp (cp_Id c) s = Some c"
    "ve_enabled e = None" "ve_status e = None" "ve_task e = None" "ve_detach e = None" "ve_delete e = None"
    "DoDelete e c s = (s1, r1)" "StartComponentUndeployTask e (cp_Id c) s1 = (s2, r2)" "find_comp (cp_Id c) s1 = Some c1" "find_comp (cp_Id c) s2 = Some c2"
  shows "(\<exists>err. DoEnable e c1 s1 = (s1, Some err)) \<and>
    (\<exists>s3. DoEnable e c2 s2 = (s3, None) \<and>
       ctasks s3 = ctasks s @ [(DeleteTask, cp_Id c), (UndeployTask, cp_Id c), (DeployTask, cp_Id c)] \<and>
       find_comp (cp_Id c) s3 = Some (c\<lparr>cp_Enabled := True, cp_Status := ''deploying''\<rparr>) \<and>
       find_comp (cp_Id c) (task_ends e DeleteTask None (cp_Id c) s3) = None)"
proof -
  note none = assms(2-6)
  have s1: "c1 = c\<lparr>cp_Enabled := False, cp_Status := ''deleting''\<rparr>" "ctasks s1 = ctasks s @ [(DeleteTask, cp_Id c)]"
    using assms(1,7,9) by (auto simp: start_simps none)
  have s2: "c2 = c\<lparr>cp_Enabled := False, cp_Status := ''undeploying''\<rparr>" "ctasks s2 = ctasks s1 @ [(UndeployTask, cp_Id c)]"
    using assms(8,9,10) s1(1) by (auto simp: start_simps none)
  obtain s3 where s3: "DoEnable e c2 s2 = (s3, None)" "ctasks s3 = ctasks s2 @ [(DeployTask, cp_Id c)]"
      "find_comp (cp_Id c) s3 = Some (c\<lparr>cp_Enabled := True, cp_Status := ''deploying''\<rparr>)"
    using assms(10) s2(1) by (simp add: start_simps none)
  obtain s4 r4 where d: "DeleteWithJoint e (cp_Id c) s3 = (s4, r4)" by fastforce
  show ?thesis using s1 s2(2) s3 d DeleteWithJoint_removes [OF none(4,5) d] by (simp add: task_ends_def DoEnable_def)
qed

section \<open>A run\<close>

definition sample_component_env :: component_env where
  "sample_component_env = \<lparr>ve_enabled = None, ve_status = None, ve_settings = None, ve_task = None, ve_insert = None, ve_joint = None, ve_detach = None,
     ve_delete = None, ve_cluster = None, ve_name = Inr ''prod-monitor'', ve_newId = (\<lambda>_. ''m1''), ve_validation = sample_setting_env\<rparr>"

definition sample_component_input :: component_input where
  "sample_component_input = \<lparr>co_Name = [], co_Type = ''monitor'', co_Cluster = [], co_Settings = sample_monitor\<rparr>"

definition no_components :: component_store where
  "no_components = \<lparr>comps = [], joints = [], ctasks = []\<rparr>"

definition with_monitor :: component_store where
  "with_monitor = (case EnableComponent sample_component_env ''prod'' sample_component_input no_components of Inr (s, _) \<Rightarrow> s | Inl _ \<Rightarrow> no_components)"

lemma with_monitor_reached: "comp_run {} no_components with_monitor" "comp_inv no_components"
proof -
  have "EnableComponent sample_component_env ''prod'' sample_component_input no_components = Inr (with_monitor, None)" by code_simp
  then have "comp_step {} no_components with_monitor" by (rule comp_step.enable) (simp add: no_components_def)
  then show "comp_run {} no_components with_monitor" using comp_run.step [OF comp_run.start] by fastforce
  show "comp_inv no_components"
    by (simp add: comp_inv_def joints_ok_def all_settings_ok_def no_components_def GetComponents_def List.map_filter_def)
qed


definition sample_component :: component where
  "sample_component = \<lparr>cp_Id = ''m1'', cp_Name = ''prod-monitor'', cp_Type = ''monitor'', cp_Enabled = True, cp_Status = ''deployed'',
     cp_Settings = sample_monitor\<rparr>"

definition deleting_store :: component_store where
  "deleting_store = fst (StartComponentUndeployTask sample_component_env ''m1''
     (fst (DoDelete sample_component_env sample_component \<lparr>comps = [sample_component], joints = [(''prod'', ''m1'')], ctasks = []\<rparr>)))"

theorem enable_during_delete_witness:
  "\<exists>s3. DoEnable sample_component_env (sample_component\<lparr>cp_Enabled := False, cp_Status := ''undeploying''\<rparr>) deleting_store = (s3, None) \<and>
     find_comp ''m1'' s3 = Some (sample_component\<lparr>cp_Status := ''deploying''\<rparr>) \<and>
     find_comp ''m1'' (task_ends sample_component_env DeleteTask None ''m1'' s3) = None"
proof -
  let ?s = "\<lparr>comps = [sample_component], joints = [(''prod'', ''m1'')], ctasks = []\<rparr>"
  let ?s1 = "fst (DoDelete sample_component_env sample_component ?s)"
  have i: "cp_Id sample_component = ''m1''" by (simp add: sample_component_def)
  have s: "find_comp ''m1'' ?s = Some sample_component" by (simp add: find_comp_def i)
  have 1: "DoDelete sample_component_env sample_component ?s = (?s1, snd (DoDelete sample_component_env sample_component ?s))" by simp
  have 2: "StartComponentUndeployTask sample_component_env ''m1'' ?s1 = (deleting_store, snd (StartComponentUndeployTask sample_component_env ''m1'' ?s1))"
    by (simp add: deleting_store_def)
  have 3: "find_comp ''m1'' ?s1 = Some (sample_component\<lparr>cp_Enabled := False, cp_Status := ''deleting''\<rparr>)"
    using s by (simp add: start_simps sample_component_env_def i)
  have 4: "find_comp ''m1'' deleting_store = Some (sample_component\<lparr>cp_Enabled := False, cp_Status := ''undeploying''\<rparr>)"
    using s by (simp add: deleting_store_def start_simps sample_component_env_def i)
  have e: "sample_component\<lparr>cp_Enabled := True, cp_Status := ''deploying''\<rparr> = sample_component\<lparr>cp_Status := ''deploying''\<rparr>"
    by (simp add: sample_component_def)
  show ?thesis
    using enable_during_delete [of sample_component ?s sample_component_env, unfolded i, OF s _ _ _ _ _ 1 2 3 4]
    by (auto simp: e sample_component_env_def)
qed

end
