(* ===== verification/ComponentDeploy.thy ===== *)
theory ComponentDeploy
  imports Components Rbac
begin

text \<open>
  What the drivers of the components do in a cluster: DoEnable, DoDisable and DoUpdate of components_cephcsi.go, components_monitor.go and
  components_fluent_bit.go, the managers of component_base.go, the values of the charts in src/pkg/templates/components and EnsureNamespace of
  helper.go and k8s/util/util.go. Helm, kubectl, the template engine and the JSON encoder are an environment; the model returns the calls that were
  made, in order, with the error. Shown: the settings that passed validation give values with the storage that was asked for, without a panic or an error; the
  same does not hold for the Fluent Bit settings, which are not validated at creation.
\<close>

section \<open>Values of the charts\<close>

record image =
  im_Repository :: string
  im_Tag :: string

record pvc_spec =
  pv_StorageClassName :: "string option"
  pv_AccessModes :: "string list"
  pv_Requests :: "(string \<times> string) list"

record pvc_storage =
  ps_Type :: string
  ps_Enabled :: bool
  ps_StorageClassName :: string
  ps_AccessModes :: "string list"
  ps_Size :: string

definition GetAccessModes :: "storage \<Rightarrow> string list" where
  "GetAccessModes s = [''ReadWriteOnce'']"

text \<open>Integer division of Go truncates; below zero the result is not positive either way.\<close>

definition size_GB :: "storage \<Rightarrow> int" where
  "size_GB s = (if st_SizeMB s < 0 then - ((- st_SizeMB s) div 1024) else st_SizeMB s div 1024)"

definition NewPrometheusStorageSpec :: "storage \<Rightarrow> string + pvc_spec" where
  "NewPrometheusStorageSpec s =
     (if size_GB s \<le> 0 then Inl ''size must large than 1GB''
      else Inr \<lparr>pv_StorageClassName = (if st_ClassName s \<noteq> [] then Some (st_ClassName s) else None), pv_AccessModes = GetAccessModes s,
                pv_Requests = [(''storage'', show_int (size_GB s) @ ''Gi'')]\<rparr>)"

definition NewPVCStorage :: "storage \<Rightarrow> string + pvc_storage" where
  "NewPVCStorage s =
     (if size_GB s \<le> 0 then Inl ''size must large than 1GB''
      else Inr \<lparr>ps_Type = ''pvc'', ps_Enabled = True, ps_StorageClassName = st_ClassName s, ps_AccessModes = GetAccessModes s,
                ps_Size = show_int (size_GB s) @ ''Gi''\<rparr>)"

record grafana_ingress =
  gi_Enabled :: bool
  gi_Path :: string
  gi_Host :: string
  gi_Secret :: tls_pair
  gi_TLS :: "string list"

record grafana_values =
  gv_AdminUser :: string
  gv_AdminPassword :: string
  gv_Sidecar :: image
  gv_Image :: image
  gv_Storage :: "pvc_storage option"
  gv_ServiceType :: string
  gv_Ingress :: grafana_ingress
  gv_RootUrl :: string
  gv_ServeFromSubPath :: bool

record operator_values =
  ov_Image :: image
  ov_ConfigmapReload :: image
  ov_ConfigReloader :: image
  ov_TLSProxy :: image
  ov_WebhooksEnabled :: bool
  ov_PatchEnabled :: bool
  ov_Patch :: image

record monitor_stack =
  ms_Prometheus :: image
  ms_PrometheusStorage :: "pvc_spec option"
  ms_Alertmanager :: image
  ms_NodeExporter :: image
  ms_KubeStateMetrics :: image
  ms_Grafana :: grafana_values
  ms_Loki :: image
  ms_LokiStorage :: "pvc_storage option"
  ms_Promtail :: image
  ms_Operator :: operator_values

record es_values =
  ev_Enabled :: bool
  ev_Host :: string
  ev_Port :: int
  ev_Index :: string
  ev_Type :: string
  ev_LogstashPrefix :: string
  ev_ReplaceDots :: string
  ev_LogstashFormat :: string
  ev_HTTPUser :: string
  ev_HTTPPassword :: string
  ev_TLS :: string
  ev_TLSVerify :: string
  ev_TLSCA :: string

record kafka_values =
  kv_Enabled :: bool
  kv_Format :: string
  kv_MessageKey :: string
  kv_TimestampKey :: string
  kv_Brokers :: string
  kv_Topics :: string

record fluent_values =
  fv_Image :: image
  fv_ES :: "es_values option"
  fv_Kafka :: "kafka_values option"

datatype helm_values = MonitorValues monitor_stack | FluentValues fluent_values

section \<open>The cluster\<close>

record image_repository =
  ir_Url :: string
  ir_Insecure :: bool

definition DefaultRegistryMirror :: string where
  "DefaultRegistryMirror = ''registry.cn-beijing.aliyuncs.com/yunionio''"

definition Manager_GetImageRepository :: "image_repository option \<Rightarrow> image_repository" where
  "Manager_GetImageRepository input =
     (case input of
        None \<Rightarrow> \<lparr>ir_Url = DefaultRegistryMirror, ir_Insecure = False\<rparr>
      | Some r \<Rightarrow> \<lparr>ir_Url = (if ir_Url r \<noteq> [] then ir_Url r else DefaultRegistryMirror), ir_Insecure = ir_Insecure r\<rparr>)"

record ceph_config =
  cc_Namespace :: string
  cc_ConfigMapName :: string
  cc_ConfigJSON :: string
  cc_AttacherImage :: string
  cc_ProvisionerImage :: string
  cc_SnapshotterImage :: string
  cc_CephCSIImage :: string
  cc_RegistrarImage :: string
  cc_ResizerImage :: string

datatype cluster_call =
    CreateNS string
  | Apply string
  | Delete string
  | Install string string string helm_values
  | Uninstall string string
  | Upgrade string string string helm_values

text \<open>The repository of the cluster is unset, not readable or set; the other fields are the results of the calls.\<close>

record deploy_env =
  dp_name :: string
  dp_repo :: "(string + image_repository) option"
  dp_manager :: "string option"
  dp_client :: "string option"
  dp_getNS :: "string \<Rightarrow> kube_error option"
  dp_createNS :: "string \<Rightarrow> kube_error option"
  dp_error :: "kube_error \<Rightarrow> string"
  dp_kubeconfig :: "string option"
  dp_kubectl :: "string option"
  dp_helm :: "string option"
  dp_chart :: "string \<Rightarrow> string option"
  dp_call :: "cluster_call \<Rightarrow> string option"
  dp_json :: "(string \<times> string list) list \<Rightarrow> string"
  dp_yaml :: "ceph_config \<Rightarrow> string + string"

definition Cluster_GetImageRepository :: "deploy_env \<Rightarrow> string + image_repository" where
  "Cluster_GetImageRepository e =
     (case dp_repo e of
        None \<Rightarrow> Inr (Manager_GetImageRepository None)
      | Some (Inl err) \<Rightarrow> Inl err
      | Some (Inr r) \<Rightarrow> Inr (Manager_GetImageRepository (Some r)))"

text \<open>The calls that were made and the error of the last.\<close>

type_synonym work = "cluster_call list \<times> string option"

definition wthen :: "work \<Rightarrow> work \<Rightarrow> work" where
  "wthen a b = (case snd a of Some err \<Rightarrow> a | None \<Rightarrow> (fst a @ fst b, snd b))"

definition call :: "deploy_env \<Rightarrow> cluster_call \<Rightarrow> work" where
  "call e c = ([c], dp_call e c)"

definition wwrap :: "string \<Rightarrow> work \<Rightarrow> work" where
  "wwrap msg w = (fst w, errors_Wrap msg (snd w))"

section \<open>Namespaces\<close>

definition util_IsNamespaceExist :: "deploy_env \<Rightarrow> string \<Rightarrow> kube_error + bool" where
  "util_IsNamespaceExist e ns =
     (case dp_getNS e ns of None \<Rightarrow> Inr True | Some NotFound \<Rightarrow> Inr False | Some AlreadyExists \<Rightarrow> Inr True | Some err \<Rightarrow> Inl err)"

definition EnsureResourceFunc :: "deploy_env \<Rightarrow> kube_error + bool \<Rightarrow> kube_error option \<Rightarrow> cluster_call \<Rightarrow> work" where
  "EnsureResourceFunc e existing created c =
     (case existing of
        Inl err \<Rightarrow> ([], Some (dp_error e err))
      | Inr True \<Rightarrow> ([], None)
      | Inr False \<Rightarrow> ([c], case created of None \<Rightarrow> None | Some AlreadyExists \<Rightarrow> None | Some err \<Rightarrow> Some (dp_error e err)))"

definition util_EnsureNamespace :: "deploy_env \<Rightarrow> string \<Rightarrow> work" where
  "util_EnsureNamespace e ns = EnsureResourceFunc e (util_IsNamespaceExist e ns) (dp_createNS e ns) (CreateNS ns)"

definition Cluster_EnsureNamespace :: "deploy_env \<Rightarrow> string \<Rightarrow> work" where
  "Cluster_EnsureNamespace e ns =
     (case dp_manager e of
        Some err \<Rightarrow> ([], Some (''get cluster k8s manager: '' @ err))
      | None \<Rightarrow> (case dp_client e of Some err \<Rightarrow> ([], Some (''get cluster k8s client: '' @ err)) | None \<Rightarrow> util_EnsureNamespace e ns))"

section \<open>kubectl and Helm\<close>

definition NewKubectl :: "deploy_env \<Rightarrow> string option" where
  "NewKubectl e = (case dp_kubeconfig e of Some err \<Rightarrow> Some (''get kubeconfig: '' @ err) | None \<Rightarrow> errors_Wrap ''new kubectl client'' (dp_kubectl e))"

definition KubectlApply :: "deploy_env \<Rightarrow> string \<Rightarrow> work" where
  "KubectlApply e manifest = (case NewKubectl e of Some err \<Rightarrow> ([], Some err) | None \<Rightarrow> wwrap ''apply manifest'' (call e (Apply manifest)))"

definition KubectlDelete :: "deploy_env \<Rightarrow> string \<Rightarrow> work" where
  "KubectlDelete e manifest = (case NewKubectl e of Some err \<Rightarrow> ([], Some err) | None \<Rightarrow> wwrap ''delete manifest'' (call e (Delete manifest)))"

record helm_manager =
  hm_releaseName :: string
  hm_namespace :: string
  hm_embedChartName :: string

definition monitor_manager :: helm_manager where
  "monitor_manager = \<lparr>hm_releaseName = ''monitor'', hm_namespace = ''onecloud-monitoring'', hm_embedChartName = ''MONITOR_STACK_V1_TGZ''\<rparr>"

definition fluent_manager :: helm_manager where
  "fluent_manager = \<lparr>hm_releaseName = ''fluentbit'', hm_namespace = ''onecloud-monitoring'', hm_embedChartName = ''FLUENT_BIT_2_8_12_TGZ''\<rparr>"

definition LoadEmbedChart :: "deploy_env \<Rightarrow> string \<Rightarrow> string option" where
  "LoadEmbedChart e chartName = errors_Wrap (''load chart '' @ chartName) (dp_chart e chartName)"

definition HelmInstall :: "deploy_env \<Rightarrow> string \<Rightarrow> string \<Rightarrow> string \<Rightarrow> helm_values \<Rightarrow> work" where
  "HelmInstall e namespace chartName releaseName vals =
     (case dp_helm e of
        Some err \<Rightarrow> ([], Some (''new helm client: '' @ err))
      | None \<Rightarrow> (case LoadEmbedChart e chartName of Some err \<Rightarrow> ([], Some err) | None \<Rightarrow> call e (Install namespace chartName releaseName vals)))"

definition HelmUninstall :: "deploy_env \<Rightarrow> string \<Rightarrow> string \<Rightarrow> work" where
  "HelmUninstall e namespace releaseName =
     (case dp_helm e of Some err \<Rightarrow> ([], Some (''new helm client: '' @ err)) | None \<Rightarrow> call e (Uninstall namespace releaseName))"

definition HelmUpdate :: "deploy_env \<Rightarrow> string \<Rightarrow> string \<Rightarrow> string \<Rightarrow> helm_values \<Rightarrow> work" where
  "HelmUpdate e namespace chartName releaseName vals =
     (case dp_helm e of
        Some err \<Rightarrow> ([], Some (''new helm client: '' @ err))
      | None \<Rightarrow> (case LoadEmbedChart e chartName of Some err \<Rightarrow> ([], Some err) | None \<Rightarrow> call e (Upgrade namespace chartName releaseName vals)))"

definition CreateHelmResource :: "deploy_env \<Rightarrow> helm_manager \<Rightarrow> helm_values \<Rightarrow> work" where
  "CreateHelmResource e m vals =
     wthen (wwrap (hm_releaseName m @ '' ensure namespace '' @ hm_namespace m) (Cluster_EnsureNamespace e (hm_namespace m)))
       (wwrap (''create helm '' @ hm_releaseName m @ '' release'') (HelmInstall e (hm_namespace m) (hm_embedChartName m) (hm_releaseName m) vals))"

text \<open>A release that does not exist counts as deleted.\<close>

definition DeleteHelmResource :: "deploy_env \<Rightarrow> helm_manager \<Rightarrow> work" where
  "DeleteHelmResource e m =
     (let w = HelmUninstall e (hm_namespace m) (hm_releaseName m)
      in case snd w of
           Some err \<Rightarrow> if strings_Contains err ''release: not found'' then (fst w, None) else w
         | None \<Rightarrow> w)"

definition UpdateHelmResource :: "deploy_env \<Rightarrow> helm_manager \<Rightarrow> helm_values \<Rightarrow> work" where
  "UpdateHelmResource e m vals = HelmUpdate e (hm_namespace m) (hm_embedChartName m) (hm_releaseName m) vals"

section \<open>Monitor\<close>

definition mi :: "string \<Rightarrow> string \<Rightarrow> string \<Rightarrow> image" where
  "mi repo name tag = \<lparr>im_Repository = repo @ ''/'' @ name, im_Tag = tag\<rparr>"

text \<open>The values without the storages, which are filled in afterwards.\<close>

definition monitor_conf :: "string \<Rightarrow> grafana \<Rightarrow> tls_pair \<Rightarrow> monitor_stack" where
  "monitor_conf repo g pair =
     (let host = (if gr_Host g = [] then gr_PublicAddress g else gr_Host g) in
      \<lparr>ms_Prometheus = mi repo ''prometheus'' ''v2.15.2'', ms_PrometheusStorage = None,
       ms_Alertmanager = mi repo ''alertmanager'' ''v0.20.0'', ms_NodeExporter = mi repo ''node-exporter'' ''v0.18.1'',
       ms_KubeStateMetrics = mi repo ''kube-state-metrics'' ''v1.9.4'',
       ms_Grafana = \<lparr>gv_AdminUser = (if gr_AdminUser g = [] then ''admin'' else gr_AdminUser g),
          gv_AdminPassword = (if gr_AdminPassword g = [] then ''prom-operator'' else gr_AdminPassword g),
          gv_Sidecar = mi repo ''k8s-sidecar'' ''0.1.99'', gv_Image = mi repo ''grafana'' ''6.7.1'', gv_Storage = None, gv_ServiceType = ''ClusterIP'',
          gv_Ingress = \<lparr>gi_Enabled = True, gi_Path = ''/grafana'', gi_Host = gr_Host g, gi_Secret = pair, gi_TLS = [tp_Name pair]\<rparr>,
          gv_RootUrl = ''https://'' @ host @ ''/grafana/'', gv_ServeFromSubPath = True\<rparr>,
       ms_Loki = mi repo ''loki'' ''1.4.1'', ms_LokiStorage = None, ms_Promtail = mi repo ''promtail'' ''1.4.1'',
       ms_Operator = \<lparr>ov_Image = mi repo ''prometheus-operator'' ''v0.37.0'', ov_ConfigmapReload = mi repo ''configmap-reload'' ''v0.0.1'',
          ov_ConfigReloader = mi repo ''prometheus-config-reloader'' ''v0.37.0'', ov_TLSProxy = mi repo ''ghostunnel'' ''v1.5.2'',
          ov_WebhooksEnabled = False, ov_PatchEnabled = False, ov_Patch = mi repo ''kube-webhook-certgen'' ''v1.0.0''\<rparr>\<rparr>)"

definition storage_values :: "string \<Rightarrow> (storage \<Rightarrow> string + 'v) \<Rightarrow> storage option \<Rightarrow> 'v option validation" where
  "storage_values msg new st =
     (case st of
        None \<Rightarrow> Inr (Inr None)
      | Some s \<Rightarrow>
          if st_Enabled s then (case new s of Inl err \<Rightarrow> Inr (Inl (msg @ err)) | Inr v \<Rightarrow> Inr (Inr (Some v)))
          else Inr (Inr None))"

definition Monitor_getHelmValues :: "deploy_env \<Rightarrow> component_settings \<Rightarrow> monitor_stack validation" where
  "Monitor_getHelmValues e s =
     (case Cluster_GetImageRepository e of
        Inl err \<Rightarrow> Inr (Inl (''get cluster '' @ dp_name e @ '' repo: '' @ err))
      | Inr repo \<Rightarrow>
          (case se_Monitor s of
             None \<Rightarrow> Inl NilDereference
           | Some m \<Rightarrow>
               (case mo_Grafana m of
                  None \<Rightarrow> Inl NilDereference
                | Some g \<Rightarrow>
                    (case gr_TLS g of
                       None \<Rightarrow> Inr (Inl ''grafana tls key pair not provided'')
                     | Some pair \<Rightarrow>
                         (case mo_Prometheus m of
                            None \<Rightarrow> Inl NilDereference
                          | Some prom \<Rightarrow>
                              vbind (storage_values ''prometheus storage spec: '' NewPrometheusStorageSpec prom) (\<lambda>ps.
                              vbind (storage_values ''grafana storage spec: '' NewPVCStorage (gr_Storage g)) (\<lambda>gs.
                                (case mo_Loki m of
                                   None \<Rightarrow> Inl NilDereference
                                 | Some loki \<Rightarrow>
                                     vbind (storage_values ''loki storage: '' NewPVCStorage loki) (\<lambda>ls.
                                       let conf = monitor_conf (ir_Url repo) g pair in
                                       Inr (Inr (conf\<lparr>ms_PrometheusStorage := ps, ms_Grafana := ms_Grafana conf\<lparr>gv_Storage := gs\<rparr>,
                                                      ms_LokiStorage := ls\<rparr>)))))))))))"

section \<open>Fluent Bit\<close>

definition on_if :: "bool \<Rightarrow> string" where
  "on_if b = (if b then ''On'' else [])"

definition es_conf :: "backend_es \<Rightarrow> es_values" where
  "es_conf c = \<lparr>ev_Enabled = True, ev_Host = es_Host c, ev_Port = es_Port c, ev_Index = es_Index c, ev_Type = es_Type c,
     ev_LogstashPrefix = es_LogstashPrefix c, ev_ReplaceDots = on_if (es_ReplaceDots c), ev_LogstashFormat = on_if (es_LogstashFormat c),
     ev_HTTPUser = es_HTTPUser c, ev_HTTPPassword = es_HTTPPassword c, ev_TLS = on_if (tl_TLS (es_TLS c)),
     ev_TLSVerify = on_if (tl_TLSVerify (es_TLS c)), ev_TLSCA = tl_TLSCA (es_TLS c)\<rparr>"

definition kafka_conf :: "backend_kafka \<Rightarrow> kafka_values" where
  "kafka_conf c = \<lparr>kv_Enabled = True, kv_Format = ka_Format c, kv_MessageKey = ka_MessageKey c, kv_TimestampKey = ka_TimestampKey c,
     kv_Brokers = strings_Join (ka_Brokers c) '','', kv_Topics = strings_Join (ka_Topics c) '',''\<rparr>"

definition Fluent_getHelmValues :: "deploy_env \<Rightarrow> component_settings \<Rightarrow> fluent_values validation" where
  "Fluent_getHelmValues e s =
     (case Cluster_GetImageRepository e of
        Inl err \<Rightarrow> Inr (Inl (''get cluster '' @ dp_name e @ '' repo: '' @ err))
      | Inr repo \<Rightarrow>
          (case se_FluentBit s of
             None \<Rightarrow> Inl NilDereference
           | Some None \<Rightarrow> Inl NilDereference
           | Some (Some be) \<Rightarrow>
               Inr (Inr \<lparr>fv_Image = mi (ir_Url repo) ''fluent-bit'' ''1.3.7'',
                 fv_ES = (case be_ES be of Some c \<Rightarrow> if es_Enabled c then Some (es_conf c) else None | None \<Rightarrow> None),
                 fv_Kafka = (case be_Kafka be of Some c \<Rightarrow> if ka_Enabled c then Some (kafka_conf c) else None | None \<Rightarrow> None)\<rparr>)))"

section \<open>Ceph CSI\<close>

definition MirrorImage :: "string \<Rightarrow> string \<Rightarrow> string \<Rightarrow> string \<Rightarrow> string" where
  "MirrorImage imageRepo name tag pre =
     (let tagged = name @ '':'' @ (if tag = [] then ''latest'' else tag)
      in imageRepo @ ''/'' @ (if pre \<noteq> [] then pre @ ''-'' @ tagged else tagged))"

definition newCephCSIClusterConfigBySettings :: "ceph_cluster list option \<Rightarrow> (string \<times> string list) list go" where
  "newCephCSIClusterConfigBySettings settings =
     (case settings of None \<Rightarrow> Inl NilDereference | Some cs \<Rightarrow> Inr (map (\<lambda>c. (ce_ClusterId c, ce_Monitors c)) cs))"

definition getK8sResourceManifest :: "deploy_env \<Rightarrow> component_settings \<Rightarrow> string validation" where
  "getK8sResourceManifest e s =
     (case Cluster_GetImageRepository e of
        Inl err \<Rightarrow> Inr (Inl (''get cluster '' @ dp_name e @ '' repo: '' @ err))
      | Inr r \<Rightarrow>
          gbind (newCephCSIClusterConfigBySettings (se_CephCSI s)) (\<lambda>config.
            let repo = ir_Url r;
                conf = \<lparr>cc_Namespace = se_Namespace s, cc_ConfigMapName = ''ceph-csi-config'', cc_ConfigJSON = dp_json e config,
                  cc_AttacherImage = MirrorImage repo ''csi-attacher'' ''v2.1.0'' [], cc_ProvisionerImage = MirrorImage repo ''csi-provisioner'' ''v1.4.0'' [],
                  cc_SnapshotterImage = MirrorImage repo ''csi-snapshotter'' ''v1.2.2'' [], cc_CephCSIImage = MirrorImage repo ''cephcsi'' ''v2.0-canary'' [],
                  cc_RegistrarImage = MirrorImage repo ''csi-node-driver-registrar'' ''v1.2.0'' [], cc_ResizerImage = MirrorImage repo ''csi-resizer'' ''v0.4.0'' []\<rparr>
            in Inr (case dp_yaml e conf of Inl err \<Rightarrow> Inl (''ceph csi get manifest: '' @ err) | Inr y \<Rightarrow> Inr y)))"

text \<open>A value that is computed before the work.\<close>

definition with_value :: "string \<Rightarrow> 'v validation \<Rightarrow> ('v \<Rightarrow> work) \<Rightarrow> work go" where
  "with_value msg v f = (case v of Inl p \<Rightarrow> Inl p | Inr (Inl err) \<Rightarrow> Inr ([], Some (msg @ err)) | Inr (Inr x) \<Rightarrow> Inr (f x))"

definition ApplyK8sResource :: "deploy_env \<Rightarrow> component_settings \<Rightarrow> work go" where
  "ApplyK8sResource e s =
     (let w = wwrap (''ceph csi ensure namespace '' @ se_Namespace s) (Cluster_EnsureNamespace e (se_Namespace s)) in
      case snd w of
        Some _ \<Rightarrow> Inr w
      | None \<Rightarrow> gbind (with_value [] (getK8sResourceManifest e s) (KubectlApply e)) (\<lambda>w'. Inr (wthen w w')))"

definition DeleteK8sResource :: "deploy_env \<Rightarrow> component_settings \<Rightarrow> work go" where
  "DeleteK8sResource e s = with_value [] (getK8sResourceManifest e s) (KubectlDelete e)"

section \<open>The drivers\<close>

definition Driver_DoEnable :: "deploy_env \<Rightarrow> component_kind \<Rightarrow> component_settings \<Rightarrow> work go" where
  "Driver_DoEnable e kind s =
     (case kind of
        CephCSI \<Rightarrow> ApplyK8sResource e s
      | Monitor \<Rightarrow> with_value ''get helm config values: '' (Monitor_getHelmValues e s) (\<lambda>v. CreateHelmResource e monitor_manager (MonitorValues v))
      | FluentBit \<Rightarrow> with_value ''get helm config values: '' (Fluent_getHelmValues e s) (\<lambda>v. CreateHelmResource e fluent_manager (FluentValues v)))"

definition Driver_DoDisable :: "deploy_env \<Rightarrow> component_kind \<Rightarrow> component_settings \<Rightarrow> work go" where
  "Driver_DoDisable e kind s =
     (case kind of
        CephCSI \<Rightarrow> DeleteK8sResource e s
      | Monitor \<Rightarrow> Inr (DeleteHelmResource e monitor_manager)
      | FluentBit \<Rightarrow> Inr (DeleteHelmResource e fluent_manager))"

definition Driver_DoUpdate :: "deploy_env \<Rightarrow> component_kind \<Rightarrow> component_settings \<Rightarrow> work go" where
  "Driver_DoUpdate e kind s =
     (case kind of
        CephCSI \<Rightarrow>
          gbind (DeleteK8sResource e s) (\<lambda>w.
            let w1 = wwrap ''delete ceph csi resource when update'' w in
            case snd w1 of Some _ \<Rightarrow> Inr w1 | None \<Rightarrow> gbind (ApplyK8sResource e s) (\<lambda>w2. Inr (wthen w1 w2)))
      | Monitor \<Rightarrow> with_value ''get helm config values: '' (Monitor_getHelmValues e s) (\<lambda>v. UpdateHelmResource e monitor_manager (MonitorValues v))
      | FluentBit \<Rightarrow> with_value ''get helm config values: '' (Fluent_getHelmValues e s) (\<lambda>v. UpdateHelmResource e fluent_manager (FluentValues v)))"

section \<open>Validated components are deployable\<close>

lemma size_GB_ok: "1024 \<le> st_SizeMB s \<Longrightarrow> 1 \<le> size_GB s \<and> size_GB s * 1024 \<le> st_SizeMB s \<and> st_SizeMB s < (size_GB s + 1) * 1024"
  by (simp add: size_GB_def) linarith

lemma storage_values_ok:
  assumes "storage_ok st" "\<And>s. 1024 \<le> st_SizeMB s \<Longrightarrow> new s = Inr (v s)"
  shows "storage_values msg new st = Inr (Inr (case st of Some s \<Rightarrow> if st_Enabled s then Some (v s) else None | None \<Rightarrow> None))"
  using assms by (auto simp: storage_ok_def storage_values_def)

lemma NewPrometheusStorageSpec_ok:
  "1024 \<le> st_SizeMB s \<Longrightarrow> NewPrometheusStorageSpec s = Inr \<lparr>pv_StorageClassName = (if st_ClassName s \<noteq> [] then Some (st_ClassName s) else None),
     pv_AccessModes = [''ReadWriteOnce''], pv_Requests = [(''storage'', show_int (size_GB s) @ ''Gi'')]\<rparr>"
  using size_GB_ok [of s] by (simp add: NewPrometheusStorageSpec_def GetAccessModes_def)

lemma NewPVCStorage_ok:
  "1024 \<le> st_SizeMB s \<Longrightarrow> NewPVCStorage s = Inr \<lparr>ps_Type = ''pvc'', ps_Enabled = True, ps_StorageClassName = st_ClassName s,
     ps_AccessModes = [''ReadWriteOnce''], ps_Size = show_int (size_GB s) @ ''Gi''\<rparr>"
  using size_GB_ok [of s] by (simp add: NewPVCStorage_def GetAccessModes_def)

text \<open>What a storage asks for.\<close>

definition pvc_of :: "storage option \<Rightarrow> pvc_storage option" where
  "pvc_of st = (case st of None \<Rightarrow> None | Some s \<Rightarrow>
     if st_Enabled s then Some \<lparr>ps_Type = ''pvc'', ps_Enabled = True, ps_StorageClassName = st_ClassName s, ps_AccessModes = [''ReadWriteOnce''],
       ps_Size = show_int (size_GB s) @ ''Gi''\<rparr> else None)"

lemma Monitor_getHelmValues_ok:
  assumes "settings_ok Monitor s" "Cluster_GetImageRepository e = Inr r"
  obtains m g l p t v where "se_Monitor s = Some m" "mo_Grafana m = Some g" "mo_Loki m = Some l" "mo_Prometheus m = Some p" "gr_TLS g = Some t"
    "monitor_ok m" "Monitor_getHelmValues e s = Inr (Inr v)" "gv_Storage (ms_Grafana v) = pvc_of (gr_Storage g)" "ms_LokiStorage v = pvc_of l"
    "map_option pv_Requests (ms_PrometheusStorage v) = map_option (\<lambda>x. [(''storage'', ps_Size x)]) (pvc_of p)"
    "gi_Secret (gv_Ingress (ms_Grafana v)) = t"
    "gv_RootUrl (ms_Grafana v) = ''https://'' @ (if gr_Host g = [] then gr_PublicAddress g else gr_Host g) @ ''/grafana/''"
proof -
  obtain m where m: "se_Monitor s = Some m" "monitor_ok m" using assms(1) by (auto simp: settings_ok_def)
  then obtain g l p t where g: "mo_Grafana m = Some g" "mo_Loki m = Some l" "mo_Prometheus m = Some p" "gr_TLS g = Some t"
      "storage_ok (gr_Storage g)" "storage_ok l" "storage_ok p"
    by (auto simp: monitor_ok_def)
  show ?thesis
    by (rule that [OF m(1) g(1-4) m(2)])
      (auto simp: Monitor_getHelmValues_def assms(2) m g(1-4) storage_values_ok [OF g(7) NewPrometheusStorageSpec_ok] storage_values_ok [OF g(5) NewPVCStorage_ok]
        storage_values_ok [OF g(6) NewPVCStorage_ok] Let_def monitor_conf_def pvc_of_def split: option.split)
qed

text \<open>For validated settings the values of the monitor chart have, for each storage that is enabled, a request of at least one gibibyte and of the whole
  gibibytes that the settings ask for, none for a storage that is not enabled, the certificate of the settings, and a host in the address of Grafana.\<close>

theorem monitor_values_request_storage:
  assumes "settings_ok Monitor s" "Cluster_GetImageRepository e = Inr r"
  shows "\<exists>m g l p v. se_Monitor s = Some m \<and> mo_Grafana m = Some g \<and> mo_Loki m = Some l \<and> mo_Prometheus m = Some p \<and>
    Monitor_getHelmValues e s = Inr (Inr v) \<and>
    gv_Storage (ms_Grafana v) = pvc_of (gr_Storage g) \<and> ms_LokiStorage v = pvc_of l \<and>
    map_option pv_Requests (ms_PrometheusStorage v) = map_option (\<lambda>x. [(''storage'', ps_Size x)]) (pvc_of p) \<and>
    gr_TLS g = Some (gi_Secret (gv_Ingress (ms_Grafana v))) \<and> gv_RootUrl (ms_Grafana v) \<noteq> ''https:///grafana/'' \<and>
    (\<forall>st\<in>{gr_Storage g, l, p}. \<forall>x. st = Some x \<longrightarrow> st_Enabled x \<longrightarrow>
       1 \<le> size_GB x \<and> size_GB x * 1024 \<le> st_SizeMB x \<and> st_SizeMB x < (size_GB x + 1) * 1024)"
proof -
  obtain m g l p t v where v: "se_Monitor s = Some m" "mo_Grafana m = Some g" "mo_Loki m = Some l" "mo_Prometheus m = Some p" "gr_TLS g = Some t"
    "monitor_ok m" "Monitor_getHelmValues e s = Inr (Inr v)" "gv_Storage (ms_Grafana v) = pvc_of (gr_Storage g)" "ms_LokiStorage v = pvc_of l"
    "map_option pv_Requests (ms_PrometheusStorage v) = map_option (\<lambda>x. [(''storage'', ps_Size x)]) (pvc_of p)"
    "gi_Secret (gv_Ingress (ms_Grafana v)) = t"
    "gv_RootUrl (ms_Grafana v) = ''https://'' @ (if gr_Host g = [] then gr_PublicAddress g else gr_Host g) @ ''/grafana/''"
    using Monitor_getHelmValues_ok [OF assms] by metis
  define h where "h = (if gr_Host g = [] then gr_PublicAddress g else gr_Host g)"
  have ok: "storage_ok (gr_Storage g)" "storage_ok l" "storage_ok p" "h \<noteq> []"
    using v(2-4,6) by (auto simp: monitor_ok_def h_def)
  have st: "\<forall>st\<in>{gr_Storage g, l, p}. \<forall>x. st = Some x \<longrightarrow> st_Enabled x \<longrightarrow>
      1 \<le> size_GB x \<and> size_GB x * 1024 \<le> st_SizeMB x \<and> st_SizeMB x < (size_GB x + 1) * 1024"
    using ok(1-3) size_GB_ok by (auto simp: storage_ok_def)
  have "length (gv_RootUrl (ms_Grafana v)) \<noteq> length ''https:///grafana/''" using ok(4) by (simp add: v(12) h_def [symmetric])
  then have url: "gv_RootUrl (ms_Grafana v) \<noteq> ''https:///grafana/''" by metis
  show ?thesis
    by (rule exI [of _ m], rule exI [of _ g], rule exI [of _ l], rule exI [of _ p], rule exI [of _ v]) (intro conjI v url st, simp add: v)
qed

text \<open>An environment whose calls all succeed. A namespace may exist, be missing, or appear in between.\<close>

definition all_succeed :: "deploy_env \<Rightarrow> bool" where
  "all_succeed e \<longleftrightarrow> dp_manager e = None \<and> dp_client e = None \<and> dp_kubeconfig e = None \<and> dp_kubectl e = None \<and> dp_helm e = None \<and>
     (\<forall>err. dp_repo e \<noteq> Some (Inl err)) \<and> (\<forall>ns. dp_getNS e ns \<in> {None, Some NotFound} \<and> dp_createNS e ns \<in> {None, Some AlreadyExists}) \<and>
     (\<forall>c. dp_chart e c = None) \<and> (\<forall>c. dp_call e c = None) \<and> (\<forall>c. \<exists>y. dp_yaml e c = Inr y)"

lemma GetImageRepository_succeeds: "\<forall>err. dp_repo e \<noteq> Some (Inl err) \<Longrightarrow> \<exists>r. Cluster_GetImageRepository e = Inr r"
  by (auto simp: Cluster_GetImageRepository_def split: option.splits sum.splits)

lemma EnsureNamespace_succeeds:
  assumes "all_succeed e"
  shows "Cluster_EnsureNamespace e ns = (if dp_getNS e ns = None then [] else [CreateNS ns], None)"
proof -
  have "dp_getNS e ns \<in> {None, Some NotFound}" "dp_createNS e ns \<in> {None, Some AlreadyExists}" "dp_manager e = None" "dp_client e = None"
    using assms by (simp_all add: all_succeed_def)
  then show ?thesis
    by (auto simp: Cluster_EnsureNamespace_def util_EnsureNamespace_def EnsureResourceFunc_def util_IsNamespaceExist_def)
qed

lemma getK8sResourceManifest_ok:
  assumes "settings_ok CephCSI s" "Cluster_GetImageRepository e = Inr r"
  shows "\<exists>x. getK8sResourceManifest e s = Inr x"
  using assms by (auto simp: settings_ok_def getK8sResourceManifest_def newCephCSIClusterConfigBySettings_def Let_def)

lemma with_value_total: "v = Inr x \<Longrightarrow> \<exists>w. with_value msg v f = Inr w"
  by (cases x) (auto simp: with_value_def)

lemma ApplyK8sResource_total: "getK8sResourceManifest e s = Inr x \<Longrightarrow> \<exists>w. ApplyK8sResource e s = Inr w"
  using with_value_total [of "getK8sResourceManifest e s" x "[]" "KubectlApply e"]
  by (auto simp: ApplyK8sResource_def Let_def split: option.split)

lemma Driver_total:
  assumes "settings_ok k s" "k \<noteq> FluentBit" "\<forall>err. dp_repo e \<noteq> Some (Inl err)"
  shows "(\<exists>w. Driver_DoEnable e k s = Inr w) \<and> (\<exists>w. Driver_DoUpdate e k s = Inr w) \<and> (\<exists>w. Driver_DoDisable e k s = Inr w)"
proof -
  obtain r where r: "Cluster_GetImageRepository e = Inr r" using GetImageRepository_succeeds assms(3) by blast
  show ?thesis
  proof (cases k)
    case CephCSI
    then obtain x where x: "getK8sResourceManifest e s = Inr x" using getK8sResourceManifest_ok assms(1) r by blast
    obtain w w' where w: "ApplyK8sResource e s = Inr w" "DeleteK8sResource e s = Inr w'"
      using ApplyK8sResource_total [OF x] with_value_total [OF x, of "[]" "KubectlDelete e"] unfolding DeleteK8sResource_def by metis
    then show ?thesis by (simp add: CephCSI Driver_DoEnable_def Driver_DoUpdate_def Driver_DoDisable_def Let_def split: option.split)
  next
    case Monitor
    then obtain v where v: "Monitor_getHelmValues e s = Inr (Inr v)" using Monitor_getHelmValues_ok [OF _ r] assms(1) by metis
    then show ?thesis by (simp add: Monitor Driver_DoEnable_def Driver_DoUpdate_def Driver_DoDisable_def with_value_def)
  qed (use assms(2) in simp)
qed

lemma Driver_DoEnable_succeeds:
  assumes "settings_ok k s" "k \<noteq> FluentBit" "all_succeed e"
  shows "\<exists>c. Driver_DoEnable e k s = Inr ((if dp_getNS e (case k of CephCSI \<Rightarrow> se_Namespace s | _ \<Rightarrow> ''onecloud-monitoring'') = None then []
      else [CreateNS (case k of CephCSI \<Rightarrow> se_Namespace s | _ \<Rightarrow> ''onecloud-monitoring'')]) @ [c], None) \<and>
    (case k of CephCSI \<Rightarrow> \<exists>y. getK8sResourceManifest e s = Inr (Inr y) \<and> c = Apply y
     | _ \<Rightarrow> \<exists>v. Monitor_getHelmValues e s = Inr (Inr v) \<and> c = Install ''onecloud-monitoring'' ''MONITOR_STACK_V1_TGZ'' ''monitor'' (MonitorValues v))"
proof -
  obtain r where r: "Cluster_GetImageRepository e = Inr r" using GetImageRepository_succeeds [of e] assms(3) by (auto simp: all_succeed_def)
  have ok: "dp_kubeconfig e = None" "dp_kubectl e = None" "dp_helm e = None" "dp_chart e c = None" "dp_call e d = None" "\<exists>y. dp_yaml e z = Inr y" for c d z
    using assms(3) by (simp_all add: all_succeed_def)
  show ?thesis
  proof (cases k)
    case CephCSI
    then obtain cs where cs: "se_CephCSI s = Some cs" using assms(1) by (auto simp: settings_ok_def)
    have "\<exists>y. getK8sResourceManifest e s = Inr (Inr y)"
    proof -
      have "\<exists>y. (case dp_yaml e z of Inl err \<Rightarrow> Inl (msg @ err) | Inr y \<Rightarrow> Inr y) = Inr y" for z and msg :: string
        using ok(6) [of z] by auto
      then show ?thesis by (simp add: getK8sResourceManifest_def newCephCSIClusterConfigBySettings_def r cs Let_def)
    qed
    then obtain y where "getK8sResourceManifest e s = Inr (Inr y)" by blast
    then show ?thesis
      by (simp add: CephCSI Driver_DoEnable_def ApplyK8sResource_def EnsureNamespace_succeeds [OF assms(3)] wwrap_def with_value_def KubectlApply_def
          NewKubectl_def ok(1-5) call_def wthen_def)
  next
    case Monitor
    then obtain v where v: "Monitor_getHelmValues e s = Inr (Inr v)" using Monitor_getHelmValues_ok [OF _ r] assms(1) by metis
    then show ?thesis
      by (simp add: Monitor Driver_DoEnable_def with_value_def CreateHelmResource_def EnsureNamespace_succeeds [OF assms(3)] wwrap_def wthen_def
          HelmInstall_def LoadEmbedChart_def ok(1-5) call_def monitor_manager_def)
  qed (use assms(2) in simp)
qed

lemma kind_FluentBit: "kind_of_type t = Some k \<Longrightarrow> k = FluentBit \<longleftrightarrow> t = ''fluentbit''"
  by (auto simp: kind_of_type_def split: if_splits)


text \<open>The settings of a PUT are not validated: a monitor component is given settings without a monitor part, and from then on deploying and updating it panic.\<close>

theorem put_settings_panics:
  assumes "ve_settings ve = None" "find_comp i s = Some c" "cp_Type c = ''monitor''" "se_Monitor st = None" "Cluster_GetImageRepository e = Inr r"
  shows "\<exists>s' c'. rest_update ve i None (Some st) s = (s', None) \<and> comp_step {i} s s' \<and> find_comp i s' = Some c' \<and> kind_of_type (cp_Type c') = Some Monitor \<and>
    Driver_DoEnable e Monitor (cp_Settings c') = Inl NilDereference \<and> Driver_DoUpdate e Monitor (cp_Settings c') = Inl NilDereference"
proof -
  obtain s' c' where put: "rest_update ve i None (Some st) s = (s', None)" "comp_step {i} s s'" "find_comp i s' = Some c'" "c' = c\<lparr>cp_Settings := st\<rparr>"
    using put_stores_anything [OF assms(1,2)] by blast
  have "Monitor_getHelmValues e st = Inl NilDereference" using assms(4,5) by (simp add: Monitor_getHelmValues_def)
  moreover have "kind_of_type (cp_Type c') = Some Monitor" using put(4) assms(3) by (simp add: kind_of_type_def)
  ultimately show ?thesis using put by (simp add: Driver_DoEnable_def Driver_DoUpdate_def with_value_def)
qed

text \<open>Creating a Fluent Bit component validates nothing: a request without a backend is accepted and recorded, and the deployment of the new component
  panics, whatever the state of the cluster.\<close>

theorem fluent_deploy_panics:
  assumes "GetComponentByTypeNoError cl ''fluentbit'' s = None" "cl \<noteq> []" "co_Type input = ''fluentbit''" "co_Name input \<noteq> []"
    "se_FluentBit (co_Settings input) \<in> {None, Some None}" "ve_cluster ve = None" "ve_insert ve = None" "ve_joint ve = None"
    "Cluster_GetImageRepository e = Inr r"
  shows "\<exists>s' c. EnableComponent ve cl input s = Inr (s', None) \<and> map cp_Id (comps s') = map cp_Id (comps s) @ [ve_newId ve s] \<and>
    c \<in> set (comps s') \<and> cp_Id c = ve_newId ve s \<and> cp_Type c = ''fluentbit'' \<and> Driver_DoEnable e FluentBit (cp_Settings c) = Inl NilDereference"
proof -
  define st where "st = GetCreateSettings FluentBit (co_Settings input)"
  define c where "c = \<lparr>cp_Id = ve_newId ve s, cp_Name = co_Name input, cp_Type = ''fluentbit'', cp_Enabled = False, cp_Status = ''init'', cp_Settings = st\<rparr>"
  define s1 where "s1 = s\<lparr>comps := comps s @ [c], joints := joints s @ [(cl, cp_Id c)]\<rparr>"
  define s' where "s' = fst (StartComponentDeployTask ve (cp_Id c) s1)"
  have k: "kind_of_type ''fluentbit'' = Some FluentBit" by (simp add: kind_of_type_def)
  have e: "EnableComponent ve cl input s = Inr (s', None)"
    using assms by (simp add: EnableComponent_def CreateByCluster_def db_DoCreate_def Components_ValidateCreateData_def Component_CustomizeCreate_def
        Component_GetDriver_def Component_ValidateCreateData_def Let_def k s'_def s1_def c_def st_def)
  have t: "map (\<lambda>c. (cp_Id c, cp_Type c, cp_Settings c)) (comps s') = map (\<lambda>c. (cp_Id c, cp_Type c, cp_Settings c)) (comps s @ [c])"
    using Start_same_tables(1) [of s1 ve "cp_Id c"] by (simp add: same_tables_def s'_def s1_def)
  then have "(cp_Id c, cp_Type c, cp_Settings c) \<in> (\<lambda>c. (cp_Id c, cp_Type c, cp_Settings c)) ` set (comps s')"
    by (metis (no_types, lifting) image_eqI in_set_conv_decomp list.set_map)
  then obtain c' where "c' \<in> set (comps s')" "cp_Id c' = cp_Id c" "cp_Type c' = cp_Type c" "cp_Settings c' = cp_Settings c" by auto
  moreover have "map cp_Id (comps s') = map cp_Id (comps s @ [c])" using arg_cong [OF t, of "map fst"] by (simp add: comp_def)
  moreover have "Driver_DoEnable e FluentBit st = Inl NilDereference"
    using assms(5,9) by (auto simp: Driver_DoEnable_def Fluent_getHelmValues_def with_value_def st_def GetCreateSettings_def)
  ultimately show ?thesis using e by (auto simp: c_def)
qed

section \<open>A deployment\<close>

definition sample_deploy_env :: deploy_env where
  "sample_deploy_env = \<lparr>dp_name = ''prod'', dp_repo = None, dp_manager = None, dp_client = None, dp_getNS = (\<lambda>_. Some NotFound), dp_createNS = (\<lambda>_. None),
     dp_error = (\<lambda>_. ''error''), dp_kubeconfig = None, dp_kubectl = None, dp_helm = None, dp_chart = (\<lambda>_. None), dp_call = (\<lambda>_. None),
     dp_json = (\<lambda>_. ''[]''), dp_yaml = (\<lambda>c. Inr (cc_Namespace c))\<rparr>"

lemma sample_deploy_succeeds: "all_succeed sample_deploy_env"
  by (simp add: all_succeed_def sample_deploy_env_def)

theorem monitor_values_request_storage_witness:
  "\<exists>m g l p v. se_Monitor sample_validated_monitor = Some m \<and> mo_Grafana m = Some g \<and> mo_Loki m = Some l \<and> mo_Prometheus m = Some p \<and>
     Monitor_getHelmValues sample_deploy_env sample_validated_monitor = Inr (Inr v) \<and> gv_Storage (ms_Grafana v) = pvc_of (gr_Storage g) \<and>
     ms_LokiStorage v = pvc_of l"
proof -
  have "Component_ValidateCreateData sample_setting_env Monitor sample_monitor = Inr (Inr sample_validated_monitor)" by code_simp
  from monitor_values_request_storage [OF Component_ValidateCreateData_ok [OF this], of sample_deploy_env "Manager_GetImageRepository None"]
  show ?thesis by (auto simp: Cluster_GetImageRepository_def sample_deploy_env_def)
qed


theorem fluent_deploy_panics_witness:
  "\<exists>s' c. EnableComponent sample_component_env ''prod'' (sample_component_input\<lparr>co_Name := ''logs'', co_Type := ''fluentbit''\<rparr>) with_monitor = Inr (s', None) \<and>
     c \<in> set (comps s') \<and> Driver_DoEnable sample_deploy_env FluentBit (cp_Settings c) = Inl NilDereference"
proof -
  have "GetComponentByTypeNoError ''prod'' ''fluentbit'' with_monitor = None" by code_simp
  from fluent_deploy_panics [OF this, of "sample_component_input\<lparr>co_Name := ''logs'', co_Type := ''fluentbit''\<rparr>" sample_component_env sample_deploy_env
      "Manager_GetImageRepository None"]
  show ?thesis
    by (auto simp: sample_component_input_def sample_monitor_def sample_component_env_def Cluster_GetImageRepository_def sample_deploy_env_def)
qed

end
