(* ===== verification/Workloads.thy ===== *)
theory Workloads
  imports Prelude "HOL-Library.AList"
begin

text \<open>
  Workloads: deployments, stateful sets, daemon sets and jobs. What is sent to a cluster for a new or an updated workload: deployment.go, statefulsets.go, daemonsets.go,
  jobs.go and cronjobs.go of src/pkg/models with the conversions of src/pkg/api and the shared functions of helper.go (services, pod templates, replica sets,
  pod infos). Objects have the fields that the code reads or writes and one field for the rest. A Go map is an association list with
  distinct keys, absent when nil; a map that two objects share is written out. Shown: selector, labels and service of a new workload fit; what an update of a
  template changes; how the new replica set of a deployment is found and the old ones are told apart.
\<close>

section \<open>Objects\<close>

type_synonym labels = "(string \<times> string) list"

record object_meta =
  om_Name :: string
  om_Namespace :: string
  om_UID :: string
  om_Labels :: "labels option"
  om_Annotations :: "labels option"
  om_Controller :: "string option"

definition the_labels :: "labels option \<Rightarrow> labels" where
  "the_labels l = (case l of None \<Rightarrow> [] | Some ls \<Rightarrow> ls)"

text \<open>\<open>m[k] = v\<close> on a map.\<close>

definition map_put :: "string \<Rightarrow> string \<Rightarrow> labels \<Rightarrow> labels" where
  "map_put k v ls = AList.update k v ls"

text \<open>\<open>m[k]\<close> is the empty string for an absent key.\<close>

definition map_get :: "labels \<Rightarrow> string \<Rightarrow> string" where
  "map_get ls k = (case map_of ls k of None \<Rightarrow> [] | Some v \<Rightarrow> v)"

record container =
  ct_Name :: string
  ct_Image :: string
  ct_Rest :: string

record pod_volume =
  vl_Name :: string
  vl_Claim :: "string option"
  vl_ConfigMap :: "string option"
  vl_Secret :: "string option"

record pod_spec =
  sp_InitContainers :: "container list"
  sp_Containers :: "container list"
  sp_RestartPolicy :: string
  sp_DNSPolicy :: string
  sp_Volumes :: "pod_volume list"
  sp_Rest :: string

record pod_template =
  te_Meta :: object_meta
  te_Spec :: pod_spec

record claim_template =
  cl_Name :: string
  cl_Namespace :: string
  cl_AccessModes :: "string list"

text \<open>The specification of a deployment, stateful set or daemon set; service name and claims are those of stateful sets.\<close>

record workload_spec =
  ws_Replicas :: "int option"
  ws_Selector :: "labels option"
  ws_Template :: pod_template
  ws_ServiceName :: string
  ws_Claims :: "claim_template list"

record workload =
  wl_Meta :: object_meta
  wl_Spec :: workload_spec

section \<open>Labels and selectors\<close>

text \<open>The label is written into the map of the object; writing into a nil map panics.\<close>

definition AddObjectMetaRunLabel :: "object_meta \<Rightarrow> object_meta go" where
  "AddObjectMetaRunLabel meta =
     (case om_Labels meta of
        None \<Rightarrow> Inl NilMapAssignment
      | Some ls \<Rightarrow> Inr (if length ls = 0 then meta\<lparr>om_Labels := Some (map_put ''run'' (om_Name meta) ls)\<rparr> else meta))"

definition AddObjectMetaDefaultLabel :: "object_meta \<Rightarrow> object_meta go" where
  "AddObjectMetaDefaultLabel meta = AddObjectMetaRunLabel meta"

definition GetSelectorByObjectMeta :: "object_meta \<Rightarrow> labels option" where
  "GetSelectorByObjectMeta meta = om_Labels meta"

section \<open>Services\<close>

record port_mapping =
  pm_Port :: int
  pm_TargetPort :: int
  pm_Protocol :: string

record service_port =
  po_Protocol :: string
  po_Port :: int
  po_Name :: string
  po_TargetPort :: int

record service_option =
  so_Type :: string
  so_IsExternal :: bool
  so_PortMappings :: "port_mapping list"
  so_Selector :: "labels option"
  so_LoadBalancerCluster :: string
  so_LoadBalancerNetwork :: string

record service =
  sc_Meta :: object_meta
  sc_Selector :: "labels option"
  sc_Type :: string
  sc_Ports :: "service_port list"

text \<open>\<open>rand.String\<close> is a parameter.\<close>

definition GenerateName :: "(nat \<Rightarrow> string) \<Rightarrow> string \<Rightarrow> string" where
  "GenerateName rand base = (if length base > 63 - 5 then take (63 - 5) base else base) @ rand 5"

definition ascii_lower :: "string \<Rightarrow> string" where
  "ascii_lower s = map (\<lambda>c. if CHR ''A'' \<le> c \<and> c \<le> CHR ''Z'' then char_of (of_char c + 32 :: nat) else c) s"

definition GeneratePortMappingName :: "(nat \<Rightarrow> string) \<Rightarrow> port_mapping \<Rightarrow> string" where
  "GeneratePortMappingName rand p =
     GenerateName rand (ascii_lower (pm_Protocol p) @ ''-'' @ show_int (pm_Port p) @ ''-'' @ show_int (pm_TargetPort p) @ ''-'')"

definition ToServicePort :: "(nat \<Rightarrow> string) \<Rightarrow> port_mapping \<Rightarrow> service_port" where
  "ToServicePort rand p = \<lparr>po_Protocol = pm_Protocol p, po_Port = pm_Port p, po_Name = GeneratePortMappingName rand p, po_TargetPort = pm_TargetPort p\<rparr>"

definition GetServicePortsByMapping :: "(nat \<Rightarrow> string) \<Rightarrow> port_mapping list \<Rightarrow> service_port list" where
  "GetServicePortsByMapping rand ps = map (ToServicePort rand) ps"

definition put_if :: "string \<Rightarrow> string \<Rightarrow> labels \<Rightarrow> labels" where
  "put_if k v ls = (if v \<noteq> [] then map_put k v ls else ls)"

text \<open>The annotations of the service are the map of the object it is made for, if that has one.\<close>

definition service_annotations :: "service_option \<Rightarrow> object_meta \<Rightarrow> labels" where
  "service_annotations opt meta =
     put_if ''loadbalancer.yunion.io/cluster'' (so_LoadBalancerCluster opt)
       (put_if ''loadbalancer.yunion.io/network'' (so_LoadBalancerNetwork opt) (the_labels (om_Annotations meta)))"

definition GetServiceFromOption :: "(nat \<Rightarrow> string) \<Rightarrow> object_meta \<Rightarrow> service_option option \<Rightarrow> service option" where
  "GetServiceFromOption rand meta opt =
     map_option (\<lambda>o1. \<lparr>sc_Meta = meta\<lparr>om_Annotations := Some (service_annotations o1 meta)\<rparr>,
        sc_Selector = (if length (the_labels (so_Selector o1)) = 0 then GetSelectorByObjectMeta meta else so_Selector o1),
        sc_Type = (if so_IsExternal o1 then ''LoadBalancer'' else if so_Type o1 = [] then ''ClusterIP'' else so_Type o1),
        sc_Ports = GetServicePortsByMapping rand (so_PortMappings o1)\<rparr>) opt"

definition annotations_shared :: "service_option option \<Rightarrow> object_meta \<Rightarrow> object_meta" where
  "annotations_shared opt meta =
     (case opt of None \<Rightarrow> meta | Some o1 \<Rightarrow> meta\<lparr>om_Annotations := map_option (\<lambda>_. service_annotations o1 meta) (om_Annotations meta)\<rparr>)"

record workload_input =
  wi_Name :: string
  wi_NamespaceId :: string
  wi_Namespace :: string
  wi_Labels :: "labels option"
  wi_Annotations :: "labels option"
  wi_Spec :: workload_spec
  wi_Service :: "service_option option"

text \<open>What the environment answers: the check of the cluster, the row and the remote object of a namespace, the namespace of the record, the names of claims, the checks of the Kubernetes library, the services of the
  cluster and the error of creating one, and the record with the name of a service.\<close>

record workload_env =
  we_rand :: "nat \<Rightarrow> string"
  we_clusterBase :: "string option"
  we_nsRow :: "string \<Rightarrow> string + (string \<times> string)"
  we_nsRemote :: "string \<Rightarrow> string option"
  we_namespace :: "string + string"
  we_claim :: "string \<Rightarrow> string + string"
  we_valid :: "workload \<Rightarrow> string option"
  we_validService :: "service \<Rightarrow> string option"
  we_serviceRow :: "string \<Rightarrow> string + bool"
  we_getService :: "string \<Rightarrow> string \<Rightarrow> (string + bool)"
  we_createService :: "service \<Rightarrow> string option"

text \<open>The row of a service with the name: an error other than that there is none is returned. Without an option there is no service to check.\<close>

definition ValidateAppCreateService :: "workload_env \<Rightarrow> service_option option \<Rightarrow> object_meta \<Rightarrow> string option" where
  "ValidateAppCreateService e opt meta =
     (case GetServiceFromOption (we_rand e) meta opt of
        None \<Rightarrow> None
      | Some svc \<Rightarrow>
          (case we_serviceRow e (om_Name (sc_Meta svc)) of
             Inl err \<Rightarrow> Some err
           | Inr True \<Rightarrow> Some (''duplicate name '' @ om_Name (sc_Meta svc))
           | Inr False \<Rightarrow> errors_Wrap ''validate service'' (we_validService e svc)))"

text \<open>The services that are created by the call, with its error.\<close>

definition CreateServiceByOption :: "workload_env \<Rightarrow> object_meta \<Rightarrow> service_option option \<Rightarrow> service list \<times> string option" where
  "CreateServiceByOption e meta opt =
     (case GetServiceFromOption (we_rand e) meta opt of
        None \<Rightarrow> ([], None)
      | Some svc \<Rightarrow> (case we_createService e svc of Some err \<Rightarrow> ([], Some err) | None \<Rightarrow> ([svc], None)))"

definition CreateServiceIfNotExist :: "workload_env \<Rightarrow> object_meta \<Rightarrow> service_option option \<Rightarrow> service list \<times> string option" where
  "CreateServiceIfNotExist e meta opt =
     (case we_getService e (om_Namespace meta) (om_Name meta) of
        Inl err \<Rightarrow> ([], Some err)
      | Inr True \<Rightarrow> ([], None)
      | Inr False \<Rightarrow> CreateServiceByOption e meta opt)"

section \<open>Pod templates\<close>

fun claims_loop :: "(string \<Rightarrow> string + string) \<Rightarrow> pod_volume list \<Rightarrow> string + pod_volume list" where
  "claims_loop get [] = Inr []"
| "claims_loop get (v # vs) =
     (case vl_Claim v of
        None \<Rightarrow> map_sum id ((#) v) (claims_loop get vs)
      | Some c \<Rightarrow>
          (case get c of
             Inl err \<Rightarrow> Inl (''validate pvc: get pvc by claimName '' @ c @ '': '' @ err)
           | Inr name \<Rightarrow> map_sum id ((#) (v\<lparr>vl_Claim := Some name\<rparr>)) (claims_loop get vs)))"

definition ValidatePodTemplate :: "workload_env \<Rightarrow> pod_template \<Rightarrow> string + pod_template" where
  "ValidatePodTemplate e t =
     map_sum id (\<lambda>vs. t\<lparr>te_Spec := te_Spec t\<lparr>sp_Volumes := vs\<rparr>\<rparr>) (claims_loop (we_claim e) (sp_Volumes (te_Spec t)))"

record template_update =
  tu_InitContainers :: "(string \<times> string) list"
  tu_Containers :: "(string \<times> string) list"
  tu_RestartPolicy :: string
  tu_DNSPolicy :: string

text \<open>The image of the first entry with the name of the container. Without entries nothing changes.\<close>

definition update_container :: "(string \<times> string) list \<Rightarrow> container \<Rightarrow> string + container" where
  "update_container cs c =
     (if cs = [] then Inr c
      else case map_of cs (ct_Name c) of
             Some im \<Rightarrow> Inr (c\<lparr>ct_Image := im\<rparr>)
           | None \<Rightarrow> Inl (''Not found container '' @ ct_Name c @ '' in input''))"

text \<open>The loop over the init containers updates the loop variable only.\<close>

fun init_loop :: "(string \<times> string) list \<Rightarrow> container list \<Rightarrow> string option" where
  "init_loop cs [] = None"
| "init_loop cs (c # rest) = (case update_container cs c of Inl err \<Rightarrow> Some err | Inr _ \<Rightarrow> init_loop cs rest)"

fun containers_loop :: "(string \<times> string) list \<Rightarrow> container list \<Rightarrow> container list \<times> string option" where
  "containers_loop cs [] = ([], None)"
| "containers_loop cs (c # rest) =
     (case update_container cs c of
        Inl err \<Rightarrow> (c # rest, Some err)
      | Inr c' \<Rightarrow> (let (rest', r) = containers_loop cs rest in (c' # rest', r)))"

definition UpdatePodTemplate :: "pod_template \<Rightarrow> template_update \<Rightarrow> pod_template \<times> string option" where
  "UpdatePodTemplate temp input =
     (let sp1 = (if tu_RestartPolicy input \<noteq> [] then te_Spec temp\<lparr>sp_RestartPolicy := tu_RestartPolicy input\<rparr> else te_Spec temp);
          sp2 = (if tu_DNSPolicy input \<noteq> [] then sp1\<lparr>sp_DNSPolicy := tu_DNSPolicy input\<rparr> else sp1)
      in case init_loop (tu_InitContainers input) (sp_InitContainers sp2) of
           Some err \<Rightarrow> (temp\<lparr>te_Spec := sp2\<rparr>, Some err)
         | None \<Rightarrow>
             (let (cs, r) = containers_loop (tu_Containers input) (sp_Containers sp2)
              in (temp\<lparr>te_Spec := sp2\<lparr>sp_Containers := cs\<rparr>\<rparr>, r)))"

section \<open>New workloads\<close>

text \<open>When the remote namespace cannot be had its nil object is asserted for the message.\<close>

definition Namespace_ValidateCreateData :: "workload_env \<Rightarrow> workload_input \<Rightarrow> workload_input validation" where
  "Namespace_ValidateCreateData e input =
     (case we_clusterBase e of
        Some err \<Rightarrow> Inr (Inl err)
      | None \<Rightarrow>
          if wi_NamespaceId input = [] then Inr (Inl ''namespace is empty'')
          else case we_nsRow e (wi_NamespaceId input) of
                 Inl err \<Rightarrow> Inr (Inl err)
               | Inr (i, name) \<Rightarrow>
                   (case we_nsRemote e name of
                      Some err \<Rightarrow> Inl TypeAssertionPanic
                    | None \<Rightarrow> Inr (Inr (input\<lparr>wi_NamespaceId := i, wi_Namespace := name\<rparr>))))"

definition ToObjectMeta :: "workload_input \<Rightarrow> string \<Rightarrow> object_meta" where
  "ToObjectMeta input ns = \<lparr>om_Name = wi_Name input, om_Namespace = ns, om_UID = [], om_Labels = wi_Labels input, om_Annotations = wi_Annotations input,
     om_Controller = None\<rparr>"

text \<open>The object and the input after the call. The map of labels is that of the input, so its new label stays there; the receiver of a deployment is
  a pointer, so its selector and template stay as well, those of the others are copies.\<close>

definition ToDeployment :: "string \<Rightarrow> workload_input \<Rightarrow> (workload_input \<times> workload) go" where
  "ToDeployment ns input =
     gbind (AddObjectMetaDefaultLabel (ToObjectMeta input ns)) (\<lambda>meta.
       let sp = wi_Spec input;
           sp' = sp\<lparr>ws_Selector := GetSelectorByObjectMeta meta, ws_Template := ws_Template sp\<lparr>te_Meta := meta\<rparr>\<rparr>
       in Inr (input\<lparr>wi_Labels := om_Labels meta, wi_Spec := sp'\<rparr>, \<lparr>wl_Meta = meta, wl_Spec = sp'\<rparr>))"

definition ToStatefulset :: "string \<Rightarrow> workload_input \<Rightarrow> (workload_input \<times> workload) go" where
  "ToStatefulset ns input =
     gbind (AddObjectMetaDefaultLabel (ToObjectMeta input ns)) (\<lambda>meta.
       let sp = wi_Spec input;
           sp' = sp\<lparr>ws_Selector := GetSelectorByObjectMeta meta, ws_Template := ws_Template sp\<lparr>te_Meta := meta\<rparr>, ws_ServiceName := om_Name meta\<rparr>
       in Inr (input\<lparr>wi_Labels := om_Labels meta\<rparr>, \<lparr>wl_Meta = meta, wl_Spec = sp'\<rparr>))"

definition ToDaemonset :: "string \<Rightarrow> workload_input \<Rightarrow> (workload_input \<times> workload) go" where
  "ToDaemonset ns input =
     gbind (AddObjectMetaDefaultLabel (ToObjectMeta input ns)) (\<lambda>meta.
       let sp = wi_Spec input;
           sp' = sp\<lparr>ws_Selector := GetSelectorByObjectMeta meta, ws_Template := ws_Template sp\<lparr>te_Meta := meta\<rparr>\<rparr>
       in Inr (input\<lparr>wi_Labels := om_Labels meta\<rparr>, \<lparr>wl_Meta = meta, wl_Spec = sp'\<rparr>))"

datatype workload_kind = Deployment | StatefulSet | DaemonSet

definition to_object :: "workload_kind \<Rightarrow> string \<Rightarrow> workload_input \<Rightarrow> (workload_input \<times> workload) go" where
  "to_object kind = (case kind of Deployment \<Rightarrow> ToDeployment | StatefulSet \<Rightarrow> ToStatefulset | DaemonSet \<Rightarrow> ToDaemonset)"

text \<open>The names of claims are resolved in the template of the input; the object has the same volumes.\<close>

definition check_object :: "workload_env \<Rightarrow> workload_input \<Rightarrow> workload \<Rightarrow> string + workload_input" where
  "check_object e input obj =
     (case ValidatePodTemplate e (ws_Template (wi_Spec input)) of
        Inl err \<Rightarrow> Inl (''validate pod template: '' @ err)
      | Inr t \<Rightarrow>
          let tobj = ws_Template (wl_Spec obj);
              obj' = obj\<lparr>wl_Spec := wl_Spec obj\<lparr>ws_Template := tobj\<lparr>te_Spec := te_Spec tobj\<lparr>sp_Volumes := sp_Volumes (te_Spec t)\<rparr>\<rparr>\<rparr>\<rparr>
          in case we_valid e obj' of
               Some err \<Rightarrow> Inl err
             | None \<Rightarrow>
                 (case ValidateAppCreateService e (wi_Service input) (wl_Meta obj) of
                    Some err \<Rightarrow> Inl (''validate service create data: '' @ err)
                  | None \<Rightarrow>
                      Inr (input\<lparr>wi_Annotations := om_Annotations (annotations_shared (wi_Service input) (wl_Meta obj)),
                                 wi_Spec := wi_Spec input\<lparr>ws_Template := t\<rparr>\<rparr>)))"

definition Workload_ValidateCreateData :: "workload_env \<Rightarrow> workload_kind \<Rightarrow> workload_input \<Rightarrow> workload_input validation" where
  "Workload_ValidateCreateData e kind input =
     vbind (Namespace_ValidateCreateData e input) (\<lambda>input1.
     gbind (to_object kind (wi_Namespace input1) input1) (\<lambda>(input2, obj). Inr (check_object e input2 obj)))"

definition default_modes :: "string \<Rightarrow> claim_template \<Rightarrow> claim_template" where
  "default_modes ns c = c\<lparr>cl_Namespace := ns, cl_AccessModes := (if cl_AccessModes c = [] then [''ReadWriteOnce''] else cl_AccessModes c)\<rparr>"

text \<open>The object for the cluster with the services that were created before. It shares the annotations with the service, if one was made.\<close>

definition created_meta :: "workload_env \<Rightarrow> service_option option \<Rightarrow> object_meta \<Rightarrow> object_meta" where
  "created_meta e opt meta = (if we_getService e (om_Namespace meta) (om_Name meta) = Inr False then annotations_shared opt meta else meta)"

definition Deployment_NewRemoteObjectForCreate :: "workload_env \<Rightarrow> workload_input \<Rightarrow> (service list \<times> (string + workload)) go" where
  "Deployment_NewRemoteObjectForCreate e input =
     Inr (case we_namespace e of
            Inl err \<Rightarrow> ([], Inl (''get namespace name: '' @ err))
          | Inr ns \<Rightarrow>
              let meta = ToObjectMeta input ns; meta' = created_meta e (wi_Service input) meta
              in (case CreateServiceIfNotExist e meta (wi_Service input) of
                    (svcs, Some err) \<Rightarrow> (svcs, Inl (''create service if not exists: '' @ err))
                  | (svcs, None) \<Rightarrow>
                      (svcs, Inr \<lparr>wl_Meta = meta', wl_Spec = wi_Spec input\<lparr>ws_Template := ws_Template (wi_Spec input)\<lparr>te_Meta := meta'\<rparr>\<rparr>\<rparr>)))"

definition Statefulset_NewRemoteObjectForCreate :: "workload_env \<Rightarrow> workload_input \<Rightarrow> (service list \<times> (string + workload)) go" where
  "Statefulset_NewRemoteObjectForCreate e input =
     (case we_namespace e of
        Inl err \<Rightarrow> Inr ([], Inl (''get namespace name: '' @ err))
      | Inr ns \<Rightarrow>
          gbind (AddObjectMetaDefaultLabel (ToObjectMeta input ns)) (\<lambda>meta.
            let meta' = created_meta e (wi_Service input) meta in
            Inr (case CreateServiceIfNotExist e meta (wi_Service input) of
                   (svcs, Some err) \<Rightarrow> (svcs, Inl err)
                 | (svcs, None) \<Rightarrow>
                     (svcs, Inr \<lparr>wl_Meta = meta', wl_Spec = wi_Spec input\<lparr>ws_Selector := GetSelectorByObjectMeta meta,
                        ws_Template := ws_Template (wi_Spec input)\<lparr>te_Meta := meta'\<rparr>, ws_ServiceName := om_Name meta,
                        ws_Claims := map (default_modes (om_Namespace meta)) (ws_Claims (wi_Spec input))\<rparr>\<rparr>))))"

definition Daemonset_NewRemoteObjectForCreate :: "workload_env \<Rightarrow> workload_input \<Rightarrow> (service list \<times> (string + workload)) go" where
  "Daemonset_NewRemoteObjectForCreate e input =
     (case we_namespace e of
        Inl err \<Rightarrow> Inr ([], Inl (''get namespace name: '' @ err))
      | Inr ns \<Rightarrow>
          gbind (AddObjectMetaDefaultLabel (ToObjectMeta input ns)) (\<lambda>meta.
            let meta' = created_meta e (wi_Service input) meta in
            Inr (case CreateServiceIfNotExist e meta (wi_Service input) of
                   (svcs, Some err) \<Rightarrow> (svcs, Inl err)
                 | (svcs, None) \<Rightarrow>
                     (svcs, Inr \<lparr>wl_Meta = meta', wl_Spec = wi_Spec input\<lparr>ws_Selector := GetSelectorByObjectMeta meta,
                        ws_Template := ws_Template (wi_Spec input)\<lparr>te_Meta := meta'\<rparr>\<rparr>\<rparr>))))"

definition new_remote :: "workload_kind \<Rightarrow> workload_env \<Rightarrow> workload_input \<Rightarrow> (service list \<times> (string + workload)) go" where
  "new_remote kind = (case kind of Deployment \<Rightarrow> Deployment_NewRemoteObjectForCreate | StatefulSet \<Rightarrow> Statefulset_NewRemoteObjectForCreate
     | DaemonSet \<Rightarrow> Daemonset_NewRemoteObjectForCreate)"

section \<open>Updates\<close>

record workload_update =
  wu_Replicas :: "int option"
  wu_Template :: template_update

definition update_template :: "workload \<Rightarrow> template_update \<Rightarrow> string + workload" where
  "update_template w u =
     (case UpdatePodTemplate (ws_Template (wl_Spec w)) u of
        (_, Some err) \<Rightarrow> Inl err
      | (t, None) \<Rightarrow> Inr (w\<lparr>wl_Spec := wl_Spec w\<lparr>ws_Template := t\<rparr>\<rparr>))"

definition Deployment_NewRemoteObjectForUpdate :: "workload \<Rightarrow> workload_update \<Rightarrow> string + workload" where
  "Deployment_NewRemoteObjectForUpdate w u =
     update_template (case wu_Replicas u of Some n \<Rightarrow> w\<lparr>wl_Spec := wl_Spec w\<lparr>ws_Replicas := Some n\<rparr>\<rparr> | None \<Rightarrow> w) (wu_Template u)"

text \<open>The number of replicas in the input of a stateful set is not read.\<close>

definition Statefulset_NewRemoteObjectForUpdate :: "workload \<Rightarrow> workload_update \<Rightarrow> string + workload" where
  "Statefulset_NewRemoteObjectForUpdate w u = update_template w (wu_Template u)"

definition Daemonset_NewRemoteObjectForUpdate :: "workload \<Rightarrow> workload_update \<Rightarrow> string + workload" where
  "Daemonset_NewRemoteObjectForUpdate w u = update_template w (wu_Template u)"

section \<open>A new workload fits together\<close>

lemma annotations_shared_simps [simp]:
  "om_Name (annotations_shared opt m) = om_Name m" "om_Namespace (annotations_shared opt m) = om_Namespace m"
  "om_Labels (annotations_shared opt m) = om_Labels m"
  by (simp_all add: annotations_shared_def split: option.split)

lemma created_meta_simps [simp]:
  "om_Name (created_meta e opt m) = om_Name m" "om_Namespace (created_meta e opt m) = om_Namespace m" "om_Labels (created_meta e opt m) = om_Labels m"
  by (simp_all add: created_meta_def)

lemma ToObjectMeta_simps [simp]:
  "om_Name (ToObjectMeta i ns) = wi_Name i" "om_Namespace (ToObjectMeta i ns) = ns" "om_Labels (ToObjectMeta i ns) = wi_Labels i"
  by (simp_all add: ToObjectMeta_def)

text \<open>The labels with the default.\<close>

definition labels_or_run :: "string \<Rightarrow> labels \<Rightarrow> labels" where
  "labels_or_run name ls = (if ls = [] then [(''run'', name)] else ls)"

lemma labels_or_run_twice [simp]: "labels_or_run n (labels_or_run n ls) = labels_or_run n ls" "labels_or_run n ls \<noteq> []"
  by (simp_all add: labels_or_run_def)

lemma AddObjectMetaDefaultLabel_Inr:
  "AddObjectMetaDefaultLabel m = Inr m' \<longleftrightarrow> (\<exists>ls. om_Labels m = Some ls \<and> m' = m\<lparr>om_Labels := Some (labels_or_run (om_Name m) ls)\<rparr>)"
  by (cases m; cases "om_Labels m") (auto simp: AddObjectMetaDefaultLabel_def AddObjectMetaRunLabel_def map_put_def labels_or_run_def)

lemma to_object_Inr:
  assumes "to_object kind ns input = Inr (input', w)"
  shows "\<exists>ls. wi_Labels input = Some ls \<and> wi_Labels input' = Some (labels_or_run (wi_Name input) ls) \<and> wi_Name input' = wi_Name input \<and>
    wi_Service input' = wi_Service input \<and> (kind = Deployment \<longrightarrow> ws_Selector (wi_Spec input') = wi_Labels input')"
proof -
  obtain meta where m: "AddObjectMetaDefaultLabel (ToObjectMeta input ns) = Inr meta"
    using assms by (cases "AddObjectMetaDefaultLabel (ToObjectMeta input ns)"; cases kind)
      (simp_all add: to_object_def ToDeployment_def ToStatefulset_def ToDaemonset_def)
  have "wi_Labels input' = om_Labels meta \<and> wi_Name input' = wi_Name input \<and> wi_Service input' = wi_Service input \<and>
      (kind = Deployment \<longrightarrow> ws_Selector (wi_Spec input') = om_Labels meta)"
    using assms by (cases kind) (auto simp: m to_object_def ToDeployment_def ToStatefulset_def ToDaemonset_def Let_def GetSelectorByObjectMeta_def)
  then show ?thesis using m by (auto simp: AddObjectMetaDefaultLabel_Inr)
qed

lemma check_object_Inr:
  assumes "check_object e input obj = Inr input'"
  shows "wi_Labels input' = wi_Labels input \<and> wi_Name input' = wi_Name input \<and> wi_Service input' = wi_Service input \<and>
    ws_Selector (wi_Spec input') = ws_Selector (wi_Spec input)"
proof -
  obtain t where t: "ValidatePodTemplate e (ws_Template (wi_Spec input)) = Inr t"
    using assms by (cases "ValidatePodTemplate e (ws_Template (wi_Spec input))") (auto simp: check_object_def)
  then have "input' = input\<lparr>wi_Annotations := om_Annotations (annotations_shared (wi_Service input) (wl_Meta obj)), wi_Spec := wi_Spec input\<lparr>ws_Template := t\<rparr>\<rparr>"
    using assms by (simp add: check_object_def Let_def split: option.splits)
  then show ?thesis by simp
qed

lemma Workload_ValidateCreateData_Inr:
  assumes "Workload_ValidateCreateData e kind input = Inr (Inr input')"
  shows "\<exists>ls. wi_Labels input = Some ls \<and> wi_Labels input' = Some (labels_or_run (wi_Name input) ls) \<and> wi_Name input' = wi_Name input \<and>
    wi_Service input' = wi_Service input \<and> (kind = Deployment \<longrightarrow> ws_Selector (wi_Spec input') = wi_Labels input')"
proof -
  obtain input1 input2 obj where n: "Namespace_ValidateCreateData e input = Inr (Inr input1)" and o: "to_object kind (wi_Namespace input1) input1 = Inr (input2, obj)"
    and i: "check_object e input2 obj = Inr input'"
    using assms by (auto simp: Workload_ValidateCreateData_def vbind_Inr_Inr gbind_Inr_iff)
  have "wi_Labels input1 = wi_Labels input" "wi_Name input1 = wi_Name input" "wi_Service input1 = wi_Service input"
    using n by (auto simp: Namespace_ValidateCreateData_def split: option.splits if_splits sum.splits)
  with to_object_Inr [OF o] check_object_Inr [OF i] show ?thesis by auto
qed

lemma CreateServiceIfNotExist_services:
  assumes "CreateServiceIfNotExist e meta opt = (svcs, r)" "svc \<in> set svcs"
  shows "\<exists>o1. opt = Some o1 \<and> svcs = [svc] \<and> om_Name (sc_Meta svc) = om_Name meta \<and> om_Namespace (sc_Meta svc) = om_Namespace meta \<and>
    (the_labels (so_Selector o1) = [] \<longrightarrow> sc_Selector svc = om_Labels meta)"
  using assms
  by (auto simp: CreateServiceIfNotExist_def CreateServiceByOption_def GetServiceFromOption_def GetSelectorByObjectMeta_def
      split: sum.splits bool.splits option.splits)

text \<open>C26: A workload that passed validation and is sent to the cluster fits together: it has labels, those of the request or the label with its name; its selector and
  the labels of its pods are the same labels; a stateful set is governed by the service of its name. A service that is created before has the name and
  namespace of the workload and, unless the request names a selector, selects its pods.\<close>

theorem created_workload_fits:
  assumes "Workload_ValidateCreateData e kind input = Inr (Inr input')" "new_remote kind e input' = Inr (svcs, Inr w)"
  shows "\<exists>ls given. wi_Labels input = Some given \<and> ls = (if given = [] then [(''run'', wi_Name input)] else given) \<and>
    om_Name (wl_Meta w) = wi_Name input \<and> om_Labels (wl_Meta w) = Some ls \<and> ws_Selector (wl_Spec w) = Some ls \<and>
    te_Meta (ws_Template (wl_Spec w)) = wl_Meta w \<and> (kind = StatefulSet \<longrightarrow> ws_ServiceName (wl_Spec w) = wi_Name input) \<and>
    length svcs \<le> 1 \<and>
    (\<forall>svc\<in>set svcs. om_Name (sc_Meta svc) = wi_Name input \<and> om_Namespace (sc_Meta svc) = om_Namespace (wl_Meta w) \<and>
       (\<forall>opt. wi_Service input = Some opt \<longrightarrow> the_labels (so_Selector opt) = [] \<longrightarrow> sc_Selector svc = Some ls))"
proof -
  obtain given where g: "wi_Labels input = Some given" "wi_Labels input' = Some (labels_or_run (wi_Name input) given)" "wi_Name input' = wi_Name input"
      "wi_Service input' = wi_Service input" "kind = Deployment \<longrightarrow> ws_Selector (wi_Spec input') = wi_Labels input'"
    using Workload_ValidateCreateData_Inr [OF assms(1)] by blast
  define ls where "ls = labels_or_run (wi_Name input) given"
  have labels: "wi_Labels input' = Some ls" "labels_or_run (wi_Name input) ls = ls" using g(2) by (simp_all add: ls_def)
  obtain ns meta where m: "om_Name meta = wi_Name input" "om_Namespace meta = ns" "om_Labels meta = Some ls" "om_Namespace (wl_Meta w) = ns"
      "CreateServiceIfNotExist e meta (wi_Service input) = (svcs, None)" "om_Name (wl_Meta w) = wi_Name input" "om_Labels (wl_Meta w) = Some ls"
      "ws_Selector (wl_Spec w) = Some ls" "te_Meta (ws_Template (wl_Spec w)) = wl_Meta w" "kind = StatefulSet \<longrightarrow> ws_ServiceName (wl_Spec w) = wi_Name input"
  proof (cases kind)
    case Deployment
    then show ?thesis using that [of "ToObjectMeta input' (om_Namespace (wl_Meta w))"] assms(2) g labels
      by (auto simp: new_remote_def Deployment_NewRemoteObjectForCreate_def Let_def split: sum.splits prod.splits option.splits)
  next
    case StatefulSet
    then show ?thesis using that [of "(ToObjectMeta input' (om_Namespace (wl_Meta w)))\<lparr>om_Labels := Some ls\<rparr>"] assms(2) g labels
      by (auto simp: new_remote_def Statefulset_NewRemoteObjectForCreate_def gbind_Inr_iff AddObjectMetaDefaultLabel_Inr GetSelectorByObjectMeta_def Let_def
          split: sum.splits prod.splits option.splits)
  next
    case DaemonSet
    then show ?thesis using that [of "(ToObjectMeta input' (om_Namespace (wl_Meta w)))\<lparr>om_Labels := Some ls\<rparr>"] assms(2) g labels
      by (auto simp: new_remote_def Daemonset_NewRemoteObjectForCreate_def gbind_Inr_iff AddObjectMetaDefaultLabel_Inr GetSelectorByObjectMeta_def Let_def
          split: sum.splits prod.splits option.splits)
  qed
  have "length svcs \<le> 1" using CreateServiceIfNotExist_services [OF m(5)] by (cases svcs) force+
  moreover have "\<forall>svc\<in>set svcs. om_Name (sc_Meta svc) = wi_Name input \<and> om_Namespace (sc_Meta svc) = om_Namespace (wl_Meta w) \<and>
       (\<forall>opt. wi_Service input = Some opt \<longrightarrow> the_labels (so_Selector opt) = [] \<longrightarrow> sc_Selector svc = Some ls)"
    using CreateServiceIfNotExist_services [OF m(5)] m(1-4) by fastforce
  ultimately show ?thesis using g(1) m(6-10) by (auto simp: ls_def labels_or_run_def)
qed

text \<open>A request without labels makes the validation of every kind panic once its namespace is found; an empty map of labels does not.\<close>

theorem nil_labels_panic:
  assumes "Namespace_ValidateCreateData e input = Inr (Inr input1)"
  shows "Workload_ValidateCreateData e kind input = Inl NilMapAssignment \<longleftrightarrow> wi_Labels input = None"
proof -
  have l: "wi_Labels input1 = wi_Labels input"
    using assms by (auto simp: Namespace_ValidateCreateData_def split: option.splits if_splits sum.splits)
  have "to_object kind ns input1 = Inl NilMapAssignment \<longleftrightarrow> wi_Labels input1 = None" for ns
    by (cases kind; cases "wi_Labels input1")
      (auto simp: to_object_def ToDeployment_def ToStatefulset_def ToDaemonset_def AddObjectMetaDefaultLabel_def AddObjectMetaRunLabel_def Let_def)
  from this [of "wi_Namespace input1"] show ?thesis using assms l
    by (cases "to_object kind (wi_Namespace input1) input1") (auto simp: Workload_ValidateCreateData_def split: prod.split)
qed

section \<open>Updates of templates\<close>

definition named :: "(string \<times> string) list \<Rightarrow> container list \<Rightarrow> bool" where
  "named cs xs \<longleftrightarrow> cs = [] \<or> (\<forall>c\<in>set xs. ct_Name c \<in> fst ` set cs)"

definition with_image :: "(string \<times> string) list \<Rightarrow> container \<Rightarrow> container" where
  "with_image cs c = (case map_of cs (ct_Name c) of None \<Rightarrow> c | Some im \<Rightarrow> c\<lparr>ct_Image := im\<rparr>)"

lemma update_container_eq:
  "update_container cs c = (if cs = [] \<or> ct_Name c \<in> fst ` set cs then Inr (with_image cs c) else Inl (''Not found container '' @ ct_Name c @ '' in input''))"
proof -
  have "map_of cs (ct_Name c) = None \<longleftrightarrow> ct_Name c \<notin> fst ` set cs" by (rule map_of_eq_None_iff)
  then show ?thesis by (cases "map_of cs (ct_Name c)") (auto simp: update_container_def with_image_def)
qed

lemma init_loop_None: "init_loop cs xs = None \<longleftrightarrow> named cs xs"
  by (induction xs) (auto simp: update_container_eq named_def)

lemma containers_loop_ok: "named cs xs \<Longrightarrow> containers_loop cs xs = (map (with_image cs) xs, None)"
  by (induction xs) (auto simp: update_container_eq named_def)

lemma containers_loop_None: "snd (containers_loop cs xs) = None \<longleftrightarrow> named cs xs"
  by (induction xs) (auto simp: update_container_eq named_def split: prod.splits)

text \<open>An update of a template succeeds exactly if the images of the init containers and those of the containers are each either not given or given for every
  container. Then the containers have the images that are given and the policies that are given are set, and nothing else changes: the init containers keep their images.\<close>

theorem UpdatePodTemplate_exact:
  "(snd (UpdatePodTemplate t u) = None \<longleftrightarrow>
      named (tu_InitContainers u) (sp_InitContainers (te_Spec t)) \<and> named (tu_Containers u) (sp_Containers (te_Spec t))) \<and>
   (snd (UpdatePodTemplate t u) = None \<longrightarrow>
      fst (UpdatePodTemplate t u) = t\<lparr>te_Spec := te_Spec t
        \<lparr>sp_Containers := map (with_image (tu_Containers u)) (sp_Containers (te_Spec t)),
         sp_RestartPolicy := (if tu_RestartPolicy u = [] then sp_RestartPolicy (te_Spec t) else tu_RestartPolicy u),
         sp_DNSPolicy := (if tu_DNSPolicy u = [] then sp_DNSPolicy (te_Spec t) else tu_DNSPolicy u)\<rparr>\<rparr>)"
proof (cases "named (tu_InitContainers u) (sp_InitContainers (te_Spec t))")
  case True
  obtain cs r where c: "containers_loop (tu_Containers u) (sp_Containers (te_Spec t)) = (cs, r)" by fastforce
  have r: "r = None \<longleftrightarrow> named (tu_Containers u) (sp_Containers (te_Spec t))" using containers_loop_None [of "tu_Containers u" "sp_Containers (te_Spec t)"] by (simp add: c)
  have cs: "cs = map (with_image (tu_Containers u)) (sp_Containers (te_Spec t))" if "r = None"
    using that r containers_loop_ok c by auto
  have "init_loop (tu_InitContainers u) (sp_InitContainers (te_Spec t)) = None" using True init_loop_None by blast
  then show ?thesis using True r cs c by (cases "te_Spec t") (auto simp: UpdatePodTemplate_def Let_def)
next
  case False
  then obtain err where "init_loop (tu_InitContainers u) (sp_InitContainers (te_Spec t)) = Some err" using init_loop_None by (metis not_Some_eq)
  then show ?thesis using False by (simp add: UpdatePodTemplate_def Let_def)
qed

lemma init_image_update_lost:
  assumes "Deployment_NewRemoteObjectForUpdate w u = Inr w'"
  shows "sp_InitContainers (te_Spec (ws_Template (wl_Spec w'))) = sp_InitContainers (te_Spec (ws_Template (wl_Spec w)))"
proof -
  let ?t = "ws_Template (wl_Spec w)"
  have "w' = (case wu_Replicas u of Some n \<Rightarrow> w\<lparr>wl_Spec := wl_Spec w\<lparr>ws_Replicas := Some n\<rparr>\<rparr> | None \<Rightarrow> w)
      \<lparr>wl_Spec := wl_Spec (case wu_Replicas u of Some n \<Rightarrow> w\<lparr>wl_Spec := wl_Spec w\<lparr>ws_Replicas := Some n\<rparr>\<rparr> | None \<Rightarrow> w)
        \<lparr>ws_Template := fst (UpdatePodTemplate ?t (wu_Template u))\<rparr>\<rparr>" "snd (UpdatePodTemplate ?t (wu_Template u)) = None"
    using assms by (auto simp: Deployment_NewRemoteObjectForUpdate_def update_template_def split: prod.splits option.splits)
  moreover have "sp_InitContainers (te_Spec (fst (UpdatePodTemplate t u))) = sp_InitContainers (te_Spec t)" for t u
    by (auto simp: UpdatePodTemplate_def Let_def split: option.split prod.split)
  ultimately show ?thesis by simp
qed

lemma statefulset_replicas_ignored: "Statefulset_NewRemoteObjectForUpdate w (u\<lparr>wu_Replicas := Some n\<rparr>) = Statefulset_NewRemoteObjectForUpdate w u"
  by (simp add: Statefulset_NewRemoteObjectForUpdate_def)

section \<open>Replica sets\<close>

record replica_set =
  rs_Meta :: object_meta
  rs_Replicas :: "int option"
  rs_Template :: pod_template

definition DefaultDeploymentUniqueLabelKey :: string where
  "DefaultDeploymentUniqueLabelKey = ''pod-template-hash''"

definition without_labels :: "pod_template \<Rightarrow> pod_template" where
  "without_labels t = t\<lparr>te_Meta := te_Meta t\<lparr>om_Labels := None\<rparr>\<rparr>"

text \<open>The longer map is ranged over.\<close>

definition EqualIgnoreHash :: "pod_template \<Rightarrow> pod_template \<Rightarrow> bool" where
  "EqualIgnoreHash template1 template2 =
     (let l1 = the_labels (om_Labels (te_Meta template1)); l2 = the_labels (om_Labels (te_Meta template2));
          (labels1, labels2) = (if length l1 > length l2 then (l2, l1) else (l1, l2))
      in list_all (\<lambda>(k, v). \<not> (map_get labels1 k \<noteq> v \<and> k \<noteq> DefaultDeploymentUniqueLabelKey)) labels2 \<and>
         without_labels template1 = without_labels template2)"

definition GetNewReplicaSetTemplate :: "workload \<Rightarrow> pod_template" where
  "GetNewReplicaSetTemplate d = \<lparr>te_Meta = te_Meta (ws_Template (wl_Spec d)), te_Spec = te_Spec (ws_Template (wl_Spec d))\<rparr>"

definition FindNewReplicaSet :: "workload \<Rightarrow> replica_set list \<Rightarrow> replica_set option" where
  "FindNewReplicaSet d rsList = List.find (\<lambda>rs. EqualIgnoreHash (rs_Template rs) (GetNewReplicaSetTemplate d)) rsList"

text \<open>The replica sets with replicas and all of them, without the new one. A nil number of replicas is dereferenced.\<close>

fun old_loop :: "replica_set option \<Rightarrow> replica_set list \<Rightarrow> (replica_set list \<times> replica_set list) go" where
  "old_loop newRS [] = Inr ([], [])"
| "old_loop newRS (rs # rss) =
     (if (case newRS of None \<Rightarrow> False | Some n \<Rightarrow> om_UID (rs_Meta rs) = om_UID (rs_Meta n)) then old_loop newRS rss
      else case rs_Replicas rs of
             None \<Rightarrow> Inl NilDereference
           | Some n \<Rightarrow> gbind (old_loop newRS rss) (\<lambda>(req, oth). Inr (if n \<noteq> 0 then rs # req else req, rs # oth)))"

definition FindOldReplicaSets :: "workload \<Rightarrow> replica_set list \<Rightarrow> (replica_set list \<times> replica_set list) go" where
  "FindOldReplicaSets d rss = old_loop (FindNewReplicaSet d rss) rss"

lemma map_get_eq: "[] \<notin> snd ` set ls \<Longrightarrow> v \<noteq> [] \<Longrightarrow> map_get ls k = v \<longleftrightarrow> map_of ls k = Some v"
  by (auto simp: map_get_def split: option.splits dest: map_of_SomeD)

definition labels_ok :: "labels \<Rightarrow> bool" where
  "labels_ok ls \<longleftrightarrow> distinct (map fst ls) \<and> [] \<notin> snd ` set ls"

text \<open>The labels apart from the hash.\<close>

definition no_hash :: "labels \<Rightarrow> string \<rightharpoonup> string" where
  "no_hash ls = (map_of ls)(DefaultDeploymentUniqueLabelKey := None)"

lemma no_hash_Some: "distinct (map fst ls) \<Longrightarrow> no_hash ls k = Some v \<longleftrightarrow> k \<noteq> DefaultDeploymentUniqueLabelKey \<and> (k, v) \<in> set ls"
  by (simp add: no_hash_def map_of_eq_Some_iff)

lemma labels_covered:
  assumes "labels_ok ls" "labels_ok ls'"
  shows "list_all (\<lambda>(k, v). \<not> (map_get ls k \<noteq> v \<and> k \<noteq> DefaultDeploymentUniqueLabelKey)) ls' \<longleftrightarrow> no_hash ls' \<subseteq>\<^sub>m no_hash ls"
proof -
  have d: "distinct (map fst ls)" "distinct (map fst ls')" using assms by (simp_all add: labels_ok_def)
  have "map_get ls k = v \<longleftrightarrow> (k, v) \<in> set ls" if "(k, v) \<in> set ls'" for k v
  proof -
    have "[] \<notin> snd ` set ls" "v \<noteq> []" using assms that by (force simp: labels_ok_def)+
    then show ?thesis using map_get_eq [of ls v k] d(1) by (simp add: map_of_eq_Some_iff)
  qed
  then have "list_all (\<lambda>(k, v). \<not> (map_get ls k \<noteq> v \<and> k \<noteq> DefaultDeploymentUniqueLabelKey)) ls' \<longleftrightarrow>
      (\<forall>k v. k \<noteq> DefaultDeploymentUniqueLabelKey \<and> (k, v) \<in> set ls' \<longrightarrow> (k, v) \<in> set ls)" by (fastforce simp: list_all_iff)
  also have "\<dots> \<longleftrightarrow> (\<forall>k v. no_hash ls' k = Some v \<longrightarrow> no_hash ls k = Some v)" by (auto simp: no_hash_Some d)
  also have "\<dots> \<longleftrightarrow> no_hash ls' \<subseteq>\<^sub>m no_hash ls" by (auto simp: map_le_def dom_def)
  finally show ?thesis .
qed

lemma card_no_hash:
  assumes "labels_ok ls"
  shows "card (dom (no_hash ls)) = (if DefaultDeploymentUniqueLabelKey \<in> fst ` set ls then length ls - 1 else length ls)"
proof -
  have "dom (no_hash ls) = fst ` set ls - {DefaultDeploymentUniqueLabelKey}" by (auto simp: no_hash_def dom_map_of_conv_image_fst)
  moreover have "card (fst ` set ls) = length ls" using assms distinct_card [of "map fst ls"] by (simp add: labels_ok_def)
  ultimately show ?thesis by (simp add: card_Diff_singleton_if)
qed

lemma map_le_card: "m \<subseteq>\<^sub>m m' \<Longrightarrow> finite (dom m') \<Longrightarrow> card (dom m') \<le> card (dom m) \<Longrightarrow> m = m'"
  using map_le_implies_dom_le [of m m'] card_seteq [of "dom m'" "dom m"] by (metis map_le_antisym map_le_def)

lemma finite_no_hash: "finite (dom (no_hash ls))"
  by (simp add: no_hash_def finite_dom_map_of)

text \<open>Two templates are found equal exactly if they differ in the hash label only, provided that the first has the hash or the second has not and no label
  is empty: a replica set has the hash, the template of a deployment has not. If only the second has it, the comparison can find different templates equal.\<close>

theorem EqualIgnoreHash_exact:
  assumes "l1 = the_labels (om_Labels (te_Meta t1))" "l2 = the_labels (om_Labels (te_Meta t2))" "labels_ok l1" "labels_ok l2"
    "DefaultDeploymentUniqueLabelKey \<in> fst ` set l1 \<or> DefaultDeploymentUniqueLabelKey \<notin> fst ` set l2"
  shows "EqualIgnoreHash t1 t2 \<longleftrightarrow> no_hash l1 = no_hash l2 \<and> without_labels t1 = without_labels t2"
proof (cases "length l1 > length l2")
  case True
  have "card (dom (no_hash l2)) \<le> card (dom (no_hash l1))" using True assms(3,4) by (auto simp: card_no_hash)
  then have "no_hash l1 \<subseteq>\<^sub>m no_hash l2 \<longleftrightarrow> no_hash l1 = no_hash l2" using map_le_card [OF _ finite_no_hash] by auto
  then show ?thesis using True assms(1-4) labels_covered [of l2 l1] by (simp add: EqualIgnoreHash_def Let_def)
next
  case False
  have "no_hash l2 \<subseteq>\<^sub>m no_hash l1 \<longleftrightarrow> no_hash l1 = no_hash l2"
  proof
    assume le: "no_hash l2 \<subseteq>\<^sub>m no_hash l1"
    have "card (dom (no_hash l1)) \<le> card (dom (no_hash l2))" using False assms(3-5) by (auto simp: card_no_hash)
    then show "no_hash l1 = no_hash l2" using map_le_card [OF le finite_no_hash] by simp
  qed simp
  then show ?thesis using False assms(1-4) labels_covered [of l1 l2] by (simp add: EqualIgnoreHash_def Let_def)
qed

lemma hash_in_second_only:
  assumes "without_labels t1 = without_labels t2" "om_Labels (te_Meta t1) = Some [(''app'', ''a''), (''tier'', ''b'')]"
    "om_Labels (te_Meta t2) = Some [(''app'', ''a''), (''pod-template-hash'', ''1'')]"
  shows "EqualIgnoreHash t1 t2"
  using assms by (simp add: EqualIgnoreHash_def the_labels_def map_get_def DefaultDeploymentUniqueLabelKey_def)

lemma old_loop_Inr:
  assumes "old_loop newRS rss = Inr (req, oth)"
  shows "oth = filter (\<lambda>rs. \<forall>n. newRS = Some n \<longrightarrow> om_UID (rs_Meta rs) \<noteq> om_UID (rs_Meta n)) rss \<and> req = filter (\<lambda>rs. rs_Replicas rs \<noteq> Some 0) oth"
  using assms by (induction rss arbitrary: req oth) (auto simp: gbind_Inr_iff split: if_splits option.splits)

lemma old_loop_total: "\<forall>rs\<in>set rss. rs_Replicas rs \<noteq> None \<Longrightarrow> \<exists>r. old_loop newRS rss = Inr r"
  by (induction rss) (auto split: option.split prod.split)

text \<open>The new replica set of a deployment is the first whose template is the deployment's apart from the hash; the old ones are all the others, and those
  that are required have replicas. Together they are the replica sets of the deployment.\<close>

theorem replica_sets_split:
  assumes "\<forall>rs\<in>set rss. rs_Replicas rs \<noteq> None \<and> labels_ok (the_labels (om_Labels (te_Meta (rs_Template rs)))) \<and>
      DefaultDeploymentUniqueLabelKey \<in> fst ` set (the_labels (om_Labels (te_Meta (rs_Template rs))))"
    "labels_ok (the_labels (om_Labels (te_Meta (ws_Template (wl_Spec d)))))" "distinct (map (om_UID \<circ> rs_Meta) rss)"
    "same = (\<lambda>rs. no_hash (the_labels (om_Labels (te_Meta (rs_Template rs)))) = no_hash (the_labels (om_Labels (te_Meta (ws_Template (wl_Spec d))))) \<and>
       without_labels (rs_Template rs) = without_labels (ws_Template (wl_Spec d)))"
  shows "\<exists>req oth. FindOldReplicaSets d rss = Inr (req, oth) \<and> req = filter (\<lambda>rs. rs_Replicas rs \<noteq> Some 0) oth \<and>
    (case FindNewReplicaSet d rss of
       None \<Rightarrow> oth = rss \<and> (\<forall>rs\<in>set rss. \<not> same rs)
     | Some n \<Rightarrow> n \<in> set rss \<and> same n \<and> oth = remove1 n rss \<and> (\<exists>pre post. rss = pre @ n # post \<and> (\<forall>rs\<in>set pre. \<not> same rs)))"
proof -
  have g: "GetNewReplicaSetTemplate d = ws_Template (wl_Spec d)" by (simp add: GetNewReplicaSetTemplate_def)
  have eq: "EqualIgnoreHash (rs_Template rs) (ws_Template (wl_Spec d)) \<longleftrightarrow> same rs" if "rs \<in> set rss" for rs
    using EqualIgnoreHash_exact [OF refl refl, of "rs_Template rs" "ws_Template (wl_Spec d)"] assms(1,2) that by (simp add: assms(4))
  obtain req oth where o: "old_loop (FindNewReplicaSet d rss) rss = Inr (req, oth)" using old_loop_total [of rss] assms(1) by fastforce
  note sp = old_loop_Inr [OF o]
  show ?thesis
  proof (cases "FindNewReplicaSet d rss")
    case None
    then have "\<forall>rs\<in>set rss. \<not> same rs" using eq by (auto simp: FindNewReplicaSet_def g find_None_iff)
    then show ?thesis using o sp None by (simp add: FindOldReplicaSets_def)
  next
    case (Some n)
    then obtain i where i: "i < length rss" "same (rss ! i)" "n = rss ! i" "\<forall>j<i. \<not> same (rss ! j)"
      using eq by (auto simp: FindNewReplicaSet_def g find_Some_iff)
    have r: "rss = take i rss @ n # drop (Suc i) rss" using i(1,3) id_take_nth_drop by blast
    have pre: "\<forall>rs\<in>set (take i rss). \<not> same rs" using i(1,4) by (auto simp: in_set_conv_nth)
    have inj: "inj_on (om_UID \<circ> rs_Meta) (set rss)" "distinct rss" using assms(3) by (simp_all add: distinct_map)
    have "oth = filter (\<lambda>rs. rs \<noteq> n) rss"
      using sp Some i(1,3) inj(1) nth_mem by (auto simp: inj_on_def intro!: filter_cong)
    moreover have "filter (\<lambda>rs. rs \<noteq> n) rss = removeAll n rss" for rss by (induction rss) auto
    ultimately have "oth = remove1 n rss" using inj(2) by (simp add: distinct_remove1_removeAll)
    then show ?thesis using Some o sp i(1,2,3) r pre
      by (intro exI [of _ req] exI [of _ oth]) (auto simp: FindOldReplicaSets_def)
  qed
qed

section \<open>Samples\<close>

definition sample_meta :: object_meta where
  "sample_meta = \<lparr>om_Name = ''web'', om_Namespace = ''apps'', om_UID = [], om_Labels = Some [(''run'', ''web'')], om_Annotations = None, om_Controller = None\<rparr>"

definition sample_pods :: pod_spec where
  "sample_pods = \<lparr>sp_InitContainers = [\<lparr>ct_Name = ''setup'', ct_Image = ''busybox:1'', ct_Rest = []\<rparr>],
     sp_Containers = [\<lparr>ct_Name = ''nginx'', ct_Image = ''nginx:1'', ct_Rest = []\<rparr>], sp_RestartPolicy = ''Always'', sp_DNSPolicy = [],
     sp_Volumes = [\<lparr>vl_Name = ''data'', vl_Claim = Some ''c1'', vl_ConfigMap = None, vl_Secret = None\<rparr>], sp_Rest = []\<rparr>"

definition sample_spec :: workload_spec where
  "sample_spec = \<lparr>ws_Replicas = Some 2, ws_Selector = None, ws_Template = \<lparr>te_Meta = sample_meta, te_Spec = sample_pods\<rparr>, ws_ServiceName = [], ws_Claims = []\<rparr>"

definition sample_workload_input :: workload_input where
  "sample_workload_input = \<lparr>wi_Name = ''web'', wi_NamespaceId = ''apps'', wi_Namespace = [], wi_Labels = Some [], wi_Annotations = None, wi_Spec = sample_spec,
     wi_Service = Some \<lparr>so_Type = [], so_IsExternal = False, so_PortMappings = [],
       so_Selector = None, so_LoadBalancerCluster = [], so_LoadBalancerNetwork = []\<rparr>\<rparr>"

definition sample_workload_env :: workload_env where
  "sample_workload_env = \<lparr>we_rand = (\<lambda>n. replicate n CHR ''x''), we_clusterBase = None, we_nsRow = (\<lambda>n. Inr (''n1'', n)), we_nsRemote = (\<lambda>_. None),
     we_namespace = Inr ''apps'', we_claim = (\<lambda>_. Inr ''claim''), we_valid = (\<lambda>_. None), we_validService = (\<lambda>_. None), we_serviceRow = (\<lambda>_. Inr False),
     we_getService = (\<lambda>_ _. Inr False), we_createService = (\<lambda>_. None)\<rparr>"

definition sample_validated_input :: workload_input where
  "sample_validated_input = (case Workload_ValidateCreateData sample_workload_env Deployment sample_workload_input of Inr (Inr i) \<Rightarrow> i | _ \<Rightarrow> sample_workload_input)"

definition sample_created :: "service list \<times> (string + workload)" where
  "sample_created = (case new_remote Deployment sample_workload_env sample_validated_input of Inr r \<Rightarrow> r | Inl _ \<Rightarrow> ([], Inl []))"

theorem created_workload_fits_witness:
  "\<exists>svcs w. new_remote Deployment sample_workload_env sample_validated_input = Inr (svcs, Inr w) \<and> length svcs = 1 \<and>
     ws_Selector (wl_Spec w) = Some [(''run'', ''web'')] \<and> list_all (\<lambda>svc. sc_Selector svc = Some [(''run'', ''web'')]) svcs"
proof -
  have v: "Workload_ValidateCreateData sample_workload_env Deployment sample_workload_input = Inr (Inr sample_validated_input)" by code_simp
  have n: "new_remote Deployment sample_workload_env sample_validated_input = Inr (fst sample_created, snd sample_created)" by code_simp
  have 1: "length (fst sample_created) = 1" "\<not> isl (snd sample_created)" by code_simp+
  then obtain w where w: "snd sample_created = Inr w" by (cases "snd sample_created") auto
  have "wi_Labels sample_workload_input = Some []" "wi_Name sample_workload_input = ''web''"
      "\<exists>opt. wi_Service sample_workload_input = Some opt \<and> the_labels (so_Selector opt) = []"
    by (simp_all add: sample_workload_input_def the_labels_def)
  then show ?thesis using created_workload_fits [OF v n [unfolded w]] n w 1 by (auto simp: list_all_iff)
qed

theorem nil_labels_panic_witness:
  "Workload_ValidateCreateData sample_workload_env StatefulSet (sample_workload_input\<lparr>wi_Labels := None\<rparr>) = Inl NilMapAssignment"
proof -
  have "Namespace_ValidateCreateData sample_workload_env (sample_workload_input\<lparr>wi_Labels := None\<rparr>) =
      Inr (Inr (sample_workload_input\<lparr>wi_NamespaceId := ''n1'', wi_Namespace := ''apps'', wi_Labels := None\<rparr>))" by code_simp
  from nil_labels_panic [OF this] show ?thesis by simp
qed

definition sample_deployment :: workload where
  "sample_deployment = \<lparr>wl_Meta = sample_meta, wl_Spec = sample_spec\<rparr>"

definition sample_rs :: "string \<Rightarrow> string \<Rightarrow> int \<Rightarrow> replica_set" where
  "sample_rs uid policy n = \<lparr>rs_Meta = sample_meta\<lparr>om_UID := uid\<rparr>, rs_Replicas = Some n,
     rs_Template = \<lparr>te_Meta = sample_meta\<lparr>om_Labels := Some [(''run'', ''web''), (''pod-template-hash'', uid)]\<rparr>, te_Spec = sample_pods\<lparr>sp_RestartPolicy := policy\<rparr>\<rparr>\<rparr>"

lemma sample_labels:
  "the_labels (om_Labels (te_Meta (rs_Template (sample_rs u p n)))) = [(''run'', ''web''), (DefaultDeploymentUniqueLabelKey, u)]"
  "the_labels (om_Labels (te_Meta (ws_Template (wl_Spec sample_deployment)))) = [(''run'', ''web'')]"
  by (simp_all add: sample_rs_def sample_deployment_def sample_spec_def sample_meta_def the_labels_def DefaultDeploymentUniqueLabelKey_def)

lemma sample_labels_ok: "u \<noteq> [] \<Longrightarrow> labels_ok [(''run'', ''web''), (DefaultDeploymentUniqueLabelKey, u)]" "labels_ok [(''run'', ''web'')]"
  by (auto simp: labels_ok_def DefaultDeploymentUniqueLabelKey_def)

theorem EqualIgnoreHash_exact_witness:
  "EqualIgnoreHash (rs_Template (sample_rs ''7f'' ''Always'' 2)) (ws_Template (wl_Spec sample_deployment)) \<and>
   \<not> EqualIgnoreHash (rs_Template (sample_rs ''7f'' ''Never'' 2)) (ws_Template (wl_Spec sample_deployment))"
proof -
  let ?l1 = "\<lambda>p. the_labels (om_Labels (te_Meta (rs_Template (sample_rs ''7f'' p 2))))" and ?l2 = "the_labels (om_Labels (te_Meta (ws_Template (wl_Spec sample_deployment))))"
  have ok: "labels_ok (?l1 p)" "labels_ok ?l2" "DefaultDeploymentUniqueLabelKey \<in> fst ` set (?l1 p)" "no_hash (?l1 p) = no_hash ?l2" for p
    by (simp_all add: sample_labels sample_labels_ok no_hash_def)
  have "without_labels (rs_Template (sample_rs ''7f'' ''Always'' 2)) = without_labels (ws_Template (wl_Spec sample_deployment))"
      "without_labels (rs_Template (sample_rs ''7f'' ''Never'' 2)) \<noteq> without_labels (ws_Template (wl_Spec sample_deployment))"
    by (simp_all add: without_labels_def sample_rs_def sample_deployment_def sample_spec_def sample_pods_def sample_meta_def)
  then show ?thesis using EqualIgnoreHash_exact [OF refl refl ok(1,2) disjI1 [OF ok(3)]] ok(4) by simp
qed

theorem replica_sets_split_witness:
  "FindNewReplicaSet sample_deployment [sample_rs ''a1'' ''Never'' 0, sample_rs ''b2'' ''Always'' 2] = Some (sample_rs ''b2'' ''Always'' 2) \<and>
   (\<exists>req. FindOldReplicaSets sample_deployment [sample_rs ''a1'' ''Never'' 0, sample_rs ''b2'' ''Always'' 2] = Inr (req, [sample_rs ''a1'' ''Never'' 0]))"
proof -
  let ?rss = "[sample_rs ''a1'' ''Never'' 0, sample_rs ''b2'' ''Always'' 2]"
  have n: "FindNewReplicaSet sample_deployment ?rss = Some (sample_rs ''b2'' ''Always'' 2)" by code_simp
  have ok: "\<forall>rs\<in>set ?rss. rs_Replicas rs \<noteq> None \<and> labels_ok (the_labels (om_Labels (te_Meta (rs_Template rs)))) \<and>
      DefaultDeploymentUniqueLabelKey \<in> fst ` set (the_labels (om_Labels (te_Meta (rs_Template rs))))"
    "labels_ok (the_labels (om_Labels (te_Meta (ws_Template (wl_Spec sample_deployment)))))" "distinct (map (om_UID \<circ> rs_Meta) ?rss)"
    by (simp_all add: sample_labels sample_labels_ok) (simp_all add: sample_rs_def)
  have "remove1 (sample_rs ''b2'' ''Always'' 2) ?rss = [sample_rs ''a1'' ''Never'' 0]" by (simp add: sample_rs_def)
  then show ?thesis using replica_sets_split [OF ok refl] n by auto
qed

end
