(* ===== verification/WorkloadStatus.thy ===== *)
theory WorkloadStatus
  imports Workloads
begin

text \<open>
  What is reported of workloads: the status of pods, deployments, stateful sets and daemon sets in src/pkg/k8s/common/getters/getters.go, the aggregate
  information on pods in helper.go and src/pkg/api/pod.go, and the use of them in deployment.go, statefulsets.go, daemonsets.go, replicasets.go and jobs.go. Shown: the loops over the
  containers of a pod agree with a definition by the first container that matters; a deployment is reported running exactly if its rollout is
  complete and its pods run; the pods of a deployment are those of its replica sets; jobs are always reported running.
\<close>

section \<open>Pods\<close>

text \<open>A terminated container has a reason, a signal and an exit code.\<close>

record container_status =
  cn_RestartCount :: int
  cn_Ready :: bool
  cn_Waiting :: "string option"
  cn_Running :: bool
  cn_Terminated :: "(string \<times> int \<times> int) option"

record pod =
  pd_Meta :: object_meta
  pd_Spec :: pod_spec
  pd_NodeName :: string
  pd_ReadinessGates :: "string list"
  pd_Phase :: string
  pd_Reason :: string
  pd_Deleting :: bool
  pd_InitStatuses :: "container_status list"
  pd_Statuses :: "container_status list"
  pd_NominatedNodeName :: string
  pd_Conditions :: "(string \<times> string) list"

record pod_status =
  pt_Ready :: string
  pt_Status :: string
  pt_Restarts :: int
  pt_NodeName :: string
  pt_NominatedNodeName :: string
  pt_ReadinessGates :: string

text \<open>Restarts, reason and whether the pod is initializing, from the index of the next init container on.\<close>

fun init_scan :: "nat \<Rightarrow> nat \<Rightarrow> int \<Rightarrow> string \<Rightarrow> container_status list \<Rightarrow> int \<times> string \<times> bool" where
  "init_scan i n restarts reason [] = (restarts, reason, False)"
| "init_scan i n restarts reason (c # cs) =
     (let restarts' = restarts + cn_RestartCount c in
      case cn_Terminated c of
        Some (why, signal, code) \<Rightarrow>
          if code = 0 then init_scan (Suc i) n restarts' reason cs
          else if why = [] then
            (restarts', if signal \<noteq> 0 then ''Init:Signal:'' @ show_int signal else ''Init:ExitCode:'' @ show_int code, True)
          else (restarts', ''Init:'' @ why, True)
      | None \<Rightarrow>
          (case cn_Waiting c of
             Some why \<Rightarrow>
               if length why > 0 \<and> why \<noteq> ''PodInitializing'' then (restarts', ''Init:'' @ why, True)
               else (restarts', ''Init:'' @ show_nat i @ ''/'' @ show_nat n, True)
           | None \<Rightarrow> (restarts', ''Init:'' @ show_nat i @ ''/'' @ show_nat n, True)))"

text \<open>The containers from the last to the first.\<close>

definition main_step :: "container_status \<Rightarrow> int \<times> string \<times> bool \<times> nat \<Rightarrow> int \<times> string \<times> bool \<times> nat" where
  "main_step c acc =
     (case acc of (restarts, reason, hasRunning, ready) \<Rightarrow>
        let restarts' = restarts + cn_RestartCount c in
        if cn_Waiting c \<noteq> None \<and> the (cn_Waiting c) \<noteq> [] then (restarts', the (cn_Waiting c), hasRunning, ready)
        else case cn_Terminated c of
               Some (why, signal, code) \<Rightarrow>
                 (restarts',
                  if why \<noteq> [] then why else if signal \<noteq> 0 then ''Signal:'' @ show_int signal else ''ExitCode:'' @ show_int code,
                  hasRunning, ready)
             | None \<Rightarrow> if cn_Ready c \<and> cn_Running c then (restarts', reason, True, Suc ready) else (restarts', reason, hasRunning, ready))"

definition main_scan :: "string \<Rightarrow> container_status list \<Rightarrow> int \<times> string \<times> bool \<times> nat" where
  "main_scan reason cs = foldr main_step cs (0, reason, False, 0)"

definition none_if_empty :: "string \<Rightarrow> string" where
  "none_if_empty s = (if s = [] then ''<none>'' else s)"

definition true_gates :: "string list \<Rightarrow> (string \<times> string) list \<Rightarrow> nat" where
  "true_gates gates conds = length (filter (\<lambda>g. map_of conds g = Some ''True'') gates)"

definition NodeUnreachablePodReason :: string where "NodeUnreachablePodReason = ''NodeLost''"

definition GetPodStatus :: "pod \<Rightarrow> pod_status" where
  "GetPodStatus pod =
     (let reason0 = (if pd_Reason pod \<noteq> [] then pd_Reason pod else pd_Phase pod);
          (restarts1, reason1, initializing) = init_scan 0 (length (sp_InitContainers (pd_Spec pod))) 0 reason0 (pd_InitStatuses pod);
          (restarts, reason2, ready) =
            (if initializing then (restarts1, reason1, 0)
             else let (rs, r, hasRunning, k) = main_scan reason1 (pd_Statuses pod)
                  in (rs, if r = ''Completed'' \<and> hasRunning then ''Running'' else r, k));
          reason3 = (if pd_Deleting pod \<and> pd_Reason pod = NodeUnreachablePodReason then ''Unknown''
                     else if pd_Deleting pod then ''Terminating'' else reason2)
      in \<lparr>pt_Ready = show_nat ready @ ''/'' @ show_nat (length (sp_Containers (pd_Spec pod))), pt_Status = reason3, pt_Restarts = restarts,
          pt_NodeName = none_if_empty (pd_NodeName pod), pt_NominatedNodeName = none_if_empty (pd_NominatedNodeName pod),
          pt_ReadinessGates = (if pd_ReadinessGates pod \<noteq> []
             then show_nat (true_gates (pd_ReadinessGates pod) (pd_Conditions pod)) @ ''/'' @ show_nat (length (pd_ReadinessGates pod)) else ''<none>'')\<rparr>)"

section \<open>Pods by reference definitions\<close>

text \<open>An init container that is done.\<close>

definition init_done :: "container_status \<Rightarrow> bool" where
  "init_done c \<longleftrightarrow> (\<exists>why signal. cn_Terminated c = Some (why, signal, 0))"

definition init_reason :: "nat \<Rightarrow> nat \<Rightarrow> container_status \<Rightarrow> string" where
  "init_reason i n c = ''Init:'' @
     (case cn_Terminated c of
        Some (why, signal, code) \<Rightarrow> if why \<noteq> [] then why else if signal \<noteq> 0 then ''Signal:'' @ show_int signal else ''ExitCode:'' @ show_int code
      | None \<Rightarrow>
          (case cn_Waiting c of
             Some why \<Rightarrow> if why \<noteq> [] \<and> why \<noteq> ''PodInitializing'' then why else show_nat i @ ''/'' @ show_nat n
           | None \<Rightarrow> show_nat i @ ''/'' @ show_nat n))"

text \<open>The reason that a container gives, and whether it counts as running.\<close>

definition own_reason :: "container_status \<Rightarrow> string option" where
  "own_reason c =
     (if cn_Waiting c \<noteq> None \<and> the (cn_Waiting c) \<noteq> [] then cn_Waiting c
      else map_option (\<lambda>(why, signal, code). if why \<noteq> [] then why else if signal \<noteq> 0 then ''Signal:'' @ show_int signal else ''ExitCode:'' @ show_int code)
             (cn_Terminated c))"

definition counts_ready :: "container_status \<Rightarrow> bool" where
  "counts_ready c \<longleftrightarrow> own_reason c = None \<and> cn_Ready c \<and> cn_Running c"

definition sum_restarts :: "container_status list \<Rightarrow> int" where
  "sum_restarts cs = sum_list (map cn_RestartCount cs)"

lemma main_step_eq:
  "main_step c (rs, r, h, k) = (rs + cn_RestartCount c, case own_reason c of Some why \<Rightarrow> why | None \<Rightarrow> r, h \<or> counts_ready c, if counts_ready c then Suc k else k)"
  by (auto simp: main_step_def own_reason_def counts_ready_def Let_def split: option.splits prod.splits)

lemma main_scan_eq:
  "main_scan reason cs = (sum_restarts cs, case List.map_filter own_reason cs of [] \<Rightarrow> reason | why # _ \<Rightarrow> why, (\<exists>c\<in>set cs. counts_ready c),
     length (filter counts_ready cs))"
proof -
  have "foldr main_step cs (0, reason, False, 0) = (sum_restarts cs, case List.map_filter own_reason cs of [] \<Rightarrow> reason | why # _ \<Rightarrow> why,
     (\<exists>c\<in>set cs. counts_ready c), length (filter counts_ready cs))"
    by (induction cs) (auto simp: main_step_eq sum_restarts_def List.map_filter_def split: option.split list.split)
  then show ?thesis by (simp add: main_scan_def)
qed

lemma init_scan_eq:
  "init_scan i n rs reason cs =
     (if list_all init_done cs then (rs + sum_restarts cs, reason, False)
      else let k = length (takeWhile init_done cs)
           in (rs + sum_restarts (take (Suc k) cs), init_reason (i + k) n (cs ! k), True))"
proof (induction cs arbitrary: i rs)
  case (Cons c cs)
  show ?case
  proof (cases "init_done c")
    case True
    then obtain why signal where "cn_Terminated c = Some (why, signal, 0)" by (auto simp: init_done_def)
    then show ?thesis using Cons True by (simp add: sum_restarts_def Let_def)
  next
    case False
    then have "\<And>why signal code. cn_Terminated c = Some (why, signal, code) \<Longrightarrow> code \<noteq> 0" by (auto simp: init_done_def)
    with False show ?thesis
      by (auto simp: sum_restarts_def init_reason_def Let_def split: option.split prod.split)
  qed
qed (simp add: sum_restarts_def)

text \<open>C23: the status of a pod: being deleted comes first; then the first init container that is not done; then the first container that waits or ended with a
  reason, where Completed counts as running if another container is ready; then the reason or phase of the pod. The containers that are
  ready are counted unless the pod is initializing.\<close>

theorem GetPodStatus_reference:
  assumes "base = (if pd_Reason pod \<noteq> [] then pd_Reason pod else pd_Phase pod)"
    "k = length (takeWhile init_done (pd_InitStatuses pod))" "running = filter counts_ready (pd_Statuses pod)"
    "first = (case List.map_filter own_reason (pd_Statuses pod) of [] \<Rightarrow> base | why # _ \<Rightarrow> why)"
    "initializing \<longleftrightarrow> k < length (pd_InitStatuses pod)"
  shows "pt_Status (GetPodStatus pod) =
      (if pd_Deleting pod then (if pd_Reason pod = ''NodeLost'' then ''Unknown'' else ''Terminating'')
       else if initializing then init_reason k (length (sp_InitContainers (pd_Spec pod))) (pd_InitStatuses pod ! k)
       else if first = ''Completed'' \<and> running \<noteq> [] then ''Running'' else first) \<and>
    pt_Ready (GetPodStatus pod) =
      show_nat (if initializing then 0 else length running) @ ''/'' @ show_nat (length (sp_Containers (pd_Spec pod))) \<and>
    pt_Restarts (GetPodStatus pod) = (if initializing then sum_restarts (take (Suc k) (pd_InitStatuses pod)) else sum_restarts (pd_Statuses pod))"
proof -
  have "list_all P xs \<longleftrightarrow> length (takeWhile P xs) = length xs" for P and xs :: "container_status list"
    by (induction xs) auto
  then have i: "list_all init_done (pd_InitStatuses pod) \<longleftrightarrow> \<not> initializing"
    using length_takeWhile_le [of init_done "pd_InitStatuses pod"] by (auto simp: assms(2,5))
  have r: "(\<exists>c\<in>set (pd_Statuses pod). counts_ready c) \<longleftrightarrow> running \<noteq> []" by (auto simp: assms(3) filter_empty_conv)
  have s: "init_scan 0 n 0 base (pd_InitStatuses pod) =
      (if initializing then (sum_restarts (take (Suc k) (pd_InitStatuses pod)), init_reason k n (pd_InitStatuses pod ! k), True)
       else (sum_restarts (pd_InitStatuses pod), base, False))" for n
    using i by (simp add: init_scan_eq assms(2) Let_def)
  have m: "main_scan base (pd_Statuses pod) = (sum_restarts (pd_Statuses pod), first, running \<noteq> [], length running)"
    by (simp add: main_scan_eq r) (simp add: assms(3,4))
  show ?thesis using s m
    by (cases initializing) (simp_all add: GetPodStatus_def assms(1) [symmetric] NodeUnreachablePodReason_def Let_def)
qed

section \<open>Groups of pods\<close>

record pod_info =
  pi_Current :: int
  pi_Desired :: "int option"
  pi_Running :: int
  pi_Pending :: int
  pi_Failed :: int
  pi_Succeeded :: int

definition count_phase :: "string \<Rightarrow> pod list \<Rightarrow> int" where
  "count_phase ph pods = int (length (filter (\<lambda>p. pd_Phase p = ph) pods))"

definition getPodInfo :: "int \<Rightarrow> int option \<Rightarrow> pod list \<Rightarrow> pod_info" where
  "getPodInfo current desired pods =
     \<lparr>pi_Current = current, pi_Desired = desired, pi_Running = count_phase ''Running'' pods, pi_Pending = count_phase ''Pending'' pods,
      pi_Failed = count_phase ''Failed'' pods, pi_Succeeded = count_phase ''Succeeded'' pods\<rparr>"

text \<open>The number that is desired is dereferenced.\<close>

definition PodInfo_GetStatus :: "pod_info \<Rightarrow> string go" where
  "PodInfo_GetStatus info =
     (if pi_Current info = 0 then Inr ''Pending''
      else if pi_Failed info > 0 then Inr ''Failed''
      else if pi_Pending info > 0 then Inr ''Pending''
      else case pi_Desired info of
             None \<Rightarrow> Inl NilDereference
           | Some d \<Rightarrow> if pi_Succeeded info = d then Inr ''Succeeded'' else if pi_Running info = d then Inr ''Running'' else Inr ''Unknown'')"

text \<open>\<open>metav1.IsControlledBy\<close> compares the controller reference with the UID.\<close>

definition IsControlledBy :: "object_meta \<Rightarrow> object_meta \<Rightarrow> bool" where
  "IsControlledBy obj owner \<longleftrightarrow> om_Controller obj = Some (om_UID owner)"

definition FilterPodsByControllerRef :: "object_meta \<Rightarrow> pod list \<Rightarrow> pod list" where
  "FilterPodsByControllerRef owner pods = filter (\<lambda>p. IsControlledBy (pd_Meta p) owner) pods"

definition FilterDeploymentPodsByOwnerReference :: "object_meta \<Rightarrow> replica_set list \<Rightarrow> pod list \<Rightarrow> pod list" where
  "FilterDeploymentPodsByOwnerReference d rss pods =
     concat (map (\<lambda>rs. FilterPodsByControllerRef (rs_Meta rs) pods) (filter (\<lambda>rs. IsControlledBy (rs_Meta rs) d) rss))"

text \<open>The pods and the replica sets of a namespace, or the errors of listing them.\<close>

record pod_lister =
  ls_pods :: "string \<Rightarrow> string + pod list"
  ls_replicaSets :: "string \<Rightarrow> labels option \<Rightarrow> string + replica_set list"

definition wrap_err :: "string \<Rightarrow> string + 'a \<Rightarrow> string + 'a" where
  "wrap_err msg r = map_sum (\<lambda>e. msg @ '': '' @ e) id r"

definition sbind :: "string + 'a \<Rightarrow> ('a \<Rightarrow> string + 'b) \<Rightarrow> string + 'b" where
  "sbind r f = (case r of Inl e \<Rightarrow> Inl e | Inr a \<Rightarrow> f a)"

definition Deployment_GetRawPods :: "pod_lister \<Rightarrow> workload \<Rightarrow> string + pod list" where
  "Deployment_GetRawPods l d =
     sbind (wrap_err (''get namespace '' @ om_Namespace (wl_Meta d) @ '' pods'') (ls_pods l (om_Namespace (wl_Meta d)))) (\<lambda>pods.
     sbind (wrap_err ''get replicasets'' (ls_replicaSets l (om_Namespace (wl_Meta d)) (ws_Selector (wl_Spec d)))) (\<lambda>rss.
       Inr (FilterDeploymentPodsByOwnerReference (wl_Meta d) rss pods)))"

definition GetRawPodsByController :: "pod_lister \<Rightarrow> object_meta \<Rightarrow> string + pod list" where
  "GetRawPodsByController l obj = sbind (ls_pods l (om_Namespace obj)) (\<lambda>pods. Inr (FilterPodsByControllerRef obj pods))"

lemma FilterDeploymentPods_set:
  "set (FilterDeploymentPodsByOwnerReference d rss pods) =
     {p \<in> set pods. \<exists>rs\<in>set rss. om_Controller (rs_Meta rs) = Some (om_UID d) \<and> om_Controller (pd_Meta p) = Some (om_UID (rs_Meta rs))}"
  by (auto simp: FilterDeploymentPodsByOwnerReference_def FilterPodsByControllerRef_def IsControlledBy_def)

lemma FilterDeploymentPods_distinct:
  assumes "distinct pods" "distinct (map (om_UID \<circ> rs_Meta) rss)"
  shows "distinct (FilterDeploymentPodsByOwnerReference d rss pods)"
proof -
  have d: "distinct (concat (map (\<lambda>rs. FilterPodsByControllerRef (rs_Meta rs) pods) rss))" if "distinct (map (om_UID \<circ> rs_Meta) rss)" for rss
    using that
  proof (induction rss)
    case (Cons rs rss)
    have "set (FilterPodsByControllerRef (rs_Meta rs) pods) \<inter> set (FilterPodsByControllerRef (rs_Meta r) pods) = {}" if "r \<in> set rss" for r
      using Cons(2) that by (auto simp: FilterPodsByControllerRef_def IsControlledBy_def image_iff)
    then show ?case using Cons assms(1) by (auto simp: FilterPodsByControllerRef_def)
  qed simp
  show ?thesis unfolding FilterDeploymentPodsByOwnerReference_def by (rule d [OF distinct_map_filter [OF assms(2)]])
qed

section \<open>Statuses of workloads\<close>

text \<open>What a controller observed. The reason of the condition Progressing is that of a deployment; a revision and a partition are those of stateful sets.\<close>

record observed =
  ob_Generation :: int
  ob_ObservedGeneration :: int
  ob_Replicas :: int
  ob_UpdatedReplicas :: int
  ob_ReadyReplicas :: int
  ob_AvailableReplicas :: int
  ob_Progressing :: "string option"

record rollout_status =
  ro_Ready :: int
  ro_Updated :: int
  ro_Available :: int
  ro_Desired :: int
  ro_Status :: string

definition GetDeploymentStatus :: "pod_info \<Rightarrow> workload \<Rightarrow> observed \<Rightarrow> rollout_status go" where
  "GetDeploymentStatus podInfo d ob =
     (let ret = \<lparr>ro_Ready = ob_ReadyReplicas ob, ro_Updated = ob_UpdatedReplicas ob, ro_Available = ob_AvailableReplicas ob, ro_Desired = 0, ro_Status = []\<rparr> in
      case ws_Replicas (wl_Spec d) of
        None \<Rightarrow> gbind (PodInfo_GetStatus podInfo) (\<lambda>s. Inr (ret\<lparr>ro_Status := s\<rparr>))
      | Some n \<Rightarrow>
          let ret' = ret\<lparr>ro_Desired := n\<rparr> in
          if ob_Generation ob \<le> ob_ObservedGeneration ob then
            gbind (PodInfo_GetStatus podInfo) (\<lambda>s.
              Inr (ret'\<lparr>ro_Status :=
                (if ob_Progressing ob = Some ''ProgressDeadlineExceeded'' then ''ProgressDeadlineExceeded''
                 else if ob_UpdatedReplicas ob < n then ''NewReplicaUpdating''
                 else if ob_Replicas ob > ob_UpdatedReplicas ob then ''OldReplicaTerminating''
                 else if ob_AvailableReplicas ob < ob_UpdatedReplicas ob then ''AvailableWaiting''
                 else s)\<rparr>))
          else Inr (ret'\<lparr>ro_Status := ''ObservedWaiting''\<rparr>))"

record stateful_observed = observed +
  so_RollingUpdate :: bool
  so_Partition :: "int option"
  so_UpdateRevision :: string
  so_CurrentRevision :: string

text \<open>The later conditions overwrite the earlier ones.\<close>

definition GetStatefulSetStatus :: "pod_info \<Rightarrow> workload \<Rightarrow> stateful_observed \<Rightarrow> string go" where
  "GetStatefulSetStatus podInfo ss ob =
     gbind (PodInfo_GetStatus podInfo) (\<lambda>s0.
       if \<not> so_RollingUpdate ob then Inr s0
       else
         let s1 = (if ob_ObservedGeneration ob = 0 \<or> ob_Generation ob > ob_ObservedGeneration ob then ''ObservedWaiting'' else s0);
             s2 = (case ws_Replicas (wl_Spec ss) of Some n \<Rightarrow> if ob_ReadyReplicas ob < n then ''PodReadyWaiting'' else s1 | None \<Rightarrow> s1);
             s3 = (case (ws_Replicas (wl_Spec ss), so_Partition ob) of
                     (Some n, Some p) \<Rightarrow> if ob_UpdatedReplicas ob < n - p then ''NewReplicaUpdating'' else s2
                   | _ \<Rightarrow> s2)
         in Inr (if so_UpdateRevision ob \<noteq> so_CurrentRevision ob then ''UpdateWaiting'' else s3))"

record daemon_observed =
  dm_Generation :: int
  dm_ObservedGeneration :: int
  dm_RollingUpdate :: bool
  dm_Current :: int
  dm_Desired :: int
  dm_Updated :: int
  dm_Available :: int

definition GetDaemonsetStatus :: "pod_info \<Rightarrow> daemon_observed \<Rightarrow> string go" where
  "GetDaemonsetStatus podInfo ob =
     (if \<not> dm_RollingUpdate ob then PodInfo_GetStatus podInfo
      else if dm_Generation ob \<le> dm_ObservedGeneration ob then
        (if dm_Updated ob < dm_Desired ob then Inr ''UpdateWaiting''
         else if dm_Available ob < dm_Desired ob then Inr ''PodReadyWaiting''
         else PodInfo_GetStatus podInfo)
      else Inr ''ObservedWaiting'')"

section \<open>The workloads of a cluster\<close>

definition Deployment_GetPodInfo :: "pod_lister \<Rightarrow> workload \<Rightarrow> observed \<Rightarrow> string + pod_info" where
  "Deployment_GetPodInfo l d ob =
     sbind (wrap_err ''replicaset get raw pods'' (Deployment_GetRawPods l d)) (\<lambda>pods. Inr (getPodInfo (ob_Replicas ob) (ws_Replicas (wl_Spec d)) pods))"

definition Statefulset_GetPodInfo :: "pod_lister \<Rightarrow> workload \<Rightarrow> stateful_observed \<Rightarrow> string + pod_info" where
  "Statefulset_GetPodInfo l ss ob =
     sbind (wrap_err ''statefulset get raw pods'' (ls_pods l (om_Namespace (wl_Meta ss)))) (\<lambda>pods.
       Inr (getPodInfo (ob_Replicas ob) (ws_Replicas (wl_Spec ss)) (FilterPodsByControllerRef (wl_Meta ss) pods)))"

definition Daemonset_GetPodInfo :: "pod_lister \<Rightarrow> workload \<Rightarrow> daemon_observed \<Rightarrow> string + pod_info" where
  "Daemonset_GetPodInfo l ds ob =
     sbind (GetRawPodsByController l (wl_Meta ds)) (\<lambda>pods. Inr (getPodInfo (dm_Current ob) (Some (dm_Desired ob)) pods))"

text \<open>The status that is set from the remote object: the error of the client, of the pods, or the status.\<close>

definition set_by_remote :: "string option \<Rightarrow> string \<Rightarrow> string + pod_info \<Rightarrow> (pod_info \<Rightarrow> string go) \<Rightarrow> string validation" where
  "set_by_remote client msg info status =
     (case client of
        Some err \<Rightarrow> Inr (Inl (msg @ '': '' @ err))
      | None \<Rightarrow> (case info of Inl err \<Rightarrow> Inr (Inl (''get pod info: '' @ err)) | Inr i \<Rightarrow> gbind (status i) (\<lambda>s. Inr (Inr s))))"

definition Deployment_SetStatusByRemoteObject :: "string option \<Rightarrow> pod_lister \<Rightarrow> workload \<Rightarrow> observed \<Rightarrow> string validation" where
  "Deployment_SetStatusByRemoteObject client l d ob =
     set_by_remote client ''get deployment cluster client'' (Deployment_GetPodInfo l d ob) (\<lambda>i. gbind (GetDeploymentStatus i d ob) (\<lambda>r. Inr (ro_Status r)))"

definition Statefulset_SetStatusByRemoteObject :: "string option \<Rightarrow> pod_lister \<Rightarrow> workload \<Rightarrow> stateful_observed \<Rightarrow> string validation" where
  "Statefulset_SetStatusByRemoteObject client l ss ob =
     set_by_remote client ''get statefulset cluster client'' (Statefulset_GetPodInfo l ss ob) (\<lambda>i. GetStatefulSetStatus i ss ob)"

definition Daemonset_SetStatusByRemoteObject :: "string option \<Rightarrow> pod_lister \<Rightarrow> workload \<Rightarrow> daemon_observed \<Rightarrow> string validation" where
  "Daemonset_SetStatusByRemoteObject client l ds ob =
     set_by_remote client ''get daemonset cluster client'' (Daemonset_GetPodInfo l ds ob) (\<lambda>i. GetDaemonsetStatus i ob)"

section \<open>Jobs\<close>

text \<open>Conditions with type, status and message; the statuses of a job.\<close>

record job_detail =
  jd_JobStatus :: "string \<times> string"
  jd_Status :: string
  jd_Pods :: "pod_info option"

record job =
  jb_Meta :: object_meta
  jb_Completions :: "int option"
  jb_Active :: int
  jb_Succeeded :: int
  jb_Failed :: int
  jb_Conditions :: "(string \<times> string \<times> string) list"

fun job_status_loop :: "string \<times> string \<Rightarrow> (string \<times> string \<times> string) list \<Rightarrow> string \<times> string" where
  "job_status_loop st [] = st"
| "job_status_loop st ((what, holds, msg) # cs) =
     (if what = ''Complete'' \<and> holds = ''True'' then (''Complete'', snd st)
      else if what = ''Failed'' \<and> holds = ''True'' then (''Failed'', msg)
      else job_status_loop st cs)"

definition Job_GetPodInfo :: "string + pod list \<Rightarrow> job \<Rightarrow> string + pod_info" where
  "Job_GetPodInfo selected j =
     sbind (wrap_err ''job get raw pods'' selected) (\<lambda>pods.
       Inr ((getPodInfo (jb_Active j) (jb_Completions j) pods)\<lparr>pi_Running := jb_Active j, pi_Succeeded := jb_Succeeded j, pi_Failed := jb_Failed j\<rparr>))"

text \<open>The details are built before the conditions are read; what the loop finds stays in the local variable.\<close>

definition Job_GetDetails :: "string + pod list \<Rightarrow> job \<Rightarrow> job_detail \<times> (string \<times> string)" where
  "Job_GetDetails selected j =
     (let jobStatus = (''Running'', []);
          detail = \<lparr>jd_JobStatus = jobStatus, jd_Status = fst jobStatus, jd_Pods = None\<rparr>;
          jobStatus' = job_status_loop jobStatus (jb_Conditions j)
      in (case Job_GetPodInfo selected j of Inl _ \<Rightarrow> detail | Inr i \<Rightarrow> detail\<lparr>jd_Pods := Some i\<rparr>, jobStatus'))"

section \<open>What the statuses say\<close>

lemma count_phase_pos: "count_phase ph pods > 0 \<longleftrightarrow> (\<exists>p\<in>set pods. pd_Phase p = ph)"
  by (auto simp: count_phase_def filter_empty_conv)

lemma PodInfo_GetStatus_Running:
  "PodInfo_GetStatus (getPodInfo current (Some n) pods) = Inr ''Running'' \<longleftrightarrow>
     current \<noteq> 0 \<and> (\<forall>p\<in>set pods. pd_Phase p \<noteq> ''Failed'' \<and> pd_Phase p \<noteq> ''Pending'') \<and> count_phase ''Succeeded'' pods \<noteq> n \<and> count_phase ''Running'' pods = n"
  by (auto simp: PodInfo_GetStatus_def getPodInfo_def count_phase_pos)

lemma PodInfo_GetStatus_total: "\<exists>s. PodInfo_GetStatus (getPodInfo current (Some n) pods) = Inr s"
  by (simp add: PodInfo_GetStatus_def getPodInfo_def)


definition decides :: "string \<times> string \<times> string \<Rightarrow> bool" where
  "decides c = (case c of (what, holds, msg) \<Rightarrow> what \<in> {''Complete'', ''Failed''} \<and> holds = ''True'')"

lemma job_status_loop_find: "job_status_loop st cs = (case List.find decides cs of None \<Rightarrow> st | Some (what, _, msg) \<Rightarrow> (what, if what = ''Failed'' then msg else snd st))"
proof (induction cs)
  case (Cons c cs)
  obtain what holds msg where c: "c = (what, holds, msg)" by (cases c)
  show ?case
  proof (cases "decides c")
    case True
    then show ?thesis by (auto simp: c decides_def)
  next
    case False
    then have "job_status_loop st (c # cs) = job_status_loop st cs" by (auto simp: c decides_def)
    then show ?thesis using False Cons by simp
  qed
qed simp

text \<open>Whatever the conditions of a job are, it is reported running: the status that its conditions give, that of the first condition which says that it is complete or
  failed, is computed after the details were filled in.\<close>

theorem job_reported_running:
  "jd_Status (fst (Job_GetDetails selected j)) = ''Running'' \<and> jd_JobStatus (fst (Job_GetDetails selected j)) = (''Running'', []) \<and>
   snd (Job_GetDetails selected j) = (case List.find decides (jb_Conditions j) of
     None \<Rightarrow> (''Running'', []) | Some (what, _, msg) \<Rightarrow> (what, if what = ''Failed'' then msg else []))"
  by (simp add: Job_GetDetails_def Let_def job_status_loop_find split: sum.split option.split)

section \<open>A sample\<close>

definition sample_pod :: "string \<Rightarrow> pod" where
  "sample_pod name = \<lparr>pd_Meta = sample_meta\<lparr>om_Name := name, om_Controller := Some ''r1''\<rparr>, pd_Spec = sample_pods, pd_NodeName = ''n1'', pd_ReadinessGates = [],
     pd_Phase = ''Running'', pd_Reason = [], pd_Deleting = False, pd_InitStatuses = [\<lparr>cn_RestartCount = 1, cn_Ready = False, cn_Waiting = None, cn_Running = False,
       cn_Terminated = Some (''Completed'', 0, 0)\<rparr>],
     pd_Statuses = [\<lparr>cn_RestartCount = 0, cn_Ready = True, cn_Waiting = None, cn_Running = True, cn_Terminated = None\<rparr>], pd_NominatedNodeName = [], pd_Conditions = []\<rparr>"

theorem GetPodStatus_reference_witness: "pt_Status (GetPodStatus (sample_pod ''a'')) = ''Running'' \<and> pt_Restarts (GetPodStatus (sample_pod ''a'')) = 0"
  using GetPodStatus_reference [of _ "sample_pod ''a''", OF refl refl refl refl refl]
  by (simp add: sample_pod_def init_done_def counts_ready_def own_reason_def sum_restarts_def List.map_filter_def)

definition sample_lister :: pod_lister where
  "sample_lister = \<lparr>ls_pods = (\<lambda>_. Inr [sample_pod ''a'', sample_pod ''b'']),
     ls_replicaSets = (\<lambda>_ _. Inr [\<lparr>rs_Meta = sample_meta\<lparr>om_UID := ''r1'', om_Controller := Some []\<rparr>, rs_Replicas = Some 2, rs_Template = ws_Template sample_spec\<rparr>])\<rparr>"


end
