(* ===== verification/PodDetails.thy ===== *)
theory PodDetails
  imports WorkloadStatus
begin

text \<open>
  The details of pods, their events and the endpoints of services: src/pkg/models/pods.go, events.go and parts of helper.go. Quantities are whole numbers of their smallest unit; a
  map that is ranged over is a list in the order of the iteration; base64 and the quoting of strings are parameters. Shown: what is recorded as the requests and
  limits of a pod is its effective request; the warnings of pods keep one event for every reason of a pod that is not well; the config maps and secrets of a pod.
\<close>

section \<open>Requests and limits\<close>

type_synonym resources = "(string \<times> int) list"

definition add_resource :: "string \<times> int \<Rightarrow> (string \<rightharpoonup> int) \<Rightarrow> (string \<rightharpoonup> int)" where
  "add_resource = (\<lambda>(name, quantity) m. case m name of None \<Rightarrow> m(name \<mapsto> quantity) | Some value \<Rightarrow> m(name \<mapsto> value + quantity))"

definition max_resource :: "string \<times> int \<Rightarrow> (string \<rightharpoonup> int) \<Rightarrow> (string \<rightharpoonup> int)" where
  "max_resource = (\<lambda>(name, quantity) m.
     case m name of None \<Rightarrow> m(name \<mapsto> quantity) | Some value \<Rightarrow> if quantity > value then m(name \<mapsto> quantity) else m)"

text \<open>The resources of the containers and of the init containers, each with requests and limits.\<close>

record pod_resources =
  pr_Containers :: "(resources \<times> resources) list"
  pr_InitContainers :: "(resources \<times> resources) list"

definition sum_and_max :: "resources list \<Rightarrow> resources list \<Rightarrow> string \<rightharpoonup> int" where
  "sum_and_max cs ics = fold (\<lambda>rs m. fold max_resource rs m) ics (fold (\<lambda>rs m. fold add_resource rs m) cs Map.empty)"

text \<open>The two loops treat requests and limits alike and apart.\<close>

definition PodRequestsAndLimits :: "pod_resources \<Rightarrow> (string \<rightharpoonup> int) \<times> (string \<rightharpoonup> int)" where
  "PodRequestsAndLimits pod =
     (sum_and_max (map fst (pr_Containers pod)) (map fst (pr_InitContainers pod)),
      sum_and_max (map snd (pr_Containers pod)) (map snd (pr_InitContainers pod)))"

record pod_row =
  rw_CpuRequests :: int
  rw_CpuLimits :: int
  rw_MemoryRequests :: int
  rw_MemoryLimits :: int
  rw_Status :: string

definition quantity_of :: "(string \<rightharpoonup> int) \<Rightarrow> string \<Rightarrow> int" where
  "quantity_of m k = (case m k of None \<Rightarrow> 0 | Some q \<Rightarrow> q)"

definition Pod_UpdateFromRemoteObject :: "string option \<Rightarrow> pod_resources \<Rightarrow> pod_row \<Rightarrow> string + pod_row" where
  "Pod_UpdateFromRemoteObject base pod row =
     (case base of
        Some err \<Rightarrow> Inl err
      | None \<Rightarrow>
          let (reqs, limits) = PodRequestsAndLimits pod
          in Inr (row\<lparr>rw_CpuRequests := quantity_of reqs ''cpu'', rw_CpuLimits := quantity_of limits ''cpu'',
                      rw_MemoryRequests := quantity_of reqs ''memory'', rw_MemoryLimits := quantity_of limits ''memory''\<rparr>))"

definition Pod_SetStatusByRemoteObject :: "pod \<Rightarrow> pod_row \<Rightarrow> pod_row" where
  "Pod_SetStatusByRemoteObject pod row =
     (if pt_Status (GetPodStatus pod) \<noteq> rw_Status row then row\<lparr>rw_Status := pt_Status (GetPodStatus pod)\<rparr> else row)"

text \<open>What containers ask for of a resource.\<close>

definition asks :: "string \<Rightarrow> resources list \<Rightarrow> int list" where
  "asks name rss = List.map_filter (\<lambda>rs. map_of rs name) rss"

text \<open>Both loops merge a quantity into the map.\<close>

definition merge :: "(int \<Rightarrow> int \<Rightarrow> int) \<Rightarrow> string \<times> int \<Rightarrow> (string \<rightharpoonup> int) \<Rightarrow> (string \<rightharpoonup> int)" where
  "merge f p m = m(fst p \<mapsto> (case m (fst p) of None \<Rightarrow> snd p | Some v \<Rightarrow> f v (snd p)))"

lemma add_resource_merge: "add_resource = merge (+)" and max_resource_merge: "max_resource = merge max"
  by (auto simp: fun_eq_iff add_resource_def max_resource_def merge_def max_def split: option.split)

lemma fold_merge_one:
  "distinct (map fst rs) \<Longrightarrow>
   fold (merge f) rs m name = (case map_of rs name of None \<Rightarrow> m name | Some q \<Rightarrow> Some (case m name of None \<Rightarrow> q | Some v \<Rightarrow> f v q))"
proof (induction rs arbitrary: m)
  case (Cons p rs)
  have "map_of rs (fst p) = None" using Cons.prems by (simp add: map_of_eq_None_iff image_iff)
  then show ?case using Cons by (cases "name = fst p") (auto simp: merge_def)
qed simp

lemma fold_merge:
  assumes "\<forall>rs\<in>set rss. distinct (map fst rs)"
  shows "fold (\<lambda>rs m. fold (merge f) rs m) rss m name =
    (case m name of Some v \<Rightarrow> Some (fold (\<lambda>q v. f v q) (asks name rss) v)
     | None \<Rightarrow> (case asks name rss of [] \<Rightarrow> None | q # qs \<Rightarrow> Some (fold (\<lambda>q v. f v q) qs q)))"
  using assms
proof (induction rss arbitrary: m)
  case (Cons rs rss)
  have "fold (merge f) rs m name = (case map_of rs name of None \<Rightarrow> m name | Some q \<Rightarrow> Some (case m name of None \<Rightarrow> q | Some v \<Rightarrow> f v q))"
    using Cons.prems by (simp add: fold_merge_one)
  moreover have "asks name (rs # rss) = (case map_of rs name of None \<Rightarrow> asks name rss | Some q \<Rightarrow> q # asks name rss)"
    by (simp add: asks_def List.map_filter_simps split: option.split)
  ultimately show ?case using Cons by (cases "map_of rs name"; cases "m name") simp_all
qed (simp add: asks_def List.map_filter_def split: option.split)

lemma fold_max_ge: "(v :: int) \<le> fold (\<lambda>q v. max v q) qs v"
  by (induction qs arbitrary: v) (auto intro: order_trans [OF max.cobounded1])

lemma fold_max: "fold (\<lambda>q v. max v q) qs v = (if qs = [] then v else max v (Max (set qs)))" for v :: int
proof (induction qs arbitrary: v)
  case (Cons q qs)
  then show ?case by (cases "qs = []") (simp_all add: max.assoc)
qed simp

lemma fold_add: "fold (\<lambda>q v. v + q) qs v = v + sum_list qs" for v :: int
  by (induction qs arbitrary: v) auto

text \<open>The effective request of a pod: the sum over the containers or the largest of the init containers, whichever is larger.\<close>

definition effective :: "string \<Rightarrow> resources list \<Rightarrow> resources list \<Rightarrow> int option" where
  "effective name cs ics =
     (if asks name cs = [] \<and> asks name ics = [] then None else Some (Max (insert (sum_list (asks name cs)) (set (asks name ics)))))"

lemma sum_and_max_effective:
  assumes "\<forall>rs\<in>set cs \<union> set ics. distinct (map fst rs) \<and> (\<forall>(k, q)\<in>set rs. 0 \<le> q)"
  shows "sum_and_max cs ics name = effective name cs ics"
proof -
  have d: "\<forall>rs\<in>set cs. distinct (map fst rs)" "\<forall>rs\<in>set ics. distinct (map fst rs)" using assms by auto
  have nn: "\<forall>q\<in>set (asks name ics). 0 \<le> q"
  proof
    fix q
    assume "q \<in> set (asks name ics)"
    then obtain rs where rs: "rs \<in> set ics" "map_of rs name = Some q" by (auto simp: asks_def List.map_filter_def)
    then have "(name, q) \<in> set rs" by (simp add: map_of_SomeD)
    then show "0 \<le> q" using assms rs(1) by fastforce
  qed
  have s: "fold (\<lambda>rs m. fold add_resource rs m) cs Map.empty name = (if asks name cs = [] then None else Some (sum_list (asks name cs)))"
    using fold_merge [OF d(1), of "(+)" Map.empty] by (simp add: add_resource_merge fold_add split: list.split)
  have "sum_and_max cs ics name = (case (if asks name cs = [] then None else Some (sum_list (asks name cs))) of
      Some v \<Rightarrow> Some (fold (\<lambda>q v. max v q) (asks name ics) v)
    | None \<Rightarrow> (case asks name ics of [] \<Rightarrow> None | q # qs \<Rightarrow> Some (fold (\<lambda>q v. max v q) qs q)))"
    unfolding sum_and_max_def max_resource_merge using fold_merge [OF d(2)] by (simp add: s)
  also have "\<dots> = effective name cs ics"
  proof (cases "asks name cs = []")
    case True
    show ?thesis
    proof (cases "asks name ics")
      case (Cons q qs)
      then have "fold (\<lambda>q v. max v q) qs q = Max (set (asks name ics))" by (simp add: fold_max)
      moreover have "Max (insert 0 (set (asks name ics))) = max 0 (Max (set (asks name ics)))" using Cons by (simp add: Max_insert)
      moreover have "0 \<le> Max (set (asks name ics))" using nn Cons by (simp add: Max_ge_iff) 
      ultimately show ?thesis using True Cons by (simp add: effective_def)
    qed (use True in \<open>simp add: effective_def\<close>)
  next
    case False
    then show ?thesis by (auto simp: effective_def fold_max)
  qed
  finally show ?thesis .
qed

text \<open>C25: what is recorded of a pod is its effective request and limit of processors and memory, zero where no container names them.\<close>

theorem recorded_requests_effective:
  assumes "\<forall>(rq, li)\<in>set (pr_Containers pod) \<union> set (pr_InitContainers pod). distinct (map fst rq) \<and> distinct (map fst li) \<and> (\<forall>(k, q)\<in>set rq \<union> set li. 0 \<le> q)"
    "eff = (\<lambda>part name. case effective name (map part (pr_Containers pod)) (map part (pr_InitContainers pod)) of None \<Rightarrow> 0 | Some q \<Rightarrow> q)"
  shows "Pod_UpdateFromRemoteObject None pod row = Inr (row\<lparr>rw_CpuRequests := eff fst ''cpu'', rw_CpuLimits := eff snd ''cpu'',
    rw_MemoryRequests := eff fst ''memory'', rw_MemoryLimits := eff snd ''memory''\<rparr>)"
proof -
  have "sum_and_max (map fst (pr_Containers pod)) (map fst (pr_InitContainers pod)) name = effective name (map fst (pr_Containers pod)) (map fst (pr_InitContainers pod))"
    "sum_and_max (map snd (pr_Containers pod)) (map snd (pr_InitContainers pod)) name = effective name (map snd (pr_Containers pod)) (map snd (pr_InitContainers pod))" for name
    using assms(1) by (intro sum_and_max_effective; fastforce)+
  then show ?thesis by (simp add: Pod_UpdateFromRemoteObject_def PodRequestsAndLimits_def quantity_of_def assms(2))
qed

section \<open>Events\<close>

record involved =
  iv_Kind :: string
  iv_Namespace :: string
  iv_Name :: string
  iv_UID :: string

record event =
  en_Involved :: involved
  en_Reason :: string
  en_Type :: string
  en_Namespace :: string

definition FailedReasonPartials :: "string list" where
  "FailedReasonPartials = [''failed'', ''err'', ''exceeded'', ''invalid'', ''unhealthy'', ''mismatch'', ''insufficient'', ''conflict'', ''outof'', ''nil'', ''backoff'']"

definition isFailedReason :: "string \<Rightarrow> string list \<Rightarrow> bool" where
  "isFailedReason reason partials = list_ex (\<lambda>p. strings_Contains (ascii_lower reason) p) partials"

definition fillEventsType :: "event list \<Rightarrow> event list" where
  "fillEventsType es =
     map (\<lambda>e. if length (en_Type e) = 0 then e\<lparr>en_Type := (if isFailedReason (en_Reason e) FailedReasonPartials then ''Warning'' else ''Normal'')\<rparr> else e) es"

definition FilterEventsByUID :: "event list \<Rightarrow> string \<Rightarrow> event list" where
  "FilterEventsByUID es uid = fillEventsType (filter (\<lambda>e. iv_UID (en_Involved e) = uid) es)"

definition FilterEventsByKindName :: "event list \<Rightarrow> string \<Rightarrow> string \<Rightarrow> string \<Rightarrow> event list" where
  "FilterEventsByKindName es kind namespace name =
     fillEventsType (filter (\<lambda>e. iv_Kind (en_Involved e) = kind \<and> iv_Namespace (en_Involved e) = namespace \<and> iv_Name (en_Involved e) = name) es)"

definition FilterEventsByType :: "event list \<Rightarrow> string \<Rightarrow> event list" where
  "FilterEventsByType es eventType = (if length eventType = 0 \<or> length es = 0 then es else filter (\<lambda>e. en_Type e = eventType) es)"

fun ready_loop :: "(string \<times> string) list \<Rightarrow> bool" where
  "ready_loop [] = True"
| "ready_loop ((what, holds) # cs) = (if what = ''Ready'' \<and> holds = ''False'' then False else ready_loop cs)"

definition isReadyOrSucceededPod :: "pod \<Rightarrow> bool" where
  "isReadyOrSucceededPod pod =
     (if pd_Phase pod = ''Succeeded'' then True else if pd_Phase pod = ''Running'' then ready_loop (pd_Conditions pod) else False)"

definition filterEventsByPods :: "event list \<Rightarrow> pod list \<Rightarrow> event list" where
  "filterEventsByPods es pods =
     (if length pods = 0 \<or> length es = 0 then [] else filter (\<lambda>e. iv_UID (en_Involved e) \<in> set (map (om_UID \<circ> pd_Meta) pods)) es)"

fun remove_loop :: "string list \<Rightarrow> event list \<Rightarrow> event list" where
  "remove_loop visited [] = []"
| "remove_loop visited (e # es) =
     (if en_Reason e \<in> set visited then remove_loop visited es else e # remove_loop (en_Reason e # visited) es)"

definition removeDuplicates :: "event list \<Rightarrow> event list" where
  "removeDuplicates es = remove_loop [] es"

text \<open>The events of a namespace, or of all for the empty one.\<close>

definition GetRawEvents :: "(string \<Rightarrow> string + event list) \<Rightarrow> string \<Rightarrow> string + event list" where
  "GetRawEvents lister ns = lister ns"

definition GetRawEventsByPods :: "(string \<Rightarrow> string + event list) \<Rightarrow> pod list \<Rightarrow> string + event list" where
  "GetRawEventsByPods lister pods =
     (if length pods = 0 then Inr []
      else sbind (GetRawEvents lister []) (\<lambda>es. Inr (filter (\<lambda>e. iv_UID (en_Involved e) \<in> set (map (om_UID \<circ> pd_Meta) pods)) es)))"

definition GetRawWarningEventsByPods :: "(string \<Rightarrow> string + event list) \<Rightarrow> pod list \<Rightarrow> string + event list" where
  "GetRawWarningEventsByPods lister pods =
     sbind (GetRawEventsByPods lister pods) (\<lambda>podEvents.
       Inr (removeDuplicates (filterEventsByPods (FilterEventsByType podEvents ''Warning'') (filter (\<lambda>p. \<not> isReadyOrSucceededPod p) pods))))"

definition GetRawEventsByUID :: "(string \<Rightarrow> string + event list) \<Rightarrow> string \<Rightarrow> string + event list" where
  "GetRawEventsByUID lister uid = sbind (GetRawEvents lister []) (\<lambda>es. Inr (FilterEventsByUID es uid))"

definition GetRawEventsByResource :: "(string \<Rightarrow> string + event list) \<Rightarrow> string \<Rightarrow> string \<Rightarrow> string + event list" where
  "GetRawEventsByResource lister namespace resName =
     sbind (GetRawEvents lister namespace) (\<lambda>es. Inr (fillEventsType (filter (\<lambda>e. iv_Name (en_Involved e) = resName) es)))"

lemma ready_loop_iff: "ready_loop cs \<longleftrightarrow> (''Ready'', ''False'') \<notin> set cs"
  by (induction cs rule: ready_loop.induct) auto

lemma remove_loop_props:
  "distinct (map en_Reason (remove_loop vis es)) \<and> set (map en_Reason (remove_loop vis es)) = en_Reason ` set es - set vis \<and>
   subseq (remove_loop vis es) es \<and> set (remove_loop vis es) \<subseteq> set es"
proof (induction es arbitrary: vis)
  case (Cons e es)
  then show ?case by (cases "en_Reason e \<in> set vis") auto
qed simp

text \<open>The warnings of pods: when the events can be listed, they are events of the list, in its order; every one is a warning about one of the pods that has not succeeded
  and does not run ready; and each reason of such a warning appears exactly once.\<close>

theorem pod_warnings_complete:
  assumes "lister [] = Inr es"
    "bad = (\<lambda>e. en_Type e = ''Warning'' \<and> (\<exists>p\<in>set pods. om_UID (pd_Meta p) = iv_UID (en_Involved e) \<and> pd_Phase p \<noteq> ''Succeeded'' \<and>
       (pd_Phase p = ''Running'' \<longrightarrow> (''Ready'', ''False'') \<in> set (pd_Conditions p))))"
  shows "\<exists>ws. GetRawWarningEventsByPods lister pods = Inr ws \<and> subseq ws es \<and> (\<forall>w\<in>set ws. bad w) \<and> distinct (map en_Reason ws) \<and>
    en_Reason ` set ws = en_Reason ` {e \<in> set es. bad e}"
proof (cases "pods = []")
  case True
  then show ?thesis
    by (simp add: GetRawWarningEventsByPods_def GetRawEventsByPods_def sbind_def FilterEventsByType_def filterEventsByPods_def removeDuplicates_def assms(2))
next
  case False
  let ?failed = "filter (\<lambda>p. \<not> isReadyOrSucceededPod p) pods"
  have b: "bad e \<longleftrightarrow> en_Type e = ''Warning'' \<and> iv_UID (en_Involved e) \<in> (om_UID \<circ> pd_Meta) ` set ?failed" for e
  proof -
    have "\<not> isReadyOrSucceededPod p \<longleftrightarrow> pd_Phase p \<noteq> ''Succeeded'' \<and> (pd_Phase p = ''Running'' \<longrightarrow> (''Ready'', ''False'') \<in> set (pd_Conditions p))" for p
      by (simp add: isReadyOrSucceededPod_def ready_loop_iff)
    moreover have "x \<in> f ` set (filter Q ps) \<longleftrightarrow> (\<exists>p\<in>set ps. f p = x \<and> Q p)" for x and f :: "pod \<Rightarrow> string" and Q ps by auto
    ultimately show ?thesis by (simp only: assms(2) comp_apply)
  qed
  have f: "filterEventsByPods (FilterEventsByType (filter (\<lambda>e. iv_UID (en_Involved e) \<in> (om_UID \<circ> pd_Meta) ` set pods) es) ''Warning'') ?failed = filter bad es"
  proof -
    have "filterEventsByPods xs ?failed = filter (\<lambda>e. iv_UID (en_Involved e) \<in> (om_UID \<circ> pd_Meta) ` set ?failed) xs" for xs
      by (cases "?failed = []") (auto simp: filterEventsByPods_def)
    moreover have "FilterEventsByType xs ''Warning'' = filter (\<lambda>e. en_Type e = ''Warning'') xs" for xs
      by (simp add: FilterEventsByType_def)
    moreover have "(om_UID \<circ> pd_Meta) ` set ?failed \<subseteq> (om_UID \<circ> pd_Meta) ` set pods" by auto
    ultimately show ?thesis unfolding b by (simp only: filter_filter) (rule filter_cong, simp, blast)
  qed
  have r: "GetRawWarningEventsByPods lister pods = Inr (remove_loop [] (filter bad es))"
    using False f by (simp add: GetRawWarningEventsByPods_def GetRawEventsByPods_def GetRawEvents_def sbind_def assms(1) removeDuplicates_def)
  have "subseq (remove_loop [] (filter bad es)) es"
    using remove_loop_props [of "[]" "filter bad es"] subseq_filter_left subseq_order.trans by blast
  then show ?thesis using r remove_loop_props [of "[]" "filter bad es"] by auto
qed

section \<open>Config maps and secrets\<close>

text \<open>A config map or secret with its name and its entries, in the order in which they are ranged over.\<close>

record config =
  cf_Name :: string
  cf_Data :: labels

definition getPodResourceVolumes :: "(pod_volume \<Rightarrow> bool) \<Rightarrow> pod \<Rightarrow> pod_volume list" where
  "getPodResourceVolumes pred pod = filter pred (sp_Volumes (pd_Spec pod))"

definition GetPodSecretVolumes :: "pod \<Rightarrow> pod_volume list" where
  "GetPodSecretVolumes pod = getPodResourceVolumes (\<lambda>v. vl_Secret v \<noteq> None) pod"

definition GetPodConfigMapVolumes :: "pod \<Rightarrow> pod_volume list" where
  "GetPodConfigMapVolumes pod = getPodResourceVolumes (\<lambda>v. vl_ConfigMap v \<noteq> None) pod"

text \<open>For every volume that refers to the object it is appended, unless its name was seen.\<close>

fun volumes_loop :: "config \<Rightarrow> string list \<Rightarrow> string list \<Rightarrow> config list" where
  "volumes_loop c seen [] = []"
| "volumes_loop c seen (n # ns) =
     (if n = cf_Name c \<and> cf_Name c \<notin> set seen then c # volumes_loop c (cf_Name c # seen) ns else volumes_loop c seen ns)"

fun configs_loop :: "string list \<Rightarrow> string list \<Rightarrow> config list \<Rightarrow> config list" where
  "configs_loop seen ns [] = []"
| "configs_loop seen ns (c # cs) =
     (let found = volumes_loop c seen ns in found @ configs_loop (map cf_Name found @ seen) ns cs)"

definition GetConfigMapsForPod :: "pod \<Rightarrow> config list \<Rightarrow> config list" where
  "GetConfigMapsForPod pod cfgs = configs_loop [] (map (the \<circ> vl_ConfigMap) (GetPodConfigMapVolumes pod)) cfgs"

definition GetSecretsForPod :: "pod \<Rightarrow> config list \<Rightarrow> config list" where
  "GetSecretsForPod pod ss = configs_loop [] (map (the \<circ> vl_Secret) (GetPodSecretVolumes pod)) ss"

lemma volumes_loop_eq: "volumes_loop c seen ns = (if cf_Name c \<in> set ns \<and> cf_Name c \<notin> set seen then [c] else [])"
proof -
  have seen: "volumes_loop c seen ns = []" if "cf_Name c \<in> set seen" for seen ns
    using that by (induction ns) auto
  show ?thesis by (induction ns) (auto simp: seen)
qed

lemma configs_loop_eq:
  "distinct (map cf_Name cs) \<Longrightarrow> configs_loop seen ns cs = filter (\<lambda>c. cf_Name c \<in> set ns \<and> cf_Name c \<notin> set seen) cs"
proof (induction cs arbitrary: seen)
  case (Cons c cs)
  then have "cf_Name d \<noteq> cf_Name c" if "d \<in> set cs" for d using that by (auto simp: image_iff)
  then show ?case using Cons by (auto simp: volumes_loop_eq Let_def intro!: filter_cong)
qed simp

text \<open>The config maps and secrets of a pod are those of the namespace to which one of its volumes refers, each once and in the order of the list.\<close>

theorem configs_of_pod:
  assumes "distinct (map cf_Name cs)"
  shows "GetConfigMapsForPod pod cs = filter (\<lambda>c. \<exists>v\<in>set (sp_Volumes (pd_Spec pod)). vl_ConfigMap v = Some (cf_Name c)) cs \<and>
    GetSecretsForPod pod cs = filter (\<lambda>c. \<exists>v\<in>set (sp_Volumes (pd_Spec pod)). vl_Secret v = Some (cf_Name c)) cs"
proof -
  have "x \<in> (the \<circ> f) ` {v \<in> set vs. f v \<noteq> None} \<longleftrightarrow> (\<exists>v\<in>set vs. f v = Some x)" for x and f :: "pod_volume \<Rightarrow> string option" and vs
    by (force simp: image_iff)
  then show ?thesis using assms
    by (simp only: GetConfigMapsForPod_def GetSecretsForPod_def configs_loop_eq GetPodConfigMapVolumes_def GetPodSecretVolumes_def getPodResourceVolumes_def
        set_map set_filter) simp
qed

section \<open>Environments\<close>

datatype env_source =
    ConfigMapKeyRef string string
  | SecretKeyRef string string
  | ResourceFieldRef string
  | FieldRef string

datatype env_from = ConfigMapRef string string | SecretRef string string | NoRef

record env_var =
  nv_Name :: string
  nv_Value :: string
  nv_ValueFrom :: "env_source option"

text \<open>The encoding of secrets, the quotient of a resource of the container by its divisor, and the conversion of a path to an internal one.\<close>

record env_world =
  ew_base64 :: "string \<Rightarrow> string"
  ew_quote :: "string \<Rightarrow> string"
  ew_resource :: "string \<Rightarrow> int"
  ew_path :: "string \<Rightarrow> string option"

definition supported_resources :: "string list" where
  "supported_resources = [''limits.cpu'', ''limits.memory'', ''requests.cpu'', ''requests.memory'']"

definition extractContainerResourceValue :: "env_world \<Rightarrow> string \<Rightarrow> string + string" where
  "extractContainerResourceValue w resource =
     (if resource \<in> set supported_resources then Inr (show_int (ew_resource w resource)) else Inl (''Unsupported container resource : '' @ resource))"

definition FormatMap :: "env_world \<Rightarrow> labels \<Rightarrow> string" where
  "FormatMap w m = strings_Join (map (\<lambda>(k, v). k @ ''='' @ ew_quote w v) m) [CHR 10]"

definition ExtractFieldPathAsString :: "env_world \<Rightarrow> object_meta \<Rightarrow> string \<Rightarrow> string + string" where
  "ExtractFieldPathAsString w meta fieldPath =
     (if fieldPath = ''metadata.annotations'' then Inr (FormatMap w (the_labels (om_Annotations meta)))
      else if fieldPath = ''metadata.labels'' then Inr (FormatMap w (the_labels (om_Labels meta)))
      else if fieldPath = ''metadata.name'' then Inr (om_Name meta)
      else if fieldPath = ''metadata.namespace'' then Inr (om_Namespace meta)
      else Inl (''unsupported fieldPath: '' @ fieldPath))"

definition evalValueFrom :: "env_world \<Rightarrow> object_meta \<Rightarrow> config list \<Rightarrow> config list \<Rightarrow> env_source \<Rightarrow> string" where
  "evalValueFrom w meta cms ss src =
     (case src of
        ConfigMapKeyRef name key \<Rightarrow> (case List.find (\<lambda>c. cf_Name c = name) cms of Some c \<Rightarrow> map_get (cf_Data c) key | None \<Rightarrow> [])
      | SecretKeyRef name key \<Rightarrow> (case List.find (\<lambda>c. cf_Name c = name) ss of Some c \<Rightarrow> ew_base64 w (map_get (cf_Data c) key) | None \<Rightarrow> [])
      | ResourceFieldRef resource \<Rightarrow>
          (let v = (case extractContainerResourceValue w resource of Inl _ \<Rightarrow> [] | Inr x \<Rightarrow> x)
           in if v = ''0'' \<and> (resource = ''limits.cpu'' \<or> resource = ''limits.memory'') then ''node allocatable'' else v)
      | FieldRef path \<Rightarrow>
          (case ew_path w path of
             None \<Rightarrow> []
           | Some p \<Rightarrow> (case ExtractFieldPathAsString w meta p of Inl _ \<Rightarrow> [] | Inr v \<Rightarrow> v)))"

definition env_of_source :: "env_world \<Rightarrow> config list \<Rightarrow> config list \<Rightarrow> env_from \<Rightarrow> env_var list" where
  "env_of_source w cms ss src =
     (case src of
        ConfigMapRef name pre \<Rightarrow>
          (case List.find (\<lambda>c. cf_Name c = name) cms of
             None \<Rightarrow> []
           | Some c \<Rightarrow> map (\<lambda>(k, v). \<lparr>nv_Name = pre @ k, nv_Value = v, nv_ValueFrom = Some (ConfigMapKeyRef name k)\<rparr>) (cf_Data c))
      | SecretRef name pre \<Rightarrow>
          (case List.find (\<lambda>c. cf_Name c = name) ss of
             None \<Rightarrow> []
           | Some c \<Rightarrow> map (\<lambda>(k, v). \<lparr>nv_Name = pre @ k, nv_Value = ew_base64 w v, nv_ValueFrom = Some (SecretKeyRef name k)\<rparr>) (cf_Data c))
      | NoRef \<Rightarrow> [])"

definition evalEnvFrom :: "env_world \<Rightarrow> config list \<Rightarrow> config list \<Rightarrow> env_from list \<Rightarrow> env_var list" where
  "evalEnvFrom w cms ss sources = concat (map (env_of_source w cms ss) sources)"

definition container_env :: "env_world \<Rightarrow> object_meta \<Rightarrow> config list \<Rightarrow> config list \<Rightarrow> env_var list \<Rightarrow> env_from list \<Rightarrow> env_var list" where
  "container_env w meta cms ss vars sources =
     map (\<lambda>v. case nv_ValueFrom v of None \<Rightarrow> v | Some src \<Rightarrow> v\<lparr>nv_Value := evalValueFrom w meta cms ss src\<rparr>) vars @ evalEnvFrom w cms ss sources"

text \<open>The variables taken from whole config maps and secrets carry references that evaluate to their values.\<close>

lemma evalEnvFrom_values:
  assumes "\<forall>c\<in>set cms \<union> set ss. distinct (map fst (cf_Data c))" "v \<in> set (evalEnvFrom w cms ss sources)"
  shows "\<exists>src. nv_ValueFrom v = Some src \<and> nv_Value v = evalValueFrom w meta cms ss src"
proof -
  have g: "map_get (cf_Data c) k = x" if "(k, x) \<in> set (cf_Data c)" "distinct (map fst (cf_Data c))" for c k x
    using that by (simp add: map_get_def)
  have f: "c \<in> set cs" if "List.find (\<lambda>c. cf_Name c = n) cs = Some c" for n cs and c :: config
    using that by (auto simp: find_Some_iff)
  obtain src where src: "v \<in> set (env_of_source w cms ss src)" using assms(2) by (auto simp: evalEnvFrom_def)
  show ?thesis
  proof (cases src)
    case (ConfigMapRef n pre)
    then obtain c where "List.find (\<lambda>c. cf_Name c = n) cms = Some c"
        "v \<in> set (map (\<lambda>(k, v). \<lparr>nv_Name = pre @ k, nv_Value = v, nv_ValueFrom = Some (ConfigMapKeyRef n k)\<rparr>) (cf_Data c))"
      using src by (cases "List.find (\<lambda>c. cf_Name c = n) cms") (simp_all add: env_of_source_def)
    then show ?thesis using assms(1) f by (auto simp: evalValueFrom_def g)
  next
    case (SecretRef n pre)
    then obtain c where "List.find (\<lambda>c. cf_Name c = n) ss = Some c"
        "v \<in> set (map (\<lambda>(k, v). \<lparr>nv_Name = pre @ k, nv_Value = ew_base64 w v, nv_ValueFrom = Some (SecretKeyRef n k)\<rparr>) (cf_Data c))"
      using src by (cases "List.find (\<lambda>c. cf_Name c = n) ss") (simp_all add: env_of_source_def)
    then show ?thesis using assms(1) f by (auto simp: evalValueFrom_def g)
  qed (use src in \<open>simp add: env_of_source_def\<close>)
qed

section \<open>Endpoints\<close>

record endpoint =
  ep_Host :: string
  ep_Ports :: "(int \<times> string \<times> int) list"

record service_object =
  sv_Name :: string
  sv_Namespace :: string
  sv_Type :: string
  sv_Ports :: "(int \<times> string \<times> int) list"
  sv_Ingress :: "(string \<times> string) list"
  sv_ExternalIPs :: "string list"

definition GetInternalEndpoint :: "string \<Rightarrow> string \<Rightarrow> (int \<times> string \<times> int) list \<Rightarrow> endpoint" where
  "GetInternalEndpoint serviceName namespace ports =
     \<lparr>ep_Host = (if namespace \<noteq> ''default'' \<and> length namespace > 0 \<and> length serviceName > 0 then serviceName @ ''.'' @ namespace else serviceName),
      ep_Ports = ports\<rparr>"

text \<open>An ingress has a host name and an address.\<close>

definition getExternalEndpoint :: "string \<times> string \<Rightarrow> (int \<times> string \<times> int) list \<Rightarrow> endpoint" where
  "getExternalEndpoint ingress ports = \<lparr>ep_Host = (if fst ingress \<noteq> [] then fst ingress else snd ingress), ep_Ports = ports\<rparr>"

definition GetExternalEndpoints :: "service_object \<Rightarrow> endpoint list" where
  "GetExternalEndpoints svc =
     (if sv_Type svc = ''LoadBalancer'' then map (\<lambda>i. getExternalEndpoint i (sv_Ports svc)) (sv_Ingress svc) else []) @
     map (\<lambda>ip. \<lparr>ep_Host = ip, ep_Ports = sv_Ports svc\<rparr>) (sv_ExternalIPs svc)"

text \<open>The services that select exactly the labels.\<close>

definition GetRawServicesByMatchLabels :: "string + service list \<Rightarrow> labels option \<Rightarrow> string + service list" where
  "GetRawServicesByMatchLabels listed matchLabels = sbind listed (\<lambda>svcs. Inr (filter (\<lambda>s. sc_Selector s = matchLabels) svcs))"

section \<open>Samples\<close>

definition sample_resources :: pod_resources where
  "sample_resources = \<lparr>pr_Containers = [([(''cpu'', 200), (''memory'', 64)], []), ([(''cpu'', 300)], [(''cpu'', 500)])],
     pr_InitContainers = [([(''cpu'', 400), (''memory'', 128)], [])]\<rparr>"

theorem recorded_requests_effective_witness:
  "Pod_UpdateFromRemoteObject None sample_resources \<lparr>rw_CpuRequests = 0, rw_CpuLimits = 0, rw_MemoryRequests = 0, rw_MemoryLimits = 0, rw_Status = []\<rparr> =
     Inr \<lparr>rw_CpuRequests = 500, rw_CpuLimits = 500, rw_MemoryRequests = 128, rw_MemoryLimits = 0, rw_Status = []\<rparr>"
  using recorded_requests_effective [of sample_resources _ "\<lparr>rw_CpuRequests = 0, rw_CpuLimits = 0, rw_MemoryRequests = 0, rw_MemoryLimits = 0, rw_Status = []\<rparr>",
      OF _ refl]
  by (simp add: sample_resources_def effective_def asks_def List.map_filter_simps)

definition sample_event :: "string \<Rightarrow> string \<Rightarrow> event" where
  "sample_event uid reason = \<lparr>en_Involved = \<lparr>iv_Kind = ''Pod'', iv_Namespace = ''apps'', iv_Name = ''web'', iv_UID = uid\<rparr>, en_Reason = reason, en_Type = ''Warning'',
     en_Namespace = ''apps''\<rparr>"

theorem pod_warnings_complete_witness:
  "\<exists>ws. GetRawWarningEventsByPods (\<lambda>_. Inr [sample_event [] ''BackOff'', sample_event [] ''BackOff'', sample_event ''u2'' ''Failed'']) [(sample_pod ''a'')\<lparr>pd_Phase := ''Pending''\<rparr>] =
     Inr ws \<and> en_Reason ` set ws = {''BackOff''} \<and> distinct (map en_Reason ws)"
proof -
  have "om_UID (pd_Meta ((sample_pod ''a'')\<lparr>pd_Phase := ''Pending''\<rparr>)) = []" by (simp add: sample_pod_def sample_meta_def)
  moreover have "iv_UID (en_Involved (sample_event u r)) = u" "en_Reason (sample_event u r) = r" "en_Type (sample_event u r) = ''Warning''" for u r
    by (simp_all add: sample_event_def)
  ultimately have s: "en_Reason ` {e \<in> set [sample_event [] ''BackOff'', sample_event [] ''BackOff'', sample_event ''u2'' ''Failed''].
      en_Type e = ''Warning'' \<and> (\<exists>p\<in>set [(sample_pod ''a'')\<lparr>pd_Phase := ''Pending''\<rparr>]. om_UID (pd_Meta p) = iv_UID (en_Involved e) \<and> pd_Phase p \<noteq> ''Succeeded'' \<and>
        (pd_Phase p = ''Running'' \<longrightarrow> (''Ready'', ''False'') \<in> set (pd_Conditions p)))} = {''BackOff''}"
    by (auto simp: image_iff) (rule exI [of _ "sample_event [] ''BackOff''"], simp)
  show ?thesis
    using pod_warnings_complete [where lister = "\<lambda>_. Inr [sample_event [] ''BackOff'', sample_event [] ''BackOff'', sample_event ''u2'' ''Failed'']"
        and pods = "[(sample_pod ''a'')\<lparr>pd_Phase := ''Pending''\<rparr>]", OF refl refl] unfolding s
    by (elim exE conjE) (intro exI conjI, assumption+)
qed

theorem configs_of_pod_witness:
  "GetConfigMapsForPod ((sample_pod ''a'')\<lparr>pd_Spec := sample_pods\<lparr>sp_Volumes := [\<lparr>vl_Name = ''v'', vl_Claim = None, vl_ConfigMap = Some ''c2'', vl_Secret = None\<rparr>]\<rparr>\<rparr>)
     [\<lparr>cf_Name = ''c1'', cf_Data = []\<rparr>, \<lparr>cf_Name = ''c2'', cf_Data = []\<rparr>] = [\<lparr>cf_Name = ''c2'', cf_Data = []\<rparr>]"
  using configs_of_pod [of "[\<lparr>cf_Name = ''c1'', cf_Data = []\<rparr>, \<lparr>cf_Name = ''c2'', cf_Data = []\<rparr>]"
      "(sample_pod ''a'')\<lparr>pd_Spec := sample_pods\<lparr>sp_Volumes := [\<lparr>vl_Name = ''v'', vl_Claim = None, vl_ConfigMap = Some ''c2'', vl_Secret = None\<rparr>]\<rparr>\<rparr>"]
  by simp

end
