(* ===== verification/Nodes.thy ===== *)
theory Nodes
  imports Complex_Main PodDetails
begin

text \<open>
  The nodes of clusters: src/pkg/models/nodes.go, the node of a pod (src/pkg/models/pods.go) and the usage of clusters
  (src/pkg/api/usage.go, \<open>Usage\<close> of src/pkg/models/clusters.go). A quantity is a whole number of thousandths of its unit, so \<open>MilliValue\<close>
  reads it as it is and \<open>Value\<close> rounds up; the fields of a usage are signed numbers of 64 bits and their sums wrap around; fractions are exact
  rational numbers, the rounding of floating point is left out. Shown: the usage counts every pod with a node of the clusters once, is exact below
  the bound of 64 bits, and never counts a pod that had no node when it was recorded; the allocated resources of a node are sums of effective
  requests; of several cordons and uncordons the last decides.
\<close>

section \<open>Remote nodes and their rows\<close>

record taint =
  tt_Key :: string
  tt_Value :: string
  tt_Effect :: string

record kube_node =
  kn_Name :: string
  kn_Conditions :: "(string \<times> string) list"
  kn_Addresses :: "(string \<times> string) list"
  kn_NodeInfo :: string
  kn_Capacity :: "string \<rightharpoonup> int"
  kn_Images :: "string list list"
  kn_Phase :: string
  kn_PodCIDR :: string
  kn_ProviderID :: string
  kn_Taints :: "taint list"
  kn_Unschedulable :: bool

record node_row =
  nr_Id :: string
  nr_ClusterId :: string
  nr_Status :: string
  nr_Address :: "(string \<times> string) list"
  nr_NodeInfo :: string
  nr_CpuCapacity :: int
  nr_MemoryCapacity :: int
  nr_PodCapacity :: int

definition MilliValue :: "int \<Rightarrow> int" where
  "MilliValue q = q"

definition QuantityValue :: "int \<Rightarrow> int" where
  "QuantityValue q = - ((- q) div 1000)"

definition Node_ValidateCreateData :: "string + kube_node" where
  "Node_ValidateCreateData = Inl ''Not support node create''"

fun getNodeConditionStatus :: "(string \<times> string) list \<Rightarrow> string \<Rightarrow> string" where
  "getNodeConditionStatus [] conditionType = ''Unknown''"
| "getNodeConditionStatus ((t, status) # cs) conditionType = (if t = conditionType then status else getNodeConditionStatus cs conditionType)"

definition Node_getStatusFromRemote :: "kube_node \<Rightarrow> string" where
  "Node_getStatusFromRemote n = (if getNodeConditionStatus (kn_Conditions n) ''Ready'' = ''True'' then ''Ready'' else ''NotReady'')"

definition updateCapacity :: "kube_node \<Rightarrow> node_row \<Rightarrow> node_row" where
  "updateCapacity n row =
     row\<lparr>nr_CpuCapacity := MilliValue (quantity_of (kn_Capacity n) ''cpu''),
         nr_MemoryCapacity := MilliValue (quantity_of (kn_Capacity n) ''memory''),
         nr_PodCapacity := QuantityValue (quantity_of (kn_Capacity n) ''pods'')\<rparr>"

text \<open>The error of the base class comes first.\<close>

definition Node_UpdateFromRemoteObject :: "string option \<Rightarrow> kube_node \<Rightarrow> node_row \<Rightarrow> string + node_row" where
  "Node_UpdateFromRemoteObject base n row =
     (case base of
        Some err \<Rightarrow> Inl err
      | None \<Rightarrow> Inr (updateCapacity n (row\<lparr>nr_Address := kn_Addresses n, nr_NodeInfo := kn_NodeInfo n\<rparr>)))"

definition Node_SetStatusByRemoteObject :: "kube_node \<Rightarrow> node_row \<Rightarrow> node_row" where
  "Node_SetStatusByRemoteObject n row = row\<lparr>nr_Status := Node_getStatusFromRemote n\<rparr>"

section \<open>The node of a pod\<close>

record pod_db = pod_row +
  pb_ClusterId :: string
  pb_NodeId :: string

text \<open>\<open>model\<close> is the result of the base class, \<open>byName\<close> looks a node up by its cluster and name and gives its id.\<close>

definition Pod_NewFromRemoteObject :: "string + pod_db \<Rightarrow> (string \<Rightarrow> string \<Rightarrow> string + string) \<Rightarrow> pod \<Rightarrow> string + pod_db" where
  "Pod_NewFromRemoteObject model byName kPod =
     sbind model (\<lambda>podObj.
       if pd_NodeName kPod \<noteq> [] then
         (case byName (pb_ClusterId podObj) (pd_NodeName kPod) of
            Inl err \<Rightarrow> Inl (''fetch pod's node by name: '' @ pd_NodeName kPod @ '': '' @ err)
          | Inr nodeId \<Rightarrow> Inr (podObj\<lparr>pb_NodeId := nodeId\<rparr>))
       else Inr podObj)"

text \<open>An update and a new status of the row: the two methods work on the fields of \<^typ>\<open>pod_row\<close>.\<close>

definition pod_refresh :: "pod_resources \<Rightarrow> pod \<Rightarrow> pod_db \<Rightarrow> pod_db" where
  "pod_refresh rs pod row =
     (case Pod_UpdateFromRemoteObject None rs (pod_row.truncate row) of
        Inl err \<Rightarrow> row
      | Inr r \<Rightarrow>
          let s = Pod_SetStatusByRemoteObject pod r
          in row\<lparr>rw_CpuRequests := rw_CpuRequests s, rw_CpuLimits := rw_CpuLimits s, rw_MemoryRequests := rw_MemoryRequests s,
                 rw_MemoryLimits := rw_MemoryLimits s, rw_Status := rw_Status s\<rparr>)"

section \<open>Usage\<close>

type_synonym int64 = "64 word"

record memory_usage =
  mu_Capacity :: int64
  mu_Request :: int64
  mu_Limit :: int64

record cpu_usage =
  cu_Capacity :: int64
  cu_Request :: int64
  cu_Limit :: int64

record pod_usage =
  pu_Capacity :: int64
  pu_Count :: int64

record node_usage =
  nu_Memory :: memory_usage
  nu_Cpu :: cpu_usage
  nu_Pod :: pod_usage
  nu_Count :: int64
  nu_ReadyCount :: int64
  nu_NotReadyCount :: int64

record cluster_usage =
  us_Node :: node_usage
  us_Count :: int64

definition MemoryUsage_Add :: "memory_usage \<Rightarrow> memory_usage \<Rightarrow> memory_usage" where
  "MemoryUsage_Add u ou = u\<lparr>mu_Capacity := mu_Capacity u + mu_Capacity ou, mu_Request := mu_Request u + mu_Request ou, mu_Limit := mu_Limit u + mu_Limit ou\<rparr>"

definition CpuUsage_Add :: "cpu_usage \<Rightarrow> cpu_usage \<Rightarrow> cpu_usage" where
  "CpuUsage_Add u ou = u\<lparr>cu_Capacity := cu_Capacity u + cu_Capacity ou, cu_Request := cu_Request u + cu_Request ou, cu_Limit := cu_Limit u + cu_Limit ou\<rparr>"

definition PodUsage_Add :: "pod_usage \<Rightarrow> pod_usage \<Rightarrow> pod_usage" where
  "PodUsage_Add u ou = u\<lparr>pu_Capacity := pu_Capacity u + pu_Capacity ou, pu_Count := pu_Count u + pu_Count ou\<rparr>"

definition NodeUsage_Add :: "node_usage \<Rightarrow> node_usage \<Rightarrow> node_usage" where
  "NodeUsage_Add u ou =
     u\<lparr>nu_Memory := MemoryUsage_Add (nu_Memory u) (nu_Memory ou), nu_Cpu := CpuUsage_Add (nu_Cpu u) (nu_Cpu ou), nu_Pod := PodUsage_Add (nu_Pod u) (nu_Pod ou),
       nu_Count := nu_Count u + nu_Count ou, nu_ReadyCount := nu_ReadyCount u + nu_ReadyCount ou, nu_NotReadyCount := nu_NotReadyCount u + nu_NotReadyCount ou\<rparr>"

definition NewNodeUsage :: node_usage where
  "NewNodeUsage =
     \<lparr>nu_Memory = \<lparr>mu_Capacity = 0, mu_Request = 0, mu_Limit = 0\<rparr>, nu_Cpu = \<lparr>cu_Capacity = 0, cu_Request = 0, cu_Limit = 0\<rparr>,
      nu_Pod = \<lparr>pu_Capacity = 0, pu_Count = 0\<rparr>, nu_Count = 0, nu_ReadyCount = 0, nu_NotReadyCount = 0\<rparr>"

text \<open>\<open>None\<close> is a query that fails.\<close>

definition GetResourcesByClusters :: "('r \<Rightarrow> string) \<Rightarrow> 'r list option \<Rightarrow> string list \<Rightarrow> string + 'r list" where
  "GetResourcesByClusters cluster_of rows clusterIds =
     (case rows of None \<Rightarrow> Inl ''fetch resources by clusters'' | Some rs \<Rightarrow> Inr (filter (\<lambda>r. cluster_of r \<in> set clusterIds) rs))"

definition GetPodsByClusters :: "pod_db list option \<Rightarrow> string list \<Rightarrow> string + pod_db list" where
  "GetPodsByClusters = GetResourcesByClusters pb_ClusterId"

definition GetNodesByClusters :: "node_row list option \<Rightarrow> string list \<Rightarrow> string + node_row list" where
  "GetNodesByClusters = GetResourcesByClusters nr_ClusterId"

definition getNodePods :: "node_row \<Rightarrow> pod_db list \<Rightarrow> pod_db list" where
  "getNodePods node pods = filter (\<lambda>p. pb_NodeId p = nr_Id node) pods"

definition fillUsage :: "pod_db list \<Rightarrow> node_usage \<Rightarrow> node_usage" where
  "fillUsage pods nu =
     fold (\<lambda>p nu. nu\<lparr>nu_Memory := (nu_Memory nu)\<lparr>mu_Request := mu_Request (nu_Memory nu) + of_int (rw_MemoryRequests p),
                                                  mu_Limit := mu_Limit (nu_Memory nu) + of_int (rw_MemoryLimits p)\<rparr>,
                      nu_Cpu := (nu_Cpu nu)\<lparr>cu_Request := cu_Request (nu_Cpu nu) + of_int (rw_CpuRequests p),
                                            cu_Limit := cu_Limit (nu_Cpu nu) + of_int (rw_CpuLimits p)\<rparr>\<rparr>) pods nu"

definition each_usage :: "pod_db list \<Rightarrow> node_row \<Rightarrow> node_usage" where
  "each_usage pods node =
     (let nPods = getNodePods node pods;
          nu = NewNodeUsage\<lparr>nu_Count := 1\<rparr>;
          nu = (if nr_Status node = ''Ready'' then nu\<lparr>nu_ReadyCount := 1\<rparr> else nu\<lparr>nu_NotReadyCount := 1\<rparr>);
          nu = nu\<lparr>nu_Memory := \<lparr>mu_Capacity = of_int (nr_MemoryCapacity node), mu_Request = 0, mu_Limit = 0\<rparr>,
                  nu_Cpu := \<lparr>cu_Capacity = of_int (nr_CpuCapacity node), cu_Request = 0, cu_Limit = 0\<rparr>,
                  nu_Pod := \<lparr>pu_Capacity = of_int (nr_PodCapacity node), pu_Count = of_nat (length nPods)\<rparr>\<rparr>
      in fillUsage nPods nu)"

definition Node_Usage :: "node_row list option \<Rightarrow> pod_db list option \<Rightarrow> string list \<Rightarrow> string + node_usage" where
  "Node_Usage nodes pods clusterIds =
     sbind (GetPodsByClusters pods clusterIds) (\<lambda>ps.
     sbind (GetNodesByClusters nodes clusterIds) (\<lambda>ns.
       Inr (fold (\<lambda>each total. NodeUsage_Add total each) (map (each_usage ps) ns) NewNodeUsage)))"

datatype usage_scope = ScopeSystem | ScopeDomain | ScopeProject | ScopeUser | ScopeNone

fun scopeScore :: "usage_scope \<Rightarrow> nat" where
  "scopeScore ScopeSystem = 4"
| "scopeScore ScopeDomain = 3"
| "scopeScore ScopeProject = 2"
| "scopeScore ScopeUser = 1"
| "scopeScore ScopeNone = 0"

record usage_cluster =
  uc_Id :: string
  uc_DomainId :: string
  uc_IsSystem :: "bool option"

definition usageClusters :: "usage_cluster list option \<Rightarrow> usage_scope \<Rightarrow> string \<Rightarrow> bool \<Rightarrow> string + string list" where
  "usageClusters rows scope domain isSystem =
     (case rows of
        None \<Rightarrow> Inl ''query cluster usage''
      | Some cs \<Rightarrow>
          Inr (map uc_Id (filter (\<lambda>c. (if isSystem then uc_IsSystem c = Some True else uc_IsSystem c \<noteq> Some True) \<and>
                                      (case scope of ScopeDomain \<Rightarrow> uc_DomainId c = domain | _ \<Rightarrow> True)) cs)))"

definition Cluster_Usage ::
  "usage_cluster list option \<Rightarrow> node_row list option \<Rightarrow> pod_db list option \<Rightarrow> usage_scope \<Rightarrow> string \<Rightarrow> bool \<Rightarrow> string + cluster_usage" where
  "Cluster_Usage clusters nodes pods scope domain isSystem =
     sbind (usageClusters clusters scope domain isSystem) (\<lambda>ids.
     sbind (wrap_err ''get node usage'' (Node_Usage nodes pods ids)) (\<lambda>nu.
       Inr \<lparr>us_Node = nu, us_Count = of_nat (length ids)\<rparr>))"

text \<open>The report of the API; \<open>getUsage\<close> is the same for the three parts and has the scope of the request.\<close>

record global_usage =
  gu_All :: "cluster_usage option"
  gu_Domain :: "cluster_usage option"
  gu_Project :: "cluster_usage option"

definition part_of_report :: "bool \<Rightarrow> string + cluster_usage \<Rightarrow> string + cluster_usage option" where
  "part_of_report wanted u = (if wanted then map_sum id Some u else Inr None)"

definition DoReportUsage ::
  "usage_cluster list option \<Rightarrow> node_row list option \<Rightarrow> pod_db list option \<Rightarrow> usage_scope \<Rightarrow> string \<Rightarrow> bool \<Rightarrow> string + global_usage" where
  "DoReportUsage clusters nodes pods scope domain isSystem =
     (let getUsage = (\<lambda>scope. wrap_err ''get scope usage'' (Cluster_Usage clusters nodes pods scope domain isSystem))
      in sbind (part_of_report (scope = ScopeSystem) (getUsage scope)) (\<lambda>al.
         sbind (part_of_report (scopeScore scope > scopeScore ScopeDomain) (getUsage scope)) (\<lambda>dom.
         sbind (part_of_report (scopeScore scope \<ge> scopeScore ScopeProject) (getUsage scope)) (\<lambda>prj.
           Inr \<lparr>gu_All = al, gu_Domain = dom, gu_Project = prj\<rparr>))))"

subsection \<open>What a usage sums up\<close>

lemma sum_by_node:
  fixes q :: "pod_db \<Rightarrow> int"
  assumes "distinct (map nr_Id ns)"
  shows "(\<Sum>n\<leftarrow>ns. sum_list (map q (getNodePods n ps))) = sum_list (map q (filter (\<lambda>p. pb_NodeId p \<in> nr_Id ` set ns) ps))"
  using assms
proof (induction ns)
  case (Cons n ns)
  have "sum_list (map q (filter (\<lambda>p. pb_NodeId p \<in> nr_Id ` set (n # ns)) ps)) =
      sum_list (map q (getNodePods n ps)) + sum_list (map q (filter (\<lambda>p. pb_NodeId p \<in> nr_Id ` set ns) ps))"
    using Cons.prems by (induction ps) (auto simp: getNodePods_def)
  then show ?case using Cons by simp
qed simp

text \<open>A field of the usage is a sum: every node brings something of its own and something for each of its pods.\<close>

locale usage_field =
  fixes f :: "node_usage \<Rightarrow> int64" and own :: "node_row \<Rightarrow> int" and per_pod :: "pod_db \<Rightarrow> int"
  assumes new: "f NewNodeUsage = 0"
    and add: "f (NodeUsage_Add t e) = f t + f e"
    and each: "f (each_usage ps n) = of_int (own n + sum_list (map per_pod (getNodePods n ps)))"
begin

lemma fold_field: "f (fold (\<lambda>each total. NodeUsage_Add total each) us t) = f t + sum_list (map f us)"
  by (induction us arbitrary: t) (simp_all add: add)

lemma sum_each: "sum_list (map f (map (each_usage ps) ns)) = of_int (\<Sum>n\<leftarrow>ns. own n + sum_list (map per_pod (getNodePods n ps)))"
  by (induction ns) (simp_all add: each)

lemma total:
  assumes "distinct (map nr_Id ns)"
  shows "f (fold (\<lambda>each total. NodeUsage_Add total each) (map (each_usage ps) ns) NewNodeUsage) =
    of_int (sum_list (map own ns) + sum_list (map per_pod (filter (\<lambda>p. pb_NodeId p \<in> nr_Id ` set ns) ps)))"
  unfolding fold_field new sum_each sum_list_addf sum_by_node [OF assms] by simp

end

lemma fill_fields:
  "mu_Capacity (nu_Memory (fillUsage ps nu)) = mu_Capacity (nu_Memory nu)"
  "mu_Request (nu_Memory (fillUsage ps nu)) = mu_Request (nu_Memory nu) + of_int (sum_list (map rw_MemoryRequests ps))"
  "mu_Limit (nu_Memory (fillUsage ps nu)) = mu_Limit (nu_Memory nu) + of_int (sum_list (map rw_MemoryLimits ps))"
  "cu_Capacity (nu_Cpu (fillUsage ps nu)) = cu_Capacity (nu_Cpu nu)"
  "cu_Request (nu_Cpu (fillUsage ps nu)) = cu_Request (nu_Cpu nu) + of_int (sum_list (map rw_CpuRequests ps))"
  "cu_Limit (nu_Cpu (fillUsage ps nu)) = cu_Limit (nu_Cpu nu) + of_int (sum_list (map rw_CpuLimits ps))"
  "nu_Pod (fillUsage ps nu) = nu_Pod nu" "nu_Count (fillUsage ps nu) = nu_Count nu"
  "nu_ReadyCount (fillUsage ps nu) = nu_ReadyCount nu" "nu_NotReadyCount (fillUsage ps nu) = nu_NotReadyCount nu"
  unfolding fillUsage_def by (induction ps arbitrary: nu) simp_all

lemmas usage_defs = NewNodeUsage_def NodeUsage_Add_def MemoryUsage_Add_def CpuUsage_Add_def PodUsage_Add_def each_usage_def Let_def fill_fields

lemma count_pods: "sum_list (map (\<lambda>_. 1) ps) = int (length ps)"
  by (induction ps) simp_all

interpretation mem_capacity: usage_field "\<lambda>u. mu_Capacity (nu_Memory u)" nr_MemoryCapacity "\<lambda>_. 0"
  by unfold_locales (simp_all add: usage_defs)

interpretation mem_request: usage_field "\<lambda>u. mu_Request (nu_Memory u)" "\<lambda>_. 0" rw_MemoryRequests
  by unfold_locales (simp_all add: usage_defs)

interpretation mem_limit: usage_field "\<lambda>u. mu_Limit (nu_Memory u)" "\<lambda>_. 0" rw_MemoryLimits
  by unfold_locales (simp_all add: usage_defs)

interpretation cpu_capacity: usage_field "\<lambda>u. cu_Capacity (nu_Cpu u)" nr_CpuCapacity "\<lambda>_. 0"
  by unfold_locales (simp_all add: usage_defs)

interpretation cpu_request: usage_field "\<lambda>u. cu_Request (nu_Cpu u)" "\<lambda>_. 0" rw_CpuRequests
  by unfold_locales (simp_all add: usage_defs)

interpretation cpu_limit: usage_field "\<lambda>u. cu_Limit (nu_Cpu u)" "\<lambda>_. 0" rw_CpuLimits
  by unfold_locales (simp_all add: usage_defs)

interpretation pod_capacity: usage_field "\<lambda>u. pu_Capacity (nu_Pod u)" nr_PodCapacity "\<lambda>_. 0"
  by unfold_locales (simp_all add: usage_defs)

interpretation pod_count: usage_field "\<lambda>u. pu_Count (nu_Pod u)" "\<lambda>_. 0" "\<lambda>_. 1"
  by unfold_locales (simp_all add: usage_defs count_pods)

interpretation node_count: usage_field nu_Count "\<lambda>_. 1" "\<lambda>_. 0"
  by unfold_locales (simp_all add: usage_defs)

interpretation ready_count: usage_field nu_ReadyCount "\<lambda>n. of_bool (nr_Status n = ''Ready'')" "\<lambda>_. 0"
  by unfold_locales (simp_all add: usage_defs)

interpretation notready_count: usage_field nu_NotReadyCount "\<lambda>n. of_bool (nr_Status n \<noteq> ''Ready'')" "\<lambda>_. 0"
  by unfold_locales (simp_all add: usage_defs)

lemma Node_Usage_Some:
  "Node_Usage (Some nodes) (Some pods) ids =
     Inr (fold (\<lambda>each total. NodeUsage_Add total each) (map (each_usage (filter (\<lambda>p. pb_ClusterId p \<in> set ids) pods)) (filter (\<lambda>n. nr_ClusterId n \<in> set ids) nodes)) NewNodeUsage)"
  by (simp add: Node_Usage_def GetPodsByClusters_def GetNodesByClusters_def GetResourcesByClusters_def sbind_def)

lemma sum_of_bool: "(\<Sum>x\<leftarrow>xs. of_bool (P x)) = int (length (filter P xs))"
  by (induction xs) simp_all

lemma Node_Usage_sums:
  assumes "distinct (map nr_Id nodes)"
    and ns: "ns = filter (\<lambda>n. nr_ClusterId n \<in> set ids) nodes"
    and ps: "ps = filter (\<lambda>p. pb_ClusterId p \<in> set ids \<and> pb_NodeId p \<in> nr_Id ` set ns) pods"
  shows "Node_Usage (Some nodes) (Some pods) ids = Inr
    \<lparr>nu_Memory = \<lparr>mu_Capacity = of_int (sum_list (map nr_MemoryCapacity ns)), mu_Request = of_int (sum_list (map rw_MemoryRequests ps)),
                  mu_Limit = of_int (sum_list (map rw_MemoryLimits ps))\<rparr>,
     nu_Cpu = \<lparr>cu_Capacity = of_int (sum_list (map nr_CpuCapacity ns)), cu_Request = of_int (sum_list (map rw_CpuRequests ps)),
               cu_Limit = of_int (sum_list (map rw_CpuLimits ps))\<rparr>,
     nu_Pod = \<lparr>pu_Capacity = of_int (sum_list (map nr_PodCapacity ns)), pu_Count = of_nat (length ps)\<rparr>,
     nu_Count = of_nat (length ns), nu_ReadyCount = of_nat (length (filter (\<lambda>n. nr_Status n = ''Ready'') ns)),
     nu_NotReadyCount = of_nat (length (filter (\<lambda>n. nr_Status n \<noteq> ''Ready'') ns))\<rparr>"
proof -
  have d: "distinct (map nr_Id ns)" using assms(1) unfolding ns by (rule distinct_map_filter)
  have f: "filter (\<lambda>p. pb_NodeId p \<in> nr_Id ` set ns) (filter (\<lambda>p. pb_ClusterId p \<in> set ids) pods) = ps"
    unfolding ps filter_filter by (simp add: conj_commute)
  note totals = mem_capacity.total mem_request.total mem_limit.total cpu_capacity.total cpu_request.total cpu_limit.total
    pod_capacity.total pod_count.total node_count.total ready_count.total notready_count.total
  show ?thesis
    unfolding Node_Usage_Some ns [symmetric]
    by (rule arg_cong [of _ _ Inr], intro node_usage.equality memory_usage.equality cpu_usage.equality pod_usage.equality)
      (simp_all add: totals [OF d] f count_pods sum_of_bool del: filter_filter)
qed

text \<open>C20: the usage of clusters sums the capacities of their nodes and what is recorded of the pods of the clusters whose node is one of these, each pod once.\<close>

theorem usage_counts_pods_once:
  assumes "distinct (map nr_Id nodes)"
    and ns: "ns = filter (\<lambda>n. nr_ClusterId n \<in> set ids) nodes"
    and ps: "ps = filter (\<lambda>p. pb_ClusterId p \<in> set ids \<and> pb_NodeId p \<in> nr_Id ` set ns) pods"
  shows "Node_Usage (Some nodes) (Some pods) ids = Inr
    \<lparr>nu_Memory = \<lparr>mu_Capacity = of_int (sum_list (map nr_MemoryCapacity ns)), mu_Request = of_int (sum_list (map rw_MemoryRequests ps)),
                  mu_Limit = of_int (sum_list (map rw_MemoryLimits ps))\<rparr>,
     nu_Cpu = \<lparr>cu_Capacity = of_int (sum_list (map nr_CpuCapacity ns)), cu_Request = of_int (sum_list (map rw_CpuRequests ps)),
               cu_Limit = of_int (sum_list (map rw_CpuLimits ps))\<rparr>,
     nu_Pod = \<lparr>pu_Capacity = of_int (sum_list (map nr_PodCapacity ns)), pu_Count = of_nat (length ps)\<rparr>,
     nu_Count = of_nat (length ns), nu_ReadyCount = of_nat (length (filter (\<lambda>n. nr_Status n = ''Ready'') ns)),
     nu_NotReadyCount = of_nat (length (filter (\<lambda>n. nr_Status n \<noteq> ''Ready'') ns))\<rparr>"
  using assms by (rule Node_Usage_sums)


text \<open>Below the bound of 64 bits the sums are exact.\<close>

lemma sint_exact: "- (2 ^ 63) \<le> k \<Longrightarrow> k < 2 ^ 63 \<Longrightarrow> sint (of_int k :: int64) = k"
  by (simp add: signed_of_int signed_take_bit_int_eq_self)

theorem usage_exact_below_bound:
  assumes "distinct (map nr_Id nodes)" "Node_Usage (Some nodes) (Some pods) ids = Inr u"
    and ps: "ps = filter (\<lambda>p. pb_ClusterId p \<in> set ids \<and> pb_NodeId p \<in> nr_Id ` set (filter (\<lambda>n. nr_ClusterId n \<in> set ids) nodes)) pods"
    and "\<forall>p\<in>set pods. 0 \<le> rw_MemoryRequests p" "sum_list (map rw_MemoryRequests pods) < 2 ^ 63"
  shows "sint (mu_Request (nu_Memory u)) = sum_list (map rw_MemoryRequests ps)"
proof -
  have "sum_list (map rw_MemoryRequests (filter P pods)) \<le> sum_list (map rw_MemoryRequests pods) \<and> 0 \<le> sum_list (map rw_MemoryRequests (filter P pods))" for P
    using assms(4) by (induction pods) (auto intro: add_increasing)
  then have "0 \<le> sum_list (map rw_MemoryRequests ps)" "sum_list (map rw_MemoryRequests ps) < 2 ^ 63"
    using assms(5) unfolding ps by (blast, meson le_less_trans)
  then have "sint (of_int (sum_list (map rw_MemoryRequests ps)) :: int64) = sum_list (map rw_MemoryRequests ps)" by (intro sint_exact) simp_all
  then show ?thesis
    using assms(2) Node_Usage_sums [OF assms(1) refl ps] by auto
qed


text \<open>A pod that had no node when it was recorded, which is how a pod begins, keeps an empty node id through all updates, and no usage ever counts it.\<close>

lemma refresh_keeps_node: "pb_NodeId (fold (\<lambda>(rs, pod). pod_refresh rs pod) updates row) = pb_NodeId row"
  by (induction updates arbitrary: row) (auto simp: pod_refresh_def Pod_UpdateFromRemoteObject_def PodRequestsAndLimits_def Let_def)

lemma refresh_keeps_cluster: "pb_ClusterId (fold (\<lambda>(rs, pod). pod_refresh rs pod) updates row) = pb_ClusterId row"
  by (induction updates arbitrary: row) (auto simp: pod_refresh_def Pod_UpdateFromRemoteObject_def PodRequestsAndLimits_def Let_def)

theorem late_pod_not_counted:
  assumes "pd_NodeName kPod = []" "pb_NodeId fresh = []" "Pod_NewFromRemoteObject (Inr fresh) byName kPod = Inr row"
    and "row' = fold (\<lambda>(rs, pod). pod_refresh rs pod) updates row"
    and "distinct (map nr_Id nodes)" "\<forall>n\<in>set nodes. nr_Id n \<noteq> []"
  shows "Node_Usage (Some nodes) (Some (row' # pods)) ids = Node_Usage (Some nodes) (Some pods) ids"
proof -
  have "pb_NodeId row' = []" using assms(1-4) by (simp add: Pod_NewFromRemoteObject_def sbind_def refresh_keeps_node)
  moreover have "[] \<notin> nr_Id ` set (filter (\<lambda>n. nr_ClusterId n \<in> set ids) nodes)" using assms(6) by auto
  ultimately show ?thesis using Node_Usage_sums [OF assms(5) refl refl] by simp
qed

text \<open>The three parts of the report are the same usage; a request in the scope of a project gets that of all clusters, whatever the domain, and a request in the
  scope of a domain gets no part for the domain.\<close>

lemma DoReportUsage_parts:
  "DoReportUsage clusters nodes pods scope domain isSystem =
     (let u = wrap_err ''get scope usage'' (Cluster_Usage clusters nodes pods scope domain isSystem) in
      if scope = ScopeSystem then map_sum id (\<lambda>x. \<lparr>gu_All = Some x, gu_Domain = Some x, gu_Project = Some x\<rparr>) u
      else if scope \<in> {ScopeDomain, ScopeProject} then map_sum id (\<lambda>x. \<lparr>gu_All = None, gu_Domain = None, gu_Project = Some x\<rparr>) u
      else Inr \<lparr>gu_All = None, gu_Domain = None, gu_Project = None\<rparr>)"
proof -
  define u where "u = wrap_err ''get scope usage'' (Cluster_Usage clusters nodes pods scope domain isSystem)"
  show ?thesis
    unfolding DoReportUsage_def Let_def u_def [symmetric] by (cases scope; cases u) (simp_all add: part_of_report_def sbind_def)
qed

theorem report_parts:
  assumes "DoReportUsage clusters nodes pods scope domain isSystem = Inr r"
  shows "gu_All r = (if scope = ScopeSystem then gu_Project r else None)" "gu_Domain r = gu_All r"
    "scope \<in> {ScopeSystem, ScopeDomain, ScopeProject} \<Longrightarrow> map_sum id Some (Cluster_Usage clusters nodes pods scope domain isSystem) = Inr (gu_Project r)"
proof -
  obtain u where "scope \<in> {ScopeSystem, ScopeDomain, ScopeProject} \<Longrightarrow> Cluster_Usage clusters nodes pods scope domain isSystem = Inr u"
    using assms by (cases "Cluster_Usage clusters nodes pods scope domain isSystem") (auto simp: DoReportUsage_parts wrap_err_def Let_def split: if_splits)
  then show "gu_All r = (if scope = ScopeSystem then gu_Project r else None)" "gu_Domain r = gu_All r"
    "scope \<in> {ScopeSystem, ScopeDomain, ScopeProject} \<Longrightarrow> map_sum id Some (Cluster_Usage clusters nodes pods scope domain isSystem) = Inr (gu_Project r)"
    using assms by (auto simp: DoReportUsage_parts wrap_err_def Let_def split: if_splits)
qed

theorem project_usage_unrestricted:
  "Cluster_Usage clusters nodes pods ScopeProject domain isSystem = Cluster_Usage clusters nodes pods ScopeSystem domain' isSystem"
  by (simp add: Cluster_Usage_def usageClusters_def split: option.split)

section \<open>Allocated resources and details\<close>

record allocated =
  al_CPURequests :: int
  al_CPURequestsFraction :: rat
  al_CPULimits :: int
  al_CPULimitsFraction :: rat
  al_CPUCapacity :: int
  al_MemoryRequests :: int
  al_MemoryRequestsFraction :: rat
  al_MemoryLimits :: int
  al_MemoryLimitsFraction :: rat
  al_MemoryCapacity :: int
  al_AllocatedPods :: int
  al_PodCapacity :: int
  al_PodFraction :: rat

text \<open>All pods of the cluster, each with its resources.\<close>

definition Node_GetRawPods :: "string + (pod \<times> pod_resources) list \<Rightarrow> kube_node \<Rightarrow> string + (pod \<times> pod_resources) list" where
  "Node_GetRawPods allPods rNode =
     sbind (wrap_err ''Get node pods'' allPods) (\<lambda>ps.
       Inr (filter (\<lambda>(p, _). pd_NodeName p = kn_Name rNode \<and> pd_Phase p \<noteq> ''Succeeded'' \<and> pd_Phase p \<noteq> ''Failed'') ps))"

text \<open>A range over a map meets every name once, so its order does not matter.\<close>

definition add_map :: "(string \<rightharpoonup> int) \<Rightarrow> (string \<rightharpoonup> int) \<Rightarrow> (string \<rightharpoonup> int)" where
  "add_map pm m = (\<lambda>name. case pm name of None \<Rightarrow> m name | Some q \<Rightarrow> (case m name of None \<Rightarrow> Some q | Some value \<Rightarrow> Some (value + q)))"

definition pods_total :: "((string \<rightharpoonup> int) \<times> (string \<rightharpoonup> int) \<Rightarrow> string \<rightharpoonup> int) \<Rightarrow> pod_resources list \<Rightarrow> string \<rightharpoonup> int" where
  "pods_total part pods = fold (\<lambda>pod m. add_map (part (PodRequestsAndLimits pod)) m) pods Map.empty"

definition fraction :: "int \<Rightarrow> int \<Rightarrow> rat" where
  "fraction k capacity = (if capacity > 0 then of_int k / of_int capacity * 100 else 0)"

definition getNodeAllocatedResources :: "kube_node \<Rightarrow> pod_resources list \<Rightarrow> allocated" where
  "getNodeAllocatedResources node pods =
     (let reqs = pods_total fst pods; limits = pods_total snd pods;
          cpuRequests = quantity_of reqs ''cpu''; cpuLimits = quantity_of limits ''cpu'';
          memoryRequests = quantity_of reqs ''memory''; memoryLimits = quantity_of limits ''memory'';
          cpu = quantity_of (kn_Capacity node) ''cpu''; memory = quantity_of (kn_Capacity node) ''memory'';
          podCapacity = QuantityValue (quantity_of (kn_Capacity node) ''pods'')
      in \<lparr>al_CPURequests = MilliValue cpuRequests, al_CPURequestsFraction = fraction (MilliValue cpuRequests) (MilliValue cpu),
          al_CPULimits = MilliValue cpuLimits, al_CPULimitsFraction = fraction (MilliValue cpuLimits) (MilliValue cpu),
          al_CPUCapacity = MilliValue cpu,
          al_MemoryRequests = QuantityValue memoryRequests, al_MemoryRequestsFraction = fraction (MilliValue memoryRequests) (MilliValue memory),
          al_MemoryLimits = QuantityValue memoryLimits, al_MemoryLimitsFraction = fraction (MilliValue memoryLimits) (MilliValue memory),
          al_MemoryCapacity = QuantityValue memory,
          al_AllocatedPods = int (length pods), al_PodCapacity = podCapacity, al_PodFraction = fraction (int (length pods)) podCapacity\<rparr>)"

definition Node_getContainerImages :: "kube_node \<Rightarrow> string list" where
  "Node_getContainerImages node = concat (kn_Images node)"

text \<open>The fields of the details; those left at their zero values are \<open>None\<close>.\<close>

record node_detail =
  nd_Ready :: bool
  nd_Address :: "(string \<times> string) list"
  nd_NodeInfo :: string
  nd_Taints :: "taint list"
  nd_Unschedulable :: bool
  nd_Allocated :: "allocated option"
  nd_More :: "(string \<times> string \<times> string \<times> string list) option"

definition Node_GetDetails :: "string + (pod \<times> pod_resources) list \<Rightarrow> kube_node \<Rightarrow> bool \<Rightarrow> node_detail" where
  "Node_GetDetails allPods rNode isList =
     (let out = \<lparr>nd_Ready = (getNodeConditionStatus (kn_Conditions rNode) ''Ready'' = ''True''), nd_Address = kn_Addresses rNode, nd_NodeInfo = kn_NodeInfo rNode,
                 nd_Taints = kn_Taints rNode, nd_Unschedulable = kn_Unschedulable rNode, nd_Allocated = None, nd_More = None\<rparr>
      in case Node_GetRawPods allPods rNode of
           Inl err \<Rightarrow> out
         | Inr pods \<Rightarrow>
             let out = out\<lparr>nd_Allocated := Some (getNodeAllocatedResources rNode (map snd pods))\<rparr>
             in if isList then out
                else out\<lparr>nd_More := Some (kn_Phase rNode, kn_PodCIDR rNode, kn_ProviderID rNode, Node_getContainerImages rNode)\<rparr>)"

lemma pods_total_sum:
  "quantity_of (pods_total part pods) name = (\<Sum>pod\<leftarrow>pods. quantity_of (part (PodRequestsAndLimits pod)) name)"
proof -
  have "quantity_of (fold (\<lambda>pod m. add_map (part (PodRequestsAndLimits pod)) m) pods m) name =
      quantity_of m name + (\<Sum>pod\<leftarrow>pods. quantity_of (part (PodRequestsAndLimits pod)) name)" for m
    by (induction pods arbitrary: m) (auto simp: add_map_def quantity_of_def split: option.split)
  then show ?thesis by (simp add: pods_total_def quantity_of_def)
qed

text \<open>What a node has allocated is the sum over its pods that have not ended of their effective requests.\<close>

theorem allocated_effective:
  assumes "Node_GetRawPods (Inr allPods) rNode = Inr pods"
    and "\<forall>(p, r)\<in>set allPods. \<forall>(rq, li)\<in>set (pr_Containers r) \<union> set (pr_InitContainers r). distinct (map fst rq) \<and> (\<forall>(k, q)\<in>set rq. 0 \<le> q)"
  shows "al_CPURequests (getNodeAllocatedResources rNode (map snd pods)) =
    (\<Sum>(p, r)\<leftarrow>filter (\<lambda>(p, r). pd_NodeName p = kn_Name rNode \<and> pd_Phase p \<notin> {''Succeeded'', ''Failed''}) allPods.
       case effective ''cpu'' (map fst (pr_Containers r)) (map fst (pr_InitContainers r)) of None \<Rightarrow> 0 | Some q \<Rightarrow> q)"
proof -
  have pods: "pods = filter (\<lambda>(p, r). pd_NodeName p = kn_Name rNode \<and> pd_Phase p \<notin> {''Succeeded'', ''Failed''}) allPods"
    using assms(1) by (auto simp: Node_GetRawPods_def sbind_def wrap_err_def)
  have "quantity_of (fst (PodRequestsAndLimits r)) ''cpu'' =
      (case effective ''cpu'' (map fst (pr_Containers r)) (map fst (pr_InitContainers r)) of None \<Rightarrow> 0 | Some q \<Rightarrow> q)"
    if "(p, r) \<in> set pods" for p r
  proof -
    have "sum_and_max (map fst (pr_Containers r)) (map fst (pr_InitContainers r)) ''cpu'' = effective ''cpu'' (map fst (pr_Containers r)) (map fst (pr_InitContainers r))"
      using assms(2) that unfolding pods by (intro sum_and_max_effective) fastforce
    then show ?thesis by (simp add: PodRequestsAndLimits_def quantity_of_def)
  qed
  then have m: "map ((\<lambda>pod. quantity_of (fst (PodRequestsAndLimits pod)) ''cpu'') \<circ> snd) pods =
      map (\<lambda>(p, r). case effective ''cpu'' (map fst (pr_Containers r)) (map fst (pr_InitContainers r)) of None \<Rightarrow> 0 | Some q \<Rightarrow> q) pods" by auto
  show ?thesis unfolding pods [symmetric] by (simp add: getNodeAllocatedResources_def Let_def pods_total_sum MilliValue_def m del: map_eq_conv)
qed

section \<open>Cordon\<close>

definition toggle_taint :: "bool \<Rightarrow> taint \<Rightarrow> taint" where
  "toggle_taint unschedule t =
     (if tt_Key t = ''node-role.kubernetes.io/master'' then t\<lparr>tt_Effect := if \<not> unschedule then ''PreferNoSchedule'' else ''NoSchedule''\<rparr> else t)"

definition toggle :: "bool \<Rightarrow> kube_node \<Rightarrow> kube_node" where
  "toggle unschedule n = n\<lparr>kn_Unschedulable := unschedule, kn_Taints := map (toggle_taint unschedule) (kn_Taints n)\<rparr>"

text \<open>\<open>client\<close> is the error of the client, \<open>raw\<close> the node in the cache, \<open>put\<close> the error of the update; the first component of the result is what
  the API has stored.\<close>

definition SetNodeScheduleToggle :: "string option \<Rightarrow> string + kube_node \<Rightarrow> (kube_node \<Rightarrow> string option) \<Rightarrow> bool \<Rightarrow> kube_node option \<times> string option" where
  "SetNodeScheduleToggle client raw put unschedule =
     (case client of
        Some err \<Rightarrow> (None, Some (''get cluster client: '' @ err))
      | None \<Rightarrow>
          (case raw of
             Inl err \<Rightarrow> (None, Some (''get remote k8s node: '' @ err))
           | Inr node \<Rightarrow>
               let nodeObj = toggle unschedule node
               in case put nodeObj of Some err \<Rightarrow> (None, Some err) | None \<Rightarrow> (Some nodeObj, None)))"

definition PerformCordon :: "string option \<Rightarrow> string + kube_node \<Rightarrow> (kube_node \<Rightarrow> string option) \<Rightarrow> kube_node option \<times> string option" where
  "PerformCordon client raw put = SetNodeScheduleToggle client raw put True"

definition PerformUncordon :: "string option \<Rightarrow> string + kube_node \<Rightarrow> (kube_node \<Rightarrow> string option) \<Rightarrow> kube_node option \<times> string option" where
  "PerformUncordon client raw put = SetNodeScheduleToggle client raw put False"

lemma toggle_last: "toggle u (toggle v n) = toggle u n"
  by (simp add: toggle_def toggle_taint_def)

text \<open>Of a sequence of cordons and uncordons that succeed the last decides alone; a failure stores nothing; the other taints stay.\<close>

theorem cordon_last_decides:
  assumes "SetNodeScheduleToggle None (Inr n) put v = (Some n1, None)" "SetNodeScheduleToggle None (Inr n1) put u = (Some n2, None)"
  shows "n2 = toggle u n" "kn_Unschedulable n2 = u"
    "filter (\<lambda>t. tt_Key t \<noteq> ''node-role.kubernetes.io/master'') (kn_Taints n2) = filter (\<lambda>t. tt_Key t \<noteq> ''node-role.kubernetes.io/master'') (kn_Taints n)"
proof -
  show n2: "n2 = toggle u n" using assms by (auto simp: SetNodeScheduleToggle_def Let_def toggle_last split: option.splits)
  show "kn_Unschedulable n2 = u" by (simp add: n2 toggle_def)
  have "filter (\<lambda>t. tt_Key t \<noteq> k) (map (toggle_taint u) ts) = filter (\<lambda>t. tt_Key t \<noteq> k) ts" if "k = ''node-role.kubernetes.io/master''" for ts k
    using that by (induction ts) (auto simp: toggle_taint_def)
  then show "filter (\<lambda>t. tt_Key t \<noteq> ''node-role.kubernetes.io/master'') (kn_Taints n2) = filter (\<lambda>t. tt_Key t \<noteq> ''node-role.kubernetes.io/master'') (kn_Taints n)"
    by (simp add: n2 toggle_def)
qed

text \<open>An uncordon does not undo a cordon: a master that refused pods only prefers to have none afterwards, also if it was never cordoned.\<close>

theorem uncordon_opens_master:
  "kn_Taints (toggle False (toggle True n)) =
     map (\<lambda>t. if tt_Key t = ''node-role.kubernetes.io/master'' then t\<lparr>tt_Effect := ''PreferNoSchedule''\<rparr> else t) (kn_Taints n)"
  by (simp add: toggle_last toggle_def [of False] toggle_taint_def)


section \<open>Samples\<close>

definition sample_node :: "string \<Rightarrow> string \<Rightarrow> node_row" where
  "sample_node i c = \<lparr>nr_Id = i, nr_ClusterId = c, nr_Status = ''Ready'', nr_Address = [], nr_NodeInfo = [], nr_CpuCapacity = 4000, nr_MemoryCapacity = 9000, nr_PodCapacity = 110\<rparr>"

definition sample_pod_db :: "string \<Rightarrow> string \<Rightarrow> pod_db" where
  "sample_pod_db c n = \<lparr>rw_CpuRequests = 500, rw_CpuLimits = 700, rw_MemoryRequests = 64, rw_MemoryLimits = 128, rw_Status = ''Running'', pb_ClusterId = c, pb_NodeId = n\<rparr>"

theorem usage_counts_pods_once_witness:
  "Node_Usage (Some [sample_node ''n1'' ''c1'', sample_node ''n2'' ''c2'', sample_node ''n3'' ''c1''])
     (Some [sample_pod_db ''c1'' ''n1'', sample_pod_db ''c1'' ''n3'', sample_pod_db ''c1'' [], sample_pod_db ''c2'' ''n2'']) [''c1''] =
   Inr \<lparr>nu_Memory = \<lparr>mu_Capacity = 18000, mu_Request = 128, mu_Limit = 256\<rparr>, nu_Cpu = \<lparr>cu_Capacity = 8000, cu_Request = 1000, cu_Limit = 1400\<rparr>,
        nu_Pod = \<lparr>pu_Capacity = 220, pu_Count = 2\<rparr>, nu_Count = 2, nu_ReadyCount = 2, nu_NotReadyCount = 0\<rparr>"
  using usage_counts_pods_once [of "[sample_node ''n1'' ''c1'', sample_node ''n2'' ''c2'', sample_node ''n3'' ''c1'']" _ "[''c1'']" _
      "[sample_pod_db ''c1'' ''n1'', sample_pod_db ''c1'' ''n3'', sample_pod_db ''c1'' [], sample_pod_db ''c2'' ''n2'']", OF _ refl refl]
  by (simp add: sample_node_def sample_pod_db_def)

end
