(* ===== verification/Storage.thy ===== *)
theory Storage
  imports Components ClusterSync ClusterClients PodDetails
begin

text \<open>
  Storage classes, claims, secrets and config maps: src/pkg/models/storageclasses.go, pvcs.go, secrets.go, configmap.go, the driver of Ceph
  (src/pkg/models/drivers/storageclass/ceph_csi_rbd.go) and the drivers of secrets (src/pkg/models/drivers/secret). The Ceph cluster, the API of the
  Kubernetes cluster, base64 and JSON are parameters. Shown: setting a default class without error leaves exactly one; a validated storage class names
  a pool of a Ceph cluster that the Ceph component of the cluster is configured for, and the validation does not panic as long as the components are
  consistent; the credentials that a secret is created with are those the driver reads; the pods that mount a config map, secret or claim.
\<close>

section \<open>Secrets\<close>

record docker_config =
  dj_User :: string
  dj_Password :: string
  dj_Server :: string
  dj_Email :: string

record ceph_secret =
  cc_UserId :: string
  cc_UserKey :: string
  cc_EncryptionPassphrase :: string

record secret_input =
  si_Meta :: object_meta
  si_Type :: string
  si_DockerConfigJson :: "docker_config option"
  si_CephCSI :: "ceph_secret option"

record kube_secret =
  ks_Meta :: object_meta
  ks_Type :: string
  ks_Data :: "string \<rightharpoonup> string"

datatype secret_driver = CephCSISecret | DockerConfigJsonSecret

definition SecretTypeCephCSI :: string where
  "SecretTypeCephCSI = ''yunion.io/ceph-csi''"

definition SecretTypeDockerConfigJson :: string where
  "SecretTypeDockerConfigJson = ''kubernetes.io/dockerconfigjson''"

definition secretDrivers :: "string \<rightharpoonup> secret_driver" where
  "secretDrivers = fst (Register DockerConfigJsonSecret [SecretTypeDockerConfigJson] (fst (Register CephCSISecret [SecretTypeCephCSI] Map.empty)))"

definition Secret_GetDriver :: "string \<Rightarrow> string + secret_driver" where
  "Secret_GetDriver typ = (case Driver_Get [typ] secretDrivers of Inl err \<Rightarrow> Inl (''secret get '' @ typ @ '' driver'') | Inr drv \<Rightarrow> Inr drv)"

definition CephSecret_ValidateCreateData :: "secret_input \<Rightarrow> unit validation" where
  "CephSecret_ValidateCreateData input =
     (case si_CephCSI input of
        None \<Rightarrow> Inr (Inl ''ceph csi config is empty'')
      | Some conf \<Rightarrow>
          if cc_UserId conf = [] then Inr (Inl ''userId is empty'')
          else if cc_UserKey conf = [] then Inr (Inl ''userKey is empty'')
          else Inr (Inr ()))"

definition DockerSecret_ValidateCreateData :: "secret_input \<Rightarrow> unit validation" where
  "DockerSecret_ValidateCreateData input =
     (case si_DockerConfigJson input of
        None \<Rightarrow> Inl NilDereference
      | Some conf \<Rightarrow>
          if dj_User conf = [] then Inr (Inl ''user is empty'')
          else if dj_Password conf = [] then Inr (Inl ''password is empty'')
          else Inr (Inr ()))"

text \<open>\<open>base\<close> is the error of the base class.\<close>

definition Secret_ValidateCreateData :: "string option \<Rightarrow> secret_input \<Rightarrow> secret_input validation" where
  "Secret_ValidateCreateData base input =
     (case base of
        Some err \<Rightarrow> Inr (Inl err)
      | None \<Rightarrow>
          if si_Type input = [] then Inr (Inl ''type is empty'')
          else
            (case Secret_GetDriver (si_Type input) of
               Inl err \<Rightarrow> Inr (Inl err)
             | Inr drv \<Rightarrow>
                 vbind (case drv of CephCSISecret \<Rightarrow> CephSecret_ValidateCreateData input | DockerConfigJsonSecret \<Rightarrow> DockerSecret_ValidateCreateData input)
                   (\<lambda>_. Inr (Inr input))))"

definition CephSecret_ToData :: "secret_input \<Rightarrow> (string \<rightharpoonup> string) go" where
  "CephSecret_ToData input =
     (case si_CephCSI input of
        None \<Rightarrow> Inl NilDereference
      | Some conf \<Rightarrow>
          let ret = [''userID'' \<mapsto> cc_UserId conf, ''userKey'' \<mapsto> cc_UserKey conf]
          in Inr (if cc_EncryptionPassphrase conf \<noteq> [] then ret(''encryptionPassphrase'' \<mapsto> cc_EncryptionPassphrase conf) else ret))"

text \<open>Encodings: base64 and the JSON text of \<open>{auths: {server: {...}}}\<close>.\<close>

record encodings =
  ec_base64 :: "string \<Rightarrow> string"
  ec_auths :: "string \<Rightarrow> (string \<times> string) list \<Rightarrow> string"

definition toAuth :: "encodings \<Rightarrow> string \<Rightarrow> string \<Rightarrow> string" where
  "toAuth ec user password = ec_base64 ec (user @ '':'' @ password)"

definition DockerSecret_ToData :: "encodings \<Rightarrow> secret_input \<Rightarrow> (string \<rightharpoonup> string) go" where
  "DockerSecret_ToData ec input =
     (case si_DockerConfigJson input of
        None \<Rightarrow> Inl NilDereference
      | Some spec \<Rightarrow>
          Inr [''.dockerconfigjson'' \<mapsto>
            ec_auths ec (dj_Server spec)
              [(''username'', dj_User spec), (''password'', dj_Password spec), (''email'', dj_Email spec), (''auth'', toAuth ec (dj_User spec) (dj_Password spec))]])"

definition Secret_NewRemoteObjectForCreate :: "encodings \<Rightarrow> string + object_meta \<Rightarrow> secret_input \<Rightarrow> kube_secret validation" where
  "Secret_NewRemoteObjectForCreate ec objMeta input =
     (if si_Type input = [] then Inr (Inl ''type is empty'')
      else
        (case Secret_GetDriver (si_Type input) of
           Inl err \<Rightarrow> Inr (Inl err)
         | Inr drv \<Rightarrow>
             (case (case drv of CephCSISecret \<Rightarrow> CephSecret_ToData input | DockerConfigJsonSecret \<Rightarrow> DockerSecret_ToData ec input) of
                Inl p \<Rightarrow> Inl p
              | Inr d \<Rightarrow>
                  (case objMeta of
                     Inl err \<Rightarrow> Inr (Inl err)
                   | Inr om \<Rightarrow> Inr (Inr \<lparr>ks_Meta = om, ks_Type = si_Type input, ks_Data = d\<rparr>)))))"

definition getUserKeyFromSecret :: "string + kube_secret \<Rightarrow> string + string \<times> string" where
  "getUserKeyFromSecret got =
     (case got of
        Inl err \<Rightarrow> Inl err
      | Inr secret \<Rightarrow>
          if ks_Type secret \<noteq> SecretTypeCephCSI then Inl (''secret type is not '' @ SecretTypeCephCSI)
          else
            let text = (\<lambda>k. case ks_Data secret k of None \<Rightarrow> [] | Some v \<Rightarrow> v)
            in Inr (text ''userID'', text ''userKey''))"

lemma secret_drivers:
  "Secret_GetDriver t = Inr drv \<longleftrightarrow> t = SecretTypeCephCSI \<and> drv = CephCSISecret \<or> t = SecretTypeDockerConfigJson \<and> drv = DockerConfigJsonSecret"
  by (auto simp: Secret_GetDriver_def Driver_Get_def secretDrivers_def Register_def getIndexKey_def SecretTypeCephCSI_def SecretTypeDockerConfigJson_def
      split: option.splits)

text \<open>A secret of Ceph that passes validation is created, and the driver of the storage classes reads from it the user and the key of the request, neither
  of them empty.\<close>

theorem ceph_secret_roundtrip:
  assumes "Secret_ValidateCreateData None input = Inr (Inr input')" "si_Type input = SecretTypeCephCSI"
  shows "\<exists>sec conf. Secret_NewRemoteObjectForCreate ec (Inr om) input' = Inr (Inr sec) \<and> si_CephCSI input = Some conf \<and>
    getUserKeyFromSecret (Inr sec) = Inr (cc_UserId conf, cc_UserKey conf) \<and> cc_UserId conf \<noteq> [] \<and> cc_UserKey conf \<noteq> []"
proof -
  have d: "Secret_GetDriver SecretTypeCephCSI = Inr CephCSISecret" by (simp add: secret_drivers)
  have ne: "SecretTypeCephCSI \<noteq> []" by (simp add: SecretTypeCephCSI_def)
  obtain conf where "si_CephCSI input = Some conf" "cc_UserId conf \<noteq> []" "cc_UserKey conf \<noteq> []" "input' = input"
    using assms by (auto simp: Secret_ValidateCreateData_def d CephSecret_ValidateCreateData_def split: option.splits if_splits)
  then show ?thesis
    using assms(2) d ne by (simp add: Secret_NewRemoteObjectForCreate_def CephSecret_ToData_def getUserKeyFromSecret_def Let_def)
qed

text \<open>The driver of docker configurations does not check that there is one, and not that a server is named.\<close>

theorem docker_secret_without_config:
  assumes "si_Type input = SecretTypeDockerConfigJson" "si_DockerConfigJson input = None"
  shows "Secret_ValidateCreateData None input = Inl NilDereference"
proof -
  have "Secret_GetDriver SecretTypeDockerConfigJson = Inr DockerConfigJsonSecret" by (simp add: secret_drivers)
  moreover have "SecretTypeDockerConfigJson \<noteq> []" by (simp add: SecretTypeDockerConfigJson_def)
  ultimately show ?thesis using assms by (simp add: Secret_ValidateCreateData_def DockerSecret_ValidateCreateData_def)
qed

record secret_row =
  sr_Type :: string

definition Secret_UpdateFromRemoteObject :: "string option \<Rightarrow> kube_secret \<Rightarrow> secret_row \<Rightarrow> string + secret_row" where
  "Secret_UpdateFromRemoteObject base rawSec row = (case base of Some err \<Rightarrow> Inl err | None \<Rightarrow> Inr (row\<lparr>sr_Type := ks_Type rawSec\<rparr>))"

definition Secret_GetDetails :: "kube_secret \<Rightarrow> bool \<Rightarrow> string \<times> (string \<rightharpoonup> string)" where
  "Secret_GetDetails rs isList = (if isList then (ks_Type rs, Map.empty) else (ks_Type rs, ks_Data rs))"

definition Secret_ListItemFilter :: "string \<Rightarrow> secret_row list \<Rightarrow> secret_row list" where
  "Secret_ListItemFilter typ rows = (if typ \<noteq> [] then filter (\<lambda>r. sr_Type r = typ) rows else rows)"


section \<open>The driver of Ceph\<close>

record csi_rbd =
  ci_ClusterId :: string
  ci_Pool :: string
  ci_ImageFeatures :: string
  ci_SecretName :: string
  ci_SecretNamespace :: string
  ci_CSIFsType :: string

record class_input =
  ct_Meta :: object_meta
  ct_ClusterId :: string
  ct_Provisioner :: string
  ct_ReclaimPolicy :: "string option"
  ct_AllowVolumeExpansion :: "bool option"
  ct_MountOptions :: "string list"
  ct_VolumeBindingMode :: "string option"
  ct_AllowedTopologies :: "string list"
  ct_CephCSIRBD :: "csi_rbd option"

text \<open>The tables of namespaces, secrets and components, the secrets in the cluster by namespace and name, and the pools that a Ceph cluster lists
  for its monitors, a user and a key.\<close>

record ceph_world =
  cw_db :: sync_env
  cw_namespaces :: table
  cw_secrets :: table
  cw_getSecret :: "string \<Rightarrow> string \<Rightarrow> string + kube_secret"
  cw_components :: component_store
  cw_settingsErr :: "component \<Rightarrow> string option"
  cw_pools :: "string list \<Rightarrow> string \<Rightarrow> string \<Rightarrow> string + string list"

definition validateClusterId :: "string \<Rightarrow> ceph_cluster list option \<Rightarrow> ceph_cluster validation" where
  "validateClusterId cId conf =
     (case conf of
        None \<Rightarrow> Inl NilDereference
      | Some cs \<Rightarrow>
          (case List.find (\<lambda>c. ce_ClusterId c = cId) cs of
             None \<Rightarrow> Inr (Inl (''Not found clusterId '' @ cId @ '' in component config''))
           | Some c \<Rightarrow> Inr (Inr c)))"

text \<open>A fetched record, or its error.\<close>

definition fetched :: "string \<Rightarrow> fetch_error + 'a \<Rightarrow> 'a validation" where
  "fetched msg r = (case r of Inl e \<Rightarrow> Inr (Inl (msg @ '': '' @ fetch_message e)) | Inr x \<Rightarrow> Inr (Inr x))"

definition getCephConfig :: "ceph_world \<Rightarrow> string \<Rightarrow> class_input \<Rightarrow> (ceph_cluster \<times> string \<times> string) validation" where
  "getCephConfig w cluster data =
     (case ct_CephCSIRBD data of
        None \<Rightarrow> Inr (Inl ''cephCSIRBD config is empty'')
      | Some input \<Rightarrow>
          if ci_SecretName input = [] then Inr (Inl ''secretName is empty'')
          else if ci_SecretNamespace input = [] then Inr (Inl ''secretNamespace is empty'')
          else
            vbind (fetched ''get cluster namespace'' (FetchClusterResourceByIdOrName (cw_db w) False cluster [] (ci_SecretNamespace input) (cw_namespaces w))) (\<lambda>nsObj.
            vbind (fetched ''get cluster secret'' (FetchClusterResourceByIdOrName (cw_db w) True cluster (r_Id nsObj) (ci_SecretName input) (cw_secrets w))) (\<lambda>secObj.
            vbind (Inr (getUserKeyFromSecret (cw_getSecret w (r_Name nsObj) (r_Name secObj)))) (\<lambda>(user, key).
            vbind (Inr (GetComponentByType cluster ''cephCSI'' (cw_components w))) (\<lambda>cmp.
              case cw_settingsErr w cmp of
                Some err \<Rightarrow> Inr (Inl err)
              | None \<Rightarrow>
                  if ci_ClusterId input = [] then Inr (Inl ''clusterId is empty'')
                  else vbind (validateClusterId (ci_ClusterId input) (se_CephCSI (cp_Settings cmp))) (\<lambda>cephConf. Inr (Inr (cephConf, user, key))))))))"

definition validatePool :: "ceph_world \<Rightarrow> string list \<Rightarrow> string \<Rightarrow> string \<Rightarrow> string \<Rightarrow> string option" where
  "validatePool w monitors user key pool =
     (case cw_pools w monitors user key of
        Inl err \<Rightarrow> Some err
      | Inr pools \<Rightarrow> if pool \<notin> set pools then Some (''not found pool '' @ pool) else None)"

definition CephRBD_ValidateCreateData :: "ceph_world \<Rightarrow> string \<Rightarrow> class_input \<Rightarrow> class_input validation" where
  "CephRBD_ValidateCreateData w cluster data =
     vbind (getCephConfig w cluster data) (\<lambda>(cephConf, user, key).
       case ct_CephCSIRBD data of
         None \<Rightarrow> Inl NilDereference
       | Some input \<Rightarrow>
           if ci_Pool input = [] then Inr (Inl ''pool is empty'')
           else
             (case validatePool w (ce_Monitors cephConf) user key (ci_Pool input) of
                Some err \<Rightarrow> Inr (Inl err)
              | None \<Rightarrow>
                  if ci_CSIFsType input = [] then Inr (Inl ''csiFsType is empty'')
                  else if ci_CSIFsType input \<notin> {''ext4'', ''xfs''} then Inr (Inl (''unsupport fsType '' @ ci_CSIFsType input))
                  else if ci_ImageFeatures input \<noteq> ''layering'' then Inr (Inl ''imageFeatures only support 'layering' currently'')
                  else Inr (Inr data)))"

definition CephRBD_ConnectionTest :: "ceph_world \<Rightarrow> string \<Rightarrow> class_input \<Rightarrow> string list validation" where
  "CephRBD_ConnectionTest w cluster data =
     vbind (getCephConfig w cluster data) (\<lambda>(cephConf, user, key). Inr (cw_pools w (ce_Monitors cephConf) user key))"

definition GetCSIParamsKey :: "string \<Rightarrow> string" where
  "GetCSIParamsKey s = ''csi.storage.k8s.io/'' @ s"

definition ToStorageClassParams :: "class_input \<Rightarrow> (string \<rightharpoonup> string) go" where
  "ToStorageClassParams input =
     (case ct_CephCSIRBD input of
        None \<Rightarrow> Inl NilDereference
      | Some config \<Rightarrow>
          Inr (map_of
            [(''clusterID'', ci_ClusterId config), (''pool'', ci_Pool config), (''imageFeatures'', ci_ImageFeatures config),
             (GetCSIParamsKey ''provisioner-secret-name'', ci_SecretName config),
             (GetCSIParamsKey ''provisioner-secret-namespace'', ci_SecretNamespace config),
             (GetCSIParamsKey ''controller-expand-secret-name'', ci_SecretName config),
             (GetCSIParamsKey ''controller-expand-secret-namespace'', ci_SecretNamespace config),
             (GetCSIParamsKey ''node-stage-secret-name'', ci_SecretName config),
             (GetCSIParamsKey ''node-stage-secret-namespace'', ci_SecretNamespace config),
             (GetCSIParamsKey ''fstype'', ci_CSIFsType config)]))"

section \<open>Storage classes\<close>

record storage_class =
  sl_Name :: string
  sl_Annotations :: "string \<rightharpoonup> string"
  sl_Provisioner :: string
  sl_Parameters :: "string \<rightharpoonup> string"
  sl_ReclaimPolicy :: "string option"
  sl_AllowVolumeExpansion :: "bool option"
  sl_MountOptions :: "string list"
  sl_VolumeBindingMode :: "string option"
  sl_AllowedTopologies :: "string list"

definition IsDefaultStorageClassAnnotation :: string where
  "IsDefaultStorageClassAnnotation = ''storageclass.kubernetes.io/is-default-class''"

definition betaIsDefaultStorageClassAnnotation :: string where
  "betaIsDefaultStorageClassAnnotation = ''storageclass.beta.kubernetes.io/is-default-class''"

text \<open>One driver is registered.\<close>

definition storageClassDrivers :: "string \<rightharpoonup> unit" where
  "storageClassDrivers = fst (Register () [''rbd.csi.ceph.com''] Map.empty)"

definition SC_GetDriver :: "string \<Rightarrow> string + unit" where
  "SC_GetDriver provisioner =
     (case Driver_Get [provisioner] storageClassDrivers of Inl err \<Rightarrow> Inl (''storageclass get '' @ provisioner @ '' driver'') | Inr drv \<Rightarrow> Inr drv)"

text \<open>\<open>base\<close> is the result of the base class, \<open>client\<close> the error of the client of the cluster.\<close>

definition SC_ValidateCreateData :: "ceph_world \<Rightarrow> (class_input \<Rightarrow> string + class_input) \<Rightarrow> string option \<Rightarrow> class_input \<Rightarrow> class_input validation" where
  "SC_ValidateCreateData w base client input0 =
     vbind (Inr (base input0)) (\<lambda>input.
       if ct_Provisioner input = [] then Inr (Inl ''provisioner is empty'')
       else vbind (Inr (SC_GetDriver (ct_Provisioner input))) (\<lambda>_.
         case client of
           Some err \<Rightarrow> Inr (Inl (''get cluster client '' @ ct_ClusterId input @ '': '' @ err))
         | None \<Rightarrow> CephRBD_ValidateCreateData w (ct_ClusterId input) input))"

definition SC_NewRemoteObjectForCreate :: "class_input \<Rightarrow> storage_class validation" where
  "SC_NewRemoteObjectForCreate input =
     vbind (Inr (SC_GetDriver (ct_Provisioner input))) (\<lambda>_.
       case ToStorageClassParams input of
         Inl p \<Rightarrow> Inl p
       | Inr params \<Rightarrow>
           Inr (Inr \<lparr>sl_Name = om_Name (ct_Meta input), sl_Annotations = (case om_Annotations (ct_Meta input) of None \<Rightarrow> Map.empty | Some as \<Rightarrow> map_of as),
                     sl_Provisioner = ct_Provisioner input, sl_Parameters = params, sl_ReclaimPolicy = ct_ReclaimPolicy input, sl_AllowVolumeExpansion = None,
                     sl_MountOptions = ct_MountOptions input, sl_VolumeBindingMode = ct_VolumeBindingMode input,
                     sl_AllowedTopologies = ct_AllowedTopologies input\<rparr>))"

definition SC_PerformConnectionTest :: "ceph_world \<Rightarrow> string option \<Rightarrow> class_input \<Rightarrow> string list validation" where
  "SC_PerformConnectionTest w client input =
     vbind (Inr (SC_GetDriver (ct_Provisioner input))) (\<lambda>_.
       case client of
         Some err \<Rightarrow> Inr (Inl (''get cluster client '' @ ct_ClusterId input @ '': '' @ err))
       | None \<Rightarrow> CephRBD_ConnectionTest w (ct_ClusterId input) input)"

definition SC_isDefault :: "storage_class \<Rightarrow> bool" where
  "SC_isDefault sc \<longleftrightarrow> sl_Annotations sc IsDefaultStorageClassAnnotation \<noteq> None \<or> sl_Annotations sc betaIsDefaultStorageClassAnnotation \<noteq> None"

text \<open>The objects are those of the cache, changed in place. The result is the cache, what the API was asked to store and accepted, and the error.\<close>

definition default_marked :: "string \<Rightarrow> storage_class \<Rightarrow> storage_class" where
  "default_marked name sc =
     (let as = (sl_Annotations sc)(IsDefaultStorageClassAnnotation := None, betaIsDefaultStorageClassAnnotation := None)
      in sc\<lparr>sl_Annotations := (if sl_Name sc = name then as(IsDefaultStorageClassAnnotation \<mapsto> ''true'') else as)\<rparr>)"

fun set_default_loop :: "(storage_class \<Rightarrow> string option) \<Rightarrow> string \<Rightarrow> storage_class list \<Rightarrow> storage_class list \<times> storage_class list \<times> string option" where
  "set_default_loop update name [] = ([], [], None)"
| "set_default_loop update name (sc # scs) =
     (if sl_Name sc = name \<or> SC_isDefault sc then
        (case update (default_marked name sc) of
           Some err \<Rightarrow> (default_marked name sc # scs, [], Some err)
         | None \<Rightarrow> (case set_default_loop update name scs of (cache, stored, err) \<Rightarrow> (default_marked name sc # cache, default_marked name sc # stored, err)))
      else (case set_default_loop update name scs of (cache, stored, err) \<Rightarrow> (sc # cache, stored, err)))"

definition PerformSetDefault ::
  "string option \<Rightarrow> string + storage_class list \<Rightarrow> (storage_class \<Rightarrow> string option) \<Rightarrow> string \<Rightarrow> (storage_class list \<times> storage_class list) \<times> string option" where
  "PerformSetDefault client scList update name =
     (case client of
        Some err \<Rightarrow> (([], []), Some err)
      | None \<Rightarrow>
          (case scList of
             Inl err \<Rightarrow> (([], []), Some err)
           | Inr scs \<Rightarrow> (case set_default_loop update name scs of (cache, stored, err) \<Rightarrow> ((cache, stored), err))))"

lemma default_marked_simps [simp]:
  "sl_Name (default_marked name sc) = sl_Name sc" "SC_isDefault (default_marked name sc) \<longleftrightarrow> sl_Name sc = name"
  by (auto simp: default_marked_def SC_isDefault_def Let_def IsDefaultStorageClassAnnotation_def betaIsDefaultStorageClassAnnotation_def)

text \<open>What the loop does to a class of the cache.\<close>

definition remark :: "string \<Rightarrow> storage_class \<Rightarrow> storage_class" where
  "remark name sc = (if sl_Name sc = name \<or> SC_isDefault sc then default_marked name sc else sc)"

lemma remark_simps [simp]:
  "sl_Name (remark name sc) = sl_Name sc" "sl_Name \<circ> remark name = sl_Name" "SC_isDefault (remark name sc) \<longleftrightarrow> sl_Name sc = name"
  by (auto simp: remark_def fun_eq_iff)

lemma set_default_loop_done:
  "set_default_loop update name scs = (cache, stored, None) \<Longrightarrow>
   cache = map (remark name) scs \<and>
   stored = map (default_marked name) (filter (\<lambda>sc. sl_Name sc = name \<or> SC_isDefault sc) scs)"
  by (induction scs arbitrary: cache stored) (auto simp: remark_def split: if_splits option.splits prod.splits)


lemma set_default_loop_failed:
  "set_default_loop update name scs = (cache, stored, Some err) \<Longrightarrow>
   \<exists>pre sc post. scs = pre @ sc # post \<and> (sl_Name sc = name \<or> SC_isDefault sc) \<and> update (default_marked name sc) = Some err \<and>
     cache = map (remark name) (pre @ [sc]) @ post \<and>
     stored = map (default_marked name) (filter (\<lambda>sc. sl_Name sc = name \<or> SC_isDefault sc) pre)"
proof (induction scs arbitrary: cache stored)
  case (Cons x scs)
  show ?case
  proof (cases "(sl_Name x = name \<or> SC_isDefault x) \<and> update (default_marked name x) \<noteq> None")
    case True
    then show ?thesis using Cons.prems by (intro exI [of _ "[]"] exI [of _ x] exI [of _ scs]) (auto simp: remark_def)
  next
    case False
    obtain c st where r: "set_default_loop update name scs = (c, st, Some err)"
      using Cons.prems False by (auto split: if_splits prod.splits option.splits)
    from Cons.IH [OF this] obtain pre sc post where "scs = pre @ sc # post" "sl_Name sc = name \<or> SC_isDefault sc" "update (default_marked name sc) = Some err"
        "c = map (remark name) (pre @ [sc]) @ post"
        "st = map (default_marked name) (filter (\<lambda>sc. sl_Name sc = name \<or> SC_isDefault sc) pre)" by blast
    then show ?thesis using Cons.prems False r by (intro exI [of _ "x # pre"] exI [of _ sc] exI [of _ post]) (auto simp: remark_def split: if_splits)
  qed
qed simp

lemma PerformSetDefault_cases:
  assumes "PerformSetDefault None (Inr scs) update name = ((cache, stored), err)"
  shows "map sl_Name cache = map sl_Name scs"
    "err = None \<Longrightarrow> filter SC_isDefault cache = map (default_marked name) (filter (\<lambda>sc. sl_Name sc = name) scs) \<and>
       (\<forall>sc\<in>set cache. SC_isDefault sc \<longrightarrow> sc \<in> set stored) \<and> (\<forall>sc\<in>set scs. SC_isDefault sc \<longrightarrow> default_marked name sc \<in> set stored)"
    "err = Some e \<Longrightarrow> \<exists>pre sc post. scs = pre @ sc # post \<and> update (default_marked name sc) = Some e \<and> cache ! length pre = default_marked name sc \<and>
       drop (Suc (length pre)) cache = post \<and> map sl_Name stored = map sl_Name (filter (\<lambda>sc. sl_Name sc = name \<or> SC_isDefault sc) pre)"
proof -
  have l: "set_default_loop update name scs = (cache, stored, err)" using assms by (simp add: PerformSetDefault_def split: prod.splits)
  show "map sl_Name cache = map sl_Name scs"
  proof (cases err)
    case None
    then show ?thesis using set_default_loop_done [of update name scs cache stored] l by simp
  next
    case (Some e)
    then obtain pre sc post where "scs = (pre @ [sc]) @ post"
        "cache = map (remark name) (pre @ [sc]) @ post"
      using set_default_loop_failed [of update name scs cache stored e] l by auto
    then show ?thesis by simp
  qed
  show "err = None \<Longrightarrow> filter SC_isDefault cache = map (default_marked name) (filter (\<lambda>sc. sl_Name sc = name) scs) \<and>
       (\<forall>sc\<in>set cache. SC_isDefault sc \<longrightarrow> sc \<in> set stored) \<and> (\<forall>sc\<in>set scs. SC_isDefault sc \<longrightarrow> default_marked name sc \<in> set stored)"
  proof -
    assume "err = None"
    then have c: "cache = map (remark name) scs"
        and s: "stored = map (default_marked name) (filter (\<lambda>sc. sl_Name sc = name \<or> SC_isDefault sc) scs)"
      using set_default_loop_done [of update name scs cache stored] l by auto
    have "filter SC_isDefault (map (remark name) scs) = map (default_marked name) (filter (\<lambda>sc. sl_Name sc = name) scs)"
      by (induction scs) (auto simp: remark_def)
    then show ?thesis unfolding c s by (auto simp: remark_def)
  qed
  show "err = Some e \<Longrightarrow> \<exists>pre sc post. scs = pre @ sc # post \<and> update (default_marked name sc) = Some e \<and> cache ! length pre = default_marked name sc \<and>
       drop (Suc (length pre)) cache = post \<and> map sl_Name stored = map sl_Name (filter (\<lambda>sc. sl_Name sc = name \<or> SC_isDefault sc) pre)"
  proof -
    assume "err = Some e"
    then obtain pre sc post where "scs = pre @ sc # post" "sl_Name sc = name \<or> SC_isDefault sc" "update (default_marked name sc) = Some e"
        "cache = map (remark name) (pre @ [sc]) @ post"
        "stored = map (default_marked name) (filter (\<lambda>sc. sl_Name sc = name \<or> SC_isDefault sc) pre)"
      using set_default_loop_failed [of update name scs cache stored e] l by blast
    then show ?thesis by (intro exI [of _ pre] exI [of _ sc] exI [of _ post]) (auto simp: nth_append remark_def)
  qed
qed

text \<open>C22: setting the default class without an error leaves the classes of that name as the only default ones, in the cache as in the API, and changes
  nothing of the other classes but the two annotations; if the API refuses a class, the classes before it are stored and that class is marked in the cache only.\<close>

theorem set_default_unique:
  assumes "PerformSetDefault None (Inr scs) update name = ((cache, stored), err)"
  shows "map sl_Name cache = map sl_Name scs \<and>
    (err = None \<longrightarrow> filter SC_isDefault cache = map (default_marked name) (filter (\<lambda>sc. sl_Name sc = name) scs) \<and>
       (\<forall>sc\<in>set cache. SC_isDefault sc \<longrightarrow> sc \<in> set stored) \<and> (\<forall>sc\<in>set scs. SC_isDefault sc \<longrightarrow> default_marked name sc \<in> set stored)) \<and>
    (\<forall>e. err = Some e \<longrightarrow> (\<exists>pre sc post. scs = pre @ sc # post \<and> update (default_marked name sc) = Some e \<and> cache ! length pre = default_marked name sc \<and>
       drop (Suc (length pre)) cache = post \<and> map sl_Name stored = map sl_Name (filter (\<lambda>sc. sl_Name sc = name \<or> SC_isDefault sc) pre)))"
  using PerformSetDefault_cases [OF assms] by blast

text \<open>A class that is not in the cache yet takes the mark away from all others, without an error; an annotation that says \<open>false\<close> counts as a default.\<close>

theorem set_default_of_unknown_class:
  assumes "name \<notin> sl_Name ` set scs" "\<And>sc. update sc = None" "PerformSetDefault None (Inr scs) update name = ((cache, stored), err)"
  shows "err = None \<and> filter SC_isDefault cache = []"
proof -
  have l: "set_default_loop update name scs = (cache, stored, err)" using assms(3) by (simp add: PerformSetDefault_def split: prod.splits)
  have "err = None" using set_default_loop_failed [of update name scs cache stored] l assms(2) by (cases err) auto
  moreover have "filter SC_isDefault cache = []"
    using set_default_loop_done [of update name scs cache stored] l assms(1) \<open>err = None\<close> by (auto simp: filter_empty_conv)
  ultimately show ?thesis by simp
qed

theorem false_annotation_is_default:
  "SC_isDefault (sc\<lparr>sl_Annotations := [IsDefaultStorageClassAnnotation \<mapsto> ''false'']\<rparr>)"
  by (simp add: SC_isDefault_def)

section \<open>What validation gives\<close>

lemma ceph_component_settings:
  assumes "comp_inv s" "GetComponentByType cluster ''cephCSI'' s = Inr cmp"
  shows "se_CephCSI (cp_Settings cmp) \<noteq> None"
proof -
  have "List.find (\<lambda>c. cp_Type c = ''cephCSI'') (GetComponents cluster s) = Some cmp"
    using assms(2) by (simp add: GetComponentByType_def GetComponentByTypeNoError_def split: option.splits)
  then have "cmp \<in> set (GetComponents cluster s)" "cp_Type cmp = ''cephCSI''" by (auto simp: find_Some_iff)
  then have "cmp \<in> set (comps s)" "cp_Type cmp = ''cephCSI''" by (simp_all add: GetComponents_in)
  then have "settings_ok CephCSI (cp_Settings cmp)"
    using assms(1) by (force simp: comp_inv_def all_settings_ok_def kind_of_type_def)
  then show ?thesis by (auto simp: settings_ok_def)
qed

lemma getCephConfig_safe:
  assumes "comp_inv (cw_components w)"
  shows "getCephConfig w cluster data \<noteq> Inl p"
proof
  assume a: "getCephConfig w cluster data = Inl p"
  then obtain cmp where "GetComponentByType cluster ''cephCSI'' (cw_components w) = Inr cmp" "se_CephCSI (cp_Settings cmp) = None"
    by (auto simp: getCephConfig_def vbind_Inl fetched_def validateClusterId_def split: option.splits if_splits sum.splits)
  then show False using ceph_component_settings [OF assms] by blast
qed

lemma validateClusterId_in:
  "validateClusterId cId conf = Inr (Inr c) \<Longrightarrow> c \<in> set (the conf) \<and> ce_ClusterId c = cId"
  by (auto simp: validateClusterId_def find_Some_iff split: option.splits)

lemma getCephConfig_gives:
  assumes "getCephConfig w cluster data = Inr (Inr (conf, user, key))" "ct_CephCSIRBD data = Some input"
  shows "\<exists>cmp. GetComponentByType cluster ''cephCSI'' (cw_components w) = Inr cmp \<and> conf \<in> set (the (se_CephCSI (cp_Settings cmp)))"
    "ce_ClusterId conf = ci_ClusterId input" "\<exists>ns sec. getUserKeyFromSecret (cw_getSecret w ns sec) = Inr (user, key)"
  using assms by (auto simp: getCephConfig_def vbind_Inr_Inr dest!: validateClusterId_in split: option.splits if_splits)

lemma getCephConfig_Some: "getCephConfig w cluster data = Inr (Inr conf) \<Longrightarrow> \<exists>rbd. ct_CephCSIRBD data = Some rbd"
  by (cases "ct_CephCSIRBD data") (simp_all add: getCephConfig_def)

lemma CephRBD_safe:
  assumes "comp_inv (cw_components w)"
  shows "CephRBD_ValidateCreateData w cluster data \<noteq> Inl p"
proof (cases "getCephConfig w cluster data")
  case (Inl q)
  then show ?thesis using getCephConfig_safe [OF assms] by blast
next
  case (Inr r)
  show ?thesis
  proof (cases r)
    case (Inr conf)
    then obtain rbd where "ct_CephCSIRBD data = Some rbd" using getCephConfig_Some \<open>getCephConfig w cluster data = Inr r\<close> by blast
    then show ?thesis using Inr \<open>getCephConfig w cluster data = Inr r\<close> by (cases conf) (simp add: CephRBD_ValidateCreateData_def split: option.split)
  qed (use \<open>getCephConfig w cluster data = Inr r\<close> in \<open>simp add: CephRBD_ValidateCreateData_def\<close>)
qed

lemma CephRBD_gives:
  assumes "CephRBD_ValidateCreateData w cluster data = Inr (Inr data')"
  obtains conf user key rbd where "data' = data" "getCephConfig w cluster data = Inr (Inr (conf, user, key))" "ct_CephCSIRBD data = Some rbd"
    "validatePool w (ce_Monitors conf) user key (ci_Pool rbd) = None"
proof -
  obtain conf user key where c: "getCephConfig w cluster data = Inr (Inr (conf, user, key))"
    using assms by (auto simp: CephRBD_ValidateCreateData_def vbind_Inr_Inr)
  then obtain rbd where r: "ct_CephCSIRBD data = Some rbd" using getCephConfig_Some by blast
  show thesis
    using assms by (intro that [OF _ c r]) (auto simp: CephRBD_ValidateCreateData_def c r split: if_splits option.splits)
qed

lemma SC_validated:
  assumes "comp_inv (cw_components w)"
  shows "SC_ValidateCreateData w base client input0 \<noteq> Inl p"
    "SC_ValidateCreateData w base client input0 = Inr (Inr input) \<Longrightarrow>
     \<exists>sc conf cmp user key pools pool. SC_NewRemoteObjectForCreate input = Inr (Inr sc) \<and>
       GetComponentByType (ct_ClusterId input) ''cephCSI'' (cw_components w) = Inr cmp \<and> conf \<in> set (the (se_CephCSI (cp_Settings cmp))) \<and>
       sl_Parameters sc ''clusterID'' = Some (ce_ClusterId conf) \<and> (\<exists>ns sec. getUserKeyFromSecret (cw_getSecret w ns sec) = Inr (user, key)) \<and>
       cw_pools w (ce_Monitors conf) user key = Inr pools \<and> sl_Parameters sc ''pool'' = Some pool \<and> pool \<in> set pools"
proof -
  show "SC_ValidateCreateData w base client input0 \<noteq> Inl p"
  proof
    assume "SC_ValidateCreateData w base client input0 = Inl p"
    then obtain input where "CephRBD_ValidateCreateData w (ct_ClusterId input) input = Inl p"
      by (auto simp: SC_ValidateCreateData_def vbind_Inl split: if_splits option.splits)
    then show False using CephRBD_safe [OF assms] by blast
  qed
  assume v: "SC_ValidateCreateData w base client input0 = Inr (Inr input)"
  then obtain input1 where "SC_GetDriver (ct_Provisioner input1) = Inr ()" "CephRBD_ValidateCreateData w (ct_ClusterId input1) input1 = Inr (Inr input)"
    by (auto simp: SC_ValidateCreateData_def vbind_Inr_Inr split: if_splits option.splits)
  then obtain conf user key rbd where d: "SC_GetDriver (ct_Provisioner input) = Inr ()"
      and g: "getCephConfig w (ct_ClusterId input) input = Inr (Inr (conf, user, key))" "ct_CephCSIRBD input = Some rbd"
        "validatePool w (ce_Monitors conf) user key (ci_Pool rbd) = None"
    by (metis CephRBD_gives)
  obtain pools where p: "cw_pools w (ce_Monitors conf) user key = Inr pools" "ci_Pool rbd \<in> set pools"
    using g(3) by (auto simp: validatePool_def split: sum.splits if_splits)
  obtain params where "ToStorageClassParams input = Inr params" "params ''clusterID'' = Some (ci_ClusterId rbd)" "params ''pool'' = Some (ci_Pool rbd)"
    using g(2) by (auto simp: ToStorageClassParams_def)
  then have "\<exists>sc. SC_NewRemoteObjectForCreate input = Inr (Inr sc) \<and> sl_Parameters sc ''clusterID'' = Some (ci_ClusterId rbd) \<and> sl_Parameters sc ''pool'' = Some (ci_Pool rbd)"
    using d by (simp add: SC_NewRemoteObjectForCreate_def)
  moreover from getCephConfig_gives [OF g(1,2)] obtain cmp where "GetComponentByType (ct_ClusterId input) ''cephCSI'' (cw_components w) = Inr cmp"
      "conf \<in> set (the (se_CephCSI (cp_Settings cmp)))" "ce_ClusterId conf = ci_ClusterId rbd" "\<exists>ns sec. getUserKeyFromSecret (cw_getSecret w ns sec) = Inr (user, key)" by blast
  ultimately show "\<exists>sc conf cmp user key pools pool. SC_NewRemoteObjectForCreate input = Inr (Inr sc) \<and>
       GetComponentByType (ct_ClusterId input) ''cephCSI'' (cw_components w) = Inr cmp \<and> conf \<in> set (the (se_CephCSI (cp_Settings cmp))) \<and>
       sl_Parameters sc ''clusterID'' = Some (ce_ClusterId conf) \<and> (\<exists>ns sec. getUserKeyFromSecret (cw_getSecret w ns sec) = Inr (user, key)) \<and>
       cw_pools w (ce_Monitors conf) user key = Inr pools \<and> sl_Parameters sc ''pool'' = Some pool \<and> pool \<in> set pools"
    using p by metis
qed

text \<open>C21: validating a storage class does not panic as long as the components are consistent, and a class that is accepted can be built: it names a pool that
  the Ceph cluster lists with the credentials of the secret, of a Ceph cluster that the Ceph component of the same cluster is configured for.\<close>

theorem validated_class_has_pool:
  assumes "comp_inv (cw_components w)"
  shows "SC_ValidateCreateData w base client input0 \<noteq> Inl p \<and>
    (SC_ValidateCreateData w base client input0 = Inr (Inr input) \<longrightarrow>
     (\<exists>sc conf cmp user key pools pool. SC_NewRemoteObjectForCreate input = Inr (Inr sc) \<and>
       GetComponentByType (ct_ClusterId input) ''cephCSI'' (cw_components w) = Inr cmp \<and> conf \<in> set (the (se_CephCSI (cp_Settings cmp))) \<and>
       sl_Parameters sc ''clusterID'' = Some (ce_ClusterId conf) \<and> (\<exists>ns sec. getUserKeyFromSecret (cw_getSecret w ns sec) = Inr (user, key)) \<and>
       cw_pools w (ce_Monitors conf) user key = Inr pools \<and> sl_Parameters sc ''pool'' = Some pool \<and> pool \<in> set pools))"
  using SC_validated [OF assms] by blast

text \<open>The class carries the secret as the request wrote it, be it the id of its record; what the request says about expansion is dropped.\<close>

theorem class_as_requested:
  assumes "SC_NewRemoteObjectForCreate input = Inr (Inr sc)" "ct_CephCSIRBD input = Some rbd"
  shows "sl_Parameters sc (GetCSIParamsKey ''node-stage-secret-name'') = Some (ci_SecretName rbd)" "sl_AllowVolumeExpansion sc = None"
  using assms
  by (auto simp: SC_NewRemoteObjectForCreate_def ToStorageClassParams_def GetCSIParamsKey_def vbind_Inr_Inr)


section \<open>Config maps\<close>

record kube_configmap =
  kc_Meta :: object_meta
  kc_Data :: "(string \<rightharpoonup> string) option"

text \<open>\<open>base\<close> is the error of the base class; the data of a request are listed in the order of the iteration.\<close>

definition ConfigMap_ValidateCreateData :: "string option \<Rightarrow> (string \<times> string) list \<Rightarrow> string + (string \<times> string) list" where
  "ConfigMap_ValidateCreateData base input = (case base of Some err \<Rightarrow> Inl err | None \<Rightarrow> if input = [] then Inl ''data is empty'' else Inr input)"

definition ConfigMap_NewRemoteObjectForCreate :: "string + object_meta \<Rightarrow> (string \<times> string) list \<Rightarrow> string + kube_configmap" where
  "ConfigMap_NewRemoteObjectForCreate objMeta input = (case objMeta of Inl err \<Rightarrow> Inl err | Inr om \<Rightarrow> Inr \<lparr>kc_Meta = om, kc_Data = Some (map_of input)\<rparr>)"

text \<open>The assignment to an entry of a nil map panics.\<close>

definition assign_entry :: "string \<times> string \<Rightarrow> kube_configmap go \<Rightarrow> kube_configmap go" where
  "assign_entry = (\<lambda>(k, v) r. gbind r (\<lambda>obj. case kc_Data obj of None \<Rightarrow> Inl NilMapAssignment | Some d \<Rightarrow> Inr (obj\<lparr>kc_Data := Some (d(k \<mapsto> v))\<rparr>)))"

definition ConfigMap_NewRemoteObjectForUpdate :: "kube_configmap \<Rightarrow> (string \<times> string) list \<Rightarrow> kube_configmap go" where
  "ConfigMap_NewRemoteObjectForUpdate k8sObj input =
     fold assign_entry input (Inr k8sObj)"

lemma assign_entry_Some: "kc_Data obj = Some d \<Longrightarrow> assign_entry (k, v) (Inr obj) = Inr (obj\<lparr>kc_Data := Some (d(k \<mapsto> v))\<rparr>)"
  by (simp add: assign_entry_def)

lemma fold_assign:
  "kc_Data obj = Some d \<Longrightarrow> fold assign_entry input (Inr obj) = Inr (obj\<lparr>kc_Data := Some (d ++ map_of (rev input))\<rparr>)"
proof (induction input arbitrary: obj d)
  case (Cons p input)
  obtain k v where "p = (k, v)" by fastforce
  moreover have "fold assign_entry input (Inr (obj\<lparr>kc_Data := Some d'\<rparr>)) = Inr (obj\<lparr>kc_Data := Some (d' ++ map_of (rev input))\<rparr>)" for d'
    using Cons.IH [of "obj\<lparr>kc_Data := Some d'\<rparr>" d'] by simp
  ultimately show ?case using Cons.prems by (simp add: assign_entry_Some)
qed simp

lemma fold_panic:
  "fold assign_entry input (Inl p) = Inl p"
  by (induction input) (auto simp: assign_entry_def)

text \<open>An update replaces and adds entries and removes none; of a map without data it panics.\<close>

theorem configmap_update_merges:
  assumes "distinct (map fst input)"
  shows "ConfigMap_NewRemoteObjectForUpdate obj input =
    (case kc_Data obj of
       Some d \<Rightarrow> Inr (obj\<lparr>kc_Data := Some (d ++ map_of input)\<rparr>)
     | None \<Rightarrow> if input = [] then Inr obj else Inl NilMapAssignment)"
proof (cases "kc_Data obj")
  case None
  then show ?thesis
    by (cases input) (auto simp: ConfigMap_NewRemoteObjectForUpdate_def fold_panic assign_entry_def [THEN fun_cong])
next
  case (Some d)
  have "map_of (rev input) = map_of input" using assms by (simp add: map_of_inject_set rev_map [symmetric])
  then show ?thesis using Some fold_assign [of obj d input] by (simp add: ConfigMap_NewRemoteObjectForUpdate_def)
qed

section \<open>Who mounts what\<close>

text \<open>The loop over the volumes of a pod and the marks of pods already found, by name.\<close>

fun mounting :: "(pod \<Rightarrow> nat) \<Rightarrow> string list \<Rightarrow> pod list \<Rightarrow> pod list" where
  "mounting uses marked [] = []"
| "mounting uses marked (pod # pods) =
     (if uses pod > 0 \<and> om_Name (pd_Meta pod) \<notin> set marked then pod # mounting uses (om_Name (pd_Meta pod) # marked) pods
      else mounting uses marked pods)"

definition ConfigMap_GetRawPods :: "(string \<Rightarrow> string + pod list) \<Rightarrow> string \<Rightarrow> string \<Rightarrow> string + pod list" where
  "ConfigMap_GetRawPods lister ns cfgName =
     sbind (lister ns) (\<lambda>rawPods. Inr (mounting (\<lambda>pod. length (filter (\<lambda>v. vl_ConfigMap v = Some cfgName) (GetPodConfigMapVolumes pod))) [] rawPods))"

definition Secret_GetRawPods :: "(string \<Rightarrow> string + pod list) \<Rightarrow> string \<Rightarrow> string \<Rightarrow> string + pod list" where
  "Secret_GetRawPods lister ns secName =
     sbind (lister ns) (\<lambda>rawPods. Inr (mounting (\<lambda>pod. length (filter (\<lambda>v. vl_Secret v = Some secName) (GetPodSecretVolumes pod))) [] rawPods))"

definition GetPVCVolumes :: "pod_volume list \<Rightarrow> pod_volume list" where
  "GetPVCVolumes vols = filter (\<lambda>v. vl_Claim v \<noteq> None) vols"

text \<open>Of claims no pod is marked: a pod comes once for each of its volumes.\<close>

definition getMountRawPods :: "(string \<Rightarrow> string + pod list) \<Rightarrow> string \<Rightarrow> string \<Rightarrow> string + pod list" where
  "getMountRawPods lister ns claim =
     sbind (lister ns) (\<lambda>pods.
       Inr (concat (map (\<lambda>pod. map (\<lambda>_. pod) (filter (\<lambda>v. vl_Claim v = Some claim) (GetPVCVolumes (sp_Volumes (pd_Spec pod))))) pods)))"

definition PVC_GetMountPodNames :: "(string \<Rightarrow> string + pod list) \<Rightarrow> string \<Rightarrow> string \<Rightarrow> string + string list" where
  "PVC_GetMountPodNames lister ns claim = sbind (getMountRawPods lister ns claim) (\<lambda>pods. Inr (map (\<lambda>p. om_Name (pd_Meta p)) pods))"

lemma mounting_props:
  "set (mounting uses marked pods) \<subseteq> {p \<in> set pods. uses p > 0}"
  "om_Name ` pd_Meta ` set (mounting uses marked pods) = om_Name ` pd_Meta ` {p \<in> set pods. uses p > 0} - set marked"
  "distinct (map (\<lambda>p. om_Name (pd_Meta p)) (mounting uses marked pods))"
proof (induction pods arbitrary: marked)
  case (Cons p pods)
  { case 1 show ?case using Cons(1) by auto
  next
    case 2 show ?case using Cons(2) by (auto simp: image_iff)
  next
    case 3
    show ?case using Cons(3) Cons(2) [of "om_Name (pd_Meta p) # marked"] by (auto simp: image_image set_eq_iff)
  }
qed simp_all

text \<open>The pods of a config map are pods of its namespace that mount it, every name of such a pod once; the pods of a claim are the pods that mount it, as often as
  they do.\<close>

theorem mounted_by:
  assumes "lister ns = Inr pods" "\<And>p. p \<in> set pods \<Longrightarrow> cfg p \<longleftrightarrow> (\<exists>v\<in>set (sp_Volumes (pd_Spec p)). vl_ConfigMap v = Some name)"
  shows "\<exists>ps. ConfigMap_GetRawPods lister ns name = Inr ps \<and> set ps \<subseteq> {p \<in> set pods. cfg p} \<and>
      om_Name ` pd_Meta ` set ps = om_Name ` pd_Meta ` {p \<in> set pods. cfg p} \<and> distinct (map (\<lambda>p. om_Name (pd_Meta p)) ps)"
    "\<exists>ps. getMountRawPods lister ns name = Inr ps \<and>
      (\<forall>p. count_list ps p = count_list pods p * length (filter (\<lambda>v. vl_Claim v = Some name) (sp_Volumes (pd_Spec p))))"
proof -
  let ?uses = "\<lambda>pod. length (filter (\<lambda>v. vl_ConfigMap v = Some name) (GetPodConfigMapVolumes pod))"
  have "{p \<in> set pods. cfg p} = {p \<in> set pods. ?uses p > 0}"
    using assms(2) by (fastforce simp: GetPodConfigMapVolumes_def getPodResourceVolumes_def filter_empty_conv)
  then show "\<exists>ps. ConfigMap_GetRawPods lister ns name = Inr ps \<and> set ps \<subseteq> {p \<in> set pods. cfg p} \<and>
      om_Name ` pd_Meta ` set ps = om_Name ` pd_Meta ` {p \<in> set pods. cfg p} \<and> distinct (map (\<lambda>p. om_Name (pd_Meta p)) ps)"
    using mounting_props [of ?uses "[]" pods] by (simp add: ConfigMap_GetRawPods_def assms(1) sbind_def)
  have f: "filter (\<lambda>v. vl_Claim v = Some name) (GetPVCVolumes vs) = filter (\<lambda>v. vl_Claim v = Some name) vs" for vs
    by (induction vs) (auto simp: GetPVCVolumes_def)
  have m: "count_list (map (\<lambda>_. q) xs) p = (if q = p then length xs else 0)" for q p :: pod and xs :: "pod_volume list"
    by (induction xs) auto
  have "count_list (concat (map (\<lambda>pod. map (\<lambda>_. pod) (filter (\<lambda>v. vl_Claim v = Some name) (sp_Volumes (pd_Spec pod)))) pods)) p =
      count_list pods p * length (filter (\<lambda>v. vl_Claim v = Some name) (sp_Volumes (pd_Spec p)))" for p
    by (induction pods) (auto simp: m)
  then show "\<exists>ps. getMountRawPods lister ns name = Inr ps \<and>
      (\<forall>p. count_list ps p = count_list pods p * length (filter (\<lambda>v. vl_Claim v = Some name) (sp_Volumes (pd_Spec p))))"
    by (simp add: getMountRawPods_def assms(1) sbind_def f)
qed

section \<open>Claims\<close>

record claim =
  ca_Meta :: object_meta
  ca_AccessModes :: "string list"
  ca_Storage :: int
  ca_StorageClass :: string

text \<open>The rows of a list request by their status; \<open>parse\<close> is \<open>resource.ParseQuantity\<close>.\<close>

definition PVC_ListItemFilter :: "bool option \<Rightarrow> (string \<times> string) list \<Rightarrow> (string \<times> string) list" where
  "PVC_ListItemFilter unused rows =
     (case unused of
        None \<Rightarrow> rows
      | Some u \<Rightarrow> if \<not> u then filter (\<lambda>(_, status). status = ''Bound'') rows else filter (\<lambda>(_, status). status \<noteq> ''Bound'') rows)"

definition PVC_NewRemoteObjectForCreate :: "(string \<Rightarrow> string + int) \<Rightarrow> string + object_meta \<Rightarrow> string \<Rightarrow> string \<Rightarrow> string + claim" where
  "PVC_NewRemoteObjectForCreate parse objMeta sz cls =
     sbind (parse sz) (\<lambda>storageSize.
     sbind objMeta (\<lambda>om. Inr \<lparr>ca_Meta = om, ca_AccessModes = [''ReadWriteOnce''], ca_Storage = storageSize, ca_StorageClass = cls\<rparr>))"

definition PVC_SetStatusByRemoteObject :: "string \<Rightarrow> string \<times> string \<Rightarrow> string \<times> string" where
  "PVC_SetStatusByRemoteObject phase row = (fst row, phase)"

text \<open>The used and the unused claims of a list request are all claims; a claim that is bound and mounted by nobody counts as used.\<close>

theorem used_unused_partition:
  "mset rows = mset (PVC_ListItemFilter (Some False) rows) + mset (PVC_ListItemFilter (Some True) rows)"
  by (induction rows) (auto simp: PVC_ListItemFilter_def)


section \<open>Samples\<close>

definition ceph_component :: component where
  "ceph_component = \<lparr>cp_Id = ''k1'', cp_Name = ''prod-ceph'', cp_Type = ''cephCSI'', cp_Enabled = True, cp_Status = ''deployed'',
     cp_Settings = \<lparr>se_Namespace = ''ceph-csi'', se_CephCSI = Some [\<lparr>ce_ClusterId = ''ceph1'', ce_Monitors = [''mon:6789'']\<rparr>], se_Monitor = None, se_FluentBit = None\<rparr>\<rparr>"

definition sample_secret_input :: secret_input where
  "sample_secret_input = \<lparr>si_Meta = sample_meta, si_Type = SecretTypeCephCSI, si_DockerConfigJson = None,
     si_CephCSI = Some \<lparr>cc_UserId = ''admin'', cc_UserKey = ''key'', cc_EncryptionPassphrase = []\<rparr>\<rparr>"

definition sample_encodings :: encodings where
  "sample_encodings = \<lparr>ec_base64 = id, ec_auths = (\<lambda>server entries. server)\<rparr>"

definition sample_ceph_world :: ceph_world where
  "sample_ceph_world =
     \<lparr>cw_db = sample_sync_env,
      cw_namespaces = [\<lparr>r_Id = ''ns1'', r_Name = ''ceph'', r_Status = ''active'', r_ExternalId = ''u1'', r_ClusterId = ''prod'', r_ResourceVersion = [], r_NamespaceId = []\<rparr>],
      cw_secrets = [\<lparr>r_Id = ''s1'', r_Name = ''rbd'', r_Status = ''active'', r_ExternalId = ''u2'', r_ClusterId = ''prod'', r_ResourceVersion = [], r_NamespaceId = ''ns1''\<rparr>],
      cw_getSecret = (\<lambda>ns name. if ns = ''ceph'' \<and> name = ''rbd''
        then (case Secret_NewRemoteObjectForCreate sample_encodings (Inr sample_meta) sample_secret_input of Inr r \<Rightarrow> r | Inl _ \<Rightarrow> Inl []) else Inl ''not found''),
      cw_components = \<lparr>comps = [ceph_component], joints = [(''prod'', ''k1'')], ctasks = []\<rparr>,
      cw_settingsErr = (\<lambda>_. None),
      cw_pools = (\<lambda>monitors user key. if monitors = [''mon:6789''] \<and> user = ''admin'' \<and> key = ''key'' then Inr [''rbd-pool''] else Inl ''denied'')\<rparr>"

definition sample_class_input :: class_input where
  "sample_class_input = \<lparr>ct_Meta = sample_meta\<lparr>om_Name := ''fast''\<rparr>, ct_ClusterId = ''prod'', ct_Provisioner = ''rbd.csi.ceph.com'', ct_ReclaimPolicy = None,
     ct_AllowVolumeExpansion = Some True, ct_MountOptions = [], ct_VolumeBindingMode = None, ct_AllowedTopologies = [],
     ct_CephCSIRBD = Some \<lparr>ci_ClusterId = ''ceph1'', ci_Pool = ''rbd-pool'', ci_ImageFeatures = ''layering'', ci_SecretName = ''rbd'', ci_SecretNamespace = ''ceph'',
       ci_CSIFsType = ''ext4''\<rparr>\<rparr>"

lemma sample_components_ok: "comp_inv (cw_components sample_ceph_world)"
proof -
  let ?s = "\<lparr>comps = [ceph_component], joints = [(''prod'', ''k1'')], ctasks = []\<rparr> :: component_store"
  have "validateMon ''mon:6789'' = None" by (simp add: validateMon_def strconv_Atoi_def digit_def Let_def)
  then have "Ceph_validateSetting (se_CephCSI (cp_Settings ceph_component)) = None"
    by (simp add: ceph_component_def Ceph_validateSetting_def validateCreateConfig_def)
  then have "settings_ok CephCSI (cp_Settings ceph_component)" by (simp add: settings_ok_def Ceph_validateSetting_None)
  moreover have "kind_of_type (cp_Type ceph_component) = Some CephCSI" by code_simp
  ultimately have "all_settings_ok ?s" by (simp add: all_settings_ok_def)
  moreover have "find_comp ''k1'' ?s = Some ceph_component" by (simp add: find_comp_def ceph_component_def)
  then have "distinct (map cp_Type (GetComponents cl ?s))" for cl
    by (cases "cl = ''prod''") (simp_all add: GetComponents_def List.map_filter_simps)
  then have "joints_ok ?s" by (simp add: joints_ok_def)
  ultimately show ?thesis by (simp add: sample_ceph_world_def comp_inv_def)
qed

lemma sample_lookups:
  "FetchClusterResourceByIdOrName (cw_db sample_ceph_world) False ''prod'' [] ''ceph'' (cw_namespaces sample_ceph_world) = Inr (hd (cw_namespaces sample_ceph_world))"
  "FetchClusterResourceByIdOrName (cw_db sample_ceph_world) True ''prod'' ''ns1'' ''rbd'' (cw_secrets sample_ceph_world) = Inr (hd (cw_secrets sample_ceph_world))"
  "r_Id (hd (cw_namespaces sample_ceph_world)) = ''ns1''" "r_Name (hd (cw_namespaces sample_ceph_world)) = ''ceph''" "r_Name (hd (cw_secrets sample_ceph_world)) = ''rbd''"
  by (simp_all add: FetchClusterResourceByIdOrName_def FetchClusterResourceById_def FetchClusterResourceByName_def first_count_def sample_sync_env_def sample_ceph_world_def)

lemma sample_world_reads:
  "getUserKeyFromSecret (cw_getSecret sample_ceph_world ''ceph'' ''rbd'') = Inr (''admin'', ''key'')"
  "GetComponentByType ''prod'' ''cephCSI'' (cw_components sample_ceph_world) = Inr ceph_component"
  by code_simp+

lemma sample_class_valid: "SC_ValidateCreateData sample_ceph_world Inr None sample_class_input = Inr (Inr sample_class_input)"
proof -
  have "getCephConfig sample_ceph_world ''prod'' sample_class_input = Inr (Inr (\<lparr>ce_ClusterId = ''ceph1'', ce_Monitors = [''mon:6789'']\<rparr>, ''admin'', ''key''))"
    by (simp add: getCephConfig_def sample_class_input_def fetched_def sample_lookups sample_world_reads)
      (simp add: sample_ceph_world_def ceph_component_def validateClusterId_def)
  moreover have "validatePool sample_ceph_world [''mon:6789''] ''admin'' ''key'' ''rbd-pool'' = None" by (simp add: validatePool_def sample_ceph_world_def)
  ultimately have "CephRBD_ValidateCreateData sample_ceph_world ''prod'' sample_class_input = Inr (Inr sample_class_input)"
    by (simp add: CephRBD_ValidateCreateData_def) (simp add: sample_class_input_def)
  moreover have "SC_GetDriver ''rbd.csi.ceph.com'' = Inr ()" by code_simp
  moreover have "ct_ClusterId sample_class_input = ''prod''" "ct_Provisioner sample_class_input = ''rbd.csi.ceph.com''" by (simp_all add: sample_class_input_def)
  ultimately show ?thesis by (simp add: SC_ValidateCreateData_def)
qed

theorem validated_class_has_pool_witness:
  "SC_ValidateCreateData sample_ceph_world Inr None sample_class_input = Inr (Inr sample_class_input) \<and>
   (\<exists>sc (conf :: ceph_cluster) user key pools. SC_NewRemoteObjectForCreate sample_class_input = Inr (Inr sc) \<and>
      cw_pools sample_ceph_world (ce_Monitors conf) user key = Inr pools \<and> (\<exists>pool\<in>set pools. sl_Parameters sc ''pool'' = Some pool))"
proof
  show "SC_ValidateCreateData sample_ceph_world Inr None sample_class_input = Inr (Inr sample_class_input)" by (rule sample_class_valid)
  from validated_class_has_pool [OF sample_components_ok, of Inr None sample_class_input _ sample_class_input, THEN conjunct2, rule_format, OF sample_class_valid]
  show "\<exists>sc (conf :: ceph_cluster) user key pools. SC_NewRemoteObjectForCreate sample_class_input = Inr (Inr sc) \<and>
      cw_pools sample_ceph_world (ce_Monitors conf) user key = Inr pools \<and> (\<exists>pool\<in>set pools. sl_Parameters sc ''pool'' = Some pool)"
    by (elim exE conjE) (intro exI conjI bexI, assumption+)
qed

theorem ceph_secret_roundtrip_witness:
  "\<exists>sec. Secret_NewRemoteObjectForCreate sample_encodings (Inr sample_meta) sample_secret_input = Inr (Inr sec) \<and> getUserKeyFromSecret (Inr sec) = Inr (''admin'', ''key'')"
proof -
  have 1: "Secret_ValidateCreateData None sample_secret_input = Inr (Inr sample_secret_input)" by code_simp
  have 2: "si_Type sample_secret_input = SecretTypeCephCSI" by (simp add: sample_secret_input_def)
  have 3: "si_CephCSI sample_secret_input = Some \<lparr>cc_UserId = ''admin'', cc_UserKey = ''key'', cc_EncryptionPassphrase = []\<rparr>" by (simp add: sample_secret_input_def)
  show ?thesis using ceph_secret_roundtrip [OF 1 2, of sample_encodings sample_meta] unfolding 3 by auto
qed

definition sample_class :: "string \<Rightarrow> (string \<rightharpoonup> string) \<Rightarrow> storage_class" where
  "sample_class name as = \<lparr>sl_Name = name, sl_Annotations = as, sl_Provisioner = ''rbd.csi.ceph.com'', sl_Parameters = Map.empty, sl_ReclaimPolicy = None,
     sl_AllowVolumeExpansion = None, sl_MountOptions = [], sl_VolumeBindingMode = None, sl_AllowedTopologies = []\<rparr>"

theorem set_default_unique_witness:
  "map sl_Name (filter SC_isDefault (fst (fst (PerformSetDefault None
     (Inr [sample_class ''slow'' [betaIsDefaultStorageClassAnnotation \<mapsto> ''true''], sample_class ''fast'' Map.empty]) (\<lambda>_. None) ''fast'')))) = [''fast'']"
proof -
  let ?scs = "[sample_class ''slow'' [betaIsDefaultStorageClassAnnotation \<mapsto> ''true''], sample_class ''fast'' Map.empty]"
  obtain cache stored err where r: "PerformSetDefault None (Inr ?scs) (\<lambda>_. None) ''fast'' = ((cache, stored), err)" by (metis prod.exhaust)
  have "err = None" using set_default_unique [OF r] by (cases err) auto
  then have "filter SC_isDefault cache = map (default_marked ''fast'') (filter (\<lambda>sc. sl_Name sc = ''fast'') ?scs)"
    using set_default_unique [OF r] by blast
  then show ?thesis unfolding r by (simp add: sample_class_def comp_def)
qed

end
