(* ===== verification/HelmRepos.thy ===== *)
theory HelmRepos
  imports Prelude "HOL-Library.Sublist"
begin

text \<open>
  Chart repositories: src/pkg/helm/repo.go and sync.go (the file of repositories that Helm reads,
  with the cached index of each repository), src/pkg/models/repos.go (the records),
  src/pkg/controllers/helm/helm.go (start-up and refresh) and the search of charts in
  src/pkg/helm/chart.go with src/pkg/resources/chart/list.go. The state is the file (missing or its
  entries), the cached indexes and the tables of repositories and releases; the file system, the
  network and the database answer through an environment. Shown: records and file stay in step except for
  the repositories that were renamed or whose removal failed half way, and no release loses its repository; and what is left
  behind by failures and by a renaming.
\<close>

section \<open>The file of repositories\<close>

record entry =
  et_Name :: string
  et_URL :: string
  et_Username :: string
  et_Password :: string

record chart_version =
  cv_Name :: string
  cv_Version :: string
  cv_Keywords :: "string list"

type_synonym index = "chart_version list"

record helm_state =
  hs_file :: "entry list option"
  hs_cache :: "string \<rightharpoonup> index"

text \<open>The errors of the file system and the lock, and what the download of the index of a repository gives.\<close>

record helm_env =
  he_client :: "string \<Rightarrow> string option"
  he_mkdir :: "string option"
  he_lock :: "string option"
  he_read :: "string option"
  he_repository :: "entry \<Rightarrow> string option"
  he_download :: "entry \<Rightarrow> string + index"
  he_write :: "string option"
  he_stat :: "string option"
  he_remove :: "string option"

datatype repo_error = RepoAlreadyExists string | NoRepositories | RepoError string

definition entries :: "helm_state \<Rightarrow> entry list" where
  "entries st = (case hs_file st of None \<Rightarrow> [] | Some es \<Rightarrow> es)"

text \<open>\<open>LoadFile\<close> of the Helm library: a file that is missing or cannot be read has no repositories.\<close>

definition LoadFile :: "helm_env \<Rightarrow> helm_state \<Rightarrow> entry list" where
  "LoadFile e st = (if he_read e \<noteq> None then [] else entries st)"

definition file_Has :: "string \<Rightarrow> entry list \<Rightarrow> bool" where
  "file_Has name es \<longleftrightarrow> (\<exists>x\<in>set es. et_Name x = name)"

fun file_update :: "entry \<Rightarrow> entry list \<Rightarrow> entry list" where
  "file_update x [] = [x]"
| "file_update x (y # ys) = (if et_Name y = et_Name x then x # ys else y # file_update x ys)"

text \<open>Adding a repository downloads its index into the cache before the file is written.\<close>

definition RepoClient_Add :: "helm_env \<Rightarrow> entry \<Rightarrow> helm_state \<Rightarrow> helm_state \<times> repo_error option" where
  "RepoClient_Add e x st =
     (case he_mkdir e of
        Some err \<Rightarrow> (st, Some (RepoError (''mkdir: '' @ err)))
      | None \<Rightarrow>
     (case he_lock e of
        Some err \<Rightarrow> (st, Some (RepoError err))
      | None \<Rightarrow>
     (case (if hs_file st = None then None else he_read e) of
        Some err \<Rightarrow> (st, Some (RepoError err))
      | None \<Rightarrow>
          if file_Has (et_Name x) (entries st) then (st, Some (RepoAlreadyExists (et_Name x)))
          else
     (case he_repository e x of
        Some err \<Rightarrow> (st, Some (RepoError err))
      | None \<Rightarrow>
     (case he_download e x of
        Inl err \<Rightarrow> (st, Some (RepoError (''looks like '' @ et_URL x @ '' is not a valid chart repository or cannot be readched: '' @ err)))
      | Inr idx \<Rightarrow>
          let st1 = st\<lparr>hs_cache := (hs_cache st)(et_Name x \<mapsto> idx)\<rparr> in
          case he_write e of
            Some err \<Rightarrow> (st1, Some (RepoError err))
          | None \<Rightarrow> (st1\<lparr>hs_file := Some (file_update x (entries st))\<rparr>, None))))))"

text \<open>The failure of a download is logged only.\<close>

fun update_repos :: "helm_env \<Rightarrow> entry list \<Rightarrow> helm_state \<Rightarrow> helm_state" where
  "update_repos e [] st = st"
| "update_repos e (x # xs) st =
     update_repos e xs (case he_download e x of Inl _ \<Rightarrow> st | Inr idx \<Rightarrow> st\<lparr>hs_cache := (hs_cache st)(et_Name x \<mapsto> idx)\<rparr>)"

text \<open>All entries of the file are made repositories before those with the name are updated.\<close>

fun named_loop :: "helm_env \<Rightarrow> string \<Rightarrow> entry list \<Rightarrow> string + entry list" where
  "named_loop e name [] = Inr []"
| "named_loop e name (x # xs) =
     (case he_repository e x of
        Some err \<Rightarrow> Inl err
      | None \<Rightarrow> map_sum id (\<lambda>r. if et_Name x = name then x # r else r) (named_loop e name xs))"

definition RepoClient_Update :: "helm_env \<Rightarrow> string \<Rightarrow> helm_state \<Rightarrow> helm_state \<times> repo_error option" where
  "RepoClient_Update e name st =
     (if LoadFile e st = [] then (st, Some NoRepositories)
      else case named_loop e name (LoadFile e st) of
             Inl err \<Rightarrow> (st, Some (RepoError err))
           | Inr repos \<Rightarrow> (update_repos e repos st, None))"

definition GetEntry :: "helm_env \<Rightarrow> string \<Rightarrow> helm_state \<Rightarrow> string + entry" where
  "GetEntry e name st =
     (case (if hs_file st = None then Some ''file does not exist'' else he_read e) of
        Some err \<Rightarrow> Inl err
      | None \<Rightarrow>
          (case find (\<lambda>x. et_Name x = name) (entries st) of
             Some x \<Rightarrow> Inr x
           | None \<Rightarrow> Inl (''Not found repo '' @ name)))"

definition removeRepoCache :: "helm_env \<Rightarrow> string \<Rightarrow> helm_state \<Rightarrow> helm_state \<times> string option" where
  "removeRepoCache e name st =
     (if hs_cache st name = None then (st, None)
      else case he_stat e of
             Some err \<Rightarrow> (st, Some (''can't remove index file: '' @ err))
           | None \<Rightarrow>
               (case he_remove e of
                  Some err \<Rightarrow> (st, Some err)
                | None \<Rightarrow> (st\<lparr>hs_cache := (hs_cache st)(name := None)\<rparr>, None)))"

text \<open>Without any repository in the file there is nothing to remove and no error.\<close>

definition RepoClient_Remove :: "helm_env \<Rightarrow> string \<Rightarrow> helm_state \<Rightarrow> helm_state \<times> string option" where
  "RepoClient_Remove e name st =
     (if LoadFile e st = [] then (st, None)
      else if \<not> file_Has name (LoadFile e st) then (st, Some (''no repo named '' @ name @ '' found''))
      else case he_write e of
             Some err \<Rightarrow> (st, Some err)
           | None \<Rightarrow> removeRepoCache e name (st\<lparr>hs_file := Some (filter (\<lambda>x. et_Name x \<noteq> name) (LoadFile e st))\<rparr>))"

text \<open>The cache of repositories at start-up and at each refresh: what is in the file already is left alone, errors are logged.\<close>

fun Backend_Update :: "helm_env \<Rightarrow> entry list \<Rightarrow> helm_state \<Rightarrow> helm_state" where
  "Backend_Update e [] st = st"
| "Backend_Update e (x # xs) st =
     Backend_Update e xs (case GetEntry e (et_Name x) st of Inr _ \<Rightarrow> st | Inl _ \<Rightarrow> fst (RepoClient_Add e x st))"

section \<open>Records of repositories and releases\<close>

record repo =
  rp_Id :: string
  rp_Name :: string
  rp_DomainId :: string
  rp_Url :: string
  rp_Username :: string
  rp_Password :: string
  rp_Type :: string

record release_row =
  rl_Id :: string
  rl_RepoId :: string

record repo_world =
  rw_repos :: "repo list"
  rw_releases :: "release_row list"
  rw_helm :: helm_state

text \<open>The checks of the framework, the parsing of the URL, the count of releases and the table of repositories may fail.\<close>

record repo_env =
  ro_base :: "string \<Rightarrow> string option"
  ro_url :: "string \<Rightarrow> string option"
  ro_insert :: "string option"
  ro_count :: "string option"
  ro_delete :: "string option"
  ro_helm :: helm_env

record repo_input =
  rn_Name :: string
  rn_Url :: string
  rn_Type :: string

definition RepoTypeInternal :: string where "RepoTypeInternal = ''internal''"
definition RepoTypeExternal :: string where "RepoTypeExternal = ''external''"

definition ToEntry :: "repo \<Rightarrow> entry" where
  "ToEntry r = \<lparr>et_Name = rp_Name r, et_URL = rp_Url r, et_Username = rp_Username r, et_Password = rp_Password r\<rparr>"

text \<open>The repository is added to the file during the validation, before there is a record.\<close>

definition Repo_ValidateCreateData :: "repo_env \<Rightarrow> string \<Rightarrow> repo_input \<Rightarrow> helm_state \<Rightarrow> helm_state \<times> (string + repo_input)" where
  "Repo_ValidateCreateData e domain data st =
     (case ro_base e (rn_Name data) of
        Some err \<Rightarrow> (st, Inl err)
      | None \<Rightarrow>
          if rn_Url data = [] then (st, Inl ''Missing repo url'')
          else case ro_url e (rn_Url data) of
                 Some err \<Rightarrow> (st, Inl (''Invalid repo url: '' @ err))
               | None \<Rightarrow>
                   let data1 = (if rn_Type data = [] then data\<lparr>rn_Type := RepoTypeExternal\<rparr> else data) in
                   if rn_Type data1 \<notin> {RepoTypeExternal, RepoTypeInternal} then (st, Inl (''Not support type '' @ rn_Type data1))
                   else case he_client (ro_helm e) domain of
                          Some err \<Rightarrow> (st, Inl err)
                        | None \<Rightarrow>
                            (case RepoClient_Add (ro_helm e) \<lparr>et_Name = rn_Name data1, et_URL = rn_Url data1, et_Username = [], et_Password = []\<rparr> st of
                               (st', Some err) \<Rightarrow> (st', Inl (''Add helm repo '' @ rn_Url data1 @ '' failed''))
                             | (st', None) \<Rightarrow> (st', Inr data1)))"

text \<open>The creation by the framework: validation, then the record.\<close>

definition Repo_Create :: "repo_env \<Rightarrow> string \<Rightarrow> string \<Rightarrow> repo_input \<Rightarrow> repo_world \<Rightarrow> repo_world \<times> string option" where
  "Repo_Create e i domain data w =
     (case Repo_ValidateCreateData e domain data (rw_helm w) of
        (st, Inl err) \<Rightarrow> (w\<lparr>rw_helm := st\<rparr>, Some err)
      | (st, Inr data1) \<Rightarrow>
          (case ro_insert e of
             Some err \<Rightarrow> (w\<lparr>rw_helm := st\<rparr>, Some err)
           | None \<Rightarrow>
               (w\<lparr>rw_repos := rw_repos w @ [\<lparr>rp_Id = i, rp_Name = rn_Name data1, rp_DomainId = domain, rp_Url = rn_Url data1,
                    rp_Username = [], rp_Password = [], rp_Type = rn_Type data1\<rparr>], rw_helm := st\<rparr>, None)))"

definition GetReleaseCount :: "repo_env \<Rightarrow> repo \<Rightarrow> repo_world \<Rightarrow> string + nat" where
  "GetReleaseCount e r w =
     (case ro_count e of
        Some err \<Rightarrow> Inl (''get repo '' @ rp_Name r @ '' release count: '' @ err)
      | None \<Rightarrow> Inr (length (filter (\<lambda>x. rl_RepoId x = rp_Id r) (rw_releases w))))"

definition Repo_ValidateDeleteCondition :: "repo_env \<Rightarrow> repo \<Rightarrow> repo_world \<Rightarrow> string option" where
  "Repo_ValidateDeleteCondition e r w =
     (case GetReleaseCount e r w of
        Inl err \<Rightarrow> Some (''check release count: '' @ err)
      | Inr n \<Rightarrow> if n \<noteq> 0 then Some (show_nat n @ '' release use this repo'') else None)"

text \<open>The record goes last.\<close>

definition Repo_Delete :: "repo_env \<Rightarrow> repo \<Rightarrow> repo_world \<Rightarrow> repo_world \<times> string option" where
  "Repo_Delete e r w =
     (case he_client (ro_helm e) (rp_DomainId r) of
        Some err \<Rightarrow> (w, Some err)
      | None \<Rightarrow>
          (case RepoClient_Remove (ro_helm e) (rp_Name r) (rw_helm w) of
             (st, Some err) \<Rightarrow> (w\<lparr>rw_helm := st\<rparr>, Some err)
           | (st, None) \<Rightarrow>
               (case ro_delete e of
                  Some err \<Rightarrow> (w\<lparr>rw_helm := st\<rparr>, Some err)
                | None \<Rightarrow> (w\<lparr>rw_repos := filter (\<lambda>x. rp_Id x \<noteq> rp_Id r) (rw_repos w), rw_helm := st\<rparr>, None))))"

text \<open>A request to delete a repository, as the framework runs it.\<close>

definition delete_request :: "repo_env \<Rightarrow> repo \<Rightarrow> repo_world \<Rightarrow> repo_world \<times> string option" where
  "delete_request e r w = (case Repo_ValidateDeleteCondition e r w of Some err \<Rightarrow> (w, Some err) | None \<Rightarrow> Repo_Delete e r w)"

text \<open>The generic PUT of the framework: the name is marked for updates by users, nothing is done to the file.\<close>

definition Repo_Update :: "repo_env \<Rightarrow> string \<Rightarrow> string \<Rightarrow> repo_world \<Rightarrow> repo_world \<times> string option" where
  "Repo_Update e i name w =
     (case ro_base e name of
        Some err \<Rightarrow> (w, Some err)
      | None \<Rightarrow> (w\<lparr>rw_repos := map (\<lambda>x. if rp_Id x = i then x\<lparr>rp_Name := name\<rparr> else x) (rw_repos w)\<rparr>, None))"

text \<open>That the repository is there already is not an error of a synchronisation.\<close>

definition Repo_DoSync :: "repo_env \<Rightarrow> repo \<Rightarrow> helm_state \<Rightarrow> helm_state \<times> repo_error option" where
  "Repo_DoSync e r st =
     (case he_client (ro_helm e) (rp_DomainId r) of
        Some err \<Rightarrow> (st, Some (RepoError err))
      | None \<Rightarrow>
          (case RepoClient_Add (ro_helm e) \<lparr>et_Name = rp_Name r, et_URL = rp_Url r, et_Username = [], et_Password = []\<rparr> st of
             (st', Some (RepoAlreadyExists n)) \<Rightarrow> RepoClient_Update (ro_helm e) (rp_Name r) st'
           | (st', Some err) \<Rightarrow> (st', Some err)
           | (st', None) \<Rightarrow> RepoClient_Update (ro_helm e) (rp_Name r) st'))"

definition doRepoRefresh :: "repo_env \<Rightarrow> string + repo list \<Rightarrow> helm_state \<Rightarrow> helm_state" where
  "doRepoRefresh e listed st = (case listed of Inl _ \<Rightarrow> st | Inr repos \<Rightarrow> Backend_Update (ro_helm e) (map ToEntry repos) st)"

section \<open>The search of charts\<close>

text \<open>A result of the search library: the name with the repository before the slash, and the version of the chart.\<close>

type_synonym search_result = "string \<times> chart_version"

record chart_query =
  cq_Name :: string
  cq_Repo :: string
  cq_AllVersion :: bool
  cq_Keyword :: string
  cq_Version :: string

text \<open>The libraries: the score search of an index, its order, and the constraint a text stands for. A version that is not a version satisfies every constraint.\<close>

record chart_env =
  ce_helm :: helm_env
  ce_all :: "search_result list \<Rightarrow> search_result list"
  ce_search :: "string \<Rightarrow> search_result list \<Rightarrow> string + search_result list"
  ce_sort :: "search_result list \<Rightarrow> search_result list"
  ce_constraint :: "string \<Rightarrow> string + (string \<Rightarrow> bool)"
  ce_fetchRepo :: "string \<Rightarrow> string + repo"

definition setupSearchedVersion :: "bool \<Rightarrow> string" where
  "setupSearchedVersion devel = (if devel then ''>0.0.0-0'' else ''>0.0.0'')"

definition getSearchResultRepo :: "search_result \<Rightarrow> string" where
  "getSearchResultRepo r = takeWhile (\<lambda>c. c \<noteq> CHR ''/'') (fst r)"

definition contains :: "string \<Rightarrow> string \<Rightarrow> bool" where
  "contains s t \<longleftrightarrow> (\<exists>i\<in>set [0..<Suc (length s)]. take (length t) (drop i s) = t)"

definition filterF :: "chart_query \<Rightarrow> search_result \<Rightarrow> bool" where
  "filterF q r \<longleftrightarrow>
     (if cq_Repo q \<noteq> [] \<and> getSearchResultRepo r \<noteq> cq_Repo q then False
      else if cq_Name q \<noteq> [] then cv_Name (snd r) = cq_Name q
      else if cq_Keyword q \<noteq> [] then contains (cv_Name (snd r)) (cq_Keyword q) \<or> cq_Keyword q \<in> set (cv_Keywords (snd r))
      else True)"

definition applyFilter :: "chart_query \<Rightarrow> search_result list \<Rightarrow> search_result list" where
  "applyFilter q res = filter (filterF q) res"

text \<open>The charts that were found are remembered by their name alone.\<close>

fun constraint_loop :: "(string \<Rightarrow> bool) \<Rightarrow> bool \<Rightarrow> string list \<Rightarrow> search_result list \<Rightarrow> search_result list" where
  "constraint_loop check allVersion found [] = []"
| "constraint_loop check allVersion found (r # rs) =
     (if cv_Name (snd r) \<in> set found then constraint_loop check allVersion found rs
      else if check (cv_Version (snd r)) then
        r # constraint_loop check allVersion (if allVersion then found else cv_Name (snd r) # found) rs
      else constraint_loop check allVersion found rs)"

definition applyConstraint :: "chart_env \<Rightarrow> string \<Rightarrow> bool \<Rightarrow> search_result list \<Rightarrow> string + search_result list" where
  "applyConstraint e version allVersion res =
     (if version = [] then Inr res
      else case ce_constraint e version of
             Inl err \<Rightarrow> Inl (''an invalid version/constraint format '' @ version @ '': '' @ err)
           | Inr check \<Rightarrow> Inr (constraint_loop check allVersion [] res))"

text \<open>The index of the repositories of the file: those with another name than the one asked for and those without a cached index are left out.\<close>

definition buildIndex :: "helm_env \<Rightarrow> string \<Rightarrow> helm_state \<Rightarrow> string + search_result list" where
  "buildIndex e filterRepo st =
     (if LoadFile e st = [] then Inl ''no repositories configured''
      else Inr (concat (map (\<lambda>x.
             if filterRepo \<noteq> [] \<and> et_Name x \<noteq> filterRepo then []
             else case hs_cache st (et_Name x) of
                    None \<Rightarrow> []
                  | Some idx \<Rightarrow> map (\<lambda>c. (et_Name x @ ''/'' @ cv_Name c, c)) idx) (LoadFile e st))))"

definition SearchRepo :: "chart_env \<Rightarrow> chart_query \<Rightarrow> string \<Rightarrow> helm_state \<Rightarrow> string + search_result list" where
  "SearchRepo e q version st =
     (case buildIndex (ce_helm e) (cq_Repo q) st of
        Inl err \<Rightarrow> Inl err
      | Inr index \<Rightarrow>
          let version1 = (if version = [] then setupSearchedVersion False else version) in
          case (if cq_Name q = [] then Inr (ce_all e index) else ce_search e (cq_Name q) index) of
            Inl err \<Rightarrow> Inl err
          | Inr res \<Rightarrow> applyConstraint e version1 (cq_AllVersion q) (applyFilter q (ce_sort e res)))"

text \<open>The list of charts, before paging: the repository is looked up by its id or its name.\<close>

definition Chart_List :: "chart_env \<Rightarrow> chart_query \<Rightarrow> helm_state \<Rightarrow> string + (search_result \<times> string) list" where
  "Chart_List e q st =
     (if cq_Repo q = [] then Inl ''repo must provided''
      else case ce_fetchRepo e (cq_Repo q) of
             Inl err \<Rightarrow> Inl err
           | Inr r \<Rightarrow> map_sum id (map (\<lambda>x. (x, rp_Type r))) (SearchRepo e q (cq_Version q) st))"

section \<open>Records and file in step\<close>

definition removal_ok :: "repo_env \<Rightarrow> bool" where
  "removal_ok e \<longleftrightarrow> he_stat (ro_helm e) = None \<and> he_remove (ro_helm e) = None \<and> ro_delete e = None"

text \<open>A deletion may take the entry out of the file and keep the record; it takes the entry of every repository with the name.\<close>

definition disturbed :: "repo_env \<Rightarrow> repo \<Rightarrow> repo_world \<Rightarrow> string set" where
  "disturbed e r w = rp_Id ` {x \<in> set (rw_repos w). rp_Name x = rp_Name r \<and> (rp_Id x \<noteq> rp_Id r \<or> \<not> removal_ok e)}"

text \<open>A step, with the ids of the repositories that it disturbs: the one that is renamed, one whose removal may fail half way, and others that have got the name of one that is deleted.\<close>

inductive repo_step :: "string set \<Rightarrow> repo_world \<Rightarrow> repo_world \<Rightarrow> bool" where
  create: "i \<notin> rp_Id ` set (rw_repos w) \<Longrightarrow> Repo_Create e i domain data w = (w', res) \<Longrightarrow> repo_step {} w w'"
| delete: "r \<in> set (rw_repos w) \<Longrightarrow> delete_request e r w = (w', res) \<Longrightarrow> repo_step (disturbed e r w) w w'"
| rename: "Repo_Update e i name w = (w', res) \<Longrightarrow> repo_step {i} w w'"
| sync: "r \<in> set (rw_repos w) \<Longrightarrow> Repo_DoSync e r (rw_helm w) = (st, res) \<Longrightarrow> repo_step {} w (w\<lparr>rw_helm := st\<rparr>)"
| refresh: "repo_step {} w (w\<lparr>rw_helm := doRepoRefresh e listed (rw_helm w)\<rparr>)" if "listed = Inr (rw_repos w) \<or> listed \<in> range Inl"
| install: "rl_RepoId x \<in> insert [] (rp_Id ` set (rw_repos w)) \<Longrightarrow> repo_step {} w (w\<lparr>rw_releases := x # rw_releases w\<rparr>)"
| uninstall: "repo_step {} w (w\<lparr>rw_releases := filter (\<lambda>x. rl_Id x \<noteq> i) (rw_releases w)\<rparr>)"

text \<open>A run, with the ids of all repositories that were disturbed.\<close>

inductive repo_run :: "string set \<Rightarrow> repo_world \<Rightarrow> repo_world \<Rightarrow> bool" where
  start: "repo_run {} w w"
| step: "repo_run D w w' \<Longrightarrow> repo_step V w' w'' \<Longrightarrow> repo_run (D \<union> V) w w''"

definition registered :: "repo \<Rightarrow> entry list \<Rightarrow> bool" where
  "registered r es \<longleftrightarrow> (\<exists>x\<in>set es. et_Name x = rp_Name r \<and> et_URL x = rp_Url r)"

definition repo_inv :: "repo_world \<Rightarrow> bool" where
  "repo_inv w \<longleftrightarrow> distinct (map rp_Id (rw_repos w)) \<and> distinct (map rp_Name (rw_repos w)) \<and>
     distinct (map et_Name (entries (rw_helm w))) \<and> (\<forall>r\<in>set (rw_repos w). registered r (entries (rw_helm w))) \<and>
     (\<forall>l\<in>set (rw_releases w). rl_RepoId l = [] \<or> rl_RepoId l \<in> rp_Id ` set (rw_repos w))"

text \<open>The same, except for the entries of disturbed repositories.\<close>

definition repo_inv_but :: "string set \<Rightarrow> repo_world \<Rightarrow> bool" where
  "repo_inv_but D w \<longleftrightarrow> distinct (map rp_Id (rw_repos w)) \<and> inj_on rp_Name {r \<in> set (rw_repos w). rp_Id r \<notin> D} \<and>
     distinct (map et_Name (entries (rw_helm w))) \<and> (\<forall>r\<in>set (rw_repos w). rp_Id r \<notin> D \<longrightarrow> registered r (entries (rw_helm w))) \<and>
     (\<forall>l\<in>set (rw_releases w). rl_RepoId l = [] \<or> rl_RepoId l \<in> rp_Id ` set (rw_repos w))"

lemma repo_inv_end:
  assumes "repo_inv_but {} w" shows "repo_inv w"
proof -
  have "distinct (rw_repos w)" using assms by (simp add: repo_inv_but_def distinct_map)
  then show ?thesis using assms by (simp add: repo_inv_def repo_inv_but_def distinct_map)
qed

lemma repo_inv_start: "repo_inv w \<Longrightarrow> repo_inv_but {} w"
  by (simp add: repo_inv_def repo_inv_but_def distinct_map)

lemma entries_simps [simp]:
  "entries (st\<lparr>hs_cache := c\<rparr>) = entries st" "entries (st\<lparr>hs_file := Some es\<rparr>) = es"
  by (simp_all add: entries_def)

lemma file_update_new: "\<not> file_Has (et_Name x) es \<Longrightarrow> file_update x es = es @ [x]"
  by (induction es) (auto simp: file_Has_def)

text \<open>Adding either leaves the file as it was or appends an entry with a new name.\<close>

lemma RepoClient_Add_cases:
  assumes "RepoClient_Add e x st = (st', r)"
  shows "(r \<noteq> None \<and> entries st' = entries st) \<or> (r = None \<and> \<not> file_Has (et_Name x) (entries st) \<and> entries st' = entries st @ [x])"
  using assms
  by (auto simp: RepoClient_Add_def Let_def file_update_new split: option.splits if_splits sum.splits)

lemma update_repos_entries [simp]: "entries (update_repos e xs st) = entries st"
  by (induction e xs st rule: update_repos.induct) (auto split: sum.split)

lemma RepoClient_Update_entries: "entries (fst (RepoClient_Update e n st)) = entries st"
  by (auto simp: RepoClient_Update_def split: sum.split)

text \<open>A synchronisation and a refresh only append entries with new names.\<close>

definition appended :: "helm_state \<Rightarrow> helm_state \<Rightarrow> bool" where
  "appended st st' \<longleftrightarrow> set (entries st) \<subseteq> set (entries st') \<and> (distinct (map et_Name (entries st)) \<longrightarrow> distinct (map et_Name (entries st')))"

lemma appended_trans: "appended st st1 \<Longrightarrow> appended st1 st2 \<Longrightarrow> appended st st2"
  by (auto simp: appended_def)

lemma appended_same: "entries st' = entries st \<Longrightarrow> appended st st'"
  by (simp add: appended_def)

lemma RepoClient_Add_appended: "appended st (fst (RepoClient_Add e x st))"
  using RepoClient_Add_cases [of e x st "fst (RepoClient_Add e x st)" "snd (RepoClient_Add e x st)"] by (fastforce simp: appended_def file_Has_def)

lemma Repo_DoSync_appended: "appended st (fst (Repo_DoSync e r st))"
proof -
  obtain st' res where add: "RepoClient_Add (ro_helm e) \<lparr>et_Name = rp_Name r, et_URL = rp_Url r, et_Username = [], et_Password = []\<rparr> st = (st', res)"
    by fastforce
  then have "appended st st'" using RepoClient_Add_appended by (metis fst_conv)
  moreover have "appended st' (fst (RepoClient_Update (ro_helm e) (rp_Name r) st'))" by (rule appended_same) (rule RepoClient_Update_entries)
  ultimately show ?thesis using add appended_trans by (auto simp: Repo_DoSync_def appended_same split: option.split repo_error.split)
qed

lemma Backend_Update_appended: "appended st (Backend_Update e xs st)"
proof (induction e xs st rule: Backend_Update.induct)
  case (2 e x xs st)
  have "appended st (case GetEntry e (et_Name x) st of Inr _ \<Rightarrow> st | Inl _ \<Rightarrow> fst (RepoClient_Add e x st))"
    using RepoClient_Add_appended by (auto simp: appended_same split: sum.split)
  from appended_trans [OF this 2] show ?case by simp
qed (simp add: appended_same)

lemma registered_append [simp]: "registered r es \<Longrightarrow> registered r (es @ fs)"
  by (auto simp: registered_def)

lemma Repo_ValidateCreateData_cases:
  assumes "Repo_ValidateCreateData e domain data st = (st', r)"
  shows "(r \<in> range Inl \<and> entries st' = entries st) \<or>
    (\<exists>d x. r = Inr d \<and> rn_Name d = rn_Name data \<and> et_Name x = rn_Name d \<and> et_URL x = rn_Url d \<and> \<not> file_Has (rn_Name d) (entries st) \<and> entries st' = entries st @ [x])"
  using assms RepoClient_Add_cases [of "ro_helm e" "\<lparr>et_Name = rn_Name data, et_URL = rn_Url data, et_Username = [], et_Password = []\<rparr>" st]
  by (auto simp: Repo_ValidateCreateData_def Let_def split: option.splits if_splits prod.splits)

lemma registered_mono: "registered r es \<Longrightarrow> set es \<subseteq> set fs \<Longrightarrow> registered r fs"
  by (auto simp: registered_def)

lemma repo_inv_helm: "appended (rw_helm w) st \<Longrightarrow> repo_inv_but D w \<Longrightarrow> repo_inv_but D (w\<lparr>rw_helm := st\<rparr>)"
  by (auto simp: repo_inv_but_def appended_def intro: registered_mono)

lemma Repo_Create_inv:
  assumes "Repo_Create e i domain data w = (w', res)" "i \<notin> rp_Id ` set (rw_repos w)" "repo_inv_but D w" shows "repo_inv_but D w'"
proof -
  obtain st r where v: "Repo_ValidateCreateData e domain data (rw_helm w) = (st, r)" by fastforce
  from Repo_ValidateCreateData_cases [OF v] show ?thesis
  proof
    assume "r \<in> range Inl \<and> entries st = entries (rw_helm w)"
    then show ?thesis using assms v by (auto simp: Repo_Create_def intro!: repo_inv_helm appended_same)
  next
    assume "\<exists>d x. r = Inr d \<and> rn_Name d = rn_Name data \<and> et_Name x = rn_Name d \<and> et_URL x = rn_Url d \<and>
      \<not> file_Has (rn_Name d) (entries (rw_helm w)) \<and> entries st = entries (rw_helm w) @ [x]"
    then obtain d x where d: "r = Inr d" "et_Name x = rn_Name d" "et_URL x = rn_Url d" "\<not> file_Has (rn_Name d) (entries (rw_helm w))"
        "entries st = entries (rw_helm w) @ [x]" by blast
    have app: "appended (rw_helm w) st" using d by (auto simp: appended_def file_Has_def)
    show ?thesis
    proof (cases "ro_insert e")
      case (Some err)
      then show ?thesis using assms v d(1) repo_inv_helm [OF app assms(3)] by (auto simp: Repo_Create_def)
    next
      case None
      define r1 where "r1 = \<lparr>rp_Id = i, rp_Name = rn_Name d, rp_DomainId = domain, rp_Url = rn_Url d, rp_Username = [], rp_Password = [], rp_Type = rn_Type d\<rparr>"
      have w': "w' = (w\<lparr>rw_helm := st\<rparr>)\<lparr>rw_repos := rw_repos w @ [r1]\<rparr>" using assms(1) v d(1) None by (auto simp: Repo_Create_def r1_def)
      have new: "rn_Name d \<notin> rp_Name ` {r \<in> set (rw_repos w). rp_Id r \<notin> D}"
        using assms(3) d(4) by (auto simp: repo_inv_but_def registered_def file_Has_def)
      have "registered r1 (entries st)" using d by (auto simp: registered_def r1_def)
      moreover have "inj_on rp_Name {r \<in> set (rw_repos w @ [r1]). rp_Id r \<notin> D}"
      proof -
        have "{r \<in> set (rw_repos w @ [r1]). rp_Id r \<notin> D} \<subseteq> insert r1 {r \<in> set (rw_repos w). rp_Id r \<notin> D}" by auto
        moreover have "inj_on rp_Name (insert r1 {r \<in> set (rw_repos w). rp_Id r \<notin> D})"
          using assms(3) new by (auto simp: repo_inv_but_def r1_def)
        ultimately show ?thesis by (rule inj_on_subset [rotated])
      qed
      ultimately show ?thesis using repo_inv_helm [OF app assms(3)] assms(2) unfolding w' repo_inv_but_def by (auto simp: r1_def)
    qed
  qed
qed

lemma RepoClient_Remove_entries:
  assumes "RepoClient_Remove e name st = (st', r)"
  shows "set (filter (\<lambda>x. et_Name x \<noteq> name) (entries st)) \<subseteq> set (entries st')"
    "distinct (map et_Name (entries st)) \<Longrightarrow> distinct (map et_Name (entries st'))"
    "he_stat e = None \<Longrightarrow> he_remove e = None \<Longrightarrow> r \<noteq> None \<Longrightarrow> entries st' = entries st"
  using assms
  by (auto simp: RepoClient_Remove_def removeRepoCache_def LoadFile_def distinct_map_filter split: if_splits option.splits)

text \<open>The repositories of another name keep their entries.\<close>

lemma kept_names:
  assumes "registered x es" "rp_Name x \<noteq> name" "set (filter (\<lambda>y. et_Name y \<noteq> name) es) \<subseteq> set fs"
  shows "registered x fs"
  using assms by (force simp: registered_def)

lemma delete_request_inv:
  assumes "delete_request e r w = (w', res)" "r \<in> set (rw_repos w)" "repo_inv_but D w" shows "repo_inv_but (D \<union> disturbed e r w) w'"
proof (cases "Repo_ValidateDeleteCondition e r w = None \<and> he_client (ro_helm e) (rp_DomainId r) = None")
  case True
  obtain st r1 where rm: "RepoClient_Remove (ro_helm e) (rp_Name r) (rw_helm w) = (st, r1)" by fastforce
  note kept = RepoClient_Remove_entries [OF rm]
  have unused: "\<forall>x\<in>set (rw_releases w). rl_RepoId x \<noteq> rp_Id r"
    using True by (auto simp: Repo_ValidateDeleteCondition_def GetReleaseCount_def filter_empty_conv split: option.splits if_splits)
  let ?rest = "filter (\<lambda>x. rp_Id x \<noteq> rp_Id r) (rw_repos w)"
  have w': "w' = w\<lparr>rw_helm := st\<rparr> \<and> (removal_ok e \<longrightarrow> r1 \<noteq> None) \<or> w' = w\<lparr>rw_repos := ?rest, rw_helm := st\<rparr>"
    using assms(1) True rm by (auto simp: delete_request_def Repo_Delete_def removal_ok_def split: option.splits)
  have same: "x = r" if "x \<in> set (rw_repos w)" "rp_Id x = rp_Id r" for x
    using assms(2,3) that by (auto simp: repo_inv_but_def distinct_map dest: inj_onD)
  have reg: "registered x (entries st)" if x: "x \<in> set (rw_repos w)" "rp_Id x \<notin> D \<union> disturbed e r w" "rp_Id x \<noteq> rp_Id r \<or> removal_ok e \<and> r1 \<noteq> None" for x
  proof (cases "rp_Id x = rp_Id r")
    case True
    then have "entries st = entries (rw_helm w)" using x(3) kept(3) by (auto simp: removal_ok_def)
    then show ?thesis using x assms(3) by (auto simp: repo_inv_but_def)
  next
    case False
    then have "rp_Name x \<noteq> rp_Name r" using x by (auto simp: disturbed_def)
    moreover have "registered x (entries (rw_helm w))" using x assms(3) by (simp add: repo_inv_but_def)
    ultimately show ?thesis by (intro kept_names [OF _ _ kept(1)])
  qed
  have own: "rp_Id r \<in> disturbed e r w" if "\<not> removal_ok e" using assms(2) that by (auto simp: disturbed_def)
  have inj: "inj_on rp_Name {x \<in> set (rw_repos w). rp_Id x \<notin> D \<union> disturbed e r w}"
    using assms(3) by (auto simp: repo_inv_but_def intro: inj_on_subset)
  from w' show ?thesis
  proof
    assume failed: "w' = w\<lparr>rw_helm := st\<rparr> \<and> (removal_ok e \<longrightarrow> r1 \<noteq> None)"
    have "registered x (entries st)" if "x \<in> set (rw_repos w)" "rp_Id x \<notin> D \<union> disturbed e r w" for x
      using reg [OF that] own failed that(2) by (cases "rp_Id x = rp_Id r") auto
    then show ?thesis using assms(3) kept(2) inj failed by (auto simp: repo_inv_but_def)
  next
    assume gone: "w' = w\<lparr>rw_repos := ?rest, rw_helm := st\<rparr>"
    have "inj_on rp_Name {x \<in> set ?rest. rp_Id x \<notin> D \<union> disturbed e r w}" using inj by (rule inj_on_subset) auto
    moreover have "\<forall>x\<in>set ?rest. rp_Id x \<notin> D \<union> disturbed e r w \<longrightarrow> registered x (entries st)" using reg by auto
    moreover have "\<forall>l\<in>set (rw_releases w). rl_RepoId l = [] \<or> rl_RepoId l \<in> rp_Id ` set ?rest"
      using assms(3) unused by (fastforce simp: repo_inv_but_def)
    ultimately show ?thesis using assms(3) kept(2) unfolding gone by (simp add: repo_inv_but_def distinct_map_filter)
  qed
next
  case False
  then have "w' = w" using assms(1) by (auto simp: delete_request_def Repo_Delete_def split: option.splits)
  then show ?thesis using assms(3) by (auto simp: repo_inv_but_def intro: inj_on_subset)
qed

lemma repo_inv_rows:
  assumes "repo_inv_but D w" "map rp_Id rs = map rp_Id (rw_repos w)" "{r \<in> set rs. rp_Id r \<notin> D'} \<subseteq> {r \<in> set (rw_repos w). rp_Id r \<notin> D}"
  shows "repo_inv_but D' (w\<lparr>rw_repos := rs\<rparr>)"
proof -
  have "rp_Id ` set rs = rp_Id ` set (rw_repos w)" using assms(2) by (metis list.set_map)
  moreover have "inj_on rp_Name {r \<in> set rs. rp_Id r \<notin> D'}" using assms(1) by (intro inj_on_subset [OF _ assms(3)]) (simp add: repo_inv_but_def)
  moreover have "\<forall>r\<in>set rs. rp_Id r \<notin> D' \<longrightarrow> registered r (entries (rw_helm w))" using assms(1,3) unfolding repo_inv_but_def by blast
  ultimately show ?thesis using assms(1,2) by (simp add: repo_inv_but_def)
qed

lemma Repo_Update_inv:
  assumes "Repo_Update e i name w = (w', res)" "repo_inv_but D w" shows "repo_inv_but (insert i D) w'"
proof -
  let ?rs = "map (\<lambda>x. if rp_Id x = i then x\<lparr>rp_Name := name\<rparr> else x) (rw_repos w)"
  have inv: "repo_inv_but (insert i D) (w\<lparr>rw_repos := rw_repos w\<rparr>)" "repo_inv_but (insert i D) (w\<lparr>rw_repos := ?rs\<rparr>)"
    by (rule repo_inv_rows [OF assms(2)]; auto)+
  show ?thesis
  proof (cases "ro_base e name")
    case None
    then show ?thesis using assms(1) inv(2) by (simp add: Repo_Update_def)
  next
    case (Some err)
    then show ?thesis using assms(1) inv(1) by (simp add: Repo_Update_def)
  qed
qed

lemma repo_step_inv: "repo_step V w w' \<Longrightarrow> repo_inv_but D w \<Longrightarrow> repo_inv_but (D \<union> V) w'"
proof (induction rule: repo_step.induct)
  case (create i w e domain data w' res)
  then show ?case using Repo_Create_inv by simp
next
  case (delete r w e w' res)
  then show ?case using delete_request_inv by blast
next
  case (rename e i name w w' res)
  then show ?case using Repo_Update_inv by simp
next
  case (sync r w e st res)
  then show ?case using Repo_DoSync_appended [of "rw_helm w" e r] by (auto intro: repo_inv_helm)
next
  case (refresh listed w e)
  then show ?case by (auto simp: doRepoRefresh_def intro!: repo_inv_helm Backend_Update_appended appended_same split: sum.split)
next
  case (install x w)
  then show ?case by (simp add: repo_inv_but_def)
next
  case (uninstall w i)
  then show ?case by (auto simp: repo_inv_but_def)
qed

lemma repo_run_inv: "repo_run D w w' \<Longrightarrow> repo_inv w \<Longrightarrow> repo_inv_but D w'"
  by (induction rule: repo_run.induct) (auto intro: repo_inv_start repo_step_inv)



section \<open>What failures and a renaming leave behind\<close>

text \<open>A PUT renames the record and leaves the file: the entry of the old name stays, and a deletion under the new name fails as long as the file can be read and has no entry of that name.\<close>

theorem rename_loses_entry:
  assumes "ro_base e name = None" "r \<in> set (rw_repos w)" "repo_inv w" "\<not> file_Has name (entries (rw_helm w))" "he_read (ro_helm e2) = None"
  shows "\<exists>w'. Repo_Update e (rp_Id r) name w = (w', None) \<and> r\<lparr>rp_Name := name\<rparr> \<in> set (rw_repos w') \<and> file_Has (rp_Name r) (entries (rw_helm w')) \<and>
    (\<exists>err. delete_request e2 (r\<lparr>rp_Name := name\<rparr>) w' = (w', Some err))"
proof -
  let ?w' = "w\<lparr>rw_repos := map (\<lambda>x. if rp_Id x = rp_Id r then x\<lparr>rp_Name := name\<rparr> else x) (rw_repos w)\<rparr>"
  have has: "file_Has (rp_Name r) (entries (rw_helm w))" using assms(2,3) by (auto simp: repo_inv_def registered_def file_Has_def)
  then have load: "LoadFile (ro_helm e2) (rw_helm w) = entries (rw_helm w)" "entries (rw_helm w) \<noteq> []"
    using assms(5) by (auto simp: LoadFile_def file_Has_def)
  then have rm: "RepoClient_Remove (ro_helm e2) name (rw_helm w) = (rw_helm w, Some (''no repo named '' @ name @ '' found''))"
    using assms(4) by (simp add: RepoClient_Remove_def)
  have "\<exists>err. delete_request e2 (r\<lparr>rp_Name := name\<rparr>) ?w' = (?w', Some err)"
    using rm by (simp add: delete_request_def Repo_Delete_def split: option.split)
  moreover have "r\<lparr>rp_Name := name\<rparr> \<in> set (rw_repos ?w')" using assms(2) by (auto simp: image_iff)
  ultimately show ?thesis using assms(1) has by (auto simp: Repo_Update_def)
qed

text \<open>A creation whose record cannot be inserted leaves its entry in the file: without a read error every later creation with the name fails, in any domain, and
  since there is no record there is nothing that could be deleted.\<close>

theorem failed_insert_blocks_name:
  assumes "Repo_ValidateCreateData e domain data (rw_helm w) = (st, Inr data1)" "ro_insert e = Some err"
    "Repo_Create e i domain data w = (w', r)" "rn_Name data2 = rn_Name data"
  shows "r = Some err \<and> rw_repos w' = rw_repos w \<and> (\<exists>err2. snd (Repo_Create e2 i2 domain2 data2 w') = Some err2) \<and>
    rw_repos (fst (Repo_Create e2 i2 domain2 data2 w')) = rw_repos w"
proof -
  from Repo_ValidateCreateData_cases [OF assms(1)] have has: "file_Has (rn_Name data2) (entries st)"
    using assms(4) by (auto simp: file_Has_def)
  have w': "w' = w\<lparr>rw_helm := st\<rparr>" "r = Some err" using assms(1-3) by (auto simp: Repo_Create_def)
  obtain st2 r2 where v2: "Repo_ValidateCreateData e2 domain2 data2 st = (st2, r2)" by fastforce
  from Repo_ValidateCreateData_cases [OF v2] has have "r2 \<in> range Inl" by auto
  then show ?thesis using v2 by (auto simp: w' Repo_Create_def)
qed

text \<open>A deletion whose cached index cannot be removed has taken the entry out of the file and keeps the record: as long as there are other repositories in the file
  the next deletion fails too, because the name is not found.\<close>

theorem failed_delete_sticks:
  assumes "Repo_ValidateDeleteCondition e r w = None" "he_client (ro_helm e) (rp_DomainId r) = None"
    "he_read (ro_helm e) = None" "he_write (ro_helm e) = None" "he_remove (ro_helm e) = Some err" "he_stat (ro_helm e) = None"
    "file_Has (rp_Name r) (entries (rw_helm w))" "hs_cache (rw_helm w) (rp_Name r) \<noteq> None" "delete_request e r w = (w', res)"
    "other \<noteq> rp_Name r" "file_Has other (entries (rw_helm w))" "he_read (ro_helm e2) = None"
  shows "res = Some err \<and> rw_repos w' = rw_repos w \<and> \<not> file_Has (rp_Name r) (entries (rw_helm w')) \<and>
    (\<exists>err2. snd (delete_request e2 r w') = Some err2)"
proof -
  let ?es = "filter (\<lambda>x. et_Name x \<noteq> rp_Name r) (entries (rw_helm w))"
  have load: "LoadFile (ro_helm e) (rw_helm w) = entries (rw_helm w)" "entries (rw_helm w) \<noteq> []"
    using assms(3,7) by (auto simp: LoadFile_def file_Has_def)
  have "RepoClient_Remove (ro_helm e) (rp_Name r) (rw_helm w) = ((rw_helm w)\<lparr>hs_file := Some ?es\<rparr>, Some err)"
    unfolding RepoClient_Remove_def load(1) using assms(4-8) load(2) by (auto simp: removeRepoCache_def)
  then have w': "w' = w\<lparr>rw_helm := (rw_helm w)\<lparr>hs_file := Some ?es\<rparr>\<rparr>" "res = Some err"
    using assms(1,2,9) by (auto simp: delete_request_def Repo_Delete_def)
  have ne: "?es \<noteq> []" "\<not> file_Has (rp_Name r) ?es" using assms(10,11) by (auto simp: file_Has_def filter_empty_conv)
  have "RepoClient_Remove (ro_helm e2) (rp_Name r) (rw_helm w') = (rw_helm w', Some (''no repo named '' @ rp_Name r @ '' found''))"
    unfolding RepoClient_Remove_def w' using ne assms(12) by (simp add: LoadFile_def)
  then have "\<exists>err2. snd (delete_request e2 r w') = Some err2"
    by (auto simp: delete_request_def Repo_Delete_def split: option.split)
  then show ?thesis using ne(2) by (simp add: w')
qed

text \<open>The periodic refresh of the repositories refreshes nothing: as long as the file can be read, the cached indexes stay what they were when the repositories were added
  or synchronised.\<close>

lemma Backend_Update_same:
  assumes "hs_file st \<noteq> None" "he_read e = None" "\<forall>x\<in>set xs. file_Has (et_Name x) (entries st)"
  shows "Backend_Update e xs st = st"
  using assms
proof (induction e xs st rule: Backend_Update.induct)
  case (2 e x xs st)
  then obtain y where "find (\<lambda>y. et_Name y = et_Name x) (entries st) = Some y" by (cases "find (\<lambda>y. et_Name y = et_Name x) (entries st)") (auto simp: find_None_iff file_Has_def)
  then have "GetEntry e (et_Name x) st = Inr y" using 2(2,3) by (simp add: GetEntry_def)
  then show ?case using 2 by simp
qed simp

theorem refresh_downloads_nothing:
  assumes "repo_inv w" "he_read (ro_helm e) = None"
  shows "doRepoRefresh e (Inr (rw_repos w)) (rw_helm w) = rw_helm w"
proof (cases "rw_repos w = []")
  case False
  then have "entries (rw_helm w) \<noteq> []" using assms(1) by (cases "rw_repos w") (auto simp: repo_inv_def registered_def)
  then have "hs_file (rw_helm w) \<noteq> None" by (auto simp: entries_def split: option.splits)
  then show ?thesis unfolding doRepoRefresh_def using assms
    by (fastforce simp: repo_inv_def registered_def file_Has_def ToEntry_def intro!: Backend_Update_same)
qed (simp add: doRepoRefresh_def)


section \<open>What a search finds\<close>

lemma constraint_loop_all: "constraint_loop check True found rs = filter (\<lambda>r. cv_Name (snd r) \<notin> set found \<and> check (cv_Version (snd r))) rs"
  by (induction check True found rs rule: constraint_loop.induct) auto

lemma constraint_loop_first:
  "subseq (constraint_loop check False found rs) rs \<and>
   distinct (map (cv_Name \<circ> snd) (constraint_loop check False found rs)) \<and>
   (\<forall>r\<in>set (constraint_loop check False found rs). check (cv_Version (snd r)) \<and> cv_Name (snd r) \<notin> set found) \<and>
   (cv_Name \<circ> snd) ` set (constraint_loop check False found rs) = (cv_Name \<circ> snd) ` {r \<in> set rs. check (cv_Version (snd r))} - set found"
proof (induction rs arbitrary: found)
  case (Cons r rs)
  show ?case using Cons [of found] Cons [of "cv_Name (snd r) # found"] by auto
qed simp


lemma subseq_set: "subseq xs ys \<Longrightarrow> x \<in> set xs \<Longrightarrow> x \<in> set ys"
  by (elim list_emb_set) auto

text \<open>The list of the charts of a repository, asked for by its name, has for every chart of the cached index that has a version within the constraint exactly one such version.\<close>

theorem charts_of_repo:
  assumes "cq_Name q = []" "cq_Keyword q = []" "\<not> cq_AllVersion q" "\<forall>rs. set (ce_all e rs) = set rs \<and> set (ce_sort e rs) = set rs"
    "cq_Repo q \<noteq> []" "CHR ''/'' \<notin> set (cq_Repo q)" "ce_fetchRepo e (cq_Repo q) = Inr r" "rp_Name r = cq_Repo q"
    "he_read (ce_helm e) = None" "file_Has (rp_Name r) (entries st)" "hs_cache st (rp_Name r) = Some idx"
    "ce_constraint e (if cq_Version q = [] then ''>0.0.0'' else cq_Version q) = Inr check"
  shows "\<exists>res. Chart_List e q st = Inr (map (\<lambda>x. (x, rp_Type r)) res) \<and> snd ` set res \<subseteq> set idx \<and> distinct (map (cv_Name \<circ> snd) res) \<and>
    (\<forall>x\<in>set res. check (cv_Version (snd x))) \<and> (cv_Name \<circ> snd) ` set res = cv_Name ` {c \<in> set idx. check (cv_Version c)}"
proof -
  define pair where "pair c = (cq_Repo q @ ''/'' @ cv_Name c, c)" for c :: chart_version
  have load: "LoadFile (ce_helm e) st = entries st" "entries st \<noteq> []" using assms(9,10) by (auto simp: LoadFile_def file_Has_def)
  define index where "index = concat (map (\<lambda>x. if cq_Repo q \<noteq> [] \<and> et_Name x \<noteq> cq_Repo q then []
     else case hs_cache st (et_Name x) of None \<Rightarrow> [] | Some ix \<Rightarrow> map (\<lambda>c. (et_Name x @ ''/'' @ cv_Name c, c)) ix) (entries st))"
  have index: "buildIndex (ce_helm e) (cq_Repo q) st = Inr index" using load by (simp add: buildIndex_def index_def)
  have set_index: "set index = pair ` set idx"
    using assms(5,8,10,11) by (auto simp: index_def file_Has_def pair_def split: option.splits if_splits)
  define res where "res = constraint_loop check False [] (applyFilter q (ce_sort e (ce_all e index)))"
  have "filterF q (pair c)" for c using assms(1,2,6) by (simp add: filterF_def getSearchResultRepo_def pair_def takeWhile_neq_join)
  then have all: "set (applyFilter q (ce_sort e (ce_all e index))) = pair ` set idx" using assms(4) set_index by (auto simp: applyFilter_def)
  have "Chart_List e q st = Inr (map (\<lambda>x. (x, rp_Type r)) res)"
    using assms(1,3,5,7,12) index by (auto simp: Chart_List_def SearchRepo_def Let_def applyConstraint_def res_def setupSearchedVersion_def split: if_splits)
  moreover have "snd ` set res \<subseteq> set idx"
    using constraint_loop_first [of check "[]" "applyFilter q (ce_sort e (ce_all e index))"] all subseq_set
    by (fastforce simp: res_def pair_def)
  moreover have "distinct (map (cv_Name \<circ> snd) res)" "\<forall>x\<in>set res. check (cv_Version (snd x))"
    "(cv_Name \<circ> snd) ` set res = cv_Name ` {c \<in> set idx. check (cv_Version c)}"
    using constraint_loop_first [of check "[]" "applyFilter q (ce_sort e (ce_all e index))"] unfolding all res_def by (auto simp: pair_def image_iff)
  ultimately show ?thesis by blast
qed

text \<open>Asked for by its id, which the lookup of the repository accepts, the list is empty.\<close>

theorem charts_by_id_missing:
  assumes "cq_Repo q \<noteq> []" "ce_fetchRepo e (cq_Repo q) = Inr r" "\<not> file_Has (cq_Repo q) (entries st)" "LoadFile (ce_helm e) st \<noteq> []"
    "ce_all e [] = []" "ce_sort e [] = []" "ce_search e (cq_Name q) [] = Inr []"
    "ce_constraint e (if cq_Version q = [] then ''>0.0.0'' else cq_Version q) = Inr check"
  shows "Chart_List e q st = Inr []"
proof -
  have "buildIndex (ce_helm e) (cq_Repo q) st = Inr []" using assms(1,3,4) by (auto simp: buildIndex_def LoadFile_def file_Has_def split: if_splits)
  then show ?thesis using assms by (auto simp: Chart_List_def SearchRepo_def Let_def applyFilter_def applyConstraint_def setupSearchedVersion_def)
qed


section \<open>Concrete instances\<close>

definition sample_helm_env :: helm_env where
  "sample_helm_env = \<lparr>he_client = \<lambda>_. None, he_mkdir = None, he_lock = None, he_read = None, he_repository = \<lambda>_. None,
     he_download = \<lambda>x. Inr [\<lparr>cv_Name = ''nginx'', cv_Version = ''1.1'', cv_Keywords = []\<rparr>, \<lparr>cv_Name = ''nginx'', cv_Version = ''1.0'', cv_Keywords = []\<rparr>],
     he_write = None, he_stat = None, he_remove = None\<rparr>"

definition sample_repo_env :: repo_env where
  "sample_repo_env = \<lparr>ro_base = \<lambda>_. None, ro_url = \<lambda>_. None, ro_insert = None, ro_count = None, ro_delete = None, ro_helm = sample_helm_env\<rparr>"

definition empty_world :: repo_world where
  "empty_world = \<lparr>rw_repos = [], rw_releases = [], rw_helm = \<lparr>hs_file = None, hs_cache = Map.empty\<rparr>\<rparr>"

definition sample_repo :: repo where
  "sample_repo = \<lparr>rp_Id = ''r1'', rp_Name = ''stable'', rp_DomainId = ''d1'', rp_Url = ''http://charts'', rp_Username = [], rp_Password = [], rp_Type = ''external''\<rparr>"

definition sample_world :: repo_world where
  "sample_world = fst (Repo_Create sample_repo_env ''r1'' ''d1'' \<lparr>rn_Name = ''stable'', rn_Url = ''http://charts'', rn_Type = []\<rparr> empty_world)"

definition two_repos :: repo_world where
  "two_repos = fst (Repo_Create sample_repo_env ''r2'' ''d1'' \<lparr>rn_Name = ''test'', rn_Url = ''http://test'', rn_Type = ''internal''\<rparr> sample_world)"

definition sample_chart_env :: chart_env where
  "sample_chart_env = \<lparr>ce_helm = sample_helm_env, ce_all = id, ce_search = \<lambda>_. Inr, ce_sort = id, ce_constraint = \<lambda>_. Inr (\<lambda>v. v \<noteq> ''1.1''),
     ce_fetchRepo = \<lambda>_. Inr sample_repo\<rparr>"

lemma sample_world_inv: "repo_inv empty_world" "repo_run {} empty_world sample_world" "rw_repos sample_world = [sample_repo]"
proof -
  show "repo_inv empty_world" by (simp add: repo_inv_def empty_world_def entries_def)
  have "repo_step {} empty_world sample_world" by (rule create [of "''r1''"]) (simp add: empty_world_def, unfold sample_world_def, rule prod.collapse [symmetric])
  then show "repo_run {} empty_world sample_world" using repo_run.step [OF repo_run.start] by fastforce
  show "rw_repos sample_world = [sample_repo]"
    by (simp add: sample_world_def Repo_Create_def Repo_ValidateCreateData_def sample_repo_env_def sample_helm_env_def empty_world_def
      RepoClient_Add_def Let_def file_Has_def entries_def RepoTypeExternal_def sample_repo_def)
qed


theorem failed_insert_blocks_name_witness:
  "\<exists>err. snd (Repo_Create sample_repo_env ''r2'' ''d2'' \<lparr>rn_Name = ''stable'', rn_Url = ''http://other'', rn_Type = []\<rparr>
     (fst (Repo_Create (sample_repo_env\<lparr>ro_insert := Some ''lost connection''\<rparr>) ''r1'' ''d1'' \<lparr>rn_Name = ''stable'', rn_Url = ''http://charts'', rn_Type = []\<rparr> empty_world))) = Some err"
proof -
  let ?e = "sample_repo_env\<lparr>ro_insert := Some ''lost connection''\<rparr>" and ?d = "\<lparr>rn_Name = ''stable'', rn_Url = ''http://charts'', rn_Type = []\<rparr>"
  have "\<exists>st. Repo_ValidateCreateData ?e ''d1'' ?d (rw_helm empty_world) = (st, Inr (?d\<lparr>rn_Type := ''external''\<rparr>))"
    by (simp add: Repo_ValidateCreateData_def sample_repo_env_def sample_helm_env_def empty_world_def RepoClient_Add_def Let_def file_Has_def
      entries_def RepoTypeExternal_def)
  then obtain st where v: "Repo_ValidateCreateData ?e ''d1'' ?d (rw_helm empty_world) = (st, Inr (?d\<lparr>rn_Type := ''external''\<rparr>))" ..
  show ?thesis
    using failed_insert_blocks_name [OF v, of "''lost connection''" "''r1''" "fst (Repo_Create ?e ''r1'' ''d1'' ?d empty_world)" "snd (Repo_Create ?e ''r1'' ''d1'' ?d empty_world)"
      "\<lparr>rn_Name = ''stable'', rn_Url = ''http://other'', rn_Type = []\<rparr>" sample_repo_env "''r2''" "''d2''"]
    by simp
qed

theorem failed_delete_sticks_witness:
  "\<exists>err. snd (delete_request sample_repo_env sample_repo
     (fst (delete_request (sample_repo_env\<lparr>ro_helm := sample_helm_env\<lparr>he_remove := Some ''busy''\<rparr>\<rparr>) sample_repo two_repos))) = Some err"
proof -
  let ?e = "sample_repo_env\<lparr>ro_helm := sample_helm_env\<lparr>he_remove := Some ''busy''\<rparr>\<rparr>"
  have c: "Repo_ValidateDeleteCondition ?e sample_repo two_repos = None" by code_simp
  have f: "file_Has ''stable'' (entries (rw_helm two_repos))" "file_Has ''test'' (entries (rw_helm two_repos))" by code_simp+
  have h: "hs_cache (rw_helm two_repos) ''stable'' \<noteq> None" by code_simp
  show ?thesis
    using failed_delete_sticks [OF c, of "''busy''" "fst (delete_request ?e sample_repo two_repos)" "snd (delete_request ?e sample_repo two_repos)" "''test''" sample_repo_env] f h
    by (simp add: sample_repo_def sample_repo_env_def sample_helm_env_def)
qed

theorem refresh_downloads_nothing_witness:
  "doRepoRefresh (sample_repo_env\<lparr>ro_helm := sample_helm_env\<lparr>he_download := \<lambda>_. Inr []\<rparr>\<rparr>) (Inr (rw_repos sample_world)) (rw_helm sample_world) = rw_helm sample_world"
proof -
  have "repo_inv sample_world" using repo_inv_end repo_run_inv sample_world_inv(1,2) by blast
  then show ?thesis using refresh_downloads_nothing by (simp add: sample_repo_env_def sample_helm_env_def)
qed

theorem charts_of_repo_witness:
  "\<exists>res. Chart_List sample_chart_env \<lparr>cq_Name = [], cq_Repo = ''stable'', cq_AllVersion = False, cq_Keyword = [], cq_Version = []\<rparr> (rw_helm sample_world) = Inr res \<and>
     (cv_Name \<circ> snd \<circ> fst) ` set res = {''nginx''}"
proof -
  let ?q = "\<lparr>cq_Name = [], cq_Repo = ''stable'', cq_AllVersion = False, cq_Keyword = [], cq_Version = []\<rparr>"
  let ?idx = "[\<lparr>cv_Name = ''nginx'', cv_Version = ''1.1'', cv_Keywords = []\<rparr>, \<lparr>cv_Name = ''nginx'', cv_Version = ''1.0'', cv_Keywords = []\<rparr>]"
  have f: "file_Has ''stable'' (entries (rw_helm sample_world))" by code_simp
  have h: "hs_cache (rw_helm sample_world) ''stable'' = Some ?idx"
    by (simp add: sample_world_def Repo_Create_def Repo_ValidateCreateData_def sample_repo_env_def sample_helm_env_def empty_world_def
      RepoClient_Add_def Let_def file_Has_def entries_def RepoTypeExternal_def)
  have e: "ce_constraint sample_chart_env (if cq_Version ?q = [] then ''>0.0.0'' else cq_Version ?q) = Inr (\<lambda>v. v \<noteq> ''1.1'')"
      "\<forall>rs. set (ce_all sample_chart_env rs) = set rs \<and> set (ce_sort sample_chart_env rs) = set rs" "he_read (ce_helm sample_chart_env) = None"
      "ce_fetchRepo sample_chart_env (cq_Repo ?q) = Inr sample_repo" "rp_Name sample_repo = cq_Repo ?q"
    by (simp_all add: sample_chart_env_def sample_helm_env_def sample_repo_def)
  have r: "rp_Name sample_repo = ''stable''" by (simp add: sample_repo_def)
  have "\<exists>res. Chart_List sample_chart_env ?q (rw_helm sample_world) = Inr (map (\<lambda>x. (x, rp_Type sample_repo)) res) \<and>
      snd ` set res \<subseteq> set ?idx \<and> distinct (map (cv_Name \<circ> snd) res) \<and> (\<forall>x\<in>set res. cv_Version (snd x) \<noteq> ''1.1'') \<and>
      (cv_Name \<circ> snd) ` set res = cv_Name ` {c \<in> set ?idx. cv_Version c \<noteq> ''1.1''}"
    by (rule charts_of_repo [OF _ _ _ e(2) _ _ e(4,5,3) f [folded r] h [folded r] e(1)]) simp_all
  then obtain res where res: "Chart_List sample_chart_env ?q (rw_helm sample_world) = Inr (map (\<lambda>x. (x, rp_Type sample_repo)) res)"
      "(cv_Name \<circ> snd) ` set res = cv_Name ` {c \<in> set ?idx. cv_Version c \<noteq> ''1.1''}" by blast
  have "cv_Name ` {c \<in> set ?idx. cv_Version c \<noteq> ''1.1''} = {''nginx''}"
    by (auto simp: image_iff intro!: exI [of _ "\<lparr>cv_Name = ''nginx'', cv_Version = ''1.0'', cv_Keywords = []\<rparr>"])
  then show ?thesis using res by (intro exI [of _ "map (\<lambda>x. (x, rp_Type sample_repo)) res"]) (simp add: image_image comp_def)
qed

end
