(* ===== verification/Releases.thy ===== *)
theory Releases
  imports HelmRepos ClusterSync MachineNames "HOL-Library.AList"
begin

text \<open>
  Releases of charts: src/pkg/models/release.go with the drivers for internal and external repositories in src/pkg/models/drivers/release, the base
  validation of src/pkg/models/clusterresource.go and namespaceresource.go, and parts of src/pkg/helm/client.go. The YAML parser, the parser of
  \<open>--set\<close> expressions, Helm itself and the database are an environment. Shown: which value a release gets where several sources set it; a
  new release refers to a repository, a chart version, a cluster and a namespace of it that exist; how releases are told apart, and
  that the lookup by which a synchronisation should find them never does.
\<close>

section \<open>Values\<close>

text \<open>A Go map is an association list with distinct keys.\<close>

datatype helm_value = Scalar string | VList "helm_value list" | VMap "(string \<times> helm_value) list"

type_synonym helm_values = "(string \<times> helm_value) list"

lemma size_map_entry: "(k, VMap m) \<in> set b \<Longrightarrow> size (VMap m) < size (VMap b)"
proof (induction b)
  case (Cons x b)
  then show ?case by (cases x) auto
qed simp

function mergeMaps :: "helm_values \<Rightarrow> helm_values \<Rightarrow> helm_values" where
  "mergeMaps out [] = out"
| "mergeMaps out ((k, v) # b) =
     mergeMaps (AList.update k (case v of
                   VMap m \<Rightarrow> (case map_of out k of Some (VMap bv) \<Rightarrow> VMap (mergeMaps bv m) | _ \<Rightarrow> v)
                 | _ \<Rightarrow> v) out) b"
  by pat_completeness auto
termination by (relation "measure (\<lambda>(_, b). size (VMap b))") auto

text \<open>What the parsers answer: the map of a YAML document, and a map after an expression \<open>key=value\<close>.\<close>

record values_env =
  ve_yaml :: "string \<Rightarrow> string + helm_values"
  ve_set :: "string \<Rightarrow> helm_values \<Rightarrow> string + helm_values"

fun set_loop :: "values_env \<Rightarrow> (string \<times> string) list \<Rightarrow> helm_values \<Rightarrow> string + helm_values" where
  "set_loop e [] base = Inr base"
| "set_loop e ((key, value) # sets) base =
     (case ve_set e (key @ ''='' @ value) base of
        Inl err \<Rightarrow> Inl (''failed parsing set '' @ value @ '': '' @ err)
      | Inr base' \<Rightarrow> set_loop e sets base')"

definition MergeValues :: "values_env \<Rightarrow> string \<Rightarrow> (string \<times> string) list \<Rightarrow> string + helm_values" where
  "MergeValues e yamlStr sets =
     (case (if yamlStr = [] then Inr []
            else case ve_yaml e yamlStr of
                   Inl err \<Rightarrow> Inl (''failed to parse '' @ yamlStr @ '': '' @ err)
                 | Inr currentMap \<Rightarrow> Inr (mergeMaps [] currentMap)) of
        Inl err \<Rightarrow> Inl err
      | Inr base \<Rightarrow> set_loop e sets base)"

text \<open>\<open>JSONDict.Update\<close>: the entries of another dictionary replace those with the same key; anything but a dictionary changes nothing.\<close>

definition dict_Update :: "helm_values \<Rightarrow> helm_value \<Rightarrow> helm_values" where
  "dict_Update d v = (case v of VMap m \<Rightarrow> AList.updates (map fst m) (map snd m) d | _ \<Rightarrow> d)"

section \<open>Lookup by paths\<close>

datatype found = Absent | Blocked | Hit helm_value

text \<open>A path leads to a leaf, ends before it (a key is missing), or is blocked: by a leaf on the way or since a map is where it ends.\<close>

fun find_at :: "helm_values \<Rightarrow> string list \<Rightarrow> found" where
  "find_at m [] = Blocked"
| "find_at m (k # ks) =
     (case map_of m k of
        None \<Rightarrow> Absent
      | Some (VMap m') \<Rightarrow> if ks = [] then Blocked else find_at m' ks
      | Some v \<Rightarrow> if ks = [] then Hit v else Blocked)"

definition leaf_at :: "helm_values \<Rightarrow> string list \<Rightarrow> helm_value option" where
  "leaf_at m p = (case find_at m p of Hit v \<Rightarrow> Some v | _ \<Rightarrow> None)"

text \<open>Distinct keys at all levels.\<close>

fun wf_value :: "helm_value \<Rightarrow> bool" where
  "wf_value (VMap m) \<longleftrightarrow> distinct (map fst m) \<and> list_all (\<lambda>(k, v). wf_value v) m"
| "wf_value _ \<longleftrightarrow> True"

definition merge_value :: "helm_value option \<Rightarrow> helm_value \<Rightarrow> helm_value" where
  "merge_value old v = (case v of VMap m \<Rightarrow> (case old of Some (VMap bv) \<Rightarrow> VMap (mergeMaps bv m) | _ \<Rightarrow> v) | _ \<Rightarrow> v)"

lemma mergeMaps_lookup:
  "distinct (map fst b) \<Longrightarrow>
   map_of (mergeMaps out b) k = (case map_of b k of None \<Rightarrow> map_of out k | Some v \<Rightarrow> Some (merge_value (map_of out k) v))"
proof (induction b arbitrary: out)
  case (Cons x b)
  obtain k' v where x: "x = (k', v)" by (cases x)
  let ?out = "AList.update k' (merge_value (map_of out k') v) out"
  have step: "mergeMaps out (x # b) = mergeMaps ?out b" by (simp add: x merge_value_def)
  have "map_of b k' = None" using Cons.prems x by (simp add: map_of_eq_None_iff)
  then show ?case unfolding step using Cons.IH [of ?out] Cons.prems by (auto simp: x update_conv' simp del: mergeMaps.simps split: option.split)
qed simp

lemma mergeMaps_find:
  "wf_value (VMap b) \<Longrightarrow> leaf_at (mergeMaps a b) p = (case find_at b p of Hit v \<Rightarrow> Some v | Blocked \<Rightarrow> None | Absent \<Rightarrow> leaf_at a p)"
proof (induction p arbitrary: a b)
  case (Cons k ks)
  have look: "map_of (mergeMaps a b) k = (case map_of b k of None \<Rightarrow> map_of a k | Some v \<Rightarrow> Some (merge_value (map_of a k) v))"
    using Cons.prems by (intro mergeMaps_lookup) simp
  show ?case
  proof (cases "map_of b k")
    case None
    then show ?thesis using look by (simp add: leaf_at_def)
  next
    case (Some v)
    show ?thesis
    proof (cases v)
      case (VMap m)
      have "(k, v) \<in> set b" using Some by (rule map_of_SomeD)
      then have wf: "wf_value (VMap m)" using Cons.prems VMap unfolding wf_value.simps(1) [of b] list_all_iff by fastforce
      show ?thesis
      proof (cases "\<exists>bv. map_of a k = Some (VMap bv)")
        case True
        then obtain bv where bv: "map_of a k = Some (VMap bv)" by blast
        then have "map_of (mergeMaps a b) k = Some (VMap (mergeMaps bv m))" using look Some VMap by (simp add: merge_value_def)
        then have "leaf_at (mergeMaps a b) (k # ks) = (if ks = [] then None else leaf_at (mergeMaps bv m) ks)"
          "leaf_at a (k # ks) = (if ks = [] then None else leaf_at bv ks)" using bv by (simp_all add: leaf_at_def)
        then show ?thesis using Cons.IH [OF wf, of bv] Some VMap by (auto split: found.split)
      next
        case False
        then have "merge_value (map_of a k) v = v" "leaf_at a (k # ks) = None \<or> ks = []"
          using VMap by (auto simp: merge_value_def leaf_at_def split: option.split helm_value.split)
        then show ?thesis using look Some VMap by (auto simp: leaf_at_def split: found.split)
      qed
    qed (use look Some in \<open>simp_all add: merge_value_def leaf_at_def\<close>)
  qed
qed (simp add: leaf_at_def)


lemma mergeMaps_Nil: "wf_value (VMap b) \<Longrightarrow> leaf_at (mergeMaps [] b) p = leaf_at b p"
proof -
  assume wf: "wf_value (VMap b)"
  have "leaf_at [] p = None" by (cases p) (simp_all add: leaf_at_def)
  then show ?thesis unfolding mergeMaps_find [OF wf] by (simp add: leaf_at_def split: found.split)
qed

lemma dict_Update_leaf:
  assumes "distinct (map fst m)"
  shows "leaf_at (dict_Update d (VMap m)) (k # ks) = (if k \<in> fst ` set m then leaf_at m (k # ks) else leaf_at d (k # ks))"
proof -
  have "map_of (dict_Update d (VMap m)) k = (if k \<in> fst ` set m then map_of m k else map_of d k)"
    using assms unfolding dict_Update_def
  proof (induction m arbitrary: d)
    case (Cons x m)
    then show ?case by (cases x) (force simp: update_conv' updates_conv')
  qed simp
  then show ?thesis by (simp add: leaf_at_def)
qed

section \<open>Names of releases\<close>

definition alnum :: "char \<Rightarrow> bool" where
  "alnum ch \<longleftrightarrow> (CHR ''A'' \<le> ch \<and> ch \<le> CHR ''Z'') \<or> (CHR ''a'' \<le> ch \<and> ch \<le> CHR ''z'') \<or> (CHR ''0'' \<le> ch \<and> ch \<le> CHR ''9'')"

definition name_char :: "char \<Rightarrow> bool" where
  "name_char ch \<longleftrightarrow> alnum ch \<or> ch \<in> set ''-_.''"

text \<open>One round of \<open>(([A-Za-z0-9][-A-Za-z0-9_.]*)?[A-Za-z0-9])\<close>, and one or more of them.\<close>

definition name_block :: "string \<Rightarrow> bool" where
  "name_block s \<longleftrightarrow> s \<noteq> [] \<and> alnum (last s) \<and> (butlast s = [] \<or> (alnum (hd (butlast s)) \<and> list_all name_char (tl (butlast s))))"

fun name_blocks :: "nat \<Rightarrow> string \<Rightarrow> bool" where
  "name_blocks 0 s \<longleftrightarrow> False"
| "name_blocks (Suc n) s \<longleftrightarrow> name_block s \<or> list_ex (\<lambda>i. name_block (take i s) \<and> name_blocks n (drop i s)) [1..<length s]"

definition ValidName :: "string \<Rightarrow> bool" where
  "ValidName s = name_blocks (length s) s"

definition releaseNameMaxLen :: nat where "releaseNameMaxLen = 53"

definition ValidateReleaseName :: "string \<Rightarrow> string option" where
  "ValidateReleaseName releaseName =
     (if releaseName = [] then Some ''no release provided''
      else if \<not> ValidName releaseName \<or> length releaseName > releaseNameMaxLen then Some ''invalid release name''
      else None)"

definition ReleaseContent :: "(string \<Rightarrow> string + 'r) \<Rightarrow> (string \<Rightarrow> int \<Rightarrow> string + 'r) \<Rightarrow> string \<Rightarrow> int \<Rightarrow> string + 'r" where
  "ReleaseContent Last Get name version =
     (case ValidateReleaseName name of
        Some err \<Rightarrow> Inl (''release name is invalid '' @ name @ '': '' @ err)
      | None \<Rightarrow> if version \<le> 0 then Last name else Get name version)"

lemma name_block_iff: "name_block s \<longleftrightarrow> s \<noteq> [] \<and> alnum (hd s) \<and> alnum (last s) \<and> list_all name_char s"
proof (cases s)
  case (Cons x xs)
  then show ?thesis
    by (cases xs rule: rev_cases) (auto simp: name_block_def name_char_def butlast_append)
qed (simp add: name_block_def)

lemma name_blocks_sound: "name_blocks n s \<Longrightarrow> name_block s"
proof (induction n arbitrary: s)
  case (Suc n)
  then show ?case
  proof (cases "name_block s")
    case False
    then obtain i where i: "0 < i" "i < length s" "name_block (take i s)" "name_block (drop i s)"
      using Suc by (auto simp: list_ex_iff Suc_le_eq)
    then have "hd s = hd (take i s)" "last s = last (drop i s)" by (simp_all add: hd_take last_drop)
    moreover have "list_all name_char (take i s @ drop i s)" using i(3,4) unfolding name_block_iff list_all_append by blast
    ultimately show ?thesis using i unfolding name_block_iff by auto
  qed simp
qed simp

text \<open>A release name is accepted exactly if it has one to 53 characters, begins and ends with a letter or digit and has only letters, digits, dashes, underscores
  and dots.\<close>

lemma ValidateReleaseName_iff:
  "ValidateReleaseName s = None \<longleftrightarrow> s \<noteq> [] \<and> length s \<le> 53 \<and> alnum (hd s) \<and> alnum (last s) \<and> list_all name_char s"
proof -
  have "ValidName s \<longleftrightarrow> name_block s"
  proof
    show "ValidName s \<Longrightarrow> name_block s" unfolding ValidName_def by (rule name_blocks_sound)
    assume "name_block s"
    then show "ValidName s" by (cases s) (simp_all add: ValidName_def name_block_def)
  qed
  then show ?thesis by (auto simp: ValidateReleaseName_def releaseNameMaxLen_def name_block_iff)
qed


section \<open>New releases\<close>

record release_input =
  ri_Name :: string
  ri_ReleaseName :: string
  ri_ClusterId :: string
  ri_NamespaceId :: string
  ri_Namespace :: string
  ri_Repo :: string
  ri_ChartName :: string
  ri_Chart :: string
  ri_Version :: string
  ri_Values :: string
  ri_Sets :: "(string \<times> string) list"
  ri_ValuesJson :: "helm_value option"

record release =
  rs_Name :: string
  rs_ClusterId :: string
  rs_NamespaceId :: string
  rs_RepoId :: string
  rs_Chart :: string
  rs_ChartVersion :: string
  rs_Config :: helm_values

text \<open>Repositories, clusters and namespaces as the database has them; of a namespace its id and its name, looked up in a cluster. \<open>rn_chart\<close> is the
  version of the chart that a constraint on the version selects.\<close>

record release_env =
  rn_repo :: "string \<Rightarrow> fetch_error + repo"
  rn_repoById :: "string \<Rightarrow> fetch_error + repo"
  rn_base :: "string option"
  rn_cluster :: "string \<Rightarrow> fetch_error + string"
  rn_client :: "string \<Rightarrow> string option"
  rn_namespace :: "string \<Rightarrow> string \<Rightarrow> fetch_error + (string \<times> string)"
  rn_remoteNs :: "string \<Rightarrow> string option"
  rn_system :: "string + string option"
  rn_project :: string
  rn_createNs :: "string \<Rightarrow> string \<Rightarrow> string + (string \<times> string)"
  rn_syncNs :: "string \<Rightarrow> string option"
  rn_chart :: "repo \<Rightarrow> string \<Rightarrow> string \<Rightarrow> string + string"
  rn_customize :: "string option"
  rn_values :: values_env

definition NewCheckIdOrNameError :: "string \<Rightarrow> string \<Rightarrow> fetch_error \<Rightarrow> string" where
  "NewCheckIdOrNameError res resName err =
     (case err of
        ErrNoRows \<Rightarrow> ''resource '' @ res @ ''/'' @ resName @ '' not found: '' @ fetch_message err
      | ErrDuplicateEntry \<Rightarrow> ''resource '' @ res @ ''/'' @ resName @ '' duplicate: '' @ fetch_message err
      | ErrOther m \<Rightarrow> m)"

definition Cluster_ValidateCreateInput :: "release_env \<Rightarrow> release_input \<Rightarrow> string + release_input" where
  "Cluster_ValidateCreateInput e data =
     (case rn_base e of
        Some err \<Rightarrow> Inl err
      | None \<Rightarrow>
          if ri_ClusterId data = [] then Inl ''cluster is empty''
          else case rn_cluster e (ri_ClusterId data) of
                 Inl err \<Rightarrow> Inl (NewCheckIdOrNameError ''cluster'' (ri_ClusterId data) err)
               | Inr i \<Rightarrow> Inr (data\<lparr>ri_ClusterId := i\<rparr>))"

text \<open>The error of the remote namespace is wrapped with the name of the nil object.\<close>

definition NS_ValidateCreateInput :: "release_env \<Rightarrow> release_input \<Rightarrow> release_input validation" where
  "NS_ValidateCreateInput e data =
     (case Cluster_ValidateCreateInput e data of
        Inl err \<Rightarrow> Inr (Inl err)
      | Inr data1 \<Rightarrow>
          if ri_NamespaceId data1 = [] then Inr (Inl ''namespace is empty'')
          else case rn_namespace e (ri_ClusterId data1) (ri_NamespaceId data1) of
                 Inl err \<Rightarrow> Inr (Inl (NewCheckIdOrNameError ''namespace_id'' (ri_NamespaceId data1) err))
               | Inr (i, name) \<Rightarrow>
                   (case rn_remoteNs e i of
                      Some err \<Rightarrow> Inl TypeAssertionPanic
                    | None \<Rightarrow> Inr (Inr (data1\<lparr>ri_NamespaceId := i, ri_Namespace := name\<rparr>))))"

definition External_ValidateCreateData :: "release_env \<Rightarrow> release_input \<Rightarrow> release_input validation" where
  "External_ValidateCreateData e data =
     (case rn_cluster e (ri_ClusterId data) of
        Inl err \<Rightarrow> Inr (Inl (fetch_message err))
      | Inr i \<Rightarrow>
     (case rn_client e i of
        Some err \<Rightarrow> Inr (Inl err)
      | None \<Rightarrow>
          if ri_NamespaceId data = [] then Inr (Inl ''namespace'')
          else NS_ValidateCreateInput e (data\<lparr>ri_ClusterId := i\<rparr>)))"

text \<open>\<open>SNamespaceManager.EnsureNamespace\<close>: the record is created when there is none, and synchronised to the cluster.\<close>

definition Manager_EnsureNamespace :: "release_env \<Rightarrow> string \<Rightarrow> string \<Rightarrow> string + (string \<times> string)" where
  "Manager_EnsureNamespace e cluster name =
     (case (case rn_namespace e cluster name of
              Inr ns \<Rightarrow> Inr ns
            | Inl ErrNoRows \<Rightarrow>
                (case rn_createNs e cluster name of Inl err \<Rightarrow> Inl (''create namespace: '' @ err) | Inr ns \<Rightarrow> Inr ns)
            | Inl err \<Rightarrow> Inl (''get namespace '' @ name @ '': '' @ fetch_message err)) of
        Inl err \<Rightarrow> Inl err
      | Inr (i, n) \<Rightarrow> (case rn_syncNs e i of Some err \<Rightarrow> Inl (''sync to kubernetes cluster: '' @ err) | None \<Rightarrow> Inr (i, n)))"

definition Internal_ValidateCreateData :: "release_env \<Rightarrow> release_input \<Rightarrow> release_input validation" where
  "Internal_ValidateCreateData e data =
     Inr (if ri_NamespaceId data \<noteq> [] then Inl ''internal release can not specify namespace''
          else if ri_ClusterId data \<noteq> [] then Inl ''internal release can not specify cluster''
          else case rn_system e of
                 Inl err \<Rightarrow> Inl err
               | Inr None \<Rightarrow> Inl ''system cluster not found''
               | Inr (Some c) \<Rightarrow>
                   (case Manager_EnsureNamespace e c (rn_project e) of
                      Inl err \<Rightarrow> Inl (''ensure namespace: '' @ err)
                    | Inr (i, _) \<Rightarrow> Inr (data\<lparr>ri_ClusterId := c, ri_NamespaceId := i\<rparr>)))"

text \<open>The two drivers are registered under their types.\<close>

definition GetReleaseDriver :: "string \<Rightarrow> string + (release_env \<Rightarrow> release_input \<Rightarrow> release_input validation)" where
  "GetReleaseDriver t =
     (if t = RepoTypeInternal then Inr Internal_ValidateCreateData
      else if t = RepoTypeExternal then Inr External_ValidateCreateData
      else Inl (''release get '' @ t @ '' driver''))"

definition chart_of :: "release_input \<Rightarrow> string + (string \<times> string)" where
  "chart_of data =
     (case (if ri_ChartName data = [] then Inr ([], [])
            else case strings_Split CHR ''/'' (ri_ChartName data) of
                   [r, c] \<Rightarrow> Inr (r, c)
                 | _ \<Rightarrow> Inl (''Illegal chart name: '' @ ri_ChartName data)) of
        Inl err \<Rightarrow> Inl err
      | Inr (r, c) \<Rightarrow>
          (let repo = (if ri_Repo data \<noteq> [] then ri_Repo data else r);
               chart = (if ri_Chart data \<noteq> [] then ri_Chart data else c)
           in if repo = [] then Inl ''repo must provided'' else if chart = [] then Inl ''chart must provided'' else Inr (repo, chart)))"

definition Release_ValidateCreateData :: "release_env \<Rightarrow> release_input \<Rightarrow> release_input validation" where
  "Release_ValidateCreateData e data =
     (case chart_of data of
        Inl err \<Rightarrow> Inr (Inl err)
      | Inr (repo, chart) \<Rightarrow>
     (case rn_repo e repo of
        Inl err \<Rightarrow> Inr (Inl (NewCheckIdOrNameError ''repo'' repo err))
      | Inr repoObj \<Rightarrow>
          let data1 = data\<lparr>ri_Repo := rp_Id repoObj, ri_Name := (if ri_ReleaseName data \<noteq> [] then ri_ReleaseName data else ri_Name data)\<rparr> in
     (case GetReleaseDriver (rp_Type repoObj) of
        Inl err \<Rightarrow> Inr (Inl err)
      | Inr drv \<Rightarrow>
          vbind (drv e data1) (\<lambda>data2.
          vbind (NS_ValidateCreateInput e data2) (\<lambda>data3.
              (case rn_chart e repoObj chart (if ri_Version data3 = [] then ''>0.0.0-0'' else ri_Version data3) of
                 Inl err \<Rightarrow> Inr (Inl (''get chart '' @ rp_Name repoObj @ ''/'' @ chart @ '': '' @ err))
               | Inr version \<Rightarrow> Inr (Inr (data3\<lparr>ri_Version := version, ri_Chart := chart\<rparr>))))))))"

text \<open>The record; the drivers copy the cluster, that of internal repositories also the namespace.\<close>

definition Release_CustomizeCreate :: "release_env \<Rightarrow> release_input \<Rightarrow> string + release" where
  "Release_CustomizeCreate e input =
     (case rn_customize e of
        Some err \<Rightarrow> Inl err
      | None \<Rightarrow>
     (case MergeValues (rn_values e) (ri_Values input) (ri_Sets input) of
        Inl err \<Rightarrow> Inl (''generate config: '' @ err)
      | Inr config \<Rightarrow>
          let r = \<lparr>rs_Name = ri_Name input, rs_ClusterId = ri_ClusterId input, rs_NamespaceId = ri_NamespaceId input, rs_RepoId = ri_Repo input,
                   rs_Chart = ri_Chart input, rs_ChartVersion = ri_Version input,
                   rs_Config = (case ri_ValuesJson input of None \<Rightarrow> config | Some v \<Rightarrow> dict_Update config v)\<rparr> in
     (case rn_repoById e (rs_RepoId r) of
        Inl err \<Rightarrow> Inl (''customize create get driver: get type: get repo: '' @ fetch_message err)
      | Inr repoObj \<Rightarrow>
          (case GetReleaseDriver (rp_Type repoObj) of
             Inl err \<Rightarrow> Inl (''customize create get driver: '' @ err)
           | Inr _ \<Rightarrow> Inr r))))"


text \<open>What the lookups rely on: they find what there is, by id or by name, and an id finds the record itself.\<close>

definition release_db :: "release_env \<Rightarrow> repo list \<Rightarrow> string set \<Rightarrow> (string \<Rightarrow> (string \<times> string) set) \<Rightarrow> bool" where
  "release_db e repos clusters nss \<longleftrightarrow>
     (\<forall>x r. rn_repo e x = Inr r \<longrightarrow> r \<in> set repos) \<and>
     (\<forall>x r. rn_repoById e x = Inr r \<longrightarrow> r \<in> set repos \<and> rp_Id r = x) \<and>
     (\<forall>x i. rn_cluster e x = Inr i \<longrightarrow> i \<in> clusters \<and> (x \<in> clusters \<longrightarrow> i = x)) \<and>
     (\<forall>c x i n. rn_namespace e c x = Inr (i, n) \<longrightarrow> (i, n) \<in> nss c \<and> (x = i \<or> x = n) \<and> (\<forall>m. (x, m) \<in> nss c \<longrightarrow> i = x \<and> n = m)) \<and>
     (\<forall>c x i n. rn_createNs e c x = Inr (i, n) \<longrightarrow> (i, n) \<in> nss c \<and> n = x) \<and>
     (\<forall>c. rn_system e = Inr (Some c) \<longrightarrow> c \<in> clusters)"

lemma release_dbD:
  assumes "release_db e repos clusters nss"
  shows "rn_repo e x = Inr r \<Longrightarrow> r \<in> set repos"
    "rn_cluster e x = Inr i \<Longrightarrow> i \<in> clusters" "rn_cluster e x = Inr i \<Longrightarrow> x \<in> clusters \<Longrightarrow> i = x"
    "rn_namespace e c x = Inr (i, n) \<Longrightarrow> (i, n) \<in> nss c" "rn_namespace e c x = Inr (i, n) \<Longrightarrow> x = i \<or> x = n"
    "rn_namespace e c x = Inr (i, n) \<Longrightarrow> (x, m) \<in> nss c \<Longrightarrow> i = x \<and> n = m"
    "rn_createNs e c x = Inr (i, n) \<Longrightarrow> (i, n) \<in> nss c \<and> n = x" "rn_system e = Inr (Some c) \<Longrightarrow> c \<in> clusters"
  using assms unfolding release_db_def by blast+

lemma NS_ValidateCreateInput_ok:
  assumes "NS_ValidateCreateInput e data = Inr (Inr d)"
  obtains c i n where "rn_cluster e (ri_ClusterId data) = Inr c" "rn_namespace e c (ri_NamespaceId data) = Inr (i, n)"
    "d = data\<lparr>ri_ClusterId := c, ri_NamespaceId := i, ri_Namespace := n\<rparr>"
  using assms by (auto simp: NS_ValidateCreateInput_def Cluster_ValidateCreateInput_def split: sum.splits option.splits if_splits)

lemma Manager_EnsureNamespace_ok:
  assumes "release_db e repos clusters nss" "Manager_EnsureNamespace e c x = Inr (i, n)"
  shows "(i, n) \<in> nss c" "x = i \<or> x = n"
  using assms(2) release_dbD(4,5,7) [OF assms(1)]
  by (fastforce simp: Manager_EnsureNamespace_def split: sum.splits option.splits fetch_error.splits)+

text \<open>What the driver of an internal repository fixes: the namespace of the owner's project in the system cluster.\<close>

lemma Internal_ok:
  assumes "release_db e repos clusters nss" "Internal_ValidateCreateData e data = Inr (Inr d)"
  obtains c i n where "rn_system e = Inr (Some c)" "c \<in> clusters" "(i, n) \<in> nss c" "rn_project e = i \<or> rn_project e = n" "d = data\<lparr>ri_ClusterId := c, ri_NamespaceId := i\<rparr>"
proof -
  from assms(2) obtain c i n where c: "rn_system e = Inr (Some c)" "Manager_EnsureNamespace e c (rn_project e) = Inr (i, n)"
      "d = data\<lparr>ri_ClusterId := c, ri_NamespaceId := i\<rparr>"
    by (auto simp: Internal_ValidateCreateData_def split: sum.splits option.splits if_splits)
  then show thesis using that Manager_EnsureNamespace_ok [OF assms(1) c(2)] release_dbD(8) [OF assms(1) c(1)] by blast
qed

lemma External_repo:
  assumes "External_ValidateCreateData e data = Inr (Inr d)"
  shows "ri_Repo d = ri_Repo data"
  using assms by (auto simp: External_ValidateCreateData_def split: sum.splits option.splits if_splits elim!: NS_ValidateCreateInput_ok)

lemma driver_cases:
  assumes "GetReleaseDriver t = Inr drv"
  obtains "t = RepoTypeInternal" "drv = Internal_ValidateCreateData" | "t = RepoTypeExternal" "drv = External_ValidateCreateData"
  using assms by (auto simp: GetReleaseDriver_def split: if_splits)

lemma Release_ValidateCreateData_ok:
  assumes "Release_ValidateCreateData e data = Inr (Inr input)"
  obtains x chart repo drv d1 d2 d3 version where "rn_repo e x = Inr repo" "GetReleaseDriver (rp_Type repo) = Inr drv"
    "ri_Repo d1 = rp_Id repo" "drv e d1 = Inr (Inr d2)" "NS_ValidateCreateInput e d2 = Inr (Inr d3)"
    "rn_chart e repo chart (if ri_Version d3 = [] then ''>0.0.0-0'' else ri_Version d3) = Inr version"
    "input = d3\<lparr>ri_Version := version, ri_Chart := chart\<rparr>"
proof -
  from assms obtain x chart repo drv where c: "chart_of data = Inr (x, chart)" "rn_repo e x = Inr repo" "GetReleaseDriver (rp_Type repo) = Inr drv"
    by (auto simp: Release_ValidateCreateData_def Let_def split: sum.splits)
  let ?d1 = "data\<lparr>ri_Repo := rp_Id repo, ri_Name := (if ri_ReleaseName data \<noteq> [] then ri_ReleaseName data else ri_Name data)\<rparr>"
  let ?v = "\<lambda>d. rn_chart e repo chart (if ri_Version d = [] then ''>0.0.0-0'' else ri_Version d)"
  from assms c obtain d2 d3 where d: "drv e ?d1 = Inr (Inr d2)" "NS_ValidateCreateInput e d2 = Inr (Inr d3)"
      "(case ?v d3 of Inl err \<Rightarrow> Inr (Inl (''get chart '' @ rp_Name repo @ ''/'' @ chart @ '': '' @ err))
        | Inr version \<Rightarrow> Inr (Inr (d3\<lparr>ri_Version := version, ri_Chart := chart\<rparr>))) = (Inr (Inr input) :: release_input validation)"
    by (auto simp: Release_ValidateCreateData_def Let_def vbind_Inr_Inr simp del: if_split)
  then obtain version where "?v d3 = Inr version" "input = d3\<lparr>ri_Version := version, ri_Chart := chart\<rparr>" by (cases "?v d3") auto
  note d(1,2) this
  then show thesis using that [of x repo drv ?d1] c by simp
qed

text \<open>C12: A release that is created refers to a repository that exists and is of a known type, to the version of a chart that this repository has within the asked
  constraint, and to a namespace of its cluster; an internal one is in the system cluster, in the namespace of the owner's project.\<close>

theorem created_release_complete:
  assumes "release_db e repos clusters nss" "Release_ValidateCreateData e data = Inr (Inr input)" "Release_CustomizeCreate e input = Inr r"
  shows "\<exists>repo\<in>set repos. \<exists>n. rs_RepoId r = rp_Id repo \<and> rp_Type repo \<in> {RepoTypeInternal, RepoTypeExternal} \<and>
    rs_ClusterId r \<in> clusters \<and> (rs_NamespaceId r, n) \<in> nss (rs_ClusterId r) \<and>
    (\<exists>constraint. rn_chart e repo (rs_Chart r) constraint = Inr (rs_ChartVersion r) \<and> constraint \<noteq> []) \<and>
    (rp_Type repo = RepoTypeInternal \<longrightarrow> rn_system e = Inr (Some (rs_ClusterId r)) \<and> rn_project e \<in> {rs_NamespaceId r, n})"
proof -
  from assms(2) obtain x chart repo drv d1 d2 d3 version where v: "rn_repo e x = Inr repo" "GetReleaseDriver (rp_Type repo) = Inr drv"
      "ri_Repo d1 = rp_Id repo" "drv e d1 = Inr (Inr d2)" "NS_ValidateCreateInput e d2 = Inr (Inr d3)"
      "rn_chart e repo chart (if ri_Version d3 = [] then ''>0.0.0-0'' else ri_Version d3) = Inr version"
      "input = d3\<lparr>ri_Version := version, ri_Chart := chart\<rparr>"
    by (rule Release_ValidateCreateData_ok)
  obtain c i n where ns: "rn_cluster e (ri_ClusterId d2) = Inr c" "rn_namespace e c (ri_NamespaceId d2) = Inr (i, n)"
      "d3 = d2\<lparr>ri_ClusterId := c, ri_NamespaceId := i, ri_Namespace := n\<rparr>" by (rule NS_ValidateCreateInput_ok [OF v(5)])
  have r: "rs_RepoId r = ri_Repo d2" "rs_ClusterId r = c" "rs_NamespaceId r = i" "rs_Chart r = chart" "rs_ChartVersion r = version"
    using assms(3) v(7) ns(3) by (auto simp: Release_CustomizeCreate_def Let_def split: sum.splits option.splits)
  note db = release_dbD [OF assms(1)]
  have chart: "\<exists>constraint. rn_chart e repo (rs_Chart r) constraint = Inr (rs_ChartVersion r) \<and> constraint \<noteq> []"
    using v(6) r(4,5) by (intro exI [of _ "if ri_Version d3 = [] then ''>0.0.0-0'' else ri_Version d3"]) simp
  have base: "repo \<in> set repos" "rs_ClusterId r \<in> clusters" "(rs_NamespaceId r, n) \<in> nss (rs_ClusterId r)"
    using db(1) [OF v(1)] db(2) [OF ns(1)] db(4) [OF ns(2)] r by simp_all
  from v(2) show ?thesis
  proof (cases rule: driver_cases)
    case 1
    from Internal_ok [OF assms(1)] v(4) 1(2) obtain c' i' n' where d2: "rn_system e = Inr (Some c')" "c' \<in> clusters" "(i', n') \<in> nss c'"
        "rn_project e = i' \<or> rn_project e = n'" "d2 = d1\<lparr>ri_ClusterId := c', ri_NamespaceId := i'\<rparr>" by blast
    have c: "c = c'" using db(3) [OF ns(1)] d2(2,5) by simp
    have "i = i' \<and> n = n'" using db(6) [OF ns(2), of n'] d2(3,5) c by simp
    then show ?thesis using base chart d2 c r v(3) 1(1) by (intro bexI [of _ repo] exI [of _ n]) auto
  next
    case 2
    then have "ri_Repo d2 = rp_Id repo" using External_repo v(3,4) by simp
    then show ?thesis using base chart r 2(1) by (intro bexI [of _ repo] exI [of _ n]) (auto simp: RepoTypeInternal_def RepoTypeExternal_def)
  qed
qed

text \<open>So the creation of a release is a step of the world of repositories.\<close>

lemma created_release_step:
  assumes "release_db e (rw_repos w) clusters nss" "Release_ValidateCreateData e data = Inr (Inr input)" "Release_CustomizeCreate e input = Inr r"
  shows "repo_step {} w (w\<lparr>rw_releases := \<lparr>rl_Id = i, rl_RepoId = rs_RepoId r\<rparr> # rw_releases w\<rparr>)"
proof -
  have "rs_RepoId r \<in> rp_Id ` set (rw_repos w)"
  proof -
    from assms(3) obtain repo where "rn_repoById e (rs_RepoId r) = Inr repo"
      by (auto simp: Release_CustomizeCreate_def Let_def split: sum.splits option.splits)
    then show ?thesis using assms(1) unfolding release_db_def by (metis image_eqI)
  qed
  then show ?thesis using repo_step.install [of "\<lparr>rl_Id = i, rl_RepoId = rs_RepoId r\<rparr>" w] by simp
qed


text \<open>The values of a release: a key at the top of \<open>values_json\<close> replaces the whole entry of that key, what is under other keys stays as the document has it.\<close>

theorem release_values:
  assumes "Release_CustomizeCreate e input = Inr r" "ri_Values input \<noteq> []" "ve_yaml (rn_values e) (ri_Values input) = Inr m" "wf_value (VMap m)"
    "ri_Sets input = []" "ri_ValuesJson input = Some (VMap j)" "wf_value (VMap j)"
  shows "leaf_at (rs_Config r) (k # ks) = (if k \<in> fst ` set j then leaf_at j (k # ks) else leaf_at m (k # ks))"
proof -
  have "rs_Config r = dict_Update (mergeMaps [] m) (VMap j)"
    using assms(1-3,5,6) by (auto simp: Release_CustomizeCreate_def MergeValues_def Let_def split: option.splits sum.splits)
  then show ?thesis using dict_Update_leaf [of j "mergeMaps [] m" k ks] mergeMaps_Nil [OF assms(4), of "k # ks"] assms(7) by simp
qed

section \<open>Releases in the cluster\<close>

record helm_release =
  hr_Name :: string
  hr_Namespace :: string
  hr_Status :: string

text \<open>Of the namespace of a record its name and status; the values pass through YAML once more.\<close>

record install_env =
  ie_namespace :: "string \<Rightarrow> string + (string \<times> string)"
  ie_chart :: "release \<Rightarrow> string + string"
  ie_client :: "release \<Rightarrow> string option"
  ie_reparse :: "helm_values \<Rightarrow> helm_values"
  ie_install :: "string \<Rightarrow> string \<Rightarrow> string \<Rightarrow> helm_values \<Rightarrow> string + helm_release"
  ie_uninstall :: "string \<Rightarrow> string option"

definition doCreate :: "install_env \<Rightarrow> release \<Rightarrow> string + helm_release" where
  "doCreate e r =
     (case ie_namespace e (rs_NamespaceId r) of
        Inl err \<Rightarrow> Inl (''get relase namespace: '' @ err)
      | Inr (ns, _) \<Rightarrow>
     (case ie_chart e r of
        Inl err \<Rightarrow> Inl (''get chart: '' @ err)
      | Inr chart \<Rightarrow>
     (case ie_client e r of
        Some err \<Rightarrow> Inl (''get helm client when create: '' @ err)
      | None \<Rightarrow>
     (case ie_install e ns (rs_Name r) chart (ie_reparse e (rs_Config r)) of
        Inl err \<Rightarrow> Inl (''install release: '' @ err)
      | Inr rls \<Rightarrow> Inr rls))))"

text \<open>The loop that waits for the namespace looks at the record that was read before it: the number of pauses of five seconds, and whether it is active.\<close>

fun wait_active :: "nat \<Rightarrow> string \<Rightarrow> nat \<times> bool" where
  "wait_active 0 status = (0, False)"
| "wait_active (Suc n) status =
     (if status \<noteq> ''Active'' then (let (pauses, active) = wait_active n status in (Suc pauses, active)) else (0, True))"

definition Release_CreateRemoteObject :: "install_env \<Rightarrow> release \<Rightarrow> nat \<times> (string + helm_release)" where
  "Release_CreateRemoteObject e r =
     (case ie_namespace e (rs_NamespaceId r) of
        Inl err \<Rightarrow> (0, Inl (''get namespace: '' @ err))
      | Inr (ns, status) \<Rightarrow>
          (case wait_active 10 status of
             (pauses, nsActive) \<Rightarrow>
               (pauses, if \<not> nsActive then Inl (''namespace status is '' @ status @ '', not Active'') else doCreate e r)))"

definition Release_DeleteRemoteObject :: "install_env \<Rightarrow> release \<Rightarrow> string option" where
  "Release_DeleteRemoteObject e r =
     (case ie_client e r of
        Some err \<Rightarrow> Some (''get helm client when delete: '' @ err)
      | None \<Rightarrow>
          (case ie_uninstall e (rs_Name r) of
             Some err \<Rightarrow> if contains err ''not found'' then None else Some err
           | None \<Rightarrow> None))"

lemma wait_active_vain: "wait_active n status = (if status = ''Active'' then if n = 0 then (0, False) else (0, True) else (n, False))"
  by (induction n) auto

text \<open>Waiting for a namespace never helps: its status is not read again. When it is not active at first, the creation fails after ten pauses, whatever becomes of the namespace, and
  nothing is installed; when it is, there is no pause.\<close>

theorem waiting_in_vain:
  "Release_CreateRemoteObject e r =
     (case ie_namespace e (rs_NamespaceId r) of
        Inl err \<Rightarrow> (0, Inl (''get namespace: '' @ err))
      | Inr (ns, status) \<Rightarrow> if status = ''Active'' then (0, doCreate e r) else (10, Inl (''namespace status is '' @ status @ '', not Active'')))"
  by (auto simp: Release_CreateRemoteObject_def wait_active_vain split: sum.split)

section \<open>Synchronisation\<close>

definition getRemoteReleaseGlobalId :: "string \<Rightarrow> string \<Rightarrow> string \<Rightarrow> string" where
  "getRemoteReleaseGlobalId clusterId namespace name = clusterId @ ''/'' @ namespace @ ''/'' @ name"

definition Release_GetRemoteObjectGlobalId :: "string \<Rightarrow> helm_release \<Rightarrow> string" where
  "Release_GetRemoteObjectGlobalId clusterId rls = getRemoteReleaseGlobalId clusterId (hr_Namespace rls) (hr_Name rls)"

text \<open>The name of the namespace is passed where the lookup expects its id.\<close>

definition Release_IsRemoteObjectLocalExist :: "sync_env \<Rightarrow> string \<Rightarrow> helm_release \<Rightarrow> table \<Rightarrow> string + cluster_row option" where
  "Release_IsRemoteObjectLocalExist e clusterId rls tbl =
     (case FetchClusterResourceByName e True clusterId (hr_Namespace rls) (hr_Name rls) tbl of
        Inl ErrNoRows \<Rightarrow> Inr None
      | Inl err \<Rightarrow> Inl (''get cluster '' @ clusterId @ '' namespace '' @ hr_Namespace rls @ '' release '' @ hr_Name rls @ '': '' @ fetch_message err)
      | Inr localObj \<Rightarrow> Inr (Some localObj))"

definition Release_NewFromRemoteObject ::
  "sync_env \<Rightarrow> (string \<Rightarrow> fetch_error + string) \<Rightarrow> string \<Rightarrow> helm_release \<Rightarrow> table \<Rightarrow> string + cluster_row" where
  "Release_NewFromRemoteObject e ns clusterId rls tbl =
     (case se_model_err e of
        Some err \<Rightarrow> Inl err
      | None \<Rightarrow>
          (case ns (hr_Namespace rls) of
             Inl err \<Rightarrow> Inl (fetch_message err)
           | Inr nsId \<Rightarrow>
               Inr \<lparr>r_Id = se_newId e tbl, r_Name = hr_Name rls, r_Status = ''init'', r_ExternalId = Release_GetRemoteObjectGlobalId clusterId rls,
                    r_ClusterId = clusterId, r_ResourceVersion = [], r_NamespaceId = nsId\<rparr>))"

definition Release_UpdateFromRemoteObject :: "sync_env \<Rightarrow> (string \<Rightarrow> fetch_error + string) \<Rightarrow> helm_release \<Rightarrow> cluster_row \<Rightarrow> string + cluster_row" where
  "Release_UpdateFromRemoteObject e ns rls r =
     (let r1 = (if r_Name r \<noteq> hr_Name rls then r\<lparr>r_Name := hr_Name rls\<rparr> else r) in
      case se_cluster_err e of
        Some err \<Rightarrow> Inl (''SRelease.GetCluster: '' @ err)
      | None \<Rightarrow>
          (case ns (hr_Namespace rls) of
             Inl err \<Rightarrow> Inl (''SRelease.GetNamespace by name '' @ hr_Namespace rls @ '': '' @ fetch_message err)
           | Inr nsId \<Rightarrow>
               let r2 = r1\<lparr>r_NamespaceId := nsId\<rparr> in
               Inr (if r_Status r2 \<noteq> hr_Status rls then r2\<lparr>r_Status := hr_Status rls\<rparr> else r2)))"

definition Release_SetStatusByRemoteObject :: "helm_release \<Rightarrow> cluster_row \<Rightarrow> cluster_row" where
  "Release_SetStatusByRemoteObject rls r = (if r_Status r \<noteq> hr_Status rls then r\<lparr>r_Status := hr_Status rls\<rparr> else r)"

text \<open>\<open>UpdateFromRemoteObject\<close> and \<open>NewFromRemoteObject\<close> of cluster_api.go and clusterresource.go with the methods of releases.\<close>

definition release_update ::
  "sync_env \<Rightarrow> (string \<Rightarrow> fetch_error + string) \<Rightarrow> cluster_row \<Rightarrow> helm_release \<Rightarrow> table \<Rightarrow> table \<times> string option" where
  "release_update e ns r rls tbl =
     (case Release_UpdateFromRemoteObject e ns rls r of
        Inl err \<Rightarrow> (tbl, Some (''Update from remote object error: UpdateFromRemoteObject: '' @ err))
      | Inr r1 \<Rightarrow>
          let r2 = Release_SetStatusByRemoteObject rls (r1\<lparr>r_ExternalId := Release_GetRemoteObjectGlobalId (r_ClusterId r1) rls\<rparr>) in
          case se_update_err e r2 of
            Some err \<Rightarrow> (tbl, Some (''Update from remote object error: '' @ err))
          | None \<Rightarrow> (save_row r2 tbl, None))"

definition release_new ::
  "sync_env \<Rightarrow> (string \<Rightarrow> fetch_error + string) \<Rightarrow> string \<Rightarrow> helm_release \<Rightarrow> table \<Rightarrow> table \<times> string option" where
  "release_new e ns clusterId rls tbl =
     (case Release_IsRemoteObjectLocalExist e clusterId rls tbl of
        Inl err \<Rightarrow> (tbl, Some (''check IsRemoteObjectLocalExist: '' @ err))
      | Inr (Some localObj) \<Rightarrow> (tbl, Some (r_Name localObj @ '' already exists''))
      | Inr None \<Rightarrow>
          (case Release_NewFromRemoteObject e ns clusterId rls tbl of
             Inl err \<Rightarrow> (tbl, Some (''NewFromRemoteObject: '' @ err))
           | Inr dbObj \<Rightarrow>
               (case se_insert_err e dbObj of
                  Some err \<Rightarrow> (tbl, Some (''Insert to database: '' @ err))
                | None \<Rightarrow>
                    let (tbl2, err) = release_update e ns dbObj rls (tbl @ [dbObj])
                    in (tbl2, errors_Wrap ''NewFromRemoteObject.UpdateFromRemoteObject'' err))))"

text \<open>Cluster ids and the names of namespaces have no slash, so the global id tells releases apart.\<close>

lemma first_part:
  assumes "CHR ''/'' \<notin> set xs" "CHR ''/'' \<notin> set ys" "xs @ ''/'' @ us = ys @ ''/'' @ vs"
  shows "xs = ys \<and> us = vs"
  using assms
proof (induction xs arbitrary: ys)
  case (Cons x xs)
  then show ?case by (cases ys) auto
next
  case Nil
  then show ?case by (cases ys) auto
qed

lemma global_id_inj:
  assumes "CHR ''/'' \<notin> set c" "CHR ''/'' \<notin> set c'" "CHR ''/'' \<notin> set (hr_Namespace a)" "CHR ''/'' \<notin> set (hr_Namespace b)"
    "Release_GetRemoteObjectGlobalId c a = Release_GetRemoteObjectGlobalId c' b"
  shows "c = c' \<and> hr_Namespace a = hr_Namespace b \<and> hr_Name a = hr_Name b"
  using assms(5) first_part [OF assms(1,2)] first_part [OF assms(3,4)]
  unfolding Release_GetRemoteObjectGlobalId_def getRemoteReleaseGlobalId_def by blast


text \<open>What an update records of a release.\<close>

lemma release_update_ok:
  assumes "db_ok e" "ns (hr_Namespace rls) = Inr i"
  shows "release_update e ns r rls tbl =
    (save_row (r\<lparr>r_Name := hr_Name rls, r_NamespaceId := i, r_ExternalId := Release_GetRemoteObjectGlobalId (r_ClusterId r) rls, r_Status := hr_Status rls\<rparr>) tbl, None)"
proof -
  let ?r = "r\<lparr>r_Name := hr_Name rls, r_NamespaceId := i, r_ExternalId := Release_GetRemoteObjectGlobalId (r_ClusterId r) rls, r_Status := hr_Status rls\<rparr>"
  obtain r1 where r1: "Release_UpdateFromRemoteObject e ns rls r = Inr r1" "r_ClusterId r1 = r_ClusterId r"
      "Release_SetStatusByRemoteObject rls (r1\<lparr>r_ExternalId := Release_GetRemoteObjectGlobalId (r_ClusterId r1) rls\<rparr>) = ?r"
    using assms by (cases r) (auto simp: Release_UpdateFromRemoteObject_def Release_SetStatusByRemoteObject_def db_ok_def Let_def)
  then show ?thesis using assms(1) by (simp add: release_update_def db_ok_def Let_def)
qed

lemma save_row_in: "r \<in> set tbl \<Longrightarrow> r_Id r \<noteq> r_Id row \<Longrightarrow> r \<in> set (save_row row tbl)"
  by (force simp: save_row_def)

text \<open>A release of the cluster whose record lacks the global id, as when its installation failed, is not found by name, since the name of the namespace is compared with
  ids: the next synchronisation records it a second time.\<close>

theorem release_recorded_twice:
  assumes "db_ok e" "c \<noteq> []" "hr_Namespace rls \<noteq> []" "\<forall>r\<in>set tbl. r_NamespaceId r \<noteq> hr_Namespace rls"
    "ns (hr_Namespace rls) = Inr i" "row \<in> set tbl" "r_Name row = hr_Name rls" "r_ClusterId row = c" "r_NamespaceId row = i"
  shows "\<exists>tbl' row'. release_new e ns c rls tbl = (tbl', None) \<and> row \<in> set tbl' \<and> row' \<in> set tbl' \<and> r_Id row' \<noteq> r_Id row \<and>
    r_Name row' = r_Name row \<and> r_ClusterId row' = r_ClusterId row \<and> r_NamespaceId row' = r_NamespaceId row"
proof -
  have none: "filter (\<lambda>r. r_Name r = hr_Name rls \<and> r_ClusterId r = c \<and> (True \<and> hr_Namespace rls \<noteq> [] \<longrightarrow> r_NamespaceId r = hr_Namespace rls)) tbl = []"
    using assms(3,4) by (auto simp: filter_empty_conv)
  have "FetchClusterResourceByName e True c (hr_Namespace rls) (hr_Name rls) tbl = Inl ErrNoRows"
    unfolding FetchClusterResourceByName_def none using assms(1,2) by (simp add: db_ok_def first_count_def)
  then have absent: "Release_IsRemoteObjectLocalExist e c rls tbl = Inr None" by (simp add: Release_IsRemoteObjectLocalExist_def)
  define new where "new = \<lparr>r_Id = se_newId e tbl, r_Name = hr_Name rls, r_Status = ''init'', r_ExternalId = Release_GetRemoteObjectGlobalId c rls,
                    r_ClusterId = c, r_ResourceVersion = [], r_NamespaceId = i\<rparr>"
  let ?row = "new\<lparr>r_Name := hr_Name rls, r_NamespaceId := i, r_ExternalId := Release_GetRemoteObjectGlobalId (r_ClusterId new) rls, r_Status := hr_Status rls\<rparr>"
  have "Release_NewFromRemoteObject e ns c rls tbl = Inr new"
    using assms(1,5) by (simp add: Release_NewFromRemoteObject_def db_ok_def new_def)
  then have new: "release_new e ns c rls tbl = (save_row ?row (tbl @ [new]), None)"
    using absent assms(1) release_update_ok [of e ns rls i new] assms(5) by (simp add: release_new_def db_ok_def)
  have id: "r_Id ?row \<noteq> r_Id row" using assms(1,6) by (auto simp: db_ok_def new_def image_iff)
  then have "row \<in> set (save_row ?row (tbl @ [new]))" using assms(6) by (intro save_row_in) auto
  moreover have "?row \<in> set (save_row ?row (tbl @ [new]))" by (simp add: save_row_def)
  moreover have "r_Name ?row = r_Name row" "r_ClusterId ?row = r_ClusterId row" "r_NamespaceId ?row = r_NamespaceId row"
    using assms(7-9) by (simp_all add: new_def)
  ultimately show ?thesis using new id by blast
qed

section \<open>Lists of releases by type\<close>

definition release_filter :: "repo list \<Rightarrow> string \<Rightarrow> string \<Rightarrow> bool" where
  "release_filter repos t repoId \<longleftrightarrow>
     t = [] \<or> repoId \<in> rp_Id ` set (filter (\<lambda>r. rp_Type r = t) repos) \<or> (t = RepoTypeExternal \<and> repoId = [])"

text \<open>Every release is listed under exactly one of the two types.\<close>

theorem release_has_one_type:
  assumes "repo_run D w w'" "repo_inv w" "x \<in> set (rw_releases w')"
    "\<forall>r\<in>set (rw_repos w'). rp_Type r \<in> {RepoTypeInternal, RepoTypeExternal} \<and> rp_Id r \<noteq> []"
  shows "release_filter (rw_repos w') RepoTypeInternal (rl_RepoId x) \<longleftrightarrow> \<not> release_filter (rw_repos w') RepoTypeExternal (rl_RepoId x)"
proof -
  have inv: "repo_inv_but D w'" using assms(1,2) by (rule repo_run_inv)
  have listed: "rl_RepoId x \<in> rp_Id ` set (filter (\<lambda>r. rp_Type r = t) (rw_repos w')) \<longleftrightarrow> t = rp_Type r"
    if r: "r \<in> set (rw_repos w')" "rp_Id r = rl_RepoId x" for r t
  proof -
    have "r' = r" if "r' \<in> set (rw_repos w')" "rp_Id r' = rl_RepoId x" for r'
      using inv r that unfolding repo_inv_but_def distinct_map by (metis inj_onD)
    then have "{r' \<in> set (rw_repos w'). rp_Id r' = rl_RepoId x} = {r}" using r by blast
    moreover have "rl_RepoId x \<in> rp_Id ` set (filter (\<lambda>r. rp_Type r = t) (rw_repos w')) \<longleftrightarrow>
        (\<exists>r' \<in> {r' \<in> set (rw_repos w'). rp_Id r' = rl_RepoId x}. rp_Type r' = t)" by (auto simp: image_iff)
    ultimately show ?thesis by auto
  qed
  have types: "RepoTypeInternal \<noteq> []" "RepoTypeExternal \<noteq> []" "RepoTypeInternal \<noteq> RepoTypeExternal" by (simp_all add: RepoTypeInternal_def RepoTypeExternal_def)
  show ?thesis
  proof (cases "rl_RepoId x = []")
    case True
    then have "rl_RepoId x \<notin> rp_Id ` set (rw_repos w')" using assms(4) by force
    then show ?thesis using True types by (auto simp: release_filter_def)
  next
    case False
    then obtain r where r: "r \<in> set (rw_repos w')" "rp_Id r = rl_RepoId x" using inv assms(3) by (force simp: repo_inv_but_def)
    then have "rp_Type r = RepoTypeInternal \<or> rp_Type r = RepoTypeExternal" using assms(4) by blast
    then show ?thesis unfolding release_filter_def listed [OF r] using types False by auto
  qed
qed

section \<open>Concrete instances\<close>

definition sample_release_env :: release_env where
  "sample_release_env = \<lparr>rn_repo = (\<lambda>x. if x = ''stable'' then Inr (sample_repo\<lparr>rp_Type := ''internal''\<rparr>) else Inl ErrNoRows),
     rn_repoById = (\<lambda>x. if x = rp_Id sample_repo then Inr (sample_repo\<lparr>rp_Type := ''internal''\<rparr>) else Inl ErrNoRows),
     rn_base = None, rn_cluster = (\<lambda>x. if x = ''c'' \<or> x = ''system'' then Inr ''c'' else Inl ErrNoRows), rn_client = (\<lambda>_. None),
     rn_namespace = (\<lambda>c x. if c = ''c'' \<and> (x = ''n1'' \<or> x = ''p1'') then Inr (''n1'', ''p1'') else Inl ErrNoRows), rn_remoteNs = (\<lambda>_. None),
     rn_system = Inr (Some ''c''), rn_project = ''p1'', rn_createNs = (\<lambda>_ _. Inl ''read only''), rn_syncNs = (\<lambda>_. None),
     rn_chart = (\<lambda>_ _ _. Inr ''1.2.0''), rn_customize = None,
     rn_values = \<lparr>ve_yaml = (\<lambda>_. Inr [(''image'', VMap [(''tag'', Scalar ''1''), (''name'', Scalar ''web'')]), (''size'', Scalar ''2'')]), ve_set = (\<lambda>_ m. Inr m)\<rparr>\<rparr>"

definition sample_input :: release_input where
  "sample_input = \<lparr>ri_Name = ''web'', ri_ReleaseName = [], ri_ClusterId = [], ri_NamespaceId = [], ri_Namespace = [], ri_Repo = [], ri_ChartName = ''stable/nginx'',
     ri_Chart = [], ri_Version = [], ri_Values = ''image: ...'', ri_Sets = [], ri_ValuesJson = Some (VMap [(''image'', VMap [(''tag'', Scalar ''2'')])])\<rparr>"

definition sample_validated :: release_input where
  "sample_validated = sample_input\<lparr>ri_Repo := rp_Id sample_repo, ri_ClusterId := ''c'', ri_NamespaceId := ''n1'', ri_Namespace := ''p1'', ri_Version := ''1.2.0'', ri_Chart := ''nginx''\<rparr>"

lemma sample_validate: "Release_ValidateCreateData sample_release_env sample_input = Inr (Inr sample_validated)"
  by (simp add: Release_ValidateCreateData_def chart_of_def sample_input_def sample_release_env_def GetReleaseDriver_def RepoTypeInternal_def
      Internal_ValidateCreateData_def Manager_EnsureNamespace_def NS_ValidateCreateInput_def Cluster_ValidateCreateInput_def sample_validated_def)

lemma sample_customize: "\<exists>r. Release_CustomizeCreate sample_release_env sample_validated = Inr r"
  by (simp add: Release_CustomizeCreate_def sample_release_env_def sample_validated_def sample_input_def MergeValues_def GetReleaseDriver_def RepoTypeInternal_def Let_def)

lemma sample_release_db: "release_db sample_release_env [sample_repo\<lparr>rp_Type := ''internal''\<rparr>] {''c''} (\<lambda>c. if c = ''c'' then {(''n1'', ''p1'')} else {})"
  unfolding release_db_def by (auto simp: sample_release_env_def split: if_splits)

theorem created_release_complete_witness:
  "\<exists>r. Release_CustomizeCreate sample_release_env sample_validated = Inr r \<and> rs_ClusterId r = ''c'' \<and> rs_NamespaceId r = ''n1'' \<and> rs_RepoId r = rp_Id sample_repo"
proof -
  obtain r where r: "Release_CustomizeCreate sample_release_env sample_validated = Inr r" using sample_customize by blast
  from created_release_complete [OF sample_release_db sample_validate r] show ?thesis
    using r by (auto simp: RepoTypeInternal_def split: if_splits)
qed

theorem release_values_witness:
  "\<exists>r. Release_CustomizeCreate sample_release_env sample_validated = Inr r \<and> leaf_at (rs_Config r) [''image'', ''tag''] = Some (Scalar ''2'') \<and>
     leaf_at (rs_Config r) [''image'', ''name''] = None \<and> leaf_at (rs_Config r) [''size''] = Some (Scalar ''2'')"
proof -
  obtain r where r: "Release_CustomizeCreate sample_release_env sample_validated = Inr r" using sample_customize by blast
  let ?m = "[(''image'', VMap [(''tag'', Scalar ''1''), (''name'', Scalar ''web'')]), (''size'', Scalar ''2'')]"
  let ?j = "[(''image'', VMap [(''tag'', Scalar ''2'')])]"
  have "leaf_at (rs_Config r) (k # ks) = (if k \<in> fst ` set ?j then leaf_at ?j (k # ks) else leaf_at ?m (k # ks))" for k ks
    by (rule release_values [OF r]) (simp_all add: sample_validated_def sample_input_def sample_release_env_def)
  then show ?thesis using r by (simp add: leaf_at_def)
qed

theorem release_recorded_twice_witness:
  "\<exists>tbl' row'. release_new sample_sync_env (\<lambda>n. Inr ''n1'') ''c'' \<lparr>hr_Name = ''web'', hr_Namespace = ''prod'', hr_Status = ''failed''\<rparr>
       [(hd sample_mirror)\<lparr>r_NamespaceId := ''n1'', r_ExternalId := [], r_Status := ''create_fail''\<rparr>] = (tbl', None) \<and> row' \<in> set tbl' \<and> r_Id row' \<noteq> ''1'' \<and> r_Name row' = ''web''"
  using release_recorded_twice [OF sample_db_ok, of "''c''" "\<lparr>hr_Name = ''web'', hr_Namespace = ''prod'', hr_Status = ''failed''\<rparr>"
      "[(hd sample_mirror)\<lparr>r_NamespaceId := ''n1'', r_ExternalId := [], r_Status := ''create_fail''\<rparr>]" "\<lambda>n. Inr ''n1''" "''n1''"
      "(hd sample_mirror)\<lparr>r_NamespaceId := ''n1'', r_ExternalId := [], r_Status := ''create_fail''\<rparr>"]
  by (auto simp: sample_mirror_def)

theorem release_has_one_type_witness:
  "release_filter [sample_repo\<lparr>rp_Type := ''internal''\<rparr>] ''internal'' (rp_Id sample_repo) \<and> \<not> release_filter [sample_repo\<lparr>rp_Type := ''internal''\<rparr>] ''external'' (rp_Id sample_repo)"
proof -
  let ?w = "\<lparr>rw_repos = [sample_repo\<lparr>rp_Type := ''internal''\<rparr>], rw_releases = [\<lparr>rl_Id = ''r'', rl_RepoId = rp_Id sample_repo\<rparr>],
     rw_helm = \<lparr>hs_file = Some [ToEntry sample_repo], hs_cache = Map.empty\<rparr>\<rparr>"
  have "repo_inv ?w" by (simp add: repo_inv_def registered_def ToEntry_def entries_def)
  then have "release_filter (rw_repos ?w) RepoTypeInternal (rp_Id sample_repo) \<longleftrightarrow> \<not> release_filter (rw_repos ?w) RepoTypeExternal (rp_Id sample_repo)"
    using release_has_one_type [OF repo_run.start, of ?w "\<lparr>rl_Id = ''r'', rl_RepoId = rp_Id sample_repo\<rparr>"] by (simp add: RepoTypeInternal_def sample_repo_def)
  then show ?thesis by (simp add: RepoTypeInternal_def RepoTypeExternal_def release_filter_def)
qed


text \<open>C31: merging two maps of values, agreed with the lookup of leaves by paths: a leaf of the second map counts; where the second has something else on the way or a map at the end
  there is no leaf; where it has nothing the leaf of the first stays.\<close>

theorem mergeMaps_reference:
  assumes "wf_value (VMap b)"
  shows "leaf_at (mergeMaps a b) p = (case find_at b p of Hit v \<Rightarrow> Some v | Blocked \<Rightarrow> None | Absent \<Rightarrow> leaf_at a p)"
  by (rule mergeMaps_find [OF assms])

theorem mergeMaps_reference_witness:
  "leaf_at (mergeMaps [(''a'', VMap [(''x'', Scalar ''1''), (''y'', Scalar ''2'')])] [(''a'', VMap [(''x'', Scalar ''3'')])]) [''a'', ''x''] = Some (Scalar ''3'') \<and>
   leaf_at (mergeMaps [(''a'', VMap [(''x'', Scalar ''1''), (''y'', Scalar ''2'')])] [(''a'', VMap [(''x'', Scalar ''3'')])]) [''a'', ''y''] = Some (Scalar ''2'')"
  using mergeMaps_reference [of "[(''a'', VMap [(''x'', Scalar ''3'')])]" "[(''a'', VMap [(''x'', Scalar ''1''), (''y'', Scalar ''2'')])]"]
  by (simp add: leaf_at_def)

end
