(* ===== verification/RemoteObjects.thy ===== *)
theory RemoteObjects
  imports ClusterEvents ResourceTasks
begin

text \<open>
  The objects in a cluster behind the rows: src/pkg/client/handler.go (reads from the cache of the
  informers, writes to the API of the cluster), the remote operations of src/pkg/models/clusterresource.go,
  namespaceresource.go and cluster_api.go, and the requests that run them as tasks
  (src/pkg/tasks/cluster_resource_task.go, cluster_resource_sync_task.go; the stages of these tasks are in
  \<open>ResourceTasks\<close>, here is what their jobs do to the row). The cache and the answers of the API are a record;
  building an object from a request is a parameter of the kind. Of an object its UID, name, namespace and version are kept.
\<close>

section \<open>The handler of a cluster\<close>

datatype api_error = NotFound string | APIError string

fun api_message :: "api_error \<Rightarrow> string" where
  "api_message (NotFound name) = name @ '' not found''"
| "api_message (APIError err) = err"

text \<open>\<open>kb_kinds\<close> is \<open>KindToResourceMap\<close> with the field \<open>Namespaced\<close>.\<close>

record kube =
  kb_kinds :: "string \<rightharpoonup> bool"
  kb_informer :: "string \<Rightarrow> string option"
  kb_cache :: "(string \<times> remote_object) list"
  kb_selector :: "string \<Rightarrow> string + (remote_object \<Rightarrow> bool)"
  kb_post :: "string \<Rightarrow> string \<Rightarrow> remote_object \<Rightarrow> string + remote_object"
  kb_encode :: "remote_object \<Rightarrow> string option"
  kb_put :: "string \<Rightarrow> string \<Rightarrow> string \<Rightarrow> remote_object \<Rightarrow> string + remote_object"
  kb_decode :: "remote_object \<Rightarrow> string option"
  kb_delete :: "string \<Rightarrow> string \<Rightarrow> string \<Rightarrow> api_error option"

definition unsupported :: "string \<Rightarrow> string" where
  "unsupported kind = ''Resource kind ('' @ kind @ '') not support yet.''"

definition handler_CreateV2 :: "kube \<Rightarrow> string \<Rightarrow> string \<Rightarrow> remote_object \<Rightarrow> string + remote_object" where
  "handler_CreateV2 kb kind ns obj =
     (case kb_kinds kb kind of
        None \<Rightarrow> Inl (unsupported kind)
      | Some namespaced \<Rightarrow> kb_post kb kind (if namespaced then ns else []) obj)"

definition handler_Update :: "kube \<Rightarrow> string \<Rightarrow> string \<Rightarrow> string \<Rightarrow> remote_object \<Rightarrow> string + remote_object" where
  "handler_Update kb kind ns name obj =
     (case kb_kinds kb kind of
        None \<Rightarrow> Inl (unsupported kind)
      | Some namespaced \<Rightarrow> kb_put kb kind (if namespaced then ns else []) name obj)"

text \<open>The object that the API stored, if it did, and the result: the answer is decoded after the object is stored.\<close>

definition handler_UpdateV2 :: "kube \<Rightarrow> string \<Rightarrow> remote_object \<Rightarrow> remote_object option \<times> (string + remote_object)" where
  "handler_UpdateV2 kb kind obj =
     (case kb_encode kb obj of
        Some err \<Rightarrow> (None, Inl err)
      | None \<Rightarrow>
          (case handler_Update kb kind (ro_Namespace obj) (ro_Name obj) obj of
             Inl err \<Rightarrow> (None, Inl err)
           | Inr stored \<Rightarrow> (Some stored, case kb_decode kb stored of Some err \<Rightarrow> Inl err | None \<Rightarrow> Inr stored)))"

definition handler_Delete :: "kube \<Rightarrow> string \<Rightarrow> string \<Rightarrow> string \<Rightarrow> api_error option" where
  "handler_Delete kb kind ns name =
     (case kb_kinds kb kind of
        None \<Rightarrow> Some (APIError (unsupported kind))
      | Some namespaced \<Rightarrow> kb_delete kb kind (if namespaced then ns else []) name)"

definition handler_Get :: "kube \<Rightarrow> string \<Rightarrow> string \<Rightarrow> string \<Rightarrow> api_error + remote_object" where
  "handler_Get kb kind ns name =
     (case kb_kinds kb kind of
        None \<Rightarrow> Inl (APIError (unsupported kind))
      | Some namespaced \<Rightarrow>
          (case kb_informer kb kind of
             Some err \<Rightarrow> Inl (APIError err)
           | None \<Rightarrow>
               (case find (\<lambda>(k, obj). k = kind \<and> ro_Name obj = name \<and> (namespaced \<longrightarrow> ro_Namespace obj = ns)) (kb_cache kb) of
                  None \<Rightarrow> Inl (NotFound name)
                | Some (_, obj) \<Rightarrow> Inr obj)))"

text \<open>The lister of the namespace \<open>''''\<close> lists all namespaces.\<close>

definition handler_List :: "kube \<Rightarrow> string \<Rightarrow> string \<Rightarrow> string \<Rightarrow> string + remote_object list" where
  "handler_List kb kind ns labelSelector =
     (case kb_kinds kb kind of
        None \<Rightarrow> Inl (unsupported kind)
      | Some namespaced \<Rightarrow>
          (case kb_informer kb kind of
             Some err \<Rightarrow> Inl err
           | None \<Rightarrow>
               (case kb_selector kb labelSelector of
                  Inl err \<Rightarrow> Inl err
                | Inr sel \<Rightarrow>
                    Inr (map snd (filter (\<lambda>(k, obj). k = kind \<and> sel obj \<and> (namespaced \<and> ns \<noteq> [] \<longrightarrow> ro_Namespace obj = ns)) (kb_cache kb))))))"

section \<open>Remote operations of the models\<close>

text \<open>The client of the cluster of a row is an argument, since it may be gone and since the cache changes between two
  calls. \<open>rm_namespace\<close> is \<open>GetNamespace\<close>: the name of the namespace recorded under an id.\<close>

record remote_env =
  rm_kind :: string
  rm_namespace :: "string \<Rightarrow> string + string"
  rm_newCreate :: "cluster_row \<Rightarrow> string + remote_object"
  rm_newUpdate :: "remote_object \<Rightarrow> string + remote_object"
  rm_startSync :: "string option"

type_synonym client = "string + kube"

definition ListRemoteObjects :: "remote_env \<Rightarrow> kube \<Rightarrow> string + remote_object list" where
  "ListRemoteObjects rm kb =
     (case handler_List kb (rm_kind rm) [] [] of
        Inl err \<Rightarrow> Inl (''list k8s '' @ rm_kind rm @ '' remote objects: '' @ err)
      | Inr objs \<Rightarrow> Inr objs)"

definition Cluster_GetRemoteObject :: "remote_env \<Rightarrow> client \<Rightarrow> cluster_row \<Rightarrow> api_error + remote_object" where
  "Cluster_GetRemoteObject rm cli row =
     (case cli of
        Inl err \<Rightarrow> Inl (APIError (''get '' @ rm_kind rm @ ''/'' @ r_Name row @ '' cluster client: '' @ err))
      | Inr kb \<Rightarrow> handler_Get kb (rm_kind rm) [] (r_Name row))"

definition NS_GetRemoteObject :: "remote_env \<Rightarrow> client \<Rightarrow> cluster_row \<Rightarrow> api_error + remote_object" where
  "NS_GetRemoteObject rm cli row =
     (case cli of
        Inl err \<Rightarrow> Inl (APIError err)
      | Inr kb \<Rightarrow>
          (case rm_namespace rm (r_NamespaceId row) of
             Inl err \<Rightarrow> Inl (APIError (''get namespace: '' @ err))
           | Inr ns \<Rightarrow> handler_Get kb (rm_kind rm) ns (r_Name row)))"

definition obj_GetRemoteObject :: "sync_env \<Rightarrow> remote_env \<Rightarrow> client \<Rightarrow> cluster_row \<Rightarrow> api_error + remote_object" where
  "obj_GetRemoteObject e rm = (if se_scope e = None then Cluster_GetRemoteObject rm else NS_GetRemoteObject rm)"

text \<open>The deletion of an object: whether the API accepted it, and the error.\<close>

definition delete_answer :: "kube \<Rightarrow> string \<Rightarrow> string \<Rightarrow> string \<Rightarrow> bool \<times> string option" where
  "delete_answer kb kind ns name =
     (case handler_Delete kb kind ns name of
        None \<Rightarrow> (True, None)
      | Some (NotFound _) \<Rightarrow> (False, None)
      | Some err \<Rightarrow> (False, Some (api_message err)))"

definition Cluster_DeleteRemoteObject :: "remote_env \<Rightarrow> client \<Rightarrow> cluster_row \<Rightarrow> bool \<times> string option" where
  "Cluster_DeleteRemoteObject rm cli row =
     (case cli of
        Inl err \<Rightarrow> (False, Some (''get '' @ rm_kind rm @ ''/'' @ r_Name row @ '' cluster client: '' @ err))
      | Inr kb \<Rightarrow> delete_answer kb (rm_kind rm) [] (r_Name row))"

definition NS_DeleteRemoteObject :: "remote_env \<Rightarrow> client \<Rightarrow> cluster_row \<Rightarrow> bool \<times> string option" where
  "NS_DeleteRemoteObject rm cli row =
     (case cli of
        Inl err \<Rightarrow> (False, Some err)
      | Inr kb \<Rightarrow>
          (case rm_namespace rm (r_NamespaceId row) of
             Inl err \<Rightarrow> (False, Some (''get namespace: '' @ err))
           | Inr ns \<Rightarrow> delete_answer kb (rm_kind rm) ns (r_Name row)))"

definition DeleteRemoteObject :: "sync_env \<Rightarrow> remote_env \<Rightarrow> client \<Rightarrow> cluster_row \<Rightarrow> bool \<times> string option" where
  "DeleteRemoteObject e rm cli row =
     (let (accepted, err) = (if se_scope e = None then Cluster_DeleteRemoteObject rm cli row else NS_DeleteRemoteObject rm cli row)
      in (accepted, errors_Wrap ''DeleteRemoteObject'' err))"

text \<open>The table, the object that the API stored, if it did, and the result.\<close>

definition CreateRemoteObject ::
  "sync_env \<Rightarrow> remote_env \<Rightarrow> client \<Rightarrow> cluster_row \<Rightarrow> table \<Rightarrow> table \<times> remote_object option \<times> (string + remote_object)" where
  "CreateRemoteObject e rm cli row tbl =
     (case cli of
        Inl err \<Rightarrow> (tbl, None, Inl (''get cluster client: '' @ err))
      | Inr kb \<Rightarrow>
     (case rm_newCreate rm row of
        Inl err \<Rightarrow> (tbl, None, Inl (''NewRemoteObjectForCreate: '' @ err))
      | Inr body \<Rightarrow>
     (case handler_CreateV2 kb (rm_kind rm) (ro_Namespace body) body of
        Inl err \<Rightarrow> (tbl, None, Inl (''CreateRemoteObject: '' @ err))
      | Inr obj \<Rightarrow>
          (case API_UpdateFromRemoteObject e row obj tbl of
             (tbl', Some err) \<Rightarrow> (tbl', Some obj, Inl (''UpdateFromRemoteObject after CreateRemoteObject: '' @ err))
           | (tbl', None) \<Rightarrow> (tbl', Some obj, Inr obj)))))"

text \<open>The object is read from the cache, changed, stored, and read from the cache again, which may lag behind.\<close>

definition UpdateRemoteObject ::
  "sync_env \<Rightarrow> remote_env \<Rightarrow> client \<Rightarrow> client \<Rightarrow> cluster_row \<Rightarrow> table \<Rightarrow> table \<times> remote_object option \<times> (string + remote_object)" where
  "UpdateRemoteObject e rm cli cli2 row tbl =
     (case cli of
        Inl err \<Rightarrow> (tbl, None, Inl (''get cluster client: '' @ err))
      | Inr kb \<Rightarrow>
     (case obj_GetRemoteObject e rm cli row of
        Inl err \<Rightarrow> (tbl, None, Inl (''get remote object: '' @ api_message err))
      | Inr extObj \<Rightarrow>
     (case rm_newUpdate rm extObj of
        Inl err \<Rightarrow> (tbl, None, Inl (''NewRemoteObjectForUpdate: '' @ err))
      | Inr extObj2 \<Rightarrow>
     (case handler_UpdateV2 kb (rm_kind rm) extObj2 of
        (stored, Inl err) \<Rightarrow> (tbl, stored, Inl (''UpdateRemoteObject: '' @ err))
      | (stored, Inr _) \<Rightarrow>
     (case obj_GetRemoteObject e rm cli2 row of
        Inl err \<Rightarrow> (tbl, stored, Inl (''get remote object after updated: '' @ api_message err))
      | Inr extObj3 \<Rightarrow>
          (case API_UpdateFromRemoteObject e row extObj3 tbl of
             (tbl', Some err) \<Rightarrow> (tbl', stored, Inl (''UpdateFromRemoteObject: '' @ err))
           | (tbl', None) \<Rightarrow> (tbl', stored, Inr extObj3)))))))"

definition PerformSyncResource :: "sync_env \<Rightarrow> remote_env \<Rightarrow> client \<Rightarrow> cluster_row \<Rightarrow> table \<Rightarrow> table \<times> string option" where
  "PerformSyncResource e rm cli row tbl =
     (case obj_GetRemoteObject e rm cli row of
        Inl err \<Rightarrow> (tbl, Some (''get remote object: '' @ api_message err))
      | Inr remoteObj \<Rightarrow>
          (let (tbl', err) = API_UpdateFromRemoteObject e row remoteObj tbl in (tbl', errors_Wrap ''update from remote object'' err)))"

section \<open>Requests\<close>

text \<open>The status of the row with an id; an error of the database leaves it.\<close>

definition set_status :: "sync_env \<Rightarrow> string \<Rightarrow> string \<Rightarrow> table \<Rightarrow> table" where
  "set_status e i st tbl = map (\<lambda>r. if r_Id r = i \<and> se_update_err e (r\<lparr>r_Status := st\<rparr>) = None then r\<lparr>r_Status := st\<rparr> else r) tbl"

definition row_by_id :: "string \<Rightarrow> table \<Rightarrow> cluster_row option" where
  "row_by_id i tbl = find (\<lambda>r. r_Id r = i) tbl"

definition run_sync :: "sync_env \<Rightarrow> remote_env \<Rightarrow> client \<Rightarrow> string \<Rightarrow> table \<Rightarrow> table" where
  "run_sync e rm cli i tbl =
     (let tbl1 = set_status e i ClusterResourceStatusSyncing tbl
      in case row_by_id i tbl1 of
           None \<Rightarrow> tbl1
         | Some row \<Rightarrow>
             (case PerformSyncResource e rm cli row tbl1 of
                (tbl2, None) \<Rightarrow> tbl2
              | (tbl2, Some _) \<Rightarrow> set_status e i ClusterResourceStatusSyncFail tbl2))"

definition run_create :: "sync_env \<Rightarrow> remote_env \<Rightarrow> client \<Rightarrow> client \<Rightarrow> string \<Rightarrow> table \<Rightarrow> table \<times> remote_object option" where
  "run_create e rm cli cli2 i tbl =
     (let tbl1 = set_status e i ClusterResourceStatusCreating tbl
      in case row_by_id i tbl1 of
           None \<Rightarrow> (tbl1, None)
         | Some row \<Rightarrow>
             (case CreateRemoteObject e rm cli row tbl1 of
                (tbl2, stored, Inl _) \<Rightarrow> (set_status e i ClusterResourceStatusCreateFail tbl2, stored)
              | (tbl2, stored, Inr _) \<Rightarrow>
                  (if rm_startSync rm = None then run_sync e rm cli2 i tbl2
                   else set_status e i ClusterResourceStatusCreateFail tbl2, stored)))"

definition run_update :: "sync_env \<Rightarrow> remote_env \<Rightarrow> client \<Rightarrow> client \<Rightarrow> string \<Rightarrow> table \<Rightarrow> table \<times> remote_object option" where
  "run_update e rm cli cli2 i tbl =
     (let tbl1 = set_status e i ClusterResourceStatusUpdating tbl
      in case row_by_id i tbl1 of
           None \<Rightarrow> (tbl1, None)
         | Some row \<Rightarrow>
             (case UpdateRemoteObject e rm cli cli2 row tbl1 of
                (tbl2, stored, Inl _) \<Rightarrow> (set_status e i ClusterResourceStatusUpdateFail tbl2, stored)
              | (tbl2, stored, Inr _) \<Rightarrow> (tbl2, stored)))"

definition run_delete :: "sync_env \<Rightarrow> remote_env \<Rightarrow> client \<Rightarrow> string \<Rightarrow> table \<Rightarrow> table \<times> bool" where
  "run_delete e rm cli i tbl =
     (let tbl1 = set_status e i ClusterResourceStatusDeleting tbl
      in case row_by_id i tbl1 of
           None \<Rightarrow> (tbl1, False)
         | Some row \<Rightarrow>
             (case DeleteRemoteObject e rm cli row of
                (accepted, Some _) \<Rightarrow> (set_status e i ClusterResourceStatusDeleteFail tbl1, accepted)
              | (accepted, None) \<Rightarrow>
                  (case RealDelete e row tbl1 of
                     (tbl2, Some _) \<Rightarrow> (set_status e i ClusterResourceStatusDeleteFail tbl2, accepted)
                   | (tbl2, None) \<Rightarrow> (tbl2, accepted))))"

end
