(* ===== verification/Convergence.thy ===== *)
theory Convergence
  imports RemoteObjects
begin

text \<open>
  Requests, changes made in the cluster by others, and the events that report them, in any order: the events are
  handled late but in order, the cache of the informers is anywhere between what was handled and the present, and each
  request runs against what the API and the cache answer then. Shown: once the pending events are handled every object has exactly one
  row, with its UID and version, and every other row is one of a failed request.
\<close>

section \<open>The rows under a key\<close>

definition rows_at :: "scope \<Rightarrow> string \<Rightarrow> table \<Rightarrow> string \<times> string \<Rightarrow> cluster_row multiset" where
  "rows_at sc c tbl k = filter_mset (\<lambda>r. row_key sc r = k) (mine c tbl)"

definition same_else :: "scope \<Rightarrow> string \<Rightarrow> string \<times> string \<Rightarrow> table \<Rightarrow> table \<Rightarrow> bool" where
  "same_else sc c k tbl tbl' \<longleftrightarrow> (ids_ok tbl \<longrightarrow> ids_ok tbl') \<and> others c tbl' = others c tbl \<and> (\<forall>k'. k' \<noteq> k \<longrightarrow> rows_at sc c tbl' k' = rows_at sc c tbl k')"

lemma same_else_trans: "same_else sc c k t1 t2 \<Longrightarrow> same_else sc c k t2 t3 \<Longrightarrow> same_else sc c k t1 t3"
  by (simp add: same_else_def)

lemma same_else_refl [simp]: "same_else sc c k t t"
  by (simp add: same_else_def)

text \<open>The row under a key became another one, or went.\<close>

definition row_to :: "scope \<Rightarrow> string \<Rightarrow> string \<times> string \<Rightarrow> table \<Rightarrow> table \<Rightarrow> cluster_row multiset \<Rightarrow> bool" where
  "row_to sc c k tbl tbl' R \<longleftrightarrow> same_else sc c k tbl tbl' \<and> rows_at sc c tbl' k = R"

lemma rows_at_in: "r \<in># rows_at sc c tbl k \<longleftrightarrow> r \<in># mine c tbl \<and> row_key sc r = k"
  by (auto simp: rows_at_def)

lemma save_row_to:
  assumes "ids_ok tbl" "rows_at sc c tbl k = {#row#}" "r_Id row' = r_Id row" "r_ClusterId row' = c" "row_key sc row' = k"
  shows "row_to sc c k tbl (save_row row' tbl) {#row'#}"
proof -
  have row: "row \<in># mine c tbl" "row_key sc row = k" using assms(2) rows_at_in [of row sc c tbl k] by simp_all
  note views = save_row_views [OF assms(1) row(1) assms(3,4)]
  show ?thesis
    using views assms(2,5) row(2) by (simp add: row_to_def same_else_def rows_at_def)
qed

lemma delete_row_to:
  assumes "ids_ok tbl" "rows_at sc c tbl k = {#row#}"
  shows "row_to sc c k tbl (filter (\<lambda>r. r_Id r \<noteq> r_Id row) tbl) {#}"
proof -
  have row: "row \<in># mine c tbl" "row_key sc row = k" using assms(2) rows_at_in [of row sc c tbl k] by simp_all
  show ?thesis
    using delete_row_views [OF assms(1) row(1)] assms row(2) delete_row_ids [OF assms(1)]
    by (simp add: row_to_def same_else_def rows_at_def del: mset_filter)
qed

lemma append_row_to:
  assumes "rows_at sc c tbl k = {#}" "r_Id row \<notin> r_Id ` set tbl" "r_Id row \<noteq> []" "r_ClusterId row = c" "row_key sc row = k"
  shows "row_to sc c k tbl (tbl @ [row]) {#row#}"
  using assms by (auto simp: row_to_def same_else_def rows_at_def mine_def others_def ids_ok_def)

lemma set_status_row:
  assumes "db_ok e" "ids_ok tbl" "rows_at sc c tbl k = {#row#}"
  shows "set_status e (r_Id row) st tbl = save_row (row\<lparr>r_Status := st\<rparr>) tbl"
proof -
  have "row \<in> set tbl" using assms(3) rows_at_in [of row sc c tbl k] by (simp add: mine_in)
  then have "r = row" if "r \<in> set tbl" "r_Id r = r_Id row" for r
    using assms(2) that by (auto simp: ids_ok_def distinct_map inj_on_def)
  then show ?thesis using assms(1) by (auto simp: set_status_def save_row_def db_ok_def intro!: map_cong)
qed

lemma status_key [simp]: "row_key sc (row\<lparr>r_Status := st\<rparr>) = row_key sc row" "row_version (row\<lparr>r_Status := st\<rparr>) = row_version row"
  "synced_row sc obj (row\<lparr>r_Status := st\<rparr>) = synced_row sc obj row"
  by (simp_all add: row_key_def row_ns_def row_version_def synced_row_def split: option.split)

lemma set_status_to:
  assumes "db_ok e" "ids_ok tbl" "rows_at sc c tbl k = {#row#}"
  shows "row_to sc c k tbl (set_status e (r_Id row) st tbl) {#row\<lparr>r_Status := st\<rparr>#}"
  unfolding set_status_row [OF assms]
proof (rule save_row_to [OF assms(2,3)])
  have "row \<in># rows_at sc c tbl k" using assms(3) by simp
  then show "row_key sc (row\<lparr>r_Status := st\<rparr>) = k" "r_ClusterId (row\<lparr>r_Status := st\<rparr>) = c" by (auto simp: rows_at_in mine_in)
qed simp

lemma row_by_id_row:
  assumes "ids_ok tbl" "rows_at sc c tbl k = {#row#}"
  shows "row_by_id (r_Id row) tbl = Some row"
proof -
  have row: "row \<in> set tbl" using assms(2) rows_at_in [of row sc c tbl k] by (simp add: mine_in)
  then obtain r where "find (\<lambda>r. r_Id r = r_Id row) tbl = Some r" by (cases "find (\<lambda>r. r_Id r = r_Id row) tbl") (auto simp: find_None_iff)
  moreover from this have "r = row" using assms(1) row by (auto simp: find_Some_iff ids_ok_def distinct_map inj_on_def)
  ultimately show ?thesis by (simp add: row_by_id_def)
qed

lemma API_Update_to:
  assumes "db_ok e" "ids_ok tbl" "rows_at (se_scope e) c tbl k = {#row#}" "object_key (se_scope e) obj = k" "ns_found (se_scope e) obj"
  shows "row_version row \<le> ParseInt (ro_ResourceVersion obj) \<Longrightarrow>
      \<exists>tbl'. API_UpdateFromRemoteObject e row obj tbl = (tbl', None) \<and> row_to (se_scope e) c k tbl tbl' {#synced_row (se_scope e) obj row#}"
    "\<not> row_version row \<le> ParseInt (ro_ResourceVersion obj) \<Longrightarrow> \<exists>err. API_UpdateFromRemoteObject e row obj tbl = (tbl, Some err)"
proof -
  have "row \<in># rows_at (se_scope e) c tbl k" using assms(3) by simp
  then have "r_ClusterId row = c" by (simp add: rows_at_in mine_in)
  then show "row_version row \<le> ParseInt (ro_ResourceVersion obj) \<Longrightarrow>
      \<exists>tbl'. API_UpdateFromRemoteObject e row obj tbl = (tbl', None) \<and> row_to (se_scope e) c k tbl tbl' {#synced_row (se_scope e) obj row#}"
    using API_Update_ok [OF assms(1) _ assms(5)] save_row_to [OF assms(2,3), of "synced_row (se_scope e) obj row"] assms(4) by simp
qed (simp add: API_Update_stale not_le)


section \<open>What requests leave of a row\<close>

lemma row_to_trans: "row_to sc c k t1 t2 R \<Longrightarrow> row_to sc c k t2 t3 R' \<Longrightarrow> row_to sc c k t1 t3 R'"
  unfolding row_to_def by (blast intro: same_else_trans)

lemma row_to_ids: "row_to sc c k t1 t2 R \<Longrightarrow> ids_ok t1 \<Longrightarrow> ids_ok t2 \<and> rows_at sc c t2 k = R"
  by (simp add: row_to_def same_else_def)

lemma Get_status [simp]: "obj_GetRemoteObject e rm cli (row\<lparr>r_Status := st\<rparr>) = obj_GetRemoteObject e rm cli row"
  by (simp add: obj_GetRemoteObject_def Cluster_GetRemoteObject_def NS_GetRemoteObject_def split: sum.split)

text \<open>After a request the row has the failure as its status, or it follows an object that was read.\<close>

definition read_ok :: "sync_env \<Rightarrow> remote_env \<Rightarrow> string \<times> string \<Rightarrow> client \<Rightarrow> cluster_row \<Rightarrow> bool" where
  "read_ok e rm k cli row \<longleftrightarrow>
     (\<forall>obj. obj_GetRemoteObject e rm cli row = Inr obj \<longrightarrow> object_key (se_scope e) obj = k \<and> ns_found (se_scope e) obj)"

definition left_by :: "sync_env \<Rightarrow> remote_env \<Rightarrow> client \<Rightarrow> string \<Rightarrow> cluster_row \<Rightarrow> cluster_row \<Rightarrow> bool" where
  "left_by e rm cli st row row' \<longleftrightarrow> row' = row\<lparr>r_Status := st\<rparr> \<or>
     (\<exists>obj. obj_GetRemoteObject e rm cli row = Inr obj \<and> row_version row \<le> ParseInt (ro_ResourceVersion obj) \<and> row' = synced_row (se_scope e) obj row)"

lemma read_ok_status [simp]: "read_ok e rm k cli (row\<lparr>r_Status := st\<rparr>) = read_ok e rm k cli row"
  "left_by e rm cli st (row\<lparr>r_Status := st'\<rparr>) row' = left_by e rm cli st row row'"
  by (simp_all add: read_ok_def left_by_def)

text \<open>A job that starts with a status, ends in another on failure and else has the row follow what was read last.\<close>

lemma job_to:
  assumes "db_ok e" "ids_ok tbl" "rows_at (se_scope e) c tbl k = {#row#}" "read_ok e rm k cli row"
    and "tbl' = (case obj_GetRemoteObject e rm cli row of
        Inl err \<Rightarrow> set_status e (r_Id row) st tbl
      | Inr obj \<Rightarrow> (case API_UpdateFromRemoteObject e row obj tbl of (t, None) \<Rightarrow> t | (t, Some _) \<Rightarrow> set_status e (r_Id row) st t))"
  shows "\<exists>row'. row_to (se_scope e) c k tbl tbl' {#row'#} \<and> left_by e rm cli st row row'"
proof (cases "\<exists>obj. obj_GetRemoteObject e rm cli row = Inr obj \<and> row_version row \<le> ParseInt (ro_ResourceVersion obj)")
  case True
  then obtain obj where obj: "obj_GetRemoteObject e rm cli row = Inr obj" "row_version row \<le> ParseInt (ro_ResourceVersion obj)" by blast
  with assms(4) have "object_key (se_scope e) obj = k" "ns_found (se_scope e) obj" by (auto simp: read_ok_def)
  from API_Update_to(1) [OF assms(1-3) this obj(2)] obj assms(5) show ?thesis by (auto simp: left_by_def)
next
  case False
  have "tbl' = set_status e (r_Id row) st tbl"
  proof (cases "obj_GetRemoteObject e rm cli row")
    case (Inr obj)
    with False obtain err where "API_UpdateFromRemoteObject e row obj tbl = (tbl, Some err)" using API_Update_stale [of obj row e tbl] by (auto simp: not_le)
    with Inr assms(5) show ?thesis by simp
  qed (use assms(5) in simp)
  then show ?thesis using set_status_to [OF assms(1-3), of st] by (auto simp: left_by_def)
qed

lemma run_sync_to:
  assumes "db_ok e" "ids_ok tbl" "rows_at (se_scope e) c tbl k = {#row#}" "read_ok e rm k cli row"
  shows "\<exists>row'. row_to (se_scope e) c k tbl (run_sync e rm cli (r_Id row) tbl) {#row'#} \<and>
    left_by e rm cli ClusterResourceStatusSyncFail row row'"
proof -
  let ?row = "row\<lparr>r_Status := ClusterResourceStatusSyncing\<rparr>" and ?t = "set_status e (r_Id row) ClusterResourceStatusSyncing tbl"
  have t: "row_to (se_scope e) c k tbl ?t {#?row#}" by (rule set_status_to [OF assms(1-3)])
  then have ids: "ids_ok ?t" "rows_at (se_scope e) c ?t k = {#?row#}" using row_to_ids assms(2) by blast+
  have "run_sync e rm cli (r_Id row) tbl = (case obj_GetRemoteObject e rm cli ?row of
        Inl err \<Rightarrow> set_status e (r_Id ?row) ClusterResourceStatusSyncFail ?t
      | Inr obj \<Rightarrow> (case API_UpdateFromRemoteObject e ?row obj ?t of (t, None) \<Rightarrow> t | (t, Some _) \<Rightarrow> set_status e (r_Id ?row) ClusterResourceStatusSyncFail t))"
    using row_by_id_row [OF ids] by (simp add: run_sync_def PerformSyncResource_def Let_def split: sum.split prod.split option.split)
  from job_to [OF assms(1) ids _ this] assms(4) t show ?thesis by (auto intro: row_to_trans)
qed

lemma Get_synced:
  assumes "object_key (se_scope e) obj = row_key (se_scope e) row"
  shows "obj_GetRemoteObject e rm cli (synced_row (se_scope e) obj row) = obj_GetRemoteObject e rm cli row"
proof -
  have "r_Name (synced_row (se_scope e) obj row) = r_Name row"
    using assms by (simp add: synced_row_def object_key_def row_key_def)
  moreover have "se_scope e \<noteq> None \<Longrightarrow> r_NamespaceId (synced_row (se_scope e) obj row) = r_NamespaceId row"
    using assms by (auto simp: synced_row_def object_key_def row_key_def row_ns_def)
  ultimately show ?thesis by (auto simp: obj_GetRemoteObject_def Cluster_GetRemoteObject_def NS_GetRemoteObject_def split: sum.split)
qed


section \<open>What an event leaves of a row\<close>

fun ev_obj :: "cluster_event \<Rightarrow> remote_object" where
  "ev_obj (OnAdd obj) = obj"
| "ev_obj (OnUpdate _ obj) = obj"
| "ev_obj (OnDelete obj) = obj"

text \<open>The object there is after an event.\<close>

fun ev_result :: "cluster_event \<Rightarrow> remote_object option" where
  "ev_result (OnDelete _) = None"
| "ev_result ev = Some (ev_obj ev)"

definition ver :: "remote_object \<Rightarrow> int" where
  "ver obj = ParseInt (ro_ResourceVersion obj)"

definition handled :: "scope \<Rightarrow> cluster_event \<Rightarrow> cluster_row multiset \<Rightarrow> cluster_row multiset \<Rightarrow> bool" where
  "handled sc ev R R' \<longleftrightarrow>
     (case ev_result ev of
        None \<Rightarrow> R' = filter_mset failed_row R
      | Some obj \<Rightarrow> (R = {#} \<longrightarrow> (\<exists>row. R' = {#row#} \<and> row_view sc row = object_view sc obj)) \<and>
          (\<forall>row. R = {#row#} \<longrightarrow> R' = (if row_version row \<le> ver obj then {#synced_row sc obj row#} else R)))"

lemma size_at_most_one: "size R \<le> 1 \<Longrightarrow> R = {#} \<or> (\<exists>x. R = {#x#})"
  by (cases R) auto

lemma seen_to:
  assumes "db_ok e" "c \<noteq> []" "\<forall>r. se_owned e r" "ids_ok tbl" "size (rows_at (se_scope e) c tbl k) \<le> 1"
    and "object_key (se_scope e) obj = k" "ns_found (se_scope e) obj" "0 \<le> ver obj" "ev_result ev = Some obj"
  shows "\<exists>R'. row_to (se_scope e) c k tbl (fst (processCreateOrUpdateByRemoteObject e c obj tbl)) R' \<and> handled (se_scope e) ev (rows_at (se_scope e) c tbl k) R'"
  using size_at_most_one [OF assms(5)]
proof (elim disjE exE)
  assume none: "rows_at (se_scope e) c tbl k = {#}"
  then have fresh: "\<forall>r \<in># mine c tbl. row_key (se_scope e) r \<noteq> object_key (se_scope e) obj"
    unfolding assms(6) using rows_at_in [of _ "se_scope e" c tbl k] by auto
  obtain t row where t: "NewFromRemoteObject e c obj tbl = (t, None)" "ids_ok t"
      "mine c t = add_mset row (mine c tbl)" "others c t = others c tbl" "row_view (se_scope e) row = object_view (se_scope e) obj"
    by (rule NewFrom_ok [OF assms(1,2,4) fresh _ assms(7)]) (use assms(8) in \<open>simp add: ver_def\<close>)
  have "fst (processCreateOrUpdateByRemoteObject e c obj tbl) = t"
    using t(1) LocalExist_lookup(1) [OF assms(7) Fetch_none [OF assms(1,2,7) fresh]]
    by (simp add: processCreateOrUpdateByRemoteObject_def onRemoteObjectCreate_def)
  moreover have "row_key (se_scope e) row = k" using t(5) assms(6) by (simp add: row_view_def object_view_def)
  then have "row_to (se_scope e) c k tbl t {#row#}" using t(2-4) none by (simp add: row_to_def same_else_def rows_at_def)
  ultimately show ?thesis using t(5) none assms(9) by (auto simp: handled_def)
next
  fix row
  assume one: "rows_at (se_scope e) c tbl k = {#row#}"
  have "IsRemoteObjectLocalExist e c obj tbl = Inr (Some row)"
    using LocalExist_lookup(2) [OF assms(7) Fetch_one [OF assms(1,2) _ assms(7)]] one assms(3,6) by (simp add: rows_at_def)
  then have "fst (processCreateOrUpdateByRemoteObject e c obj tbl) = fst (API_UpdateFromRemoteObject e row obj tbl)"
    by (simp add: processCreateOrUpdateByRemoteObject_def onRemoteObjectUpdate_def SyncUpdatedClusterResource_def split: prod.split)
  moreover have "row_to (se_scope e) c k tbl tbl {#row#}" using one by (simp add: row_to_def)
  ultimately show ?thesis
    using API_Update_to [OF assms(1,4) one assms(6,7)] one assms(9) by (auto simp: handled_def ver_def)
qed

lemma gone_to:
  assumes "db_ok e" "c \<noteq> []" "\<forall>r. se_owned e r" "ids_ok tbl" "size (rows_at (se_scope e) c tbl k) \<le> 1"
    and "object_key (se_scope e) obj = k" "ns_found (se_scope e) obj"
  shows "row_to (se_scope e) c k tbl (fst (processRemoteObjectDelete e c obj tbl)) (filter_mset failed_row (rows_at (se_scope e) c tbl k))"
proof -
  have ns: "(case se_scope e of None \<Rightarrow> Inr [] | Some ns \<Rightarrow> ns (ro_Namespace obj)) = Inr (ns_of (se_scope e) obj)"
    using assms(7) by (auto simp: ns_of_def ns_found_def split: option.splits)
  show ?thesis using size_at_most_one [OF assms(5)]
  proof (elim disjE exE)
    assume none: "rows_at (se_scope e) c tbl k = {#}"
    then have "\<forall>r \<in># mine c tbl. row_key (se_scope e) r \<noteq> object_key (se_scope e) obj"
      unfolding assms(6) using rows_at_in [of _ "se_scope e" c tbl k] by auto
    from Fetch_none [OF assms(1,2,7) this] ns have "processRemoteObjectDelete e c obj tbl = (tbl, None)"
      by (simp add: processRemoteObjectDelete_def lookup_row_def)
    then show ?thesis using none by (simp add: row_to_def)
  next
    fix row
    assume one: "rows_at (se_scope e) c tbl k = {#row#}"
    then have "lookup_row e c obj tbl = Inr row" using Fetch_one [OF assms(1,2) _ assms(7)] assms(3,6) by (simp add: rows_at_def)
    then have "fst (processRemoteObjectDelete e c obj tbl) = (if failed_row row then tbl else filter (\<lambda>r. r_Id r \<noteq> r_Id row) tbl)"
      using ns assms(1)
      by (auto simp: processRemoteObjectDelete_def lookup_row_def OnRemoteObjectDelete_def SyncRemovedClusterResource_def failed_row_def RealDelete_def db_ok_def)
    then show ?thesis using delete_row_to [OF assms(4) one] one by (auto simp: row_to_def)
  qed
qed

lemma handle_to:
  assumes "db_ok e" "c \<noteq> []" "\<forall>r. se_owned e r" "ids_ok tbl" "size (rows_at (se_scope e) c tbl k) \<le> 1"
    and "object_key (se_scope e) (ev_obj ev) = k" "ns_found (se_scope e) (ev_obj ev)" "0 \<le> ver (ev_obj ev)"
  shows "\<exists>R'. row_to (se_scope e) c k tbl (handle_event True e c ev tbl) R' \<and> handled (se_scope e) ev (rows_at (se_scope e) c tbl k) R'"
proof (cases ev)
  case (OnDelete obj)
  then show ?thesis using gone_to [OF assms(1-5), of obj] assms(6,7) by (auto simp: eventHandler_run_def handled_def)
qed (use seen_to [OF assms(1-8), of ev] in \<open>auto simp: eventHandler_run_def\<close>)

section \<open>Late answers\<close>

text \<open>A task keeps the row it was given in memory while it talks to the cluster, and \<open>UpdateFromRemoteObject\<close> compares and stores against
  that copy: the fields that differ from the copy go to the row with its id, whatever that row holds by then.\<close>

definition store_changes :: "cluster_row \<Rightarrow> cluster_row \<Rightarrow> cluster_row \<Rightarrow> cluster_row" where
  "store_changes old new r = r\<lparr>
     r_Name := (if r_Name new = r_Name old then r_Name r else r_Name new),
     r_Status := (if r_Status new = r_Status old then r_Status r else r_Status new),
     r_ExternalId := (if r_ExternalId new = r_ExternalId old then r_ExternalId r else r_ExternalId new),
     r_ResourceVersion := (if r_ResourceVersion new = r_ResourceVersion old then r_ResourceVersion r else r_ResourceVersion new),
     r_NamespaceId := (if r_NamespaceId new = r_NamespaceId old then r_NamespaceId r else r_NamespaceId new)\<rparr>"

definition API_Update_late :: "sync_env \<Rightarrow> cluster_row \<Rightarrow> remote_object \<Rightarrow> table \<Rightarrow> table \<times> string option" where
  "API_Update_late e snap obj tbl =
     (case API_UpdateFromRemoteObject e snap obj [snap] of
        (_, Some err) \<Rightarrow> (tbl, Some err)
      | (mem, None) \<Rightarrow>
          (let new = hd mem in
           if new = snap then (tbl, None)
           else if r_Id snap \<notin> r_Id ` set tbl then (tbl, Some ''Update from remote object error: sql: no rows in result set'')
           else (map (\<lambda>r. if r_Id r = r_Id snap then store_changes snap new r else r) tbl, None)))"

lemma store_changes_self: "r_Id new = r_Id old \<Longrightarrow> r_ClusterId new = r_ClusterId old \<Longrightarrow> store_changes old new old = new"
  by (simp add: store_changes_def)

lemma API_Update_cases:
  assumes "db_ok e" "ns_found (se_scope e) obj"
  shows "row_version snap \<le> ver_of \<Longrightarrow> ver_of = ParseInt (ro_ResourceVersion obj) \<Longrightarrow>
      API_UpdateFromRemoteObject e snap obj tbl = (save_row (synced_row (se_scope e) obj snap) tbl, None)"
    "\<not> row_version snap \<le> ParseInt (ro_ResourceVersion obj) \<Longrightarrow> \<exists>err. API_UpdateFromRemoteObject e snap obj tbl = (tbl, Some err)"
  using API_Update_ok [OF assms(1) _ assms(2)] API_Update_stale [of obj snap e tbl] by (simp_all add: not_le)

text \<open>While the row is still the one in memory this is the update of \<open>ClusterSync\<close>.\<close>

lemma API_Update_prompt:
  assumes "db_ok e" "ids_ok tbl" "snap \<in> set tbl" "ns_found (se_scope e) obj"
  shows "API_Update_late e snap obj tbl = API_UpdateFromRemoteObject e snap obj tbl \<or>
    (\<exists>err err'. API_Update_late e snap obj tbl = (tbl, Some err) \<and> API_UpdateFromRemoteObject e snap obj tbl = (tbl, Some err'))"
proof (cases "row_version snap \<le> ParseInt (ro_ResourceVersion obj)")
  case True
  let ?new = "synced_row (se_scope e) obj snap"
  have one: "r = snap" if "r \<in> set tbl" "r_Id r = r_Id snap" for r
    using assms(2,3) that by (auto simp: ids_ok_def distinct_map inj_on_def)
  have new: "r_Id ?new = r_Id snap" "r_ClusterId ?new = r_ClusterId snap" by (simp_all add: synced_row_def)
  have "map (\<lambda>r. if r_Id r = r_Id snap then store_changes snap ?new r else r) tbl = save_row ?new tbl"
    unfolding save_row_def new(1) by (intro map_cong refl) (auto dest!: one simp: store_changes_self new)
  moreover have "?new = snap \<Longrightarrow> save_row ?new tbl = tbl"
    unfolding save_row_def by (intro map_idI) (auto dest!: one)
  ultimately show ?thesis
    using API_Update_cases(1) [OF assms(1,4) True refl] assms(3)
    by (cases "?new = snap") (simp_all add: API_Update_late_def Let_def, auto simp: save_row_def)
next
  case False
  from API_Update_cases(2) [OF assms(1,4) this, of tbl] API_Update_cases(2) [OF assms(1,4) this, of "[snap]"]
  show ?thesis by (auto simp: API_Update_late_def)
qed

section \<open>Worlds\<close>

text \<open>The tasks of requests. \<open>OnInit\<close> sets the status of the row and hands the row it has in memory to a worker; the worker asks the
  cluster and then stores what was answered; the next stage of the task ends it. A job is a task at one of these points; what others do comes
  between any two of them. \<open>Answered\<close> and \<open>Deleted\<close> are jobs that have the answer of the cluster and have not stored it yet.\<close>

datatype job_kind = KCreate | KUpdate | KDelete | KSync

fun begin_status :: "job_kind \<Rightarrow> string" where
  "begin_status KCreate = ClusterResourceStatusCreating"
| "begin_status KUpdate = ClusterResourceStatusUpdating"
| "begin_status KDelete = ClusterResourceStatusDeleting"
| "begin_status KSync = ClusterResourceStatusSyncing"

fun fail_status :: "job_kind \<Rightarrow> string" where
  "fail_status KCreate = ClusterResourceStatusCreateFail"
| "fail_status KUpdate = ClusterResourceStatusUpdateFail"
| "fail_status KDelete = ClusterResourceStatusDeleteFail"
| "fail_status KSync = ClusterResourceStatusSyncFail"

datatype job =
  Queued job_kind
| Asked job_kind cluster_row
| Changed cluster_row remote_object
| Stored cluster_row
| Answered job_kind cluster_row remote_object
| Deleted cluster_row
| Failing job_kind

text \<open>The row a job has in memory.\<close>

fun job_row :: "job \<Rightarrow> cluster_row option" where
  "job_row (Asked _ row) = Some row"
| "job_row (Changed row _) = Some row"
| "job_row (Stored row) = Some row"
| "job_row (Answered _ row _) = Some row"
| "job_row (Deleted row) = Some row"
| "job_row _ = None"

text \<open>The row of a job that has its answer.\<close>

fun answered_row :: "job \<Rightarrow> cluster_row option" where
  "answered_row (Answered _ row _) = Some row"
| "answered_row (Deleted row) = Some row"
| "answered_row _ = None"

text \<open>What the jobs do to the table: the table and the job that is left.\<close>

definition job_init :: "sync_env \<Rightarrow> job_kind \<Rightarrow> string \<Rightarrow> table \<Rightarrow> table \<times> job option" where
  "job_init e kind i tbl =
     (let tbl1 = set_status e i (begin_status kind) tbl in (tbl1, map_option (Asked kind) (row_by_id i tbl1)))"

definition job_commit :: "sync_env \<Rightarrow> remote_env \<Rightarrow> job_kind \<Rightarrow> cluster_row \<Rightarrow> remote_object \<Rightarrow> table \<Rightarrow> table \<times> job option" where
  "job_commit e rm kind snap obj tbl =
     (case API_Update_late e snap obj tbl of
        (tbl', Some _) \<Rightarrow> (tbl', Some (Failing kind))
      | (tbl', None) \<Rightarrow> (tbl', if kind = KCreate then Some (if rm_startSync rm = None then Queued KSync else Failing KCreate) else None))"

definition job_remove :: "sync_env \<Rightarrow> string \<Rightarrow> table \<Rightarrow> table \<times> job option" where
  "job_remove e i tbl =
     (case row_by_id i tbl of
        None \<Rightarrow> (tbl, None)
      | Some row \<Rightarrow> (case RealDelete e row tbl of (tbl', None) \<Rightarrow> (tbl', None) | (tbl', Some _) \<Rightarrow> (tbl', Some (Failing KDelete))))"

definition job_fail :: "sync_env \<Rightarrow> job_kind \<Rightarrow> string \<Rightarrow> table \<Rightarrow> table" where
  "job_fail e kind i tbl = set_status e i (fail_status kind) tbl"

text \<open>What the jobs ask the cluster: \<open>CreateRemoteObject\<close> up to the POST, \<open>UpdateRemoteObject\<close> up to the PUT, and the reading of the object.\<close>

definition job_post :: "remote_env \<Rightarrow> client \<Rightarrow> cluster_row \<Rightarrow> string + remote_object" where
  "job_post rm cli row =
     (case cli of
        Inl err \<Rightarrow> Inl (''get cluster client: '' @ err)
      | Inr kb \<Rightarrow>
     (case rm_newCreate rm row of
        Inl err \<Rightarrow> Inl (''NewRemoteObjectForCreate: '' @ err)
      | Inr body \<Rightarrow>
     (case handler_CreateV2 kb (rm_kind rm) (ro_Namespace body) body of
        Inl err \<Rightarrow> Inl (''CreateRemoteObject: '' @ err)
      | Inr obj \<Rightarrow> Inr obj)))"

definition job_change :: "sync_env \<Rightarrow> remote_env \<Rightarrow> client \<Rightarrow> cluster_row \<Rightarrow> job" where
  "job_change e rm cli row =
     (case cli of
        Inl _ \<Rightarrow> Failing KUpdate
      | Inr _ \<Rightarrow>
     (case obj_GetRemoteObject e rm cli row of
        Inl _ \<Rightarrow> Failing KUpdate
      | Inr extObj \<Rightarrow> (case rm_newUpdate rm extObj of Inl _ \<Rightarrow> Failing KUpdate | Inr extObj2 \<Rightarrow> Changed row extObj2)))"

definition job_put :: "remote_env \<Rightarrow> client \<Rightarrow> cluster_row \<Rightarrow> remote_object \<Rightarrow> remote_object option \<times> job" where
  "job_put rm cli row extObj =
     (case cli of
        Inl _ \<Rightarrow> (None, Failing KUpdate)
      | Inr kb \<Rightarrow>
     (case handler_UpdateV2 kb (rm_kind rm) extObj of
        (stored, Inl _) \<Rightarrow> (stored, Failing KUpdate)
      | (stored, Inr _) \<Rightarrow> (stored, Stored row)))"

definition job_read :: "sync_env \<Rightarrow> remote_env \<Rightarrow> client \<Rightarrow> job_kind \<Rightarrow> cluster_row \<Rightarrow> job" where
  "job_read e rm cli kind row =
     (case obj_GetRemoteObject e rm cli row of Inl _ \<Rightarrow> Failing kind | Inr obj \<Rightarrow> Answered kind row obj)"

text \<open>The table, the objects of the cluster under their keys, the events that were not handled yet, the last version the
  cluster has given, and the jobs with the ids of their rows.\<close>

record world =
  wo_rows :: table
  wo_objs :: "string \<times> string \<rightharpoonup> remote_object"
  wo_queue :: "cluster_event list"
  wo_rev :: int
  wo_jobs :: "(string \<times> job) list"

definition ev_key :: "scope \<Rightarrow> cluster_event \<Rightarrow> string \<times> string" where
  "ev_key sc ev = object_key sc (ev_obj ev)"

definition pend :: "scope \<Rightarrow> world \<Rightarrow> string \<times> string \<Rightarrow> cluster_event list" where
  "pend sc w k = filter (\<lambda>ev. ev_key sc ev = k) (wo_queue w)"

text \<open>What may happen in the cluster, and how it is reported. Versions never decrease.\<close>

definition possible :: "scope \<Rightarrow> world \<Rightarrow> cluster_event \<Rightarrow> bool" where
  "possible sc w ev \<longleftrightarrow>
     (case ev of
        OnAdd obj \<Rightarrow> wo_objs w (object_key sc obj) = None \<and> ns_found sc obj \<and> wo_rev w \<le> ver obj
      | OnUpdate old obj \<Rightarrow> wo_objs w (object_key sc old) = Some old \<and> ro_Name obj = ro_Name old \<and> ro_Namespace obj = ro_Namespace old \<and> wo_rev w \<le> ver obj
      | OnDelete obj \<Rightarrow> wo_objs w (object_key sc obj) = Some obj)"

definition report :: "scope \<Rightarrow> world \<Rightarrow> cluster_event \<Rightarrow> world" where
  "report sc w ev = w\<lparr>wo_objs := (wo_objs w)(ev_key sc ev := ev_result ev), wo_queue := wo_queue w @ [ev],
     wo_rev := (case ev_result ev of None \<Rightarrow> wo_rev w | Some obj \<Rightarrow> ver obj)\<rparr>"

text \<open>A cache of the informers is no newer than the cluster, and where no event is pending it is up to date. The handler
  serves the kind of the manager.\<close>

definition cache_ok :: "sync_env \<Rightarrow> remote_env \<Rightarrow> world \<Rightarrow> client \<Rightarrow> bool" where
  "cache_ok e rm w cli \<longleftrightarrow>
     (\<forall>kb. cli = Inr kb \<longrightarrow> kb_kinds kb (rm_kind rm) = Some (se_scope e \<noteq> None) \<and>
        (\<forall>obj. (rm_kind rm, obj) \<in> set (kb_cache kb) \<longrightarrow>
           ns_found (se_scope e) obj \<and> ver obj \<le> wo_rev w \<and> (\<forall>now. wo_objs w (object_key (se_scope e) obj) = Some now \<longrightarrow> ver obj \<le> ver now) \<and>
           (pend (se_scope e) w (object_key (se_scope e) obj) = [] \<longrightarrow> wo_objs w (object_key (se_scope e) obj) = Some obj)))"

text \<open>The record of a namespace is found by its id and by its name.\<close>

definition namespaces_agree :: "sync_env \<Rightarrow> remote_env \<Rightarrow> bool" where
  "namespaces_agree e rm \<longleftrightarrow> (\<forall>i n ns. rm_namespace rm i = Inr n \<and> se_scope e = Some ns \<longrightarrow> ns n = Inr i)"

text \<open>A step of a job: the world and the job after it. What it stores or deletes in the cluster is reported as any other change.\<close>

inductive job_step :: "sync_env \<Rightarrow> remote_env \<Rightarrow> string \<Rightarrow> job \<Rightarrow> world \<Rightarrow> world \<Rightarrow> job option \<Rightarrow> bool" for e rm i where
  init: "job_init e kind i (wo_rows w) = (tbl, j) \<Longrightarrow> job_step e rm i (Queued kind) w (w\<lparr>wo_rows := tbl\<rparr>) j"
| not_posted: "job_post rm cli row = Inl err \<Longrightarrow> job_step e rm i (Asked KCreate row) w w (Some (Failing KCreate))"
| posted: "job_post rm cli row = Inr obj \<Longrightarrow> possible (se_scope e) w (OnAdd obj) \<Longrightarrow> object_key (se_scope e) obj = row_key (se_scope e) row \<Longrightarrow>
    job_step e rm i (Asked KCreate row) w (report (se_scope e) w (OnAdd obj)) (Some (Answered KCreate row obj))"
| change: "job_step e rm i (Asked KUpdate row) w w (Some (job_change e rm cli row))"
| not_put: "job_put rm cli row obj = (None, j) \<Longrightarrow> job_step e rm i (Changed row obj) w w (Some j)"
| put: "job_put rm cli row obj = (Some stored, j) \<Longrightarrow> possible (se_scope e) w (OnUpdate old stored) \<Longrightarrow>
    job_step e rm i (Changed row obj) w (report (se_scope e) w (OnUpdate old stored)) (Some j)"
| reread: "cache_ok e rm w cli \<Longrightarrow> job_step e rm i (Stored row) w w (Some (job_read e rm cli KUpdate row))"
| read: "cache_ok e rm w cli \<Longrightarrow> job_step e rm i (Asked KSync row) w w (Some (job_read e rm cli KSync row))"
| not_deleted: "DeleteRemoteObject e rm cli row = (False, Some err) \<Longrightarrow> job_step e rm i (Asked KDelete row) w w (Some (Failing KDelete))"
| not_there: "DeleteRemoteObject e rm cli row = (False, None) \<Longrightarrow> wo_objs w (row_key (se_scope e) row) = None \<Longrightarrow>
    job_step e rm i (Asked KDelete row) w w (Some (Deleted row))"
| deleted: "DeleteRemoteObject e rm cli row = (True, err) \<Longrightarrow> possible (se_scope e) w ev \<Longrightarrow> ev_key (se_scope e) ev = row_key (se_scope e) row \<Longrightarrow>
    job_step e rm i (Asked KDelete row) w (report (se_scope e) w ev) (Some (Deleted row))"
| commit: "job_commit e rm kind row obj (wo_rows w) = (tbl, j) \<Longrightarrow> job_step e rm i (Answered kind row obj) w (w\<lparr>wo_rows := tbl\<rparr>) j"
| remove: "job_remove e i (wo_rows w) = (tbl, j) \<Longrightarrow> job_step e rm i (Deleted row) w (w\<lparr>wo_rows := tbl\<rparr>) j"
| fail: "job_step e rm i (Failing kind) w (w\<lparr>wo_rows := job_fail e kind i (wo_rows w)\<rparr>) None"

text \<open>The steps of the world. A creation inserts its row and is queued, another request is queued for a row there is; the jobs advance in any order.\<close>

inductive world_step :: "sync_env \<Rightarrow> string \<Rightarrow> remote_env \<Rightarrow> world \<Rightarrow> world \<Rightarrow> bool" for e c rm where
  by_cluster: "possible (se_scope e) w ev \<Longrightarrow> world_step e c rm w (report (se_scope e) w ev)"
| by_handler: "wo_queue w = ev # q \<Longrightarrow> world_step e c rm w (w\<lparr>wo_rows := handle_event True e c ev (wo_rows w), wo_queue := q\<rparr>)"
| submit_create: "r_ClusterId row = c \<Longrightarrow> r_Id row \<notin> r_Id ` set (wo_rows w) \<Longrightarrow> r_Id row \<noteq> [] \<Longrightarrow> r_ResourceVersion row = [] \<Longrightarrow>
    rows_at (se_scope e) c (wo_rows w) (row_key (se_scope e) row) = {#} \<Longrightarrow>
    world_step e c rm w (w\<lparr>wo_rows := wo_rows w @ [row], wo_jobs := wo_jobs w @ [(r_Id row, Queued KCreate)]\<rparr>)"
| submit: "row \<in># mine c (wo_rows w) \<Longrightarrow> kind \<noteq> KCreate \<Longrightarrow> world_step e c rm w (w\<lparr>wo_jobs := wo_jobs w @ [(r_Id row, Queued kind)]\<rparr>)"
| by_job: "wo_jobs w = js1 @ (i, j) # js2 \<Longrightarrow> job_step e rm i j w w' j' \<Longrightarrow>
    world_step e c rm w (w'\<lparr>wo_jobs := js1 @ (case j' of None \<Rightarrow> [] | Some j2 \<Rightarrow> [(i, j2)]) @ js2\<rparr>)"

text \<open>A step is orderly if it handles no event of an object while a job has its answer from the cluster and has not stored it yet, and if
  no new row gets the id of a job's row.\<close>

definition orderly :: "scope \<Rightarrow> world \<Rightarrow> world \<Rightarrow> bool" where
  "orderly sc w w' \<longleftrightarrow>
     (\<forall>(i, j) \<in> set (wo_jobs w). \<forall>row. answered_row j = Some row \<longrightarrow> length (pend sc w (row_key sc row)) \<le> length (pend sc w' (row_key sc row))) \<and>
     (\<forall>r \<in> set (wo_rows w'). r_Id r \<notin> r_Id ` set (wo_rows w) \<longrightarrow> r_Id r \<notin> fst ` set (wo_jobs w))"

abbreviation orderly_step :: "sync_env \<Rightarrow> string \<Rightarrow> remote_env \<Rightarrow> world \<Rightarrow> world \<Rightarrow> bool" where
  "orderly_step e c rm w w' \<equiv> world_step e c rm w w' \<and> orderly (se_scope e) w w'"

text \<open>A step of a job brings it nearer to its end.\<close>

fun job_rank :: "job \<Rightarrow> nat" where
  "job_rank (Queued kind) = (if kind = KCreate then 9 else 6)"
| "job_rank (Asked kind _) = (if kind = KCreate then 8 else 5)"
| "job_rank (Changed _ _) = 4"
| "job_rank (Stored _) = 3"
| "job_rank (Answered kind _ _) = (if kind = KCreate then 7 else 2)"
| "job_rank (Deleted _) = 2"
| "job_rank (Failing _) = 1"

lemma job_step_rank: "job_step e rm i j w w' j' \<Longrightarrow> j' = Some j2 \<Longrightarrow> job_rank j2 < job_rank j"
  by (induction rule: job_step.induct)
    (auto simp: job_init_def job_change_def job_put_def job_read_def job_commit_def job_remove_def Let_def
      split: sum.splits option.splits prod.splits if_splits)

section \<open>The invariant\<close>

definition follows :: "scope \<Rightarrow> cluster_row \<Rightarrow> remote_object \<Rightarrow> bool" where
  "follows sc row obj \<longleftrightarrow> row_key sc row = object_key sc obj \<and> r_ExternalId row = ro_UID obj \<and> r_ResourceVersion row = ro_ResourceVersion obj"

definition agrees :: "scope \<Rightarrow> cluster_row \<Rightarrow> remote_object \<Rightarrow> bool" where
  "agrees sc row obj \<longleftrightarrow> row_key sc row = object_key sc obj \<and> r_ExternalId row = ro_UID obj \<and> r_ResourceVersion row = ro_ResourceVersion obj \<and>
     (r_Status row = ClusterResourceStatusActive \<or> failed_row row)"

text \<open>The ids of the rows with jobs are \<open>B\<close>; the status of such a row is open.\<close>

fun settled :: "scope \<Rightarrow> string set \<Rightarrow> remote_object option \<Rightarrow> cluster_row multiset \<Rightarrow> bool" where
  "settled sc B None R \<longleftrightarrow> (\<forall>r \<in># R. failed_row r \<or> r_Id r \<in> B)"
| "settled sc B (Some obj) R \<longleftrightarrow> (\<exists>row. R = {#row#} \<and> follows sc row obj \<and> (r_Status row = ClusterResourceStatusActive \<or> failed_row row \<or> r_Id row \<in> B))"

text \<open>Under each key: at most one row, not ahead of the object; without a pending event row and object agree.\<close>

definition key_ok :: "scope \<Rightarrow> world \<Rightarrow> string set \<Rightarrow> string \<times> string \<Rightarrow> cluster_row multiset \<Rightarrow> bool" where
  "key_ok sc w B k R \<longleftrightarrow> size R \<le> 1 \<and>
     (\<forall>r \<in># R. row_version r \<le> wo_rev w \<and> (\<forall>obj. wo_objs w k = Some obj \<longrightarrow> row_version r \<le> ver obj)) \<and>
     (pend sc w k = [] \<longrightarrow> settled sc B (wo_objs w k) R)"

text \<open>The objects and the events: the last event of a key reports the object there is.\<close>

definition cluster_ok :: "scope \<Rightarrow> world \<Rightarrow> bool" where
  "cluster_ok sc w \<longleftrightarrow> 0 \<le> wo_rev w \<and>
     (\<forall>k obj. wo_objs w k = Some obj \<longrightarrow> object_key sc obj = k \<and> ns_found sc obj \<and> ver obj \<le> wo_rev w) \<and>
     (\<forall>ev \<in> set (wo_queue w). ns_found sc (ev_obj ev) \<and> 0 \<le> ver (ev_obj ev) \<and> ver (ev_obj ev) \<le> wo_rev w \<and>
        (\<forall>obj. wo_objs w (ev_key sc ev) = Some obj \<longrightarrow> ver (ev_obj ev) \<le> ver obj)) \<and>
     (\<forall>k obj. wo_objs w k = Some obj \<longrightarrow> 0 \<le> ver obj) \<and>
     (\<forall>k. pend sc w k \<noteq> [] \<longrightarrow> ev_result (last (pend sc w k)) = wo_objs w k)"

text \<open>An answer is no newer than the object, and where no event is pending it is what there is.\<close>

fun answer_ok :: "scope \<Rightarrow> world \<Rightarrow> job \<Rightarrow> bool" where
  "answer_ok sc w (Answered _ row obj) \<longleftrightarrow> object_key sc obj = row_key sc row \<and> ns_found sc obj \<and> ver obj \<le> wo_rev w \<and>
     (\<forall>now. wo_objs w (row_key sc row) = Some now \<longrightarrow> ver obj \<le> ver now) \<and> (pend sc w (row_key sc row) = [] \<longrightarrow> wo_objs w (row_key sc row) = Some obj)"
| "answer_ok sc w (Deleted row) \<longleftrightarrow> (pend sc w (row_key sc row) = [] \<longrightarrow> wo_objs w (row_key sc row) = None)"
| "answer_ok sc w _ \<longleftrightarrow> True"

text \<open>The row of a job is one of the cluster, if it is still there, under the key of the one in memory.\<close>

definition row_of_job :: "scope \<Rightarrow> string \<Rightarrow> table \<Rightarrow> string \<Rightarrow> job \<Rightarrow> bool" where
  "row_of_job sc c tbl i j \<longleftrightarrow>
     (\<forall>r \<in> set tbl. r_Id r = i \<longrightarrow> r_ClusterId r = c) \<and>
     (\<forall>row. job_row j = Some row \<longrightarrow> r_Id row = i \<and> r_Status row \<noteq> ClusterResourceStatusActive \<and>
        (\<forall>r \<in> set tbl. r_Id r = i \<longrightarrow> row_key sc r = row_key sc row))"

definition busy :: "world \<Rightarrow> string set" where
  "busy w = fst ` set (wo_jobs w)"

definition world_ok :: "sync_env \<Rightarrow> string \<Rightarrow> world \<Rightarrow> bool" where
  "world_ok e c w \<longleftrightarrow> ids_ok (wo_rows w) \<and> cluster_ok (se_scope e) w \<and>
     (\<forall>k. key_ok (se_scope e) w (busy w) k (rows_at (se_scope e) c (wo_rows w) k)) \<and>
     (\<forall>(i, j) \<in> set (wo_jobs w). row_of_job (se_scope e) c (wo_rows w) i j \<and> answer_ok (se_scope e) w j)"

lemma pend_report: "pend sc (report sc w ev) k = (if ev_key sc ev = k then pend sc w k @ [ev] else pend sc w k)"
  by (simp add: pend_def report_def)

lemma report_simps [simp]:
  "wo_rows (report sc w ev) = wo_rows w" "wo_objs (report sc w ev) = (wo_objs w)(ev_key sc ev := ev_result ev)"
  "wo_queue (report sc w ev) = wo_queue w @ [ev]"
  by (simp_all add: report_def)

lemma cluster_ok_obj:
  assumes "cluster_ok sc w" "wo_objs w k = Some obj"
  shows "object_key sc obj = k" "ns_found sc obj" "0 \<le> ver obj" "ver obj \<le> wo_rev w"
  using assms unfolding cluster_ok_def by blast+

lemma cluster_ok_event:
  assumes "cluster_ok sc w" "ev \<in> set (wo_queue w)"
  shows "ns_found sc (ev_obj ev)" "0 \<le> ver (ev_obj ev)" "ver (ev_obj ev) \<le> wo_rev w"
    "wo_objs w (ev_key sc ev) = Some obj \<Longrightarrow> ver (ev_obj ev) \<le> ver obj"
  using assms unfolding cluster_ok_def by blast+

lemma possible_rev:
  assumes "possible sc w ev" "cluster_ok sc w"
  shows "wo_rev w \<le> wo_rev (report sc w ev)" "ns_found sc (ev_obj ev)" "0 \<le> ver (ev_obj ev)" "ver (ev_obj ev) \<le> wo_rev (report sc w ev)"
    "ev_result ev = Some obj \<Longrightarrow> ver obj = wo_rev (report sc w ev) \<and> ev_obj ev = obj"
proof -
  have rev: "0 \<le> wo_rev w" using assms(2) by (simp add: cluster_ok_def)
  have "wo_rev w \<le> wo_rev (report sc w ev) \<and> ns_found sc (ev_obj ev) \<and> 0 \<le> ver (ev_obj ev) \<and> ver (ev_obj ev) \<le> wo_rev (report sc w ev) \<and>
      (\<forall>obj. ev_result ev = Some obj \<longrightarrow> ver obj = wo_rev (report sc w ev) \<and> ev_obj ev = obj)"
  proof (cases ev)
    case (OnUpdate old obj)
    with assms(1) have "wo_objs w (object_key sc old) = Some old" "ro_Name obj = ro_Name old" "ro_Namespace obj = ro_Namespace old" "wo_rev w \<le> ver obj"
      by (simp_all add: possible_def)
    moreover have "ns_found sc obj = ns_found sc old" by (rule same_key(2)) fact+
    ultimately have "wo_objs w (object_key sc old) = Some old" "ns_found sc obj = ns_found sc old" "wo_rev w \<le> ver obj" by simp_all
    with cluster_ok_obj(2) [OF assms(2), of "object_key sc old" old] rev OnUpdate show ?thesis by (simp add: report_def)
  next
    case (OnDelete obj)
    then show ?thesis using assms(1) cluster_ok_obj [OF assms(2), of "object_key sc obj" obj] by (simp add: report_def possible_def)
  qed (use assms(1) rev in \<open>auto simp: report_def possible_def\<close>)
  then show "wo_rev w \<le> wo_rev (report sc w ev)" "ns_found sc (ev_obj ev)" "0 \<le> ver (ev_obj ev)" "ver (ev_obj ev) \<le> wo_rev (report sc w ev)"
    "ev_result ev = Some obj \<Longrightarrow> ver obj = wo_rev (report sc w ev) \<and> ev_obj ev = obj" by auto
qed

lemma report_cluster_ok:
  assumes "possible sc w ev" "cluster_ok sc w"
  shows "cluster_ok sc (report sc w ev)"
proof -
  note new = possible_rev [OF assms]
  have "object_key sc obj = k \<and> ns_found sc obj \<and> ver obj \<le> wo_rev (report sc w ev) \<and> 0 \<le> ver obj"
    if "wo_objs (report sc w ev) k = Some obj" for k obj
  proof (cases "k = ev_key sc ev")
    case True
    then have "ev_result ev = Some obj" using that by simp
    from new(5) [OF this] new(2-4) True show ?thesis by (simp add: ev_key_def)
  next
    case False
    then have "wo_objs w k = Some obj" using that by simp
    from cluster_ok_obj [OF assms(2) this] new(1) show ?thesis by simp
  qed
  moreover have "ns_found sc (ev_obj x) \<and> 0 \<le> ver (ev_obj x) \<and> ver (ev_obj x) \<le> wo_rev (report sc w ev) \<and>
      (\<forall>obj. wo_objs (report sc w ev) (ev_key sc x) = Some obj \<longrightarrow> ver (ev_obj x) \<le> ver obj)" if "x \<in> set (wo_queue (report sc w ev))" for x
  proof (cases "x = ev")
    case True
    with new show ?thesis by auto
  next
    case False
    then have "x \<in> set (wo_queue w)" using that by simp
    note old = cluster_ok_event [OF assms(2) this]
    have "ver (ev_obj x) \<le> ver obj" if "wo_objs (report sc w ev) (ev_key sc x) = Some obj" for obj
      using that old(3,4) new(1) new(5) [of obj] by (cases "ev_key sc x = ev_key sc ev") auto
    then show ?thesis using old(1-3) new(1) by auto
  qed
  moreover have "ev_result (last (pend sc (report sc w ev) k)) = wo_objs (report sc w ev) k" if "pend sc (report sc w ev) k \<noteq> []" for k
  proof -
    have "pend sc w k \<noteq> [] \<longrightarrow> ev_result (last (pend sc w k)) = wo_objs w k" using assms(2) unfolding cluster_ok_def by blast
    then show ?thesis using that by (auto simp: pend_report)
  qed
  moreover have "0 \<le> wo_rev (report sc w ev)" using assms(2) new(1) by (auto simp: cluster_ok_def)
  ultimately show ?thesis unfolding cluster_ok_def by blast
qed

lemma report_key_ok:
  assumes "possible sc w ev" "cluster_ok sc w" "key_ok sc w B k R"
  shows "key_ok sc (report sc w ev) B k R"
proof -
  have "row_version r \<le> wo_rev (report sc w ev) \<and> (\<forall>obj. wo_objs (report sc w ev) k = Some obj \<longrightarrow> row_version r \<le> ver obj)" if "r \<in># R" for r
  proof -
    have old: "row_version r \<le> wo_rev w" "\<forall>obj. wo_objs w k = Some obj \<longrightarrow> row_version r \<le> ver obj" using assms(3) that by (auto simp: key_ok_def)
    have "row_version r \<le> ver obj" if "wo_objs (report sc w ev) k = Some obj" for obj
      using that old possible_rev(1) [OF assms(1,2)] possible_rev(5) [OF assms(1,2), of obj] by (cases "k = ev_key sc ev") auto
    then show ?thesis using old(1) possible_rev(1) [OF assms(1,2)] by auto
  qed
  then show ?thesis using assms(3) unfolding key_ok_def by (auto simp: pend_report)
qed

lemma report_answer_ok:
  assumes "possible sc w ev" "cluster_ok sc w" "answer_ok sc w j"
  shows "answer_ok sc (report sc w ev) j"
proof (cases j)
  case (Answered kind row obj)
  have "ver obj \<le> ver now" if "wo_objs (report sc w ev) (row_key sc row) = Some now" for now
    using that assms(3) Answered possible_rev(1) [OF assms(1,2)] possible_rev(5) [OF assms(1,2), of now] by (cases "row_key sc row = ev_key sc ev") auto
  then show ?thesis using assms(3) Answered possible_rev(1) [OF assms(1,2)] by (auto simp: pend_report)
qed (use assms(3) in \<open>auto simp: pend_report\<close>)

lemma world_okD:
  assumes "world_ok e c w"
  shows "ids_ok (wo_rows w)" "cluster_ok (se_scope e) w" "key_ok (se_scope e) w (busy w) k (rows_at (se_scope e) c (wo_rows w) k)"
    "(i, j) \<in> set (wo_jobs w) \<Longrightarrow> row_of_job (se_scope e) c (wo_rows w) i j" "(i, j) \<in> set (wo_jobs w) \<Longrightarrow> answer_ok (se_scope e) w j"
  using assms unfolding world_ok_def by blast+

lemma report_ok:
  assumes "world_ok e c w" "possible (se_scope e) w ev"
  shows "world_ok e c (report (se_scope e) w ev)"
proof -
  note ok = world_okD [OF assms(1)]
  have "busy (report (se_scope e) w ev) = busy w" "wo_jobs (report (se_scope e) w ev) = wo_jobs w" by (simp_all add: busy_def report_def)
  then show ?thesis
    using ok report_cluster_ok [OF assms(2) ok(2)] report_key_ok [OF assms(2) ok(2,3)] report_answer_ok [OF assms(2) ok(2)]
    unfolding world_ok_def by (auto simp del: split_paired_All)
qed

text \<open>The parts of the invariant that do not look at the rows, the jobs or the events of other keys.\<close>

lemma parts_simps [simp]:
  "key_ok sc (w\<lparr>wo_rows := t\<rparr>) B k R = key_ok sc w B k R" "cluster_ok sc (w\<lparr>wo_rows := t\<rparr>) = cluster_ok sc w"
  "key_ok sc (w\<lparr>wo_jobs := js\<rparr>) B k R = key_ok sc w B k R" "cluster_ok sc (w\<lparr>wo_jobs := js\<rparr>) = cluster_ok sc w"
  "key_ok sc (w\<lparr>wo_rows := t, wo_queue := q\<rparr>) B k R = key_ok sc (w\<lparr>wo_queue := q\<rparr>) B k R"
  "cluster_ok sc (w\<lparr>wo_rows := t, wo_queue := q\<rparr>) = cluster_ok sc (w\<lparr>wo_queue := q\<rparr>)"
  "answer_ok sc (w\<lparr>wo_rows := t\<rparr>) j = answer_ok sc w j" "answer_ok sc (w\<lparr>wo_jobs := js\<rparr>) j = answer_ok sc w j"
  "answer_ok sc (w\<lparr>wo_rows := t, wo_queue := q\<rparr>) j = answer_ok sc (w\<lparr>wo_queue := q\<rparr>) j"
  by (simp_all add: key_ok_def cluster_ok_def pend_def) (cases j; simp add: pend_def)+

lemma busy_simps [simp]:
  "busy (w\<lparr>wo_rows := t\<rparr>) = busy w" "busy (w\<lparr>wo_jobs := js\<rparr>) = fst ` set js" "busy (w\<lparr>wo_queue := q\<rparr>) = busy w"
  "busy (report sc w ev) = busy w" "wo_jobs (report sc w ev) = wo_jobs w"
  by (simp_all add: busy_def report_def)

text \<open>Rows of other keys, and the cluster and key of a row with a given id, when the row under a key becomes another one.\<close>

lemma same_id: "ids_ok tbl \<Longrightarrow> r \<in> set tbl \<Longrightarrow> r' \<in> set tbl \<Longrightarrow> r_Id r = r_Id r' \<Longrightarrow> r = r'"
  by (auto simp: ids_ok_def distinct_map inj_on_def)

lemma row_stays:
  assumes "row_to sc c k tbl tbl' R" "r \<in> set tbl'" "\<not> (r_ClusterId r = c \<and> row_key sc r = k)"
  shows "r \<in> set tbl"
proof (cases "r_ClusterId r = c")
  case True
  then have "rows_at sc c tbl' (row_key sc r) = rows_at sc c tbl (row_key sc r)" using assms(1,3) unfolding row_to_def same_else_def by blast
  moreover have "r \<in># rows_at sc c tbl' (row_key sc r)" using True assms(2) by (simp add: rows_at_in mine_in)
  ultimately show ?thesis by (simp add: rows_at_in mine_in)
next
  case False
  have "others c tbl' = others c tbl" using assms(1) by (simp add: row_to_def same_else_def)
  then have "r \<in># others c tbl" using False assms(2) by (simp flip: \<open>others c tbl' = others c tbl\<close>) (simp add: others_def)
  then show ?thesis by (simp add: others_def)
qed

lemma row_kept:
  assumes "row_to sc c k tbl tbl' R" "ids_ok tbl" "r \<in> set tbl'" "r0 \<in> set tbl" "r_Id r = r_Id r0" "r_ClusterId r0 = c"
  shows "r_ClusterId r = c \<and> row_key sc r = row_key sc r0"
proof (cases "r_ClusterId r = c \<and> row_key sc r = k")
  case False
  then have "r \<in> set tbl" using row_stays [OF assms(1,3)] by blast
  then show ?thesis using same_id [OF assms(2) _ assms(4,5)] assms(6) by simp
next
  case True
  have "row_key sc r0 = k"
  proof (rule ccontr)
    assume other: "row_key sc r0 \<noteq> k"
    then have "rows_at sc c tbl' (row_key sc r0) = rows_at sc c tbl (row_key sc r0)" using assms(1) unfolding row_to_def same_else_def by blast
    then have "r0 \<in> set tbl'" using assms(4,6) rows_at_in [of r0 sc c tbl' "row_key sc r0"] by (simp add: rows_at_in mine_in)
    moreover have "ids_ok tbl'" using row_to_ids [OF assms(1,2)] by simp
    ultimately have "r = r0" using same_id assms(3,5) by blast
    with True other show False by simp
  qed
  with True show ?thesis by simp
qed

lemma row_of_job_to:
  assumes "row_of_job sc c tbl i j" "row_to sc c k tbl tbl' R" "ids_ok tbl" "\<forall>r \<in> set tbl'. r_Id r \<notin> r_Id ` set tbl \<longrightarrow> r_Id r \<noteq> i"
  shows "row_of_job sc c tbl' i j"
proof -
  have "r_ClusterId r = c \<and> (\<exists>r0 \<in> set tbl. r_Id r0 = i \<and> row_key sc r = row_key sc r0)" if r: "r \<in> set tbl'" "r_Id r = i" for r
  proof -
    have "i \<in> r_Id ` set tbl" using assms(4) r by blast
    then obtain r0 where r0: "r0 \<in> set tbl" "r_Id r0 = i" by auto
    then have "r_ClusterId r0 = c" using assms(1) by (simp add: row_of_job_def)
    then show ?thesis using row_kept [OF assms(2,3) r(1) r0(1)] r(2) r0 by auto
  qed
  note kept = this
  have "r_Id row = i \<and> r_Status row \<noteq> ClusterResourceStatusActive \<and> (\<forall>r \<in> set tbl'. r_Id r = i \<longrightarrow> row_key sc r = row_key sc row)"
    if "job_row j = Some row" for row
    using assms(1) kept that unfolding row_of_job_def by metis
  then show ?thesis using kept unfolding row_of_job_def by blast
qed

lemma settled_busy: "settled sc B x R \<Longrightarrow> B \<inter> r_Id ` set_mset R \<subseteq> B' \<Longrightarrow> settled sc B' x R"
  by (cases x) auto

lemma key_ok_busy: "key_ok sc w B k R \<Longrightarrow> B \<inter> r_Id ` set_mset R \<subseteq> B' \<Longrightarrow> key_ok sc w B' k R"
  using settled_busy by (auto simp: key_ok_def)

section \<open>Every step keeps the invariant\<close>

lemma failed_statuses:
  "failed_row (r\<lparr>r_Status := ClusterResourceStatusCreateFail\<rparr>)" "failed_row (r\<lparr>r_Status := ClusterResourceStatusUpdateFail\<rparr>)"
  "failed_row (r\<lparr>r_Status := ClusterResourceStatusDeleteFail\<rparr>)" "failed_row (r\<lparr>r_Status := ClusterResourceStatusSyncFail\<rparr>)"
  by (simp_all add: failed_row_def strings_HasSuffix_def suffix_to_prefix ClusterResourceStatusCreateFail_def ClusterResourceStatusUpdateFail_def
      ClusterResourceStatusDeleteFail_def ClusterResourceStatusSyncFail_def)

lemma Get_cache:
  assumes "cache_ok e rm w cli" "namespaces_agree e rm" "obj_GetRemoteObject e rm cli row = Inr obj"
  shows "object_key (se_scope e) obj = row_key (se_scope e) row" "ns_found (se_scope e) obj" "ver obj \<le> wo_rev w"
    "wo_objs w (object_key (se_scope e) obj) = Some now \<Longrightarrow> ver obj \<le> ver now"
    "pend (se_scope e) w (object_key (se_scope e) obj) = [] \<Longrightarrow> wo_objs w (object_key (se_scope e) obj) = Some obj"
proof -
  obtain kb where cli: "cli = Inr kb" using assms(3) by (cases cli) (auto simp: obj_GetRemoteObject_def Cluster_GetRemoteObject_def NS_GetRemoteObject_def split: if_splits)
  with assms(1) have kinds: "kb_kinds kb (rm_kind rm) = Some (se_scope e \<noteq> None)" by (simp add: cache_ok_def)
  have get: "(rm_kind rm, obj) \<in> set (kb_cache kb) \<and> ro_Name obj = name \<and> (se_scope e \<noteq> None \<longrightarrow> ro_Namespace obj = ns)"
    if "handler_Get kb (rm_kind rm) ns name = Inr obj" for ns name
  proof -
    have "find (\<lambda>(k, obj). k = rm_kind rm \<and> ro_Name obj = name \<and> (se_scope e \<noteq> None \<longrightarrow> ro_Namespace obj = ns)) (kb_cache kb) = Some (rm_kind rm, obj)"
      using that kinds by (auto simp: handler_Get_def split: option.splits dest: find_Some_iff [THEN iffD1])
    then show ?thesis by (auto simp: find_Some_iff) (metis nth_mem)+
  qed
  have "(rm_kind rm, obj) \<in> set (kb_cache kb) \<and> object_key (se_scope e) obj = row_key (se_scope e) row"
  proof (cases "se_scope e")
    case None
    then show ?thesis using get [of "[]" "r_Name row"] assms(3) cli
      by (simp add: obj_GetRemoteObject_def Cluster_GetRemoteObject_def object_key_def row_key_def row_ns_def ns_of_def)
  next
    case (Some ns)
    then obtain n where n: "rm_namespace rm (r_NamespaceId row) = Inr n" "handler_Get kb (rm_kind rm) n (r_Name row) = Inr obj"
      using assms(3) cli by (auto simp: obj_GetRemoteObject_def NS_GetRemoteObject_def split: sum.splits)
    moreover have "ns n = Inr (r_NamespaceId row)" using n(1) Some assms(2) by (simp add: namespaces_agree_def)
    ultimately show ?thesis using get [OF n(2)] Some by (simp add: object_key_def row_key_def row_ns_def ns_of_def)
  qed
  then show "object_key (se_scope e) obj = row_key (se_scope e) row" "ns_found (se_scope e) obj" "ver obj \<le> wo_rev w"
      "wo_objs w (object_key (se_scope e) obj) = Some now \<Longrightarrow> ver obj \<le> ver now"
      "pend (se_scope e) w (object_key (se_scope e) obj) = [] \<Longrightarrow> wo_objs w (object_key (se_scope e) obj) = Some obj"
    using assms(1) cli by (auto simp: cache_ok_def)
qed

lemma synced_version [simp]: "row_version (synced_row sc obj row) = ver obj"
  by (simp add: row_version_def synced_row_def ver_def ParseInt_Nil)

lemma view_follows:
  "row_view sc row = object_view sc obj \<Longrightarrow> follows sc row obj \<and> r_Status row = ClusterResourceStatusActive \<and> row_version row = ver obj"
  by (auto simp: row_view_def object_view_def follows_def row_version_def ver_def ParseInt_Nil)

text \<open>The row of a job is the only one under its key.\<close>

lemma job_only_row:
  assumes "world_ok e c w" "(i, j) \<in> set (wo_jobs w)" "row \<in> set (wo_rows w)" "r_Id row = i"
  shows "rows_at (se_scope e) c (wo_rows w) (row_key (se_scope e) row) = {#row#}"
proof -
  let ?R = "rows_at (se_scope e) c (wo_rows w) (row_key (se_scope e) row)"
  have "r_ClusterId row = c" using world_okD(4) [OF assms(1,2)] assms(3,4) by (simp add: row_of_job_def)
  then have "row \<in># ?R" using assms(3) by (simp add: rows_at_in mine_in)
  moreover have "size ?R \<le> 1" using world_okD(3) [OF assms(1)] unfolding key_ok_def by blast
  ultimately show ?thesis using size_at_most_one [of ?R] by auto
qed

text \<open>A job asks the cluster, a job works on a row that has gone, and a job changes its row.\<close>

lemma job_asked:
  assumes "world_ok e c w" "wo_jobs w = js1 @ (i, j) # js2" "row_of_job (se_scope e) c (wo_rows w) i j2" "answer_ok (se_scope e) w j2"
  shows "world_ok e c (w\<lparr>wo_jobs := js1 @ (i, j2) # js2\<rparr>)"
  using assms unfolding world_ok_def busy_def by (auto simp del: split_paired_All)

lemma job_gone:
  assumes "world_ok e c w" "wo_jobs w = js1 @ (i, j) # js2" "i \<notin> r_Id ` set (wo_rows w)"
  shows "world_ok e c (w\<lparr>wo_jobs := js1 @ js2\<rparr>)"
proof -
  have "key_ok (se_scope e) w (fst ` set (js1 @ js2)) k (rows_at (se_scope e) c (wo_rows w) k)" for k
    by (rule key_ok_busy [OF world_okD(3) [OF assms(1)]]) (use assms(2,3) in \<open>auto simp: busy_def rows_at_in mine_in\<close>)
  then show ?thesis using assms(1,2) unfolding world_ok_def by (auto simp del: split_paired_All)
qed

lemma job_moved:
  assumes "world_ok e c w" "wo_jobs w = js1 @ (i, j) # js2" "row \<in> set (wo_rows w)" "r_Id row = i"
    and "row_to (se_scope e) c (row_key (se_scope e) row) (wo_rows w) tbl R" "r_Id ` set tbl \<subseteq> r_Id ` set (wo_rows w)"
    and "\<And>B. B = fst ` set (js1 @ js @ js2) \<Longrightarrow> key_ok (se_scope e) w B (row_key (se_scope e) row) R"
    and "js = [] \<or> (\<exists>j2. js = [(i, j2)] \<and> row_of_job (se_scope e) c tbl i j2 \<and> answer_ok (se_scope e) w j2)"
  shows "world_ok e c (w\<lparr>wo_rows := tbl, wo_jobs := js1 @ js @ js2\<rparr>) \<and> others c tbl = others c (wo_rows w)"
proof -
  let ?sc = "se_scope e"
  let ?B = "fst ` set (js1 @ js @ js2)"
  note ok = world_okD [OF assms(1)]
  have "key_ok ?sc w ?B k (rows_at ?sc c tbl k)" for k
  proof (cases "k = row_key ?sc row")
    case True
    then show ?thesis using assms(5,7) by (simp add: row_to_def)
  next
    case False
    then have same: "rows_at ?sc c tbl k = rows_at ?sc c (wo_rows w) k" using assms(5) unfolding row_to_def same_else_def by blast
    have "i \<notin> r_Id ` set_mset (rows_at ?sc c (wo_rows w) k)"
      using False same_id [OF ok(1) _ assms(3)] assms(4) by (auto simp: rows_at_in mine_in)
    then show ?thesis unfolding same by (intro key_ok_busy [OF ok(3)]) (use assms(2) in \<open>auto simp: busy_def\<close>)
  qed
  moreover have "row_of_job ?sc c tbl x y" if "(x, y) \<in> set (wo_jobs w)" for x y
    by (rule row_of_job_to [OF ok(4) [OF that] assms(5) ok(1)]) (use assms(6) in auto)
  moreover have "row_of_job ?sc c tbl x y \<and> answer_ok ?sc w y" if "(x, y) \<in> set (js1 @ js @ js2)" for x y
  proof (cases "(x, y) \<in> set js")
    case True
    then show ?thesis using assms(8) by auto
  next
    case False
    then have "(x, y) \<in> set (wo_jobs w)" using that assms(2) by auto
    then show ?thesis using ok(5) calculation(2) by blast
  qed
  then have "\<forall>(x, y) \<in> set (js1 @ js @ js2). row_of_job ?sc c tbl x y \<and> answer_ok ?sc w y" by blast
  ultimately show ?thesis
    using ok(2) assms(5) row_to_ids [OF assms(5) ok(1)] unfolding world_ok_def row_to_def same_else_def
    by (simp del: set_append split_paired_All)
qed

text \<open>Setting the status of the row of a job: it is open while the job goes on, and a failure may stay.\<close>

lemma status_ok:
  assumes "key_ok sc w B k {#row#}" "failed_row (row\<lparr>r_Status := st\<rparr>) \<or> r_Id row \<in> B'"
  shows "key_ok sc w B' k {#row\<lparr>r_Status := st\<rparr>#}"
  using assms by (cases "wo_objs w k") (auto simp: key_ok_def follows_def)

lemma set_status_moved:
  assumes "db_ok e" "world_ok e c w" "wo_jobs w = js1 @ (i, j) # js2" "row \<in> set (wo_rows w)" "r_Id row = i"
    and "failed_row (row\<lparr>r_Status := st\<rparr>) \<and> js = [] \<or>
      (\<exists>j2. js = [(i, j2)] \<and> row_of_job (se_scope e) c (set_status e i st (wo_rows w)) i j2 \<and> answer_ok (se_scope e) w j2)"
  shows "world_ok e c (w\<lparr>wo_rows := set_status e i st (wo_rows w), wo_jobs := js1 @ js @ js2\<rparr>) \<and>
    others c (set_status e i st (wo_rows w)) = others c (wo_rows w)"
proof -
  note one = job_only_row [OF assms(2) _ assms(4,5), of j] and ok = world_okD [OF assms(2)]
  have one: "rows_at (se_scope e) c (wo_rows w) (row_key (se_scope e) row) = {#row#}" by (rule one) (simp add: assms(3))
  have to: "row_to (se_scope e) c (row_key (se_scope e) row) (wo_rows w) (set_status e i st (wo_rows w)) {#row\<lparr>r_Status := st\<rparr>#}"
    using set_status_to [OF assms(1) ok(1) one, of st] assms(5) by simp
  show ?thesis
  proof (rule job_moved [OF assms(2-5) to])
    show "r_Id ` set (set_status e i st (wo_rows w)) \<subseteq> r_Id ` set (wo_rows w)" by (auto simp: set_status_def)
    show "key_ok (se_scope e) w B (row_key (se_scope e) row) {#row\<lparr>r_Status := st\<rparr>#}" if "B = fst ` set (js1 @ js @ js2)" for B
      by (rule status_ok [where B = "busy w"]) (use ok(3) [of "row_key (se_scope e) row"] one assms(5,6) that in auto)
  qed (use assms(6) in auto)
qed

lemma set_status_gone: "i \<notin> r_Id ` set tbl \<Longrightarrow> set_status e i st tbl = tbl"
  by (auto simp: set_status_def intro!: map_idI)

lemma begin_not_active: "begin_status kind \<noteq> ClusterResourceStatusActive"
  by (cases kind) (simp_all add: ClusterResourceStatusActive_def ClusterResourceStatusCreating_def ClusterResourceStatusUpdating_def
      ClusterResourceStatusDeleting_def ClusterResourceStatusSyncing_def)

lemma fail_failed: "failed_row (row\<lparr>r_Status := fail_status kind\<rparr>)"
  by (cases kind) (simp_all add: failed_statuses)

section \<open>The handler\<close>

lemma handled_ok:
  assumes "handled sc ev R R'" "key_ok sc w B k R" "cluster_ok sc w" "wo_queue w = ev # q" "ev_key sc ev = k"
  shows "key_ok sc (w\<lparr>wo_queue := q\<rparr>) B k R'"
proof -
  let ?w = "w\<lparr>wo_queue := q\<rparr>"
  have ev: "0 \<le> ver (ev_obj ev)" "ver (ev_obj ev) \<le> wo_rev w" "\<And>obj. wo_objs w k = Some obj \<Longrightarrow> ver (ev_obj ev) \<le> ver obj"
    using cluster_ok_event [OF assms(3), of ev] assms(4,5) by auto
  have pend: "pend sc w k = ev # pend sc ?w k" using assms(4,5) by (simp add: pend_def)
  have last: "wo_objs w k = ev_result ev" if "pend sc ?w k = []"
    using that pend assms(3) unfolding cluster_ok_def by (metis last.simps list.distinct(1))
  show ?thesis
  proof (cases "ev_result ev")
    case None
    then have "R' = filter_mset failed_row R" using assms(1) by (simp add: handled_def)
    then show ?thesis using assms(2) last None by (auto simp: key_ok_def intro: order_trans [OF size_filter_mset_lesseq])
  next
    case (Some obj)
    then have obj: "ev_obj ev = obj" by (cases ev) auto
    from size_at_most_one [of R] assms(2) have "R = {#} \<or> (\<exists>row. R = {#row#})" by (simp add: key_ok_def)
    then show ?thesis
    proof (elim disjE exE)
      assume "R = {#}"
      then obtain row where "R' = {#row#}" "row_view sc row = object_view sc obj" using assms(1) Some by (auto simp: handled_def)
      then show ?thesis using view_follows [of sc row obj] ev obj last Some by (auto simp: key_ok_def)
    next
      fix row
      assume R: "R = {#row#}"
      then have R': "R' = (if row_version row \<le> ver obj then {#synced_row sc obj row#} else R)" using assms(1) Some by (auto simp: handled_def)
      have "row_version row \<le> ver obj" if "pend sc ?w k = []" using last [OF that] Some assms(2) R by (auto simp: key_ok_def)
      moreover have "follows sc (synced_row sc obj row) obj \<and> r_Status (synced_row sc obj row) = ClusterResourceStatusActive"
        using view_follows [of sc "synced_row sc obj row" obj] by simp
      ultimately show ?thesis using R R' ev obj last Some assms(2) by (auto simp: key_ok_def)
    qed
  qed
qed

lemma handler_cluster_ok:
  assumes "cluster_ok sc w" "wo_queue w = ev # q"
  shows "cluster_ok sc (w\<lparr>wo_queue := q\<rparr>)"
proof -
  have "ev_result (last (pend sc (w\<lparr>wo_queue := q\<rparr>) k)) = wo_objs w k" if "pend sc (w\<lparr>wo_queue := q\<rparr>) k \<noteq> []" for k
  proof -
    from that assms(2) have "last (pend sc w k) = last (pend sc (w\<lparr>wo_queue := q\<rparr>) k)" "pend sc w k \<noteq> []" by (auto simp: pend_def)
    then show ?thesis using assms(1) unfolding cluster_ok_def by metis
  qed
  then show ?thesis using assms by (simp add: cluster_ok_def del: split_paired_All)
qed

text \<open>No answer is overtaken: the event is not one of an object whose answer is still to be stored.\<close>

lemma handler_answer_ok:
  assumes "wo_queue w = ev # q" "orderly sc w w'" "wo_queue w' = q" "(i, j) \<in> set (wo_jobs w)" "answer_ok sc w j"
  shows "answer_ok sc (w\<lparr>wo_queue := q\<rparr>) j"
proof -
  have "pend sc (w\<lparr>wo_queue := q\<rparr>) (row_key sc row) = pend sc w (row_key sc row)" if "answered_row j = Some row" for row
  proof -
    have "length (pend sc w (row_key sc row)) \<le> length (pend sc w' (row_key sc row))" using assms(2,4) that unfolding orderly_def by blast
    then have "ev_key sc ev \<noteq> row_key sc row" using assms(1,3) by (auto simp: pend_def)
    then show ?thesis using assms(1) by (simp add: pend_def)
  qed
  then show ?thesis using assms(5) by (cases j) auto
qed

lemma handler_ok:
  assumes "db_ok e" "c \<noteq> []" "\<forall>r. se_owned e r" "world_ok e c w" "wo_queue w = ev # q"
    and "w' = w\<lparr>wo_rows := handle_event True e c ev (wo_rows w), wo_queue := q\<rparr>" "orderly (se_scope e) w w'"
  shows "world_ok e c w' \<and> others c (wo_rows w') = others c (wo_rows w)"
proof -
  let ?sc = "se_scope e" and ?t = "handle_event True e c ev (wo_rows w)"
  let ?k = "ev_key ?sc ev"
  note ok = world_okD [OF assms(4)]
  have "size (rows_at ?sc c (wo_rows w) ?k) \<le> 1" using ok(3) [of ?k] by (simp add: key_ok_def)
  from handle_to [OF assms(1-3) ok(1) this, of ev] cluster_ok_event [OF ok(2), of ev] assms(5)
  obtain R where R: "row_to ?sc c ?k (wo_rows w) ?t R" "handled ?sc ev (rows_at ?sc c (wo_rows w) ?k) R"
    by (auto simp: ev_key_def simp del: handle_event.simps)
  have keys: "key_ok ?sc (w\<lparr>wo_queue := q\<rparr>) (busy w) k (rows_at ?sc c ?t k)" for k
  proof (cases "k = ?k")
    case True
    then show ?thesis using handled_ok [OF R(2) ok(3,2) assms(5)] R(1) by (simp add: row_to_def)
  next
    case False
    then have "rows_at ?sc c ?t k = rows_at ?sc c (wo_rows w) k" using R(1) by (simp add: row_to_def same_else_def del: split_paired_All)
    then show ?thesis using ok(3) [of k] False assms(5) by (auto simp: key_ok_def pend_def)
  qed
  have jobs: "row_of_job ?sc c ?t i j \<and> answer_ok ?sc (w\<lparr>wo_queue := q\<rparr>) j" if "(i, j) \<in> set (wo_jobs w)" for i j
  proof
    have "\<forall>r \<in> set (wo_rows w'). r_Id r \<notin> r_Id ` set (wo_rows w) \<longrightarrow> r_Id r \<notin> fst ` set (wo_jobs w)"
      using assms(7) unfolding orderly_def by blast
    moreover have "i \<in> fst ` set (wo_jobs w)" using that by force
    moreover have "wo_rows w' = ?t" unfolding assms(6) by (simp del: handle_event.simps)
    ultimately have "\<forall>r \<in> set ?t. r_Id r \<notin> r_Id ` set (wo_rows w) \<longrightarrow> r_Id r \<noteq> i" by metis
    then show "row_of_job ?sc c ?t i j" by (rule row_of_job_to [OF ok(4) [OF that] R(1) ok(1)])
    show "answer_ok ?sc (w\<lparr>wo_queue := q\<rparr>) j"
      by (rule handler_answer_ok [OF assms(5,7) _ that ok(5) [OF that]]) (simp add: assms(6))
  qed
  have "ids_ok ?t" "others c ?t = others c (wo_rows w)" using R(1) ok(1) by (simp_all add: row_to_def same_else_def del: handle_event.simps)
  moreover have "busy w' = busy w" "wo_jobs w' = wo_jobs w" by (simp_all add: assms(6) busy_def)
  moreover have "\<forall>(i, j) \<in> set (wo_jobs w). row_of_job ?sc c ?t i j \<and> answer_ok ?sc (w\<lparr>wo_queue := q\<rparr>) j" using jobs by blast
  ultimately show ?thesis
    using keys handler_cluster_ok [OF ok(2) assms(5)] unfolding world_ok_def assms(6) by (simp del: handle_event.simps split_paired_All)
qed

section \<open>The jobs\<close>

text \<open>A late answer fails or is stored over the row there is.\<close>

lemma API_Update_late_new:
  assumes "db_ok e" "ns_found (se_scope e) obj" "r_Status snap \<noteq> ClusterResourceStatusActive" "row_version snap \<le> ParseInt (ro_ResourceVersion obj)"
  shows "API_Update_late e snap obj tbl =
    (if r_Id snap \<in> r_Id ` set tbl then (map (\<lambda>r. if r_Id r = r_Id snap then store_changes snap (synced_row (se_scope e) obj snap) r else r) tbl, None)
     else (tbl, Some ''Update from remote object error: sql: no rows in result set''))"
proof -
  have "save_row (synced_row (se_scope e) obj snap) [snap] = [synced_row (se_scope e) obj snap]" by (simp add: save_row_def synced_row_def)
  moreover have "synced_row (se_scope e) obj snap \<noteq> snap" using assms(3) by (auto simp: synced_row_def dest: arg_cong [where f = r_Status])
  ultimately show ?thesis using API_Update_cases(1) [OF assms(1,2,4) refl, of "[snap]"] by (simp add: API_Update_late_def)
qed

lemma late_cases:
  assumes "db_ok e" "ids_ok tbl" "ns_found (se_scope e) obj" "r_Status snap \<noteq> ClusterResourceStatusActive"
  obtains err where "API_Update_late e snap obj tbl = (tbl, Some err)"
  | r where "r \<in> set tbl" "r_Id r = r_Id snap"
      "API_Update_late e snap obj tbl = (save_row (store_changes snap (synced_row (se_scope e) obj snap) r) tbl, None)"
proof (cases "row_version snap \<le> ParseInt (ro_ResourceVersion obj)")
  case True
  note late = API_Update_late_new [OF assms(1,3,4) True, of tbl]
  show ?thesis
  proof (cases "r_Id snap \<in> r_Id ` set tbl")
    case True
    then obtain r where r: "r \<in> set tbl" "r_Id r = r_Id snap" by auto
    have one: "x = r" if "x \<in> set tbl" "r_Id x = r_Id snap" for x using same_id [OF assms(2) that(1) r(1)] that(2) r(2) by simp
    have "map (\<lambda>r. if r_Id r = r_Id snap then store_changes snap (synced_row (se_scope e) obj snap) r else r) tbl =
        save_row (store_changes snap (synced_row (se_scope e) obj snap) r) tbl"
      unfolding save_row_def by (intro map_cong refl) (auto dest!: one simp: store_changes_def r(2))
    with late True that(2) [OF r] show ?thesis by simp
  qed (use late that(1) in simp)
next
  case False
  show ?thesis using API_Update_cases(2) [OF assms(1,3) False, of "[snap]"] that(1) by (auto simp: API_Update_late_def)
qed

lemma store_changes_ok:
  assumes "row_key sc row = row_key sc snap" "object_key sc obj = row_key sc snap" "r_Status snap \<noteq> ClusterResourceStatusActive"
    and "row' = store_changes snap (synced_row sc obj snap) row"
  shows "r_Id row' = r_Id row" "r_ClusterId row' = r_ClusterId row" "r_Status row' = ClusterResourceStatusActive" "row_key sc row' = row_key sc row"
    "row_version row' = ver obj \<or> row_version row' = row_version row" "follows sc row obj \<Longrightarrow> follows sc row' obj"
proof -
  show "r_Id row' = r_Id row" "r_ClusterId row' = r_ClusterId row" "r_Status row' = ClusterResourceStatusActive"
    using assms(3) by (simp_all add: assms(4) store_changes_def synced_row_def)
  show key: "row_key sc row' = row_key sc row"
    using assms(1,2) by (auto simp: assms(4) store_changes_def synced_row_def row_key_def object_key_def row_ns_def split: option.splits)
  have version: "r_ResourceVersion row' = ro_ResourceVersion obj \<or> r_ResourceVersion row' = r_ResourceVersion row"
    "r_ExternalId row' = ro_UID obj \<or> r_ExternalId row' = r_ExternalId row"
    by (simp_all add: assms(4) store_changes_def synced_row_def)
  then show "row_version row' = ver obj \<or> row_version row' = row_version row" by (auto simp: row_version_def ver_def ParseInt_Nil)
  show "follows sc row' obj" if "follows sc row obj" using that key version by (auto simp: follows_def)
qed

lemma commit_ok:
  assumes "db_ok e" "world_ok e c w" "wo_jobs w = js1 @ (i, Answered kind snap obj) # js2"
    and "job_commit e rm kind snap obj (wo_rows w) = (tbl, j')"
  shows "world_ok e c (w\<lparr>wo_rows := tbl, wo_jobs := js1 @ (case j' of None \<Rightarrow> [] | Some j2 \<Rightarrow> [(i, j2)]) @ js2\<rparr>) \<and> others c tbl = others c (wo_rows w)"
proof -
  let ?sc = "se_scope e" and ?js = "case j' of None \<Rightarrow> [] | Some j2 \<Rightarrow> [(i, j2)]"
  note ok = world_okD [OF assms(2)]
  have job: "row_of_job ?sc c (wo_rows w) i (Answered kind snap obj)" "answer_ok ?sc w (Answered kind snap obj)"
    using ok(4,5) [of i "Answered kind snap obj"] assms(3) by auto
  then have snap: "r_Id snap = i" "r_Status snap \<noteq> ClusterResourceStatusActive" "object_key ?sc obj = row_key ?sc snap" "ns_found ?sc obj"
    by (simp_all add: row_of_job_def)
  show ?thesis
  proof (rule late_cases [OF assms(1) ok(1) snap(4,2)])
    fix err
    assume "API_Update_late e snap obj (wo_rows w) = (wo_rows w, Some err)"
    then have "tbl = wo_rows w" "j' = Some (Failing kind)" using assms(4) by (auto simp: job_commit_def)
    with job_asked [OF assms(2,3), of "Failing kind"] job show ?thesis by (simp add: row_of_job_def)
  next
    fix row
    let ?row = "store_changes snap (synced_row ?sc obj snap) row"
    assume row: "row \<in> set (wo_rows w)" "r_Id row = r_Id snap" and upd: "API_Update_late e snap obj (wo_rows w) = (save_row ?row (wo_rows w), None)"
    have tbl: "tbl = save_row ?row (wo_rows w)" using assms(4) upd by (auto simp: job_commit_def)
    have key: "row_key ?sc row = row_key ?sc snap" "r_ClusterId row = c" "r_Id row = i" using job(1) row snap(1) by (simp_all add: row_of_job_def)
    note new = store_changes_ok [OF key(1) snap(3,2) refl]
    have one: "rows_at ?sc c (wo_rows w) (row_key ?sc row) = {#row#}"
      by (rule job_only_row [where j = "Answered kind snap obj", OF assms(2) _ row(1) key(3)]) (simp add: assms(3))
    have to: "row_to ?sc c (row_key ?sc row) (wo_rows w) tbl {#?row#}"
      unfolding tbl by (rule save_row_to [OF ok(1) one]) (use new key in simp_all)
    have old: "key_ok ?sc w (busy w) (row_key ?sc row) {#row#}" using ok(3) one by metis
    have "key_ok ?sc w B (row_key ?sc row) {#?row#}" for B
      using old job(2) new(3,5,6) key(1) by (auto simp: key_ok_def)
    moreover have "row_of_job ?sc c tbl i j2 \<and> answer_ok ?sc w j2" if "j' = Some j2" for j2
    proof -
      have "job_row j2 = None" "answer_ok ?sc w j2" using assms(4) upd that by (auto simp: job_commit_def split: if_splits)
      moreover have "row_of_job ?sc c tbl i (Answered kind snap obj)" by (rule row_of_job_to [OF job(1) to ok(1)]) (auto simp: tbl save_row_def new(1) row image_iff)
      ultimately show ?thesis by (simp add: row_of_job_def)
    qed
    ultimately show ?thesis
      by (intro job_moved [OF assms(2,3) row(1) key(3) to]) (auto simp: tbl save_row_def new(1) row(1) split: option.splits)
  qed
qed

lemma set_status_ids: "r \<in> set (set_status e i st tbl) \<Longrightarrow> r_Id r \<in> r_Id ` set tbl"
  unfolding set_status_def by (auto split: if_splits)

lemma row_of_jobI:
  "(\<And>x. x \<in> set tbl \<Longrightarrow> r_Id x = i \<Longrightarrow> x = row) \<Longrightarrow> r_ClusterId row = c \<Longrightarrow> job_row j = Some row' \<Longrightarrow> r_Id row' = i \<Longrightarrow>
    r_Status row' \<noteq> ClusterResourceStatusActive \<Longrightarrow> row_key sc row' = row_key sc row \<Longrightarrow> row_of_job sc c tbl i j"
  unfolding row_of_job_def by (metis option.inject)

lemma init_ok:
  assumes "db_ok e" "world_ok e c w" "wo_jobs w = js1 @ (i, Queued kind) # js2" "job_init e kind i (wo_rows w) = (tbl, j')"
  shows "world_ok e c (w\<lparr>wo_rows := tbl, wo_jobs := js1 @ (case j' of None \<Rightarrow> [] | Some j2 \<Rightarrow> [(i, j2)]) @ js2\<rparr>) \<and> others c tbl = others c (wo_rows w)"
proof (cases "i \<in> r_Id ` set (wo_rows w)")
  case False
  then have "row_by_id i (wo_rows w) = None" by (auto simp: row_by_id_def find_None_iff)
  with False have "tbl = wo_rows w" "j' = None" using assms(4) by (auto simp: job_init_def Let_def set_status_gone)
  then show ?thesis using job_gone [OF assms(2,3) False] by simp
next
  case True
  then obtain row where row: "row \<in> set (wo_rows w)" "r_Id row = i" by auto
  let ?row = "row\<lparr>r_Status := begin_status kind\<rparr>"
  note ok = world_okD [OF assms(2)]
  have one: "rows_at (se_scope e) c (wo_rows w) (row_key (se_scope e) row) = {#row#}"
    by (rule job_only_row [where j = "Queued kind", OF assms(2) _ row]) (simp add: assms(3))
  have tbl: "tbl = set_status e i (begin_status kind) (wo_rows w)" using assms(4) by (auto simp: job_init_def Let_def)
  have to: "row_to (se_scope e) c (row_key (se_scope e) row) (wo_rows w) tbl {#?row#}"
    using set_status_to [OF assms(1) ok(1) one, of "begin_status kind"] row(2) tbl by simp
  from row_by_id_row [OF conjunct1 [OF row_to_ids [OF to ok(1)]] conjunct2 [OF row_to_ids [OF to ok(1)]]] row(2)
  have "row_by_id i tbl = Some ?row" by simp
  then have j': "j' = Some (Asked kind ?row)" using assms(4) tbl by (auto simp: job_init_def Let_def)
  have "x = row" if "x \<in> set (wo_rows w)" "r_Id x = i" for x using same_id [OF ok(1) that(1) row(1)] that(2) row(2) by simp
  moreover have "r_ClusterId row = c" using ok(4) [of i "Queued kind"] assms(3) row by (simp add: row_of_job_def)
  ultimately have "row_of_job (se_scope e) c (wo_rows w) i (Asked kind ?row)"
    by (intro row_of_jobI [where row = row and row' = ?row]) (use row(2) begin_not_active in simp_all)
  then have "row_of_job (se_scope e) c tbl i (Asked kind ?row)"
    by (rule row_of_job_to [OF _ to ok(1)]) (use set_status_ids tbl in blast)
  then show ?thesis
    using set_status_moved [OF assms(1-3) row, of "begin_status kind" "[(i, Asked kind ?row)]"] j' tbl by simp
qed

lemma fail_ok:
  assumes "db_ok e" "world_ok e c w" "wo_jobs w = js1 @ (i, Failing kind) # js2" "tbl = job_fail e kind i (wo_rows w)"
  shows "world_ok e c (w\<lparr>wo_rows := tbl, wo_jobs := js1 @ js2\<rparr>) \<and> others c tbl = others c (wo_rows w)"
proof (cases "i \<in> r_Id ` set (wo_rows w)")
  case False
  then have "tbl = wo_rows w" using assms(4) by (simp add: job_fail_def set_status_gone)
  then show ?thesis using job_gone [OF assms(2,3) False] by simp
next
  case True
  then obtain row where "row \<in> set (wo_rows w)" "r_Id row = i" by auto
  then show ?thesis using set_status_moved [OF assms(1-3), of row "fail_status kind" "[]"] assms(4) fail_failed by (simp add: job_fail_def)
qed

lemma remove_ok:
  assumes "db_ok e" "world_ok e c w" "wo_jobs w = js1 @ (i, Deleted snap) # js2" "job_remove e i (wo_rows w) = (tbl, j')"
  shows "world_ok e c (w\<lparr>wo_rows := tbl, wo_jobs := js1 @ (case j' of None \<Rightarrow> [] | Some j2 \<Rightarrow> [(i, j2)]) @ js2\<rparr>) \<and> others c tbl = others c (wo_rows w)"
proof (cases "i \<in> r_Id ` set (wo_rows w)")
  case False
  then have "row_by_id i (wo_rows w) = None" by (auto simp: row_by_id_def find_None_iff)
  then have "tbl = wo_rows w" "j' = None" using assms(4) by (auto simp: job_remove_def)
  then show ?thesis using job_gone [OF assms(2,3) False] by simp
next
  case True
  then obtain row where row: "row \<in> set (wo_rows w)" "r_Id row = i" by auto
  note ok = world_okD [OF assms(2)]
  have one: "rows_at (se_scope e) c (wo_rows w) (row_key (se_scope e) row) = {#row#}"
    by (rule job_only_row [where j = "Deleted snap", OF assms(2) _ row]) (simp add: assms(3))
  have "RealDelete e row (wo_rows w) = (filter (\<lambda>r. r_Id r \<noteq> r_Id row) (wo_rows w), None)" using assms(1) by (simp add: RealDelete_def db_ok_def)
  then have tbl: "tbl = filter (\<lambda>r. r_Id r \<noteq> r_Id row) (wo_rows w)" "j' = None"
    using assms(4) row_by_id_row [OF ok(1) one] row(2) by (auto simp: job_remove_def)
  have to: "row_to (se_scope e) c (row_key (se_scope e) row) (wo_rows w) tbl {#}" unfolding tbl(1) by (rule delete_row_to [OF ok(1) one])
  have "row_key (se_scope e) snap = row_key (se_scope e) row" "answer_ok (se_scope e) w (Deleted snap)"
    using ok(4,5) [of i "Deleted snap"] assms(3) row by (auto simp: row_of_job_def)
  then have "key_ok (se_scope e) w B (row_key (se_scope e) row) {#}" for B by (simp add: key_ok_def)
  then show ?thesis using job_moved [OF assms(2,3) row to, of "[]"] tbl by auto
qed

text \<open>What the cluster answers to a job.\<close>

lemma read_answer:
  assumes "cache_ok e rm w cli" "namespaces_agree e rm"
  shows "answer_ok (se_scope e) w (job_read e rm cli kind row)"
    "job_row (job_read e rm cli kind row) = None \<or> job_row (job_read e rm cli kind row) = Some row"
proof -
  show "answer_ok (se_scope e) w (job_read e rm cli kind row)"
  proof (cases "obj_GetRemoteObject e rm cli row")
    case (Inr obj)
    from Get_cache [OF assms Inr] Inr show ?thesis by (simp add: job_read_def)
  qed (simp add: job_read_def)
qed (simp add: job_read_def split: sum.split)

lemma change_answer:
  "answer_ok sc w (job_change e rm cli row)" "job_row (job_change e rm cli row) = None \<or> job_row (job_change e rm cli row) = Some row"
  by (simp_all add: job_change_def split: sum.split)

lemma put_answer:
  assumes "job_put rm cli row obj = (stored, j)"
  shows "answer_ok sc w j" "job_row j = None \<or> job_row j = Some row"
  using assms by (auto simp: job_put_def split: sum.splits prod.splits)

lemma same_row_of_job:
  "row_of_job sc c tbl i j \<Longrightarrow> job_row j = Some row \<Longrightarrow> job_row j2 = None \<or> job_row j2 = Some row \<Longrightarrow> row_of_job sc c tbl i j2"
  by (auto simp: row_of_job_def)

text \<open>A question to the cluster, which may change what is there.\<close>

lemma question_ok:
  assumes "world_ok e c w" "wo_jobs w = js1 @ (i, j) # js2" "job_row j = Some row" "job_row j2 = None \<or> job_row j2 = Some row"
    and "w' = w \<or> (\<exists>ev. possible (se_scope e) w ev \<and> w' = report (se_scope e) w ev)" "answer_ok (se_scope e) w' j2"
  shows "world_ok e c (w'\<lparr>wo_jobs := js1 @ (i, j2) # js2\<rparr>) \<and> others c (wo_rows w') = others c (wo_rows w)"
proof -
  have w': "world_ok e c w'" "wo_rows w' = wo_rows w" "wo_jobs w' = wo_jobs w" using assms(1,5) report_ok by auto
  have "row_of_job (se_scope e) c (wo_rows w') i j" using world_okD(4) [OF w'(1), of i j] w'(3) assms(2) by simp
  from job_asked [OF w'(1) _ same_row_of_job [OF this assms(3,4)] assms(6)] w' assms(2) show ?thesis by simp
qed

lemma job_step_ok:
  assumes "job_step e rm i j w w' j'" "wo_jobs w = js1 @ (i, j) # js2" "world_ok e c w" "db_ok e" "namespaces_agree e rm"
  shows "world_ok e c (w'\<lparr>wo_jobs := js1 @ (case j' of None \<Rightarrow> [] | Some j2 \<Rightarrow> [(i, j2)]) @ js2\<rparr>) \<and> others c (wo_rows w') = others c (wo_rows w)"
  using assms(1)
proof cases
  case (init kind tbl)
  then show ?thesis using init_ok [OF assms(4,3)] assms(2) by simp
next
  case (posted cli row obj)
  then have "answer_ok (se_scope e) w' (Answered KCreate row obj)"
    using posted(6) possible_rev [OF posted(5) world_okD(2) [OF assms(3)]] by (auto simp: pend_report ev_key_def)
  then show ?thesis using question_ok [OF assms(3,2), of row "Answered KCreate row obj" w'] posted by auto
next
  case (change row cli)
  then show ?thesis using question_ok [OF assms(3,2), of row "job_change e rm cli row" w'] change_answer by auto
next
  case (not_put cli row obj j2)
  then show ?thesis using question_ok [OF assms(3,2), of row j2 w'] put_answer [OF not_put(4)] by auto
next
  case (put cli row obj stored j2 old)
  then show ?thesis using question_ok [OF assms(3,2), of row j2 w'] put_answer [OF put(4)] by auto
next
  case (reread cli row)
  then show ?thesis using question_ok [OF assms(3,2), of row "job_read e rm cli KUpdate row" w'] read_answer [OF reread(4) assms(5), of KUpdate row] by auto
next
  case (read cli row)
  then show ?thesis using question_ok [OF assms(3,2), of row "job_read e rm cli KSync row" w'] read_answer [OF read(4) assms(5), of KSync row] by auto
next
  case (not_there cli row)
  then show ?thesis using question_ok [OF assms(3,2), of row "Deleted row" w'] by auto
next
  case (deleted cli row err ev)
  then show ?thesis using question_ok [OF assms(3,2), of row "Deleted row" w'] by (auto simp: pend_report)
next
  case (commit kind row obj tbl)
  then show ?thesis using commit_ok [OF assms(4,3)] assms(2) by simp
next
  case (remove tbl row)
  then show ?thesis using remove_ok [OF assms(4,3)] assms(2) by simp
next
  case (fail kind)
  then show ?thesis using fail_ok [OF assms(4,3)] assms(2) by simp
qed (use question_ok [OF assms(3,2), of _ "Failing KCreate" w'] question_ok [OF assms(3,2), of _ "Failing KDelete" w'] in auto)

lemma submit_create_ok:
  assumes "world_ok e c w" "r_ClusterId row = c" "r_Id row \<notin> r_Id ` set (wo_rows w)" "r_Id row \<noteq> []" "r_ResourceVersion row = []"
    "rows_at (se_scope e) c (wo_rows w) (row_key (se_scope e) row) = {#}" "r_Id row \<notin> busy w"
  shows "world_ok e c (w\<lparr>wo_rows := wo_rows w @ [row], wo_jobs := wo_jobs w @ [(r_Id row, Queued KCreate)]\<rparr>) \<and>
    others c (wo_rows w @ [row]) = others c (wo_rows w)"
proof -
  let ?sc = "se_scope e" and ?k = "row_key (se_scope e) row" and ?t = "wo_rows w @ [row]"
  note ok = world_okD [OF assms(1)]
  have to: "row_to ?sc c ?k (wo_rows w) ?t {#row#}" by (rule append_row_to [OF assms(6,3,4,2) refl])
  have ver0: "row_version row = 0" using assms(5) by (simp add: row_version_def)
  have "key_ok ?sc w (insert (r_Id row) (busy w)) k (rows_at ?sc c ?t k)" for k
  proof (cases "k = ?k")
    case True
    have "0 \<le> wo_rev w" "\<And>obj. wo_objs w ?k = Some obj \<Longrightarrow> 0 \<le> ver obj"
      using ok(2) cluster_ok_obj(3) [OF ok(2), of ?k] unfolding cluster_ok_def by blast+
    moreover have "pend ?sc w ?k = [] \<Longrightarrow> wo_objs w ?k = None"
      using ok(3) [of ?k] assms(6) by (cases "wo_objs w ?k") (auto simp: key_ok_def)
    ultimately show ?thesis using to ver0 True by (auto simp: key_ok_def row_to_def)
  next
    case False
    then have "rows_at ?sc c ?t k = rows_at ?sc c (wo_rows w) k" using to unfolding row_to_def same_else_def by blast
    then show ?thesis using key_ok_busy [OF ok(3) [of k], of "insert (r_Id row) (busy w)"] by auto
  qed
  moreover have "row_of_job ?sc c ?t i j" if "(i, j) \<in> set (wo_jobs w)" for i j
    by (rule row_of_job_to [OF ok(4) [OF that] to ok(1)]) (use assms(7) that in \<open>auto simp: busy_def image_iff\<close>)
  moreover have "row_of_job ?sc c ?t (r_Id row) (Queued KCreate)" using assms(2,3) by (auto simp: row_of_job_def image_iff)
  ultimately show ?thesis
    using ok(2,5) to row_to_ids [OF to ok(1)] unfolding world_ok_def row_to_def same_else_def busy_def by (auto simp del: split_paired_All)
qed

lemma submit_ok:
  assumes "world_ok e c w" "row \<in># mine c (wo_rows w)"
  shows "world_ok e c (w\<lparr>wo_jobs := wo_jobs w @ [(r_Id row, Queued kind)]\<rparr>)"
proof -
  note ok = world_okD [OF assms(1)]
  have "key_ok (se_scope e) w (insert (r_Id row) (busy w)) k (rows_at (se_scope e) c (wo_rows w) k)" for k
    using key_ok_busy [OF ok(3) [of k], of "insert (r_Id row) (busy w)"] by auto
  moreover have "row_of_job (se_scope e) c (wo_rows w) (r_Id row) (Queued kind)"
    using assms(2) same_id [OF ok(1)] by (auto simp: row_of_job_def mine_in)
  ultimately show ?thesis using ok(1,2,4,5) unfolding world_ok_def busy_def by (auto simp del: split_paired_All)
qed

lemma world_step_ok:
  assumes "orderly_step e c rm w w'" "db_ok e" "c \<noteq> []" "\<forall>r. se_owned e r" "namespaces_agree e rm" "world_ok e c w"
  shows "world_ok e c w' \<and> others c (wo_rows w') = others c (wo_rows w)"
  using conjunct1 [OF assms(1)]
proof cases
  case (by_cluster ev)
  then show ?thesis using report_ok [OF assms(6)] by simp
next
  case (by_handler ev q)
  then show ?thesis using handler_ok [OF assms(2-4,6) by_handler(2,1)] assms(1) by blast
next
  case (submit_create row)
  have "r_Id row \<notin> busy w" using assms(1) submit_create(1,3) by (auto simp: orderly_def busy_def)
  from submit_create_ok [OF assms(6) submit_create(2-6) this] submit_create(1) show ?thesis by simp
next
  case (submit row kind)
  then show ?thesis using submit_ok [OF assms(6) submit(2)] by simp
next
  case (by_job js1 i j js2 w2 j')
  then show ?thesis using job_step_ok [OF by_job(3,2) assms(6,2,5)] by simp
qed

lemma run_ok:
  assumes "(orderly_step e c rm)\<^sup>*\<^sup>* w w'" "db_ok e" "c \<noteq> []" "\<forall>r. se_owned e r" "namespaces_agree e rm" "world_ok e c w"
  shows "world_ok e c w' \<and> others c (wo_rows w') = others c (wo_rows w)"
  using assms(1)
proof induction
  case (step y z)
  from world_step_ok [OF step(2) assms(2-5)] step(3) show ?case by simp
qed (use assms(6) in simp)

text \<open>The handling of all pending events, when no job is left.\<close>

lemma drain_ok:
  assumes "db_ok e" "c \<noteq> []" "\<forall>r. se_owned e r" "world_ok e c w" "wo_jobs w = []"
  shows "world_ok e c (w\<lparr>wo_rows := fold (handle_event True e c) (wo_queue w) (wo_rows w), wo_queue := []\<rparr>) \<and>
    others c (fold (handle_event True e c) (wo_queue w) (wo_rows w)) = others c (wo_rows w)"
  using assms(4,5)
proof (induction "wo_queue w" arbitrary: w)
  case Nil
  then show ?case by (cases w) simp
next
  case (Cons ev q)
  let ?w = "w\<lparr>wo_rows := handle_event True e c ev (wo_rows w), wo_queue := q\<rparr>"
  have "orderly (se_scope e) w ?w" using Cons(4) by (simp add: orderly_def)
  note step = handler_ok [OF assms(1-3) Cons(3) Cons(2) [symmetric] refl this]
  have "wo_jobs ?w = []" using Cons(4) by simp
  from Cons(1) [OF _ step [THEN conjunct1] this] step show ?case by (simp add: Cons(2) [symmetric] del: handle_event.simps)
qed

text \<open>A task that nothing interrupts is the request of \<open>RemoteObjects\<close>.\<close>

lemma commit_prompt:
  assumes "db_ok e" "ids_ok tbl" "row \<in> set tbl" "ns_found (se_scope e) obj"
  shows "job_commit e rm kind row obj tbl =
    (case API_UpdateFromRemoteObject e row obj tbl of
       (tbl', Some _) \<Rightarrow> (tbl', Some (Failing kind))
     | (tbl', None) \<Rightarrow> (tbl', if kind = KCreate then Some (if rm_startSync rm = None then Queued KSync else Failing KCreate) else None))"
  using API_Update_prompt [OF assms] by (auto simp: job_commit_def)

lemma run_sync_alone:
  assumes "db_ok e" "ids_ok tbl" "rows_at (se_scope e) c tbl k = {#row#}" "read_ok e rm k cli row"
    and "job_init e KSync (r_Id row) tbl = (tbl1, Some (Asked KSync row1))"
  shows "run_sync e rm cli (r_Id row) tbl =
    (case job_read e rm cli KSync row1 of
       Answered _ _ obj \<Rightarrow> (case job_commit e rm KSync row1 obj tbl1 of (tbl2, None) \<Rightarrow> tbl2 | (tbl2, Some _) \<Rightarrow> job_fail e KSync (r_Id row) tbl2)
     | _ \<Rightarrow> job_fail e KSync (r_Id row) tbl1)"
proof -
  let ?row = "row\<lparr>r_Status := ClusterResourceStatusSyncing\<rparr>" and ?t = "set_status e (r_Id row) ClusterResourceStatusSyncing tbl"
  have t: "row_to (se_scope e) c k tbl ?t {#?row#}" by (rule set_status_to [OF assms(1-3)])
  then have ids: "ids_ok ?t" "rows_at (se_scope e) c ?t k = {#?row#}" using row_to_ids assms(2) by blast+
  have now: "row_by_id (r_Id row) ?t = Some ?row" using row_by_id_row [OF ids] by simp
  then have init: "tbl1 = ?t" "row1 = ?row" using assms(5) by (simp_all add: job_init_def Let_def)
  have "?row \<in> set ?t" using ids(2) rows_at_in [of ?row "se_scope e" c ?t k] by (simp add: mine_in)
  note commit = commit_prompt [OF assms(1) ids(1) this, where rm = rm and kind = KSync]
  show ?thesis
  proof (cases "obj_GetRemoteObject e rm cli row")
    case (Inl err)
    then show ?thesis using now by (simp add: run_sync_def PerformSyncResource_def job_read_def init job_fail_def)
  next
    case (Inr obj)
    then have "ns_found (se_scope e) obj" using assms(4) by (simp add: read_ok_def)
    from commit [OF this] Inr now show ?thesis
      by (simp add: run_sync_def PerformSyncResource_def job_read_def init job_fail_def split: prod.split option.split)
  qed
qed

lemma run_delete_alone:
  assumes "db_ok e" "ids_ok tbl" "rows_at (se_scope e) c tbl k = {#row#}" "job_init e KDelete (r_Id row) tbl = (tbl1, Some (Asked KDelete row1))"
  shows "run_delete e rm cli (r_Id row) tbl =
    (case DeleteRemoteObject e rm cli row1 of
       (accepted, Some _) \<Rightarrow> (job_fail e KDelete (r_Id row) tbl1, accepted)
     | (accepted, None) \<Rightarrow>
         ((case job_remove e (r_Id row) tbl1 of (tbl2, None) \<Rightarrow> tbl2 | (tbl2, Some _) \<Rightarrow> job_fail e KDelete (r_Id row) tbl2), accepted))"
proof -
  let ?row = "row\<lparr>r_Status := ClusterResourceStatusDeleting\<rparr>" and ?t = "set_status e (r_Id row) ClusterResourceStatusDeleting tbl"
  have t: "row_to (se_scope e) c k tbl ?t {#?row#}" by (rule set_status_to [OF assms(1-3)])
  then have ids: "ids_ok ?t" "rows_at (se_scope e) c ?t k = {#?row#}" using row_to_ids assms(2) by blast+
  have now: "row_by_id (r_Id row) ?t = Some ?row" using row_by_id_row [OF ids] by simp
  then have "tbl1 = ?t" "row1 = ?row" using assms(4) by (simp_all add: job_init_def Let_def)
  then show ?thesis using now by (auto simp: run_delete_def job_remove_def job_fail_def split: prod.split option.split)
qed

lemma CreateRemoteObject_alone:
  assumes "db_ok e" "ids_ok tbl" "row \<in> set tbl" "\<forall>obj. job_post rm cli row = Inr obj \<longrightarrow> ns_found (se_scope e) obj"
  shows "(case CreateRemoteObject e rm cli row tbl of (tbl', stored, res) \<Rightarrow> (tbl', stored)) =
    (case job_post rm cli row of Inl _ \<Rightarrow> (tbl, None) | Inr obj \<Rightarrow> (fst (job_commit e rm KCreate row obj tbl), Some obj))"
proof (cases "job_post rm cli row")
  case (Inl err)
  then show ?thesis by (auto simp: job_post_def CreateRemoteObject_def split: sum.splits)
next
  case (Inr obj)
  with assms(4) have "ns_found (se_scope e) obj" by simp
  from commit_prompt [OF assms(1-3) this, of rm KCreate] Inr show ?thesis
    by (auto simp: job_post_def CreateRemoteObject_def split: sum.splits prod.splits option.splits)
qed

definition start_world :: "scope \<Rightarrow> table \<Rightarrow> remote_object list \<Rightarrow> int \<Rightarrow> world" where
  "start_world sc tbl objs v0 = \<lparr>wo_rows = tbl, wo_objs = map_of (map (\<lambda>obj. (object_key sc obj, obj)) objs), wo_queue = [], wo_rev = v0, wo_jobs = []\<rparr>"

text \<open>Rows that mirror the objects, as a synchronisation leaves them, are a start.\<close>

lemma start_ok:
  assumes "mirrors (se_scope e) c tbl objs" "distinct (map (object_key (se_scope e)) objs)" "0 \<le> v0"
    "\<forall>obj\<in>set objs. ns_found (se_scope e) obj \<and> 0 \<le> ver obj \<and> ver obj \<le> v0"
  shows "world_ok e c (start_world (se_scope e) tbl objs v0)"
proof -
  let ?sc = "se_scope e" and ?w = "start_world (se_scope e) tbl objs v0"
  have objs: "wo_objs ?w k = Some obj \<longleftrightarrow> obj \<in> set objs \<and> object_key ?sc obj = k" for k obj
    using assms(2) by (auto simp: start_world_def map_of_eq_Some_iff comp_def)
  have q: "wo_queue ?w = []" "pend ?sc ?w k = []" "wo_rev ?w = v0" "wo_rows ?w = tbl" "wo_jobs ?w = []" for k
    by (simp_all add: start_world_def pend_def)
  have "cluster_ok ?sc ?w" using assms(3,4) objs q unfolding cluster_ok_def by auto
  moreover have "key_ok ?sc ?w (busy ?w) k (rows_at ?sc c tbl k)" for k
  proof (cases "wo_objs ?w k")
    case None
    then have "rows_at ?sc c tbl k = {#}"
      using mirrors_keys [OF assms(1)] objs rows_at_in [of _ ?sc c tbl k] by (metis imageE multiset_nonemptyE option.distinct(1))
    then show ?thesis using None by (simp add: key_ok_def)
  next
    case (Some obj)
    then have obj: "obj \<in> set objs" "object_key ?sc obj = k" using objs by auto
    obtain row where "rows_at ?sc c tbl k = {#row#}" "row_view ?sc row = object_view ?sc obj"
      using mirrors_row [OF assms(1,2) obj(1)] obj(2) unfolding rows_at_def by metis
    then show ?thesis using view_follows [of ?sc row obj] Some assms(4) obj(1) q by (auto simp: key_ok_def)
  qed
  ultimately show ?thesis using assms(1) q by (simp add: world_ok_def mirrors_def)
qed


text \<open>An answer that is stored late undoes what an event brought: the version is compared with that of the copy in memory, so a row that already follows a newer
  version of its object goes back to the older one, and stays there when that event was the last.\<close>

theorem stored_answer_late:
  assumes "db_ok e" "ids_ok tbl" "rows_at (se_scope e) c tbl k = {#row#}" "follows (se_scope e) row new" "r_Status snap \<noteq> ClusterResourceStatusActive"
    and "r_Id snap = r_Id row" "row_key (se_scope e) snap = k" "object_key (se_scope e) old = k" "ns_found (se_scope e) old"
    and "row_version snap \<le> ver old" "ver old < ver new" "r_ResourceVersion snap \<noteq> ro_ResourceVersion old"
  shows "\<exists>row'. rows_at (se_scope e) c (fst (job_commit e rm kind snap old tbl)) k = {#row'#} \<and> r_ResourceVersion row' = ro_ResourceVersion old \<and>
    row_version row' < ver new"
proof -
  let ?new = "synced_row (se_scope e) old snap"
  let ?row = "store_changes snap ?new row"
  have row: "row \<in> set tbl" "r_ClusterId row = c" "row_key (se_scope e) row = k" using assms(3) rows_at_in [of row "se_scope e" c tbl k] by (simp_all add: mine_in)
  have one: "x = row" if "x \<in> set tbl" "r_Id x = r_Id snap" for x using same_id [OF assms(2) that(1) row(1)] that(2) assms(6) by simp
  have "map (\<lambda>r. if r_Id r = r_Id snap then store_changes snap ?new r else r) tbl = save_row ?row tbl"
    unfolding save_row_def by (intro map_cong refl) (auto dest!: one simp: store_changes_def assms(6))
  moreover have "r_Id snap \<in> r_Id ` set tbl" using row(1) assms(6) by simp
  ultimately have "fst (job_commit e rm kind snap old tbl) = save_row ?row tbl"
    using API_Update_late_new [OF assms(1,9,5), of tbl] assms(10) by (simp add: job_commit_def ver_def)
  moreover have "row_to (se_scope e) c k tbl (save_row ?row tbl) {#?row#}"
    by (rule save_row_to [OF assms(2,3)]) (use store_changes_ok [of "se_scope e" row snap old ?row] row assms(5,7,8) in auto)
  moreover have "r_ResourceVersion ?row = ro_ResourceVersion old" using assms(12) by (simp add: store_changes_def synced_row_def)
  ultimately show ?thesis using assms(11) by (auto simp: row_to_def row_version_def ver_def ParseInt_Nil)
qed

text \<open>A creation reads the new object back from the cache of the informers: as long as the cache lacks it the row is left with the status of a failed
  synchronisation although the object was created, until its event is handled.\<close>

theorem create_before_cache:
  assumes "db_ok e" "ids_ok tbl" "rows_at (se_scope e) c tbl k = {#row#}" "row_version row = 0" "rm_startSync rm = None"
    and "run_create e rm cli (Inr kb) (r_Id row) tbl = (tbl', Some obj)"
    and "object_key (se_scope e) obj = k" "ns_found (se_scope e) obj" "0 \<le> ver obj" "\<forall>(kind, x) \<in> set (kb_cache kb). ro_Name x \<noteq> r_Name row"
  shows "rows_at (se_scope e) c tbl' k = {#(synced_row (se_scope e) obj row)\<lparr>r_Status := ClusterResourceStatusSyncFail\<rparr>#}"
proof -
  have miss: "obj_GetRemoteObject e rm (Inr kb) row \<noteq> Inr x" for x
  proof -
    have "find (\<lambda>(k, obj). k = rm_kind rm \<and> ro_Name obj = r_Name row \<and> (b \<longrightarrow> ro_Namespace obj = ns)) (kb_cache kb) = None" for b ns
      using assms(10) by (auto simp: find_None_iff)
    then have "handler_Get kb (rm_kind rm) ns (r_Name row) \<noteq> Inr x" for ns by (simp add: handler_Get_def split: option.split)
    then show ?thesis by (simp add: obj_GetRemoteObject_def Cluster_GetRemoteObject_def NS_GetRemoteObject_def split: sum.split)
  qed
  let ?row = "row\<lparr>r_Status := ClusterResourceStatusCreating\<rparr>" and ?t = "set_status e (r_Id row) ClusterResourceStatusCreating tbl"
  have t: "row_to (se_scope e) c k tbl ?t {#?row#}" by (rule set_status_to [OF assms(1-3)])
  then have ids: "ids_ok ?t" "rows_at (se_scope e) c ?t k = {#?row#}" using row_to_ids assms(2) by blast+
  have "row_version ?row \<le> ParseInt (ro_ResourceVersion obj)" using assms(4,9) by (simp add: ver_def)
  from API_Update_to(1) [OF assms(1) ids assms(7,8) this] obtain t3 where t3: "API_UpdateFromRemoteObject e ?row obj ?t = (t3, None)"
      "row_to (se_scope e) c k ?t t3 {#synced_row (se_scope e) obj row#}" by auto
  have ids3: "ids_ok t3" "rows_at (se_scope e) c t3 k = {#synced_row (se_scope e) obj row#}" using row_to_ids [OF t3(2) ids(1)] by simp_all
  have "CreateRemoteObject e rm cli ?row ?t = (t3, Some obj, Inr obj)"
    using assms(6) row_by_id_row [OF ids] t3(1) by (auto simp: run_create_def CreateRemoteObject_def Let_def split: sum.splits prod.splits option.splits)
  then have tbl': "tbl' = run_sync e rm (Inr kb) (r_Id row) t3" using assms(5,6) row_by_id_row [OF ids] by (auto simp: run_create_def Let_def)
  have key: "row_key (se_scope e) row = k" using assms(3) rows_at_in [of row "se_scope e" c tbl k] by simp
  have miss3: "obj_GetRemoteObject e rm (Inr kb) (synced_row (se_scope e) obj row) \<noteq> Inr x" for x
    using miss Get_synced [of e obj row rm "Inr kb"] assms(7) key by simp
  then have "read_ok e rm k (Inr kb) (synced_row (se_scope e) obj row)" by (simp add: read_ok_def)
  from run_sync_to [OF assms(1) ids3 this] tbl' miss3 show ?thesis by (auto simp: row_to_def left_by_def)
qed

section \<open>Examples\<close>

definition sample_new :: remote_object where
  "sample_new = hd sample_ns_objects"

definition sample_row :: cluster_row where
  "sample_row = \<lparr>r_Id = ''1'', r_Name = ''web'', r_Status = ''init'', r_ExternalId = [], r_ClusterId = ''c'', r_ResourceVersion = [], r_NamespaceId = ''n1''\<rparr>"

definition sample_kube :: kube where
  "sample_kube = \<lparr>kb_kinds = [''pods'' \<mapsto> True], kb_informer = (\<lambda>_. None), kb_cache = [], kb_selector = (\<lambda>_. Inr (\<lambda>_. True)),
     kb_post = (\<lambda>_ _ _. Inr sample_new), kb_encode = (\<lambda>_. None), kb_put = (\<lambda>_ _ _ _. Inl ''conflict''), kb_decode = (\<lambda>_. None),
     kb_delete = (\<lambda>_ _ _. None)\<rparr>"

definition sample_remote_env :: remote_env where
  "sample_remote_env = \<lparr>rm_kind = ''pods'', rm_namespace = (\<lambda>i. if i = ''n1'' then Inr ''default'' else Inl ''not found''),
     rm_newCreate = (\<lambda>_. Inr sample_new), rm_newUpdate = (\<lambda>obj. Inr obj), rm_startSync = None\<rparr>"

definition sample_created :: table where
  "sample_created = fst (run_create sample_ns_env sample_remote_env (Inr sample_kube) (Inr sample_kube) ''1'' [sample_row])"

lemma sample_run_create: "run_create sample_ns_env sample_remote_env (Inr sample_kube) (Inr sample_kube) ''1'' [sample_row] = (sample_created, Some sample_new)"
proof -
  have "snd (run_create sample_ns_env sample_remote_env (Inr sample_kube) (Inr sample_kube) ''1'' [sample_row]) = Some sample_new"
    by (simp add: run_create_def set_status_def row_by_id_def CreateRemoteObject_def sample_remote_env_def sample_row_def sample_kube_def handler_CreateV2_def
        split: prod.split option.split)
  then show ?thesis unfolding sample_created_def by (metis prod.collapse)
qed

lemma sample_ns_ok: "db_ok sample_ns_env" "\<forall>r. se_owned sample_ns_env r" "se_scope sample_ns_env = sample_ns_scope" "namespaces_agree sample_ns_env sample_remote_env"
  using sample_db_ok by (auto simp: db_ok_def sample_ns_env_def sample_sync_env_def namespaces_agree_def sample_remote_env_def sample_ns_scope_def split: if_splits)

lemma sample_new_key: "object_key sample_ns_scope sample_new = (''web'', ''n1'')" "ns_found sample_ns_scope sample_new" "ver sample_new = 12"
  "row_key sample_ns_scope sample_row = (''web'', ''n1'')"
  by (simp_all add: sample_new_def sample_ns_objects_def scope_defs sample_ns_scope_def ver_def sample_versions sample_row_def)

definition sample_synced :: cluster_row where
  "sample_synced = synced_row sample_ns_scope sample_new sample_row"

definition sample_after :: table where
  "sample_after = [sample_synced\<lparr>r_Status := ClusterResourceStatusSyncFail\<rparr>]"

lemma sample_set_status: "set_status sample_ns_env (r_Id row) st [row] = [row\<lparr>r_Status := st\<rparr>]"
  using sample_ns_ok(1) by (simp add: set_status_def db_ok_def)

lemma sample_job_init:
  "job_init sample_ns_env kind (r_Id row) [row] = ([row\<lparr>r_Status := begin_status kind\<rparr>], Some (Asked kind (row\<lparr>r_Status := begin_status kind\<rparr>)))"
  by (simp add: job_init_def sample_set_status row_by_id_def)

lemma sample_commit:
  "job_commit sample_ns_env sample_remote_env KCreate (sample_row\<lparr>r_Status := ClusterResourceStatusCreating\<rparr>) sample_new
     [sample_row\<lparr>r_Status := ClusterResourceStatusCreating\<rparr>] = ([sample_synced], Some (Queued KSync))"
proof -
  let ?row = "sample_row\<lparr>r_Status := ClusterResourceStatusCreating\<rparr>"
  have ids: "ids_ok [?row]" "?row \<in> set [?row]" by (simp_all add: ids_ok_def sample_row_def)
  have found: "ns_found (se_scope sample_ns_env) sample_new" unfolding sample_ns_ok(3) by (rule sample_new_key(2))
  have "row_version ?row \<le> ParseInt (ro_ResourceVersion sample_new)"
    using sample_new_key(3) by (simp add: row_version_def sample_row_def ver_def)
  from API_Update_cases(1) [OF sample_ns_ok(1) found this refl, of "[?row]"]
  have "API_UpdateFromRemoteObject sample_ns_env ?row sample_new [?row] = ([sample_synced], None)"
    unfolding sample_ns_ok(3) by (simp add: save_row_def sample_synced_def synced_row_def split: option.split)
  then show ?thesis
    unfolding commit_prompt [OF sample_ns_ok(1) ids found] by (simp add: sample_remote_env_def)
qed

lemma step_then:
  "orderly_step e c rm w w' \<Longrightarrow> (orderly_step e c rm)\<^sup>*\<^sup>* w' w'' \<Longrightarrow> (orderly_step e c rm)\<^sup>*\<^sup>* w w''"
  by (rule converse_rtranclp_into_rtranclp)


theorem create_before_cache_witness:
  "rows_at sample_ns_scope ''c'' sample_created (''web'', ''n1'') = {#(synced_row sample_ns_scope sample_new sample_row)\<lparr>r_Status := ''sync_fail''\<rparr>#}"
proof -
  have "rows_at (se_scope sample_ns_env) ''c'' [sample_row] (''web'', ''n1'') = {#sample_row#}"
    unfolding sample_ns_ok(3) rows_at_def by (simp add: mine_def sample_new_key) (simp add: sample_row_def)
  moreover have "ids_ok [sample_row]" "row_version sample_row = 0" "rm_startSync sample_remote_env = None" "\<forall>(kind, x) \<in> set (kb_cache sample_kube). ro_Name x \<noteq> r_Name sample_row"
    "r_Id sample_row = ''1''"
    by (simp_all add: ids_ok_def sample_row_def row_version_def sample_remote_env_def sample_kube_def)
  ultimately show ?thesis
    using create_before_cache [OF sample_ns_ok(1), of "[sample_row]" "''c''" "(''web'', ''n1'')" sample_row sample_remote_env "Inr sample_kube" sample_kube sample_created sample_new]
      sample_run_create sample_new_key unfolding sample_ns_ok(3) by (simp add: ClusterResourceStatusSyncFail_def)
qed

end
